(* ===== verification/RF_Prelude.thy ===== *)
theory RF_Prelude
  imports
    Main
    "HOL-Library.Word"
    "HOL-Library.Char_ord"
    "HOL-Library.List_Lexorder"
    "HOL-Library.Product_Lexorder"
    "HOL-Library.Monad_Syntax"
begin

text \<open>
  Shared vocabulary of the Route Fabric development: the machine types of the C++ sources
  as fixed-width words, the collections of rewrite rules the component proofs draw on, and
  the generic facts about lists, options and sums that several components need.
\<close>

section \<open>Machine types\<close>

text \<open>
  \<open>std::uint8_t\<close>, \<open>std::uint16_t\<close>, \<open>std::uint32_t\<close> and \<open>std::uint64_t\<close> are
  words of their width. \<open>std::string\<close> and \<open>std::string_view\<close> are character lists
  (a \<open>char\<close> of HOL is one byte, as it is in C++). \<open>std::size_t\<close> values count
  objects held in memory and are natural numbers.
\<close>

type_synonym u8 = "8 word"
type_synonym u16 = "16 word"
type_synonym u32 = "32 word"
type_synonym u64 = "64 word"
type_synonym bytes = "8 word list"

section \<open>Collections of rewrite rules\<close>

text \<open>
  \<open>codec\<close> collects the round-trip equations of readers over the matching writers,
  \<open>frame\<close> the equations saying which fields an operation leaves alone.
\<close>

named_theorems codec "reader applied to the matching writer"
named_theorems frame "fields an operation does not change"

section \<open>Generic lemmas\<close>

lemma Let_pair_split: "(let (a, b) = p in f a b) = f (fst p) (snd p)"
  by (simp add: case_prod_beta)

lemma sum_case_Inr_iff:
  "(case x of Inl e \<Rightarrow> Inl e | Inr v \<Rightarrow> f v) = Inr y \<longleftrightarrow> (\<exists>v. x = Inr v \<and> f v = Inr y)"
  by (cases x) auto

lemma map_of_filter_key:
  "map_of (filter (\<lambda>p. fst p \<noteq> k) xs) = (map_of xs)(k := None)"
  by (induction xs) (auto simp: fun_eq_iff)

lemma take_drop_last: "drop (length xs - n) (xs @ [x]) = drop (length xs - n) xs @ [x]"
  by simp

lemma sorted_wrt_less_distinct: "sorted_wrt (<) (xs :: 'a :: linorder list) \<Longrightarrow> distinct xs"
  by (induction xs) auto

lemma find_Some_iff_unique:
  assumes "distinct (map f xs)" and "x \<in> set xs"
  shows "find (\<lambda>y. f y = f x) xs = Some x"
  using assms by (induction xs) (auto simp: image_iff)

lemma find_SomeD: "find P xs = Some x \<Longrightarrow> P x \<and> x \<in> set xs"
  by (auto simp: find_Some_iff)

lemma list_all_drop: "list_all P xs \<Longrightarrow> list_all P (drop n xs)"
  by (auto simp: list_all_iff dest: in_set_dropD)

end
