(* ===== verification/RF_Containers.thy ===== *)
theory RF_Containers
  imports RF_Prelude
begin

text \<open>
  The ordered containers of the C++ standard library the runtime is built on. A
  \<open>std::map\<close> is the association list its iteration yields, in strictly increasing key
  order; a \<open>std::set\<close> is its strictly increasing element list. The locales state what
  the clients rely on, and the interpretations show that the lists provide it.
\<close>

section \<open>std::map\<close>

type_synonym ('k, 'v) omap = "('k \<times> 'v) list"

abbreviation om_find :: "('k, 'v) omap \<Rightarrow> 'k \<Rightarrow> 'v option" where
  "om_find m k \<equiv> map_of m k"

text \<open>\<open>m[k] = v\<close>: overwrite the entry or insert it at its place in the order.\<close>

fun om_set :: "'k :: linorder \<Rightarrow> 'v \<Rightarrow> ('k, 'v) omap \<Rightarrow> ('k, 'v) omap" where
  "om_set key val [] = [(key, val)]"
| "om_set key val (entry # rest) =
     (if key = fst entry then (key, val) # rest
      else if key < fst entry then (key, val) # entry # rest
      else entry # om_set key val rest)"

text \<open>\<open>m.erase(k)\<close>.\<close>

definition om_erase :: "'k \<Rightarrow> ('k, 'v) omap \<Rightarrow> ('k, 'v) omap" where
  "om_erase key m = filter (\<lambda>entry. fst entry \<noteq> key) m"

definition om_contains :: "('k, 'v) omap \<Rightarrow> 'k \<Rightarrow> bool" where
  "om_contains m key \<longleftrightarrow> om_find m key \<noteq> None"

definition om_keys :: "('k, 'v) omap \<Rightarrow> 'k list" where
  "om_keys m = map fst m"

definition om_values :: "('k, 'v) omap \<Rightarrow> 'v list" where
  "om_values m = map snd m"

definition om_wf :: "('k :: linorder, 'v) omap \<Rightarrow> bool" where
  "om_wf m \<longleftrightarrow> sorted_wrt (<) (map fst m)"

section \<open>std::set\<close>

fun os_insert :: "'a :: linorder \<Rightarrow> 'a list \<Rightarrow> 'a list" where
  "os_insert x [] = [x]"
| "os_insert x (y # ys) =
     (if x = y then y # ys else if x < y then x # y # ys else y # os_insert x ys)"

definition os_erase :: "'a \<Rightarrow> 'a list \<Rightarrow> 'a list" where
  "os_erase x xs = filter (\<lambda>y. y \<noteq> x) xs"

definition os_wf :: "'a :: linorder list \<Rightarrow> bool" where
  "os_wf xs \<longleftrightarrow> sorted_wrt (<) xs"

section \<open>Lookup laws\<close>

lemma om_find_set: "map_of (om_set k v m) = (map_of m)(k \<mapsto> v)"
  by (induction m) (auto simp: fun_eq_iff)

lemma om_find_set_app [simp]:
  "om_find (om_set k v m) k' = (if k' = k then Some v else om_find m k')"
  by (simp add: om_find_set)

lemma om_find_erase: "map_of (om_erase k m) = (map_of m)(k := None)"
  by (simp add: om_erase_def map_of_filter_key)

lemma om_find_erase_app [simp]:
  "om_find (om_erase k m) k' = (if k' = k then None else om_find m k')"
  by (simp add: om_find_erase)

lemma om_contains_set [simp]: "om_contains (om_set k v m) k' \<longleftrightarrow> k' = k \<or> om_contains m k'"
  by (simp add: om_contains_def)

lemma set_om_set_keys: "fst ` set (om_set k v m) = insert k (fst ` set m)"
  by (induction m) auto

section \<open>The order is kept\<close>

lemma om_wf_Nil [simp]: "om_wf []"
  by (simp add: om_wf_def)

lemma om_wf_set: "om_wf m \<Longrightarrow> om_wf (om_set k v m)"
proof (induction m)
  case Nil
  then show ?case by (simp add: om_wf_def)
next
  case (Cons e m)
  then have IH: "om_wf (om_set k v m)" by (simp add: om_wf_def)
  show ?case
  proof (cases "k = fst e \<or> k < fst e")
    case True
    with Cons.prems show ?thesis by (fastforce simp: om_wf_def)
  next
    case False
    have "\<forall>x \<in> fst ` set (om_set k v m). fst e < x"
      using Cons.prems False by (auto simp: set_om_set_keys om_wf_def)
    with False IH show ?thesis by (auto simp: om_wf_def)
  qed
qed

lemma om_wf_erase: "om_wf m \<Longrightarrow> om_wf (om_erase k m)"
  by (induction m) (auto simp: om_wf_def om_erase_def)

lemma om_wf_distinct: "om_wf m \<Longrightarrow> distinct (map fst m)"
  by (simp add: om_wf_def sorted_wrt_less_distinct)

lemma om_find_iff: "om_wf m \<Longrightarrow> om_find m k = Some v \<longleftrightarrow> (k, v) \<in> set m"
  using om_wf_distinct by (metis map_of_eq_Some_iff)

lemma om_mem_find: "om_wf m \<Longrightarrow> (k, v) \<in> set m \<Longrightarrow> om_find m k = Some v"
  by (simp add: om_find_iff)

lemma om_wf_unique:
  assumes "om_wf m" and "om_wf n" and "\<And>k. om_find m k = om_find n k"
  shows "m = n"
proof (rule map_sorted_distinct_set_unique [where f = fst])
  show set_eq: "set m = set n"
    using assms by (auto simp flip: om_find_iff)
  show "inj_on fst (set m \<union> set n)"
    using om_wf_distinct [OF assms(1)] set_eq by (simp add: distinct_map)
qed (use assms(1,2) in \<open>auto simp: om_wf_def strict_sorted_iff\<close>)

lemma os_insert_set [simp]: "set (os_insert x xs) = insert x (set xs)"
  by (induction xs) auto

lemma os_erase_set [simp]: "set (os_erase x xs) = set xs - {x}"
  by (auto simp: os_erase_def)

lemma os_wf_insert: "os_wf xs \<Longrightarrow> os_wf (os_insert x xs)"
  by (induction xs) (auto simp: os_wf_def)

lemma os_wf_erase: "os_wf xs \<Longrightarrow> os_wf (os_erase x xs)"
  by (simp add: os_wf_def os_erase_def sorted_wrt_filter)

section \<open>The map interface\<close>

text \<open>
  What a client of \<open>std::map\<close> relies on: what a lookup returns after an insertion or an
  erasure, and that iteration visits exactly the stored entries, each key once and in
  order. The size laws are proved here, once, from those promises.
\<close>

locale std_map =
  fixes find :: "'m \<Rightarrow> 'k :: linorder \<Rightarrow> 'v option"
    and assign :: "'k \<Rightarrow> 'v \<Rightarrow> 'm \<Rightarrow> 'm"
    and erase :: "'k \<Rightarrow> 'm \<Rightarrow> 'm"
    and entries :: "'m \<Rightarrow> ('k \<times> 'v) list"
    and wf :: "'m \<Rightarrow> bool"
  assumes find_assign: "find (assign k v m) = (find m)(k \<mapsto> v)"
    and find_erase: "find (erase k m) = (find m)(k := None)"
    and wf_assign: "wf m \<Longrightarrow> wf (assign k v m)"
    and wf_erase: "wf m \<Longrightarrow> wf (erase k m)"
    and entries_iff: "wf m \<Longrightarrow> (k, v) \<in> set (entries m) \<longleftrightarrow> find m k = Some v"
    and entries_ordered: "wf m \<Longrightarrow> sorted_wrt (<) (map fst (entries m))"
begin

lemma keys_dom: "wf m \<Longrightarrow> fst ` set (entries m) = dom (find m)"
proof -
  assume wf: "wf m"
  have "fst ` set (entries m) = {k. \<exists>v. (k, v) \<in> set (entries m)}"
    by force
  then show ?thesis
    using wf by (simp add: entries_iff dom_def)
qed

lemma size_dom: "wf m \<Longrightarrow> length (entries m) = card (dom (find m))"
  using keys_dom entries_ordered sorted_wrt_less_distinct
  by (metis distinct_card length_map list.set_map)

lemma finite_dom: "wf m \<Longrightarrow> finite (dom (find m))"
  using keys_dom by (metis List.finite_set finite_imageI)

lemma size_assign:
  assumes "wf m"
  shows "length (entries (assign k v m)) =
    (if find m k = None then Suc (length (entries m)) else length (entries m))"
proof -
  have "dom (find (assign k v m)) = insert k (dom (find m))"
    by (simp add: find_assign)
  then show ?thesis
    using assms wf_assign [OF assms] by (simp add: size_dom finite_dom card_insert_if domIff)
qed

lemma size_erase:
  assumes "wf m"
  shows "length (entries (erase k m)) =
    (if find m k = None then length (entries m) else length (entries m) - 1)"
proof -
  have "dom (find (erase k m)) = dom (find m) - {k}"
    by (simp add: find_erase)
  then show ?thesis
    using assms wf_erase [OF assms] by (simp add: size_dom card_Diff_singleton_if domIff)
qed

lemma assign_absent_size_bound:
  "wf m \<Longrightarrow> length (entries m) < n \<Longrightarrow> length (entries (assign k v m)) \<le> n"
  by (simp add: size_assign)

lemma assign_present_size:
  "wf m \<Longrightarrow> find m k \<noteq> None \<Longrightarrow> length (entries (assign k v m)) = length (entries m)"
  by (simp add: size_assign)

end

interpretation om: std_map map_of om_set om_erase "\<lambda>m. m" om_wf
proof unfold_locales
  fix m :: "('a, 'b) omap"
  assume "om_wf m"
  then show "sorted_wrt (<) (map fst m)" by (simp add: om_wf_def)
qed (simp_all add: om_find_set om_find_erase om_wf_set om_wf_erase om_find_iff)

section \<open>Secondary indexes\<close>

text \<open>
  The runtime's secondary indexes are maps from an attribute to the set of route
  identities carrying it: \<open>index[a].insert(x)\<close> on insertion, and on removal the erasure
  of an entry whose set became empty.
\<close>

type_synonym ('a, 'x) multi_index = "('a, 'x list) omap"

definition mi_members :: "('a, 'x) multi_index \<Rightarrow> 'a \<Rightarrow> 'x list" where
  "mi_members m a = (case om_find m a of None \<Rightarrow> [] | Some xs \<Rightarrow> xs)"

definition mi_insert ::
  "'a :: linorder \<Rightarrow> 'x :: linorder \<Rightarrow> ('a, 'x) multi_index \<Rightarrow> ('a, 'x) multi_index" where
  "mi_insert a x m = om_set a (os_insert x (mi_members m a)) m"

definition mi_erase ::
  "'a :: linorder \<Rightarrow> 'x \<Rightarrow> ('a, 'x) multi_index \<Rightarrow> ('a, 'x) multi_index" where
  "mi_erase a x m =
     (case om_find m a of
        None \<Rightarrow> m
      | Some xs \<Rightarrow>
          (let xs' = os_erase x xs in if xs' = [] then om_erase a m else om_set a xs' m))"

definition mi_rel :: "('a, 'x) multi_index \<Rightarrow> ('a \<times> 'x) set" where
  "mi_rel m = {(a, x). x \<in> set (mi_members m a)}"

definition mi_wf :: "('a :: linorder, 'x :: linorder) multi_index \<Rightarrow> bool" where
  "mi_wf m \<longleftrightarrow> om_wf m \<and> (\<forall>a xs. om_find m a = Some xs \<longrightarrow> xs \<noteq> [] \<and> os_wf xs)"

lemma mi_members_set [simp]:
  "mi_members (om_set a xs m) b = (if b = a then xs else mi_members m b)"
  by (simp add: mi_members_def)

lemma mi_members_erase [simp]:
  "mi_members (om_erase a m) b = (if b = a then [] else mi_members m b)"
  by (simp add: mi_members_def)

lemma mi_rel_insert: "mi_rel (mi_insert a x m) = insert (a, x) (mi_rel m)"
  by (auto simp: mi_rel_def mi_insert_def split: if_splits)

lemma mi_rel_erase: "mi_rel (mi_erase a x m) = mi_rel m - {(a, x)}"
proof (cases "om_find m a")
  case None
  then show ?thesis by (auto simp: mi_rel_def mi_erase_def mi_members_def)
next
  case (Some xs)
  then have mem: "mi_members m a = xs" by (simp add: mi_members_def)
  have set_empty: "os_erase x xs = [] \<Longrightarrow> set xs \<subseteq> {x}"
    using os_erase_set [of x xs] by auto
  show ?thesis
    using Some mem set_empty
    by (auto simp: mi_rel_def mi_erase_def Let_def split: if_splits)
qed

lemma mi_wf_Nil [simp]: "mi_wf []"
  by (simp add: mi_wf_def)

lemma mi_wf_insert: "mi_wf m \<Longrightarrow> mi_wf (mi_insert a x m)"
proof -
  assume wf: "mi_wf m"
  have "os_wf (mi_members m a)"
    using wf by (auto simp: mi_wf_def mi_members_def os_wf_def split: option.splits)
  moreover have "os_insert x ys \<noteq> []" for ys
    by (cases ys) auto
  ultimately show ?thesis
    using wf by (auto simp: mi_wf_def mi_insert_def om_wf_set os_wf_insert split: if_splits)
qed

lemma mi_wf_erase: "mi_wf m \<Longrightarrow> mi_wf (mi_erase a x m)"
  by (auto simp: mi_wf_def mi_erase_def Let_def om_wf_set om_wf_erase os_wf_erase
      split: option.splits if_splits)

text \<open>
  The contract of a secondary index, and the two facts the runtime uses: re-indexing a
  route under a new attribute keeps the index equal to the graph of the attribute.
\<close>

locale secondary_index =
  fixes rel :: "'m \<Rightarrow> ('a \<times> 'x) set"
    and add :: "'a \<Rightarrow> 'x \<Rightarrow> 'm \<Rightarrow> 'm"
    and remove :: "'a \<Rightarrow> 'x \<Rightarrow> 'm \<Rightarrow> 'm"
    and wf :: "'m \<Rightarrow> bool"
  assumes rel_add: "rel (add a x m) = insert (a, x) (rel m)"
    and rel_remove: "rel (remove a x m) = rel m - {(a, x)}"
    and wf_add: "wf m \<Longrightarrow> wf (add a x m)"
    and wf_remove: "wf m \<Longrightarrow> wf (remove a x m)"
begin

lemma graph_remove:
  assumes "rel m = {(a, x). \<exists>r. tbl x = Some r \<and> attr r = Some a}"
    and "tbl y = Some q" and "attr q = Some b"
  shows "rel (remove b y m) = {(a, x). \<exists>r. (tbl(y := None)) x = Some r \<and> attr r = Some a}"
  using assms by (auto simp: rel_remove split: if_splits)

lemma graph_skip_remove:
  assumes "rel m = {(a, x). \<exists>r. tbl x = Some r \<and> attr r = Some a}"
    and "tbl y = Some q" and "attr q = None"
  shows "rel m = {(a, x). \<exists>r. (tbl(y := None)) x = Some r \<and> attr r = Some a}"
  using assms by (auto split: if_splits)

lemma graph_add:
  assumes "rel m = {(a, x). \<exists>r. tbl x = Some r \<and> attr r = Some a}"
    and "tbl y = None" and "attr q = Some b"
  shows "rel (add b y m) = {(a, x). \<exists>r. (tbl(y \<mapsto> q)) x = Some r \<and> attr r = Some a}"
  using assms by (auto simp: rel_add split: if_splits)

lemma graph_skip_add:
  assumes "rel m = {(a, x). \<exists>r. tbl x = Some r \<and> attr r = Some a}"
    and "tbl y = None" and "attr q = None"
  shows "rel m = {(a, x). \<exists>r. (tbl(y \<mapsto> q)) x = Some r \<and> attr r = Some a}"
  using assms by (auto split: if_splits)

lemma wf_replace: "wf m \<Longrightarrow> wf (add b x (remove a x m))"
  by (simp add: wf_add wf_remove)

end

interpretation mi: secondary_index mi_rel mi_insert mi_erase mi_wf
  by unfold_locales (simp_all add: mi_rel_insert mi_rel_erase mi_wf_insert mi_wf_erase)

end
