(* ===== verification/RF_Error.thy ===== *)
theory RF_Error
  imports RF_Containers
begin

text \<open>
  Error values (\<open>include/routefabric/error.hpp\<close>, \<open>src/error.cpp\<close>), the bounds of the
  runtime (\<open>limits.hpp\<close>, \<open>src/limits.cpp\<close>) and the pattern every enumeration of the
  repository follows: numbered constants, a rendering and a parser that tries the constants
  in numeric order.

  \<open>Expected<T>\<close> is \<open>status_code + 'a\<close>, with \<open>Inl\<close> for the error. The human-readable
  detail text of an \<open>Error\<close> is not modelled: no decision of the program reads it.
\<close>

section \<open>Enumerations\<close>

text \<open>\<open>parse_by_name\<close>: try the candidates in the order of their numeric values.\<close>

definition parse_by_name :: "('e \<Rightarrow> string) \<Rightarrow> 'e list \<Rightarrow> string \<Rightarrow> 'e option" where
  "parse_by_name render candidates text = find (\<lambda>c. text = render c) candidates"

text \<open>\<open>static_cast<Enum>(raw)\<close> on a value that is known to name an enumerator.\<close>

definition enum_of_raw :: "('e \<Rightarrow> 'r) \<Rightarrow> 'e list \<Rightarrow> 'r \<Rightarrow> 'e option" where
  "enum_of_raw raw candidates r = find (\<lambda>c. raw c = r) candidates"

text \<open>
  The promise of an enumeration: the numbering covers every enumerator and is injective.
  An enumeration with an injective rendering can be parsed back.
\<close>

locale numbered_enum =
  fixes raw :: "'e \<Rightarrow> 'r" and enumerators :: "'e list"
  assumes complete: "e \<in> set enumerators"
    and raw_distinct: "distinct (map raw enumerators)"
begin

lemma raw_inject: "raw a = raw b \<longleftrightarrow> a = b"
  using raw_distinct complete by (metis distinct_map inj_onD)

lemma of_raw_raw: "enum_of_raw raw enumerators (raw e) = Some e"
  unfolding enum_of_raw_def using find_Some_iff_unique [OF raw_distinct complete] .

lemma of_raw_Some: "enum_of_raw raw enumerators r = Some e \<longleftrightarrow> r = raw e"
  using of_raw_raw [of e] by (auto simp: enum_of_raw_def dest: find_SomeD)

end

locale named_enum = numbered_enum +
  fixes render :: "'a \<Rightarrow> string"
  assumes names_distinct: "distinct (map render enumerators)"
begin

lemma render_inject: "render a = render b \<longleftrightarrow> a = b"
  using names_distinct complete by (metis distinct_map inj_onD)

lemma parse_render: "parse_by_name render enumerators (render e) = Some e"
  unfolding parse_by_name_def
  using find_Some_iff_unique [OF names_distinct complete] by (simp add: eq_commute)

lemma parse_Some: "parse_by_name render enumerators text = Some e \<longleftrightarrow> text = render e"
  using parse_render [of e] by (auto simp: parse_by_name_def dest: find_SomeD)

end

section \<open>Status codes\<close>

datatype status_code =
    SC_Ok
  | SC_InvalidArgument
  | SC_MalformedEncoding
  | SC_NotFound
  | SC_AlreadyExists
  | SC_Conflict
  | SC_StaleEpoch
  | SC_StaleWorkerBoot
  | SC_StaleGeneration
  | SC_Unauthorized
  | SC_ScopeViolation
  | SC_PathAuthorityRejected
  | SC_PathAuthorityStale
  | SC_LifecycleViolation
  | SC_Retired
  | SC_Revoked
  | SC_BackendUnavailable
  | SC_BackendFailure
  | SC_AmbiguousOutcome
  | SC_LimitExceeded
  | SC_PersistenceFailure
  | SC_ProtocolViolation
  | SC_IntegrityFailure
  | SC_Unsupported
  | SC_ReentrancyViolation
  | SC_Internal
  | SC_NotRegistered
  | SC_Fenced
  | SC_ShuttingDown
  | SC_NotOpen

fun status_code_raw :: "status_code \<Rightarrow> u16" where
  "status_code_raw SC_Ok = 0"
| "status_code_raw SC_InvalidArgument = 1"
| "status_code_raw SC_MalformedEncoding = 2"
| "status_code_raw SC_NotFound = 3"
| "status_code_raw SC_AlreadyExists = 4"
| "status_code_raw SC_Conflict = 5"
| "status_code_raw SC_StaleEpoch = 6"
| "status_code_raw SC_StaleWorkerBoot = 7"
| "status_code_raw SC_StaleGeneration = 8"
| "status_code_raw SC_Unauthorized = 9"
| "status_code_raw SC_ScopeViolation = 10"
| "status_code_raw SC_PathAuthorityRejected = 11"
| "status_code_raw SC_PathAuthorityStale = 12"
| "status_code_raw SC_LifecycleViolation = 13"
| "status_code_raw SC_Retired = 14"
| "status_code_raw SC_Revoked = 15"
| "status_code_raw SC_BackendUnavailable = 16"
| "status_code_raw SC_BackendFailure = 17"
| "status_code_raw SC_AmbiguousOutcome = 18"
| "status_code_raw SC_LimitExceeded = 19"
| "status_code_raw SC_PersistenceFailure = 20"
| "status_code_raw SC_ProtocolViolation = 21"
| "status_code_raw SC_IntegrityFailure = 22"
| "status_code_raw SC_Unsupported = 23"
| "status_code_raw SC_ReentrancyViolation = 24"
| "status_code_raw SC_Internal = 25"
| "status_code_raw SC_NotRegistered = 26"
| "status_code_raw SC_Fenced = 27"
| "status_code_raw SC_ShuttingDown = 28"
| "status_code_raw SC_NotOpen = 29"

definition status_code_values :: "status_code list" where
  "status_code_values =
     [SC_Ok, SC_InvalidArgument, SC_MalformedEncoding, SC_NotFound,
      SC_AlreadyExists, SC_Conflict, SC_StaleEpoch, SC_StaleWorkerBoot,
      SC_StaleGeneration, SC_Unauthorized, SC_ScopeViolation, SC_PathAuthorityRejected,
      SC_PathAuthorityStale, SC_LifecycleViolation, SC_Retired, SC_Revoked,
      SC_BackendUnavailable, SC_BackendFailure, SC_AmbiguousOutcome, SC_LimitExceeded,
      SC_PersistenceFailure, SC_ProtocolViolation, SC_IntegrityFailure, SC_Unsupported,
      SC_ReentrancyViolation, SC_Internal, SC_NotRegistered, SC_Fenced,
      SC_ShuttingDown, SC_NotOpen]"

fun status_code_to_string :: "status_code \<Rightarrow> string" where
  "status_code_to_string SC_Ok = ''ok''"
| "status_code_to_string SC_InvalidArgument = ''invalid-argument''"
| "status_code_to_string SC_MalformedEncoding = ''malformed-encoding''"
| "status_code_to_string SC_NotFound = ''not-found''"
| "status_code_to_string SC_AlreadyExists = ''already-exists''"
| "status_code_to_string SC_Conflict = ''conflict''"
| "status_code_to_string SC_StaleEpoch = ''stale-epoch''"
| "status_code_to_string SC_StaleWorkerBoot = ''stale-worker-boot''"
| "status_code_to_string SC_StaleGeneration = ''stale-generation''"
| "status_code_to_string SC_Unauthorized = ''unauthorized''"
| "status_code_to_string SC_ScopeViolation = ''scope-violation''"
| "status_code_to_string SC_PathAuthorityRejected = ''path-authority-rejected''"
| "status_code_to_string SC_PathAuthorityStale = ''path-authority-stale''"
| "status_code_to_string SC_LifecycleViolation = ''lifecycle-violation''"
| "status_code_to_string SC_Retired = ''retired''"
| "status_code_to_string SC_Revoked = ''revoked''"
| "status_code_to_string SC_BackendUnavailable = ''backend-unavailable''"
| "status_code_to_string SC_BackendFailure = ''backend-failure''"
| "status_code_to_string SC_AmbiguousOutcome = ''ambiguous-outcome''"
| "status_code_to_string SC_LimitExceeded = ''limit-exceeded''"
| "status_code_to_string SC_PersistenceFailure = ''persistence-failure''"
| "status_code_to_string SC_ProtocolViolation = ''protocol-violation''"
| "status_code_to_string SC_IntegrityFailure = ''integrity-failure''"
| "status_code_to_string SC_Unsupported = ''unsupported''"
| "status_code_to_string SC_ReentrancyViolation = ''reentrancy-violation''"
| "status_code_to_string SC_Internal = ''internal''"
| "status_code_to_string SC_NotRegistered = ''not-registered''"
| "status_code_to_string SC_Fenced = ''fenced''"
| "status_code_to_string SC_ShuttingDown = ''shutting-down''"
| "status_code_to_string SC_NotOpen = ''not-open''"

type_synonym 'a expected = "status_code + 'a"
type_synonym status = "unit expected"

definition ok_status :: status where
  "ok_status = Inr ()"

lemma ok_status_simps [simp]: "Inl e \<noteq> ok_status" "ok_status \<noteq> Inl e"
  by (simp_all add: ok_status_def)

definition is_ok :: "status_code \<Rightarrow> bool" where
  "is_ok code \<longleftrightarrow> code = SC_Ok"

text \<open>\<open>Expected<T>::code()\<close>.\<close>

definition expected_code :: "'a expected \<Rightarrow> status_code" where
  "expected_code x = (case x of Inl e \<Rightarrow> e | Inr _ \<Rightarrow> SC_Ok)"

interpretation status_code_enum: named_enum status_code_raw status_code_values status_code_to_string
proof unfold_locales
  show "e \<in> set status_code_values" for e
    by (cases e) (simp_all add: status_code_values_def)
qed (simp_all add: status_code_values_def)

section \<open>Limits\<close>

record limits =
  max_routes :: nat
  max_routing_namespaces :: nat
  max_frame_bytes :: nat
  max_destination_chars :: nat
  max_history_entries_per_route :: nat
  max_outstanding_programming :: nat
  max_publishers :: nat
  max_sessions :: nat
  max_snapshot_routes :: nat
  max_batch_mutations :: nat
  max_publisher_scopes :: nat
  max_persist_bytes :: nat

definition default_limits :: limits where
  "default_limits =
     \<lparr>max_routes = 1000000, max_routing_namespaces = 4096, max_frame_bytes = 1048576,
      max_destination_chars = 256, max_history_entries_per_route = 32,
      max_outstanding_programming = 4096, max_publishers = 4096, max_sessions = 128,
      max_snapshot_routes = 1000000, max_batch_mutations = 1024, max_publisher_scopes = 16,
      max_persist_bytes = 1073741824\<rparr>"

text \<open>\<open>Limits::validate\<close>.\<close>

definition limits_validate :: "limits \<Rightarrow> status" where
  "limits_validate l =
     (if max_routes l = 0 then Inl SC_InvalidArgument
      else if max_routing_namespaces l = 0 then Inl SC_InvalidArgument
      else if max_frame_bytes l < 64 then Inl SC_InvalidArgument
      else if max_destination_chars l = 0 then Inl SC_InvalidArgument
      else if max_history_entries_per_route l = 0 then Inl SC_InvalidArgument
      else if max_outstanding_programming l = 0 then Inl SC_InvalidArgument
      else if max_publishers l = 0 then Inl SC_InvalidArgument
      else if max_sessions l = 0 then Inl SC_InvalidArgument
      else if max_snapshot_routes l = 0 then Inl SC_InvalidArgument
      else if max_batch_mutations l = 0 then Inl SC_InvalidArgument
      else if max_publisher_scopes l = 0 then Inl SC_InvalidArgument
      else if max_persist_bytes l < 1024 then Inl SC_InvalidArgument
      else ok_status)"

lemma limits_validate_default: "limits_validate default_limits = ok_status"
  by (simp add: limits_validate_def default_limits_def)

end
