(* ===== verification/RF_Encoding.thy ===== *)
theory RF_Encoding
  imports RF_Error
begin

unbundle bit_operations_syntax

text \<open>
  The byte codec of \<open>include/routefabric/encoding.hpp\<close> and \<open>src/encoding.cpp\<close>. A
  \<open>ByteWriter\<close> is the byte list it has buffered, so a write function returns the bytes it
  appends. A \<open>ByteReader\<close> is the list of bytes not read yet, so a read function returns
  \<open>None\<close> where the C++ accessor returns false, and otherwise the value and the
  remaining bytes.
\<close>

section \<open>Byte order helpers\<close>

text \<open>The loops of \<open>write_le32\<close>/\<open>u32\<close> and \<open>read_le32\<close>, for any width.\<close>

definition le_store :: "nat \<Rightarrow> 'a :: len word \<Rightarrow> bytes" where
  "le_store k v = map (\<lambda>i. ucast (drop_bit (8 * i) v AND 0xFF)) [0..<k]"

definition le_load :: "nat \<Rightarrow> bytes \<Rightarrow> 'a :: len word" where
  "le_load k data = foldl (\<lambda>value i. value OR push_bit (8 * i) (ucast (data ! i))) 0 [0..<k]"

definition read_le16 :: "bytes \<Rightarrow> u16" where
  "read_le16 data = ucast (data ! 0) OR push_bit 8 (ucast (data ! 1))"

definition read_le32 :: "bytes \<Rightarrow> u32" where
  "read_le32 data = le_load 4 data"

definition read_le64 :: "bytes \<Rightarrow> u64" where
  "read_le64 data = le_load 8 data"

section \<open>ByteWriter\<close>

definition w_u8 :: "u8 \<Rightarrow> bytes" where
  "w_u8 v = [v]"

definition w_boolean :: "bool \<Rightarrow> bytes" where
  "w_boolean b = [if b then 1 else 0]"

definition w_u16 :: "u16 \<Rightarrow> bytes" where
  "w_u16 v = [ucast (v AND 0xFF), ucast (drop_bit 8 v AND 0xFF)]"

definition w_u32 :: "u32 \<Rightarrow> bytes" where
  "w_u32 v = le_store 4 v"

definition w_u64 :: "u64 \<Rightarrow> bytes" where
  "w_u64 v = le_store 8 v"

definition byte_of_char :: "char \<Rightarrow> u8" where
  "byte_of_char c = of_nat (of_char c)"

definition char_of_byte :: "u8 \<Rightarrow> char" where
  "char_of_byte b = char_of (unat b)"

definition w_raw_text :: "string \<Rightarrow> bytes" where
  "w_raw_text s = map byte_of_char s"

text \<open>\<open>ByteWriter::string\<close>: the size is truncated to 32 bits by the cast.\<close>

definition w_string :: "string \<Rightarrow> bytes" where
  "w_string s = w_u32 (of_nat (length s)) @ w_raw_text s"

section \<open>ByteReader\<close>

type_synonym 'a reader = "bytes \<Rightarrow> ('a \<times> bytes) option"

definition rd_u8 :: "u8 reader" where
  "rd_u8 data = (case data of [] \<Rightarrow> None | b # rest \<Rightarrow> Some (b, rest))"

definition rd_boolean :: "bool reader" where
  "rd_boolean data =
     do { (v, data) \<leftarrow> rd_u8 data;
          if v > 1 then None else Some (v = 1, data) }"

definition rd_u16 :: "u16 reader" where
  "rd_u16 data = (if length data < 2 then None else Some (read_le16 data, drop 2 data))"

definition rd_u32 :: "u32 reader" where
  "rd_u32 data = (if length data < 4 then None else Some (read_le32 data, drop 4 data))"

definition rd_u64 :: "u64 reader" where
  "rd_u64 data = (if length data < 8 then None else Some (read_le64 data, drop 8 data))"

definition rd_raw :: "nat \<Rightarrow> bytes reader" where
  "rd_raw count data = (if length data < count then None else Some (take count data, drop count data))"

definition rd_string :: "nat \<Rightarrow> string reader" where
  "rd_string max_length data =
     do { (len, data) \<leftarrow> rd_u32 data;
          if unat len > max_length then None
          else if length data < unat len then None
          else Some (map char_of_byte (take (unat len) data), drop (unat len) data) }"

definition rd_skip :: "nat \<Rightarrow> unit reader" where
  "rd_skip count data = (if length data < count then None else Some ((), drop count data))"

text \<open>
  The idiom for reading an enumerator: one byte, a check that it is a declared value (the
  \<open>switch\<close> with a rejecting default, or a \<open>is_..._value\<close> range test), and the cast.
\<close>

definition rd_enum :: "('e \<Rightarrow> u8) \<Rightarrow> 'e list \<Rightarrow> 'e reader" where
  "rd_enum raw enumerators data = do {
     (v, data) \<leftarrow> rd_u8 data;
     e \<leftarrow> enum_of_raw raw enumerators v;
     Some (e, data) }"

text \<open>The counted loop \<open>for (i = 0; i < count; ++i)\<close> around a read function.\<close>

fun rd_times :: "nat \<Rightarrow> 'a reader \<Rightarrow> 'a list reader" where
  "rd_times 0 rd data = Some ([], data)"
| "rd_times (Suc n) rd data =
     do { (x, data) \<leftarrow> rd data;
          (xs, data) \<leftarrow> rd_times n rd data;
          Some (x # xs, data) }"

definition w_all :: "('a \<Rightarrow> bytes) \<Rightarrow> 'a list \<Rightarrow> bytes" where
  "w_all w xs = concat (map w xs)"

section \<open>Decimal text\<close>

definition is_digit :: "char \<Rightarrow> bool" where
  "is_digit c \<longleftrightarrow> 48 \<le> (of_char c :: nat) \<and> (of_char c :: nat) \<le> 57"

definition digit_value :: "char \<Rightarrow> nat" where
  "digit_value c = of_char c - 48"

text \<open>The loop of \<open>parse_u64_decimal\<close>, with the overflow test of the source.\<close>

fun parse_u64_loop :: "u64 \<Rightarrow> string \<Rightarrow> u64 option" where
  "parse_u64_loop value [] = Some value"
| "parse_u64_loop value (c # cs) =
     (if \<not> is_digit c then None
      else let digit = of_nat (digit_value c)
           in if value > (- 1 - digit) div 10 then None
              else parse_u64_loop (value * 10 + digit) cs)"

definition parse_u64_decimal :: "string \<Rightarrow> u64 \<Rightarrow> u64 option" where
  "parse_u64_decimal text max_value =
     (if text = [] \<or> length text > 20 then None
      else if length text > 1 \<and> hd text = CHR ''0'' then None
      else do { value \<leftarrow> parse_u64_loop 0 text;
                if value > max_value then None else Some value })"

text \<open>
  The loop of \<open>to_decimal\<close> fills a buffer of 24 characters from its end; the first
  argument is the free room \<open>index\<close>.
\<close>

fun to_decimal_loop :: "nat \<Rightarrow> u64 \<Rightarrow> string \<Rightarrow> string" where
  "to_decimal_loop 0 value buffer = buffer"
| "to_decimal_loop (Suc index) value buffer =
     (if value = 0 then buffer
      else to_decimal_loop index (value div 10) (char_of (48 + unat (value mod 10)) # buffer))"

definition to_decimal :: "u64 \<Rightarrow> string" where
  "to_decimal value = (if value = 0 then ''0'' else to_decimal_loop 24 value [])"

section \<open>What a codec promises\<close>

text \<open>
  A codec is a writer and a reader that agree on the well-formed values. The second law
  says the reader accepts nothing but the canonical encoding. From the two laws follow,
  once for every codec of the repository, that encodings are injective and prefix free
  and that every proper prefix of an encoding is refused.
\<close>

locale codec =
  fixes enc :: "'a \<Rightarrow> bytes" and dec :: "'a reader" and wf :: "'a \<Rightarrow> bool"
  assumes read_write: "wf x \<Longrightarrow> dec (enc x @ rest) = Some (x, rest)"
    and read_canonical: "dec data = Some (x, rest) \<Longrightarrow> wf x \<and> data = enc x @ rest"
begin

lemma read_write_all: "wf x \<Longrightarrow> dec (enc x) = Some (x, [])"
  using read_write [of x "[]"] by simp

lemma read_wf: "dec data = Some (x, rest) \<Longrightarrow> wf x"
  by (simp add: read_canonical)

lemma read_data: "dec data = Some (x, rest) \<Longrightarrow> data = enc x @ rest"
  by (simp add: read_canonical)

lemma write_inject:
  assumes "wf x" "wf y" "enc x @ r = enc y @ s"
  shows "x = y \<and> r = s"
proof -
  have "Some (x, r) = dec (enc x @ r)" by (simp add: read_write assms(1))
  also have "\<dots> = dec (enc y @ s)" by (simp only: assms(3))
  also have "\<dots> = Some (y, s)" by (simp add: read_write assms(2))
  finally show ?thesis by simp
qed

lemma truncated_refused:
  assumes "wf x" and "enc x = part @ missing" and "missing \<noteq> []"
  shows "dec part = None"
proof (rule ccontr)
  assume "dec part \<noteq> None"
  then obtain y r where "dec part = Some (y, r)" by auto
  then have "wf y" and "part = enc y @ r" by (auto dest: read_canonical)
  with assms(2) have "enc x @ [] = enc y @ (r @ missing)" by simp
  from write_inject [OF assms(1) \<open>wf y\<close> this] assms(3) show False by simp
qed

lemma times_write: "list_all wf xs \<Longrightarrow> rd_times (length xs) dec (w_all enc xs @ rest) = Some (xs, rest)"
  by (induction xs) (simp_all add: w_all_def read_write)

lemma times_canonical:
  "rd_times n dec data = Some (xs, rest) \<Longrightarrow> list_all wf xs \<and> length xs = n \<and> data = w_all enc xs @ rest"
proof (induction n arbitrary: data xs)
  case 0
  then show ?case by (simp add: w_all_def)
next
  case (Suc n)
  then obtain x d ys where "dec data = Some (x, d)" "rd_times n dec d = Some (ys, rest)" "xs = x # ys"
    by (auto simp: bind_eq_Some_conv)
  with Suc.IH [of d ys] show ?case
    by (auto simp: w_all_def dest: read_canonical)
qed

end

section \<open>Words\<close>

lemma mask_byte: "(0xFF :: 'a :: len word) = mask 8"
  by (simp add: mask_eq_exp_minus_1)

lemma byte_position:
  fixes n k :: nat and w :: u8
  shows "8 * k \<le> n \<and> bit w (n - 8 * k) \<longleftrightarrow> n div 8 = k \<and> bit w (n mod 8)"
proof (cases "n div 8 = k")
  case True
  then have "n = 8 * k + n mod 8" by (metis mult.commute div_mult_mod_eq)
  then show ?thesis using True by (metis add_diff_cancel_left' le_add1)
next
  case False
  have "bit w (n - 8 * k) \<Longrightarrow> n - 8 * k < 8"
    using bit_imp_le_length [of w "n - 8 * k"] by simp
  then show ?thesis using False by auto
qed

lemma bit_le_load:
  "bit (le_load k data :: 'a :: len word) n \<longleftrightarrow>
     n < LENGTH('a) \<and> n div 8 < k \<and> bit (data ! (n div 8)) (n mod 8)"
proof (induction k)
  case 0
  then show ?case by (simp add: le_load_def)
next
  case (Suc k)
  have "bit (le_load (Suc k) data :: 'a word) n \<longleftrightarrow>
      bit (le_load k data :: 'a word) n \<or>
      (n < LENGTH('a) \<and> 8 * k \<le> n \<and> bit (data ! k) (n - 8 * k))"
    by (auto simp: le_load_def bit_simps)
  then show ?case using Suc.IH byte_position [of k n "data ! k"] by (auto simp: less_Suc_eq)
qed

lemma bit_le_store_nth: "i < k \<Longrightarrow> bit (le_store k v ! i) m \<longleftrightarrow> m < 8 \<and> bit v (8 * i + m)"
  by (auto simp: le_store_def bit_simps mask_byte dest: bit_imp_le_length)

lemma length_le_store [simp]: "length (le_store k v) = k"
  by (simp add: le_store_def)

lemma le_load_append:
  "length xs = k \<Longrightarrow> (le_load k (xs @ ys) :: 'a :: len word) = le_load k xs"
  by (rule bit_word_eqI) (auto simp: bit_le_load nth_append)

lemma le_load_store:
  fixes v :: "'a :: len word"
  assumes "LENGTH('a) \<le> 8 * k"
  shows "le_load k (le_store k v) = v"
proof (rule bit_word_eqI)
  fix n assume "n < LENGTH('a)"
  moreover have "n div 8 < k" using calculation assms by auto
  ultimately show "bit (le_load k (le_store k v) :: 'a word) n = bit v n"
    by (simp add: bit_le_load bit_le_store_nth)
qed

lemma le_store_load:
  assumes "length xs = k" and "8 * k \<le> LENGTH('a :: len)"
  shows "le_store k (le_load k xs :: 'a word) = xs"
proof (rule nth_equalityI)
  fix i assume "i < length (le_store k (le_load k xs :: 'a word))"
  then have i: "i < k" by simp
  show "le_store k (le_load k xs :: 'a word) ! i = xs ! i"
  proof (rule bit_word_eqI)
    fix m assume m: "m < LENGTH(8)"
    then have "8 * i + m < LENGTH('a)" using i assms(2) by simp
    moreover have "(8 * i + m) div 8 = i" "(8 * i + m) mod 8 = m" using m by auto
    ultimately show "bit (le_store k (le_load k xs :: 'a word) ! i) m = bit (xs ! i) m"
      using i m by (simp add: bit_le_store_nth bit_le_load)
  qed
qed (simp add: assms)

lemma w_u16_le_store: "w_u16 v = le_store 2 v"
  by (simp add: w_u16_def le_store_def upt_rec)

lemma read_le16_le_load: "read_le16 data = le_load 2 data"
  by (simp add: read_le16_def le_load_def upt_rec)

text \<open>The three fixed-width codecs are instances of one argument about \<open>k\<close> bytes.\<close>

lemma fixed_width_codec:
  assumes "LENGTH('a :: len) = 8 * k"
  shows "codec (\<lambda>v :: 'a word. le_store k v)
    (\<lambda>data. if length data < k then None else Some (le_load k data, drop k data)) (\<lambda>_. True)"
proof unfold_locales
  fix x :: "'a word" and rest
  show "(if length (le_store k x @ rest) < k then None
      else Some (le_load k (le_store k x @ rest), drop k (le_store k x @ rest))) = Some (x, rest)"
    using assms by (simp add: le_load_append le_load_store)
next
  fix data rest and x :: "'a word"
  assume "(if length data < k then None else Some (le_load k data, drop k data)) = Some (x, rest)"
  then have len: "k \<le> length data" and x: "x = le_load k data" and rest: "rest = drop k data"
    by (auto split: if_splits)
  have "(le_load k data :: 'a word) = le_load k (take k data)"
    using le_load_append [of "take k data" k "drop k data"] len by simp
  then have "le_store k x = take k data"
    using assms len x by (simp add: le_store_load)
  with rest show "True \<and> data = le_store k x @ rest" by simp
qed

interpretation u8_codec: codec w_u8 rd_u8 "\<lambda>_. True"
  by unfold_locales (auto simp: w_u8_def rd_u8_def split: list.splits)

interpretation u16_codec: codec w_u16 rd_u16 "\<lambda>_. True"
  using fixed_width_codec [where 'a = 16 and k = 2]
  unfolding w_u16_le_store [abs_def] rd_u16_def [abs_def] read_le16_le_load by simp

interpretation u32_codec: codec w_u32 rd_u32 "\<lambda>_. True"
  using fixed_width_codec [where 'a = 32 and k = 4]
  unfolding w_u32_def [abs_def] rd_u32_def [abs_def] read_le32_def by simp

interpretation u64_codec: codec w_u64 rd_u64 "\<lambda>_. True"
  using fixed_width_codec [where 'a = 64 and k = 8]
  unfolding w_u64_def [abs_def] rd_u64_def [abs_def] read_le64_def by simp

lemmas word_codecs [codec] =
  u8_codec.read_write [OF TrueI] u16_codec.read_write [OF TrueI]
  u32_codec.read_write [OF TrueI] u64_codec.read_write [OF TrueI]

lemmas word_canonical =
  u8_codec.read_data u16_codec.read_data u32_codec.read_data u64_codec.read_data

interpretation boolean_codec: codec w_boolean rd_boolean "\<lambda>_. True"
proof unfold_locales
  show "rd_boolean (w_boolean x @ rest) = Some (x, rest)" for x rest
    by (simp add: w_boolean_def rd_boolean_def rd_u8_def)
next
  fix data x rest
  assume "rd_boolean data = Some (x, rest)"
  then obtain v where "data = v # rest" "\<not> v > 1" "x = (v = 1)"
    by (auto simp: rd_boolean_def rd_u8_def bind_eq_Some_conv split: list.splits if_splits)
  moreover have "\<not> v > 1 \<Longrightarrow> v = 0 \<or> v = (1 :: u8)"
    by (auto simp: word_less_nat_alt word_unat_eq_iff)
  ultimately show "True \<and> data = w_boolean x @ rest"
    by (auto simp: w_boolean_def)
qed

lemmas boolean_codecs [codec] = boolean_codec.read_write [OF TrueI]

section \<open>Enumerators\<close>

lemma enum_codec:
  assumes "numbered_enum raw enumerators"
  shows "codec (\<lambda>e. w_u8 (raw e)) (rd_enum raw enumerators) (\<lambda>_. True)"
proof unfold_locales
  show "rd_enum raw enumerators (w_u8 (raw e) @ rest) = Some (e, rest)" for e rest
    by (simp add: rd_enum_def codec numbered_enum.of_raw_raw [OF assms])
next
  fix data e rest assume "rd_enum raw enumerators data = Some (e, rest)"
  then show "True \<and> data = w_u8 (raw e) @ rest"
    by (auto simp: rd_enum_def bind_eq_Some_conv numbered_enum.of_raw_Some [OF assms]
        dest: u8_codec.read_data)
qed

section \<open>Byte strings\<close>

lemma char_of_byte_of_char [simp]: "char_of_byte (byte_of_char c) = c"
  by (simp add: char_of_byte_def byte_of_char_def unat_of_nat)

lemma byte_of_char_of_byte [simp]: "byte_of_char (char_of_byte b) = b"
proof -
  have "unat b < 256" using unsigned_less [of b, where 'a = nat] by simp
  then show ?thesis by (simp add: char_of_byte_def byte_of_char_def)
qed

lemma char_of_byte_o [simp]: "char_of_byte \<circ> byte_of_char = id"
  by (simp add: fun_eq_iff)

lemma byte_of_char_o [simp]: "byte_of_char \<circ> char_of_byte = id"
  by (simp add: fun_eq_iff)

lemma length_w_raw_text [simp]: "length (w_raw_text s) = length s"
  by (simp add: w_raw_text_def)

text \<open>
  A bounded string is read back when its length fits both the bound and the 32-bit
  length prefix.
\<close>

lemma string_codec:
  "codec w_string (rd_string m) (\<lambda>s. length s \<le> m \<and> length s < 2 ^ 32)"
proof unfold_locales
  fix s :: string and rest
  assume "length s \<le> m \<and> length s < 2 ^ 32"
  then show "rd_string m (w_string s @ rest) = Some (s, rest)"
    by (simp add: rd_string_def w_string_def codec unat_of_nat w_raw_text_def)
next
  fix data s rest
  assume "rd_string m data = Some (s, rest)"
  then obtain len d where *: "rd_u32 data = Some (len, d)" "unat len \<le> m" "unat len \<le> length d"
      "s = map char_of_byte (take (unat len) d)" "rest = drop (unat len) d"
    by (auto simp: rd_string_def bind_eq_Some_conv split: if_splits)
  have "unat len < 2 ^ 32" using unsigned_less [of len, where 'a = nat] by simp
  moreover have "data = w_u32 len @ d" using * by (simp add: u32_codec.read_data)
  ultimately show "(length s \<le> m \<and> length s < 2 ^ 32) \<and> data = w_string s @ rest"
    using * by (simp add: w_string_def w_raw_text_def)
qed

interpretation string_codec: codec w_string "rd_string m" "\<lambda>s. length s \<le> m \<and> length s < 2 ^ 32" for m
  by (rule string_codec)

lemmas string_codecs [codec] = string_codec.read_write

lemma raw_write [codec]: "length bs = n \<Longrightarrow> rd_raw n (bs @ rest) = Some (bs, rest)"
  by (simp add: rd_raw_def)

lemma raw_canonical: "rd_raw n data = Some (bs, rest) \<Longrightarrow> length bs = n \<and> data = bs @ rest"
  by (auto simp: rd_raw_def split: if_splits)

section \<open>Decimal text\<close>

text \<open>The number a digit string denotes, read after the prefix with value \<open>a\<close>.\<close>

fun dec_nat :: "nat \<Rightarrow> string \<Rightarrow> nat" where
  "dec_nat a [] = a"
| "dec_nat a (c # cs) = dec_nat (10 * a + digit_value c) cs"

lemma dec_nat_append: "dec_nat a (cs @ ds) = dec_nat (dec_nat a cs) ds"
  by (induction cs arbitrary: a) auto

lemma dec_nat_ge: "a \<le> dec_nat a cs"
proof (induction cs arbitrary: a)
  case (Cons c cs)
  from Cons.IH [of "10 * a + digit_value c"] show ?case by simp
qed simp

lemma digit_value_le: "is_digit c \<Longrightarrow> digit_value c \<le> 9"
  by (auto simp: is_digit_def digit_value_def)

lemma digit_char_value: "is_digit c \<Longrightarrow> char_of (48 + digit_value c) = c"
  by (simp add: is_digit_def digit_value_def)

lemma digit_of_value: "d \<le> 9 \<Longrightarrow> is_digit (char_of (48 + d)) \<and> digit_value (char_of (48 + d)) = d"
  by (simp add: is_digit_def digit_value_def)

lemma digit_value_zero: "is_digit c \<Longrightarrow> digit_value c = 0 \<longleftrightarrow> c = CHR ''0''"
proof -
  assume c: "is_digit c"
  have "digit_value c = 0 \<longleftrightarrow> of_char c = (48 :: nat)"
    using c by (auto simp: is_digit_def digit_value_def)
  also have "\<dots> \<longleftrightarrow> c = CHR ''0''"
    using of_char_eq_iff [of c "CHR ''0''", where ?'a = nat] by simp
  finally show ?thesis .
qed

lemma unat_numeral_10: "unat (10 :: u64) = 10"
  by simp

text \<open>The overflow test admits exactly the steps that stay below \<open>2 ^ 64\<close>.\<close>

lemma digit_quotient_bound: "d \<le> M \<Longrightarrow> \<not> (M - d) div 10 < a \<longleftrightarrow> 10 * a + d \<le> (M :: nat)"
  by (simp add: not_less less_eq_div_iff_mult_less_eq) linarith

lemma decimal_step:
  fixes v :: u64
  assumes "d \<le> 9"
  shows "\<not> v > (- 1 - of_nat d) div 10 \<longleftrightarrow> 10 * unat v + d < 2 ^ 64"
    and "10 * unat v + d < 2 ^ 64 \<Longrightarrow> unat (v * 10 + of_nat d) = 10 * unat v + d"
proof -
  have max: "unat (- 1 :: u64) = 2 ^ 64 - 1"
    by (simp add: unsigned_minus_1_eq_mask mask_eq_exp_minus_1)
  have "unat (- 1 - of_nat d :: u64) = 2 ^ 64 - 1 - d"
    using assms by (subst unat_sub) (simp_all add: word_le_nat_alt unat_of_nat max)
  then have "unat ((- 1 - of_nat d :: u64) div 10) = (2 ^ 64 - 1 - d) div 10"
    by (simp add: unat_div)
  then show "\<not> v > (- 1 - of_nat d) div 10 \<longleftrightarrow> 10 * unat v + d < 2 ^ 64"
    using digit_quotient_bound [of d "2 ^ 64 - 1" "unat v"] assms
    by (simp only: word_less_nat_alt) auto
  show "10 * unat v + d < 2 ^ 64 \<Longrightarrow> unat (v * 10 + of_nat d) = 10 * unat v + d"
    by (simp add: unat_word_ariths unat_of_nat mult.commute)
qed

lemma parse_u64_loop_iff:
  "parse_u64_loop v cs = Some w \<longleftrightarrow>
     list_all is_digit cs \<and> dec_nat (unat v) cs < 2 ^ 64 \<and> unat w = dec_nat (unat v) cs"
proof (induction cs arbitrary: v)
  case Nil
  have "unat v < 2 ^ 64" using unsigned_less [of v, where 'a = nat] by simp
  then show ?case by (auto simp: word_unat_eq_iff)
next
  case (Cons c cs)
  show ?case
  proof (cases "is_digit c \<and> 10 * unat v + digit_value c < 2 ^ 64")
    case True
    then have "\<not> v > (- 1 - of_nat (digit_value c)) div 10"
      and "unat (v * 10 + of_nat (digit_value c)) = 10 * unat v + digit_value c"
      using decimal_step [OF digit_value_le] by auto
    with True Cons.IH show ?thesis by (simp add: Let_def)
  next
    case False
    then show ?thesis
      using decimal_step(1) [OF digit_value_le, of c v] dec_nat_ge [of "10 * unat v + digit_value c" cs]
      by (auto simp: Let_def)
  qed
qed

lemma to_decimal_loop_value:
  "unat v < 10 ^ index \<Longrightarrow> list_all is_digit buf \<Longrightarrow>
   list_all is_digit (to_decimal_loop index v buf) \<and>
   dec_nat 0 (to_decimal_loop index v buf) = dec_nat (unat v) buf"
proof (induction index arbitrary: v buf)
  case 0
  then show ?case by simp
next
  case (Suc index)
  have "unat (v mod 10) \<le> 9" by (simp add: unat_mod)
  note digit = digit_of_value [OF this]
  have "unat (v div 10) < 10 ^ index" using Suc.prems(1) by (simp add: unat_div)
  then show ?case
    using Suc.IH [of "v div 10" "char_of (48 + unat (v mod 10)) # buf"] Suc.prems digit
    by (simp add: unat_div unat_mod)
qed

lemma to_decimal_loop_shape:
  "v \<noteq> 0 \<Longrightarrow> unat v < 10 ^ k \<Longrightarrow> k \<le> index \<Longrightarrow>
   to_decimal_loop index v buf \<noteq> [] \<and> hd (to_decimal_loop index v buf) \<noteq> CHR ''0'' \<and>
   length (to_decimal_loop index v buf) \<le> k + length buf"
proof (induction index arbitrary: v buf k)
  case 0
  then show ?case by (simp add: unat_eq_0)
next
  case (Suc index)
  let ?c = "char_of (48 + unat (v mod 10)) :: char"
  have dig: "is_digit ?c \<and> digit_value ?c = unat (v mod 10)"
    by (rule digit_of_value) (simp add: unat_mod)
  obtain k' where k: "k = Suc k'"
    using Suc.prems(1,2) by (cases k) (auto simp: unat_eq_0)
  show ?case
  proof (cases "v div 10 = 0")
    case True
    then have "unat v div 10 = 0" by (metis unat_0 unat_div unat_numeral_10)
    then have small: "unat v < 10" by simp
    have "to_decimal_loop (Suc index) v buf = ?c # buf"
      using True Suc.prems(1) by (cases index) simp_all
    moreover have "digit_value ?c \<noteq> 0"
      using dig small Suc.prems(1) by (simp add: unat_mod unat_eq_0)
    ultimately show ?thesis
      using dig digit_value_zero [of ?c] by (simp add: k)
  next
    case False
    moreover have "unat (v div 10) < 10 ^ k'"
      using Suc.prems(2) by (simp add: k unat_div)
    ultimately show ?thesis
      using Suc.IH [of "v div 10" k' "?c # buf"] Suc.prems k by simp
  qed
qed

lemma unat_less_pow10: "unat (v :: u64) < 10 ^ 20"
  using unsigned_less [of v, where 'a = nat] by simp

lemma to_decimal_value:
  "list_all is_digit (to_decimal v) \<and> dec_nat 0 (to_decimal v) = unat v"
proof (cases "v = 0")
  case False
  have "unat v < 10 ^ 24" using unat_less_pow10 [of v] by simp
  from to_decimal_loop_value [OF this, of "[]"] False show ?thesis by (simp add: to_decimal_def)
qed (simp add: to_decimal_def is_digit_def digit_value_def)

lemma to_decimal_shape:
  "to_decimal v \<noteq> [] \<and> length (to_decimal v) \<le> 20 \<and>
   (hd (to_decimal v) = CHR ''0'' \<longrightarrow> length (to_decimal v) = 1)"
proof (cases "v = 0")
  case False
  from to_decimal_loop_shape [OF this unat_less_pow10, of 24 "[]"] False
  show ?thesis by (simp add: to_decimal_def)
qed (simp add: to_decimal_def)

text \<open>Two digit strings without a leading zero that denote the same number are equal.\<close>

lemma dec_nat_snoc: "dec_nat a (cs @ [c]) = 10 * dec_nat a cs + digit_value c"
  by (simp add: dec_nat_append)

lemma dec_nat_pos:
  "list_all is_digit cs \<Longrightarrow> cs \<noteq> [] \<Longrightarrow> hd cs \<noteq> CHR ''0'' \<Longrightarrow> 0 < dec_nat 0 cs"
proof (cases cs)
  case (Cons c ds)
  moreover assume "list_all is_digit cs" "hd cs \<noteq> CHR ''0''"
  ultimately have "0 < digit_value c" using digit_value_zero [of c] by auto
  with dec_nat_ge [of "digit_value c" ds] Cons show ?thesis by simp
qed simp

lemma dec_nat_inject:
  "list_all is_digit cs \<Longrightarrow> list_all is_digit ds \<Longrightarrow> cs \<noteq> [] \<longrightarrow> hd cs \<noteq> CHR ''0'' \<Longrightarrow>
   ds \<noteq> [] \<longrightarrow> hd ds \<noteq> CHR ''0'' \<Longrightarrow> dec_nat 0 cs = dec_nat 0 ds \<Longrightarrow> cs = ds"
proof (induction cs arbitrary: ds rule: rev_induct)
  case Nil
  then show ?case using dec_nat_pos [of ds] by (cases "ds = []") auto
next
  case (snoc c cs)
  have "0 < dec_nat 0 (cs @ [c])" using snoc.prems(1,3) by (intro dec_nat_pos) auto
  then have "ds \<noteq> []" using snoc.prems(5) by auto
  then obtain d es where ds: "ds = es @ [d]" by (metis rev_exhaust)
  have dig: "is_digit c" "is_digit d" using snoc.prems(1,2) ds by auto
  have le: "digit_value c \<le> 9" "digit_value d \<le> 9" using dig by (simp_all add: digit_value_le)
  have eq: "10 * dec_nat 0 cs + digit_value c = 10 * dec_nat 0 es + digit_value d"
    using snoc.prems(5) by (simp add: ds dec_nat_snoc)
  then have "dec_nat 0 cs = dec_nat 0 es" and v: "digit_value c = digit_value d"
    using le by presburger+
  moreover have "cs = es" if "dec_nat 0 cs = dec_nat 0 es"
  proof (rule snoc.IH)
    show "cs \<noteq> [] \<longrightarrow> hd cs \<noteq> CHR ''0''" using snoc.prems(3) by (cases cs) auto
    show "es \<noteq> [] \<longrightarrow> hd es \<noteq> CHR ''0''" using snoc.prems(4) ds by (cases es) auto
  qed (use snoc.prems ds that in simp_all)
  moreover have "c = d" using digit_char_value [OF dig(1)] digit_char_value [OF dig(2)] v by metis
  ultimately show ?case by (simp add: ds)
qed

lemma digits_unique:
  assumes "list_all is_digit cs" "list_all is_digit ds" "cs \<noteq> []" "ds \<noteq> []"
    and "length cs > 1 \<longrightarrow> hd cs \<noteq> CHR ''0''" "hd ds = CHR ''0'' \<longrightarrow> length ds = 1"
    and "dec_nat 0 cs = dec_nat 0 ds"
  shows "cs = ds"
proof -
  have zero: "xs = ''0''" if "list_all is_digit xs" "xs \<noteq> []" "dec_nat 0 xs = 0"
      "length xs > 1 \<longrightarrow> hd xs \<noteq> CHR ''0''" for xs
    using that dec_nat_pos [of xs] by (cases xs; cases "tl xs") auto
  show ?thesis
  proof (cases "dec_nat 0 cs = 0")
    case True
    then show ?thesis using zero [of cs] zero [of ds] assms by auto
  next
    case False
    have "hd xs \<noteq> CHR ''0''" if "xs \<noteq> []" "dec_nat 0 xs \<noteq> 0" "length xs > 1 \<longrightarrow> hd xs \<noteq> CHR ''0''" for xs
      using that by (cases xs) (auto simp: digit_value_def)
    from this [of cs] this [of ds] have "hd cs \<noteq> CHR ''0''" "hd ds \<noteq> CHR ''0''"
      using False assms by auto
    with assms show ?thesis by (intro dec_nat_inject) auto
  qed
qed

text \<open>The decimal parser is the exact inverse of the renderer, up to the caller's bound.\<close>

lemma parse_u64_decimal_iff:
  "parse_u64_decimal text m = Some v \<longleftrightarrow> text = to_decimal v \<and> v \<le> m"
proof
  assume "parse_u64_decimal text m = Some v"
  then have t: "text \<noteq> []" "length text > 1 \<longrightarrow> hd text \<noteq> CHR ''0''" "v \<le> m"
    and "parse_u64_loop 0 text = Some v"
    by (auto simp: parse_u64_decimal_def bind_eq_Some_conv split: if_splits)
  then have "list_all is_digit text" "dec_nat 0 text = unat v"
    by (simp_all add: parse_u64_loop_iff)
  then show "text = to_decimal v \<and> v \<le> m"
    using t to_decimal_value [of v] to_decimal_shape [of v]
    by (intro conjI digits_unique) auto
next
  assume *: "text = to_decimal v \<and> v \<le> m"
  have "unat v < 2 ^ 64" using unsigned_less [of v, where 'a = nat] by simp
  then have "parse_u64_loop 0 text = Some v"
    using to_decimal_value [of v] * by (simp add: parse_u64_loop_iff)
  then show "parse_u64_decimal text m = Some v"
    using * to_decimal_shape [of v] by (auto simp: parse_u64_decimal_def)
qed

end
