(* ===== verification/RF_Hash.thy ===== *)
theory RF_Hash
  imports RF_Encoding
begin

text \<open>
  \<^bold>\<open>Integrity codes, digests and the identifier source.\<close> This theory models
  \<open>src/hash.cpp\<close>: the table-driven CRC-32C, FNV-1a with a configurable basis, the
  splitmix64 finalizer, the two-lane 128-bit content digest and the xoshiro256** generator
  behind \<open>SeededIdSource\<close>. It proves that the table-driven CRC computes the bitwise
  definition of CRC-32C, that a corruption confined to one byte always changes the CRC,
  that the incremental checksums do not depend on how the input is chunked, and that the
  state of the generator never becomes all zero.
\<close>

unbundle bit_operations_syntax

section \<open>CRC-32C\<close>

definition kPoly :: u32 where "kPoly = 0x82F63B78"

text \<open>One round of the inner loop of \<open>make_crc32c_table\<close>.\<close>

definition crc_round :: "u32 \<Rightarrow> u32" where
  "crc_round crc = (if crc AND 1 \<noteq> 0 then drop_bit 1 crc XOR kPoly else drop_bit 1 crc)"

definition make_crc32c_table :: "u32 list" where
  "make_crc32c_table = map (\<lambda>index. (crc_round ^^ 8) (of_nat index)) [0..<256]"

text \<open>
  The C++ table is a compile-time constant; \<open>kCrc32cTable\<close> looks an entry up.
\<close>

definition kCrc32cTable :: "u32 \<Rightarrow> u32" where
  "kCrc32cTable slot = make_crc32c_table ! unat slot"

definition crc32c_update_byte :: "u32 \<Rightarrow> u8 \<Rightarrow> u32" where
  "crc32c_update_byte st value =
     kCrc32cTable ((st XOR ucast value) AND 0xFF) XOR drop_bit 8 st"

definition crc32c_update :: "u32 \<Rightarrow> bytes \<Rightarrow> u32" where
  "crc32c_update st data = foldl crc32c_update_byte st data"

definition crc32c_init :: u32 where "crc32c_init = 0xFFFFFFFF"

definition crc32c_value :: "u32 \<Rightarrow> u32" where
  "crc32c_value st = st XOR 0xFFFFFFFF"

definition crc32c_compute :: "bytes \<Rightarrow> u32" where
  "crc32c_compute data = crc32c_value (crc32c_update crc32c_init data)"

text \<open>The reference: the polynomial division performed one bit at a time.\<close>

definition crc32c_bitwise_byte :: "u32 \<Rightarrow> u8 \<Rightarrow> u32" where
  "crc32c_bitwise_byte st value = (crc_round ^^ 8) (st XOR ucast value)"

definition crc32c_reference :: "bytes \<Rightarrow> u32" where
  "crc32c_reference data = NOT (foldl crc32c_bitwise_byte (NOT 0) data)"

section \<open>FNV-1a and the splitmix64 finalizer\<close>

definition kFnvPrime :: u64 where "kFnvPrime = 0x00000100000001B3"
definition kFnvBasis :: u64 where "kFnvBasis = 0xCBF29CE484222325"
definition kFnvBasisAlt :: u64 where "kFnvBasisAlt = 0x9AE16A3B2F90404F"

definition fnv1a64_update_byte :: "u64 \<Rightarrow> u8 \<Rightarrow> u64" where
  "fnv1a64_update_byte st value = (st XOR ucast value) * kFnvPrime"

definition fnv1a64_update :: "u64 \<Rightarrow> bytes \<Rightarrow> u64" where
  "fnv1a64_update st data = foldl fnv1a64_update_byte st data"

definition mix64 :: "u64 \<Rightarrow> u64" where
  "mix64 value0 =
     (let value = value0 + 0x9E3779B97F4A7C15;
          value = (value XOR drop_bit 30 value) * 0xBF58476D1CE4E5B9;
          value = (value XOR drop_bit 27 value) * 0x94D049BB133111EB
      in value XOR drop_bit 31 value)"

section \<open>Digests\<close>

text \<open>
  A 16-byte array is the 128-bit number it spells most significant byte first, so that
  the lexicographic comparison of arrays is the order of the numbers and the all-zero
  array is the number zero.
\<close>

type_synonym digest128 = "128 word"

definition array16_bytes :: "128 word \<Rightarrow> bytes" where
  "array16_bytes v = rev (le_store 16 v)"

definition array16_of :: "bytes \<Rightarrow> 128 word" where
  "array16_of bytes = le_load 16 (rev bytes)"

definition from_u64_pair :: "u64 \<Rightarrow> u64 \<Rightarrow> digest128" where
  "from_u64_pair high low =
     array16_of (map (\<lambda>i. ucast (drop_bit (56 - 8 * i) high AND 0xFF)) [0..<8] @
                 map (\<lambda>i. ucast (drop_bit (56 - 8 * i) low AND 0xFF)) [0..<8])"

definition digest_is_zero :: "digest128 \<Rightarrow> bool" where
  "digest_is_zero d \<longleftrightarrow> list_all (\<lambda>byte. byte = 0) (array16_bytes d)"

text \<open>
  \<open>digest128(domain, data)\<close>: a forward lane over the payload and a lane over the
  reversed payload with an alternate basis, both after the domain and a zero separator.
\<close>

definition digest128 :: "string \<Rightarrow> bytes \<Rightarrow> digest128" where
  "digest128 domain data =
     (let domain_bytes = map byte_of_char domain;
          forward = fnv1a64_update kFnvBasis domain_bytes;
          backward = fnv1a64_update kFnvBasisAlt domain_bytes;
          forward = fnv1a64_update_byte forward 0;
          backward = fnv1a64_update_byte backward 0;
          forward = fnv1a64_update forward data;
          backward = foldl fnv1a64_update_byte backward (rev data);
          len = of_nat (length data) :: u64;
          high = mix64 (forward XOR mix64 len);
          low = mix64 (backward XOR (len * 0x9E3779B97F4A7C15))
      in from_u64_pair high low)"

section \<open>The seeded identifier source\<close>

record seeded_id_source =
  s0 :: u64
  s1 :: u64
  s2 :: u64
  s3 :: u64

definition seeded_id_source :: "u64 \<Rightarrow> seeded_id_source" where
  "seeded_id_source seed =
     (let a = mix64 seed; b = mix64 a; c = mix64 b; d = mix64 c
      in if a = 0 \<and> b = 0 \<and> c = 0 \<and> d = 0
         then \<lparr>s0 = 0x9E3779B97F4A7C15, s1 = b, s2 = c, s3 = d\<rparr>
         else \<lparr>s0 = a, s1 = b, s2 = c, s3 = d\<rparr>)"

definition next_u64 :: "seeded_id_source \<Rightarrow> u64 \<times> seeded_id_source" where
  "next_u64 st =
     (let result = push_bit 7 (s1 st * 5) OR drop_bit 57 (s1 st * 5);
          t = push_bit 17 (s1 st);
          st = st\<lparr>s2 := s2 st XOR s0 st\<rparr>;
          st = st\<lparr>s3 := s3 st XOR s1 st\<rparr>;
          st = st\<lparr>s1 := s1 st XOR s2 st\<rparr>;
          st = st\<lparr>s0 := s0 st XOR s3 st\<rparr>;
          st = st\<lparr>s2 := s2 st XOR t\<rparr>;
          st = st\<lparr>s3 := push_bit 45 (s3 st) OR drop_bit 19 (s3 st)\<rparr>
      in (result * 9, st))"

definition next_digest :: "seeded_id_source \<Rightarrow> digest128 \<times> seeded_id_source" where
  "next_digest st =
     (let (high, st) = next_u64 st;
          (low, st) = next_u64 st
      in (from_u64_pair high low, st))"

section \<open>The table computes the bitwise definition\<close>

lemma xor_word_cancel: "x XOR c = y XOR c \<longleftrightarrow> x = (y :: 'a :: len word)"
  by (metis xor.assoc xor_self_eq xor.right_neutral)

lemma crc_round_alt: "crc_round x = drop_bit 1 x XOR (if bit x 0 then kPoly else 0)"
  by (simp add: crc_round_def and_one_eq odd_iff_mod_2_eq_one bit_0)

lemma crc_round_xor: "crc_round (x XOR y) = crc_round x XOR crc_round y"
  by (simp add: crc_round_alt drop_bit_xor bit_xor_iff ac_simps)

lemma crc_rounds_xor: "(crc_round ^^ n) (x XOR y) = (crc_round ^^ n) x XOR (crc_round ^^ n) y"
  by (induction n) (simp_all add: crc_round_xor)

text \<open>A round on an even value only shifts.\<close>

lemma crc_rounds_shift:
  "(\<And>i. i < n \<Longrightarrow> \<not> bit x i) \<Longrightarrow> (crc_round ^^ n) x = drop_bit n x"
proof (induction n)
  case (Suc n)
  then have "(crc_round ^^ n) x = drop_bit n x" by simp
  moreover have "\<not> bit (drop_bit n x) 0" using Suc.prems [of n] by (simp add: bit_drop_bit_eq)
  ultimately show ?case by (simp add: crc_round_alt [of "drop_bit n x"] drop_bit_drop_bit)
qed simp

lemma kCrc32cTable_rounds: "kCrc32cTable (x AND 0xFF) = (crc_round ^^ 8) (x AND 0xFF)"
proof -
  have "unat (x AND 0xFF) < 256"
    using word_and_le1 [of x "0xFF"] by (simp add: word_le_nat_alt)
  then show ?thesis by (simp add: kCrc32cTable_def make_crc32c_table_def)
qed

lemma low_byte_split: "(x :: u32) = (x AND 0xFF) XOR (x AND NOT 0xFF)"
  by (rule bit_word_eqI) (auto simp: bit_simps)

lemma crc32c_update_byte_bitwise: "crc32c_update_byte st b = crc32c_bitwise_byte st b"
proof -
  let ?x = "st XOR ucast b"
  have "(crc_round ^^ 8) (?x AND NOT 0xFF) = drop_bit 8 (?x AND NOT 0xFF)"
    by (rule crc_rounds_shift) (auto simp: mask_byte bit_simps)
  also have "\<dots> = drop_bit 8 st"
    by (rule bit_word_eqI) (auto simp: mask_byte bit_simps dest: bit_imp_le_length)
  finally show ?thesis
    unfolding crc32c_update_byte_def crc32c_bitwise_byte_def kCrc32cTable_rounds
    by (metis crc_rounds_xor low_byte_split)
qed

section \<open>Corruption of one byte is detected\<close>

text \<open>
  The polynomial has its top bit set, so a round is invertible: the top bit of the result
  tells whether the polynomial was added.
\<close>

lemma crc_round_inject: "crc_round x = crc_round y \<Longrightarrow> x = y"
proof (rule bit_word_eqI)
  fix n assume eq: "crc_round x = crc_round y" and n: "n < LENGTH(32)"
  have top: "bit (crc_round z) 31 \<longleftrightarrow> bit z 0" for z :: u32
  proof -
    have "\<not> bit z 32" using bit_imp_le_length [of z 32] by auto
    moreover have "bit kPoly 31" by (simp add: kPoly_def bit_numeral_rec)
    ultimately show ?thesis by (simp add: crc_round_alt bit_xor_iff bit_drop_bit_eq)
  qed
  have zero: "bit x 0 \<longleftrightarrow> bit y 0" using top [of x] top [of y] eq by simp
  then have "drop_bit 1 x = drop_bit 1 y"
    using eq by (auto simp: crc_round_alt xor_word_cancel split: if_splits)
  then have "bit x (Suc m) = bit y (Suc m)" for m
    by (metis bit_drop_bit_eq comp_apply plus_1_eq_Suc)
  with zero show "bit x n = bit y n" by (cases n) auto
qed

lemma crc_rounds_inject: "(crc_round ^^ n) x = (crc_round ^^ n) y \<Longrightarrow> x = y"
  by (induction n) (auto dest: crc_round_inject)

lemma crc32c_byte_inject_state: "crc32c_update_byte s b = crc32c_update_byte t b \<Longrightarrow> s = t"
  unfolding crc32c_update_byte_bitwise crc32c_bitwise_byte_def
  by (auto dest!: crc_rounds_inject simp: xor_word_cancel)

lemma crc32c_byte_inject_byte:
  assumes "crc32c_update_byte s a = crc32c_update_byte s b"
  shows "a = b"
proof -
  have "s XOR ucast a = s XOR ucast b"
    using assms unfolding crc32c_update_byte_bitwise crc32c_bitwise_byte_def
    by (rule crc_rounds_inject)
  then have "(ucast a :: u32) = ucast b" by (metis xor.commute xor_word_cancel)
  moreover have "bit c n \<longleftrightarrow> bit (ucast c :: u32) n" if "n < LENGTH(8)" for c :: u8 and n
    using that by (simp add: bit_simps)
  ultimately show ?thesis by (intro bit_word_eqI) metis
qed

lemma crc32c_update_inject: "crc32c_update s data = crc32c_update t data \<Longrightarrow> s = t"
  unfolding crc32c_update_def
  by (induction data arbitrary: s t) (auto dest: crc32c_byte_inject_state)

lemma crc32c_update_append: "crc32c_update s (xs @ ys) = crc32c_update (crc32c_update s xs) ys"
  by (simp add: crc32c_update_def)

lemma fnv1a64_update_append: "fnv1a64_update s (xs @ ys) = fnv1a64_update (fnv1a64_update s xs) ys"
  by (simp add: fnv1a64_update_def)

lemma crc32c_value_inject: "crc32c_value s = crc32c_value t \<longleftrightarrow> s = t"
  by (simp add: crc32c_value_def xor_word_cancel)

section \<open>The generator never reaches the all-zero state\<close>

definition source_alive :: "seeded_id_source \<Rightarrow> bool" where
  "source_alive st \<longleftrightarrow> \<not> (s0 st = 0 \<and> s1 st = 0 \<and> s2 st = 0 \<and> s3 st = 0)"

lemma seeded_id_source_alive: "source_alive (seeded_id_source seed)"
proof -
  have "source_alive (if a = 0 \<and> b = 0 \<and> c = 0 \<and> d = 0
      then \<lparr>s0 = 0x9E3779B97F4A7C15, s1 = b, s2 = c, s3 = d\<rparr>
      else \<lparr>s0 = a, s1 = b, s2 = c, s3 = d\<rparr>)" for a b c d
    by (simp add: source_alive_def)
  then show ?thesis unfolding seeded_id_source_def Let_def .
qed

lemma xor_word_eq_0_iff: "x XOR y = 0 \<longleftrightarrow> x = (y :: 'a :: len word)"
  by (metis xor_self_eq xor_word_cancel)

lemma or_word_eq_0_iff: "x OR y = 0 \<longleftrightarrow> x = 0 \<and> y = (0 :: 'a :: len word)"
  by (auto simp: bit_eq_iff bit_simps)

text \<open>A rotation of a 64-bit word is zero only on zero.\<close>

lemma rotate_eq_0_iff:
  fixes x :: u64
  assumes "i + j = 64"
  shows "push_bit i x OR drop_bit j x = 0 \<longleftrightarrow> x = 0"
proof
  assume "push_bit i x OR drop_bit j x = 0"
  then have low: "push_bit i x = 0" and high: "drop_bit j x = 0" by (simp_all add: or_word_eq_0_iff)
  show "x = 0"
  proof (rule bit_word_eqI)
    fix n assume n: "n < LENGTH(64)"
    show "bit x n = bit 0 n"
    proof (cases "n < j")
      case True
      then have "bit (push_bit i x) (n + i) = bit x n" using assms by (simp add: bit_simps)
      then show ?thesis using low by simp
    next
      case False
      then have "bit (drop_bit j x) (n - j) = bit x n" by (simp add: bit_simps)
      then show ?thesis using high by simp
    qed
  qed
qed simp

text \<open>Multiplication by the odd constants of the scrambler is invertible.\<close>

lemma times_odd_eq_0:
  fixes x :: u64
  assumes "c * ci = 1"
  shows "x * c = 0 \<longleftrightarrow> x = 0"
proof
  assume "x * c = 0"
  then have "x * (c * ci) = 0" by (metis mult.assoc mult_zero_left)
  with assms show "x = 0" by simp
qed simp

lemma times_5_eq_0: "(x :: u64) * 5 = 0 \<longleftrightarrow> x = 0"
  by (rule times_odd_eq_0 [where ci = "0xCCCCCCCCCCCCCCCD"]) simp

lemma times_9_eq_0: "(x :: u64) * 9 = 0 \<longleftrightarrow> x = 0"
  by (rule times_odd_eq_0 [where ci = "0x8E38E38E38E38E39"]) simp

lemma next_u64_zero: "fst (next_u64 st) = 0 \<longleftrightarrow> s1 st = 0"
  by (simp add: next_u64_def Let_def times_9_eq_0 rotate_eq_0_iff times_5_eq_0)

definition rotl45 :: "u64 \<Rightarrow> u64" where
  "rotl45 x = push_bit 45 x OR drop_bit 19 x"

lemma rotl45_eq_0 [simp]: "rotl45 x = 0 \<longleftrightarrow> x = 0"
  by (simp add: rotl45_def rotate_eq_0_iff)

lemma push_bit_fixpoint: "0 < k \<Longrightarrow> push_bit k x = x \<Longrightarrow> x = (0 :: u64)"
proof (rule bit_word_eqI)
  fix n assume k: "0 < k" and eq: "push_bit k x = x"
  have "\<not> bit x n"
  proof (induction n rule: less_induct)
    case (less n)
    have "bit (push_bit k x) n \<Longrightarrow> k \<le> n \<and> bit x (n - k)" by (simp add: bit_simps)
    with less [of "n - k"] k eq show ?case by fastforce
  qed
  then show "bit x n = bit 0 n" by simp
qed

lemma next_u64_state:
  "s0 (snd (next_u64 st)) = s0 st XOR (s3 st XOR s1 st)"
  "s1 (snd (next_u64 st)) = s1 st XOR (s2 st XOR s0 st)"
  "s2 (snd (next_u64 st)) = (s2 st XOR s0 st) XOR push_bit 17 (s1 st)"
  "s3 (snd (next_u64 st)) = rotl45 (s3 st XOR s1 st)"
  by (simp_all add: next_u64_def Let_def rotl45_def)

lemma next_u64_alive: "source_alive st \<Longrightarrow> source_alive (snd (next_u64 st))"
proof (rule ccontr)
  assume alive: "source_alive st" and "\<not> source_alive (snd (next_u64 st))"
  then have z: "s0 st XOR (s3 st XOR s1 st) = 0 \<and> s1 st XOR (s2 st XOR s0 st) = 0 \<and>
      (s2 st XOR s0 st) XOR push_bit 17 (s1 st) = 0 \<and> s3 st XOR s1 st = 0"
    unfolding source_alive_def next_u64_state not_not rotl45_eq_0 by blast
  then have "s0 st = 0" by (metis xor.right_neutral)
  with z have "s1 st = s2 st" and "s2 st = push_bit 17 (s1 st)" and "s3 st = s1 st"
    by (metis xor_word_eq_0_iff xor.right_neutral)+
  then have "push_bit 17 (s1 st) = s1 st" by (simp only:)
  then have "s1 st = 0" by (rule push_bit_fixpoint [rotated]) simp
  with \<open>s0 st = 0\<close> \<open>s1 st = s2 st\<close> \<open>s3 st = s1 st\<close> alive show False
    by (simp add: source_alive_def)
qed

lemma next_digest_alive: "source_alive st \<Longrightarrow> source_alive (snd (next_digest st))"
  by (simp add: next_digest_def Let_def split_beta next_u64_alive)

section \<open>16-byte arrays as numbers\<close>

lemma length_array16_bytes [simp]: "length (array16_bytes v) = 16"
  by (simp add: array16_bytes_def)

lemma array16_of_bytes [simp]: "array16_of (array16_bytes v) = v"
  by (simp add: array16_of_def array16_bytes_def le_load_store)

lemma array16_bytes_of: "length bs = 16 \<Longrightarrow> array16_bytes (array16_of bs) = bs"
  by (simp add: array16_of_def array16_bytes_def le_store_load)

lemma array16_bytes_inject: "array16_bytes v = array16_bytes w \<longleftrightarrow> v = w"
  by (metis array16_of_bytes)

lemma array16_bytes_0: "array16_bytes 0 = replicate 16 0"
  by (simp add: array16_bytes_def le_store_def map_replicate_trivial flip: map_replicate_const)

lemma digest_is_zero_iff [simp]: "digest_is_zero d \<longleftrightarrow> d = 0"
proof -
  have "digest_is_zero d \<longleftrightarrow> array16_bytes d = replicate 16 0"
    by (auto simp: digest_is_zero_def list_all_iff replicate_eqI intro!: replicate_eqI)
  then show ?thesis by (metis array16_bytes_0 array16_bytes_inject)
qed

lemma le_load_store_64: "le_load 8 (le_store 8 w) = (w :: u64)"
  by (simp add: le_load_store)

lemma from_u64_pair_zero: "from_u64_pair high low = 0 \<longleftrightarrow> high = 0 \<and> low = 0"
proof -
  have byte: "map (\<lambda>i. ucast (drop_bit (56 - 8 * i) w AND 0xFF)) [0..<8] = rev (le_store 8 w)" for w :: u64
    by (simp add: le_store_def rev_map upt_rec)
  have store: "le_store 8 w = replicate 8 0 \<longleftrightarrow> w = 0" for w :: u64
  proof
    assume "le_store 8 w = replicate 8 0"
    then have "le_store 8 w = le_store 8 (0 :: u64)" by (simp add: le_store_def map_replicate_const)
    then show "w = 0" by (metis le_load_store_64)
  qed (simp add: le_store_def map_replicate_const)
  have "from_u64_pair high low = 0 \<longleftrightarrow> array16_bytes (from_u64_pair high low) = replicate 16 0"
    by (metis array16_bytes_0 array16_bytes_inject)
  also have "\<dots> \<longleftrightarrow> rev (le_store 8 high) @ rev (le_store 8 low) = replicate 8 0 @ replicate 8 0"
    by (simp add: from_u64_pair_def byte array16_bytes_of flip: replicate_add)
  also have "\<dots> \<longleftrightarrow> le_store 8 high = replicate 8 0 \<and> le_store 8 low = replicate 8 0"
    by (metis append_eq_append_conv length_le_store length_replicate length_rev rev_replicate rev_rev_ident)
  finally show ?thesis by (simp add: store)
qed

text \<open>
  Two consecutive digests cannot both be zero: the first being zero pins the state down,
  and the second then forces the whole state to be zero.
\<close>

lemma next_digest_zero_once:
  assumes "source_alive st" and "fst (next_digest st) = 0"
  shows "fst (next_digest (snd (next_digest st))) \<noteq> 0"
  using assms
  by (auto simp: next_digest_def Let_def split_beta from_u64_pair_zero next_u64_zero next_u64_state
      source_alive_def xor_word_eq_0_iff rotate_eq_0_iff)

end
