(* ===== verification/RF_Ids.thy ===== *)
theory RF_Ids
  imports RF_Hash
begin

text \<open>
  \<^bold>\<open>Identities.\<close> This theory models \<open>include/routefabric/ids.hpp\<close> and
  \<open>src/ids.cpp\<close>. A \<open>FixedId<Tag, 16>\<close> is a 128-bit number (its bytes most significant
  first), a \<open>TokenId\<close> a checked string, a \<open>CounterId\<close> a 64-bit word whose increment is
  checked. The tags of the C++ templates only keep the types apart; here they are type
  synonyms. Every identity has a binary codec and a text form, and both are shown to be
  inverse to each other; \<open>generate_id\<close> is shown to return, although it is written as an
  unbounded loop.
\<close>

unbundle bit_operations_syntax

type_synonym fixed_id = "128 word"
type_synonym route_id = fixed_id
type_synonym route_snapshot_id = fixed_id
type_synonym mutation_attempt_id = fixed_id
type_synonym programming_attempt_id = fixed_id
type_synonym worker_boot_id = fixed_id
type_synonym path_id = fixed_id
type_synonym next_hop_id = fixed_id
type_synonym next_hop_group_id = fixed_id
type_synonym destination_id = fixed_id

type_synonym token_id = string
type_synonym publisher_id = token_id
type_synonym backend_id = token_id
type_synonym fabric_id = token_id
type_synonym routing_namespace = token_id

type_synonym counter_id = u64
type_synonym route_generation = counter_id
type_synonym route_authority_generation = counter_id
type_synonym coordinator_epoch = counter_id
type_synonym path_authority_generation = counter_id
type_synonym policy_generation = counter_id
type_synonym programming_generation = counter_id

section \<open>Text helpers\<close>

definition char_between :: "char \<Rightarrow> char \<Rightarrow> char \<Rightarrow> bool" where
  "char_between lo c hi \<longleftrightarrow> lo \<le> c \<and> c \<le> hi"

definition is_token_char :: "char \<Rightarrow> bool" where
  "is_token_char c \<longleftrightarrow>
     (let digit = char_between CHR ''0'' c CHR ''9'';
          lower = char_between CHR ''a'' c CHR ''z'';
          upper = char_between CHR ''A'' c CHR ''Z''
      in digit \<or> lower \<or> upper \<or> c = CHR ''.'' \<or> c = CHR ''_'' \<or> c = CHR ''-'')"

definition is_alphanumeric :: "char \<Rightarrow> bool" where
  "is_alphanumeric c \<longleftrightarrow>
     char_between CHR ''0'' c CHR ''9'' \<or> char_between CHR ''a'' c CHR ''z'' \<or>
     char_between CHR ''A'' c CHR ''Z''"

definition is_valid_token_text :: "string \<Rightarrow> nat \<Rightarrow> bool" where
  "is_valid_token_text text max_length \<longleftrightarrow>
     (if text = [] \<or> length text > max_length then False
      else if \<not> is_alphanumeric (hd text) then False
      else list_all is_token_char text)"

definition kHexDigits :: string where "kHexDigits = ''0123456789abcdef''"

text \<open>\<open>hex_value\<close> returns the digit, or \<open>None\<close> where the source returns -1.\<close>

definition hex_value :: "char \<Rightarrow> nat option" where
  "hex_value c =
     (let n = of_char c :: nat
      in if char_between CHR ''0'' c CHR ''9'' then Some (n - 48)
         else if char_between CHR ''a'' c CHR ''f'' then Some (n - 97 + 10)
         else if char_between CHR ''A'' c CHR ''F'' then Some (n - 65 + 10)
         else None)"

definition hex_byte :: "u8 \<Rightarrow> string" where
  "hex_byte b = [kHexDigits ! unat (drop_bit 4 b AND 0x0F), kHexDigits ! unat (b AND 0x0F)]"

definition render_hex :: "bytes \<Rightarrow> string" where
  "render_hex bytes = concat (map hex_byte bytes)"

text \<open>
  The loop of \<open>parse_hex_bytes\<close> over the pairs of characters; the size test in front of
  the loop is in \<open>parse_hex_bytes\<close>.
\<close>

fun parse_hex_pairs :: "string \<Rightarrow> bytes option" where
  "parse_hex_pairs (a # b # cs) =
     (case (hex_value a, hex_value b) of
        (Some hi, Some lo) \<Rightarrow>
          map_option ((#) (of_nat (push_bit 4 hi OR lo))) (parse_hex_pairs cs)
      | _ \<Rightarrow> None)"
| "parse_hex_pairs _ = Some []"

definition parse_hex_bytes :: "string \<Rightarrow> nat \<Rightarrow> bytes option" where
  "parse_hex_bytes hex out_size =
     (if length hex \<noteq> out_size * 2 then None else parse_hex_pairs hex)"

section \<open>FixedId\<close>

definition fixed_is_valid :: "fixed_id \<Rightarrow> bool" where
  "fixed_is_valid i \<longleftrightarrow> \<not> list_all (\<lambda>byte. byte = 0) (array16_bytes i)"

definition fixed_render :: "fixed_id \<Rightarrow> string" where
  "fixed_render i = render_hex (array16_bytes i)"

definition fixed_parse :: "string \<Rightarrow> fixed_id expected" where
  "fixed_parse hex =
     (if length hex \<noteq> 16 * 2 then Inl SC_MalformedEncoding
      else case parse_hex_bytes hex 16 of
             None \<Rightarrow> Inl SC_MalformedEncoding
           | Some bytes \<Rightarrow>
               let i = array16_of bytes
               in if \<not> fixed_is_valid i then Inl SC_MalformedEncoding else Inr i)"

definition w_fixed :: "fixed_id \<Rightarrow> bytes" where
  "w_fixed i = array16_bytes i"

definition rd_fixed :: "fixed_id reader" where
  "rd_fixed data = do {
     (raw, data) \<leftarrow> rd_raw 16 data;
     let out = array16_of raw;
     if fixed_is_valid out then Some (out, data) else None }"

definition fixed_from_digest :: "digest128 \<Rightarrow> fixed_id" where
  "fixed_from_digest digest = array16_of (array16_bytes digest)"

section \<open>TokenId\<close>

text \<open>All four token types of the repository have \<open>MaxLength\<close> 64.\<close>

definition kTokenMaxLength :: nat where "kTokenMaxLength = 64"

definition token_is_valid :: "token_id \<Rightarrow> bool" where
  "token_is_valid t \<longleftrightarrow> is_valid_token_text t kTokenMaxLength"

definition token_parse :: "string \<Rightarrow> token_id expected" where
  "token_parse text =
     (if \<not> is_valid_token_text text kTokenMaxLength then Inl SC_MalformedEncoding else Inr text)"

definition w_token :: "token_id \<Rightarrow> bytes" where
  "w_token t = w_string t"

definition rd_token :: "token_id reader" where
  "rd_token data = do {
     (text, data) \<leftarrow> rd_string kTokenMaxLength data;
     if \<not> is_valid_token_text text kTokenMaxLength then None else Some (text, data) }"

section \<open>CounterId\<close>

definition kMaxValue :: u64 where "kMaxValue = 0xFFFFFFFFFFFFFFFE"

definition counter_is_valid :: "counter_id \<Rightarrow> bool" where
  "counter_is_valid c \<longleftrightarrow> c \<noteq> 0"

definition counter_parse :: "string \<Rightarrow> counter_id expected" where
  "counter_parse text =
     (case parse_u64_decimal text kMaxValue of
        None \<Rightarrow> Inl SC_MalformedEncoding
      | Some value \<Rightarrow> if value = 0 then Inl SC_MalformedEncoding else Inr value)"

definition counter_next :: "counter_id \<Rightarrow> counter_id expected" where
  "counter_next c = (if c \<ge> kMaxValue then Inl SC_StaleGeneration else Inr (c + 1))"

definition w_counter :: "counter_id \<Rightarrow> bytes" where
  "w_counter c = w_u64 c"

definition rd_counter :: "counter_id reader" where
  "rd_counter data = do {
     (value, data) \<leftarrow> rd_u64 data;
     if value = 0 \<or> value > kMaxValue then None else Some (value, data) }"

section \<open>Generating identities\<close>

text \<open>\<open>generate_id\<close> redraws until the digest is not all zero.\<close>

partial_function (option) generate_id :: "seeded_id_source \<Rightarrow> (fixed_id \<times> seeded_id_source) option" where
  "generate_id source =
     (let (digest, source) = next_digest source;
          candidate = fixed_from_digest digest
      in if fixed_is_valid candidate then Some (candidate, source) else generate_id source)"

section \<open>Validity\<close>

lemma fixed_is_valid_iff [simp]: "fixed_is_valid i \<longleftrightarrow> i \<noteq> 0"
  using digest_is_zero_iff [of i] by (simp add: fixed_is_valid_def digest_is_zero_def del: digest_is_zero_iff)

lemma fixed_from_digest_id [simp]: "fixed_from_digest d = d"
  by (simp add: fixed_from_digest_def)

text \<open>
  The loop returns after at most two draws from any state a source can have, and leaves
  the source in such a state again.
\<close>

lemma generate_id_returns:
  assumes "source_alive source"
  shows "\<exists>i source'. generate_id source = Some (i, source') \<and> i \<noteq> 0 \<and> source_alive source'"
proof (cases "fst (next_digest source) = 0")
  case False
  then show ?thesis
    using next_digest_alive [OF assms]
    by (subst generate_id.simps) (cases "next_digest source", auto simp: Let_def)
next
  case True
  let ?s = "snd (next_digest source)"
  have alive: "source_alive ?s" using assms by (rule next_digest_alive)
  have "fst (next_digest ?s) \<noteq> 0" using next_digest_zero_once [OF assms True] .
  then have "generate_id ?s = Some (fst (next_digest ?s), snd (next_digest ?s))"
    by (subst generate_id.simps) (auto simp: split_beta Let_def)
  moreover have "generate_id source = generate_id ?s"
    using True by (subst generate_id.simps) (auto simp: split_beta Let_def)
  ultimately show ?thesis
    using \<open>fst (next_digest ?s) \<noteq> 0\<close> next_digest_alive [OF alive]
    by (cases "next_digest ?s") auto
qed

section \<open>Binary codecs\<close>

interpretation fixed_codec: codec w_fixed rd_fixed "\<lambda>i. i \<noteq> 0"
proof unfold_locales
  show "i \<noteq> 0 \<Longrightarrow> rd_fixed (w_fixed i @ rest) = Some (i, rest)" for i rest
    by (simp add: w_fixed_def rd_fixed_def codec)
next
  fix data i rest assume "rd_fixed data = Some (i, rest)"
  then show "i \<noteq> 0 \<and> data = w_fixed i @ rest"
    by (auto simp: rd_fixed_def w_fixed_def bind_eq_Some_conv Let_def array16_bytes_of
        dest!: raw_canonical split: if_splits)
qed

interpretation token_codec: codec w_token rd_token token_is_valid
proof unfold_locales
  show "token_is_valid t \<Longrightarrow> rd_token (w_token t @ rest) = Some (t, rest)" for t rest
    by (simp add: w_token_def rd_token_def token_is_valid_def codec kTokenMaxLength_def
        is_valid_token_text_def split: if_splits)
next
  fix data t rest assume "rd_token data = Some (t, rest)"
  then show "token_is_valid t \<and> data = w_token t @ rest"
    by (auto simp: rd_token_def w_token_def token_is_valid_def bind_eq_Some_conv
        dest!: string_codec.read_data split: if_splits)
qed

definition counter_wire_valid :: "counter_id \<Rightarrow> bool" where
  "counter_wire_valid c \<longleftrightarrow> c \<noteq> 0 \<and> c \<le> kMaxValue"

interpretation counter_codec: codec w_counter rd_counter counter_wire_valid
proof unfold_locales
  show "counter_wire_valid c \<Longrightarrow> rd_counter (w_counter c @ rest) = Some (c, rest)" for c rest
    by (simp add: w_counter_def rd_counter_def counter_wire_valid_def codec not_less)
next
  fix data c rest assume "rd_counter data = Some (c, rest)"
  then show "counter_wire_valid c \<and> data = w_counter c @ rest"
    by (auto simp: rd_counter_def w_counter_def counter_wire_valid_def bind_eq_Some_conv
        dest!: u64_codec.read_data split: if_splits)
qed

lemmas id_codecs [codec] =
  fixed_codec.read_write token_codec.read_write counter_codec.read_write

section \<open>Text forms\<close>

text \<open>
  What a text form promises: a valid value is read back from its rendering, and the
  parser returns valid values only.
\<close>

locale text_form =
  fixes render :: "'a \<Rightarrow> string" and parse :: "string \<Rightarrow> 'a expected" and wf :: "'a \<Rightarrow> bool"
  assumes parse_render: "wf x \<Longrightarrow> parse (render x) = Inr x"
    and parse_wf: "parse t = Inr x \<Longrightarrow> wf x"
begin

lemma render_inject: "wf x \<Longrightarrow> wf y \<Longrightarrow> render x = render y \<Longrightarrow> x = y"
  by (metis parse_render sum.inject(2))

lemma parse_normalizes: "parse t = Inr x \<Longrightarrow> parse (render x) = parse t"
  by (simp add: parse_render parse_wf)

end

lemma counter_parse_iff: "counter_parse t = Inr v \<longleftrightarrow> t = to_decimal v \<and> counter_wire_valid v"
proof -
  have "counter_parse t = Inr v \<longleftrightarrow> parse_u64_decimal t kMaxValue = Some v \<and> v \<noteq> 0"
    by (auto simp: counter_parse_def split: option.splits if_splits)
  then show ?thesis by (auto simp: parse_u64_decimal_iff counter_wire_valid_def)
qed

interpretation counter_text: text_form to_decimal counter_parse counter_wire_valid
  by unfold_locales (simp_all add: counter_parse_iff)

interpretation token_text: text_form "\<lambda>t. t" token_parse token_is_valid
  by unfold_locales (auto simp: token_parse_def token_is_valid_def split: if_splits)

text \<open>Hexadecimal text: a byte is two digits, high nibble first.\<close>

lemma hex_value_digit: "n < 16 \<Longrightarrow> hex_value (kHexDigits ! n) = Some n"
proof -
  assume "n < 16"
  moreover have "list_all (\<lambda>i. hex_value (kHexDigits ! i) = Some i) [0..<16]"
    by (simp add: upt_rec kHexDigits_def hex_value_def char_between_def less_eq_char_def)
  ultimately show ?thesis by (simp add: list_all_iff)
qed

lemma nibble_less: "unat ((x :: u8) AND 0x0F) < 16"
  using word_and_le1 [of x "0x0F"] by (simp add: word_le_nat_alt)

lemma mask_nibble: "(0x0F :: 'a :: len word) = mask 4"
  by (simp add: mask_eq_exp_minus_1)

lemma nibbles_join:
  "of_nat (push_bit 4 (unat (drop_bit 4 b AND 0x0F)) OR unat (b AND 0x0F)) = (b :: u8)"
  by (rule bit_word_eqI) (auto simp: bit_simps mask_nibble)

lemma parse_hex_render: "parse_hex_pairs (render_hex bs) = Some bs"
  by (induction bs)
    (simp_all add: render_hex_def hex_byte_def hex_value_digit nibble_less nibbles_join del: drop_bit_of_nat)

lemma length_render_hex [simp]: "length (render_hex bs) = 2 * length bs"
  by (induction bs) (simp_all add: render_hex_def hex_byte_def)

interpretation fixed_text: text_form fixed_render fixed_parse "\<lambda>i. i \<noteq> 0"
proof unfold_locales
  show "i \<noteq> 0 \<Longrightarrow> fixed_parse (fixed_render i) = Inr i" for i
    by (simp add: fixed_parse_def fixed_render_def parse_hex_bytes_def parse_hex_render)
  show "fixed_parse t = Inr i \<Longrightarrow> i \<noteq> 0" for t i
    by (auto simp: fixed_parse_def Let_def split: if_splits option.splits)
qed

section \<open>Counters\<close>

lemma counter_next_Inr_iff: "counter_next c = Inr d \<longleftrightarrow> c < kMaxValue \<and> d = c + 1"
  by (auto simp: counter_next_def not_le)

text \<open>A successful increment is the successor of the number: it never wraps.\<close>

lemma counter_next_unat:
  assumes "counter_next c = Inr d"
  shows "unat d = unat c + 1" and "c < d" and "counter_wire_valid d"
proof -
  from assms have c: "c < kMaxValue" and d: "d = c + 1" by (simp_all add: counter_next_Inr_iff)
  from c have lt: "unat c < 0xFFFFFFFFFFFFFFFE" by (simp add: word_less_nat_alt kMaxValue_def)
  then show u: "unat d = unat c + 1" by (simp add: d unat_word_ariths)
  then show "c < d" by (simp add: word_less_nat_alt)
  have "d \<noteq> 0" using u by (auto simp: unat_eq_0)
  moreover have "d \<le> kMaxValue" using u lt by (simp add: word_le_nat_alt kMaxValue_def)
  ultimately show "counter_wire_valid d" by (simp add: counter_wire_valid_def)
qed

end
