(* ===== verification/RF_PathAuthority.thy ===== *)
theory RF_PathAuthority
  imports RF_Containers RF_Ids
begin

text \<open>
  \<^bold>\<open>Path Authority.\<close> This theory models \<open>include/routefabric/path_authority.hpp\<close> and
  \<open>src/path_authority.cpp\<close>. The consumption interface \<open>IPathAuthority\<close> is a query
  function; the shipped in-memory authority is a map from paths to a generation and an
  authorization state. The locale states what the runtime relies on: the answer is about
  the path asked, and invalidating a path strictly advances its generation.
\<close>

datatype path_authorization =
    PA_Usable
  | PA_RevalidationRequired
  | PA_Rejected
  | PA_Revoked
  | PA_Stale
  | PA_Retired

fun path_authorization_raw :: "path_authorization \<Rightarrow> u8" where
  "path_authorization_raw PA_Usable = 1"
| "path_authorization_raw PA_RevalidationRequired = 2"
| "path_authorization_raw PA_Rejected = 3"
| "path_authorization_raw PA_Revoked = 4"
| "path_authorization_raw PA_Stale = 5"
| "path_authorization_raw PA_Retired = 6"

definition path_authorization_values :: "path_authorization list" where
  "path_authorization_values =
     [PA_Usable, PA_RevalidationRequired, PA_Rejected, PA_Revoked,
      PA_Stale, PA_Retired]"

fun path_authorization_to_string :: "path_authorization \<Rightarrow> string" where
  "path_authorization_to_string PA_Usable = ''USABLE''"
| "path_authorization_to_string PA_RevalidationRequired = ''REVALIDATION_REQUIRED''"
| "path_authorization_to_string PA_Rejected = ''REJECTED''"
| "path_authorization_to_string PA_Revoked = ''REVOKED''"
| "path_authorization_to_string PA_Stale = ''STALE''"
| "path_authorization_to_string PA_Retired = ''RETIRED''"

definition parse_path_authorization :: "string \<Rightarrow> path_authorization option" where
  "parse_path_authorization text = parse_by_name path_authorization_to_string path_authorization_values text"

record path_authority_result =
  pr_path :: path_id
  pr_generation :: path_authority_generation
  pr_state :: path_authorization

definition usable :: "path_authority_result \<Rightarrow> bool" where
  "usable r \<longleftrightarrow> pr_state r = PA_Usable"

section \<open>The synthetic authority\<close>

record path_entry =
  pe_generation :: path_authority_generation
  pe_state :: path_authorization

type_synonym synthetic_path_authority = "(path_id, path_entry) omap"

definition SetPath ::
  "synthetic_path_authority \<Rightarrow> path_id \<Rightarrow> path_authority_generation \<Rightarrow> path_authorization \<Rightarrow>
   status \<times> synthetic_path_authority" where
  "SetPath paths path generation state =
     (if \<not> fixed_is_valid path then (Inl SC_InvalidArgument, paths)
      else if \<not> counter_is_valid generation then (Inl SC_InvalidArgument, paths)
      else (ok_status, om_set path \<lparr>pe_generation = generation, pe_state = state\<rparr> paths))"

definition Invalidate ::
  "synthetic_path_authority \<Rightarrow> path_id \<Rightarrow> path_authorization \<Rightarrow>
   path_authority_generation expected \<times> synthetic_path_authority" where
  "Invalidate paths path state =
     (case om_find paths path of
        None \<Rightarrow> (Inl SC_NotFound, paths)
      | Some entry \<Rightarrow>
          (case counter_next (pe_generation entry) of
             Inl e \<Rightarrow> (Inl e, paths)
           | Inr generation \<Rightarrow>
               (Inr generation, om_set path \<lparr>pe_generation = generation, pe_state = state\<rparr> paths)))"

definition Remove :: "synthetic_path_authority \<Rightarrow> path_id \<Rightarrow> bool \<times> synthetic_path_authority" where
  "Remove paths path = (om_contains paths path, om_erase path paths)"

definition Query :: "synthetic_path_authority \<Rightarrow> path_id \<Rightarrow> path_authority_result" where
  "Query paths path =
     (case om_find paths path of
        None \<Rightarrow> \<lparr>pr_path = path, pr_generation = 1, pr_state = PA_Rejected\<rparr>
      | Some entry \<Rightarrow>
          \<lparr>pr_path = path, pr_generation = pe_generation entry, pr_state = pe_state entry\<rparr>)"

definition path_count :: "synthetic_path_authority \<Rightarrow> nat" where
  "path_count paths = length paths"

section \<open>The interface\<close>

interpretation path_authorization_enum:
  named_enum path_authorization_raw path_authorization_values path_authorization_to_string
proof unfold_locales
  show "e \<in> set path_authorization_values" for e
    by (cases e) (simp_all add: path_authorization_values_def)
qed (simp_all add: path_authorization_values_def)

text \<open>
  An authority with an update and a query operation. A path that was never set does not
  authorize, a set is answered back, other paths are not affected, and a successful
  invalidation makes every answer given before it stale.
\<close>

locale path_authority =
  fixes query :: "'s \<Rightarrow> path_id \<Rightarrow> path_authority_result"
    and set_path :: "'s \<Rightarrow> path_id \<Rightarrow> path_authority_generation \<Rightarrow> path_authorization \<Rightarrow> status \<times> 's"
    and invalidate :: "'s \<Rightarrow> path_id \<Rightarrow> path_authorization \<Rightarrow> path_authority_generation expected \<times> 's"
    and wf :: "'s \<Rightarrow> bool"
  assumes query_path: "pr_path (query s p) = p"
    and query_set: "wf s \<Longrightarrow> set_path s p g a = (ok_status, s') \<Longrightarrow>
      query s' q = (if q = p then \<lparr>pr_path = p, pr_generation = g, pr_state = a\<rparr> else query s q)"
    and query_invalidate: "wf s \<Longrightarrow> invalidate s p a = (Inr g, s') \<Longrightarrow>
      query s' q = (if q = p then \<lparr>pr_path = p, pr_generation = g, pr_state = a\<rparr> else query s q)"
    and invalidate_next: "invalidate s p a = (Inr g, s') \<Longrightarrow>
      counter_next (pr_generation (query s p)) = Inr g"
    and wf_set: "wf s \<Longrightarrow> wf (snd (set_path s p g a))"
    and wf_invalidate: "wf s \<Longrightarrow> wf (snd (invalidate s p a))"
begin

lemma invalidated_is_stale:
  assumes "wf s" and "invalidate s p a = (Inr g, s')"
  shows "pr_generation (query s p) < pr_generation (query s' p)"
    and "pr_state (query s' p) = a"
  using assms query_invalidate [OF assms, of p] counter_next_unat(2) [OF invalidate_next]
  by auto

end

interpretation synthetic_authority: path_authority Query SetPath Invalidate om_wf
proof unfold_locales
  show "pr_path (Query s p) = p" for s p by (simp add: Query_def split: option.splits)
  show "om_wf s \<Longrightarrow> SetPath s p g a = (ok_status, s') \<Longrightarrow>
      Query s' q = (if q = p then \<lparr>pr_path = p, pr_generation = g, pr_state = a\<rparr> else Query s q)"
    for s p g a s' q
    by (auto simp: SetPath_def Query_def split: if_splits)
  show "om_wf s \<Longrightarrow> Invalidate s p a = (Inr g, s') \<Longrightarrow>
      Query s' q = (if q = p then \<lparr>pr_path = p, pr_generation = g, pr_state = a\<rparr> else Query s q)"
    for s p a g s' q
    by (auto simp: Invalidate_def Query_def split: option.splits sum.splits)
  show "Invalidate s p a = (Inr g, s') \<Longrightarrow> counter_next (pr_generation (Query s p)) = Inr g"
    for s p a g s'
    by (auto simp: Invalidate_def Query_def split: option.splits sum.splits)
  show "om_wf s \<Longrightarrow> om_wf (snd (SetPath s p g a))" for s p g a
    by (simp add: SetPath_def om_wf_set)
  show "om_wf s \<Longrightarrow> om_wf (snd (Invalidate s p a))" for s p a
    by (auto simp: Invalidate_def om_wf_set split: option.splits sum.splits)
qed

end
