(* ===== verification/RF_PathsFile.thy ===== *)
theory RF_PathsFile
  imports RF_PathAuthority
begin

text \<open>
  \<^bold>\<open>The path authority file.\<close> The input file that \<open>tools/rf_cli.cpp\<close> edits and that
  \<open>tools/rf_coordinator.cpp\<close> reads at its start: one path per line with its generation and
  state. What is written is read back.
\<close>

section \<open>Lines and words\<close>

definition line_feed :: char where "line_feed = CHR 0x0A"

text \<open>\<open>std::getline\<close> until the end of the input.\<close>

function getlines :: "string \<Rightarrow> string list" where
  "getlines input =
     (if input = [] then []
      else takeWhile (\<lambda>c. c \<noteq> line_feed) input # getlines (drop 1 (dropWhile (\<lambda>c. c \<noteq> line_feed) input)))"
  by pat_completeness auto
termination
proof (relation "measure length")
  fix input :: string
  assume "input \<noteq> []"
  then have "length (drop 1 (dropWhile (\<lambda>c. c \<noteq> line_feed) input)) < length input"
    using length_dropWhile_le [of "\<lambda>c. c \<noteq> line_feed" input] by (cases input) auto
  then show "(drop 1 (dropWhile (\<lambda>c. c \<noteq> line_feed) input), input) \<in> measure length" by simp
qed simp

declare getlines.simps [simp del]

definition is_space :: "char \<Rightarrow> bool" where
  "is_space c \<longleftrightarrow> c \<in> {CHR 0x20, CHR 0x09, CHR 0x0A, CHR 0x0B, CHR 0x0C, CHR 0x0D}"

text \<open>Extraction of strings from a stream until it fails.\<close>

function stream_words :: "string \<Rightarrow> string list" where
  "stream_words input =
     (let rest = dropWhile is_space input
      in if rest = [] then []
         else takeWhile (\<lambda>c. \<not> is_space c) rest # stream_words (dropWhile (\<lambda>c. \<not> is_space c) rest))"
  by pat_completeness auto
termination
proof (relation "measure length")
  fix input rest :: string
  assume rest: "rest = dropWhile is_space input" and "rest \<noteq> []"
  then have "\<not> is_space (hd rest)" using hd_dropWhile [of is_space input] by (auto simp: dropWhile_eq_Nil_conv)
  then have "length (dropWhile (\<lambda>c. \<not> is_space c) rest) < length rest"
    using \<open>rest \<noteq> []\<close> length_dropWhile_le [of "\<lambda>c. \<not> is_space c" "tl rest"] by (cases rest) auto
  also have "length rest \<le> length input" unfolding rest by (rule length_dropWhile_le)
  finally show "(dropWhile (\<lambda>c. \<not> is_space c) rest, input) \<in> measure length" by simp
qed simp

declare stream_words.simps [simp del]

section \<open>Loading and saving\<close>

record path_line =
  pl_path :: path_id
  pl_generation :: path_authority_generation
  pl_state :: path_authorization

definition parse_path_line :: "string \<Rightarrow> path_line option" where
  "parse_path_line line =
     (case stream_words line of
        [path_text, generation_text, state_text] \<Rightarrow>
          (case (fixed_parse path_text, counter_parse generation_text, parse_path_authorization state_text) of
             (Inr path, Inr generation, Some state) \<Rightarrow>
               Some \<lparr>pl_path = path, pl_generation = generation, pl_state = state\<rparr>
           | _ \<Rightarrow> None)
      | _ \<Rightarrow> None)"

definition ignored_line :: "string \<Rightarrow> bool" where
  "ignored_line line \<longleftrightarrow> line = [] \<or> hd line = CHR 0x23"

fun parse_path_lines :: "string list \<Rightarrow> path_line list option" where
  "parse_path_lines [] = Some []"
| "parse_path_lines (line # lines) =
     (if ignored_line line then parse_path_lines lines
      else case parse_path_line line of
             None \<Rightarrow> None
           | Some entry \<Rightarrow> (case parse_path_lines lines of None \<Rightarrow> None | Some entries \<Rightarrow> Some (entry # entries)))"

text \<open>
  \<open>None\<close> is the cleared flag \<open>ok\<close>. The contents of a file are \<open>None\<close> when it cannot be opened.
\<close>

definition load_paths :: "string \<Rightarrow> (string \<Rightarrow> string option) \<Rightarrow> path_line list option" where
  "load_paths file contents =
     (if file = [] then Some []
      else case contents file of
             None \<Rightarrow> None
           | Some input \<Rightarrow> parse_path_lines (getlines input))"

definition render_path_line :: "path_line \<Rightarrow> string" where
  "render_path_line entry =
     fixed_render (pl_path entry) @ '' '' @ to_decimal (pl_generation entry) @ '' '' @
     path_authorization_to_string (pl_state entry)"

definition paths_header :: string where "paths_header = ''# path-id path-authority-generation state''"

definition paths_text :: "path_line list \<Rightarrow> string" where
  "paths_text entries =
     paths_header @ [line_feed] @
     concat (map (\<lambda>entry. render_path_line entry @ [line_feed]) entries)"

fun find_path :: "path_line list \<Rightarrow> path_id \<Rightarrow> path_line option" where
  "find_path [] path = None"
| "find_path (entry # entries) path = (if pl_path entry = path then Some entry else find_path entries path)"

text \<open>Assignment through the pointer that \<open>find_path\<close> returns: the first entry of the path.\<close>

fun set_path :: "path_id \<Rightarrow> path_authority_generation \<Rightarrow> path_authorization \<Rightarrow> path_line list \<Rightarrow> path_line list" where
  "set_path path generation state [] = []"
| "set_path path generation state (entry # entries) =
     (if pl_path entry = path then entry\<lparr>pl_generation := generation, pl_state := state\<rparr> # entries
      else entry # set_path path generation state entries)"

section \<open>What is written is read back\<close>

lemma getlines_line: "line_feed \<notin> set line \<Longrightarrow> getlines (line @ line_feed # input) = line # getlines input"
  by (subst getlines.simps) (simp add: takeWhile_append dropWhile_append takeWhile_eq_all_conv)

lemma stream_words_end: "stream_words [] = []"
  by (simp add: stream_words.simps)

lemma stream_words_word:
  assumes "word \<noteq> []" and "list_all (\<lambda>c. \<not> is_space c) word" and "input = [] \<or> is_space (hd input)"
  shows "stream_words (word @ input) = word # stream_words input"
proof -
  have start: "dropWhile is_space (word @ input) = word @ input"
    using assms(1,2) by (cases word) simp_all
  have "takeWhile (\<lambda>c. \<not> is_space c) (word @ input) = word" "dropWhile (\<lambda>c. \<not> is_space c) (word @ input) = input"
    using assms(2,3) by (cases input; simp add: list_all_iff takeWhile_append dropWhile_append)+
  then show ?thesis using assms(1) by (simp add: stream_words.simps [of "word @ input"] start Let_def)
qed

lemma stream_words_space: "stream_words ('' '' @ input) = stream_words input"
  by (simp add: stream_words.simps [of "CHR '' '' # input"] stream_words.simps [of input] is_space_def)

text \<open>Texts without blanks.\<close>

definition solid :: "string \<Rightarrow> bool" where
  "solid input \<longleftrightarrow> input \<noteq> [] \<and> list_all (\<lambda>c. \<not> is_space c) input"

lemma stream_words_three:
  "solid a \<Longrightarrow> solid b \<Longrightarrow> solid c \<Longrightarrow> stream_words (a @ '' '' @ b @ '' '' @ c) = [a, b, c]"
  using stream_words_word [of a "'' '' @ b @ '' '' @ c"] stream_words_word [of b "'' '' @ c"]
    stream_words_word [of c "[]"] stream_words_space
  by (simp add: solid_def is_space_def stream_words_end del: append_Cons)

lemmas stream_words_line = stream_words_three [simplified]

lemma solid_append: "solid a \<Longrightarrow> solid b \<Longrightarrow> solid (a @ b)"
  by (simp add: solid_def)

lemma solid_decimal: "solid (to_decimal v)"
  using to_decimal_value [of v] to_decimal_shape [of v]
  by (auto simp: solid_def list_all_iff is_digit_def is_space_def)

lemma hex_digit_solid: "n < 16 \<Longrightarrow> \<not> is_space (kHexDigits ! n)"
proof -
  assume "n < 16"
  moreover have "list_all (\<lambda>i. \<not> is_space (kHexDigits ! i)) [0..<16]"
    by (simp add: upt_rec kHexDigits_def is_space_def)
  ultimately show ?thesis by (simp add: list_all_iff)
qed

lemma solid_hex: "bytes \<noteq> [] \<Longrightarrow> solid (render_hex bytes)"
proof (induction bytes)
  case (Cons b bytes)
  have "unat (drop_bit 4 b AND 0x0F) < 16" "unat (b AND 0x0F) < 16" by (rule nibble_less)+
  then have "solid (hex_byte b)" by (simp add: solid_def hex_byte_def hex_digit_solid)
  with Cons.IH show ?case by (cases "bytes = []") (simp_all add: render_hex_def solid_append)
qed simp

lemma array16_bytes_some: "array16_bytes i \<noteq> []"
  by (simp add: array16_bytes_def flip: length_greater_0_conv)

lemma solid_fixed: "solid (fixed_render i)"
  by (simp add: fixed_render_def solid_hex array16_bytes_some)

lemma fixed_head: "hd (fixed_render i) \<noteq> CHR 0x23"
proof -
  obtain b bytes where "array16_bytes i = b # bytes"
    using array16_bytes_some by (cases "array16_bytes i") blast+
  moreover have "list_all (\<lambda>n. kHexDigits ! n \<noteq> CHR 0x23) [0..<16]" by (simp add: upt_rec kHexDigits_def)
  then have "kHexDigits ! unat (drop_bit 4 b AND 0x0F) \<noteq> CHR 0x23" using nibble_less by (simp add: list_all_iff)
  ultimately show ?thesis by (simp add: fixed_render_def render_hex_def hex_byte_def)
qed

lemma solid_state: "solid (path_authorization_to_string s)"
  by (cases s) (simp_all add: solid_def is_space_def)

definition path_line_wf :: "path_line \<Rightarrow> bool" where
  "path_line_wf entry \<longleftrightarrow> pl_path entry \<noteq> 0 \<and> counter_wire_valid (pl_generation entry)"

lemma parse_render_path_line: "path_line_wf entry \<Longrightarrow> parse_path_line (render_path_line entry) = Some entry"
  by (cases entry)
    (simp add: parse_path_line_def render_path_line_def path_line_wf_def stream_words_line solid_fixed solid_decimal
      solid_state fixed_text.parse_render counter_text.parse_render parse_path_authorization_def
      path_authorization_enum.parse_render)

lemma solid_no_feed: "solid s \<Longrightarrow> line_feed \<notin> set s"
  by (auto simp: solid_def list_all_iff is_space_def line_feed_def)

lemma render_path_line_shape: "\<not> ignored_line (render_path_line entry) \<and> line_feed \<notin> set (render_path_line entry)"
proof -
  have "fixed_render (pl_path entry) \<noteq> []" using solid_fixed by (simp add: solid_def)
  moreover have "line_feed \<noteq> CHR '' ''" by (simp add: line_feed_def)
  ultimately show ?thesis
    using fixed_head [of "pl_path entry"] solid_no_feed [OF solid_fixed, of "pl_path entry"]
      solid_no_feed [OF solid_decimal, of "pl_generation entry"] solid_no_feed [OF solid_state, of "pl_state entry"]
    by (simp add: ignored_line_def render_path_line_def)
qed

lemma paths_header_line: "ignored_line paths_header" "line_feed \<notin> set paths_header"
  by (simp_all add: paths_header_def ignored_line_def line_feed_def)

lemma parse_paths_text: "list_all path_line_wf entries \<Longrightarrow> parse_path_lines (getlines (paths_text entries)) = Some entries"
proof -
  have lines: "getlines (concat (map (\<lambda>entry. render_path_line entry @ [line_feed]) entries)) = map render_path_line entries"
    for entries
    by (induction entries) (simp_all add: getlines.simps [of "[]"] getlines_line render_path_line_shape)
  have "list_all path_line_wf entries \<Longrightarrow> parse_path_lines (map render_path_line entries) = Some entries" for entries
    by (induction entries) (simp_all add: render_path_line_shape parse_render_path_line)
  moreover have "getlines (paths_text entries) =
      paths_header # map render_path_line entries"
    by (simp add: paths_text_def lines getlines_line paths_header_line)
  ultimately show "list_all path_line_wf entries \<Longrightarrow> parse_path_lines (getlines (paths_text entries)) = Some entries"
    by (simp add: paths_header_line)
qed

end
