(* ===== verification/RF_Destination.thy ===== *)
theory RF_Destination
  imports RF_Ids
begin

text \<open>
  \<^bold>\<open>Route destinations.\<close> This theory models \<open>include/routefabric/destination.hpp\<close>
  and \<open>src/destination.cpp\<close>: the canonical destination value, its strict textual parsers
  and renderer, its binary codec, its content-derived identity and the authority-scope
  coverage test. It shows that every destination a parser or the decoder accepts is
  canonical, that clearing the host bits is the arithmetic mask, that the decoder accepts
  nothing but the canonical encoding, and that scope coverage is prefix containment.
\<close>

unbundle bit_operations_syntax

section \<open>Destination kinds\<close>

datatype destination_kind =
    DK_Ipv4Prefix
  | DK_Ipv6Prefix
  | DK_FabricEndpoint
  | DK_ServiceEndpoint
  | DK_OverlayEndpoint
  | DK_LogicalDestination

fun destination_kind_raw :: "destination_kind \<Rightarrow> u8" where
  "destination_kind_raw DK_Ipv4Prefix = 1"
| "destination_kind_raw DK_Ipv6Prefix = 2"
| "destination_kind_raw DK_FabricEndpoint = 3"
| "destination_kind_raw DK_ServiceEndpoint = 4"
| "destination_kind_raw DK_OverlayEndpoint = 5"
| "destination_kind_raw DK_LogicalDestination = 6"

definition destination_kind_values :: "destination_kind list" where
  "destination_kind_values =
     [DK_Ipv4Prefix, DK_Ipv6Prefix, DK_FabricEndpoint, DK_ServiceEndpoint,
      DK_OverlayEndpoint, DK_LogicalDestination]"

fun destination_kind_to_string :: "destination_kind \<Rightarrow> string" where
  "destination_kind_to_string DK_Ipv4Prefix = ''ipv4-prefix''"
| "destination_kind_to_string DK_Ipv6Prefix = ''ipv6-prefix''"
| "destination_kind_to_string DK_FabricEndpoint = ''fabric-endpoint''"
| "destination_kind_to_string DK_ServiceEndpoint = ''service-endpoint''"
| "destination_kind_to_string DK_OverlayEndpoint = ''overlay-endpoint''"
| "destination_kind_to_string DK_LogicalDestination = ''logical-destination''"

definition is_prefix_kind :: "destination_kind \<Rightarrow> bool" where
  "is_prefix_kind kind \<longleftrightarrow> kind = DK_Ipv4Prefix \<or> kind = DK_Ipv6Prefix"

section \<open>The destination value\<close>

record destination =
  dst_kind :: destination_kind
  dst_valid :: bool
  dst_address :: "128 word"
  dst_prefix_length :: u8
  dst_token :: string

definition destination_default :: destination where
  "destination_default =
     \<lparr>dst_kind = DK_LogicalDestination, dst_valid = False, dst_address = 0,
      dst_prefix_length = 0, dst_token = []\<rparr>"

definition is_prefix :: "destination \<Rightarrow> bool" where
  "is_prefix d \<longleftrightarrow> dst_valid d \<and> is_prefix_kind (dst_kind d)"

definition address_size :: "destination \<Rightarrow> nat" where
  "address_size d =
     (if dst_kind d = DK_Ipv4Prefix then 4 else if dst_kind d = DK_Ipv6Prefix then 16 else 0)"

definition address :: "destination \<Rightarrow> bytes" where
  "address d = take (address_size d) (array16_bytes (dst_address d))"

text \<open>\<open>mask_host_bits\<close>: clear one bit at a time, from the prefix length to bit 127.\<close>

definition clear_host_bit :: "128 word \<Rightarrow> nat \<Rightarrow> 128 word" where
  "clear_host_bit addr bit_no =
     (let index = bit_no div 8;
          m = drop_bit (bit_no mod 8) (0x80 :: u8);
          bytes = array16_bytes addr
      in array16_of (bytes[index := bytes ! index AND NOT m]))"

definition mask_host_bits :: "128 word \<Rightarrow> u8 \<Rightarrow> 128 word" where
  "mask_host_bits addr prefix_length = foldl clear_host_bit addr [unat prefix_length..<128]"

definition same_network :: "destination \<Rightarrow> destination \<Rightarrow> bool" where
  "same_network scope candidate \<longleftrightarrow>
     (if dst_kind scope \<noteq> dst_kind candidate then False
      else if dst_prefix_length scope > dst_prefix_length candidate then False
      else let bits = dst_prefix_length scope;
               whole_bytes = unat (bits div 8);
               remainder = unat (bits mod 8);
               a = address scope;
               b = address candidate
           in if length a \<noteq> length b then False
              else if \<exists>i \<in> set [0..<whole_bytes]. a ! i \<noteq> b ! i then False
              else if remainder \<noteq> 0
                then let m = push_bit (8 - remainder) (0xFF :: u8)
                     in a ! whole_bytes AND m = b ! whole_bytes AND m
              else True)"

definition scope_covers :: "destination \<Rightarrow> destination \<Rightarrow> bool" where
  "scope_covers self candidate \<longleftrightarrow>
     (if \<not> dst_valid self \<or> \<not> dst_valid candidate then False
      else if dst_kind self \<noteq> dst_kind candidate then False
      else if is_prefix_kind (dst_kind self) then same_network self candidate
      else dst_token self = dst_token candidate)"

section \<open>Parsing\<close>

fun parse_decimal_loop :: "u32 \<Rightarrow> u32 \<Rightarrow> string \<Rightarrow> u32 option" where
  "parse_decimal_loop max_value value [] = Some value"
| "parse_decimal_loop max_value value (c # cs) =
     (if \<not> is_digit c then None
      else let value = value * 10 + of_nat (digit_value c)
           in if value > max_value then None else parse_decimal_loop max_value value cs)"

definition parse_decimal_field :: "string \<Rightarrow> u32 \<Rightarrow> u32 option" where
  "parse_decimal_field text max_value =
     (if text = [] \<or> length text > 3 then None
      else if length text > 1 \<and> hd text = CHR ''0'' then None
      else parse_decimal_loop max_value 0 text)"

text \<open>
  The loops over a dotted quad look at each maximal run of characters without a dot; these
  runs are the fields of \<open>split_char\<close>.
\<close>

fun split_char :: "char \<Rightarrow> string \<Rightarrow> string list" where
  "split_char c [] = [[]]"
| "split_char c (x # xs) =
     (if x = c then [] # split_char c xs
      else (case split_char c xs of [] \<Rightarrow> [[x]] | f # fs \<Rightarrow> (x # f) # fs))"

fun parse_octet_fields :: "nat \<Rightarrow> string list \<Rightarrow> u32 list option" where
  "parse_octet_fields octet_index [] = Some []"
| "parse_octet_fields octet_index (field # more_fields) =
     (if octet_index \<ge> 4 then None
      else do { value \<leftarrow> parse_decimal_field field 255;
                values \<leftarrow> parse_octet_fields (octet_index + 1) more_fields;
                Some (value # values) })"

definition parse_octets :: "string \<Rightarrow> u32 list option" where
  "parse_octets text = do {
     octets \<leftarrow> parse_octet_fields 0 (split_char CHR ''.'' text);
     if length octets \<noteq> 4 then None else Some octets }"

text \<open>The two sides of the only slash of the text.\<close>

definition split_prefix :: "string \<Rightarrow> (string \<times> string) option" where
  "split_prefix text =
     (let address_text = takeWhile (\<lambda>c. c \<noteq> CHR ''/'') text;
          after = dropWhile (\<lambda>c. c \<noteq> CHR ''/'') text
      in if after = [] \<or> CHR ''/'' \<in> set (tl after) then None else Some (address_text, tl after))"

definition parse_ipv4_prefix :: "string \<Rightarrow> destination expected" where
  "parse_ipv4_prefix text =
     (case split_prefix text of
        None \<Rightarrow> Inl SC_InvalidArgument
      | Some (address_text, prefix_text) \<Rightarrow>
          (case parse_octets address_text of
             None \<Rightarrow> Inl SC_InvalidArgument
           | Some octets \<Rightarrow>
               if \<exists>c \<in> set address_text. \<not> (is_digit c \<or> c = CHR ''.'') then Inl SC_InvalidArgument
               else (case parse_decimal_field prefix_text 32 of
                       None \<Rightarrow> Inl SC_InvalidArgument
                     | Some prefix \<Rightarrow>
                         let addr = array16_of (map ucast octets @ replicate 12 0);
                             len = ucast prefix
                         in Inr (destination_default
                                   \<lparr>dst_kind := DK_Ipv4Prefix, dst_valid := True,
                                    dst_address := mask_host_bits addr len,
                                    dst_prefix_length := len\<rparr>))))"

text \<open>A hexadecimal group of an IPv6 address, at most four digits.\<close>

fun parse_group_loop :: "u16 \<Rightarrow> string \<Rightarrow> u16 option" where
  "parse_group_loop value [] = Some value"
| "parse_group_loop value (c # cs) =
     (case hex_value c of
        None \<Rightarrow> None
      | Some digit \<Rightarrow> parse_group_loop (push_bit 4 value OR of_nat digit) cs)"

text \<open>
  The main loop of \<open>parse_ipv6_address\<close>; \<open>text\<close> is the part from \<open>index\<close> on. The
  test \<open>index == 0 || groups.empty()\<close> of the source is the second disjunct: no group
  has been read at index 0.
\<close>

function ipv6_loop :: "string \<Rightarrow> u16 list \<Rightarrow> nat option \<Rightarrow> (u16 list \<times> nat option) option" where
  "ipv6_loop text groups double_colon =
     (case text of
        [] \<Rightarrow> Some (groups, double_colon)
      | c # rest \<Rightarrow>
          if c = CHR '':'' then
            (if rest \<noteq> [] \<and> hd rest = CHR '':'' then
               (if double_colon \<noteq> None then None
                else ipv6_loop (tl rest) groups (Some (length groups)))
             else if groups = [] then None
             else if rest = [] then None
             else ipv6_loop rest groups double_colon)
          else
            let field = takeWhile (\<lambda>c. c \<noteq> CHR '':'') text;
                rest = dropWhile (\<lambda>c. c \<noteq> CHR '':'') text
            in if CHR ''.'' \<in> set field then
                 (if rest \<noteq> [] then None
                  else do { octets \<leftarrow> parse_octets field;
                            Some (groups @
                              [ucast (push_bit 8 (octets ! 0) OR octets ! 1),
                               ucast (push_bit 8 (octets ! 2) OR octets ! 3)], double_colon) })
               else if length field > 4 then None
               else do { value \<leftarrow> parse_group_loop 0 field;
                         if length (groups @ [value]) > 8 then None
                         else ipv6_loop rest (groups @ [value]) double_colon })"
  by pat_completeness auto
termination
  by (relation "measure (\<lambda>(text, _, _). length text)")
    (auto simp: le_imp_less_Suc length_dropWhile_le less_Suc_eq_le)

definition expand_groups :: "u16 list \<Rightarrow> nat option \<Rightarrow> u16 list" where
  "expand_groups groups double_colon =
     (case double_colon of
        None \<Rightarrow> groups
      | Some dc \<Rightarrow> let tail = length groups - dc
                  in take dc groups @ replicate (8 - tail - dc) 0 @ drop dc groups)"

definition parse_ipv6_address :: "string \<Rightarrow> (128 word) option" where
  "parse_ipv6_address text =
     (if text = [] \<or> CHR '':'' \<notin> set text then None
      else if CHR ''%'' \<in> set text then None
      else do {
        (groups, double_colon) \<leftarrow> ipv6_loop text [] None;
        if length groups > 8 then None
        else if double_colon = None \<and> length groups \<noteq> 8 then None
        else if double_colon \<noteq> None \<and> length groups \<ge> 8 then None
        else Some (array16_of (concat (map (\<lambda>g. [ucast (drop_bit 8 g AND 0xFF), ucast (g AND 0xFF)])
                                           (expand_groups groups double_colon)))) })"

definition parse_ipv6_prefix :: "string \<Rightarrow> destination expected" where
  "parse_ipv6_prefix text =
     (case split_prefix text of
        None \<Rightarrow> Inl SC_InvalidArgument
      | Some (address_text, prefix_text) \<Rightarrow>
          (case parse_ipv6_address address_text of
             None \<Rightarrow> Inl SC_InvalidArgument
           | Some addr \<Rightarrow>
               (case parse_decimal_field prefix_text 128 of
                  None \<Rightarrow> Inl SC_InvalidArgument
                | Some prefix \<Rightarrow>
                    let len = ucast prefix
                    in Inr (destination_default
                              \<lparr>dst_kind := DK_Ipv6Prefix, dst_valid := True,
                               dst_address := mask_host_bits addr len,
                               dst_prefix_length := len\<rparr>))))"

definition parse_endpoint :: "destination_kind \<Rightarrow> string \<Rightarrow> nat \<Rightarrow> destination expected" where
  "parse_endpoint kind token max_token_length =
     (if is_prefix_kind kind then Inl SC_InvalidArgument
      else if \<not> is_valid_token_text token max_token_length then Inl SC_InvalidArgument
      else Inr (destination_default\<lparr>dst_kind := kind, dst_valid := True, dst_token := token\<rparr>))"

definition parse_destination :: "string \<Rightarrow> nat \<Rightarrow> destination expected" where
  "parse_destination text max_token_length =
     (if text = [] then Inl SC_InvalidArgument
      else
        let scheme = takeWhile (\<lambda>c. c \<noteq> CHR '':'') text;
            after = dropWhile (\<lambda>c. c \<noteq> CHR '':'') text;
            rest = tl after;
            known_scheme = (after \<noteq> [] \<and>
              scheme \<in> set [''ipv4'', ''ipv6'', ''fabric'', ''service'', ''overlay'', ''logical''])
        in if known_scheme \<and> scheme = ''ipv4'' then parse_ipv4_prefix rest
           else if known_scheme \<and> scheme = ''ipv6'' then parse_ipv6_prefix rest
           else if known_scheme \<and> scheme = ''fabric''
             then parse_endpoint DK_FabricEndpoint rest max_token_length
           else if known_scheme \<and> scheme = ''service''
             then parse_endpoint DK_ServiceEndpoint rest max_token_length
           else if known_scheme \<and> scheme = ''overlay''
             then parse_endpoint DK_OverlayEndpoint rest max_token_length
           else if known_scheme \<and> scheme = ''logical''
             then parse_endpoint DK_LogicalDestination rest max_token_length
           else if CHR ''/'' \<in> set text then
             (if CHR '':'' \<in> set text then parse_ipv6_prefix text else parse_ipv4_prefix text)
           else Inl SC_InvalidArgument)"

section \<open>Rendering\<close>

definition ipv6_groups :: "destination \<Rightarrow> u16 list" where
  "ipv6_groups d =
     (let addr = array16_bytes (dst_address d)
      in map (\<lambda>i. push_bit 8 (ucast (addr ! (2 * i))) OR ucast (addr ! (2 * i + 1))) [0..<8])"

text \<open>
  The scan for the longest run of zero groups: best start and length, then the start and
  length of the current run.
\<close>

definition zero_run_step :: "u16 list \<Rightarrow> nat \<times> nat \<times> nat \<times> nat \<Rightarrow> nat \<Rightarrow> nat \<times> nat \<times> nat \<times> nat" where
  "zero_run_step groups = (\<lambda>(best_start, best_length, current_start, current_length) i.
     if groups ! i = 0 then
       let current_start = (if current_length = 0 then i else current_start);
           current_length = current_length + 1
       in if current_length > best_length
          then (current_start, current_length, current_start, current_length)
          else (best_start, best_length, current_start, current_length)
     else (best_start, best_length, current_start, 0))"

definition zero_run :: "u16 list \<Rightarrow> nat \<times> nat" where
  "zero_run groups =
     (let (best_start, best_length, _, _) = foldl (zero_run_step groups) (8, 0, 0, 0) [0..<8]
      in if best_length < 2 then (8, 0) else (best_start, best_length))"

definition render_group :: "u16 \<Rightarrow> string" where
  "render_group g =
     fst (foldl (\<lambda>(out, started) shift.
            let nibble = drop_bit shift g AND 0x0F
            in if nibble \<noteq> 0 \<or> started \<or> shift = 0
               then (out @ [kHexDigits ! unat nibble], True) else (out, started))
          ([], False) [12, 8, 4, 0])"

function render_groups :: "u16 list \<Rightarrow> nat \<Rightarrow> nat \<Rightarrow> nat \<Rightarrow> string \<Rightarrow> string" where
  "render_groups groups best_start best_length i out =
     (if i \<ge> 8 then out
      else if best_length \<noteq> 0 \<and> i = best_start
        then render_groups groups best_start best_length (i + best_length) (out @ ''::'')
      else let out = (if out \<noteq> [] \<and> last out \<noteq> CHR '':'' then out @ '':'' else out)
           in render_groups groups best_start best_length (i + 1) (out @ render_group (groups ! i)))"
  by pat_completeness auto
termination
  by (relation "measure (\<lambda>(_, _, _, i, _). 8 - i)") auto

definition render_destination :: "destination \<Rightarrow> string" where
  "render_destination d =
     (if \<not> dst_valid d then ''<invalid-destination>''
      else if dst_kind d = DK_Ipv4Prefix then
        (let octet = (\<lambda>i. to_decimal (ucast (array16_bytes (dst_address d) ! i)))
         in octet 0 @ ''.'' @ octet 1 @ ''.'' @ octet 2 @ ''.'' @ octet 3 @ ''/'' @
            to_decimal (ucast (dst_prefix_length d)))
      else if dst_kind d = DK_Ipv6Prefix then
        (let groups = ipv6_groups d;
             (best_start, best_length) = zero_run groups
         in render_groups groups best_start best_length 0 [] @ ''/'' @
            to_decimal (ucast (dst_prefix_length d)))
      else destination_kind_to_string (dst_kind d) @ '':'' @ dst_token d)"

section \<open>Identity and binary form\<close>

definition destination_identity :: "destination \<Rightarrow> destination_id" where
  "destination_identity d =
     fixed_from_digest (digest128 ''routefabric.destination.v1''
       (w_u8 (destination_kind_raw (dst_kind d)) @ w_u8 (dst_prefix_length d) @
        address d @ w_string (dst_token d)))"

definition w_destination :: "destination \<Rightarrow> bytes" where
  "w_destination d =
     w_u8 (destination_kind_raw (dst_kind d)) @ w_u8 (dst_prefix_length d) @
     array16_bytes (dst_address d) @ w_string (dst_token d)"

text \<open>The checks of \<open>Destination::read\<close> after the fields have been read.\<close>

definition destination_canonical :: "nat \<Rightarrow> destination \<Rightarrow> bool" where
  "destination_canonical max_token_length d \<longleftrightarrow>
     (if is_prefix_kind (dst_kind d) then
        dst_prefix_length d \<le> (if dst_kind d = DK_Ipv4Prefix then 32 else 128) \<and>
        dst_token d = [] \<and>
        (dst_kind d = DK_Ipv4Prefix \<longrightarrow>
           list_all (\<lambda>byte. byte = 0) (drop 4 (array16_bytes (dst_address d)))) \<and>
        mask_host_bits (dst_address d) (dst_prefix_length d) = dst_address d
      else
        dst_prefix_length d = 0 \<and> is_valid_token_text (dst_token d) max_token_length \<and>
        list_all (\<lambda>byte. byte = 0) (array16_bytes (dst_address d)))"

definition rd_destination :: "nat \<Rightarrow> destination reader" where
  "rd_destination max_token_length data = do {
     (kind, data) \<leftarrow> rd_u8 data;
     (prefix, data) \<leftarrow> rd_u8 data;
     kind_value \<leftarrow> enum_of_raw destination_kind_raw destination_kind_values kind;
     (raw, data) \<leftarrow> rd_raw 16 data;
     (token, data) \<leftarrow> rd_string max_token_length data;
     let d = \<lparr>dst_kind = kind_value, dst_valid = True, dst_address = array16_of raw,
              dst_prefix_length = prefix, dst_token = token\<rparr>;
     if destination_canonical max_token_length d then Some (d, data) else None }"

declare ipv6_loop.simps [simp del] render_groups.simps [simp del]

interpretation destination_kind_enum: named_enum destination_kind_raw destination_kind_values destination_kind_to_string
proof unfold_locales
  show "e \<in> set destination_kind_values" for e
    by (cases e) (simp_all add: destination_kind_values_def)
qed (simp_all add: destination_kind_values_def)

section \<open>Clearing host bits is masking\<close>

lemma bit_array16_of:
  assumes "length bs = 16"
  shows "bit (array16_of bs) n \<longleftrightarrow> n < 128 \<and> bit (bs ! (15 - n div 8)) (n mod 8)"
proof -
  have "n < 128 \<Longrightarrow> rev bs ! (n div 8) = bs ! (15 - n div 8)"
    using assms by (subst rev_nth) auto
  then show ?thesis by (auto simp: array16_of_def bit_le_load)
qed

lemma bit_array16_bytes:
  "i < 16 \<Longrightarrow> bit (array16_bytes v ! i) m \<longleftrightarrow> m < 8 \<and> bit v (8 * (15 - i) + m)"
  by (simp add: array16_bytes_def rev_nth bit_le_store_nth)

lemma bit_test_mask: "k < 8 \<Longrightarrow> bit (drop_bit k (0x80 :: u8)) m \<longleftrightarrow> m = 7 - k"
proof -
  assume k: "k < 8"
  have eq: "(0x80 :: u8) = 2 ^ 7" by simp
  have "bit (0x80 :: u8) j \<longleftrightarrow> j = 7" for j
    unfolding eq bit_exp_iff by (auto simp: possible_bit_word)
  from this [of "k + m"] show ?thesis
    using k by (simp only: bit_drop_bit_eq comp_apply) linarith
qed

lemma fifteen_bytes: "8 * q + r = 127 \<Longrightarrow> r \<le> 14 \<Longrightarrow> q = (15 :: nat)"
  by auto

lemma mirrored_position:
  fixes b n :: nat
  assumes "b < 128" and "n < 128"
  shows "b div 8 = 15 - n div 8 \<and> n mod 8 = 7 - b mod 8 \<longleftrightarrow> n = 127 - b"
proof -
  define q r s t where defs: "q = b div 8" "r = b mod 8" "s = n div 8" "t = n mod 8"
  have b: "b = 8 * q + r" and n: "n = 8 * s + t" by (simp_all add: defs)
  have lt: "r < 8" "t < 8" "q < 16" "s < 16" using assms by (auto simp: defs)
  have "q = 15 - s \<and> t = 7 - r \<longleftrightarrow> q + s = 15 \<and> t + r = 7" using lt by auto
  also have "\<dots> \<longleftrightarrow> 8 * (q + s) + (t + r) = 127"
  proof
    assume sum: "8 * (q + s) + (t + r) = 127"
    moreover have "t + r \<le> 14" using lt by linarith
    ultimately have "q + s = 15" by (rule fifteen_bytes)
    with sum show "q + s = 15 \<and> t + r = 7" by simp
  qed simp
  also have "\<dots> \<longleftrightarrow> n = 127 - b" using assms b n by auto
  finally show ?thesis by (simp add: defs)
qed

lemma bit_clear_host_bit:
  assumes "b < 128"
  shows "bit (clear_host_bit a b) n \<longleftrightarrow> bit a n \<and> n \<noteq> 127 - b"
proof (cases "n < 128")
  case True
  let ?bs = "array16_bytes a"
  have n: "n = 8 * (n div 8) + n mod 8" by simp
  have "bit (clear_host_bit a b) n \<longleftrightarrow>
      bit (?bs[b div 8 := ?bs ! (b div 8) AND NOT (drop_bit (b mod 8) 0x80)] ! (15 - n div 8)) (n mod 8)"
    using True by (simp add: clear_host_bit_def Let_def bit_array16_of)
  also have "\<dots> \<longleftrightarrow> bit a n \<and> (b div 8 = 15 - n div 8 \<longrightarrow> n mod 8 \<noteq> 7 - b mod 8)"
    using True assms
    by (auto simp: nth_list_update bit_array16_bytes bit_and_iff bit_not_iff bit_test_mask)
  finally show ?thesis using mirrored_position [OF assms True] by blast
next
  case False
  then show ?thesis by (auto dest: bit_imp_le_length)
qed

lemma bit_clear_host_bits:
  "(\<And>b. b \<in> set bs \<Longrightarrow> b < 128) \<Longrightarrow>
   bit (foldl clear_host_bit a bs) n \<longleftrightarrow> bit a n \<and> (\<forall>b \<in> set bs. n \<noteq> 127 - b)"
  by (induction bs arbitrary: a) (auto simp: bit_clear_host_bit)

lemma mask_host_bits_mask: "mask_host_bits a p = a AND NOT (mask (128 - unat p))"
proof (rule bit_word_eqI)
  fix n assume "n < LENGTH(128)"
  then have n: "n < 128" by simp
  have "(\<forall>b \<in> set [unat p..<128]. n \<noteq> 127 - b) \<longleftrightarrow> \<not> n < 128 - unat p"
  proof
    assume *: "\<forall>b \<in> set [unat p..<128]. n \<noteq> 127 - b"
    show "\<not> n < 128 - unat p"
    proof
      assume "n < 128 - unat p"
      then have "127 - n \<in> set [unat p..<128]" by (simp, linarith)
      with * have "n \<noteq> 127 - (127 - n)" by blast
      with n show False by simp
    qed
  qed auto
  then show "bit (mask_host_bits a p) n = bit (a AND NOT (mask (128 - unat p))) n"
    unfolding mask_host_bits_def
    by (subst bit_clear_host_bits) (use n in \<open>auto simp: bit_simps\<close>)
qed

lemma mask_host_bits_idem [simp]: "mask_host_bits (mask_host_bits a p) p = mask_host_bits a p"
  by (simp add: mask_host_bits_mask and.assoc)

section \<open>The codec accepts exactly the canonical destinations\<close>

definition destination_wf :: "nat \<Rightarrow> destination \<Rightarrow> bool" where
  "destination_wf m d \<longleftrightarrow>
     dst_valid d \<and> destination_canonical m d \<and> length (dst_token d) \<le> m \<and> length (dst_token d) < 2 ^ 32"

interpretation destination_codec: codec w_destination "rd_destination m" "destination_wf m" for m
proof unfold_locales
  show "destination_wf m d \<Longrightarrow> rd_destination m (w_destination d @ rest) = Some (d, rest)" for d rest
    by (cases d) (auto simp: rd_destination_def w_destination_def destination_wf_def codec
        destination_kind_enum.of_raw_raw Let_def)
next
  fix data d rest assume "rd_destination m data = Some (d, rest)"
  then show "destination_wf m d \<and> data = w_destination d @ rest"
    by (auto simp: rd_destination_def w_destination_def destination_wf_def bind_eq_Some_conv
        destination_kind_enum.of_raw_Some array16_bytes_of Let_def split: if_splits
        dest!: u8_codec.read_data raw_canonical string_codec.read_canonical)
qed

lemmas destination_codecs [codec] = destination_codec.read_write

section \<open>Every parser returns canonical destinations\<close>

lemma parse_decimal_loop_le: "parse_decimal_loop m v cs = Some w \<Longrightarrow> v \<le> m \<Longrightarrow> w \<le> m"
  by (induction m v cs rule: parse_decimal_loop.induct) (auto simp: Let_def split: if_splits)

lemma parse_decimal_field_le: "parse_decimal_field t m = Some w \<Longrightarrow> w \<le> m"
  by (auto simp: parse_decimal_field_def split: if_splits dest!: parse_decimal_loop_le)

lemma parse_octets_length: "parse_octets t = Some os \<Longrightarrow> length os = 4"
  by (auto simp: parse_octets_def bind_eq_Some_conv split: if_splits)

lemma and_keeps_zero_byte:
  assumes "i < 16" and "array16_bytes a ! i = 0"
  shows "array16_bytes (a AND b) ! i = 0"
proof (rule bit_word_eqI)
  fix n assume "n < LENGTH(8)"
  moreover have "\<not> bit (array16_bytes a ! i) n" by (simp add: assms(2))
  ultimately show "bit (array16_bytes (a AND b) ! i) n = bit 0 n"
    using assms(1) by (simp add: bit_array16_bytes bit_and_iff)
qed

lemma ipv4_tail_zero:
  assumes "length os = 4"
  shows "list_all (\<lambda>byte. byte = 0)
    (drop 4 (array16_bytes (array16_of (map ucast os @ replicate 12 0) AND b)))"
proof -
  have "array16_bytes (array16_of (map ucast os @ replicate 12 0) AND b) ! i = 0" if "4 \<le> i" "i < 16" for i
    using that assms by (intro and_keeps_zero_byte) (simp_all add: array16_bytes_of nth_append)
  then show ?thesis by (auto simp: list_all_length)
qed

lemma u32_cast_le:
  fixes w :: u32
  assumes "w \<le> of_nat m" and "m < 256"
  shows "(ucast w :: u8) \<le> of_nat m"
proof -
  have w: "unat w \<le> m" using assms by (simp add: word_le_nat_alt unat_of_nat)
  then have "unat (ucast w :: u8) = unat w"
    using assms(2) by (simp add: unsigned_ucast_eq take_bit_nat_eq_self)
  with w show ?thesis using assms(2) by (simp add: word_le_nat_alt unat_of_nat)
qed

lemma u32_cast_32: "(w :: u32) \<le> 32 \<Longrightarrow> (ucast w :: u8) \<le> 32"
  using u32_cast_le [of w 32] by simp

lemma u32_cast_128: "(w :: u32) \<le> 128 \<Longrightarrow> (ucast w :: u8) \<le> 128"
  using u32_cast_le [of w 128] by simp

lemma parse_ipv4_canonical: "parse_ipv4_prefix t = Inr d \<Longrightarrow> dst_valid d \<and> destination_canonical m d \<and> dst_token d = []"
  by (auto simp: parse_ipv4_prefix_def destination_canonical_def is_prefix_kind_def Let_def
      destination_default_def mask_host_bits_mask ipv4_tail_zero u32_cast_32
      split: option.splits if_splits prod.splits dest!: parse_octets_length parse_decimal_field_le)

lemma parse_ipv6_canonical: "parse_ipv6_prefix t = Inr d \<Longrightarrow> dst_valid d \<and> destination_canonical m d \<and> dst_token d = []"
  by (auto simp: parse_ipv6_prefix_def destination_canonical_def is_prefix_kind_def Let_def
      destination_default_def u32_cast_128
      split: option.splits if_splits prod.splits dest!: parse_decimal_field_le)

lemma parse_endpoint_canonical:
  "parse_endpoint k t m = Inr d \<Longrightarrow> dst_valid d \<and> destination_canonical m d \<and> length (dst_token d) \<le> m"
  by (auto simp: parse_endpoint_def destination_canonical_def destination_default_def array16_bytes_0
      is_valid_token_text_def list_all_iff split: if_splits)

lemma parse_destination_canonical:
  assumes "parse_destination t m = Inr d" and "m < 2 ^ 32"
  shows "destination_wf m d"
proof -
  have "dst_valid d \<and> destination_canonical m d \<and> length (dst_token d) \<le> m"
    using assms(1) parse_ipv4_canonical [of _ d m] parse_ipv6_canonical [of _ d m]
      parse_endpoint_canonical [of _ _ m d]
    by (auto simp: parse_destination_def Let_def split: if_splits)
  with assms(2) show ?thesis by (simp add: destination_wf_def)
qed

section \<open>Scope coverage is prefix containment\<close>

text \<open>
  The addresses of two destinations agree on their first \<open>p\<close> bits when they are equal
  after the other \<open>128 - p\<close> bits are shifted out.
\<close>

definition same_prefix :: "nat \<Rightarrow> 128 word \<Rightarrow> 128 word \<Rightarrow> bool" where
  "same_prefix p a b \<longleftrightarrow> (\<forall>n < 128. 128 - p \<le> n \<longrightarrow> bit a n = bit b n)"

definition agree_bytes :: "nat \<Rightarrow> bytes \<Rightarrow> bytes \<Rightarrow> bool" where
  "agree_bytes p xs ys \<longleftrightarrow> (\<forall>i < 16. \<forall>m < 8. 8 * i + (7 - m) < p \<longrightarrow> bit (xs ! i) m = bit (ys ! i) m)"

lemma same_prefix_bytes: "p \<le> 128 \<Longrightarrow> same_prefix p a b \<longleftrightarrow> agree_bytes p (array16_bytes a) (array16_bytes b)"
proof
  assume p: "p \<le> 128" and "same_prefix p a b"
  then show "agree_bytes p (array16_bytes a) (array16_bytes b)"
    by (auto simp: same_prefix_def agree_bytes_def bit_array16_bytes)
next
  assume p: "p \<le> 128" and agree: "agree_bytes p (array16_bytes a) (array16_bytes b)"
  show "same_prefix p a b"
    unfolding same_prefix_def
  proof (intro allI impI)
    fix n :: nat assume n: "n < 128" "128 - p \<le> n"
    define i m where im: "i = 15 - n div 8" "m = n mod 8"
    have dm: "n = 8 * (n div 8) + n mod 8" by simp
    have i: "i < 16" and m: "m < 8" and pos: "8 * (15 - i) + m = n"
      using n(1) dm by (auto simp: im)
    have "8 * i + (7 - m) < p" using pos i m n(2) p by linarith
    with agree i m have "bit (array16_bytes a ! i) m = bit (array16_bytes b ! i) m"
      by (auto simp: agree_bytes_def)
    with i m pos show "bit a n = bit b n" by (simp add: bit_array16_bytes)
  qed
qed

lemma byte_eq_iff_bits: "(x :: u8) = y \<longleftrightarrow> (\<forall>m < 8. bit x m = bit y m)"
  by (auto intro: bit_word_eqI)

lemma high_bits_eq:
  assumes "0 < r" "r < 8"
  shows "x AND push_bit (8 - r) (0xFF :: u8) = y AND push_bit (8 - r) 0xFF \<longleftrightarrow>
    (\<forall>m < 8. 7 - m < r \<longrightarrow> bit x m = bit y m)"
proof -
  have "bit (push_bit (8 - r) (0xFF :: u8)) m \<longleftrightarrow> 7 - m < r" if "m < 8" for m
    using assms that by (auto simp: mask_byte bit_simps)
  then show ?thesis by (auto simp: byte_eq_iff_bits bit_and_iff)
qed

lemma agree_bytes_split:
  assumes "w * 8 + r \<le> 128" and "r < 8" and "length xs = 16" and "length ys = 16"
  shows "agree_bytes (w * 8 + r) xs ys \<longleftrightarrow>
    (\<forall>i < w. xs ! i = ys ! i) \<and> (r \<noteq> 0 \<longrightarrow> (\<forall>m < 8. 7 - m < r \<longrightarrow> bit (xs ! w) m = bit (ys ! w) m))"
proof (rule iffI, intro conjI allI impI)
  fix i assume agree: "agree_bytes (w * 8 + r) xs ys" and i: "i < w"
  then have "8 * i + (7 - m) < w * 8 + r \<and> i < 16" for m using assms by linarith
  with agree show "xs ! i = ys ! i" unfolding byte_eq_iff_bits agree_bytes_def by blast
next
  fix m :: nat assume agree: "agree_bytes (w * 8 + r) xs ys" and "r \<noteq> 0" "m < 8" "7 - m < r"
  moreover have "w < 16" using assms(1) \<open>r \<noteq> 0\<close> by linarith
  ultimately show "bit (xs ! w) m = bit (ys ! w) m"
    unfolding agree_bytes_def by (metis add_less_cancel_left mult.commute)
next
  assume *: "(\<forall>i < w. xs ! i = ys ! i) \<and>
    (r \<noteq> 0 \<longrightarrow> (\<forall>m < 8. 7 - m < r \<longrightarrow> bit (xs ! w) m = bit (ys ! w) m))"
  show "agree_bytes (w * 8 + r) xs ys"
    unfolding agree_bytes_def
  proof (intro allI impI)
    fix i m :: nat assume "i < 16" "m < 8" "8 * i + (7 - m) < w * 8 + r"
    with assms(2) consider "i < w" | "i = w" "7 - m < r" by linarith
    then show "bit (xs ! i) m = bit (ys ! i) m" using * \<open>m < 8\<close> by cases auto
  qed
qed

lemma same_prefix_refl [simp]: "same_prefix p a a"
  by (simp add: same_prefix_def)

lemma same_prefix_trans: "same_prefix p a b \<Longrightarrow> same_prefix q b c \<Longrightarrow> p \<le> q \<Longrightarrow> same_prefix p a c"
  by (auto simp: same_prefix_def)

lemma prefix_kind_size: "is_prefix_kind (dst_kind d) \<Longrightarrow> destination_canonical m d \<Longrightarrow>
  unat (dst_prefix_length d) \<le> 8 * address_size d \<and> address_size d \<le> 16"
  by (auto simp: is_prefix_kind_def destination_canonical_def address_size_def word_le_nat_alt split: if_splits)

text \<open>
  Between canonical destinations, \<open>same_network\<close> compares exactly the bits of the shorter
  prefix.
\<close>

lemma same_network_iff:
  assumes "is_prefix_kind (dst_kind s)" and "destination_canonical m s"
  shows "same_network s c \<longleftrightarrow>
    dst_kind s = dst_kind c \<and> dst_prefix_length s \<le> dst_prefix_length c \<and>
    same_prefix (unat (dst_prefix_length s)) (dst_address s) (dst_address c)"
proof (cases "dst_kind s = dst_kind c \<and> dst_prefix_length s \<le> dst_prefix_length c")
  case True
  define p where "p = unat (dst_prefix_length s)"
  define w r where wr: "w = p div 8" "r = p mod 8"
  let ?a = "array16_bytes (dst_address s)" and ?b = "array16_bytes (dst_address c)"
  have size: "p \<le> 8 * address_size s" "address_size s \<le> 16"
    using prefix_kind_size [OF assms] by (simp_all add: p_def)
  have same_size: "address_size c = address_size s" using True by (simp add: address_size_def)
  have p: "p = w * 8 + r" "r < 8" "p \<le> 128" using size by (simp_all add: wr)
  have words: "unat (dst_prefix_length s div 8) = w" "unat (dst_prefix_length s mod 8) = r"
    by (simp_all add: wr p_def unat_div unat_mod)
  have w: "w \<le> address_size s" using p size by linarith
  have wr16: "w < address_size s" if "r \<noteq> 0" using that p size by linarith
  have "same_network s c \<longleftrightarrow> (\<forall>i < w. ?a ! i = ?b ! i) \<and>
      (r \<noteq> 0 \<longrightarrow> ?a ! w AND push_bit (8 - r) (0xFF :: u8) = ?b ! w AND push_bit (8 - r) 0xFF)"
    using True size w wr16
    by (auto simp: same_network_def words Let_def address_def same_size not_less)
  also have "\<dots> \<longleftrightarrow> agree_bytes p ?a ?b"
    using p high_bits_eq [of r] by (simp only: p(1) agree_bytes_split length_array16_bytes) auto
  finally show ?thesis using True same_prefix_bytes [OF p(3)] by (simp add: p_def)
qed (auto simp: same_network_def)

lemma scope_covers_iff:
  assumes "destination_wf m s" and "dst_valid c"
  shows "scope_covers s c \<longleftrightarrow> dst_kind s = dst_kind c \<and>
    (if is_prefix_kind (dst_kind s)
     then dst_prefix_length s \<le> dst_prefix_length c \<and>
          same_prefix (unat (dst_prefix_length s)) (dst_address s) (dst_address c)
     else dst_token s = dst_token c)"
  using assms same_network_iff [of s m c] by (auto simp: scope_covers_def destination_wf_def)

lemma scope_covers_refl: "destination_wf m d \<Longrightarrow> scope_covers d d"
  using scope_covers_iff [of m d d] by (simp add: destination_wf_def)

lemma scope_covers_valid: "scope_covers a b \<Longrightarrow> dst_valid a \<and> dst_valid b"
  by (auto simp: scope_covers_def split: if_splits)

lemma scope_covers_trans:
  assumes "destination_wf m a" "destination_wf m b" "scope_covers a b" "scope_covers b c"
  shows "scope_covers a c"
proof -
  have "dst_valid b" "dst_valid c" using assms(3,4) by (auto dest: scope_covers_valid)
  then show ?thesis
    using assms by (auto simp: scope_covers_iff [OF assms(1)] scope_covers_iff [OF assms(2)]
        word_le_nat_alt elim: same_prefix_trans split: if_splits)
qed

end
