(* ===== verification/RF_RouteKey.thy ===== *)
theory RF_RouteKey
  imports RF_Destination
begin

text \<open>
  \<^bold>\<open>Route keys.\<close> This theory models \<open>include/routefabric/route_key.hpp\<close> and
  \<open>src/route_key.cpp\<close>: the semantic route key, its validity, codec and rendering, the
  identities derived from it, and the defaulted three-way comparisons of \<open>Destination\<close>
  and \<open>RouteKey\<close>, which order the runtime's key index.
\<close>

section \<open>Route classes\<close>

datatype route_class =
    RC_Unicast
  | RC_Host
  | RC_Service
  | RC_Overlay
  | RC_Logical

fun route_class_raw :: "route_class \<Rightarrow> u8" where
  "route_class_raw RC_Unicast = 1"
| "route_class_raw RC_Host = 2"
| "route_class_raw RC_Service = 3"
| "route_class_raw RC_Overlay = 4"
| "route_class_raw RC_Logical = 5"

definition route_class_values :: "route_class list" where
  "route_class_values =
     [RC_Unicast, RC_Host, RC_Service, RC_Overlay,
      RC_Logical]"

fun route_class_to_string :: "route_class \<Rightarrow> string" where
  "route_class_to_string RC_Unicast = ''unicast''"
| "route_class_to_string RC_Host = ''host''"
| "route_class_to_string RC_Service = ''service''"
| "route_class_to_string RC_Overlay = ''overlay''"
| "route_class_to_string RC_Logical = ''logical''"

definition parse_route_class :: "string \<Rightarrow> route_class option" where
  "parse_route_class text = parse_by_name route_class_to_string route_class_values text"

interpretation route_class_enum: named_enum route_class_raw route_class_values route_class_to_string
proof unfold_locales
  show "e \<in> set route_class_values" for e
    by (cases e) (simp_all add: route_class_values_def)
qed (simp_all add: route_class_values_def)

section \<open>The route key\<close>

record route_key =
  rk_fabric :: fabric_id
  rk_routing_namespace :: routing_namespace
  rk_destination :: destination
  rk_route_class :: route_class

definition route_key_is_valid :: "route_key \<Rightarrow> bool" where
  "route_key_is_valid key \<longleftrightarrow>
     (if \<not> token_is_valid (rk_fabric key) \<or> \<not> token_is_valid (rk_routing_namespace key) \<or>
         \<not> dst_valid (rk_destination key) then False
      else case rk_route_class key of
             RC_Host \<Rightarrow>
               is_prefix (rk_destination key) \<and>
               unat (dst_prefix_length (rk_destination key)) = address_size (rk_destination key) * 8
           | _ \<Rightarrow> True)"

definition render_route_key :: "route_key \<Rightarrow> string" where
  "render_route_key key =
     rk_fabric key @ ''/'' @ rk_routing_namespace key @ ''/'' @
     route_class_to_string (rk_route_class key) @ ''/'' @ render_destination (rk_destination key)"

definition w_route_key :: "route_key \<Rightarrow> bytes" where
  "w_route_key key =
     w_token (rk_fabric key) @ w_token (rk_routing_namespace key) @
     w_u8 (route_class_raw (rk_route_class key)) @ w_destination (rk_destination key)"

definition rd_route_key :: "nat \<Rightarrow> route_key reader" where
  "rd_route_key max_destination_token data = do {
     (fabric, data) \<leftarrow> rd_token data;
     (routing_namespace, data) \<leftarrow> rd_token data;
     (route_class, data) \<leftarrow> rd_enum route_class_raw route_class_values data;
     (destination, data) \<leftarrow> rd_destination max_destination_token data;
     let key = \<lparr>rk_fabric = fabric, rk_routing_namespace = routing_namespace,
                rk_destination = destination, rk_route_class = route_class\<rparr>;
     if \<not> route_key_is_valid key then None else Some (key, data) }"

definition derive_route_id :: "route_key \<Rightarrow> route_id" where
  "derive_route_id key =
     fixed_from_digest (digest128 ''routefabric.route-id''
       (w_raw_text ''routefabric.route-id.v1'' @ w_route_key key))"

definition derive_lineage_route_id :: "route_key \<Rightarrow> mutation_attempt_id \<Rightarrow> route_id" where
  "derive_lineage_route_id key lineage_mint =
     fixed_from_digest (digest128 ''routefabric.lineage-id''
       (w_raw_text ''routefabric.lineage-id.v1'' @ w_route_key key @ w_fixed lineage_mint))"

section \<open>Ordering\<close>

text \<open>
  The defaulted \<open>operator<=>\<close> compares the members in declaration order; an enumerator
  compares as its number. A record is therefore ordered as the tuple of its fields.
\<close>

instantiation destination_kind :: linorder
begin

definition less_eq_destination_kind :: "destination_kind \<Rightarrow> destination_kind \<Rightarrow> bool" where
  "less_eq_destination_kind a b \<longleftrightarrow> destination_kind_raw a \<le> destination_kind_raw b"

definition less_destination_kind :: "destination_kind \<Rightarrow> destination_kind \<Rightarrow> bool" where
  "less_destination_kind a b \<longleftrightarrow> destination_kind_raw a < destination_kind_raw b"

instance
  by standard
    (auto simp: less_eq_destination_kind_def less_destination_kind_def
      simp flip: destination_kind_enum.raw_inject)

end

instantiation route_class :: linorder
begin

definition less_eq_route_class :: "route_class \<Rightarrow> route_class \<Rightarrow> bool" where
  "less_eq_route_class a b \<longleftrightarrow> route_class_raw a \<le> route_class_raw b"

definition less_route_class :: "route_class \<Rightarrow> route_class \<Rightarrow> bool" where
  "less_route_class a b \<longleftrightarrow> route_class_raw a < route_class_raw b"

instance
  by standard
    (auto simp: less_eq_route_class_def less_route_class_def simp flip: route_class_enum.raw_inject)

end

definition destination_tuple ::
  "'a destination_scheme \<Rightarrow> destination_kind \<times> bool \<times> 128 word \<times> u8 \<times> string \<times> 'a" where
  "destination_tuple d =
     (dst_kind d, dst_valid d, dst_address d, dst_prefix_length d, dst_token d, destination.more d)"

lemma destination_tuple_inject: "destination_tuple a = destination_tuple b \<longleftrightarrow> a = b"
  by (cases a; cases b) (simp add: destination_tuple_def)

instantiation destination_ext :: (linorder) linorder
begin

definition less_eq_destination_ext :: "'a destination_ext \<Rightarrow> 'a destination_ext \<Rightarrow> bool" where
  "less_eq_destination_ext a b \<longleftrightarrow> destination_tuple a \<le> destination_tuple b"

definition less_destination_ext :: "'a destination_ext \<Rightarrow> 'a destination_ext \<Rightarrow> bool" where
  "less_destination_ext a b \<longleftrightarrow> destination_tuple a < destination_tuple b"

instance
  by standard
    (auto simp: less_eq_destination_ext_def less_destination_ext_def
      simp flip: destination_tuple_inject)

end

definition route_key_tuple ::
  "'a route_key_scheme \<Rightarrow> fabric_id \<times> routing_namespace \<times> destination \<times> route_class \<times> 'a" where
  "route_key_tuple key =
     (rk_fabric key, rk_routing_namespace key, rk_destination key, rk_route_class key, route_key.more key)"

lemma route_key_tuple_inject: "route_key_tuple a = route_key_tuple b \<longleftrightarrow> a = b"
  by (cases a; cases b) (simp add: route_key_tuple_def)

instantiation route_key_ext :: (linorder) linorder
begin

definition less_eq_route_key_ext :: "'a route_key_ext \<Rightarrow> 'a route_key_ext \<Rightarrow> bool" where
  "less_eq_route_key_ext a b \<longleftrightarrow> route_key_tuple a \<le> route_key_tuple b"

definition less_route_key_ext :: "'a route_key_ext \<Rightarrow> 'a route_key_ext \<Rightarrow> bool" where
  "less_route_key_ext a b \<longleftrightarrow> route_key_tuple a < route_key_tuple b"

instance
  by standard
    (auto simp: less_eq_route_key_ext_def less_route_key_ext_def simp flip: route_key_tuple_inject)

end

section \<open>The codec of route keys\<close>

interpretation route_class_codec: codec "\<lambda>e. w_u8 (route_class_raw e)"
    "rd_enum route_class_raw route_class_values" "\<lambda>_. True"
  by (rule enum_codec) unfold_locales

lemmas route_class_codecs [codec] = route_class_codec.read_write [OF TrueI]

definition route_key_wf :: "nat \<Rightarrow> route_key \<Rightarrow> bool" where
  "route_key_wf m key \<longleftrightarrow> route_key_is_valid key \<and> destination_wf m (rk_destination key)"

lemma route_key_is_valid_tokens:
  "route_key_is_valid key \<Longrightarrow>
   token_is_valid (rk_fabric key) \<and> token_is_valid (rk_routing_namespace key) \<and> dst_valid (rk_destination key)"
  by (auto simp: route_key_is_valid_def split: if_splits)

interpretation route_key_codec: codec w_route_key "rd_route_key m" "route_key_wf m" for m
proof unfold_locales
  fix key rest assume "route_key_wf m key"
  then show "rd_route_key m (w_route_key key @ rest) = Some (key, rest)"
    using route_key_is_valid_tokens [of key]
    by (cases key) (auto simp: route_key_wf_def rd_route_key_def w_route_key_def codec Let_def)
next
  fix data key rest assume "rd_route_key m data = Some (key, rest)"
  then show "route_key_wf m key \<and> data = w_route_key key @ rest"
    by (auto simp: route_key_wf_def rd_route_key_def w_route_key_def bind_eq_Some_conv Let_def
        dest!: token_codec.read_data route_class_codec.read_data destination_codec.read_canonical
        split: if_splits)
qed

lemmas route_key_codecs [codec] = route_key_codec.read_write

end
