(* ===== verification/RF_Lifecycle.thy ===== *)
theory RF_Lifecycle
  imports RF_Error
begin

text \<open>
  The route lifecycle (\<open>include/routefabric/lifecycle.hpp\<close>, \<open>src/lifecycle.cpp\<close>):
  states, events, the transition table and the functions that read it.
\<close>

section \<open>States and events\<close>

datatype route_lifecycle =
    LC_Declared
  | LC_Validating
  | LC_Ready
  | LC_Installing
  | LC_Installed
  | LC_RevalidationRequired
  | LC_Withdrawing
  | LC_Withdrawn
  | LC_Failed
  | LC_Superseded
  | LC_Retired

fun lifecycle_raw :: "route_lifecycle \<Rightarrow> u8" where
  "lifecycle_raw LC_Declared = 1"
| "lifecycle_raw LC_Validating = 2"
| "lifecycle_raw LC_Ready = 3"
| "lifecycle_raw LC_Installing = 4"
| "lifecycle_raw LC_Installed = 5"
| "lifecycle_raw LC_RevalidationRequired = 6"
| "lifecycle_raw LC_Withdrawing = 7"
| "lifecycle_raw LC_Withdrawn = 8"
| "lifecycle_raw LC_Failed = 9"
| "lifecycle_raw LC_Superseded = 10"
| "lifecycle_raw LC_Retired = 11"

definition lifecycle_values :: "route_lifecycle list" where
  "lifecycle_values =
     [LC_Declared, LC_Validating, LC_Ready, LC_Installing,
      LC_Installed, LC_RevalidationRequired, LC_Withdrawing, LC_Withdrawn,
      LC_Failed, LC_Superseded, LC_Retired]"

fun lifecycle_to_string :: "route_lifecycle \<Rightarrow> string" where
  "lifecycle_to_string LC_Declared = ''DECLARED''"
| "lifecycle_to_string LC_Validating = ''VALIDATING''"
| "lifecycle_to_string LC_Ready = ''READY''"
| "lifecycle_to_string LC_Installing = ''INSTALLING''"
| "lifecycle_to_string LC_Installed = ''INSTALLED''"
| "lifecycle_to_string LC_RevalidationRequired = ''REVALIDATION_REQUIRED''"
| "lifecycle_to_string LC_Withdrawing = ''WITHDRAWING''"
| "lifecycle_to_string LC_Withdrawn = ''WITHDRAWN''"
| "lifecycle_to_string LC_Failed = ''FAILED''"
| "lifecycle_to_string LC_Superseded = ''SUPERSEDED''"
| "lifecycle_to_string LC_Retired = ''RETIRED''"

datatype route_event =
    EV_BeginValidation
  | EV_ValidationAccepted
  | EV_ValidationRejected
  | EV_BeginInstall
  | EV_BackendApplied
  | EV_BackendIdempotent
  | EV_BackendRejected
  | EV_BackendNotSupported
  | EV_BackendRetryableFailure
  | EV_BackendPermanentFailure
  | EV_BackendAmbiguous
  | EV_BackendUnavailable
  | EV_RequireRevalidation
  | EV_BeginWithdraw
  | EV_WithdrawApplied
  | EV_WithdrawFailed
  | EV_Supersede
  | EV_Retire
  | EV_Revoke

fun route_event_raw :: "route_event \<Rightarrow> u8" where
  "route_event_raw EV_BeginValidation = 1"
| "route_event_raw EV_ValidationAccepted = 2"
| "route_event_raw EV_ValidationRejected = 3"
| "route_event_raw EV_BeginInstall = 4"
| "route_event_raw EV_BackendApplied = 5"
| "route_event_raw EV_BackendIdempotent = 6"
| "route_event_raw EV_BackendRejected = 7"
| "route_event_raw EV_BackendNotSupported = 8"
| "route_event_raw EV_BackendRetryableFailure = 9"
| "route_event_raw EV_BackendPermanentFailure = 10"
| "route_event_raw EV_BackendAmbiguous = 11"
| "route_event_raw EV_BackendUnavailable = 12"
| "route_event_raw EV_RequireRevalidation = 13"
| "route_event_raw EV_BeginWithdraw = 14"
| "route_event_raw EV_WithdrawApplied = 15"
| "route_event_raw EV_WithdrawFailed = 16"
| "route_event_raw EV_Supersede = 17"
| "route_event_raw EV_Retire = 18"
| "route_event_raw EV_Revoke = 19"

definition route_event_values :: "route_event list" where
  "route_event_values =
     [EV_BeginValidation, EV_ValidationAccepted, EV_ValidationRejected, EV_BeginInstall,
      EV_BackendApplied, EV_BackendIdempotent, EV_BackendRejected, EV_BackendNotSupported,
      EV_BackendRetryableFailure, EV_BackendPermanentFailure, EV_BackendAmbiguous, EV_BackendUnavailable,
      EV_RequireRevalidation, EV_BeginWithdraw, EV_WithdrawApplied, EV_WithdrawFailed,
      EV_Supersede, EV_Retire, EV_Revoke]"

fun route_event_to_string :: "route_event \<Rightarrow> string" where
  "route_event_to_string EV_BeginValidation = ''BEGIN_VALIDATION''"
| "route_event_to_string EV_ValidationAccepted = ''VALIDATION_ACCEPTED''"
| "route_event_to_string EV_ValidationRejected = ''VALIDATION_REJECTED''"
| "route_event_to_string EV_BeginInstall = ''BEGIN_INSTALL''"
| "route_event_to_string EV_BackendApplied = ''BACKEND_APPLIED''"
| "route_event_to_string EV_BackendIdempotent = ''BACKEND_IDEMPOTENT''"
| "route_event_to_string EV_BackendRejected = ''BACKEND_REJECTED''"
| "route_event_to_string EV_BackendNotSupported = ''BACKEND_NOT_SUPPORTED''"
| "route_event_to_string EV_BackendRetryableFailure = ''BACKEND_RETRYABLE_FAILURE''"
| "route_event_to_string EV_BackendPermanentFailure = ''BACKEND_PERMANENT_FAILURE''"
| "route_event_to_string EV_BackendAmbiguous = ''BACKEND_AMBIGUOUS''"
| "route_event_to_string EV_BackendUnavailable = ''BACKEND_UNAVAILABLE''"
| "route_event_to_string EV_RequireRevalidation = ''REQUIRE_REVALIDATION''"
| "route_event_to_string EV_BeginWithdraw = ''BEGIN_WITHDRAW''"
| "route_event_to_string EV_WithdrawApplied = ''WITHDRAW_APPLIED''"
| "route_event_to_string EV_WithdrawFailed = ''WITHDRAW_FAILED''"
| "route_event_to_string EV_Supersede = ''SUPERSEDE''"
| "route_event_to_string EV_Retire = ''RETIRE''"
| "route_event_to_string EV_Revoke = ''REVOKE''"

section \<open>The transition table\<close>

record lifecycle_transition =
  tr_from :: route_lifecycle
  tr_event :: route_event
  tr_to :: route_lifecycle

abbreviation transition :: "route_lifecycle \<Rightarrow> route_event \<Rightarrow> route_lifecycle \<Rightarrow> lifecycle_transition" where
  "transition a e b \<equiv> \<lparr>tr_from = a, tr_event = e, tr_to = b\<rparr>"

definition kTransitions :: "lifecycle_transition list" where
  "kTransitions =
    [transition LC_Declared EV_BeginValidation LC_Validating,
     transition LC_Declared EV_Supersede LC_Superseded,
     transition LC_Declared EV_Retire LC_Retired,
     transition LC_Declared EV_Revoke LC_Retired,
     transition LC_Validating EV_ValidationAccepted LC_Ready,
     transition LC_Validating EV_ValidationRejected LC_Failed,
     transition LC_Validating EV_RequireRevalidation LC_RevalidationRequired,
     transition LC_Validating EV_Supersede LC_Superseded,
     transition LC_Validating EV_Retire LC_Retired,
     transition LC_Validating EV_Revoke LC_Retired,
     transition LC_Ready EV_BeginInstall LC_Installing,
     transition LC_Ready EV_RequireRevalidation LC_RevalidationRequired,
     transition LC_Ready EV_BeginWithdraw LC_Withdrawing,
     transition LC_Ready EV_Supersede LC_Superseded,
     transition LC_Ready EV_Retire LC_Retired,
     transition LC_Ready EV_Revoke LC_Retired,
     transition LC_Installing EV_BeginInstall LC_Installing,
     transition LC_Installing EV_BackendApplied LC_Installed,
     transition LC_Installing EV_BackendIdempotent LC_Installed,
     transition LC_Installing EV_BackendRejected LC_Failed,
     transition LC_Installing EV_BackendNotSupported LC_Failed,
     transition LC_Installing EV_BackendPermanentFailure LC_Failed,
     transition LC_Installing EV_BackendRetryableFailure LC_RevalidationRequired,
     transition LC_Installing EV_BackendAmbiguous LC_RevalidationRequired,
     transition LC_Installing EV_BackendUnavailable LC_RevalidationRequired,
     transition LC_Installing EV_RequireRevalidation LC_RevalidationRequired,
     transition LC_Installing EV_BeginWithdraw LC_Withdrawing,
     transition LC_Installing EV_Supersede LC_Superseded,
     transition LC_Installing EV_Retire LC_Retired,
     transition LC_Installing EV_Revoke LC_Retired,
     transition LC_Installed EV_BeginInstall LC_Installing,
     transition LC_Installed EV_RequireRevalidation LC_RevalidationRequired,
     transition LC_Installed EV_BeginWithdraw LC_Withdrawing,
     transition LC_Installed EV_Supersede LC_Superseded,
     transition LC_Installed EV_Retire LC_Retired,
     transition LC_Installed EV_Revoke LC_Retired,
     transition LC_RevalidationRequired EV_BeginInstall LC_Installing,
     transition LC_RevalidationRequired EV_ValidationRejected LC_Failed,
     transition LC_RevalidationRequired EV_RequireRevalidation LC_RevalidationRequired,
     transition LC_RevalidationRequired EV_BeginWithdraw LC_Withdrawing,
     transition LC_RevalidationRequired EV_Supersede LC_Superseded,
     transition LC_RevalidationRequired EV_Retire LC_Retired,
     transition LC_RevalidationRequired EV_Revoke LC_Retired,
     transition LC_Withdrawing EV_BeginInstall LC_Installing,
     transition LC_Withdrawing EV_WithdrawApplied LC_Withdrawn,
     transition LC_Withdrawing EV_WithdrawFailed LC_RevalidationRequired,
     transition LC_Withdrawing EV_RequireRevalidation LC_RevalidationRequired,
     transition LC_Withdrawing EV_Supersede LC_Superseded,
     transition LC_Withdrawing EV_Retire LC_Retired,
     transition LC_Withdrawing EV_Revoke LC_Retired,
     transition LC_Withdrawn EV_BeginInstall LC_Installing,
     transition LC_Withdrawn EV_RequireRevalidation LC_RevalidationRequired,
     transition LC_Withdrawn EV_Supersede LC_Superseded,
     transition LC_Withdrawn EV_Retire LC_Retired,
     transition LC_Withdrawn EV_Revoke LC_Retired,
     transition LC_Failed EV_BeginInstall LC_Installing,
     transition LC_Failed EV_RequireRevalidation LC_RevalidationRequired,
     transition LC_Failed EV_BeginWithdraw LC_Withdrawing,
     transition LC_Failed EV_Supersede LC_Superseded,
     transition LC_Failed EV_Retire LC_Retired,
     transition LC_Failed EV_Revoke LC_Retired,
     transition LC_Superseded EV_Supersede LC_Superseded,
     transition LC_Superseded EV_Retire LC_Retired,
     transition LC_Superseded EV_Revoke LC_Retired,
     transition LC_Retired EV_Retire LC_Retired,
     transition LC_Retired EV_Revoke LC_Retired,
     transition LC_Retired EV_Supersede LC_Retired,
     transition LC_Retired EV_RequireRevalidation LC_Retired]"

definition transition_table_size :: nat where
  "transition_table_size = length kTransitions"

text \<open>\<open>next_lifecycle\<close>: the first row of the table that matches decides.\<close>

definition next_lifecycle :: "route_lifecycle \<Rightarrow> route_event \<Rightarrow> route_lifecycle option" where
  "next_lifecycle from event =
     map_option tr_to (find (\<lambda>t. tr_from t = from \<and> tr_event t = event) kTransitions)"

text \<open>\<open>apply_event\<close> returns the new state; a refused event leaves the state alone.\<close>

definition apply_event :: "route_lifecycle \<Rightarrow> route_event \<Rightarrow> status \<times> route_lifecycle" where
  "apply_event state event =
     (case next_lifecycle state event of
        None \<Rightarrow> (Inl SC_LifecycleViolation, state)
      | Some next \<Rightarrow> (ok_status, next))"

definition parse_lifecycle :: "string \<Rightarrow> route_lifecycle option" where
  "parse_lifecycle text = parse_by_name lifecycle_to_string lifecycle_values text"

definition parse_route_event :: "string \<Rightarrow> route_event option" where
  "parse_route_event text = parse_by_name route_event_to_string route_event_values text"

definition kRouteLifecycleCount :: u8 where
  "kRouteLifecycleCount = 11"

definition kRouteEventCount :: u8 where
  "kRouteEventCount = 19"

definition is_lifecycle_value :: "u8 \<Rightarrow> bool" where
  "is_lifecycle_value raw \<longleftrightarrow> 1 \<le> raw \<and> raw \<le> kRouteLifecycleCount"

definition is_route_event_value :: "u8 \<Rightarrow> bool" where
  "is_route_event_value raw \<longleftrightarrow> 1 \<le> raw \<and> raw \<le> kRouteEventCount"

definition is_terminal :: "route_lifecycle \<Rightarrow> bool" where
  "is_terminal lifecycle \<longleftrightarrow> lifecycle = LC_Retired"

definition is_current_capable :: "route_lifecycle \<Rightarrow> bool" where
  "is_current_capable lifecycle \<longleftrightarrow> lifecycle = LC_Installed"

definition has_outstanding_programming :: "route_lifecycle \<Rightarrow> bool" where
  "has_outstanding_programming lifecycle \<longleftrightarrow>
     lifecycle = LC_Installing \<or> lifecycle = LC_Withdrawing"

section \<open>The enumerations are well numbered\<close>

interpretation lifecycle_enum: named_enum lifecycle_raw lifecycle_values lifecycle_to_string
proof unfold_locales
  show "e \<in> set lifecycle_values" for e
    by (cases e) (simp_all add: lifecycle_values_def)
qed (simp_all add: lifecycle_values_def)

interpretation route_event_enum: named_enum route_event_raw route_event_values route_event_to_string
proof unfold_locales
  show "e \<in> set route_event_values" for e
    by (cases e) (simp_all add: route_event_values_def)
qed (simp_all add: route_event_values_def)

text \<open>Lifecycle states are ordered by their number, as \<open>std::map\<close> keys.\<close>

instantiation route_lifecycle :: linorder
begin

definition less_eq_route_lifecycle :: "route_lifecycle \<Rightarrow> route_lifecycle \<Rightarrow> bool" where
  "less_eq_route_lifecycle a b \<longleftrightarrow> lifecycle_raw a \<le> lifecycle_raw b"

definition less_route_lifecycle :: "route_lifecycle \<Rightarrow> route_lifecycle \<Rightarrow> bool" where
  "less_route_lifecycle a b \<longleftrightarrow> lifecycle_raw a < lifecycle_raw b"

instance
  by standard
    (auto simp: less_eq_route_lifecycle_def less_route_lifecycle_def
      simp flip: lifecycle_enum.raw_inject)

end

section \<open>Reading the table\<close>

text \<open>
  The table as a function: every pair of a state and an event has at most one row, so the
  linear search decides by the row itself.
\<close>

lemma kTransitions_deterministic:
  "distinct (map (\<lambda>t. (tr_from t, tr_event t)) kTransitions)"
  by (simp add: kTransitions_def)

lemma next_lifecycle_iff:
  "next_lifecycle s e = Some s' \<longleftrightarrow> transition s e s' \<in> set kTransitions"
proof
  assume "next_lifecycle s e = Some s'"
  then obtain t where "find (\<lambda>t. tr_from t = s \<and> tr_event t = e) kTransitions = Some t"
    and "s' = tr_to t"
    by (auto simp: next_lifecycle_def)
  then show "transition s e s' \<in> set kTransitions"
    by (cases t) (auto dest!: find_SomeD)
next
  assume "transition s e s' \<in> set kTransitions"
  from find_Some_iff_unique [OF kTransitions_deterministic this]
  show "next_lifecycle s e = Some s'"
    by (simp add: next_lifecycle_def)
qed

lemmas table_simps = next_lifecycle_def kTransitions_def

lemma lifecycle_value_iff: "is_lifecycle_value r \<longleftrightarrow> (\<exists>s. r = lifecycle_raw s)"
proof
  assume "is_lifecycle_value r"
  then have "unat r \<in> {1..11}"
    by (simp add: is_lifecycle_value_def kRouteLifecycleCount_def word_le_nat_alt)
  then have "r \<in> set (map lifecycle_raw lifecycle_values)"
    by (simp add: lifecycle_values_def word_unat_eq_iff) presburger
  then show "\<exists>s. r = lifecycle_raw s" by auto
next
  assume "\<exists>s. r = lifecycle_raw s"
  then obtain s where "r = lifecycle_raw s" ..
  then show "is_lifecycle_value r"
    by (cases s) (simp_all add: is_lifecycle_value_def kRouteLifecycleCount_def)
qed

lemma route_event_value_iff: "is_route_event_value r \<longleftrightarrow> (\<exists>e. r = route_event_raw e)"
proof
  assume "is_route_event_value r"
  then have "unat r \<in> {1..19}"
    by (simp add: is_route_event_value_def kRouteEventCount_def word_le_nat_alt)
  then have "r \<in> set (map route_event_raw route_event_values)"
    by (simp add: route_event_values_def word_unat_eq_iff) presburger
  then show "\<exists>e. r = route_event_raw e" by auto
next
  assume "\<exists>e. r = route_event_raw e"
  then obtain e where "r = route_event_raw e" ..
  then show "is_route_event_value r"
    by (cases e) (simp_all add: is_route_event_value_def kRouteEventCount_def)
qed

end
