(* ===== verification/RF_Record.thy ===== *)
theory RF_Record
  imports RF_RouteKey RF_Lifecycle
begin

text \<open>
  \<^bold>\<open>Route records.\<close> This theory models \<open>include/routefabric/record.hpp\<close> and
  \<open>src/record.cpp\<close>: bindings, applied and observed backend state, provenance, lineage,
  supersession, retirement and revocation, the authoritative route record, its structural
  validation, its semantic digest and its binary codec. Each codec is shown to read back
  what it writes and to accept nothing but the canonical encoding of a valid value.
\<close>

definition kMaxDiagnosticChars :: nat where "kMaxDiagnosticChars = 256"

definition kRecordEncodingTag :: u8 where "kRecordEncodingTag = 1"

section \<open>Enumerations\<close>

datatype next_hop_kind =
    NH_DirectEndpoint
  | NH_Router
  | NH_Port
  | NH_NextHopGroup

fun next_hop_kind_raw :: "next_hop_kind \<Rightarrow> u8" where
  "next_hop_kind_raw NH_DirectEndpoint = 1"
| "next_hop_kind_raw NH_Router = 2"
| "next_hop_kind_raw NH_Port = 3"
| "next_hop_kind_raw NH_NextHopGroup = 4"

definition next_hop_kind_values :: "next_hop_kind list" where
  "next_hop_kind_values =
     [NH_DirectEndpoint, NH_Router, NH_Port, NH_NextHopGroup]"

fun next_hop_kind_to_string :: "next_hop_kind \<Rightarrow> string" where
  "next_hop_kind_to_string NH_DirectEndpoint = ''direct-endpoint''"
| "next_hop_kind_to_string NH_Router = ''router''"
| "next_hop_kind_to_string NH_Port = ''port''"
| "next_hop_kind_to_string NH_NextHopGroup = ''next-hop-group''"

datatype binding_kind =
    BK_NextHop
  | BK_AuthorizedPath

fun binding_kind_raw :: "binding_kind \<Rightarrow> u8" where
  "binding_kind_raw BK_NextHop = 1"
| "binding_kind_raw BK_AuthorizedPath = 2"

definition binding_kind_values :: "binding_kind list" where
  "binding_kind_values =
     [BK_NextHop, BK_AuthorizedPath]"

fun binding_kind_to_string :: "binding_kind \<Rightarrow> string" where
  "binding_kind_to_string BK_NextHop = ''next-hop''"
| "binding_kind_to_string BK_AuthorizedPath = ''authorized-path''"

datatype applied_classification =
    AC_Unknown
  | AC_Pending
  | AC_Applied
  | AC_IdempotentAlreadyApplied
  | AC_Rejected
  | AC_NotSupported
  | AC_RetryableFailure
  | AC_PermanentFailure
  | AC_Ambiguous
  | AC_Withdrawn
  | AC_WithdrawFailed
  | AC_BackendUnavailable

fun applied_classification_raw :: "applied_classification \<Rightarrow> u8" where
  "applied_classification_raw AC_Unknown = 1"
| "applied_classification_raw AC_Pending = 2"
| "applied_classification_raw AC_Applied = 3"
| "applied_classification_raw AC_IdempotentAlreadyApplied = 4"
| "applied_classification_raw AC_Rejected = 5"
| "applied_classification_raw AC_NotSupported = 6"
| "applied_classification_raw AC_RetryableFailure = 7"
| "applied_classification_raw AC_PermanentFailure = 8"
| "applied_classification_raw AC_Ambiguous = 9"
| "applied_classification_raw AC_Withdrawn = 10"
| "applied_classification_raw AC_WithdrawFailed = 11"
| "applied_classification_raw AC_BackendUnavailable = 12"

definition applied_classification_values :: "applied_classification list" where
  "applied_classification_values =
     [AC_Unknown, AC_Pending, AC_Applied, AC_IdempotentAlreadyApplied,
      AC_Rejected, AC_NotSupported, AC_RetryableFailure, AC_PermanentFailure,
      AC_Ambiguous, AC_Withdrawn, AC_WithdrawFailed, AC_BackendUnavailable]"

fun applied_classification_to_string :: "applied_classification \<Rightarrow> string" where
  "applied_classification_to_string AC_Unknown = ''UNKNOWN''"
| "applied_classification_to_string AC_Pending = ''PENDING''"
| "applied_classification_to_string AC_Applied = ''APPLIED''"
| "applied_classification_to_string AC_IdempotentAlreadyApplied = ''IDEMPOTENT_ALREADY_APPLIED''"
| "applied_classification_to_string AC_Rejected = ''REJECTED''"
| "applied_classification_to_string AC_NotSupported = ''NOT_SUPPORTED''"
| "applied_classification_to_string AC_RetryableFailure = ''RETRYABLE_FAILURE''"
| "applied_classification_to_string AC_PermanentFailure = ''PERMANENT_FAILURE''"
| "applied_classification_to_string AC_Ambiguous = ''AMBIGUOUS''"
| "applied_classification_to_string AC_Withdrawn = ''WITHDRAWN''"
| "applied_classification_to_string AC_WithdrawFailed = ''WITHDRAW_FAILED''"
| "applied_classification_to_string AC_BackendUnavailable = ''BACKEND_UNAVAILABLE''"

datatype observation_class =
    OC_Unknown
  | OC_Matched
  | OC_Missing
  | OC_Diverged
  | OC_Extra
  | OC_Unavailable

fun observation_class_raw :: "observation_class \<Rightarrow> u8" where
  "observation_class_raw OC_Unknown = 1"
| "observation_class_raw OC_Matched = 2"
| "observation_class_raw OC_Missing = 3"
| "observation_class_raw OC_Diverged = 4"
| "observation_class_raw OC_Extra = 5"
| "observation_class_raw OC_Unavailable = 6"

definition observation_class_values :: "observation_class list" where
  "observation_class_values =
     [OC_Unknown, OC_Matched, OC_Missing, OC_Diverged,
      OC_Extra, OC_Unavailable]"

fun observation_class_to_string :: "observation_class \<Rightarrow> string" where
  "observation_class_to_string OC_Unknown = ''UNKNOWN''"
| "observation_class_to_string OC_Matched = ''MATCHED''"
| "observation_class_to_string OC_Missing = ''MISSING''"
| "observation_class_to_string OC_Diverged = ''DIVERGED''"
| "observation_class_to_string OC_Extra = ''EXTRA''"
| "observation_class_to_string OC_Unavailable = ''UNAVAILABLE''"

datatype provenance_source_class =
    PS_Publisher
  | PS_CoordinatorRecovery
  | PS_AdministrativeAction
  | PS_Reconciliation
  | PS_LineageMint

fun provenance_source_class_raw :: "provenance_source_class \<Rightarrow> u8" where
  "provenance_source_class_raw PS_Publisher = 1"
| "provenance_source_class_raw PS_CoordinatorRecovery = 2"
| "provenance_source_class_raw PS_AdministrativeAction = 3"
| "provenance_source_class_raw PS_Reconciliation = 4"
| "provenance_source_class_raw PS_LineageMint = 5"

definition provenance_source_class_values :: "provenance_source_class list" where
  "provenance_source_class_values =
     [PS_Publisher, PS_CoordinatorRecovery, PS_AdministrativeAction, PS_Reconciliation,
      PS_LineageMint]"

fun provenance_source_class_to_string :: "provenance_source_class \<Rightarrow> string" where
  "provenance_source_class_to_string PS_Publisher = ''publisher''"
| "provenance_source_class_to_string PS_CoordinatorRecovery = ''coordinator-recovery''"
| "provenance_source_class_to_string PS_AdministrativeAction = ''administrative-action''"
| "provenance_source_class_to_string PS_Reconciliation = ''reconciliation''"
| "provenance_source_class_to_string PS_LineageMint = ''lineage-mint''"

datatype supersession_kind =
    SK_None
  | SK_Replacement
  | SK_LineageTakeover

fun supersession_kind_raw :: "supersession_kind \<Rightarrow> u8" where
  "supersession_kind_raw SK_None = 0"
| "supersession_kind_raw SK_Replacement = 1"
| "supersession_kind_raw SK_LineageTakeover = 2"

definition supersession_kind_values :: "supersession_kind list" where
  "supersession_kind_values =
     [SK_None, SK_Replacement, SK_LineageTakeover]"

fun supersession_kind_to_string :: "supersession_kind \<Rightarrow> string" where
  "supersession_kind_to_string SK_None = ''none''"
| "supersession_kind_to_string SK_Replacement = ''replacement''"
| "supersession_kind_to_string SK_LineageTakeover = ''lineage-takeover''"

datatype retirement_cause =
    RT_None
  | RT_Administrative
  | RT_Revoked
  | RT_SupersededByLineage
  | RT_EpochInvalidated

fun retirement_cause_raw :: "retirement_cause \<Rightarrow> u8" where
  "retirement_cause_raw RT_None = 0"
| "retirement_cause_raw RT_Administrative = 1"
| "retirement_cause_raw RT_Revoked = 2"
| "retirement_cause_raw RT_SupersededByLineage = 3"
| "retirement_cause_raw RT_EpochInvalidated = 4"

definition retirement_cause_values :: "retirement_cause list" where
  "retirement_cause_values =
     [RT_None, RT_Administrative, RT_Revoked, RT_SupersededByLineage,
      RT_EpochInvalidated]"

fun retirement_cause_to_string :: "retirement_cause \<Rightarrow> string" where
  "retirement_cause_to_string RT_None = ''none''"
| "retirement_cause_to_string RT_Administrative = ''administrative''"
| "retirement_cause_to_string RT_Revoked = ''revoked''"
| "retirement_cause_to_string RT_SupersededByLineage = ''superseded-by-lineage''"
| "retirement_cause_to_string RT_EpochInvalidated = ''epoch-invalidated''"

definition parse_next_hop_kind :: "string \<Rightarrow> next_hop_kind option" where
  "parse_next_hop_kind text = parse_by_name next_hop_kind_to_string next_hop_kind_values text"

definition parse_binding_kind :: "string \<Rightarrow> binding_kind option" where
  "parse_binding_kind text = parse_by_name binding_kind_to_string binding_kind_values text"

definition parse_applied_classification :: "string \<Rightarrow> applied_classification option" where
  "parse_applied_classification text =
     parse_by_name applied_classification_to_string applied_classification_values text"

definition parse_observation_class :: "string \<Rightarrow> observation_class option" where
  "parse_observation_class text = parse_by_name observation_class_to_string observation_class_values text"

definition parse_provenance_source :: "string \<Rightarrow> provenance_source_class option" where
  "parse_provenance_source text =
     parse_by_name provenance_source_class_to_string provenance_source_class_values text"

section \<open>Bindings\<close>

record next_hop_binding =
  nh_kind :: next_hop_kind
  nh_next_hop :: next_hop_id
  nh_next_hop_group :: next_hop_group_id
  nh_entity_generation :: policy_generation

definition next_hop_binding_is_valid :: "next_hop_binding \<Rightarrow> bool" where
  "next_hop_binding_is_valid b \<longleftrightarrow>
     (if \<not> counter_is_valid (nh_entity_generation b) then False
      else case nh_kind b of
             NH_NextHopGroup \<Rightarrow> fixed_is_valid (nh_next_hop_group b) \<and> \<not> fixed_is_valid (nh_next_hop b)
           | _ \<Rightarrow> fixed_is_valid (nh_next_hop b) \<and> \<not> fixed_is_valid (nh_next_hop_group b))"

record route_binding =
  rb_kind :: binding_kind
  rb_next_hop :: next_hop_binding
  rb_path :: path_id
  rb_path_authority_generation :: path_authority_generation
  rb_policy_generation :: policy_generation

definition route_binding_is_valid :: "route_binding \<Rightarrow> bool" where
  "route_binding_is_valid b \<longleftrightarrow>
     (case rb_kind b of
        BK_AuthorizedPath \<Rightarrow>
          fixed_is_valid (rb_path b) \<and> counter_is_valid (rb_path_authority_generation b)
      | BK_NextHop \<Rightarrow> next_hop_binding_is_valid (rb_next_hop b))"

definition render_route_binding :: "route_binding \<Rightarrow> string" where
  "render_route_binding b =
     (if \<not> route_binding_is_valid b then ''<invalid-binding>''
      else if rb_kind b = BK_AuthorizedPath then
        ''path:'' @ fixed_render (rb_path b) @ ''@'' @ to_decimal (rb_path_authority_generation b)
      else if nh_kind (rb_next_hop b) = NH_NextHopGroup then
        ''next-hop-group:'' @ fixed_render (nh_next_hop_group (rb_next_hop b)) @ ''@'' @
        to_decimal (nh_entity_generation (rb_next_hop b))
      else
        ''next-hop:'' @ next_hop_kind_to_string (nh_kind (rb_next_hop b)) @ '':'' @
        fixed_render (nh_next_hop (rb_next_hop b)) @ ''@'' @
        to_decimal (nh_entity_generation (rb_next_hop b)))"

section \<open>Applied state, observation, provenance\<close>

record applied_state =
  ap_classification :: applied_classification
  ap_attempt :: programming_attempt_id
  ap_programming_generation :: programming_generation
  ap_programmed_generation :: route_generation
  ap_programmed_authority_generation :: route_authority_generation
  ap_backend :: backend_id
  ap_detail :: string

definition applied_default :: applied_state where
  "applied_default =
     \<lparr>ap_classification = AC_Unknown, ap_attempt = 0, ap_programming_generation = 0,
      ap_programmed_generation = 0, ap_programmed_authority_generation = 0,
      ap_backend = [], ap_detail = []\<rparr>"

definition has_outcome :: "applied_state \<Rightarrow> bool" where
  "has_outcome a \<longleftrightarrow> ap_classification a \<noteq> AC_Unknown \<and> ap_classification a \<noteq> AC_Pending"

definition reports_applied :: "applied_state \<Rightarrow> bool" where
  "reports_applied a \<longleftrightarrow>
     ap_classification a = AC_Applied \<or> ap_classification a = AC_IdempotentAlreadyApplied"

definition reports_not_present :: "applied_state \<Rightarrow> bool" where
  "reports_not_present a \<longleftrightarrow> ap_classification a = AC_Withdrawn"

record backend_observation =
  ob_classification :: observation_class
  ob_attempt :: programming_attempt_id
  ob_observed_generation :: route_generation
  ob_backend :: backend_id
  ob_detail :: string

definition observation_default :: backend_observation where
  "observation_default =
     \<lparr>ob_classification = OC_Unknown, ob_attempt = 0, ob_observed_generation = 0,
      ob_backend = [], ob_detail = []\<rparr>"

record provenance =
  pv_publisher :: publisher_id
  pv_worker_boot :: worker_boot_id
  pv_epoch :: coordinator_epoch
  pv_source_class :: provenance_source_class
  pv_source_generation :: route_generation
  pv_mutation_attempt :: mutation_attempt_id
  pv_policy_generation :: policy_generation
  pv_path_authority_generation :: path_authority_generation

section \<open>Lineage, supersession, retirement, revocation\<close>

record lineage_entry =
  le_generation :: route_generation
  le_prior_generation :: route_generation
  le_event :: route_event
  le_lifecycle :: route_lifecycle
  le_binding_kind :: binding_kind
  le_path :: path_id
  le_path_authority_generation :: path_authority_generation
  le_publisher :: publisher_id
  le_epoch :: coordinator_epoch

record supersession_record =
  su_kind :: supersession_kind
  su_prior_generation :: route_generation
  su_successor_generation :: route_generation
  su_successor_lineage :: route_id
  su_reason :: string
  su_epoch :: coordinator_epoch

definition supersession_default :: supersession_record where
  "supersession_default =
     \<lparr>su_kind = SK_None, su_prior_generation = 0, su_successor_generation = 0,
      su_successor_lineage = 0, su_reason = [], su_epoch = 0\<rparr>"

record retirement_record =
  re_cause :: retirement_cause
  re_reason :: string
  re_epoch :: coordinator_epoch
  re_generation :: route_generation
  re_attempt :: mutation_attempt_id

definition retirement_default :: retirement_record where
  "retirement_default =
     \<lparr>re_cause = RT_None, re_reason = [], re_epoch = 0, re_generation = 0, re_attempt = 0\<rparr>"

record revocation_record =
  rv_route :: route_id
  rv_key :: route_key
  rv_generation :: route_generation
  rv_epoch :: coordinator_epoch
  rv_attempt :: mutation_attempt_id
  rv_reason :: string

section \<open>The route record\<close>

record route_record =
  rr_id :: route_id
  rr_key :: route_key
  rr_generation :: route_generation
  rr_authority_generation :: route_authority_generation
  rr_invalidation_watermark :: route_authority_generation
  rr_programming_generation :: programming_generation
  rr_lifecycle :: route_lifecycle
  rr_binding :: route_binding
  rr_applied :: applied_state
  rr_observation :: backend_observation
  rr_provenance :: provenance
  rr_supersession :: supersession_record
  rr_retirement :: retirement_record
  rr_history :: "lineage_entry list"

definition blocks_republication :: "route_record \<Rightarrow> bool" where
  "blocks_republication r \<longleftrightarrow> rr_lifecycle r = LC_Retired \<or> rr_lifecycle r = LC_Superseded"

section \<open>Structural validation\<close>

text \<open>
  The loop over the history in \<open>validate_route_record\<close>; \<open>previous\<close> is \<open>None\<close> for
  the first entry.
\<close>

fun validate_history :: "route_generation \<Rightarrow> route_generation option \<Rightarrow> lineage_entry list \<Rightarrow> status" where
  "validate_history generation previous [] = ok_status"
| "validate_history generation previous (entry # entries) =
     (if \<not> counter_is_valid (le_generation entry) \<or> le_generation entry > generation
        then Inl SC_MalformedEncoding
      else if counter_is_valid (le_prior_generation entry) \<and>
              le_prior_generation entry \<ge> le_generation entry
        then Inl SC_MalformedEncoding
      else if (case previous of None \<Rightarrow> False | Some p \<Rightarrow> le_generation entry < p)
        then Inl SC_MalformedEncoding
      else validate_history generation (Some (le_generation entry)) entries)"

text \<open>The tests on the identities, counters and bounds of a record (lines up to the history).\<close>

definition validate_fields :: "route_record \<Rightarrow> limits \<Rightarrow> status" where
  "validate_fields r limits =
     (if \<not> fixed_is_valid (rr_id r) then Inl SC_MalformedEncoding
      else if \<not> route_key_is_valid (rr_key r) then Inl SC_MalformedEncoding
      else if \<not> counter_is_valid (rr_generation r) then Inl SC_MalformedEncoding
      else if \<not> counter_is_valid (rr_authority_generation r) then Inl SC_MalformedEncoding
      else if \<not> counter_is_valid (rr_invalidation_watermark r) then Inl SC_MalformedEncoding
      else if \<not> counter_is_valid (rr_programming_generation r) then Inl SC_MalformedEncoding
      else if \<not> is_lifecycle_value (lifecycle_raw (rr_lifecycle r)) then Inl SC_MalformedEncoding
      else if \<not> route_binding_is_valid (rr_binding r) then Inl SC_MalformedEncoding
      else if length (rr_history r) > max_history_entries_per_route limits then Inl SC_LimitExceeded
      else if counter_is_valid (ap_programmed_generation (rr_applied r)) \<and>
              ap_programmed_generation (rr_applied r) > rr_generation r then Inl SC_MalformedEncoding
      else if counter_is_valid (ap_programming_generation (rr_applied r)) \<and>
              ap_programming_generation (rr_applied r) > rr_programming_generation r
        then Inl SC_MalformedEncoding
      else if length (ap_detail (rr_applied r)) > kMaxDiagnosticChars \<or>
              length (ob_detail (rr_observation r)) > kMaxDiagnosticChars \<or>
              length (su_reason (rr_supersession r)) > kMaxDiagnosticChars \<or>
              length (re_reason (rr_retirement r)) > kMaxDiagnosticChars then Inl SC_LimitExceeded
      else if counter_is_valid (ob_observed_generation (rr_observation r)) \<and>
              ob_observed_generation (rr_observation r) > rr_generation r then Inl SC_MalformedEncoding
      else if rr_invalidation_watermark r > rr_authority_generation r then Inl SC_MalformedEncoding
      else ok_status)"

text \<open>The tests that tie the lifecycle to the retirement, supersession and applied state.\<close>

definition validate_lifecycle_evidence :: "route_record \<Rightarrow> status" where
  "validate_lifecycle_evidence r =
     (if rr_lifecycle r = LC_Retired \<and> re_cause (rr_retirement r) = RT_None then Inl SC_MalformedEncoding
      else if rr_lifecycle r = LC_Retired \<and>
              (\<not> counter_is_valid (re_generation (rr_retirement r)) \<or>
               \<not> counter_is_valid (re_epoch (rr_retirement r)) \<or>
               \<not> fixed_is_valid (re_attempt (rr_retirement r))) then Inl SC_MalformedEncoding
      else if rr_lifecycle r \<noteq> LC_Retired \<and> re_cause (rr_retirement r) \<noteq> RT_None
        then Inl SC_MalformedEncoding
      else if rr_lifecycle r = LC_Superseded \<and> su_kind (rr_supersession r) = SK_None
        then Inl SC_MalformedEncoding
      else if rr_lifecycle r = LC_Installed \<and> \<not> reports_applied (rr_applied r)
        then Inl SC_MalformedEncoding
      else if rr_lifecycle r = LC_Withdrawn \<and> \<not> reports_not_present (rr_applied r)
        then Inl SC_MalformedEncoding
      else if rr_lifecycle r = LC_Failed \<and>
              ap_classification (rr_applied r) \<notin> set [AC_Rejected, AC_NotSupported, AC_PermanentFailure]
        then Inl SC_MalformedEncoding
      else ok_status)"

definition validate_route_record :: "route_record \<Rightarrow> limits \<Rightarrow> status" where
  "validate_route_record r limits =
     (case validate_fields r limits of
        Inl e \<Rightarrow> Inl e
      | Inr _ \<Rightarrow>
          (case validate_history (rr_generation r) None (rr_history r) of
             Inl e \<Rightarrow> Inl e
           | Inr _ \<Rightarrow> validate_lifecycle_evidence r))"

section \<open>Writers\<close>

definition w_optional_fixed :: "fixed_id \<Rightarrow> bytes" where
  "w_optional_fixed i = array16_bytes i"

definition w_optional_counter :: "counter_id \<Rightarrow> bytes" where
  "w_optional_counter c =
     (if counter_is_valid c then w_u8 1 @ w_counter c else w_u8 0 @ w_u64 0)"

definition w_applied :: "applied_state \<Rightarrow> bytes" where
  "w_applied a =
     w_u8 (applied_classification_raw (ap_classification a)) @ w_optional_fixed (ap_attempt a) @
     w_optional_counter (ap_programming_generation a) @ w_optional_counter (ap_programmed_generation a) @
     w_optional_counter (ap_programmed_authority_generation a) @ w_token (ap_backend a) @
     w_string (ap_detail a)"

definition w_observation :: "backend_observation \<Rightarrow> bytes" where
  "w_observation ob =
     w_u8 (observation_class_raw (ob_classification ob)) @ w_optional_fixed (ob_attempt ob) @
     w_optional_counter (ob_observed_generation ob) @ w_token (ob_backend ob) @ w_string (ob_detail ob)"

definition w_provenance :: "provenance \<Rightarrow> bytes" where
  "w_provenance pv =
     w_token (pv_publisher pv) @ w_fixed (pv_worker_boot pv) @ w_counter (pv_epoch pv) @
     w_u8 (provenance_source_class_raw (pv_source_class pv)) @ w_counter (pv_source_generation pv) @
     w_fixed (pv_mutation_attempt pv) @ w_counter (pv_policy_generation pv) @
     w_counter (pv_path_authority_generation pv)"

definition w_supersession :: "supersession_record \<Rightarrow> bytes" where
  "w_supersession su =
     w_u8 (supersession_kind_raw (su_kind su)) @ w_optional_counter (su_prior_generation su) @
     w_optional_counter (su_successor_generation su) @ w_optional_fixed (su_successor_lineage su) @
     w_string (su_reason su) @ w_optional_counter (su_epoch su)"

definition w_retirement :: "retirement_record \<Rightarrow> bytes" where
  "w_retirement re =
     w_u8 (retirement_cause_raw (re_cause re)) @ w_string (re_reason re) @
     w_optional_counter (re_epoch re) @ w_optional_counter (re_generation re) @
     w_optional_fixed (re_attempt re)"

definition w_history_entry :: "lineage_entry \<Rightarrow> bytes" where
  "w_history_entry e =
     w_counter (le_generation e) @ w_optional_counter (le_prior_generation e) @
     w_u8 (route_event_raw (le_event e)) @ w_u8 (lifecycle_raw (le_lifecycle e)) @
     w_u8 (binding_kind_raw (le_binding_kind e)) @ w_optional_fixed (le_path e) @
     w_optional_counter (le_path_authority_generation e) @ w_token (le_publisher e) @
     w_counter (le_epoch e)"

definition w_route_binding :: "route_binding \<Rightarrow> bytes" where
  "w_route_binding b =
     w_u8 (binding_kind_raw (rb_kind b)) @ w_u8 (next_hop_kind_raw (nh_kind (rb_next_hop b))) @
     w_optional_fixed (nh_next_hop (rb_next_hop b)) @ w_optional_fixed (nh_next_hop_group (rb_next_hop b)) @
     w_counter (nh_entity_generation (rb_next_hop b)) @ w_optional_fixed (rb_path b) @
     w_optional_counter (rb_path_authority_generation b) @ w_counter (rb_policy_generation b)"

definition w_route_record :: "route_record \<Rightarrow> bytes" where
  "w_route_record r =
     w_u8 kRecordEncodingTag @ w_fixed (rr_id r) @ w_route_key (rr_key r) @
     w_counter (rr_generation r) @ w_counter (rr_authority_generation r) @
     w_counter (rr_invalidation_watermark r) @ w_counter (rr_programming_generation r) @
     w_u8 (lifecycle_raw (rr_lifecycle r)) @ w_route_binding (rr_binding r) @
     w_applied (rr_applied r) @ w_observation (rr_observation r) @ w_provenance (rr_provenance r) @
     w_supersession (rr_supersession r) @ w_retirement (rr_retirement r) @
     w_u32 (of_nat (length (rr_history r))) @ w_all w_history_entry (rr_history r)"

definition w_revocation :: "revocation_record \<Rightarrow> bytes" where
  "w_revocation rv =
     w_fixed (rv_route rv) @ w_route_key (rv_key rv) @ w_counter (rv_generation rv) @
     w_counter (rv_epoch rv) @ w_fixed (rv_attempt rv) @ w_string (rv_reason rv)"

section \<open>Semantic digest\<close>

text \<open>The bytes \<open>hash_record\<close> feeds to the two hash lanes.\<close>

definition semantic_bytes :: "route_record \<Rightarrow> bytes" where
  "semantic_bytes r =
     w_fixed (rr_id r) @ w_route_key (rr_key r) @
     w_counter (rr_generation r) @ w_counter (rr_authority_generation r) @
     w_counter (rr_invalidation_watermark r) @ w_counter (rr_programming_generation r) @
     w_u8 (lifecycle_raw (rr_lifecycle r)) @ w_route_binding (rr_binding r) @
     w_u8 (applied_classification_raw (ap_classification (rr_applied r))) @
     w_optional_counter (ap_programming_generation (rr_applied r)) @
     w_optional_counter (ap_programmed_generation (rr_applied r)) @
     w_optional_counter (ap_programmed_authority_generation (rr_applied r)) @
     w_token (ap_backend (rr_applied r)) @
     w_u8 (observation_class_raw (ob_classification (rr_observation r))) @
     w_optional_counter (ob_observed_generation (rr_observation r)) @
     w_token (ob_backend (rr_observation r)) @ w_provenance (rr_provenance r) @
     w_supersession (rr_supersession r) @ w_retirement (rr_retirement r) @
     w_u32 (of_nat (length (rr_history r))) @ w_all w_history_entry (rr_history r)"

definition hash_record :: "route_record \<Rightarrow> u64 \<Rightarrow> u64 \<Rightarrow> u64 \<times> u64" where
  "hash_record r forward backward =
     (fnv1a64_update forward (semantic_bytes r),
      foldl fnv1a64_update_byte backward (rev (semantic_bytes r)))"

definition semantic_digest :: "route_record \<Rightarrow> digest128" where
  "semantic_digest r =
     (let forward = fnv1a64_update kFnvBasis (w_raw_text ''routefabric.route-record.v1'');
          backward = fnv1a64_update kFnvBasisAlt (w_raw_text ''routefabric.route-record.v1'');
          (forward, backward) = hash_record r forward backward
      in from_u64_pair (mix64 forward) (mix64 backward))"

section \<open>Readers\<close>

definition rd_optional_fixed :: "fixed_id reader" where
  "rd_optional_fixed data = do { (raw, data) \<leftarrow> rd_raw 16 data; Some (array16_of raw, data) }"

definition rd_optional_counter :: "counter_id reader" where
  "rd_optional_counter data = do {
     (present, data) \<leftarrow> rd_u8 data;
     (raw, data) \<leftarrow> rd_u64 data;
     if present = 0 then (if raw \<noteq> 0 then None else Some (0, data))
     else if present \<noteq> 1 \<or> raw = 0 then None
     else Some (raw, data) }"

definition rd_applied :: "applied_state reader" where
  "rd_applied data = do {
     (classification, data) \<leftarrow> rd_enum applied_classification_raw applied_classification_values data;
     (attempt, data) \<leftarrow> rd_optional_fixed data;
     (programming_generation, data) \<leftarrow> rd_optional_counter data;
     (programmed_generation, data) \<leftarrow> rd_optional_counter data;
     (programmed_authority_generation, data) \<leftarrow> rd_optional_counter data;
     (backend, data) \<leftarrow> rd_token data;
     (detail, data) \<leftarrow> rd_string kMaxDiagnosticChars data;
     Some (\<lparr>ap_classification = classification, ap_attempt = attempt,
            ap_programming_generation = programming_generation,
            ap_programmed_generation = programmed_generation,
            ap_programmed_authority_generation = programmed_authority_generation,
            ap_backend = backend, ap_detail = detail\<rparr>, data) }"

definition rd_observation :: "backend_observation reader" where
  "rd_observation data = do {
     (classification, data) \<leftarrow> rd_enum observation_class_raw observation_class_values data;
     (attempt, data) \<leftarrow> rd_optional_fixed data;
     (observed_generation, data) \<leftarrow> rd_optional_counter data;
     (backend, data) \<leftarrow> rd_token data;
     (detail, data) \<leftarrow> rd_string kMaxDiagnosticChars data;
     Some (\<lparr>ob_classification = classification, ob_attempt = attempt,
            ob_observed_generation = observed_generation, ob_backend = backend,
            ob_detail = detail\<rparr>, data) }"

definition rd_provenance :: "provenance reader" where
  "rd_provenance data = do {
     (publisher, data) \<leftarrow> rd_token data;
     (worker_boot, data) \<leftarrow> rd_fixed data;
     (epoch, data) \<leftarrow> rd_counter data;
     (source_class, data) \<leftarrow> rd_enum provenance_source_class_raw provenance_source_class_values data;
     (source_generation, data) \<leftarrow> rd_counter data;
     (mutation_attempt, data) \<leftarrow> rd_fixed data;
     (policy_generation, data) \<leftarrow> rd_counter data;
     (path_authority_generation, data) \<leftarrow> rd_counter data;
     Some (\<lparr>pv_publisher = publisher, pv_worker_boot = worker_boot, pv_epoch = epoch,
            pv_source_class = source_class, pv_source_generation = source_generation,
            pv_mutation_attempt = mutation_attempt, pv_policy_generation = policy_generation,
            pv_path_authority_generation = path_authority_generation\<rparr>, data) }"

definition rd_supersession :: "supersession_record reader" where
  "rd_supersession data = do {
     (kind, data) \<leftarrow> rd_enum supersession_kind_raw supersession_kind_values data;
     (prior_generation, data) \<leftarrow> rd_optional_counter data;
     (successor_generation, data) \<leftarrow> rd_optional_counter data;
     (successor_lineage, data) \<leftarrow> rd_optional_fixed data;
     (reason, data) \<leftarrow> rd_string kMaxDiagnosticChars data;
     (epoch, data) \<leftarrow> rd_optional_counter data;
     Some (\<lparr>su_kind = kind, su_prior_generation = prior_generation,
            su_successor_generation = successor_generation,
            su_successor_lineage = successor_lineage, su_reason = reason, su_epoch = epoch\<rparr>, data) }"

definition rd_retirement :: "retirement_record reader" where
  "rd_retirement data = do {
     (cause, data) \<leftarrow> rd_enum retirement_cause_raw retirement_cause_values data;
     (reason, data) \<leftarrow> rd_string kMaxDiagnosticChars data;
     (epoch, data) \<leftarrow> rd_optional_counter data;
     (generation, data) \<leftarrow> rd_optional_counter data;
     (attempt, data) \<leftarrow> rd_optional_fixed data;
     Some (\<lparr>re_cause = cause, re_reason = reason, re_epoch = epoch, re_generation = generation,
            re_attempt = attempt\<rparr>, data) }"

definition rd_history_entry :: "lineage_entry reader" where
  "rd_history_entry data = do {
     (generation, data) \<leftarrow> rd_counter data;
     (prior_generation, data) \<leftarrow> rd_optional_counter data;
     (event, data) \<leftarrow> rd_u8 data;
     (lifecycle, data) \<leftarrow> rd_u8 data;
     (binding_kind, data) \<leftarrow> rd_u8 data;
     event \<leftarrow> enum_of_raw route_event_raw route_event_values event;
     lifecycle \<leftarrow> enum_of_raw lifecycle_raw lifecycle_values lifecycle;
     binding_kind \<leftarrow> enum_of_raw binding_kind_raw binding_kind_values binding_kind;
     (path, data) \<leftarrow> rd_optional_fixed data;
     (path_authority_generation, data) \<leftarrow> rd_optional_counter data;
     (publisher, data) \<leftarrow> rd_token data;
     (epoch, data) \<leftarrow> rd_counter data;
     Some (\<lparr>le_generation = generation, le_prior_generation = prior_generation, le_event = event,
            le_lifecycle = lifecycle, le_binding_kind = binding_kind, le_path = path,
            le_path_authority_generation = path_authority_generation, le_publisher = publisher,
            le_epoch = epoch\<rparr>, data) }"

definition rd_route_binding :: "route_binding reader" where
  "rd_route_binding data = do {
     (kind, data) \<leftarrow> rd_u8 data;
     (next_hop_kind, data) \<leftarrow> rd_u8 data;
     kind \<leftarrow> enum_of_raw binding_kind_raw binding_kind_values kind;
     next_hop_kind \<leftarrow> enum_of_raw next_hop_kind_raw next_hop_kind_values next_hop_kind;
     (next_hop, data) \<leftarrow> rd_optional_fixed data;
     (next_hop_group, data) \<leftarrow> rd_optional_fixed data;
     (entity_generation, data) \<leftarrow> rd_counter data;
     (path, data) \<leftarrow> rd_optional_fixed data;
     (path_authority_generation, data) \<leftarrow> rd_optional_counter data;
     (policy_generation, data) \<leftarrow> rd_counter data;
     let binding = \<lparr>rb_kind = kind,
                    rb_next_hop = \<lparr>nh_kind = next_hop_kind, nh_next_hop = next_hop,
                                   nh_next_hop_group = next_hop_group,
                                   nh_entity_generation = entity_generation\<rparr>,
                    rb_path = path, rb_path_authority_generation = path_authority_generation,
                    rb_policy_generation = policy_generation\<rparr>;
     if \<not> route_binding_is_valid binding then None else Some (binding, data) }"

definition rd_route_record :: "limits \<Rightarrow> route_record reader" where
  "rd_route_record limits data = do {
     (tag, data) \<leftarrow> rd_u8 data;
     if tag \<noteq> kRecordEncodingTag then None else do {
     (i, data) \<leftarrow> rd_fixed data;
     (key, data) \<leftarrow> rd_route_key (max_destination_chars limits) data;
     (generation, data) \<leftarrow> rd_counter data;
     (authority_generation, data) \<leftarrow> rd_counter data;
     (invalidation_watermark, data) \<leftarrow> rd_counter data;
     (programming_generation, data) \<leftarrow> rd_counter data;
     (lifecycle, data) \<leftarrow> rd_enum lifecycle_raw lifecycle_values data;
     (binding, data) \<leftarrow> rd_route_binding data;
     (applied, data) \<leftarrow> rd_applied data;
     (observation, data) \<leftarrow> rd_observation data;
     (provenance, data) \<leftarrow> rd_provenance data;
     (supersession, data) \<leftarrow> rd_supersession data;
     (retirement, data) \<leftarrow> rd_retirement data;
     (history_count, data) \<leftarrow> rd_u32 data;
     if unat history_count > max_history_entries_per_route limits then None else do {
     (history, data) \<leftarrow> rd_times (unat history_count) rd_history_entry data;
     let r = \<lparr>rr_id = i, rr_key = key, rr_generation = generation,
              rr_authority_generation = authority_generation,
              rr_invalidation_watermark = invalidation_watermark,
              rr_programming_generation = programming_generation, rr_lifecycle = lifecycle,
              rr_binding = binding, rr_applied = applied, rr_observation = observation,
              rr_provenance = provenance, rr_supersession = supersession,
              rr_retirement = retirement, rr_history = history\<rparr>;
     if validate_route_record r limits \<noteq> ok_status then None else Some (r, data) } } }"

definition rd_revocation :: "limits \<Rightarrow> revocation_record reader" where
  "rd_revocation limits data = do {
     (route, data) \<leftarrow> rd_fixed data;
     (key, data) \<leftarrow> rd_route_key (max_destination_chars limits) data;
     (generation, data) \<leftarrow> rd_counter data;
     (epoch, data) \<leftarrow> rd_counter data;
     (attempt, data) \<leftarrow> rd_fixed data;
     (reason, data) \<leftarrow> rd_string kMaxDiagnosticChars data;
     Some (\<lparr>rv_route = route, rv_key = key, rv_generation = generation, rv_epoch = epoch,
            rv_attempt = attempt, rv_reason = reason\<rparr>, data) }"

section \<open>Enumerations are numbered and named without collisions\<close>

interpretation next_hop_kind_enum: named_enum next_hop_kind_raw next_hop_kind_values next_hop_kind_to_string
proof unfold_locales
  show "e \<in> set next_hop_kind_values" for e by (cases e) (simp_all add: next_hop_kind_values_def)
qed (simp_all add: next_hop_kind_values_def)

interpretation binding_kind_enum: named_enum binding_kind_raw binding_kind_values binding_kind_to_string
proof unfold_locales
  show "e \<in> set binding_kind_values" for e by (cases e) (simp_all add: binding_kind_values_def)
qed (simp_all add: binding_kind_values_def)

interpretation applied_classification_enum: named_enum applied_classification_raw applied_classification_values applied_classification_to_string
proof unfold_locales
  show "e \<in> set applied_classification_values" for e by (cases e) (simp_all add: applied_classification_values_def)
qed (simp_all add: applied_classification_values_def)

interpretation observation_class_enum: named_enum observation_class_raw observation_class_values observation_class_to_string
proof unfold_locales
  show "e \<in> set observation_class_values" for e by (cases e) (simp_all add: observation_class_values_def)
qed (simp_all add: observation_class_values_def)

interpretation provenance_source_class_enum: named_enum provenance_source_class_raw provenance_source_class_values provenance_source_class_to_string
proof unfold_locales
  show "e \<in> set provenance_source_class_values" for e by (cases e) (simp_all add: provenance_source_class_values_def)
qed (simp_all add: provenance_source_class_values_def)

interpretation supersession_kind_enum: named_enum supersession_kind_raw supersession_kind_values supersession_kind_to_string
proof unfold_locales
  show "e \<in> set supersession_kind_values" for e by (cases e) (simp_all add: supersession_kind_values_def)
qed (simp_all add: supersession_kind_values_def)

interpretation retirement_cause_enum: named_enum retirement_cause_raw retirement_cause_values retirement_cause_to_string
proof unfold_locales
  show "e \<in> set retirement_cause_values" for e by (cases e) (simp_all add: retirement_cause_values_def)
qed (simp_all add: retirement_cause_values_def)

section \<open>Codecs of the parts of a record\<close>

interpretation lifecycle_codec: codec "\<lambda>e. w_u8 (lifecycle_raw e)"
    "rd_enum lifecycle_raw lifecycle_values" "\<lambda>_. True"
  by (rule enum_codec) unfold_locales

interpretation applied_classification_codec: codec "\<lambda>e. w_u8 (applied_classification_raw e)"
    "rd_enum applied_classification_raw applied_classification_values" "\<lambda>_. True"
  by (rule enum_codec) unfold_locales

interpretation observation_class_codec: codec "\<lambda>e. w_u8 (observation_class_raw e)"
    "rd_enum observation_class_raw observation_class_values" "\<lambda>_. True"
  by (rule enum_codec) unfold_locales

interpretation provenance_source_class_codec: codec "\<lambda>e. w_u8 (provenance_source_class_raw e)"
    "rd_enum provenance_source_class_raw provenance_source_class_values" "\<lambda>_. True"
  by (rule enum_codec) unfold_locales

interpretation supersession_kind_codec: codec "\<lambda>e. w_u8 (supersession_kind_raw e)"
    "rd_enum supersession_kind_raw supersession_kind_values" "\<lambda>_. True"
  by (rule enum_codec) unfold_locales

interpretation retirement_cause_codec: codec "\<lambda>e. w_u8 (retirement_cause_raw e)"
    "rd_enum retirement_cause_raw retirement_cause_values" "\<lambda>_. True"
  by (rule enum_codec) unfold_locales

lemmas record_enum_codecs [codec] =
  lifecycle_codec.read_write [OF TrueI] applied_classification_codec.read_write [OF TrueI]
  observation_class_codec.read_write [OF TrueI] provenance_source_class_codec.read_write [OF TrueI]
  supersession_kind_codec.read_write [OF TrueI] retirement_cause_codec.read_write [OF TrueI]
  binding_kind_enum.of_raw_raw next_hop_kind_enum.of_raw_raw
  lifecycle_enum.of_raw_raw route_event_enum.of_raw_raw

lemmas record_enum_canonical =
  lifecycle_codec.read_data applied_classification_codec.read_data
  observation_class_codec.read_data provenance_source_class_codec.read_data
  supersession_kind_codec.read_data retirement_cause_codec.read_data

lemmas raw_enum_canonical =
  binding_kind_enum.of_raw_Some next_hop_kind_enum.of_raw_Some
  lifecycle_enum.of_raw_Some route_event_enum.of_raw_Some

interpretation optional_fixed_codec: codec w_optional_fixed rd_optional_fixed "\<lambda>_. True"
  by unfold_locales
    (auto simp: w_optional_fixed_def rd_optional_fixed_def codec bind_eq_Some_conv array16_bytes_of
      dest!: raw_canonical)

interpretation optional_counter_codec: codec w_optional_counter rd_optional_counter "\<lambda>_. True"
proof unfold_locales
  show "rd_optional_counter (w_optional_counter c @ rest) = Some (c, rest)" for c rest
    by (simp add: w_optional_counter_def rd_optional_counter_def counter_is_valid_def w_counter_def codec)
next
  fix data c rest assume "rd_optional_counter data = Some (c, rest)"
  then show "True \<and> data = w_optional_counter c @ rest"
    by (auto simp: w_optional_counter_def rd_optional_counter_def counter_is_valid_def w_counter_def
        bind_eq_Some_conv dest!: u8_codec.read_data u64_codec.read_data split: if_splits)
qed

lemmas optional_codecs [codec] =
  optional_fixed_codec.read_write [OF TrueI] optional_counter_codec.read_write [OF TrueI]

lemmas part_canonical =
  optional_fixed_codec.read_data optional_counter_codec.read_data
  fixed_codec.read_canonical token_codec.read_canonical counter_codec.read_canonical
  string_codec.read_canonical u8_codec.read_data u32_codec.read_data
  route_key_codec.read_canonical record_enum_canonical

definition diagnostic_wf :: "string \<Rightarrow> bool" where
  "diagnostic_wf s \<longleftrightarrow> length s \<le> kMaxDiagnosticChars"

lemma diagnostic_wf_length: "length s \<le> kMaxDiagnosticChars \<Longrightarrow> length s < 4294967296"
  by (simp add: kMaxDiagnosticChars_def)

definition applied_wf :: "applied_state \<Rightarrow> bool" where
  "applied_wf a \<longleftrightarrow> token_is_valid (ap_backend a) \<and> diagnostic_wf (ap_detail a)"

definition observation_wf :: "backend_observation \<Rightarrow> bool" where
  "observation_wf ob \<longleftrightarrow> token_is_valid (ob_backend ob) \<and> diagnostic_wf (ob_detail ob)"

definition provenance_wf :: "provenance \<Rightarrow> bool" where
  "provenance_wf pv \<longleftrightarrow>
     token_is_valid (pv_publisher pv) \<and> pv_worker_boot pv \<noteq> 0 \<and> counter_wire_valid (pv_epoch pv) \<and>
     counter_wire_valid (pv_source_generation pv) \<and> pv_mutation_attempt pv \<noteq> 0 \<and>
     counter_wire_valid (pv_policy_generation pv) \<and> counter_wire_valid (pv_path_authority_generation pv)"

definition supersession_wf :: "supersession_record \<Rightarrow> bool" where
  "supersession_wf su \<longleftrightarrow> diagnostic_wf (su_reason su)"

definition retirement_wf :: "retirement_record \<Rightarrow> bool" where
  "retirement_wf re \<longleftrightarrow> diagnostic_wf (re_reason re)"

definition history_entry_wf :: "lineage_entry \<Rightarrow> bool" where
  "history_entry_wf e \<longleftrightarrow>
     counter_wire_valid (le_generation e) \<and> token_is_valid (le_publisher e) \<and> counter_wire_valid (le_epoch e)"

definition route_binding_wf :: "route_binding \<Rightarrow> bool" where
  "route_binding_wf b \<longleftrightarrow>
     route_binding_is_valid b \<and> counter_wire_valid (nh_entity_generation (rb_next_hop b)) \<and>
     counter_wire_valid (rb_policy_generation b)"

interpretation applied_codec: codec w_applied rd_applied applied_wf
proof unfold_locales
  show "applied_wf a \<Longrightarrow> rd_applied (w_applied a @ rest) = Some (a, rest)" for a rest
    by (cases a) (simp add: applied_wf_def diagnostic_wf_def rd_applied_def w_applied_def codec diagnostic_wf_length)
  show "rd_applied data = Some (a, rest) \<Longrightarrow> applied_wf a \<and> data = w_applied a @ rest" for data a rest
    by (auto simp: applied_wf_def diagnostic_wf_def rd_applied_def w_applied_def bind_eq_Some_conv dest!: part_canonical)
qed

interpretation observation_codec: codec w_observation rd_observation observation_wf
proof unfold_locales
  show "observation_wf a \<Longrightarrow> rd_observation (w_observation a @ rest) = Some (a, rest)" for a rest
    by (cases a) (simp add: observation_wf_def diagnostic_wf_def rd_observation_def w_observation_def codec diagnostic_wf_length)
  show "rd_observation data = Some (a, rest) \<Longrightarrow> observation_wf a \<and> data = w_observation a @ rest" for data a rest
    by (auto simp: observation_wf_def diagnostic_wf_def rd_observation_def w_observation_def bind_eq_Some_conv dest!: part_canonical)
qed

interpretation provenance_codec: codec w_provenance rd_provenance provenance_wf
proof unfold_locales
  show "provenance_wf a \<Longrightarrow> rd_provenance (w_provenance a @ rest) = Some (a, rest)" for a rest
    by (cases a) (simp add: provenance_wf_def rd_provenance_def w_provenance_def codec)
  show "rd_provenance data = Some (a, rest) \<Longrightarrow> provenance_wf a \<and> data = w_provenance a @ rest" for data a rest
    by (auto simp: provenance_wf_def rd_provenance_def w_provenance_def bind_eq_Some_conv dest!: part_canonical)
qed

interpretation supersession_codec: codec w_supersession rd_supersession supersession_wf
proof unfold_locales
  show "supersession_wf a \<Longrightarrow> rd_supersession (w_supersession a @ rest) = Some (a, rest)" for a rest
    by (cases a) (simp add: supersession_wf_def diagnostic_wf_def rd_supersession_def w_supersession_def codec diagnostic_wf_length)
  show "rd_supersession data = Some (a, rest) \<Longrightarrow> supersession_wf a \<and> data = w_supersession a @ rest" for data a rest
    by (auto simp: supersession_wf_def diagnostic_wf_def rd_supersession_def w_supersession_def bind_eq_Some_conv dest!: part_canonical)
qed

interpretation retirement_codec: codec w_retirement rd_retirement retirement_wf
proof unfold_locales
  show "retirement_wf a \<Longrightarrow> rd_retirement (w_retirement a @ rest) = Some (a, rest)" for a rest
    by (cases a) (simp add: retirement_wf_def diagnostic_wf_def rd_retirement_def w_retirement_def codec diagnostic_wf_length)
  show "rd_retirement data = Some (a, rest) \<Longrightarrow> retirement_wf a \<and> data = w_retirement a @ rest" for data a rest
    by (auto simp: retirement_wf_def diagnostic_wf_def rd_retirement_def w_retirement_def bind_eq_Some_conv dest!: part_canonical)
qed

interpretation history_entry_codec: codec w_history_entry rd_history_entry history_entry_wf
proof unfold_locales
  show "history_entry_wf a \<Longrightarrow> rd_history_entry (w_history_entry a @ rest) = Some (a, rest)" for a rest
    by (cases a) (simp add: history_entry_wf_def rd_history_entry_def w_history_entry_def codec)
  show "rd_history_entry data = Some (a, rest) \<Longrightarrow> history_entry_wf a \<and> data = w_history_entry a @ rest" for data a rest
    by (auto simp: history_entry_wf_def rd_history_entry_def w_history_entry_def bind_eq_Some_conv raw_enum_canonical dest!: part_canonical)
qed

interpretation route_binding_codec: codec w_route_binding rd_route_binding route_binding_wf
proof unfold_locales
  show "route_binding_wf a \<Longrightarrow> rd_route_binding (w_route_binding a @ rest) = Some (a, rest)" for a rest
    by (cases a; cases "rb_next_hop a") (auto simp: route_binding_wf_def rd_route_binding_def w_route_binding_def codec Let_def)
  show "rd_route_binding data = Some (a, rest) \<Longrightarrow> route_binding_wf a \<and> data = w_route_binding a @ rest" for data a rest
    by (auto simp: route_binding_wf_def rd_route_binding_def w_route_binding_def bind_eq_Some_conv raw_enum_canonical Let_def
        dest!: part_canonical split: if_splits)
qed

lemmas record_part_codecs [codec] =
  applied_codec.read_write observation_codec.read_write provenance_codec.read_write
  supersession_codec.read_write retirement_codec.read_write history_entry_codec.times_write
  route_binding_codec.read_write

lemmas record_part_canonical =
  applied_codec.read_canonical observation_codec.read_canonical provenance_codec.read_canonical
  supersession_codec.read_canonical retirement_codec.read_canonical history_entry_codec.times_canonical
  route_binding_codec.read_canonical

section \<open>The codec of route records and revocations\<close>

definition route_record_wf :: "limits \<Rightarrow> route_record \<Rightarrow> bool" where
  "route_record_wf limits r \<longleftrightarrow>
     validate_route_record r limits = ok_status \<and>
     rr_id r \<noteq> 0 \<and> route_key_wf (max_destination_chars limits) (rr_key r) \<and>
     counter_wire_valid (rr_generation r) \<and> counter_wire_valid (rr_authority_generation r) \<and>
     counter_wire_valid (rr_invalidation_watermark r) \<and> counter_wire_valid (rr_programming_generation r) \<and>
     route_binding_wf (rr_binding r) \<and> applied_wf (rr_applied r) \<and> observation_wf (rr_observation r) \<and>
     provenance_wf (rr_provenance r) \<and> supersession_wf (rr_supersession r) \<and>
     retirement_wf (rr_retirement r) \<and> list_all history_entry_wf (rr_history r) \<and>
     length (rr_history r) \<le> max_history_entries_per_route limits \<and> length (rr_history r) < 2 ^ 32"

definition revocation_wf :: "limits \<Rightarrow> revocation_record \<Rightarrow> bool" where
  "revocation_wf limits rv \<longleftrightarrow>
     rv_route rv \<noteq> 0 \<and> route_key_wf (max_destination_chars limits) (rv_key rv) \<and>
     counter_wire_valid (rv_generation rv) \<and> counter_wire_valid (rv_epoch rv) \<and> rv_attempt rv \<noteq> 0 \<and>
     diagnostic_wf (rv_reason rv)"

interpretation route_record_codec: codec w_route_record "rd_route_record limits" "route_record_wf limits" for limits
proof unfold_locales
  show "route_record_wf limits r \<Longrightarrow> rd_route_record limits (w_route_record r @ rest) = Some (r, rest)" for r rest
    by (cases r) (auto simp: route_record_wf_def rd_route_record_def w_route_record_def codec unat_of_nat Let_def)
next
  fix data r rest assume "rd_route_record limits data = Some (r, rest)"
  moreover have "unat (n :: u32) < 2 ^ 32" for n using unsigned_less [of n, where 'a = nat] by simp
  ultimately show "route_record_wf limits r \<and> data = w_route_record r @ rest"
    by (auto simp: route_record_wf_def rd_route_record_def w_route_record_def bind_eq_Some_conv Let_def
        dest!: part_canonical record_part_canonical split: if_splits)
qed

interpretation revocation_codec: codec w_revocation "rd_revocation limits" "revocation_wf limits" for limits
proof unfold_locales
  show "revocation_wf limits r \<Longrightarrow> rd_revocation limits (w_revocation r @ rest) = Some (r, rest)" for r rest
    by (cases r) (auto simp: revocation_wf_def diagnostic_wf_def rd_revocation_def w_revocation_def codec diagnostic_wf_length)
  show "rd_revocation limits data = Some (r, rest) \<Longrightarrow> revocation_wf limits r \<and> data = w_revocation r @ rest" for data r rest
    by (auto simp: revocation_wf_def diagnostic_wf_def rd_revocation_def w_revocation_def bind_eq_Some_conv dest!: part_canonical)
qed

lemmas record_codecs [codec] = route_record_codec.read_write revocation_codec.read_write

end
