(* ===== verification/RF_Backend.thy ===== *)
theory RF_Backend
  imports RF_Record RF_Containers
begin

text \<open>
  \<^bold>\<open>Programming backends.\<close> This theory models \<open>include/routefabric/backend.hpp\<close> and
  \<open>src/backend.cpp\<close>: the vendor-neutral outcomes, the programming request, and the
  deterministic synthetic backend with its scripted outcome queue and deferred attempts.
  The locale states the part of the backend contract the runtime relies on: a dispatch
  answers for the attempt it was asked about, and only records one call.
\<close>

datatype programming_outcome =
    PO_Applied
  | PO_Idempotent
  | PO_NotSupported
  | PO_Rejected
  | PO_RetryableFailure
  | PO_PermanentFailure
  | PO_Ambiguous
  | PO_BackendUnavailable

fun programming_outcome_raw :: "programming_outcome \<Rightarrow> u8" where
  "programming_outcome_raw PO_Applied = 1"
| "programming_outcome_raw PO_Idempotent = 2"
| "programming_outcome_raw PO_NotSupported = 3"
| "programming_outcome_raw PO_Rejected = 4"
| "programming_outcome_raw PO_RetryableFailure = 5"
| "programming_outcome_raw PO_PermanentFailure = 6"
| "programming_outcome_raw PO_Ambiguous = 7"
| "programming_outcome_raw PO_BackendUnavailable = 8"

definition programming_outcome_values :: "programming_outcome list" where
  "programming_outcome_values =
     [PO_Applied, PO_Idempotent, PO_NotSupported, PO_Rejected,
      PO_RetryableFailure, PO_PermanentFailure, PO_Ambiguous, PO_BackendUnavailable]"

fun programming_outcome_to_string :: "programming_outcome \<Rightarrow> string" where
  "programming_outcome_to_string PO_Applied = ''APPLIED''"
| "programming_outcome_to_string PO_Idempotent = ''IDEMPOTENT''"
| "programming_outcome_to_string PO_NotSupported = ''NOT_SUPPORTED''"
| "programming_outcome_to_string PO_Rejected = ''REJECTED''"
| "programming_outcome_to_string PO_RetryableFailure = ''RETRYABLE_FAILURE''"
| "programming_outcome_to_string PO_PermanentFailure = ''PERMANENT_FAILURE''"
| "programming_outcome_to_string PO_Ambiguous = ''AMBIGUOUS''"
| "programming_outcome_to_string PO_BackendUnavailable = ''BACKEND_UNAVAILABLE''"

datatype programming_operation =
    OP_Install
  | OP_Replace
  | OP_Withdraw

fun programming_operation_raw :: "programming_operation \<Rightarrow> u8" where
  "programming_operation_raw OP_Install = 1"
| "programming_operation_raw OP_Replace = 2"
| "programming_operation_raw OP_Withdraw = 3"

definition programming_operation_values :: "programming_operation list" where
  "programming_operation_values =
     [OP_Install, OP_Replace, OP_Withdraw]"

fun programming_operation_to_string :: "programming_operation \<Rightarrow> string" where
  "programming_operation_to_string OP_Install = ''install''"
| "programming_operation_to_string OP_Replace = ''replace''"
| "programming_operation_to_string OP_Withdraw = ''withdraw''"

datatype backend_presence =
    BP_Unknown
  | BP_Present
  | BP_Absent
  | BP_Unavailable

fun backend_presence_raw :: "backend_presence \<Rightarrow> u8" where
  "backend_presence_raw BP_Unknown = 1"
| "backend_presence_raw BP_Present = 2"
| "backend_presence_raw BP_Absent = 3"
| "backend_presence_raw BP_Unavailable = 4"

definition backend_presence_values :: "backend_presence list" where
  "backend_presence_values =
     [BP_Unknown, BP_Present, BP_Absent, BP_Unavailable]"

fun backend_presence_to_string :: "backend_presence \<Rightarrow> string" where
  "backend_presence_to_string BP_Unknown = ''UNKNOWN''"
| "backend_presence_to_string BP_Present = ''PRESENT''"
| "backend_presence_to_string BP_Absent = ''ABSENT''"
| "backend_presence_to_string BP_Unavailable = ''UNAVAILABLE''"

definition parse_programming_outcome :: "string \<Rightarrow> programming_outcome option" where
  "parse_programming_outcome text = parse_by_name programming_outcome_to_string programming_outcome_values text"

section \<open>Requests and results\<close>

record route_programming_request =
  rq_operation :: programming_operation
  rq_attempt :: programming_attempt_id
  rq_programming_generation :: programming_generation
  rq_route :: route_id
  rq_key :: route_key
  rq_binding :: route_binding
  rq_desired_generation :: route_generation
  rq_authority_generation :: route_authority_generation
  rq_epoch :: coordinator_epoch
  rq_publisher :: publisher_id
  rq_worker_boot :: worker_boot_id
  rq_previously_installed :: bool

definition render_request :: "route_programming_request \<Rightarrow> string" where
  "render_request rq =
     programming_operation_to_string (rq_operation rq) @ '' attempt='' @ fixed_render (rq_attempt rq) @
     '' route='' @ fixed_render (rq_route rq) @ '' key='' @ render_route_key (rq_key rq) @
     '' binding='' @ render_route_binding (rq_binding rq) @
     '' desired-gen='' @ to_decimal (rq_desired_generation rq) @
     '' programming-gen='' @ to_decimal (rq_programming_generation rq)"

record programming_result =
  ps_outcome :: programming_outcome
  ps_attempt :: programming_attempt_id
  ps_backend :: backend_id
  ps_detail :: string

record programming_dispatch =
  pd_deferred :: bool
  pd_immediate :: programming_result

record backend_query_result =
  bq_presence :: backend_presence
  bq_backend :: backend_id
  bq_observed_generation :: route_generation
  bq_detail :: string

record backend_capabilities =
  bc_install :: bool
  bc_replace :: bool
  bc_withdraw :: bool
  bc_query :: bool
  bc_read_only :: bool

section \<open>The synthetic backend\<close>

record scripted_outcome =
  sc_outcome :: programming_outcome
  sc_deferred :: bool
  sc_detail :: string

definition scripted_default :: scripted_outcome where
  "scripted_default = \<lparr>sc_outcome = PO_Applied, sc_deferred = False, sc_detail = []\<rparr>"

record synthetic_backend =
  sb_id :: backend_id
  sb_queue :: "scripted_outcome list"
  sb_default_outcome :: scripted_outcome
  sb_deferred :: "(programming_attempt_id, programming_result) omap"
  sb_calls :: "route_programming_request list"
  sb_observed_presence :: backend_presence
  sb_observed_detail :: string
  sb_observed_generation :: route_generation
  sb_available :: bool

definition synthetic_backend :: "backend_id \<Rightarrow> synthetic_backend" where
  "synthetic_backend i =
     \<lparr>sb_id = i, sb_queue = [], sb_default_outcome = scripted_default, sb_deferred = [], sb_calls = [],
      sb_observed_presence = BP_Absent, sb_observed_detail = [], sb_observed_generation = 0,
      sb_available = True\<rparr>"

definition synthetic_capabilities :: "synthetic_backend \<Rightarrow> backend_capabilities" where
  "synthetic_capabilities sb =
     \<lparr>bc_install = True, bc_replace = True, bc_withdraw = True, bc_query = True, bc_read_only = False\<rparr>"

definition EnqueueOutcome ::
  "programming_outcome \<Rightarrow> bool \<Rightarrow> string \<Rightarrow> synthetic_backend \<Rightarrow> synthetic_backend" where
  "EnqueueOutcome outcome deferred detail sb =
     sb\<lparr>sb_queue := sb_queue sb @
        [\<lparr>sc_outcome = outcome, sc_deferred = deferred, sc_detail = detail\<rparr>]\<rparr>"

definition SetDefaultOutcome :: "programming_outcome \<Rightarrow> bool \<Rightarrow> synthetic_backend \<Rightarrow> synthetic_backend" where
  "SetDefaultOutcome outcome deferred sb =
     sb\<lparr>sb_default_outcome := \<lparr>sc_outcome = outcome, sc_deferred = deferred, sc_detail = []\<rparr>\<rparr>"

definition SetObservedPresence :: "backend_presence \<Rightarrow> string \<Rightarrow> synthetic_backend \<Rightarrow> synthetic_backend" where
  "SetObservedPresence presence detail sb =
     sb\<lparr>sb_observed_presence := presence, sb_observed_detail := detail\<rparr>"

definition SetObservedGeneration :: "route_generation \<Rightarrow> synthetic_backend \<Rightarrow> synthetic_backend" where
  "SetObservedGeneration generation sb = sb\<lparr>sb_observed_generation := generation\<rparr>"

definition SetAvailable :: "bool \<Rightarrow> synthetic_backend \<Rightarrow> synthetic_backend" where
  "SetAvailable available sb = sb\<lparr>sb_available := available\<rparr>"

definition Dispatch ::
  "synthetic_backend \<Rightarrow> route_programming_request \<Rightarrow> programming_dispatch \<times> synthetic_backend" where
  "Dispatch sb request =
     (let sb = sb\<lparr>sb_calls := sb_calls sb @ [request]\<rparr>
      in if \<not> sb_available sb then
           (\<lparr>pd_deferred = False,
             pd_immediate = \<lparr>ps_outcome = PO_BackendUnavailable, ps_attempt = rq_attempt request,
                             ps_backend = sb_id sb, ps_detail = ''synthetic backend marked unavailable''\<rparr>\<rparr>, sb)
         else
           let (scripted, sb) =
                 (case sb_queue sb of
                    [] \<Rightarrow> (sb_default_outcome sb, sb)
                  | front # rest \<Rightarrow> (front, sb\<lparr>sb_queue := rest\<rparr>));
               result = \<lparr>ps_outcome = sc_outcome scripted, ps_attempt = rq_attempt request,
                         ps_backend = sb_id sb, ps_detail = sc_detail scripted\<rparr>
           in if sc_deferred scripted then
                (\<lparr>pd_deferred = True, pd_immediate = result\<rparr>,
                 sb\<lparr>sb_deferred := om_set (rq_attempt request) result (sb_deferred sb)\<rparr>)
              else (\<lparr>pd_deferred = False, pd_immediate = result\<rparr>, sb))"

definition synthetic_query :: "synthetic_backend \<Rightarrow> route_key \<Rightarrow> backend_query_result" where
  "synthetic_query sb key =
     \<lparr>bq_presence = (if \<not> sb_available sb then BP_Unavailable else sb_observed_presence sb),
      bq_backend = sb_id sb, bq_observed_generation = sb_observed_generation sb,
      bq_detail = sb_observed_detail sb\<rparr>"

definition CompleteDeferred ::
  "programming_attempt_id \<Rightarrow> programming_outcome \<Rightarrow> string \<Rightarrow> synthetic_backend \<Rightarrow> bool \<times> synthetic_backend" where
  "CompleteDeferred attempt outcome detail sb =
     (case om_find (sb_deferred sb) attempt of
        None \<Rightarrow> (False, sb)
      | Some result \<Rightarrow>
          (True, sb\<lparr>sb_deferred := om_set attempt (result\<lparr>ps_outcome := outcome, ps_detail := detail\<rparr>)
                                          (sb_deferred sb)\<rparr>))"

definition HasDeferred :: "programming_attempt_id \<Rightarrow> synthetic_backend \<Rightarrow> bool" where
  "HasDeferred attempt sb \<longleftrightarrow> om_contains (sb_deferred sb) attempt"

definition DeferredAttempts :: "synthetic_backend \<Rightarrow> programming_attempt_id list" where
  "DeferredAttempts sb = om_keys (sb_deferred sb)"

definition call_count :: "synthetic_backend \<Rightarrow> nat" where
  "call_count sb = length (sb_calls sb)"

definition Reset :: "synthetic_backend \<Rightarrow> synthetic_backend" where
  "Reset sb =
     sb\<lparr>sb_queue := [], sb_default_outcome := scripted_default, sb_deferred := [], sb_calls := [],
        sb_observed_presence := BP_Absent, sb_observed_detail := [], sb_observed_generation := 0,
        sb_available := True\<rparr>"

section \<open>The interface\<close>

interpretation programming_outcome_enum:
  named_enum programming_outcome_raw programming_outcome_values programming_outcome_to_string
proof unfold_locales
  show "e \<in> set programming_outcome_values" for e
    by (cases e) (simp_all add: programming_outcome_values_def)
qed (simp_all add: programming_outcome_values_def)

text \<open>
  What the runtime relies on: a dispatch answers for the attempt it was given, so that a
  sequence of dispatches is answered in order. A backend that keeps a record of its calls
  records each exactly once.
\<close>

locale answering_backend =
  fixes dispatch :: "'b \<Rightarrow> route_programming_request \<Rightarrow> programming_dispatch \<times> 'b"
  assumes answers_attempt: "ps_attempt (pd_immediate (fst (dispatch b rq))) = rq_attempt rq"
begin

fun dispatch_all :: "'b \<Rightarrow> route_programming_request list \<Rightarrow> programming_dispatch list \<times> 'b" where
  "dispatch_all b [] = ([], b)"
| "dispatch_all b (rq # rqs) =
     (let (d, b) = dispatch b rq; (ds, b) = dispatch_all b rqs in (d # ds, b))"

lemma dispatch_all_attempts:
  "map (\<lambda>d. ps_attempt (pd_immediate d)) (fst (dispatch_all b rqs)) = map rq_attempt rqs"
  by (induction rqs arbitrary: b) (simp_all add: split_beta Let_def answers_attempt)

end

locale programming_backend = answering_backend dispatch
    for dispatch :: "'b \<Rightarrow> route_programming_request \<Rightarrow> programming_dispatch \<times> 'b" +
  fixes recorded :: "'b \<Rightarrow> route_programming_request list"
  assumes records_call: "recorded (snd (dispatch b rq)) = recorded b @ [rq]"
begin

lemma dispatch_all_recorded: "recorded (snd (dispatch_all b rqs)) = recorded b @ rqs"
  by (induction rqs arbitrary: b) (simp_all add: split_beta Let_def records_call)

end

interpretation synthetic: programming_backend Dispatch sb_calls
  by unfold_locales (simp_all add: Dispatch_def Let_def split_beta split: list.splits)

text \<open>A deferred dispatch can be completed, and the completion replaces the stored outcome.\<close>

lemma complete_after_deferral:
  assumes "om_wf (sb_deferred sb)" and "pd_deferred (fst (Dispatch sb rq))"
  shows "fst (CompleteDeferred (rq_attempt rq) outcome detail (snd (Dispatch sb rq)))"
  using assms
  by (auto simp: Dispatch_def CompleteDeferred_def Let_def split_beta split: list.splits if_splits)

end
