(* ===== verification/RF_Persistence.thy ===== *)
theory RF_Persistence
  imports RF_Backend
begin

text \<open>
  \<^bold>\<open>Durable state.\<close> This theory models \<open>include/routefabric/persistence.hpp\<close> and
  \<open>src/persistence.cpp\<close>: the integrity-checked frame, the snapshot and journal-entry
  codecs, the replay of a journal over a snapshot, and the \<open>RouteStore\<close>. The file system
  is a pair of optional byte strings; what the operating system does to a call (whether a
  write, a removal or a truncation succeeds, and how many bytes of a failed append reach
  the file) is read from a script held in the store, one element per store operation.
\<close>

section \<open>Records\<close>

datatype durability =
    DU_None
  | DU_Snapshot
  | DU_Journal

fun durability_raw :: "durability \<Rightarrow> u8" where
  "durability_raw DU_None = 0"
| "durability_raw DU_Snapshot = 1"
| "durability_raw DU_Journal = 2"

definition durability_values :: "durability list" where
  "durability_values = [DU_None, DU_Snapshot, DU_Journal]"

fun durability_to_string :: "durability \<Rightarrow> string" where
  "durability_to_string DU_None = ''none''"
| "durability_to_string DU_Snapshot = ''snapshot''"
| "durability_to_string DU_Journal = ''journal''"

definition parse_durability :: "string \<Rightarrow> durability option" where
  "parse_durability text = parse_by_name durability_to_string durability_values text"

record programming_attempt_record =
  at_attempt :: programming_attempt_id
  at_route :: route_id
  at_desired_generation :: route_generation
  at_programming_generation :: programming_generation
  at_operation :: programming_operation
  at_epoch :: coordinator_epoch
  at_resolved :: bool

record persisted_state =
  pst_epoch :: coordinator_epoch
  pst_policy_generation :: policy_generation
  pst_routes :: "route_record list"
  pst_revocations :: "revocation_record list"
  pst_attempts :: "programming_attempt_record list"

record journal_entry =
  je_epoch :: coordinator_epoch
  je_policy_generation :: policy_generation
  je_upserts :: "route_record list"
  je_revocations :: "revocation_record list"
  je_attempts :: "programming_attempt_record list"

section \<open>Frames\<close>

definition kPersistenceMagic :: u64 where "kPersistenceMagic = 0x3152545342465452"
definition kJournalEntryMagic :: u64 where "kJournalEntryMagic = 0x31524A4652465452"
definition kPersistenceFormatVersion :: u32 where "kPersistenceFormatVersion = 1"
definition kPersistFrameHeaderBytes :: nat where "kPersistFrameHeaderBytes = 16"
definition kPersistFrameTrailerBytes :: nat where "kPersistFrameTrailerBytes = 12"

definition write_frame :: "u64 \<Rightarrow> bytes \<Rightarrow> bytes" where
  "write_frame magic payload =
     w_u64 magic @ w_u32 kPersistenceFormatVersion @ w_u32 (of_nat (length payload)) @ payload @
     w_u32 (crc32c_compute payload) @ w_u64 (fnv1a64_update kFnvBasis payload)"

definition read_frame :: "bytes \<Rightarrow> u64 \<Rightarrow> limits \<Rightarrow> bytes option" where
  "read_frame img expected_magic limits =
     (if length img < kPersistFrameHeaderBytes + kPersistFrameTrailerBytes then None
      else if read_le64 img \<noteq> expected_magic then None
      else if read_le32 (drop 8 img) \<noteq> kPersistenceFormatVersion then None
      else
        let payload_length = unat (read_le32 (drop 12 img))
        in if payload_length > max_persist_bytes limits then None
           else
             let expected_size = kPersistFrameHeaderBytes + payload_length + kPersistFrameTrailerBytes
             in if length img < expected_size then None
                else if length img > expected_size then None
                else
                  let payload = take payload_length (drop kPersistFrameHeaderBytes img)
                  in if read_le32 (drop (kPersistFrameHeaderBytes + payload_length) img) \<noteq>
                          crc32c_compute payload then None
                     else if read_le64 (drop (kPersistFrameHeaderBytes + payload_length + 4) img) \<noteq>
                          fnv1a64_update kFnvBasis payload then None
                     else Some payload)"

definition encode_persistence_frame :: "u64 \<Rightarrow> bytes \<Rightarrow> bytes" where
  "encode_persistence_frame magic payload = write_frame magic payload"

section \<open>Attempts and the state body\<close>

definition w_attempt :: "programming_attempt_record \<Rightarrow> bytes" where
  "w_attempt a =
     w_fixed (at_attempt a) @ w_fixed (at_route a) @ w_counter (at_desired_generation a) @
     w_counter (at_programming_generation a) @ w_u8 (programming_operation_raw (at_operation a)) @
     w_counter (at_epoch a) @ w_boolean (at_resolved a)"

definition rd_attempt :: "programming_attempt_record reader" where
  "rd_attempt data = do {
     (attempt, data) \<leftarrow> rd_fixed data;
     (route, data) \<leftarrow> rd_fixed data;
     (desired_generation, data) \<leftarrow> rd_counter data;
     (programming_generation, data) \<leftarrow> rd_counter data;
     (operation, data) \<leftarrow> rd_enum programming_operation_raw programming_operation_values data;
     (epoch, data) \<leftarrow> rd_counter data;
     (resolved, data) \<leftarrow> rd_boolean data;
     Some (\<lparr>at_attempt = attempt, at_route = route, at_desired_generation = desired_generation,
            at_programming_generation = programming_generation, at_operation = operation,
            at_epoch = epoch, at_resolved = resolved\<rparr>, data) }"

type_synonym state_body = "route_record list \<times> revocation_record list \<times> programming_attempt_record list"

definition w_state_body :: "state_body \<Rightarrow> bytes" where
  "w_state_body = (\<lambda>(routes, revocations, attempts).
     w_u32 (of_nat (length routes)) @ w_all w_route_record routes @
     w_u32 (of_nat (length revocations)) @ w_all w_revocation revocations @
     w_u32 (of_nat (length attempts)) @ w_all w_attempt attempts)"

definition rd_state_body :: "limits \<Rightarrow> state_body reader" where
  "rd_state_body limits data = do {
     (route_count, data) \<leftarrow> rd_u32 data;
     if unat route_count > max_routes limits then None else do {
     (routes, data) \<leftarrow> rd_times (unat route_count) (rd_route_record limits) data;
     (revocation_count, data) \<leftarrow> rd_u32 data;
     if unat revocation_count > max_routes limits then None else do {
     (revocations, data) \<leftarrow> rd_times (unat revocation_count) (rd_revocation limits) data;
     (attempt_count, data) \<leftarrow> rd_u32 data;
     if unat attempt_count > max_outstanding_programming limits then None else do {
     (attempts, data) \<leftarrow> rd_times (unat attempt_count) rd_attempt data;
     Some ((routes, revocations, attempts), data) } } } }"

section \<open>Digest of the durable state\<close>

definition digest_both :: "u64 \<times> u64 \<Rightarrow> bytes \<Rightarrow> u64 \<times> u64" where
  "digest_both lanes data = (fnv1a64_update (fst lanes) data, fnv1a64_update (snd lanes) data)"

definition persisted_digest :: "persisted_state \<Rightarrow> digest128" where
  "persisted_digest state =
     (let digests = sort (map semantic_digest (pst_routes state));
          lanes = digest_both (kFnvBasis, kFnvBasisAlt) (w_raw_text ''routefabric.persisted-state.v1'');
          lanes = foldl (\<lambda>lanes d. digest_both lanes (array16_bytes d)) lanes digests;
          lanes = foldl (\<lambda>lanes rv. digest_both (digest_both lanes (array16_bytes (rv_route rv)))
                                               (w_u64 (rv_generation rv)))
                    lanes (pst_revocations state);
          attempt_count = of_nat (min (length (pst_attempts state)) 255) :: u8;
          lanes = digest_both lanes [attempt_count]
      in from_u64_pair (mix64 (fst lanes)) (mix64 (snd lanes)))"

section \<open>Snapshot and journal entry codecs\<close>

text \<open>An empty vector reports an oversized payload.\<close>

definition EncodeSnapshot :: "persisted_state \<Rightarrow> limits \<Rightarrow> bytes" where
  "EncodeSnapshot state limits =
     (let payload =
            w_u64 (if counter_is_valid (pst_epoch state) then pst_epoch state else 1) @
            w_u64 (if counter_is_valid (pst_policy_generation state) then pst_policy_generation state else 1) @
            w_state_body (pst_routes state, pst_revocations state, pst_attempts state) @
            array16_bytes (persisted_digest state)
      in if length payload > max_persist_bytes limits then [] else write_frame kPersistenceMagic payload)"

text \<open>\<open>std::adjacent_find\<close> on a sorted vector.\<close>

fun adjacent_find :: "'a list \<Rightarrow> bool" where
  "adjacent_find (x # y # xs) = (x = y \<or> adjacent_find (y # xs))"
| "adjacent_find _ = False"

definition DecodeSnapshot :: "bytes \<Rightarrow> limits \<Rightarrow> persisted_state option" where
  "DecodeSnapshot img limits = do {
     payload \<leftarrow> read_frame img kPersistenceMagic limits;
     (epoch, data) \<leftarrow> rd_u64 payload;
     (policy_generation, data) \<leftarrow> rd_u64 data;
     if epoch = 0 \<or> epoch > kMaxValue then None
     else if policy_generation = 0 \<or> policy_generation > kMaxValue then None
     else do {
     ((routes, revocations, attempts), data) \<leftarrow> rd_state_body limits data;
     (stored_digest, data) \<leftarrow> rd_raw 16 data;
     if data \<noteq> [] then None
     else
       let state = \<lparr>pst_epoch = epoch, pst_policy_generation = policy_generation, pst_routes = routes,
                    pst_revocations = revocations, pst_attempts = attempts\<rparr>
       in if array16_of stored_digest \<noteq> persisted_digest state then None
          else if adjacent_find (sort (map rr_id routes)) then None
          else if adjacent_find (sort (map rr_key routes)) then None
          else if adjacent_find (sort (map at_attempt attempts)) then None
          else if adjacent_find (sort (map rv_route revocations)) then None
          else Some state } }"

definition EncodeJournalEntry :: "journal_entry \<Rightarrow> limits \<Rightarrow> bytes" where
  "EncodeJournalEntry entry limits =
     (let payload =
            w_u64 (if counter_is_valid (je_epoch entry) then je_epoch entry else 1) @
            w_u64 (if counter_is_valid (je_policy_generation entry) then je_policy_generation entry else 1) @
            w_state_body (je_upserts entry, je_revocations entry, je_attempts entry)
      in if length payload > max_persist_bytes limits then [] else write_frame kJournalEntryMagic payload)"

definition DecodeJournalEntry :: "bytes \<Rightarrow> limits \<Rightarrow> journal_entry option" where
  "DecodeJournalEntry img limits = do {
     payload \<leftarrow> read_frame img kJournalEntryMagic limits;
     (epoch, data) \<leftarrow> rd_u64 payload;
     (policy_generation, data) \<leftarrow> rd_u64 data;
     if epoch = 0 \<or> epoch > kMaxValue then None
     else if policy_generation = 0 \<or> policy_generation > kMaxValue then None
     else do {
     ((upserts, revocations, attempts), data) \<leftarrow> rd_state_body limits data;
     if data \<noteq> [] then None
     else Some \<lparr>je_epoch = epoch, je_policy_generation = policy_generation, je_upserts = upserts,
                je_revocations = revocations, je_attempts = attempts\<rparr> } }"

section \<open>Replay\<close>

text \<open>\<open>std::find_if\<close> followed by an assignment through the iterator, or \<open>push_back\<close>.\<close>

fun upsert_route :: "route_record \<Rightarrow> route_record list \<Rightarrow> route_record list" where
  "upsert_route record [] = [record]"
| "upsert_route record (existing # rest) =
     (if rr_id existing = rr_id record then
        (if rr_generation record > rr_generation existing then record # rest
         else if rr_generation record = rr_generation existing then record # rest
         else existing # rest)
      else existing # upsert_route record rest)"

fun upsert_revocation :: "revocation_record \<Rightarrow> revocation_record list \<Rightarrow> revocation_record list" where
  "upsert_revocation revocation [] = [revocation]"
| "upsert_revocation revocation (existing # rest) =
     (if rv_route existing = rv_route revocation then revocation # rest
      else existing # upsert_revocation revocation rest)"

fun upsert_attempt ::
  "programming_attempt_record \<Rightarrow> programming_attempt_record list \<Rightarrow> programming_attempt_record list" where
  "upsert_attempt attempt [] = [attempt]"
| "upsert_attempt attempt (existing # rest) =
     (if at_attempt existing = at_attempt attempt then attempt # rest
      else existing # upsert_attempt attempt rest)"

definition replay_entry :: "persisted_state \<Rightarrow> journal_entry \<Rightarrow> persisted_state" where
  "replay_entry state entry =
     (let state = (if je_epoch entry > pst_epoch state then state\<lparr>pst_epoch := je_epoch entry\<rparr> else state);
          state = (if je_policy_generation entry > pst_policy_generation state
                   then state\<lparr>pst_policy_generation := je_policy_generation entry\<rparr> else state);
          state = state\<lparr>pst_routes := fold upsert_route (je_upserts entry) (pst_routes state)\<rparr>;
          state = state\<lparr>pst_revocations := fold upsert_revocation (je_revocations entry) (pst_revocations state)\<rparr>
      in state\<lparr>pst_attempts := fold upsert_attempt (je_attempts entry) (pst_attempts state)\<rparr>)"

text \<open>
  The replay loop of \<open>Load\<close>: it returns the state, the number of valid entries and the
  number of valid bytes.
\<close>

function replay_journal ::
  "limits \<Rightarrow> bytes \<Rightarrow> persisted_state \<Rightarrow> nat \<Rightarrow> nat \<Rightarrow> persisted_state \<times> nat \<times> nat" where
  "replay_journal limits remaining state entries valid_bytes =
     (if length remaining < kPersistFrameHeaderBytes + kPersistFrameTrailerBytes
        then (state, entries, valid_bytes)
      else if read_le64 remaining \<noteq> kJournalEntryMagic then (state, entries, valid_bytes)
      else
        let payload_length = unat (read_le32 (drop 12 remaining))
        in if payload_length > max_persist_bytes limits then (state, entries, valid_bytes)
           else
             let frame_size = kPersistFrameHeaderBytes + payload_length + kPersistFrameTrailerBytes
             in if frame_size > length remaining then (state, entries, valid_bytes)
                else case DecodeJournalEntry (take frame_size remaining) limits of
                       None \<Rightarrow> (state, entries, valid_bytes)
                     | Some entry \<Rightarrow>
                         replay_journal limits (drop frame_size remaining) (replay_entry state entry)
                           (entries + 1) (valid_bytes + frame_size))"
  by pat_completeness auto
termination
  by (relation "measure (\<lambda>(_, remaining, _, _, _). length remaining)")
    (auto simp: kPersistFrameHeaderBytes_def)

declare replay_journal.simps [simp del]

section \<open>The store\<close>

text \<open>What the operating system does to the file operations of one store call.\<close>

record io_result =
  io_read_snapshot :: bool
  io_read_journal :: bool
  io_write_snapshot :: bool
  io_remove :: bool
  io_append :: "nat option"
  io_truncate :: bool

text \<open>\<open>io_append\<close> is \<open>None\<close> on success, and otherwise the number of bytes that reached the file.\<close>

definition io_ok :: io_result where
  "io_ok = \<lparr>io_read_snapshot = True, io_read_journal = True, io_write_snapshot = True,
           io_remove = True, io_append = None, io_truncate = True\<rparr>"

record route_store =
  rs_limits :: limits
  rs_durability :: durability
  rs_compaction_threshold :: nat
  rs_snapshot :: "bytes option"
  rs_journal :: "bytes option"
  rs_journal_entries :: nat
  rs_journal_bytes :: nat
  rs_io :: "io_result list"

definition route_store :: "limits \<Rightarrow> durability \<Rightarrow> route_store" where
  "route_store limits durability =
     \<lparr>rs_limits = limits, rs_durability = durability, rs_compaction_threshold = 1024,
      rs_snapshot = None, rs_journal = None, rs_journal_entries = 0, rs_journal_bytes = 0, rs_io = []\<rparr>"

definition next_io :: "route_store \<Rightarrow> io_result \<times> route_store" where
  "next_io store =
     (case rs_io store of [] \<Rightarrow> (io_ok, store) | io # rest \<Rightarrow> (io, store\<lparr>rs_io := rest\<rparr>))"

definition store_exists :: "route_store \<Rightarrow> bool" where
  "store_exists store \<longleftrightarrow> rs_snapshot store \<noteq> None \<or> rs_journal store \<noteq> None"

definition should_compact :: "route_store \<Rightarrow> bool" where
  "should_compact store \<longleftrightarrow>
     rs_durability store = DU_Journal \<and>
     (rs_journal_entries store \<ge> rs_compaction_threshold store \<or>
      rs_journal_bytes store \<ge> max_persist_bytes (rs_limits store) div 4)"

definition RemoveStore :: "route_store \<Rightarrow> status \<times> route_store" where
  "RemoveStore store =
     (let (io, store) = next_io store;
          store = (if io_remove io then store\<lparr>rs_snapshot := None, rs_journal := None\<rparr> else store)
      in (ok_status, store\<lparr>rs_journal_entries := 0, rs_journal_bytes := 0\<rparr>))"

definition initial_state :: persisted_state where
  "initial_state =
     \<lparr>pst_epoch = 1, pst_policy_generation = 1, pst_routes = [], pst_revocations = [], pst_attempts = []\<rparr>"

definition load_snapshot :: "route_store \<Rightarrow> io_result \<Rightarrow> persisted_state expected" where
  "load_snapshot store io =
     (case rs_snapshot store of
        None \<Rightarrow> Inr initial_state
      | Some img \<Rightarrow>
          if \<not> io_read_snapshot io then Inl SC_PersistenceFailure
          else case DecodeSnapshot img (rs_limits store) of
                 None \<Rightarrow> Inl SC_PersistenceFailure
               | Some state \<Rightarrow> Inr state)"

definition Load :: "route_store \<Rightarrow> persisted_state expected \<times> route_store" where
  "Load store =
     (let (io, store) = next_io store
      in case load_snapshot store io of
           Inl e \<Rightarrow> (Inl e, store)
         | Inr state \<Rightarrow>
             let store = store\<lparr>rs_journal_entries := 0, rs_journal_bytes := 0\<rparr>
             in case rs_journal store of
                  None \<Rightarrow> (Inr state, store)
                | Some journal \<Rightarrow>
                    if \<not> io_read_journal io then (Inl SC_PersistenceFailure, store)
                    else
                      let (state, entries, valid_bytes) = replay_journal (rs_limits store) journal state 0 0;
                          store = store\<lparr>rs_journal_entries := entries, rs_journal_bytes := valid_bytes\<rparr>
                      in if valid_bytes \<noteq> length journal then
                           (if \<not> io_truncate io then (Inl SC_PersistenceFailure, store)
                            else (Inr state, store\<lparr>rs_journal := Some (take valid_bytes journal)\<rparr>))
                         else (Inr state, store))"

definition SaveSnapshot :: "route_store \<Rightarrow> persisted_state \<Rightarrow> status \<times> route_store" where
  "SaveSnapshot store state =
     (if rs_durability store = DU_None then (Inl SC_Unsupported, store)
      else
        let img = EncodeSnapshot state (rs_limits store)
        in if img = [] then (Inl SC_LimitExceeded, store)
           else
             let (io, store) = next_io store
             in if \<not> io_write_snapshot io then (Inl SC_PersistenceFailure, store)
                else
                  let store = store\<lparr>rs_snapshot := Some img\<rparr>;
                      store = (if io_remove io then store\<lparr>rs_journal := None\<rparr> else store)
                  in (ok_status, store\<lparr>rs_journal_entries := 0, rs_journal_bytes := 0\<rparr>))"

definition journal_contents :: "route_store \<Rightarrow> bytes" where
  "journal_contents store = (case rs_journal store of None \<Rightarrow> [] | Some journal \<Rightarrow> journal)"

definition AppendJournal :: "route_store \<Rightarrow> journal_entry \<Rightarrow> status \<times> route_store" where
  "AppendJournal store entry =
     (if rs_durability store = DU_None then (Inl SC_Unsupported, store)
      else
        let img = EncodeJournalEntry entry (rs_limits store)
        in if img = [] then (Inl SC_LimitExceeded, store)
           else
             let (io, store) = next_io store
             in case io_append io of
                  Some written \<Rightarrow>
                    (Inl SC_PersistenceFailure,
                     store\<lparr>rs_journal := Some (journal_contents store @ take written img)\<rparr>)
                | None \<Rightarrow>
                    (ok_status,
                     store\<lparr>rs_journal := Some (journal_contents store @ img),
                           rs_journal_entries := rs_journal_entries store + 1,
                           rs_journal_bytes := rs_journal_bytes store + length img\<rparr>))"

section \<open>Frames are strict\<close>

lemma length_w_u64 [simp]: "length (w_u64 v) = 8"
  by (simp add: w_u64_def)

lemma length_w_u32 [simp]: "length (w_u32 v) = 4"
  by (simp add: w_u32_def)

lemma read_le64_write [simp]: "read_le64 (w_u64 v @ rest) = v"
  using u64_codec.read_write [OF TrueI, of v rest] by (simp add: rd_u64_def)

lemma read_le32_write [simp]: "read_le32 (w_u32 v @ rest) = v"
  using u32_codec.read_write [OF TrueI, of v rest] by (simp add: rd_u32_def)

lemma read_le64_split: "8 \<le> length data \<Longrightarrow> data = w_u64 (read_le64 data) @ drop 8 data"
  using u64_codec.read_data [of data "read_le64 data" "drop 8 data"] by (simp add: rd_u64_def)

lemma read_le32_split: "4 \<le> length data \<Longrightarrow> data = w_u32 (read_le32 data) @ drop 4 data"
  using u32_codec.read_data [of data "read_le32 data" "drop 4 data"] by (simp add: rd_u32_def)

lemma length_write_frame: "length (write_frame magic payload) = 28 + length payload"
  by (simp add: write_frame_def)

definition payload_fits :: "limits \<Rightarrow> bytes \<Rightarrow> bool" where
  "payload_fits limits payload \<longleftrightarrow> length payload \<le> max_persist_bytes limits \<and> length payload < 2 ^ 32"

text \<open>The fields of a written frame, at the offsets the reader uses.\<close>

lemma write_frame_fields:
  fixes magic rest
  assumes "length payload < 2 ^ 32"
  defines "f \<equiv> write_frame magic payload @ rest"
  shows "read_le64 f = magic" and "read_le32 (drop 8 f) = kPersistenceFormatVersion"
    and "unat (read_le32 (drop 12 f)) = length payload" and "take (length payload) (drop 16 f) = payload"
    and "read_le32 (drop (16 + length payload) f) = crc32c_compute payload"
    and "read_le64 (drop (20 + length payload) f) = fnv1a64_update kFnvBasis payload"
    and "drop (28 + length payload) f = rest"
  using assms by (simp_all add: write_frame_def unat_of_nat)

lemma read_frame_write:
  "payload_fits limits payload \<Longrightarrow> read_frame (write_frame magic payload) magic limits = Some payload"
  using write_frame_fields [of payload magic "[]"]
  by (simp add: read_frame_def payload_fits_def length_write_frame kPersistFrameHeaderBytes_def
      kPersistFrameTrailerBytes_def Let_def add.commute)

lemma frame_split:
  assumes "length f = 28 + n"
  shows "f = w_u64 (read_le64 f) @ w_u32 (read_le32 (drop 8 f)) @ w_u32 (read_le32 (drop 12 f)) @
    take n (drop 16 f) @ w_u32 (read_le32 (drop (16 + n) f)) @ w_u64 (read_le64 (drop (20 + n) f))"
proof -
  have "f = w_u64 (read_le64 f) @ drop 8 f" using assms by (simp add: read_le64_split)
  also have "drop 8 f = w_u32 (read_le32 (drop 8 f)) @ drop 12 f"
    using assms read_le32_split [of "drop 8 f"] by simp
  also have "drop 12 f = w_u32 (read_le32 (drop 12 f)) @ drop 16 f"
    using assms read_le32_split [of "drop 12 f"] by simp
  also have "drop 16 f = take n (drop 16 f) @ drop (16 + n) f"
    by (metis append_take_drop_id drop_drop add.commute)
  also have "drop (16 + n) f = w_u32 (read_le32 (drop (16 + n) f)) @ drop (20 + n) f"
    using assms read_le32_split [of "drop (16 + n) f"] by (simp add: add.commute)
  also have "drop (20 + n) f = w_u64 (read_le64 (drop (20 + n) f))"
    using assms read_le64_split [of "drop (20 + n) f"] by simp
  finally show ?thesis .
qed

lemma read_frame_canonical:
  assumes "read_frame img magic limits = Some payload"
  shows "payload_fits limits payload \<and> img = write_frame magic payload"
proof -
  define n where "n = unat (read_le32 (drop 12 img))"
  have len: "length img = 28 + n" and mag: "read_le64 img = magic"
    and ver: "read_le32 (drop 8 img) = kPersistenceFormatVersion" and fits: "n \<le> max_persist_bytes limits"
    and pay: "payload = take n (drop 16 img)"
    and crc: "read_le32 (drop (16 + n) img) = crc32c_compute payload"
    and fnv: "read_le64 (drop (20 + n) img) = fnv1a64_update kFnvBasis payload"
    using assms
    unfolding read_frame_def Let_def n_def [symmetric] kPersistFrameHeaderBytes_def kPersistFrameTrailerBytes_def
    by (simp_all split: if_split_asm add: add.commute)
  have "length payload = n" using pay len by simp
  moreover have "read_le32 (drop 12 img) = of_nat n" by (simp add: n_def)
  moreover have "n < 2 ^ 32" using unsigned_less [of "read_le32 (drop 12 img)", where 'a = nat] by (simp add: n_def)
  ultimately show ?thesis
    using frame_split [OF len] fits by (simp add: payload_fits_def write_frame_def mag ver crc fnv flip: pay)
qed

section \<open>The state body\<close>

interpretation programming_operation_enum: named_enum programming_operation_raw programming_operation_values
  programming_operation_to_string
proof unfold_locales
  show "e \<in> set programming_operation_values" for e
    by (cases e) (simp_all add: programming_operation_values_def)
qed (simp_all add: programming_operation_values_def)

interpretation programming_operation_codec: codec "\<lambda>e. w_u8 (programming_operation_raw e)"
    "rd_enum programming_operation_raw programming_operation_values" "\<lambda>_. True"
  by (rule enum_codec) unfold_locales

definition attempt_wf :: "programming_attempt_record \<Rightarrow> bool" where
  "attempt_wf a \<longleftrightarrow>
     at_attempt a \<noteq> 0 \<and> at_route a \<noteq> 0 \<and> counter_wire_valid (at_desired_generation a) \<and>
     counter_wire_valid (at_programming_generation a) \<and> counter_wire_valid (at_epoch a)"

interpretation attempt_codec: codec w_attempt rd_attempt attempt_wf
proof unfold_locales
  show "attempt_wf a \<Longrightarrow> rd_attempt (w_attempt a @ rest) = Some (a, rest)" for a rest
    by (cases a) (simp add: attempt_wf_def rd_attempt_def w_attempt_def codec
        programming_operation_codec.read_write)
  show "rd_attempt data = Some (a, rest) \<Longrightarrow> attempt_wf a \<and> data = w_attempt a @ rest" for data a rest
    by (auto simp: attempt_wf_def rd_attempt_def w_attempt_def bind_eq_Some_conv
        dest!: part_canonical programming_operation_codec.read_data boolean_codec.read_data)
qed

definition body_wf :: "limits \<Rightarrow> state_body \<Rightarrow> bool" where
  "body_wf limits = (\<lambda>(routes, revocations, attempts).
     list_all (route_record_wf limits) routes \<and> list_all (revocation_wf limits) revocations \<and>
     list_all attempt_wf attempts \<and>
     length routes \<le> max_routes limits \<and> length routes < 2 ^ 32 \<and>
     length revocations \<le> max_routes limits \<and> length revocations < 2 ^ 32 \<and>
     length attempts \<le> max_outstanding_programming limits \<and> length attempts < 2 ^ 32)"

lemma unat_u32_less: "unat (n :: u32) < 2 ^ 32"
  using unsigned_less [of n, where 'a = nat] by simp

interpretation state_body_codec: codec w_state_body "rd_state_body limits" "body_wf limits" for limits
proof unfold_locales
  show "body_wf limits b \<Longrightarrow> rd_state_body limits (w_state_body b @ rest) = Some (b, rest)" for b rest
    by (cases b) (simp add: body_wf_def rd_state_body_def w_state_body_def codec unat_of_nat
        route_record_codec.times_write revocation_codec.times_write attempt_codec.times_write)
next
  fix data b rest assume "rd_state_body limits data = Some (b, rest)"
  then show "body_wf limits b \<and> data = w_state_body b @ rest"
    using unat_u32_less
    by (auto simp: body_wf_def rd_state_body_def w_state_body_def bind_eq_Some_conv
        dest!: u32_codec.read_data route_record_codec.times_canonical revocation_codec.times_canonical
          attempt_codec.times_canonical split: if_splits)
qed

section \<open>Snapshots and journal entries\<close>

lemma adjacent_find_sorted: "sorted xs \<Longrightarrow> adjacent_find xs \<longleftrightarrow> \<not> distinct xs"
proof (induction xs rule: adjacent_find.induct)
  case (1 x y xs)
  then show ?case by (auto dest: order.antisym)
qed auto

lemma adjacent_find_sort [simp]: "adjacent_find (sort xs) \<longleftrightarrow> \<not> distinct xs"
  by (simp add: adjacent_find_sorted)

definition state_unique :: "persisted_state \<Rightarrow> bool" where
  "state_unique state \<longleftrightarrow>
     distinct (map rr_id (pst_routes state)) \<and> distinct (map rr_key (pst_routes state)) \<and>
     distinct (map at_attempt (pst_attempts state)) \<and> distinct (map rv_route (pst_revocations state))"

definition snapshot_payload :: "persisted_state \<Rightarrow> bytes" where
  "snapshot_payload state =
     w_u64 (pst_epoch state) @ w_u64 (pst_policy_generation state) @
     w_state_body (pst_routes state, pst_revocations state, pst_attempts state) @
     array16_bytes (persisted_digest state)"

definition state_wf :: "limits \<Rightarrow> persisted_state \<Rightarrow> bool" where
  "state_wf limits state \<longleftrightarrow>
     counter_wire_valid (pst_epoch state) \<and> counter_wire_valid (pst_policy_generation state) \<and>
     body_wf limits (pst_routes state, pst_revocations state, pst_attempts state) \<and>
     state_unique state \<and> payload_fits limits (snapshot_payload state)"

lemma EncodeSnapshot_wf:
  "state_wf limits state \<Longrightarrow> EncodeSnapshot state limits = write_frame kPersistenceMagic (snapshot_payload state)"
  by (simp add: EncodeSnapshot_def state_wf_def counter_wire_valid_def counter_is_valid_def snapshot_payload_def
      payload_fits_def Let_def)

lemma DecodeSnapshot_encoded:
  assumes "state_wf limits state"
  shows "DecodeSnapshot (EncodeSnapshot state limits) limits = Some state"
proof -
  have "read_frame (EncodeSnapshot state limits) kPersistenceMagic limits = Some (snapshot_payload state)"
    using assms by (simp add: EncodeSnapshot_wf read_frame_write state_wf_def)
  with assms show ?thesis
    by (cases state)
      (simp add: DecodeSnapshot_def snapshot_payload_def state_wf_def codec state_body_codec.read_write
        raw_write [of "array16_bytes _" _ "[]", simplified] counter_wire_valid_def state_unique_def not_less)
qed

lemma DecodeSnapshot_canonical:
  assumes "DecodeSnapshot img limits = Some state"
  shows "state_wf limits state \<and> img = EncodeSnapshot state limits"
proof -
  obtain payload d1 d2 d3 dig where
    frame: "read_frame img kPersistenceMagic limits = Some payload"
    and e: "rd_u64 payload = Some (pst_epoch state, d1)"
    and g: "rd_u64 d1 = Some (pst_policy_generation state, d2)"
    and b: "rd_state_body limits d2 = Some ((pst_routes state, pst_revocations state, pst_attempts state), d3)"
    and dg: "rd_raw 16 d3 = Some (dig, [])" "array16_of dig = persisted_digest state"
    and ok: "counter_wire_valid (pst_epoch state)" "counter_wire_valid (pst_policy_generation state)"
      "state_unique state"
    using assms
    by (fastforce simp: DecodeSnapshot_def bind_eq_Some_conv Let_def state_unique_def counter_wire_valid_def
        not_less split: if_splits)
  have dig: "dig = array16_bytes (persisted_digest state)"
    using dg raw_canonical [OF dg(1)] by (metis array16_bytes_of)
  have "payload = snapshot_payload state"
    using u64_codec.read_data [OF e] u64_codec.read_data [OF g] state_body_codec.read_data [OF b]
      raw_canonical [OF dg(1)] by (simp add: snapshot_payload_def dig)
  with read_frame_canonical [OF frame] ok state_body_codec.read_wf [OF b]
  have "state_wf limits state" and "img = write_frame kPersistenceMagic (snapshot_payload state)"
    by (simp_all add: state_wf_def)
  then show ?thesis by (simp add: EncodeSnapshot_wf)
qed

definition entry_payload :: "journal_entry \<Rightarrow> bytes" where
  "entry_payload entry =
     w_u64 (je_epoch entry) @ w_u64 (je_policy_generation entry) @
     w_state_body (je_upserts entry, je_revocations entry, je_attempts entry)"

definition entry_wf :: "limits \<Rightarrow> journal_entry \<Rightarrow> bool" where
  "entry_wf limits entry \<longleftrightarrow>
     counter_wire_valid (je_epoch entry) \<and> counter_wire_valid (je_policy_generation entry) \<and>
     body_wf limits (je_upserts entry, je_revocations entry, je_attempts entry) \<and>
     payload_fits limits (entry_payload entry)"

lemma EncodeJournalEntry_wf:
  "entry_wf limits entry \<Longrightarrow> EncodeJournalEntry entry limits = write_frame kJournalEntryMagic (entry_payload entry)"
  by (simp add: EncodeJournalEntry_def entry_wf_def counter_wire_valid_def counter_is_valid_def entry_payload_def
      payload_fits_def Let_def)

lemma DecodeJournalEntry_encoded:
  assumes "entry_wf limits entry"
  shows "DecodeJournalEntry (EncodeJournalEntry entry limits) limits = Some entry"
proof -
  have "read_frame (EncodeJournalEntry entry limits) kJournalEntryMagic limits = Some (entry_payload entry)"
    using assms by (simp add: EncodeJournalEntry_wf read_frame_write entry_wf_def)
  with assms show ?thesis
    by (cases entry)
      (simp add: DecodeJournalEntry_def entry_payload_def entry_wf_def codec
        state_body_codec.read_write_all counter_wire_valid_def not_less)
qed

section \<open>Replay of a journal with a torn tail\<close>

definition encode_journal :: "limits \<Rightarrow> journal_entry list \<Rightarrow> bytes" where
  "encode_journal limits entries = concat (map (\<lambda>e. EncodeJournalEntry e limits) entries)"

text \<open>
  A torn tail: bytes the replay loop does not recognise as a complete entry. Every proper
  prefix of an encoded entry is one.
\<close>

definition torn :: "limits \<Rightarrow> bytes \<Rightarrow> bool" where
  "torn limits tail \<longleftrightarrow> (\<forall>state entries n. replay_journal limits tail state entries n = (state, entries, n))"

lemma replay_journal_entry:
  assumes "entry_wf limits entry"
  shows "replay_journal limits (EncodeJournalEntry entry limits @ rest) state k n =
    replay_journal limits rest (replay_entry state entry) (k + 1) (n + length (EncodeJournalEntry entry limits))"
proof -
  let ?p = "entry_payload entry"
  have fits: "payload_fits limits ?p" using assms by (simp add: entry_wf_def)
  then have len: "length ?p < 2 ^ 32" by (simp add: payload_fits_def)
  let ?f = "write_frame kJournalEntryMagic ?p"
  have enc: "EncodeJournalEntry entry limits = ?f" using assms by (rule EncodeJournalEntry_wf)
  have decode: "DecodeJournalEntry ?f limits = Some entry"
    using DecodeJournalEntry_encoded [OF assms] by (simp add: enc)
  show ?thesis
    unfolding enc
    by (subst replay_journal.simps)
      (use fits decode write_frame_fields [OF len, of kJournalEntryMagic rest] in
        \<open>simp add: Let_def payload_fits_def kPersistFrameHeaderBytes_def kPersistFrameTrailerBytes_def
          length_write_frame add.commute [of _ "length ?p"] add.assoc\<close>)
qed

lemma replay_journal_entries:
  "list_all (entry_wf limits) entries \<Longrightarrow> torn limits tail \<Longrightarrow>
   replay_journal limits (encode_journal limits entries @ tail) state k n =
   (foldl replay_entry state entries, k + length entries, n + length (encode_journal limits entries))"
  by (induction entries arbitrary: state k n)
    (simp_all add: encode_journal_def torn_def replay_journal_entry)

lemma proper_prefix_torn:
  assumes "entry_wf limits entry" and "EncodeJournalEntry entry limits = part @ missing" and "missing \<noteq> []"
  shows "torn limits part"
proof -
  let ?p = "entry_payload entry"
  have len: "length ?p < 2 ^ 32" using assms(1) by (simp add: entry_wf_def payload_fits_def)
  have enc: "write_frame kJournalEntryMagic ?p = part @ missing"
    using assms by (simp add: EncodeJournalEntry_wf)
  have short: "length part < 28 + length ?p"
    using arg_cong [OF enc, of length] assms(3) by (simp add: length_write_frame)
  have hdr: "drop 12 (write_frame kJournalEntryMagic ?p) = drop 12 part @ missing" if "12 \<le> length part"
    using that by (simp add: enc)
  have "unat (read_le32 (drop 12 part)) = length ?p" if "28 \<le> length part"
  proof -
    have "read_le32 (drop 12 part @ missing) = read_le32 (drop 12 part)"
      using that by (simp add: read_le32_def le_load_def upt_rec nth_append)
    then show ?thesis
      using write_frame_fields(3) [OF len, of kJournalEntryMagic "[]"] hdr that by simp
  qed
  with short show ?thesis
    unfolding torn_def
    by (subst replay_journal.simps)
      (auto simp: Let_def kPersistFrameHeaderBytes_def kPersistFrameTrailerBytes_def)
qed

end
