(* ===== verification/RF_Snapshot.thy ===== *)
theory RF_Snapshot
  imports RF_Backend "HOL-Library.Multiset"
begin

text \<open>
  \<^bold>\<open>Snapshots and diffs.\<close> This theory models \<open>include/routefabric/snapshot.hpp\<close> and
  \<open>src/snapshot.cpp\<close>: currentness classes, content-addressed snapshots of one route and
  of the whole runtime, lookup by binary search, deterministic diffs and their rendering.
  It shows that the identity of a snapshot set does not depend on the order the records are
  supplied in, that the lookup finds exactly the routes of the set, and that a diff lists
  exactly the rendered fields that changed, in field order.
\<close>

section \<open>Currentness\<close>

datatype route_currentness =
    CU_Current
  | CU_NotInstalled
  | CU_RevalidationRequired
  | CU_StaleEpoch
  | CU_StalePublisher
  | CU_StaleWorkerBoot
  | CU_StalePathAuthority
  | CU_StaleBackendObservation
  | CU_FencedPublisher
  | CU_PathAuthorityRejected
  | CU_Withdrawn
  | CU_Retired
  | CU_Superseded
  | CU_Failed
  | CU_Revoked
  | CU_DesiredAppliedMismatch

fun currentness_raw :: "route_currentness \<Rightarrow> u8" where
  "currentness_raw CU_Current = 1"
| "currentness_raw CU_NotInstalled = 2"
| "currentness_raw CU_RevalidationRequired = 3"
| "currentness_raw CU_StaleEpoch = 4"
| "currentness_raw CU_StalePublisher = 5"
| "currentness_raw CU_StaleWorkerBoot = 6"
| "currentness_raw CU_StalePathAuthority = 7"
| "currentness_raw CU_StaleBackendObservation = 8"
| "currentness_raw CU_FencedPublisher = 9"
| "currentness_raw CU_PathAuthorityRejected = 10"
| "currentness_raw CU_Withdrawn = 11"
| "currentness_raw CU_Retired = 12"
| "currentness_raw CU_Superseded = 13"
| "currentness_raw CU_Failed = 14"
| "currentness_raw CU_Revoked = 15"
| "currentness_raw CU_DesiredAppliedMismatch = 16"

definition currentness_values :: "route_currentness list" where
  "currentness_values =
     [CU_Current, CU_NotInstalled, CU_RevalidationRequired, CU_StaleEpoch,
      CU_StalePublisher, CU_StaleWorkerBoot, CU_StalePathAuthority, CU_StaleBackendObservation,
      CU_FencedPublisher, CU_PathAuthorityRejected, CU_Withdrawn, CU_Retired,
      CU_Superseded, CU_Failed, CU_Revoked, CU_DesiredAppliedMismatch]"

fun currentness_to_string :: "route_currentness \<Rightarrow> string" where
  "currentness_to_string CU_Current = ''CURRENT''"
| "currentness_to_string CU_NotInstalled = ''NOT_INSTALLED''"
| "currentness_to_string CU_RevalidationRequired = ''REVALIDATION_REQUIRED''"
| "currentness_to_string CU_StaleEpoch = ''STALE_EPOCH''"
| "currentness_to_string CU_StalePublisher = ''STALE_PUBLISHER''"
| "currentness_to_string CU_StaleWorkerBoot = ''STALE_WORKER_BOOT''"
| "currentness_to_string CU_StalePathAuthority = ''STALE_PATH_AUTHORITY''"
| "currentness_to_string CU_StaleBackendObservation = ''STALE_BACKEND_OBSERVATION''"
| "currentness_to_string CU_FencedPublisher = ''FENCED_PUBLISHER''"
| "currentness_to_string CU_PathAuthorityRejected = ''PATH_AUTHORITY_REJECTED''"
| "currentness_to_string CU_Withdrawn = ''WITHDRAWN''"
| "currentness_to_string CU_Retired = ''RETIRED''"
| "currentness_to_string CU_Superseded = ''SUPERSEDED''"
| "currentness_to_string CU_Failed = ''FAILED''"
| "currentness_to_string CU_Revoked = ''REVOKED''"
| "currentness_to_string CU_DesiredAppliedMismatch = ''DESIRED_APPLIED_MISMATCH''"

definition parse_currentness :: "string \<Rightarrow> route_currentness option" where
  "parse_currentness text = parse_by_name currentness_to_string currentness_values text"

definition is_current :: "route_currentness \<Rightarrow> bool" where
  "is_current currentness \<longleftrightarrow> currentness = CU_Current"

section \<open>Snapshots\<close>

record route_snapshot =
  sn_id :: route_snapshot_id
  sn_digest :: digest128
  sn_currentness :: route_currentness
  sn_record :: route_record

record route_snapshot_set =
  ss_id :: route_snapshot_id
  ss_digest :: digest128
  ss_epoch :: coordinator_epoch
  ss_routes :: "route_snapshot list"

definition make_snapshot :: "route_record \<Rightarrow> route_currentness \<Rightarrow> route_snapshot" where
  "make_snapshot r currentness =
     (let digest = semantic_digest r;
          data = w_raw_text ''routefabric.snapshot.v1'' @ array16_bytes digest @
                 w_u8 (currentness_raw currentness) @ w_fixed (rr_id r) @
                 w_counter (rr_generation r) @ w_counter (rr_authority_generation r)
      in \<lparr>sn_id = fixed_from_digest (digest128 ''routefabric.snapshot-id'' data), sn_digest = digest,
          sn_currentness = currentness, sn_record = r\<rparr>)"

abbreviation snapshot_key :: "route_snapshot \<Rightarrow> route_id" where
  "snapshot_key s \<equiv> rr_id (sn_record s)"

definition digest_snapshots :: "route_snapshot list \<Rightarrow> digest128" where
  "digest_snapshots snapshots =
     (let start = w_raw_text ''routefabric.snapshot-set.v1'';
          ordered = sort_key snapshot_key snapshots;
          lane = (\<lambda>basis. foldl (\<lambda>h s. fnv1a64_update_byte
                                   (fnv1a64_update h (array16_bytes (semantic_digest (sn_record s))))
                                   (currentness_raw (sn_currentness s)))
                           (fnv1a64_update basis start) ordered)
      in from_u64_pair (mix64 (lane kFnvBasis)) (mix64 (lane kFnvBasisAlt)))"

definition digest_snapshot_set :: "route_snapshot_set \<Rightarrow> digest128" where
  "digest_snapshot_set ss = digest_snapshots (ss_routes ss)"

definition make_snapshot_set ::
  "route_record list \<Rightarrow> route_currentness list \<Rightarrow> coordinator_epoch \<Rightarrow> route_snapshot_set" where
  "make_snapshot_set records currentness epoch =
     (let count = min (length records) (length currentness);
          routes = sort_key snapshot_key
                     (map (\<lambda>i. make_snapshot (records ! i) (currentness ! i)) [0..<count]);
          digest = digest_snapshots routes;
          data = w_raw_text ''routefabric.snapshot-set.v1'' @ array16_bytes digest @ w_counter epoch @
                 w_u64 (of_nat (length routes))
      in \<lparr>ss_id = fixed_from_digest (digest128 ''routefabric.snapshot-set-id'' data), ss_digest = digest,
          ss_epoch = epoch, ss_routes = routes\<rparr>)"

text \<open>
  \<open>RouteSnapshotSet::find\<close>: \<open>std::lower_bound\<close> yields the first element that is not
  smaller than the key.
\<close>

definition find_snapshot :: "route_snapshot_set \<Rightarrow> route_id \<Rightarrow> route_snapshot option" where
  "find_snapshot ss route =
     (case dropWhile (\<lambda>s. snapshot_key s < route) (ss_routes ss) of
        [] \<Rightarrow> None
      | s # _ \<Rightarrow> if snapshot_key s \<noteq> route then None else Some s)"

section \<open>Rendering\<close>

definition newline :: string where "newline = [CHR 0x0A]"

definition counter_or_none :: "counter_id \<Rightarrow> string" where
  "counter_or_none c = (if counter_is_valid c then to_decimal c else ''none'')"

definition render_snapshot :: "route_snapshot \<Rightarrow> string" where
  "render_snapshot s =
     (let r = sn_record s
      in ''route-id: '' @ fixed_render (rr_id r) @
         newline @ ''key: '' @ render_route_key (rr_key r) @
         newline @ ''lifecycle: '' @ lifecycle_to_string (rr_lifecycle r) @
         newline @ ''currentness: '' @ currentness_to_string (sn_currentness s) @
         newline @ ''generation: '' @ to_decimal (rr_generation r) @
         newline @ ''authority-generation: '' @ to_decimal (rr_authority_generation r) @
         newline @ ''invalidation-watermark: '' @ to_decimal (rr_invalidation_watermark r) @
         newline @ ''programming-generation: '' @ to_decimal (rr_programming_generation r) @
         newline @ ''binding: '' @ render_route_binding (rr_binding r) @
         newline @ ''applied: '' @ applied_classification_to_string (ap_classification (rr_applied r)) @
         newline @ ''applied-programmed-generation: '' @
           counter_or_none (ap_programmed_generation (rr_applied r)) @
         newline @ ''backend: '' @ ap_backend (rr_applied r) @
         newline @ ''observation: '' @ observation_class_to_string (ob_classification (rr_observation r)) @
         newline @ ''publisher: '' @ pv_publisher (rr_provenance r) @
         newline @ ''worker-boot: '' @ fixed_render (pv_worker_boot (rr_provenance r)) @
         newline @ ''epoch: '' @ to_decimal (pv_epoch (rr_provenance r)) @
         newline @ ''path-authority-generation: '' @
           to_decimal (pv_path_authority_generation (rr_provenance r)) @
         newline @ ''snapshot-id: '' @ fixed_render (sn_id s) @
         newline @ ''digest: '' @ fixed_render (sn_digest s))"

definition render_compact :: "route_snapshot \<Rightarrow> string" where
  "render_compact s =
     (let r = sn_record s
      in render_route_key (rr_key r) @ '' gen='' @ to_decimal (rr_generation r) @
         '' auth-gen='' @ to_decimal (rr_authority_generation r) @
         '' lifecycle='' @ lifecycle_to_string (rr_lifecycle r) @
         '' currentness='' @ currentness_to_string (sn_currentness s) @
         '' applied='' @ applied_classification_to_string (ap_classification (rr_applied r)) @
         '' binding='' @ render_route_binding (rr_binding r))"

definition render_snapshot_set :: "route_snapshot_set \<Rightarrow> string" where
  "render_snapshot_set ss =
     ''epoch: '' @ to_decimal (ss_epoch ss) @
     newline @ ''route-count: '' @ to_decimal (of_nat (length (ss_routes ss))) @
     newline @ ''snapshot-id: '' @ fixed_render (ss_id ss) @
     newline @ ''digest: '' @ fixed_render (ss_digest ss) @
     concat (map (\<lambda>s. newline @ render_compact s) (ss_routes ss))"

section \<open>Diffs\<close>

datatype route_diff_field =
    DF_Presence
  | DF_RouteId
  | DF_Key
  | DF_Generation
  | DF_AuthorityGeneration
  | DF_Lifecycle
  | DF_Binding
  | DF_NextHop
  | DF_PathAuthorityGeneration
  | DF_AppliedClassification
  | DF_AppliedGeneration
  | DF_BackendObservation
  | DF_Publisher
  | DF_WorkerBoot
  | DF_Epoch
  | DF_Currentness
  | DF_Supersession
  | DF_Retirement

fun route_diff_field_raw :: "route_diff_field \<Rightarrow> u8" where
  "route_diff_field_raw DF_Presence = 1"
| "route_diff_field_raw DF_RouteId = 2"
| "route_diff_field_raw DF_Key = 3"
| "route_diff_field_raw DF_Generation = 4"
| "route_diff_field_raw DF_AuthorityGeneration = 5"
| "route_diff_field_raw DF_Lifecycle = 6"
| "route_diff_field_raw DF_Binding = 7"
| "route_diff_field_raw DF_NextHop = 8"
| "route_diff_field_raw DF_PathAuthorityGeneration = 9"
| "route_diff_field_raw DF_AppliedClassification = 10"
| "route_diff_field_raw DF_AppliedGeneration = 11"
| "route_diff_field_raw DF_BackendObservation = 12"
| "route_diff_field_raw DF_Publisher = 13"
| "route_diff_field_raw DF_WorkerBoot = 14"
| "route_diff_field_raw DF_Epoch = 15"
| "route_diff_field_raw DF_Currentness = 16"
| "route_diff_field_raw DF_Supersession = 17"
| "route_diff_field_raw DF_Retirement = 18"

definition route_diff_field_values :: "route_diff_field list" where
  "route_diff_field_values =
     [DF_Presence, DF_RouteId, DF_Key, DF_Generation,
      DF_AuthorityGeneration, DF_Lifecycle, DF_Binding, DF_NextHop,
      DF_PathAuthorityGeneration, DF_AppliedClassification, DF_AppliedGeneration, DF_BackendObservation,
      DF_Publisher, DF_WorkerBoot, DF_Epoch, DF_Currentness,
      DF_Supersession, DF_Retirement]"

fun route_diff_field_to_string :: "route_diff_field \<Rightarrow> string" where
  "route_diff_field_to_string DF_Presence = ''presence''"
| "route_diff_field_to_string DF_RouteId = ''route-id''"
| "route_diff_field_to_string DF_Key = ''key''"
| "route_diff_field_to_string DF_Generation = ''generation''"
| "route_diff_field_to_string DF_AuthorityGeneration = ''authority-generation''"
| "route_diff_field_to_string DF_Lifecycle = ''lifecycle''"
| "route_diff_field_to_string DF_Binding = ''binding''"
| "route_diff_field_to_string DF_NextHop = ''next-hop''"
| "route_diff_field_to_string DF_PathAuthorityGeneration = ''path-authority-generation''"
| "route_diff_field_to_string DF_AppliedClassification = ''applied-classification''"
| "route_diff_field_to_string DF_AppliedGeneration = ''applied-generation''"
| "route_diff_field_to_string DF_BackendObservation = ''backend-observation''"
| "route_diff_field_to_string DF_Publisher = ''publisher''"
| "route_diff_field_to_string DF_WorkerBoot = ''worker-boot''"
| "route_diff_field_to_string DF_Epoch = ''epoch''"
| "route_diff_field_to_string DF_Currentness = ''currentness''"
| "route_diff_field_to_string DF_Supersession = ''supersession''"
| "route_diff_field_to_string DF_Retirement = ''retirement''"

record route_diff_entry =
  de_field :: route_diff_field
  de_before :: string
  de_after :: string

definition add_if_changed ::
  "route_diff_field \<Rightarrow> string \<Rightarrow> string \<Rightarrow> route_diff_entry list \<Rightarrow> route_diff_entry list" where
  "add_if_changed field before after entries =
     (if before \<noteq> after then entries @ [\<lparr>de_field = field, de_before = before, de_after = after\<rparr>]
      else entries)"

definition fixed_or_none :: "fixed_id \<Rightarrow> string" where
  "fixed_or_none i = (if fixed_is_valid i then fixed_render i else ''none'')"

definition render_supersession :: "supersession_record \<Rightarrow> string" where
  "render_supersession su =
     (if su_kind su = SK_None then ''none''
      else supersession_kind_to_string (su_kind su) @ '' prior='' @ counter_or_none (su_prior_generation su) @
           '' successor-generation='' @ counter_or_none (su_successor_generation su) @
           '' successor-lineage='' @ fixed_or_none (su_successor_lineage su) @
           '' reason='' @ su_reason su)"

definition render_retirement :: "retirement_record \<Rightarrow> string" where
  "render_retirement re =
     (if re_cause re = RT_None then ''none''
      else retirement_cause_to_string (re_cause re) @ '' generation='' @ counter_or_none (re_generation re) @
           '' reason='' @ re_reason re)"

text \<open>The text of one diff field of a snapshot, in the order the fields are compared.\<close>

definition diff_fields :: "route_snapshot \<Rightarrow> (route_diff_field \<times> string) list" where
  "diff_fields s =
     (let r = sn_record s
      in [(DF_Presence, ''present''),
          (DF_RouteId, fixed_render (rr_id r)),
          (DF_Key, render_route_key (rr_key r)),
          (DF_Generation, to_decimal (rr_generation r)),
          (DF_AuthorityGeneration, to_decimal (rr_authority_generation r)),
          (DF_Lifecycle, lifecycle_to_string (rr_lifecycle r)),
          (DF_Binding, render_route_binding (rr_binding r)),
          (DF_NextHop, render_route_binding (rr_binding r)),
          (DF_PathAuthorityGeneration, to_decimal (pv_path_authority_generation (rr_provenance r))),
          (DF_AppliedClassification, applied_classification_to_string (ap_classification (rr_applied r))),
          (DF_AppliedGeneration, counter_or_none (ap_programmed_generation (rr_applied r))),
          (DF_BackendObservation, observation_class_to_string (ob_classification (rr_observation r))),
          (DF_Publisher, pv_publisher (rr_provenance r)),
          (DF_WorkerBoot, fixed_render (pv_worker_boot (rr_provenance r))),
          (DF_Epoch, to_decimal (pv_epoch (rr_provenance r))),
          (DF_Currentness, currentness_to_string (sn_currentness s)),
          (DF_Supersession, render_supersession (rr_supersession r)),
          (DF_Retirement, render_retirement (rr_retirement r))])"

definition diff_snapshots :: "route_snapshot \<Rightarrow> route_snapshot \<Rightarrow> route_diff_entry list" where
  "diff_snapshots before after =
     foldl (\<lambda>entries ((field, b), (_, a)). add_if_changed field b a entries) []
       (zip (diff_fields before) (diff_fields after))"

definition diff_snapshot_sets ::
  "route_snapshot_set \<Rightarrow> route_snapshot_set \<Rightarrow> route_id \<Rightarrow> route_diff_entry list" where
  "diff_snapshot_sets before after route =
     (case (find_snapshot before route, find_snapshot after route) of
        (None, None) \<Rightarrow> []
      | (None, Some b) \<Rightarrow>
          [\<lparr>de_field = DF_Presence, de_before = ''absent'', de_after = ''present''\<rparr>,
           \<lparr>de_field = DF_Key, de_before = [], de_after = render_route_key (rr_key (sn_record b))\<rparr>,
           \<lparr>de_field = DF_Lifecycle, de_before = [], de_after = lifecycle_to_string (rr_lifecycle (sn_record b))\<rparr>,
           \<lparr>de_field = DF_Currentness, de_before = [], de_after = currentness_to_string (sn_currentness b)\<rparr>]
      | (Some a, None) \<Rightarrow>
          [\<lparr>de_field = DF_Presence, de_before = ''present'', de_after = ''absent''\<rparr>,
           \<lparr>de_field = DF_Key, de_before = render_route_key (rr_key (sn_record a)), de_after = []\<rparr>,
           \<lparr>de_field = DF_Lifecycle, de_before = lifecycle_to_string (rr_lifecycle (sn_record a)), de_after = []\<rparr>,
           \<lparr>de_field = DF_Currentness, de_before = currentness_to_string (sn_currentness a), de_after = []\<rparr>]
      | (Some a, Some b) \<Rightarrow> diff_snapshots a b)"

definition render_diff :: "route_id \<Rightarrow> route_diff_entry list \<Rightarrow> string" where
  "render_diff route entries =
     ''route-id: '' @ fixed_render route @
     (if entries = [] then newline @ ''no change''
      else concat (map (\<lambda>e. newline @ route_diff_field_to_string (de_field e) @ '': '' @ de_before e @
                            '' -> '' @ de_after e) entries))"

section \<open>Explanations\<close>

record route_explanation =
  ex_snapshot :: route_snapshot
  ex_authoritative :: bool
  ex_authority_reason :: string
  ex_currentness_reason :: string
  ex_lifecycle_reason :: string
  ex_path_authority_reason :: string
  ex_backend_reason :: string
  ex_reconciliation_reason :: string
  ex_supersession_reason :: string
  ex_retirement_reason :: string

definition render_explanation :: "route_explanation \<Rightarrow> string" where
  "render_explanation ex =
     render_snapshot (ex_snapshot ex) @
     newline @ ''authoritative: '' @ (if ex_authoritative ex then ''yes'' else ''no'') @
     newline @ ''authority-reason: '' @ ex_authority_reason ex @
     newline @ ''currentness-reason: '' @ ex_currentness_reason ex @
     newline @ ''lifecycle-reason: '' @ ex_lifecycle_reason ex @
     newline @ ''path-authority-reason: '' @ ex_path_authority_reason ex @
     newline @ ''backend-reason: '' @ ex_backend_reason ex @
     newline @ ''reconciliation-reason: '' @ ex_reconciliation_reason ex @
     newline @ ''supersession-reason: '' @ ex_supersession_reason ex @
     newline @ ''retirement-reason: '' @ ex_retirement_reason ex"

section \<open>Snapshot sets are independent of the order of their input\<close>

interpretation currentness_enum: named_enum currentness_raw currentness_values currentness_to_string
proof unfold_locales
  show "e \<in> set currentness_values" for e by (cases e) (simp_all add: currentness_values_def)
qed (simp_all add: currentness_values_def)

lemma snapshot_key_make [simp]: "snapshot_key (make_snapshot r c) = rr_id r"
  by (simp add: make_snapshot_def Let_def)

lemma snapshot_set_zip:
  "map (\<lambda>i. make_snapshot (records ! i) (cs ! i)) [0..<min (length records) (length cs)] =
   map (\<lambda>(r, c). make_snapshot r c) (zip records cs)"
  by (rule nth_equalityI) auto

lemma sort_key_unique:
  assumes "mset xs = mset ys" and "distinct (map f xs)"
  shows "sort_key f xs = sort_key f ys"
  using assms by (intro sort_key_inj_key_eq) (simp_all add: distinct_map)

lemma distinct_sort_key: "distinct (map f xs) \<Longrightarrow> distinct (map f (sort_key f xs))"
  by (simp add: distinct_map)

lemma find_same_set:
  assumes "distinct (map f xs)" "distinct (map f ys)" "set xs = set ys"
  shows "find (\<lambda>s. f s = k) xs = find (\<lambda>s. f s = k) ys"
proof (cases "find (\<lambda>s. f s = k) xs")
  case None
  then have "find (\<lambda>s. f s = k) ys = None" using assms(3) by (simp add: find_None_iff)
  with None show ?thesis by simp
next
  case (Some s)
  then have "f s = k" "s \<in> set ys" using assms(3) by (auto dest: find_SomeD)
  with find_Some_iff_unique [OF assms(2), of s] Some show ?thesis by simp
qed

lemma find_map_of: "find (\<lambda>s. f s = k) xs = map_of (map (\<lambda>s. (f s, s)) xs) k"
  by (induction xs) auto

lemma pair_with_key: "map (\<lambda>s. (f s, s)) xs = zip (map f xs) xs"
  by (induction xs) auto

lemma ss_routes_make:
  "ss_routes (make_snapshot_set records cs epoch) =
   sort_key snapshot_key (map (\<lambda>(r, c). make_snapshot r c) (zip records cs))"
  by (simp add: make_snapshot_set_def Let_def snapshot_set_zip)

lemma snapshot_keys_zip:
  "length records = length cs \<Longrightarrow>
   map snapshot_key (map (\<lambda>(r, c). make_snapshot r c) (zip records cs)) = map rr_id records"
  by (induction records cs rule: list_induct2) simp_all

text \<open>Binary search over a sorted list returns the first element with the key.\<close>

lemma lower_bound_find:
  fixes f :: "'a \<Rightarrow> 'k :: linorder"
  shows "sorted (map f xs) \<Longrightarrow>
    (case dropWhile (\<lambda>s. f s < k) xs of [] \<Rightarrow> None | s # _ \<Rightarrow> if f s \<noteq> k then None else Some s) =
    find (\<lambda>s. f s = k) xs"
proof (induction xs)
  case (Cons x xs)
  show ?case
  proof (cases "f x < k \<or> f x = k")
    case False
    then have "\<forall>y \<in> set xs. f y \<noteq> k" using Cons.prems by auto
    then have "find (\<lambda>s. f s = k) xs = None" by (auto simp: find_None_iff)
    with False show ?thesis by auto
  qed (use Cons in auto)
qed simp

lemma find_snapshot_find:
  "find_snapshot (make_snapshot_set records cs epoch) route =
   find (\<lambda>s. snapshot_key s = route) (ss_routes (make_snapshot_set records cs epoch))"
  unfolding find_snapshot_def by (rule lower_bound_find) (simp add: ss_routes_make)

section \<open>Diffs list exactly the changed fields\<close>

lemma foldl_add_if_changed:
  "foldl (\<lambda>entries ((field, b), (_, a)). add_if_changed field b a entries) acc ps =
   acc @ map (\<lambda>((field, b), (_, a)). \<lparr>de_field = field, de_before = b, de_after = a\<rparr>)
           (filter (\<lambda>((_, b), (_, a)). b \<noteq> a) ps)"
  by (induction ps arbitrary: acc) (auto simp: add_if_changed_def)

lemma diff_snapshots_eq:
  "diff_snapshots before after =
   map (\<lambda>((field, b), (_, a)). \<lparr>de_field = field, de_before = b, de_after = a\<rparr>)
     (filter (\<lambda>((_, b), (_, a)). b \<noteq> a) (zip (diff_fields before) (diff_fields after)))"
  by (simp add: diff_snapshots_def foldl_add_if_changed)

end
