(* ===== verification/RF_Wire.thy ===== *)
theory RF_Wire
  imports RF_Persistence RF_Snapshot
begin

text \<open>
  \<^bold>\<open>The wire protocol: frames.\<close> This theory models the first part of \<open>src/wire.cpp\<close>: the
  message identifiers, the frame around every message, and the two shared codecs of scopes and
  snapshots. The frame magic and the protocol version come from a header the build
  generates; they are the parameter \<open>wc\<close> of the definitions that use them.
\<close>

record wire_constants =
  kWireFrameMagic :: u32
  kWireProtocolVersion :: u16

section \<open>Message identifiers and frame states\<close>

datatype message_id =
    MI_Hello
  | MI_HelloResult
  | MI_RegisterPublisher
  | MI_RegisterPublisherResult
  | MI_PublishRoute
  | MI_PublishRouteResult
  | MI_WithdrawRoute
  | MI_WithdrawRouteResult
  | MI_RevalidateRoute
  | MI_RevalidateRouteResult
  | MI_RetireRoute
  | MI_RetireRouteResult
  | MI_RevokeRoute
  | MI_RevokeRouteResult
  | MI_QueryRoute
  | MI_QueryRouteResult
  | MI_SnapshotRequest
  | MI_SnapshotResponse
  | MI_BackendState
  | MI_FenceNotice
  | MI_Error
  | MI_ReconcileRequest
  | MI_ReconcileResult
  | MI_EpochRequest
  | MI_EpochResult
  | MI_StatisticsRequest
  | MI_StatisticsResult
  | MI_ApplyCompletion
  | MI_ApplyCompletionResult
  | MI_ExplainRoute
  | MI_ExplainRouteResult

fun message_id_raw :: "message_id \<Rightarrow> u16" where
  "message_id_raw MI_Hello = 1"
| "message_id_raw MI_HelloResult = 2"
| "message_id_raw MI_RegisterPublisher = 3"
| "message_id_raw MI_RegisterPublisherResult = 4"
| "message_id_raw MI_PublishRoute = 5"
| "message_id_raw MI_PublishRouteResult = 6"
| "message_id_raw MI_WithdrawRoute = 7"
| "message_id_raw MI_WithdrawRouteResult = 8"
| "message_id_raw MI_RevalidateRoute = 9"
| "message_id_raw MI_RevalidateRouteResult = 10"
| "message_id_raw MI_RetireRoute = 11"
| "message_id_raw MI_RetireRouteResult = 12"
| "message_id_raw MI_RevokeRoute = 13"
| "message_id_raw MI_RevokeRouteResult = 14"
| "message_id_raw MI_QueryRoute = 15"
| "message_id_raw MI_QueryRouteResult = 16"
| "message_id_raw MI_SnapshotRequest = 17"
| "message_id_raw MI_SnapshotResponse = 18"
| "message_id_raw MI_BackendState = 19"
| "message_id_raw MI_FenceNotice = 20"
| "message_id_raw MI_Error = 21"
| "message_id_raw MI_ReconcileRequest = 22"
| "message_id_raw MI_ReconcileResult = 23"
| "message_id_raw MI_EpochRequest = 24"
| "message_id_raw MI_EpochResult = 25"
| "message_id_raw MI_StatisticsRequest = 26"
| "message_id_raw MI_StatisticsResult = 27"
| "message_id_raw MI_ApplyCompletion = 28"
| "message_id_raw MI_ApplyCompletionResult = 29"
| "message_id_raw MI_ExplainRoute = 30"
| "message_id_raw MI_ExplainRouteResult = 31"

definition message_id_values :: "message_id list" where
  "message_id_values =
     [MI_Hello, MI_HelloResult, MI_RegisterPublisher, MI_RegisterPublisherResult,
      MI_PublishRoute, MI_PublishRouteResult, MI_WithdrawRoute, MI_WithdrawRouteResult,
      MI_RevalidateRoute, MI_RevalidateRouteResult, MI_RetireRoute, MI_RetireRouteResult,
      MI_RevokeRoute, MI_RevokeRouteResult, MI_QueryRoute, MI_QueryRouteResult,
      MI_SnapshotRequest, MI_SnapshotResponse, MI_BackendState, MI_FenceNotice,
      MI_Error, MI_ReconcileRequest, MI_ReconcileResult, MI_EpochRequest,
      MI_EpochResult, MI_StatisticsRequest, MI_StatisticsResult, MI_ApplyCompletion,
      MI_ApplyCompletionResult, MI_ExplainRoute, MI_ExplainRouteResult]"

fun message_id_to_string :: "message_id \<Rightarrow> string" where
  "message_id_to_string MI_Hello = ''HELLO''"
| "message_id_to_string MI_HelloResult = ''HELLO_RESULT''"
| "message_id_to_string MI_RegisterPublisher = ''REGISTER_PUBLISHER''"
| "message_id_to_string MI_RegisterPublisherResult = ''REGISTER_PUBLISHER_RESULT''"
| "message_id_to_string MI_PublishRoute = ''PUBLISH_ROUTE''"
| "message_id_to_string MI_PublishRouteResult = ''PUBLISH_ROUTE_RESULT''"
| "message_id_to_string MI_WithdrawRoute = ''WITHDRAW_ROUTE''"
| "message_id_to_string MI_WithdrawRouteResult = ''WITHDRAW_ROUTE_RESULT''"
| "message_id_to_string MI_RevalidateRoute = ''REVALIDATE_ROUTE''"
| "message_id_to_string MI_RevalidateRouteResult = ''REVALIDATE_ROUTE_RESULT''"
| "message_id_to_string MI_RetireRoute = ''RETIRE_ROUTE''"
| "message_id_to_string MI_RetireRouteResult = ''RETIRE_ROUTE_RESULT''"
| "message_id_to_string MI_RevokeRoute = ''REVOKE_ROUTE''"
| "message_id_to_string MI_RevokeRouteResult = ''REVOKE_ROUTE_RESULT''"
| "message_id_to_string MI_QueryRoute = ''QUERY_ROUTE''"
| "message_id_to_string MI_QueryRouteResult = ''QUERY_ROUTE_RESULT''"
| "message_id_to_string MI_SnapshotRequest = ''SNAPSHOT_REQUEST''"
| "message_id_to_string MI_SnapshotResponse = ''SNAPSHOT_RESPONSE''"
| "message_id_to_string MI_BackendState = ''BACKEND_STATE''"
| "message_id_to_string MI_FenceNotice = ''FENCE_NOTICE''"
| "message_id_to_string MI_Error = ''ERROR''"
| "message_id_to_string MI_ReconcileRequest = ''RECONCILE_REQUEST''"
| "message_id_to_string MI_ReconcileResult = ''RECONCILE_RESULT''"
| "message_id_to_string MI_EpochRequest = ''EPOCH_REQUEST''"
| "message_id_to_string MI_EpochResult = ''EPOCH_RESULT''"
| "message_id_to_string MI_StatisticsRequest = ''STATISTICS_REQUEST''"
| "message_id_to_string MI_StatisticsResult = ''STATISTICS_RESULT''"
| "message_id_to_string MI_ApplyCompletion = ''APPLY_COMPLETION''"
| "message_id_to_string MI_ApplyCompletionResult = ''APPLY_COMPLETION_RESULT''"
| "message_id_to_string MI_ExplainRoute = ''EXPLAIN_ROUTE''"
| "message_id_to_string MI_ExplainRouteResult = ''EXPLAIN_ROUTE_RESULT''"

definition is_message_id_value :: "u16 \<Rightarrow> bool" where
  "is_message_id_value raw \<longleftrightarrow>
     raw \<ge> message_id_raw MI_Hello \<and> raw \<le> message_id_raw MI_ExplainRouteResult"

datatype frame_status =
    FS_Complete
  | FS_Incomplete
  | FS_InvalidMagic
  | FS_InvalidVersion
  | FS_InvalidMessageId
  | FS_OversizedPayload
  | FS_TrailingBytes
  | FS_IntegrityFailure

fun frame_status_raw :: "frame_status \<Rightarrow> u8" where
  "frame_status_raw FS_Complete = 1"
| "frame_status_raw FS_Incomplete = 2"
| "frame_status_raw FS_InvalidMagic = 3"
| "frame_status_raw FS_InvalidVersion = 4"
| "frame_status_raw FS_InvalidMessageId = 5"
| "frame_status_raw FS_OversizedPayload = 6"
| "frame_status_raw FS_TrailingBytes = 7"
| "frame_status_raw FS_IntegrityFailure = 8"

definition frame_status_values :: "frame_status list" where
  "frame_status_values =
     [FS_Complete, FS_Incomplete, FS_InvalidMagic, FS_InvalidVersion,
      FS_InvalidMessageId, FS_OversizedPayload, FS_TrailingBytes, FS_IntegrityFailure]"

fun frame_status_to_string :: "frame_status \<Rightarrow> string" where
  "frame_status_to_string FS_Complete = ''COMPLETE''"
| "frame_status_to_string FS_Incomplete = ''INCOMPLETE''"
| "frame_status_to_string FS_InvalidMagic = ''INVALID_MAGIC''"
| "frame_status_to_string FS_InvalidVersion = ''INVALID_VERSION''"
| "frame_status_to_string FS_InvalidMessageId = ''INVALID_MESSAGE_ID''"
| "frame_status_to_string FS_OversizedPayload = ''OVERSIZED_PAYLOAD''"
| "frame_status_to_string FS_TrailingBytes = ''TRAILING_BYTES''"
| "frame_status_to_string FS_IntegrityFailure = ''INTEGRITY_FAILURE''"


definition is_complete :: "frame_status \<Rightarrow> bool" where
  "is_complete status \<longleftrightarrow> status = FS_Complete"

definition is_invalid :: "frame_status \<Rightarrow> bool" where
  "is_invalid status \<longleftrightarrow> status \<noteq> FS_Complete \<and> status \<noteq> FS_Incomplete"

interpretation message_id_enum: named_enum message_id_raw message_id_values message_id_to_string
proof unfold_locales
  show "e \<in> set message_id_values" for e by (cases e) (simp_all add: message_id_values_def)
qed (simp_all add: message_id_values_def)

text \<open>The cast of an accepted raw identifier.\<close>

definition message_id_of :: "u16 \<Rightarrow> message_id" where
  "message_id_of raw = (case enum_of_raw message_id_raw message_id_values raw of None \<Rightarrow> MI_Error | Some i \<Rightarrow> i)"

section \<open>Frames\<close>

definition kFrameHeaderBytes :: nat where "kFrameHeaderBytes = 16"

definition encode_frame :: "wire_constants \<Rightarrow> message_id \<Rightarrow> bytes \<Rightarrow> bytes" where
  "encode_frame wc i payload =
     (let header = w_u32 (kWireFrameMagic wc) @ w_u16 (kWireProtocolVersion wc) @ w_u16 (message_id_raw i) @
                   w_u32 (of_nat (length payload));
          crc = crc32c_update (crc32c_update crc32c_init header) payload
      in header @ w_u32 (crc32c_value crc) @ payload)"

record decoded_frame =
  df_id :: message_id
  df_wire_version :: u16
  df_payload :: bytes

text \<open>The second component is \<open>total\<close>, which the callers initialise to zero.\<close>

definition frame_header_status :: "wire_constants \<Rightarrow> limits \<Rightarrow> bytes \<Rightarrow> frame_status \<times> nat" where
  "frame_header_status wc limits buffer =
     (if length buffer < kFrameHeaderBytes then (FS_Incomplete, 0)
      else if read_le32 buffer \<noteq> kWireFrameMagic wc then (FS_InvalidMagic, 0)
      else if read_le16 (drop 4 buffer) \<noteq> kWireProtocolVersion wc then (FS_InvalidVersion, 0)
      else if \<not> is_message_id_value (read_le16 (drop 6 buffer)) then (FS_InvalidMessageId, 0)
      else
        let payload_length = read_le32 (drop 8 buffer)
        in if unat payload_length > max_frame_bytes limits then (FS_OversizedPayload, 0)
           else (FS_Complete, kFrameHeaderBytes + unat payload_length))"

text \<open>\<open>Inl\<close> is a status other than complete.\<close>

definition decode_frame :: "wire_constants \<Rightarrow> limits \<Rightarrow> bytes \<Rightarrow> frame_status + decoded_frame" where
  "decode_frame wc limits buffer =
     (case frame_header_status wc limits buffer of (header_status, frame_total) \<Rightarrow>
        if header_status \<noteq> FS_Complete then Inl header_status
        else if length buffer < frame_total then Inl FS_Incomplete
        else if length buffer > frame_total then Inl FS_TrailingBytes
        else
          let payload_length = read_le32 (drop 8 buffer);
              payload = take (unat payload_length) (drop kFrameHeaderBytes buffer);
              crc = crc32c_update (crc32c_update crc32c_init (take (kFrameHeaderBytes - 4) buffer)) payload
          in if crc32c_value crc \<noteq> read_le32 (drop 12 buffer) then Inl FS_IntegrityFailure
             else Inr \<lparr>df_id = message_id_of (read_le16 (drop 6 buffer)),
                       df_wire_version = read_le16 (drop 4 buffer), df_payload = payload\<rparr>)"

section \<open>Frames are strict\<close>

lemma message_id_value_iff: "is_message_id_value r \<longleftrightarrow> (\<exists>i. r = message_id_raw i)"
proof
  assume "is_message_id_value r"
  then have "1 \<le> unat r" "unat r \<le> 31"
    by (simp_all add: is_message_id_value_def word_le_nat_alt)
  then have "unat r \<in> set [1..<32]" by simp
  also have "[1..<32] = map (\<lambda>i. unat (message_id_raw i)) message_id_values" by code_simp
  finally show "\<exists>i. r = message_id_raw i" by (auto simp flip: word_unat_eq_iff)
next
  assume "\<exists>i. r = message_id_raw i"
  then obtain i where "r = message_id_raw i" ..
  then show "is_message_id_value r" by (cases i) (simp_all add: is_message_id_value_def word_le_nat_alt)
qed

lemma message_id_of_raw [simp]: "message_id_of (message_id_raw i) = i"
  by (simp add: message_id_of_def message_id_enum.of_raw_raw)

lemma length_w_u16 [simp]: "length (w_u16 v) = 2"
  by (simp add: w_u16_def)

lemma read_le16_write [simp]: "read_le16 (w_u16 v @ rest) = v"
  using u16_codec.read_write [of v rest] by (simp add: rd_u16_def)

lemma read_le16_split: "2 \<le> length data \<Longrightarrow> data = w_u16 (read_le16 data) @ drop 2 data"
  using u16_codec.read_data [of data "read_le16 data" "drop 2 data"] by (simp add: rd_u16_def)

definition frame_fits :: "limits \<Rightarrow> bytes \<Rightarrow> bool" where
  "frame_fits limits payload \<longleftrightarrow> length payload \<le> max_frame_bytes limits \<and> length payload < 2 ^ 32"

lemma length_encode_frame [simp]: "length (encode_frame wc i payload) = 16 + length payload"
  by (simp add: encode_frame_def Let_def)

text \<open>The fields of an encoded frame at the offsets the decoder uses, also inside a longer buffer.\<close>

lemma encode_frame_fields:
  fixes wc i rest
  assumes "length payload < 2 ^ 32"
  defines "f \<equiv> encode_frame wc i payload @ rest"
  shows "read_le32 f = kWireFrameMagic wc" and "read_le16 (drop 4 f) = kWireProtocolVersion wc"
    and "read_le16 (drop 6 f) = message_id_raw i" and "unat (read_le32 (drop 8 f)) = length payload"
    and "take (length payload) (drop 16 f) = payload"
    and "read_le32 (drop 12 f) = crc32c_value (crc32c_update (crc32c_update crc32c_init (take 12 f)) payload)"
  using assms by (simp_all add: encode_frame_def Let_def unat_of_nat)

lemma header_of_frame:
  "frame_fits limits payload \<Longrightarrow>
   frame_header_status wc limits (encode_frame wc i payload @ rest) = (FS_Complete, 16 + length payload)"
  using encode_frame_fields [of payload wc i rest]
  by (auto simp: frame_header_status_def frame_fits_def kFrameHeaderBytes_def message_id_value_iff Let_def)

lemma decode_frame_encode:
  assumes "frame_fits limits payload"
  shows "decode_frame wc limits (encode_frame wc i payload) =
    Inr \<lparr>df_id = i, df_wire_version = kWireProtocolVersion wc, df_payload = payload\<rparr>"
  using header_of_frame [OF assms, of wc i "[]"] encode_frame_fields [of payload wc i "[]"] assms
  by (simp add: decode_frame_def kFrameHeaderBytes_def frame_fits_def Let_def)

lemma wire_frame_split:
  assumes "16 \<le> length f"
  shows "f = w_u32 (read_le32 f) @ w_u16 (read_le16 (drop 4 f)) @ w_u16 (read_le16 (drop 6 f)) @
    w_u32 (read_le32 (drop 8 f)) @ w_u32 (read_le32 (drop 12 f)) @ drop 16 f"
proof -
  have "f = w_u32 (read_le32 f) @ drop 4 f" using assms by (simp add: read_le32_split)
  also have "drop 4 f = w_u16 (read_le16 (drop 4 f)) @ drop 6 f"
    using assms read_le16_split [of "drop 4 f"] by simp
  also have "drop 6 f = w_u16 (read_le16 (drop 6 f)) @ drop 8 f"
    using assms read_le16_split [of "drop 6 f"] by simp
  also have "drop 8 f = w_u32 (read_le32 (drop 8 f)) @ drop 12 f"
    using assms read_le32_split [of "drop 8 f"] by simp
  also have "drop 12 f = w_u32 (read_le32 (drop 12 f)) @ drop 16 f"
    using assms read_le32_split [of "drop 12 f"] by simp
  finally show ?thesis .
qed

lemma decode_frame_canonical:
  assumes "decode_frame wc limits buffer = Inr f"
  shows "frame_fits limits (df_payload f) \<and> df_wire_version f = kWireProtocolVersion wc \<and>
    buffer = encode_frame wc (df_id f) (df_payload f)"
proof -
  define n where "n = unat (read_le32 (drop 8 buffer))"
  obtain frame_total where header: "frame_header_status wc limits buffer = (FS_Complete, frame_total)"
    and exact: "length buffer = frame_total"
    and crc: "read_le32 (drop 12 buffer) =
      crc32c_value (crc32c_update (crc32c_update crc32c_init (take 12 buffer)) (take n (drop 16 buffer)))"
    and f: "f = \<lparr>df_id = message_id_of (read_le16 (drop 6 buffer)), df_wire_version = read_le16 (drop 4 buffer),
      df_payload = take n (drop 16 buffer)\<rparr>"
    using assms by (auto simp: decode_frame_def kFrameHeaderBytes_def n_def Let_def split: prod.splits if_splits)
  have magic: "read_le32 buffer = kWireFrameMagic wc" "read_le16 (drop 4 buffer) = kWireProtocolVersion wc"
    and len: "length buffer = 16 + n" and bound: "n \<le> max_frame_bytes limits"
    and known: "is_message_id_value (read_le16 (drop 6 buffer))"
    using header exact by (auto simp: frame_header_status_def kFrameHeaderBytes_def n_def Let_def split: if_splits)
  obtain i where i: "read_le16 (drop 6 buffer) = message_id_raw i" using known message_id_value_iff by blast
  have all: "take n (drop 16 buffer) = drop 16 buffer" using len by simp
  have "n < 2 ^ 32" using unsigned_less [of "read_le32 (drop 8 buffer)", where 'a = nat] by (simp add: n_def)
  moreover have "read_le32 (drop 8 buffer) = of_nat n" by (simp add: n_def)
  moreover have "take 12 buffer = w_u32 (kWireFrameMagic wc) @ w_u16 (kWireProtocolVersion wc) @
      w_u16 (message_id_raw i) @ w_u32 (of_nat n)"
    using arg_cong [OF wire_frame_split, of buffer "take 12"] len magic i calculation by simp
  ultimately show ?thesis
    using wire_frame_split [of buffer] len bound crc magic i
    by (simp add: f all frame_fits_def encode_frame_def Let_def)
qed

end
