(* ===== verification/RF_Runtime.thy ===== *)
theory RF_Runtime
  imports RF_Persistence RF_Snapshot RF_PathAuthority
begin

text \<open>
  \<^bold>\<open>The runtime state and its internal helpers.\<close> This theory models the data of
  \<open>include/routefabric/runtime.hpp\<close> and the \<open>Impl\<close> structure of \<open>src/runtime.cpp\<close>:
  the authoritative route map, its five secondary indexes, programming attempts,
  revocations, registrations and fences, and every helper that runs while the state lock is
  held. The path authority is a query function passed to the helpers that call it; the
  programming backend is a record of functions over a backend state, because the runtime
  calls it with the lock released.
\<close>

section \<open>Outcome translation\<close>

definition bounded :: "string \<Rightarrow> string" where
  "bounded text = (if length text > kMaxDiagnosticChars then take kMaxDiagnosticChars text else text)"

definition no_path_authority :: path_authority_generation where
  "no_path_authority = 1"

fun install_event :: "programming_outcome \<Rightarrow> route_event" where
  "install_event PO_Applied = EV_BackendApplied"
| "install_event PO_Idempotent = EV_BackendIdempotent"
| "install_event PO_NotSupported = EV_BackendNotSupported"
| "install_event PO_Rejected = EV_BackendRejected"
| "install_event PO_RetryableFailure = EV_BackendRetryableFailure"
| "install_event PO_PermanentFailure = EV_BackendPermanentFailure"
| "install_event PO_Ambiguous = EV_BackendAmbiguous"
| "install_event PO_BackendUnavailable = EV_BackendUnavailable"

fun withdraw_event :: "programming_outcome \<Rightarrow> route_event" where
  "withdraw_event PO_Applied = EV_WithdrawApplied"
| "withdraw_event PO_Idempotent = EV_WithdrawApplied"
| "withdraw_event PO_NotSupported = EV_WithdrawFailed"
| "withdraw_event PO_Rejected = EV_WithdrawFailed"
| "withdraw_event PO_RetryableFailure = EV_WithdrawFailed"
| "withdraw_event PO_PermanentFailure = EV_WithdrawFailed"
| "withdraw_event PO_Ambiguous = EV_WithdrawFailed"
| "withdraw_event PO_BackendUnavailable = EV_WithdrawFailed"

fun install_classification :: "programming_outcome \<Rightarrow> applied_classification" where
  "install_classification PO_Applied = AC_Applied"
| "install_classification PO_Idempotent = AC_IdempotentAlreadyApplied"
| "install_classification PO_NotSupported = AC_NotSupported"
| "install_classification PO_Rejected = AC_Rejected"
| "install_classification PO_RetryableFailure = AC_RetryableFailure"
| "install_classification PO_PermanentFailure = AC_PermanentFailure"
| "install_classification PO_Ambiguous = AC_Ambiguous"
| "install_classification PO_BackendUnavailable = AC_BackendUnavailable"

fun withdraw_classification :: "programming_outcome \<Rightarrow> applied_classification" where
  "withdraw_classification PO_Applied = AC_Withdrawn"
| "withdraw_classification PO_Idempotent = AC_Withdrawn"
| "withdraw_classification PO_Ambiguous = AC_Ambiguous"
| "withdraw_classification PO_NotSupported = AC_WithdrawFailed"
| "withdraw_classification PO_Rejected = AC_WithdrawFailed"
| "withdraw_classification PO_RetryableFailure = AC_WithdrawFailed"
| "withdraw_classification PO_PermanentFailure = AC_WithdrawFailed"
| "withdraw_classification PO_BackendUnavailable = AC_WithdrawFailed"

section \<open>Publisher scopes and registrations\<close>

record publisher_scope =
  sp_fabric :: fabric_id
  sp_namespaces :: "routing_namespace list"
  sp_destinations :: "destination list"
  sp_route_classes :: "route_class list"
  sp_wildcard_namespaces :: bool
  sp_wildcard_destinations :: bool
  sp_wildcard_route_classes :: bool
  sp_administrative_override :: bool

definition covers :: "publisher_scope \<Rightarrow> route_key \<Rightarrow> bool" where
  "covers scope key \<longleftrightarrow>
     (if \<not> route_key_is_valid key \<or> \<not> token_is_valid (sp_fabric scope) \<or> sp_fabric scope \<noteq> rk_fabric key
        then False
      else if \<not> sp_wildcard_namespaces scope \<and> rk_routing_namespace key \<notin> set (sp_namespaces scope)
        then False
      else if \<not> sp_wildcard_route_classes scope \<and> rk_route_class key \<notin> set (sp_route_classes scope)
        then False
      else if \<not> sp_wildcard_destinations scope \<and>
              \<not> list_ex (\<lambda>d. scope_covers d (rk_destination key)) (sp_destinations scope)
        then False
      else True)"

definition render_scope :: "publisher_scope \<Rightarrow> string" where
  "render_scope scope =
     (let count = (\<lambda>wild n. if wild then ''*'' else to_decimal (of_nat n))
      in ''fabric='' @ sp_fabric scope @
         '' namespaces='' @ count (sp_wildcard_namespaces scope) (length (sp_namespaces scope)) @
         '' destinations='' @ count (sp_wildcard_destinations scope) (length (sp_destinations scope)) @
         '' classes='' @ count (sp_wildcard_route_classes scope) (length (sp_route_classes scope)) @
         '' administrative-override='' @ (if sp_administrative_override scope then ''yes'' else ''no''))"

datatype fencing_reason =
    FR_SessionClosed
  | FR_WorkerDeath
  | FR_Administrative
  | FR_EpochInvalidated

fun fencing_reason_to_string :: "fencing_reason \<Rightarrow> string" where
  "fencing_reason_to_string FR_SessionClosed = ''session-closed''"
| "fencing_reason_to_string FR_WorkerDeath = ''worker-death''"
| "fencing_reason_to_string FR_Administrative = ''administrative''"
| "fencing_reason_to_string FR_EpochInvalidated = ''epoch-invalidated''"

record publisher_registration =
  rg_publisher :: publisher_id
  rg_worker_boot :: worker_boot_id
  rg_epoch :: coordinator_epoch
  rg_scope :: publisher_scope
  rg_fenced :: bool
  rg_fence_reason :: fencing_reason

section \<open>Requests and results\<close>

record runtime_config =
  cf_fabric :: fabric_id
  cf_limits :: limits
  cf_durability :: durability
  cf_store_path :: string
  cf_id_seed :: u64
  cf_history_limit :: nat

record publish_request =
  pq_publisher :: publisher_id
  pq_worker_boot :: worker_boot_id
  pq_attempt :: mutation_attempt_id
  pq_key :: route_key
  pq_binding :: route_binding
  pq_policy_generation :: policy_generation
  pq_expected_generation :: route_generation
  pq_lineage :: route_id
  pq_reason :: string

record publish_result =
  px_route :: route_id
  px_generation :: route_generation
  px_authority_generation :: route_authority_generation
  px_lifecycle :: route_lifecycle
  px_applied :: applied_classification
  px_currentness :: route_currentness
  px_idempotent :: bool
  px_replaced :: bool

record withdraw_request =
  wq_publisher :: publisher_id
  wq_worker_boot :: worker_boot_id
  wq_attempt :: mutation_attempt_id
  wq_route :: route_id
  wq_expected_generation :: route_generation
  wq_reason :: string

record withdraw_outcome =
  wx_route :: route_id
  wx_generation :: route_generation
  wx_lifecycle :: route_lifecycle
  wx_applied :: applied_classification
  wx_already_withdrawn :: bool
  wx_withdrawal_in_flight :: bool

text \<open>\<open>RevalidateRequest\<close>, \<open>RetireRequest\<close> and \<open>RevokeRequest\<close> have the same members.\<close>

record lifecycle_request =
  lq_publisher :: publisher_id
  lq_worker_boot :: worker_boot_id
  lq_attempt :: mutation_attempt_id
  lq_route :: route_id
  lq_reason :: string

record programming_completion =
  pc_attempt :: programming_attempt_id
  pc_outcome :: programming_outcome
  pc_detail :: string

datatype completion_disposition =
    CD_Applied
  | CD_Stale
  | CD_UnknownAttempt
  | CD_RouteMissing
  | CD_LifecycleRejected

fun completion_disposition_to_string :: "completion_disposition \<Rightarrow> string" where
  "completion_disposition_to_string CD_Applied = ''applied''"
| "completion_disposition_to_string CD_Stale = ''stale''"
| "completion_disposition_to_string CD_UnknownAttempt = ''unknown-attempt''"
| "completion_disposition_to_string CD_RouteMissing = ''route-missing''"
| "completion_disposition_to_string CD_LifecycleRejected = ''lifecycle-rejected''"

record route_counters =
  ct_publications :: u64
  ct_replacements :: u64
  ct_idempotent_publications :: u64
  ct_withdrawals :: u64
  ct_revalidations :: u64
  ct_retirements :: u64
  ct_revocations :: u64
  ct_supersessions :: u64
  ct_programming_dispatches :: u64
  ct_programming_deferred :: u64
  ct_programming_applied :: u64
  ct_programming_ambiguous :: u64
  ct_programming_lifecycle_rejected :: u64
  ct_stale_completions_rejected :: u64
  ct_stale_authority_rejections :: u64
  ct_scope_violations :: u64
  ct_path_authority_rejections :: u64
  ct_conflicts :: u64
  ct_reconciliations :: u64

definition counters_zero :: route_counters where
  "counters_zero =
     \<lparr>ct_publications = 0, ct_replacements = 0, ct_idempotent_publications = 0, ct_withdrawals = 0,
      ct_revalidations = 0, ct_retirements = 0, ct_revocations = 0, ct_supersessions = 0,
      ct_programming_dispatches = 0, ct_programming_deferred = 0, ct_programming_applied = 0,
      ct_programming_ambiguous = 0, ct_programming_lifecycle_rejected = 0,
      ct_stale_completions_rejected = 0, ct_stale_authority_rejections = 0, ct_scope_violations = 0,
      ct_path_authority_rejections = 0, ct_conflicts = 0, ct_reconciliations = 0\<rparr>"

section \<open>The state\<close>

record runtime =
  rt_config :: runtime_config
  rt_backend :: "backend_id option"
  rt_path_authority :: bool
  rt_epoch :: coordinator_epoch
  rt_policy_generation :: policy_generation
  rt_opened :: bool
  rt_routes :: "(route_id, route_record) omap"
  rt_key_index :: "(route_key, route_id) omap"
  rt_path_index :: "(path_id, route_id list) omap"
  rt_publisher_index :: "(publisher_id, route_id list) omap"
  rt_lifecycle_index :: "(route_lifecycle, route_id list) omap"
  rt_namespace_counts :: "(routing_namespace, nat) omap"
  rt_attempts :: "(programming_attempt_id, programming_attempt_record) omap"
  rt_revocations :: "(route_id, revocation_record) omap"
  rt_registrations :: "(publisher_id, publisher_registration) omap"
  rt_administrative_fences :: "(publisher_id, fencing_reason) omap"
  rt_fenced_boots :: "worker_boot_id list"
  rt_store :: "route_store option"
  rt_ids :: seeded_id_source
  rt_counters :: route_counters
  rt_outstanding :: nat

text \<open>
  The constructor. \<open>None\<close> for the backend and \<open>False\<close> for the path authority stand for
  null pointers; the seed argument is the result of \<open>system_seed\<close>, used when the
  configured seed is zero.
\<close>

definition make_runtime :: "runtime_config \<Rightarrow> backend_id option \<Rightarrow> bool \<Rightarrow> u64 \<Rightarrow> runtime" where
  "make_runtime config backend authority system_seed =
     \<lparr>rt_config = config, rt_backend = backend, rt_path_authority = authority, rt_epoch = 1,
      rt_policy_generation = 1, rt_opened = False, rt_routes = [], rt_key_index = [], rt_path_index = [],
      rt_publisher_index = [], rt_lifecycle_index = [], rt_namespace_counts = [], rt_attempts = [],
      rt_revocations = [], rt_registrations = [], rt_administrative_fences = [], rt_fenced_boots = [],
      rt_store = None,
      rt_ids = seeded_id_source (if cf_id_seed config \<noteq> 0 then cf_id_seed config else system_seed),
      rt_counters = counters_zero, rt_outstanding = 0\<rparr>"

text \<open>\<open>backend->id()\<close>; the runtime only opens with a backend.\<close>

definition backend_id_of :: "runtime \<Rightarrow> backend_id" where
  "backend_id_of rt = (case rt_backend rt of None \<Rightarrow> [] | Some i \<Rightarrow> i)"

abbreviation rt_limits :: "runtime \<Rightarrow> limits" where
  "rt_limits rt \<equiv> cf_limits (rt_config rt)"

text \<open>\<open>++counters.field\<close>.\<close>

definition bump :: "((u64 \<Rightarrow> u64) \<Rightarrow> route_counters \<Rightarrow> route_counters) \<Rightarrow> runtime \<Rightarrow> runtime" where
  "bump field rt = rt\<lparr>rt_counters := field (\<lambda>n. n + 1) (rt_counters rt)\<rparr>"

section \<open>Indexes\<close>

definition erase_key :: "route_record \<Rightarrow> (route_key, route_id) omap \<Rightarrow> (route_key, route_id) omap" where
  "erase_key r m = (if om_find m (rr_key r) = Some (rr_id r) then om_erase (rr_key r) m else m)"

definition erase_path :: "route_record \<Rightarrow> (path_id, route_id list) omap \<Rightarrow> (path_id, route_id list) omap" where
  "erase_path r m =
     (if rb_kind (rr_binding r) = BK_AuthorizedPath \<and> fixed_is_valid (rb_path (rr_binding r))
      then mi_erase (rb_path (rr_binding r)) (rr_id r) m else m)"

definition erase_namespace :: "route_record \<Rightarrow> (routing_namespace, nat) omap \<Rightarrow> (routing_namespace, nat) omap" where
  "erase_namespace r m =
     (let ns = rk_routing_namespace (rr_key r)
      in case om_find m ns of
           None \<Rightarrow> m
         | Some n \<Rightarrow>
             let n = (if n > 0 then n - 1 else n)
             in if n = 0 then om_erase ns m else om_set ns n m)"

definition index_erase :: "route_record \<Rightarrow> runtime \<Rightarrow> runtime" where
  "index_erase r rt =
     rt\<lparr>rt_key_index := erase_key r (rt_key_index rt),
        rt_path_index := erase_path r (rt_path_index rt),
        rt_publisher_index := mi_erase (pv_publisher (rr_provenance r)) (rr_id r) (rt_publisher_index rt),
        rt_lifecycle_index := mi_erase (rr_lifecycle r) (rr_id r) (rt_lifecycle_index rt),
        rt_namespace_counts := erase_namespace r (rt_namespace_counts rt)\<rparr>"

definition insert_key :: "route_record \<Rightarrow> (route_key, route_id) omap \<Rightarrow> (route_key, route_id) omap" where
  "insert_key r m = (if rr_lifecycle r \<noteq> LC_Superseded then om_set (rr_key r) (rr_id r) m else m)"

definition insert_path :: "route_record \<Rightarrow> (path_id, route_id list) omap \<Rightarrow> (path_id, route_id list) omap" where
  "insert_path r m =
     (if rb_kind (rr_binding r) = BK_AuthorizedPath \<and> fixed_is_valid (rb_path (rr_binding r))
      then mi_insert (rb_path (rr_binding r)) (rr_id r) m else m)"

definition insert_namespace :: "route_record \<Rightarrow> (routing_namespace, nat) omap \<Rightarrow> (routing_namespace, nat) omap" where
  "insert_namespace r m =
     (let ns = rk_routing_namespace (rr_key r)
      in om_set ns ((case om_find m ns of None \<Rightarrow> 0 | Some n \<Rightarrow> n) + 1) m)"

definition index_insert :: "route_record \<Rightarrow> runtime \<Rightarrow> runtime" where
  "index_insert r rt =
     rt\<lparr>rt_key_index := insert_key r (rt_key_index rt),
        rt_path_index := insert_path r (rt_path_index rt),
        rt_publisher_index := mi_insert (pv_publisher (rr_provenance r)) (rr_id r) (rt_publisher_index rt),
        rt_lifecycle_index := mi_insert (rr_lifecycle r) (rr_id r) (rt_lifecycle_index rt),
        rt_namespace_counts := insert_namespace r (rt_namespace_counts rt)\<rparr>"

definition commit :: "route_record \<Rightarrow> runtime \<Rightarrow> runtime" where
  "commit r rt =
     (let rt = (case om_find (rt_routes rt) (rr_id r) of None \<Rightarrow> rt | Some existing \<Rightarrow> index_erase existing rt);
          rt = index_insert r rt
      in rt\<lparr>rt_routes := om_set (rr_id r) r (rt_routes rt)\<rparr>)"

section \<open>Persistence\<close>

text \<open>\<open>std::find_if\<close> on a key, then assignment through the iterator or \<open>push_back\<close>.\<close>

fun put_by :: "('a \<Rightarrow> 'k) \<Rightarrow> 'a \<Rightarrow> 'a list \<Rightarrow> 'a list" where
  "put_by key x [] = [x]"
| "put_by key x (y # ys) = (if key y = key x then x # ys else y # put_by key x ys)"

definition collect_state :: "runtime \<Rightarrow> persisted_state" where
  "collect_state rt =
     \<lparr>pst_epoch = rt_epoch rt, pst_policy_generation = rt_policy_generation rt,
      pst_routes = om_values (rt_routes rt), pst_revocations = om_values (rt_revocations rt),
      pst_attempts = om_values (rt_attempts rt)\<rparr>"

definition persist ::
  "route_record list \<Rightarrow> revocation_record list \<Rightarrow> programming_attempt_record list \<Rightarrow> runtime \<Rightarrow>
   status \<times> runtime" where
  "persist upserts revoked attempt_updates rt =
     (case rt_store rt of
        None \<Rightarrow> (ok_status, rt)
      | Some store \<Rightarrow>
          if cf_durability (rt_config rt) = DU_Snapshot then
            let state = collect_state rt;
                state = state\<lparr>pst_routes := fold (put_by rr_id) upserts (pst_routes state),
                              pst_revocations := fold (put_by rv_route) revoked (pst_revocations state),
                              pst_attempts := fold (put_by at_attempt) attempt_updates (pst_attempts state)\<rparr>;
                (status, store) = SaveSnapshot store state
            in (status, rt\<lparr>rt_store := Some store\<rparr>)
          else
            let entry = \<lparr>je_epoch = rt_epoch rt, je_policy_generation = rt_policy_generation rt,
                         je_upserts = upserts, je_revocations = revoked, je_attempts = attempt_updates\<rparr>;
                (status, store) = AppendJournal store entry
            in (status, rt\<lparr>rt_store := Some store\<rparr>))"

definition compact_store :: "runtime \<Rightarrow> status \<times> runtime" where
  "compact_store rt =
     (case rt_store rt of
        None \<Rightarrow> (ok_status, rt)
      | Some store \<Rightarrow>
          let (status, store) = SaveSnapshot store (collect_state rt)
          in (status, rt\<lparr>rt_store := Some store\<rparr>))"

section \<open>Authority and currentness\<close>

definition authorize :: "runtime \<Rightarrow> publisher_id \<Rightarrow> worker_boot_id \<Rightarrow> publisher_registration expected" where
  "authorize rt publisher worker_boot =
     (if om_contains (rt_administrative_fences rt) publisher then Inl SC_Fenced
      else case om_find (rt_registrations rt) publisher of
             None \<Rightarrow> Inl SC_NotRegistered
           | Some registration \<Rightarrow>
               if rg_worker_boot registration \<noteq> worker_boot then Inl SC_StaleWorkerBoot
               else if rg_epoch registration \<noteq> rt_epoch rt then Inl SC_StaleEpoch
               else if worker_boot \<in> set (rt_fenced_boots rt) then Inl SC_Fenced
               else Inr registration)"

type_synonym path_query = "path_id \<Rightarrow> path_authority_result"

definition currentness_of :: "path_query \<Rightarrow> runtime \<Rightarrow> route_record \<Rightarrow> route_currentness" where
  "currentness_of query rt r =
     (if om_contains (rt_revocations rt) (rr_id r) then CU_Revoked
      else if rr_lifecycle r = LC_Retired then CU_Retired
      else if rr_lifecycle r = LC_Superseded then CU_Superseded
      else if rr_lifecycle r = LC_Failed then CU_Failed
      else if rr_lifecycle r = LC_Withdrawn then CU_Withdrawn
      else if pv_epoch (rr_provenance r) \<noteq> rt_epoch rt then CU_StaleEpoch
      else case om_find (rt_registrations rt) (pv_publisher (rr_provenance r)) of
             None \<Rightarrow> CU_StalePublisher
           | Some registration \<Rightarrow>
               if rg_worker_boot registration \<noteq> pv_worker_boot (rr_provenance r) then CU_StaleWorkerBoot
               else if pv_worker_boot (rr_provenance r) \<in> set (rt_fenced_boots rt) then CU_FencedPublisher
               else if rb_kind (rr_binding r) = BK_AuthorizedPath \<and>
                       \<not> usable (query (rb_path (rr_binding r))) then CU_PathAuthorityRejected
               else if rb_kind (rr_binding r) = BK_AuthorizedPath \<and>
                       pr_generation (query (rb_path (rr_binding r))) \<noteq>
                         rb_path_authority_generation (rr_binding r) then CU_StalePathAuthority
               else if rr_lifecycle r = LC_RevalidationRequired then CU_RevalidationRequired
               else if ob_classification (rr_observation r) = OC_Diverged then CU_StaleBackendObservation
               else if ob_classification (rr_observation r) = OC_Missing then CU_DesiredAppliedMismatch
               else if rr_lifecycle r = LC_Installed then CU_Current
               else CU_NotInstalled)"

section \<open>Record helpers\<close>

definition push_history :: "runtime \<Rightarrow> route_record \<Rightarrow> route_event \<Rightarrow> route_generation \<Rightarrow> route_record" where
  "push_history rt r event prior =
     (let path_bound = (rb_kind (rr_binding r) = BK_AuthorizedPath);
          entry = \<lparr>le_generation = rr_generation r, le_prior_generation = prior, le_event = event,
                   le_lifecycle = rr_lifecycle r, le_binding_kind = rb_kind (rr_binding r),
                   le_path = (if path_bound then rb_path (rr_binding r) else 0),
                   le_path_authority_generation =
                     (if path_bound then rb_path_authority_generation (rr_binding r) else 0),
                   le_publisher = pv_publisher (rr_provenance r), le_epoch = pv_epoch (rr_provenance r)\<rparr>;
          history = rr_history r @ [entry];
          limit = cf_history_limit (rt_config rt)
      in r\<lparr>rr_history := (if length history > limit then drop (length history - limit) history else history)\<rparr>)"

definition advance_generation :: "route_record \<Rightarrow> route_generation expected" where
  "advance_generation r =
     (case counter_next (rr_generation r) of Inl _ \<Rightarrow> Inl SC_StaleGeneration | Inr n \<Rightarrow> Inr n)"

definition advance_authority :: "route_record \<Rightarrow> route_authority_generation expected" where
  "advance_authority r =
     (case counter_next (rr_authority_generation r) of Inl _ \<Rightarrow> Inl SC_StaleGeneration | Inr n \<Rightarrow> Inr n)"

definition advance_programming :: "route_record \<Rightarrow> programming_generation expected" where
  "advance_programming r =
     (case counter_next (rr_programming_generation r) of Inl _ \<Rightarrow> Inl SC_StaleGeneration | Inr n \<Rightarrow> Inr n)"

section \<open>Programming attempts\<close>

definition record_attempt :: "programming_attempt_record \<Rightarrow> runtime \<Rightarrow> runtime" where
  "record_attempt attempt rt =
     (let rt = rt\<lparr>rt_attempts := om_set (at_attempt attempt) attempt (rt_attempts rt)\<rparr>
      in if \<not> at_resolved attempt then rt\<lparr>rt_outstanding := rt_outstanding rt + 1\<rparr> else rt)"

definition resolve_attempt :: "programming_attempt_record \<Rightarrow> runtime \<Rightarrow> runtime" where
  "resolve_attempt attempt rt =
     (let rt = (case om_find (rt_attempts rt) (at_attempt attempt) of
                  None \<Rightarrow> rt
                | Some existing \<Rightarrow>
                    if \<not> at_resolved existing \<and> rt_outstanding rt > 0
                    then rt\<lparr>rt_outstanding := rt_outstanding rt - 1\<rparr> else rt)
      in rt\<lparr>rt_attempts := om_set (at_attempt attempt) attempt (rt_attempts rt)\<rparr>)"

text \<open>
  \<open>generate_id<ProgrammingAttemptId>(ids)\<close>. The loop returns for every state of the
  source that a runtime can reach (\<open>generate_id_returns\<close>), so the \<open>None\<close> branch is dead.
\<close>

definition draw_attempt_id :: "runtime \<Rightarrow> programming_attempt_id \<times> runtime" where
  "draw_attempt_id rt =
     (case generate_id (rt_ids rt) of
        None \<Rightarrow> (0, rt)
      | Some (i, source) \<Rightarrow> (i, rt\<lparr>rt_ids := source\<rparr>))"

text \<open>The test in \<open>apply_completion_locked\<close> that an attempt no longer describes its route.\<close>

definition completion_stale :: "runtime \<Rightarrow> programming_attempt_record \<Rightarrow> route_record \<Rightarrow> bool" where
  "completion_stale rt attempt current \<longleftrightarrow>
     at_programming_generation attempt \<noteq> rr_programming_generation current \<or>
     at_desired_generation attempt \<noteq> rr_generation current \<or>
     at_epoch attempt \<noteq> rt_epoch rt \<or>
     rr_lifecycle current = LC_Retired \<or>
     rr_lifecycle current = LC_Superseded \<or>
     om_contains (rt_revocations rt) (rr_id current)"

text \<open>The record an accepted outcome produces.\<close>

definition completed_record ::
  "runtime \<Rightarrow> programming_attempt_record \<Rightarrow> programming_result \<Rightarrow> route_event \<Rightarrow> route_lifecycle \<Rightarrow>
   route_record \<Rightarrow> route_record" where
  "completed_record rt attempt result event lifecycle current =
     (let withdrawing = (at_operation attempt = OP_Withdraw);
          updated = current\<lparr>rr_lifecycle := lifecycle,
            rr_applied := \<lparr>ap_classification = (if withdrawing then withdraw_classification (ps_outcome result)
                                               else install_classification (ps_outcome result)),
              ap_attempt = ps_attempt result,
              ap_programming_generation = at_programming_generation attempt,
              ap_programmed_generation = at_desired_generation attempt,
              ap_programmed_authority_generation = rr_authority_generation current,
              ap_backend = (if token_is_valid (ps_backend result) then ps_backend result else backend_id_of rt),
              ap_detail = bounded (ps_detail result)\<rparr>\<rparr>
      in push_history rt updated event 0)"

definition apply_completion_locked :: "programming_result \<Rightarrow> runtime \<Rightarrow> completion_disposition \<times> runtime" where
  "apply_completion_locked result rt =
     (case om_find (rt_attempts rt) (ps_attempt result) of
        None \<Rightarrow> (CD_UnknownAttempt, rt)
      | Some attempt \<Rightarrow>
          if at_resolved attempt then (CD_Stale, bump ct_stale_completions_rejected_update rt)
          else case om_find (rt_routes rt) (at_route attempt) of
                 None \<Rightarrow> (CD_RouteMissing, rt)
               | Some current \<Rightarrow>
                   let resolved = attempt\<lparr>at_resolved := True\<rparr>
                   in if completion_stale rt attempt current then
                        (case persist [] [] [resolved] rt of
                           (Inl _, rt) \<Rightarrow> (CD_LifecycleRejected, rt)
                         | (Inr _, rt) \<Rightarrow>
                             (CD_Stale, bump ct_stale_completions_rejected_update (resolve_attempt resolved rt)))
                      else
                        let withdrawing = (at_operation attempt = OP_Withdraw);
                            event = (if withdrawing then withdraw_event (ps_outcome result)
                                     else install_event (ps_outcome result))
                        in case next_lifecycle (rr_lifecycle current) event of
                             None \<Rightarrow>
                               (case persist [] [] [resolved] rt of
                                  (Inl _, rt) \<Rightarrow> (CD_LifecycleRejected, rt)
                                | (Inr _, rt) \<Rightarrow>
                                    (CD_LifecycleRejected,
                                     bump ct_programming_lifecycle_rejected_update (resolve_attempt resolved rt)))
                           | Some lifecycle \<Rightarrow>
                               let updated = completed_record rt attempt result event lifecycle current
                               in case persist [updated] [] [resolved] rt of
                                    (Inl _, rt) \<Rightarrow> (CD_LifecycleRejected, rt)
                                  | (Inr _, rt) \<Rightarrow>
                                      let rt = resolve_attempt resolved (commit updated rt);
                                          rt = (if withdrawing then
                                                  (if rr_lifecycle updated = LC_Withdrawn
                                                   then bump ct_withdrawals_update rt else rt)
                                                else
                                                  let rt = bump ct_programming_applied_update rt
                                                  in if install_classification (ps_outcome result) = AC_Ambiguous
                                                     then bump ct_programming_ambiguous_update rt else rt)
                                      in (CD_Applied, rt))"

section \<open>Results\<close>

definition make_programming_request ::
  "runtime \<Rightarrow> route_record \<Rightarrow> programming_attempt_record \<Rightarrow> bool \<Rightarrow> route_programming_request" where
  "make_programming_request rt r attempt previously_installed =
     \<lparr>rq_operation = at_operation attempt, rq_attempt = at_attempt attempt,
      rq_programming_generation = at_programming_generation attempt, rq_route = rr_id r, rq_key = rr_key r,
      rq_binding = rr_binding r, rq_desired_generation = rr_generation r,
      rq_authority_generation = rr_authority_generation r, rq_epoch = rt_epoch rt,
      rq_publisher = pv_publisher (rr_provenance r), rq_worker_boot = pv_worker_boot (rr_provenance r),
      rq_previously_installed = previously_installed\<rparr>"

definition publish_result_of :: "path_query \<Rightarrow> runtime \<Rightarrow> route_record \<Rightarrow> publish_result" where
  "publish_result_of query rt r =
     \<lparr>px_route = rr_id r, px_generation = rr_generation r,
      px_authority_generation = rr_authority_generation r, px_lifecycle = rr_lifecycle r,
      px_applied = ap_classification (rr_applied r), px_currentness = currentness_of query rt r,
      px_idempotent = False, px_replaced = False\<rparr>"

definition withdraw_outcome_of :: "route_record \<Rightarrow> withdraw_outcome" where
  "withdraw_outcome_of r =
     \<lparr>wx_route = rr_id r, wx_generation = rr_generation r, wx_lifecycle = rr_lifecycle r,
      wx_applied = ap_classification (rr_applied r), wx_already_withdrawn = False,
      wx_withdrawal_in_flight = False\<rparr>"

text \<open>The programming backend the runtime calls with the lock released.\<close>

record 'b backend_ops =
  bo_install :: "'b \<Rightarrow> route_programming_request \<Rightarrow> programming_dispatch \<times> 'b"
  bo_replace :: "'b \<Rightarrow> route_programming_request \<Rightarrow> programming_dispatch \<times> 'b"
  bo_withdraw :: "'b \<Rightarrow> route_programming_request \<Rightarrow> programming_dispatch \<times> 'b"
  bo_query :: "'b \<Rightarrow> route_key \<Rightarrow> backend_query_result"

text \<open>The synthetic backend behind the interface.\<close>

definition synthetic_ops :: "synthetic_backend backend_ops" where
  "synthetic_ops =
     \<lparr>bo_install = Dispatch, bo_replace = Dispatch, bo_withdraw = Dispatch, bo_query = synthetic_query\<rparr>"

definition dispatch_to ::
  "'b backend_ops \<Rightarrow> 'b \<Rightarrow> route_programming_request \<Rightarrow> programming_dispatch \<times> 'b" where
  "dispatch_to ops b request =
     (case rq_operation request of
        OP_Install \<Rightarrow> bo_install ops b request
      | OP_Replace \<Rightarrow> bo_replace ops b request
      | OP_Withdraw \<Rightarrow> bo_withdraw ops b request)"

definition validate_common :: "publisher_id \<Rightarrow> worker_boot_id \<Rightarrow> mutation_attempt_id \<Rightarrow> status" where
  "validate_common publisher worker_boot attempt =
     (if \<not> token_is_valid publisher then Inl SC_InvalidArgument
      else if \<not> fixed_is_valid worker_boot then Inl SC_InvalidArgument
      else if \<not> fixed_is_valid attempt then Inl SC_InvalidArgument
      else ok_status)"

definition check_scope :: "publisher_registration \<Rightarrow> route_key \<Rightarrow> runtime \<Rightarrow> status \<times> runtime" where
  "check_scope registration key rt =
     (if \<not> covers (rg_scope registration) key then (Inl SC_ScopeViolation, bump ct_scope_violations_update rt)
      else (ok_status, rt))"

end
