(* ===== verification/RF_Operations.thy ===== *)
theory RF_Operations
  imports RF_Runtime
begin

text \<open>
  \<^bold>\<open>The operations of the runtime.\<close> This theory models the public methods of
  \<open>src/runtime.cpp\<close>. A method that programs the backend holds the state lock twice: a
  first section validates, persists and commits the desired state and records a programming
  attempt; the backend is called with the lock released; a second section applies the
  outcome. Each section is one function here (\<open>..._begin\<close>, \<open>apply_completion_locked\<close>),
  so that other operations can run between them, and the whole method is their composition.
  The flag \<open>violated\<close> is \<open>CallGuard::violated()\<close>: a nested call into the runtime was
  observed since the operation started.
\<close>

section \<open>What a locked section answers\<close>

record pending =
  pn_route :: route_id
  pn_attempt :: programming_attempt_record
  pn_previously_installed :: bool
  pn_replaced :: bool

datatype 'a locked_answer =
    Refused status_code
  | Answered 'a
  | Dispatching pending

section \<open>Dispatch\<close>

text \<open>
  The end of the first section of \<open>publish_one\<close>, \<open>WithdrawRoute\<close> and
  \<open>RevalidateRoute\<close>: validate the record, respect the bound on outstanding attempts,
  persist the intent, then commit.
\<close>

definition commit_dispatch :: "route_record \<Rightarrow> programming_attempt_record \<Rightarrow> runtime \<Rightarrow> status \<times> runtime" where
  "commit_dispatch updated attempt rt =
     (case validate_route_record updated (rt_limits rt) of
        Inl e \<Rightarrow> (Inl e, rt)
      | Inr _ \<Rightarrow>
          if rt_outstanding rt \<ge> max_outstanding_programming (rt_limits rt) then (Inl SC_LimitExceeded, rt)
          else case persist [updated] [] [attempt] rt of
                 (Inl e, rt) \<Rightarrow> (Inl e, rt)
               | (Inr _, rt) \<Rightarrow>
                   (ok_status, bump ct_programming_dispatches_update (record_attempt attempt (commit updated rt))))"

definition make_attempt ::
  "runtime \<Rightarrow> programming_attempt_id \<Rightarrow> route_record \<Rightarrow> programming_operation \<Rightarrow> programming_attempt_record" where
  "make_attempt rt i updated operation =
     \<lparr>at_attempt = i, at_route = rr_id updated, at_desired_generation = rr_generation updated,
      at_programming_generation = rr_programming_generation updated, at_operation = operation,
      at_epoch = rt_epoch rt, at_resolved = False\<rparr>"

text \<open>\<open>run_dispatch\<close>: re-read the route, call the backend, apply or defer the outcome.\<close>

definition run_dispatch ::
  "'b backend_ops \<Rightarrow> pending \<Rightarrow> 'b \<Rightarrow> runtime \<Rightarrow> completion_disposition \<times> 'b \<times> runtime" where
  "run_dispatch ops p b rt =
     (case om_find (rt_routes rt) (pn_route p) of
        None \<Rightarrow> (CD_RouteMissing, b, rt)
      | Some snapshot \<Rightarrow>
          let (d, b) = dispatch_to ops b
                         (make_programming_request rt snapshot (pn_attempt p) (pn_previously_installed p))
          in if pd_deferred d then (CD_Applied, b, bump ct_programming_deferred_update rt)
             else let (cd, rt) = apply_completion_locked (pd_immediate d) rt in (cd, b, rt))"

section \<open>Publication\<close>

definition publish_validate :: "publish_request \<Rightarrow> status" where
  "publish_validate request =
     (case validate_common (pq_publisher request) (pq_worker_boot request) (pq_attempt request) of
        Inl e \<Rightarrow> Inl e
      | Inr _ \<Rightarrow>
          if \<not> route_key_is_valid (pq_key request) then Inl SC_InvalidArgument
          else if \<not> route_binding_is_valid (pq_binding request) then Inl SC_InvalidArgument
          else if \<not> counter_is_valid (pq_policy_generation request) then Inl SC_InvalidArgument
          else if length (pq_reason request) > kMaxDiagnosticChars then Inl SC_LimitExceeded
          else ok_status)"

text \<open>The record that currently owns the key; \<open>created\<close> is its absence.\<close>

definition publish_lookup :: "runtime \<Rightarrow> route_key \<Rightarrow> route_record option" where
  "publish_lookup rt key = do {
     i \<leftarrow> om_find (rt_key_index rt) key;
     r \<leftarrow> om_find (rt_routes rt) i;
     if fixed_is_valid (rr_id r) then Some r else None }"

definition superseded_record ::
  "runtime \<Rightarrow> publish_request \<Rightarrow> route_generation \<Rightarrow> route_authority_generation \<Rightarrow> route_record \<Rightarrow> route_record" where
  "superseded_record rt request generation authority r =
     push_history rt
       (r\<lparr>rr_generation := generation, rr_authority_generation := authority, rr_lifecycle := LC_Superseded,
          rr_supersession := (rr_supersession r)
            \<lparr>su_kind := SK_LineageTakeover, su_prior_generation := rr_generation r,
             su_successor_lineage := pq_lineage request, su_reason := bounded (pq_reason request),
             su_epoch := rt_epoch rt\<rparr>\<rparr>)
       EV_Supersede (rr_generation r)"

text \<open>Taking a retired or superseded key over by an explicitly minted lineage.\<close>

definition publish_supersede ::
  "publish_request \<Rightarrow> publisher_registration \<Rightarrow> route_record \<Rightarrow> runtime \<Rightarrow> status \<times> runtime" where
  "publish_supersede request registration r rt =
     (if \<not> sp_administrative_override (rg_scope registration) \<or> \<not> fixed_is_valid (pq_lineage request)
        then (Inl SC_Retired, rt)
      else if pq_lineage request = rr_id r then (Inl SC_Conflict, rt)
      else case advance_generation r of
             Inl e \<Rightarrow> (Inl e, rt)
           | Inr generation \<Rightarrow>
               (case advance_authority r of
                  Inl e \<Rightarrow> (Inl e, rt)
                | Inr authority \<Rightarrow>
                    let superseded = superseded_record rt request generation authority r
                    in case persist [superseded] [] [] rt of
                         (Inl e, rt) \<Rightarrow> (Inl e, rt)
                       | (Inr _, rt) \<Rightarrow> (ok_status, bump ct_supersessions_update (commit superseded rt))))"

text \<open>
  The checks on an existing record: exclusive ownership, the optimistic generation check and
  the exact replay. \<open>None\<close> lets the publication go on.
\<close>

definition publish_admit ::
  "path_query \<Rightarrow> publish_request \<Rightarrow> publisher_registration \<Rightarrow> route_record \<Rightarrow> runtime \<Rightarrow>
   publish_result locked_answer option \<times> runtime" where
  "publish_admit query request registration r rt =
     (if pv_publisher (rr_provenance r) \<noteq> pq_publisher request \<and>
         \<not> sp_administrative_override (rg_scope registration)
        then (Some (Refused SC_Conflict), bump ct_conflicts_update rt)
      else if counter_is_valid (pq_expected_generation request) \<and>
              pq_expected_generation request \<noteq> rr_generation r
        then (Some (Refused SC_StaleGeneration), rt)
      else if rr_binding r = pq_binding request \<and>
              pv_publisher (rr_provenance r) = pq_publisher request \<and>
              pv_worker_boot (rr_provenance r) = pq_worker_boot request \<and>
              (rr_lifecycle r = LC_Installed \<or> rr_lifecycle r = LC_Installing)
        then (Some (Answered ((publish_result_of query rt r)\<lparr>px_idempotent := True\<rparr>)),
              bump ct_idempotent_publications_update rt)
      else (None, rt))"

definition provenance_default :: provenance where
  "provenance_default =
     \<lparr>pv_publisher = [], pv_worker_boot = 0, pv_epoch = 0, pv_source_class = PS_Publisher,
      pv_source_generation = 0, pv_mutation_attempt = 0, pv_policy_generation = 0,
      pv_path_authority_generation = 0\<rparr>"

text \<open>A new record, or the limit that forbids it.\<close>

definition publish_create :: "publish_request \<Rightarrow> runtime \<Rightarrow> route_record expected" where
  "publish_create request rt =
     (if length (rt_routes rt) \<ge> max_routes (rt_limits rt) then Inl SC_LimitExceeded
      else if \<not> om_contains (rt_namespace_counts rt) (rk_routing_namespace (pq_key request)) \<and>
              length (rt_namespace_counts rt) \<ge> max_routing_namespaces (rt_limits rt)
        then Inl SC_LimitExceeded
      else
        let (validation, lifecycle) = apply_event LC_Declared EV_BeginValidation;
            (acceptance, lifecycle) = apply_event lifecycle EV_ValidationAccepted
        in if validation \<noteq> ok_status \<or> acceptance \<noteq> ok_status then Inl SC_Internal
           else Inr
             \<lparr>rr_id = (if fixed_is_valid (pq_lineage request) then pq_lineage request
                       else derive_route_id (pq_key request)),
              rr_key = pq_key request, rr_generation = 1, rr_authority_generation = 1,
              rr_invalidation_watermark = 1, rr_programming_generation = 1, rr_lifecycle = lifecycle,
              rr_binding = pq_binding request, rr_applied = applied_default,
              rr_observation = observation_default,
              rr_provenance = provenance_default\<lparr>pv_path_authority_generation := no_path_authority\<rparr>,
              rr_supersession = supersession_default, rr_retirement = retirement_default, rr_history = []\<rparr>)"

text \<open>The existing record with its generations advanced.\<close>

definition publish_advance :: "route_record \<Rightarrow> route_record expected" where
  "publish_advance r =
     (case advance_generation r of
        Inl e \<Rightarrow> Inl e
      | Inr generation \<Rightarrow>
          (case advance_authority r of
             Inl e \<Rightarrow> Inl e
           | Inr authority \<Rightarrow> Inr (r\<lparr>rr_generation := generation, rr_authority_generation := authority\<rparr>)))"

definition path_check :: "path_query \<Rightarrow> bool \<Rightarrow> route_binding \<Rightarrow> runtime \<Rightarrow> status \<times> runtime" where
  "path_check query violated binding rt =
     (if rb_kind binding \<noteq> BK_AuthorizedPath then (ok_status, rt)
      else
        let authority = query (rb_path binding)
        in if violated then (Inl SC_ReentrancyViolation, rt)
           else if pr_generation authority \<noteq> rb_path_authority_generation binding
             then (Inl SC_PathAuthorityStale, bump ct_path_authority_rejections_update rt)
           else if \<not> usable authority
             then (Inl SC_PathAuthorityRejected, bump ct_path_authority_rejections_update rt)
           else (ok_status, rt))"

definition binding_path_authority :: "route_binding \<Rightarrow> path_authority_generation" where
  "binding_path_authority binding =
     (if rb_kind binding = BK_AuthorizedPath then rb_path_authority_generation binding else no_path_authority)"

text \<open>
  The record a publication commits. \<open>prior\<close> is the generation the publication replaces, and
  \<open>None\<close> when the route is created.
\<close>

definition published_record ::
  "runtime \<Rightarrow> publish_request \<Rightarrow> route_generation option \<Rightarrow> route_lifecycle \<Rightarrow> programming_generation \<Rightarrow>
   programming_attempt_id \<Rightarrow> route_record \<Rightarrow> route_record" where
  "published_record rt request prior lifecycle programming attempt r =
     push_history rt
       (r\<lparr>rr_binding := pq_binding request, rr_lifecycle := lifecycle,
          rr_provenance :=
            \<lparr>pv_publisher = pq_publisher request, pv_worker_boot = pq_worker_boot request,
             pv_epoch = rt_epoch rt,
             pv_source_class = (if prior = None \<and> fixed_is_valid (pq_lineage request)
                                then PS_LineageMint else PS_Publisher),
             pv_source_generation = rr_generation r, pv_mutation_attempt = pq_attempt request,
             pv_policy_generation = pq_policy_generation request,
             pv_path_authority_generation = binding_path_authority (pq_binding request)\<rparr>,
          rr_programming_generation := programming,
          rr_applied := applied_default
            \<lparr>ap_classification := AC_Pending, ap_attempt := attempt,
             ap_programming_generation := programming, ap_programmed_generation := rr_generation r,
             ap_programmed_authority_generation := rr_authority_generation r,
             ap_backend := backend_id_of rt\<rparr>,
          rr_observation := observation_default\<lparr>ob_backend := backend_id_of rt\<rparr>,
          rr_supersession :=
            (case prior of
               None \<Rightarrow> supersession_default
             | Some g \<Rightarrow> supersession_default
                 \<lparr>su_kind := SK_Replacement, su_prior_generation := g,
                  su_successor_generation := rr_generation r, su_reason := bounded (pq_reason request),
                  su_epoch := rt_epoch rt\<rparr>)\<rparr>)
       EV_BeginInstall (case prior of None \<Rightarrow> 0 | Some g \<Rightarrow> g)"

text \<open>From the base record to the committed publication.\<close>

definition publish_commit ::
  "publish_request \<Rightarrow> route_generation option \<Rightarrow> bool \<Rightarrow> route_record \<Rightarrow> runtime \<Rightarrow>
   publish_result locked_answer \<times> runtime" where
  "publish_commit request prior previously_installed r rt =
     (case apply_event (rr_lifecycle r) EV_BeginInstall of
        (Inl e, _) \<Rightarrow> (Refused e, rt)
      | (Inr _, lifecycle) \<Rightarrow>
          (case advance_programming r of
             Inl e \<Rightarrow> (Refused e, rt)
           | Inr programming \<Rightarrow>
               let (i, rt) = draw_attempt_id rt;
                   updated = published_record rt request prior lifecycle programming i r;
                   replaced = (prior \<noteq> None);
                   attempt = make_attempt rt i updated (if replaced then OP_Replace else OP_Install)
               in case commit_dispatch updated attempt rt of
                    (Inl e, rt) \<Rightarrow> (Refused e, rt)
                  | (Inr _, rt) \<Rightarrow>
                      (Dispatching \<lparr>pn_route = rr_id updated, pn_attempt = attempt,
                                    pn_previously_installed = previously_installed, pn_replaced = replaced\<rparr>,
                       bump (if replaced then ct_replacements_update else ct_publications_update) rt)))"

text \<open>Creating the record: the branch \<open>created\<close> from the limit checks on.\<close>

definition publish_new ::
  "path_query \<Rightarrow> bool \<Rightarrow> publish_request \<Rightarrow> runtime \<Rightarrow> publish_result locked_answer \<times> runtime" where
  "publish_new query violated request rt =
     (case publish_create request rt of
        Inl e \<Rightarrow> (Refused e, rt)
      | Inr r \<Rightarrow>
          (case path_check query violated (pq_binding request) rt of
             (Inl e, rt) \<Rightarrow> (Refused e, rt)
           | (Inr _, rt) \<Rightarrow> publish_commit request None False r rt))"

text \<open>Replacing the binding of an existing record.\<close>

definition publish_replace ::
  "path_query \<Rightarrow> bool \<Rightarrow> publish_request \<Rightarrow> route_record \<Rightarrow> runtime \<Rightarrow> publish_result locked_answer \<times> runtime" where
  "publish_replace query violated request r rt =
     (case publish_advance r of
        Inl e \<Rightarrow> (Refused e, rt)
      | Inr advanced \<Rightarrow>
          (case path_check query violated (pq_binding request) rt of
             (Inl e, rt) \<Rightarrow> (Refused e, rt)
           | (Inr _, rt) \<Rightarrow>
               publish_commit request (Some (rr_generation r)) (reports_applied (rr_applied r)) advanced rt))"

text \<open>The first locked section of \<open>publish_one\<close>, after its argument checks.\<close>

definition publish_begin ::
  "path_query \<Rightarrow> bool \<Rightarrow> publish_request \<Rightarrow> runtime \<Rightarrow> publish_result locked_answer \<times> runtime" where
  "publish_begin query violated request rt =
     (case publish_validate request of
        Inl e \<Rightarrow> (Refused e, rt)
      | Inr _ \<Rightarrow>
          if \<not> rt_opened rt then (Refused SC_NotOpen, rt)
          else case authorize rt (pq_publisher request) (pq_worker_boot request) of
                 Inl e \<Rightarrow> (Refused e, bump ct_stale_authority_rejections_update rt)
               | Inr registration \<Rightarrow>
                   (case check_scope registration (pq_key request) rt of
                      (Inl e, rt) \<Rightarrow> (Refused e, rt)
                    | (Inr _, rt) \<Rightarrow>
                        (case publish_lookup rt (pq_key request) of
                           None \<Rightarrow> publish_new query violated request rt
                         | Some r \<Rightarrow>
                             if om_contains (rt_revocations rt) (rr_id r) then (Refused SC_Revoked, rt)
                             else if blocks_republication r then
                               (case publish_supersede request registration r rt of
                                  (Inl e, rt) \<Rightarrow> (Refused e, rt)
                                | (Inr _, rt) \<Rightarrow> publish_new query violated request rt)
                             else
                               (case publish_admit query request registration r rt of
                                  (Some answer, rt) \<Rightarrow> (answer, rt)
                                | (None, rt) \<Rightarrow> publish_replace query violated request r rt))))"

text \<open>The answer read back after the dispatch.\<close>

definition publish_finish ::
  "path_query \<Rightarrow> pending \<Rightarrow> completion_disposition \<Rightarrow> runtime \<Rightarrow> publish_result expected" where
  "publish_finish query p disposition rt =
     (if disposition = CD_RouteMissing then Inl SC_Internal
      else case om_find (rt_routes rt) (pn_route p) of
             None \<Rightarrow> Inl SC_Internal
           | Some r \<Rightarrow> Inr ((publish_result_of query rt r)\<lparr>px_replaced := pn_replaced p\<rparr>))"

definition publish_one ::
  "'b backend_ops \<Rightarrow> path_query \<Rightarrow> bool \<Rightarrow> publish_request \<Rightarrow> 'b \<Rightarrow> runtime \<Rightarrow>
   publish_result expected \<times> 'b \<times> runtime" where
  "publish_one ops query violated request b rt =
     (case publish_begin query violated request rt of
        (Refused e, rt) \<Rightarrow> (Inl e, b, rt)
      | (Answered x, rt) \<Rightarrow> (Inr x, b, rt)
      | (Dispatching p, rt) \<Rightarrow>
          let (cd, b, rt) = run_dispatch ops p b rt
          in (publish_finish query p cd rt, b, rt))"

fun publish_each ::
  "'b backend_ops \<Rightarrow> path_query \<Rightarrow> bool \<Rightarrow> publish_request list \<Rightarrow> 'b \<Rightarrow> runtime \<Rightarrow>
   publish_result expected list \<times> 'b \<times> runtime" where
  "publish_each ops query violated [] b rt = ([], b, rt)"
| "publish_each ops query violated (request # requests) b rt =
     (let (x, b, rt) = publish_one ops query violated request b rt;
          (xs, b, rt) = publish_each ops query violated requests b rt
      in (x # xs, b, rt))"

definition PublishBatch ::
  "'b backend_ops \<Rightarrow> path_query \<Rightarrow> bool \<Rightarrow> publish_request list \<Rightarrow> 'b \<Rightarrow> runtime \<Rightarrow>
   publish_result expected list expected \<times> 'b \<times> runtime" where
  "PublishBatch ops query violated requests b rt =
     (if length requests > max_batch_mutations (rt_limits rt) then (Inl SC_LimitExceeded, b, rt)
      else let (xs, b, rt) = publish_each ops query violated requests b rt in (Inr xs, b, rt))"

section \<open>Withdrawal, revalidation, retirement, revocation\<close>

definition prepare_lifecycle_mutation ::
  "route_id \<Rightarrow> publisher_id \<Rightarrow> worker_boot_id \<Rightarrow> runtime \<Rightarrow>
   (publisher_registration \<times> route_record) expected \<times> runtime" where
  "prepare_lifecycle_mutation route publisher worker_boot rt =
     (case om_find (rt_routes rt) route of
        None \<Rightarrow> (Inl SC_NotFound, rt)
      | Some r \<Rightarrow>
          (case authorize rt publisher worker_boot of
             Inl e \<Rightarrow> (Inl e, bump ct_stale_authority_rejections_update rt)
           | Inr registration \<Rightarrow>
               (case check_scope registration (rr_key r) rt of
                  (Inl e, rt) \<Rightarrow> (Inl e, rt)
                | (Inr _, rt) \<Rightarrow>
                    if pv_publisher (rr_provenance r) \<noteq> publisher \<and>
                       \<not> sp_administrative_override (rg_scope registration)
                      then (Inl SC_Conflict, bump ct_conflicts_update rt)
                    else if om_contains (rt_revocations rt) (rr_id r) then (Inl SC_Revoked, rt)
                    else if rr_lifecycle r = LC_Retired then (Inl SC_Retired, rt)
                    else if rr_lifecycle r = LC_Superseded then (Inl SC_Retired, rt)
                    else (Inr (registration, r), rt))))"

text \<open>The argument checks the lifecycle requests share.\<close>

definition validate_lifecycle_request ::
  "publisher_id \<Rightarrow> worker_boot_id \<Rightarrow> mutation_attempt_id \<Rightarrow> route_id \<Rightarrow> string \<Rightarrow> status" where
  "validate_lifecycle_request publisher worker_boot attempt route reason =
     (case validate_common publisher worker_boot attempt of
        Inl e \<Rightarrow> Inl e
      | Inr _ \<Rightarrow>
          if \<not> fixed_is_valid route then Inl SC_InvalidArgument
          else if length reason > kMaxDiagnosticChars then Inl SC_LimitExceeded
          else ok_status)"

text \<open>The pending applied state and the cleared observation of a dispatched record.\<close>

definition pending_applied ::
  "runtime \<Rightarrow> programming_attempt_id \<Rightarrow> string \<Rightarrow> route_record \<Rightarrow> route_record" where
  "pending_applied rt i reason r =
     r\<lparr>rr_applied :=
         \<lparr>ap_classification = AC_Pending, ap_attempt = i,
          ap_programming_generation = rr_programming_generation r,
          ap_programmed_generation = rr_generation r,
          ap_programmed_authority_generation = rr_authority_generation r,
          ap_backend = backend_id_of rt, ap_detail = bounded reason\<rparr>,
       rr_observation := observation_default\<lparr>ob_backend := backend_id_of rt\<rparr>\<rparr>"

text \<open>From the advanced record to the committed withdrawal.\<close>

definition withdraw_commit ::
  "string \<Rightarrow> route_record \<Rightarrow> route_record \<Rightarrow> runtime \<Rightarrow> withdraw_outcome locked_answer \<times> runtime" where
  "withdraw_commit reason r advanced rt =
     (case apply_event (rr_lifecycle advanced) EV_BeginWithdraw of
        (Inl e, _) \<Rightarrow> (Refused e, rt)
      | (Inr _, lifecycle) \<Rightarrow>
          (case advance_programming r of
             Inl e \<Rightarrow> (Refused e, rt)
           | Inr programming \<Rightarrow>
               let (i, rt) = draw_attempt_id rt;
                   updated = push_history rt
                     (pending_applied rt i reason
                       (advanced\<lparr>rr_lifecycle := lifecycle, rr_programming_generation := programming\<rparr>))
                     EV_BeginWithdraw (rr_generation r);
                   attempt = make_attempt rt i updated OP_Withdraw
               in case commit_dispatch updated attempt rt of
                    (Inl e, rt) \<Rightarrow> (Refused e, rt)
                  | (Inr _, rt) \<Rightarrow>
                      (Dispatching \<lparr>pn_route = rr_id updated, pn_attempt = attempt,
                                    pn_previously_installed = reports_applied (rr_applied advanced),
                                    pn_replaced = False\<rparr>, rt)))"

definition withdraw_begin :: "withdraw_request \<Rightarrow> runtime \<Rightarrow> withdraw_outcome locked_answer \<times> runtime" where
  "withdraw_begin request rt =
     (case validate_lifecycle_request (wq_publisher request) (wq_worker_boot request) (wq_attempt request)
             (wq_route request) (wq_reason request) of
        Inl e \<Rightarrow> (Refused e, rt)
      | Inr _ \<Rightarrow>
          if \<not> rt_opened rt then (Refused SC_NotOpen, rt)
          else case prepare_lifecycle_mutation (wq_route request) (wq_publisher request)
                      (wq_worker_boot request) rt of
                 (Inl e, rt) \<Rightarrow> (Refused e, rt)
               | (Inr (registration, r), rt) \<Rightarrow>
                   if counter_is_valid (wq_expected_generation request) \<and>
                      wq_expected_generation request \<noteq> rr_generation r
                     then (Refused SC_StaleGeneration, rt)
                   else if rr_lifecycle r = LC_Withdrawn
                     then (Answered ((withdraw_outcome_of r)\<lparr>wx_already_withdrawn := True\<rparr>), rt)
                   else if rr_lifecycle r = LC_Withdrawing
                     then (Answered ((withdraw_outcome_of r)\<lparr>wx_withdrawal_in_flight := True\<rparr>), rt)
                   else case publish_advance r of
                          Inl e \<Rightarrow> (Refused e, rt)
                        | Inr advanced \<Rightarrow> withdraw_commit (wq_reason request) r advanced rt)"

text \<open>From the advanced record to the committed revalidation.\<close>

definition revalidate_commit ::
  "lifecycle_request \<Rightarrow> route_record \<Rightarrow> route_record \<Rightarrow> runtime \<Rightarrow> withdraw_outcome locked_answer \<times> runtime" where
  "revalidate_commit request r advanced rt =
     (case apply_event (rr_lifecycle advanced) EV_BeginInstall of
        (Inl e, _) \<Rightarrow> (Refused e, rt)
      | (Inr _, lifecycle) \<Rightarrow>
          (case advance_programming r of
             Inl e \<Rightarrow> (Refused e, rt)
           | Inr programming \<Rightarrow>
               let (i, rt) = draw_attempt_id rt;
                   previously_installed = reports_applied (rr_applied advanced);
                   updated = push_history rt
                     (pending_applied rt i (lq_reason request)
                       (advanced\<lparr>rr_lifecycle := lifecycle,
                          rr_provenance :=
                            \<lparr>pv_publisher = lq_publisher request, pv_worker_boot = lq_worker_boot request,
                             pv_epoch = rt_epoch rt, pv_source_class = PS_Publisher,
                             pv_source_generation = rr_generation advanced,
                             pv_mutation_attempt = lq_attempt request,
                             pv_policy_generation = rb_policy_generation (rr_binding advanced),
                             pv_path_authority_generation = binding_path_authority (rr_binding advanced)\<rparr>,
                          rr_programming_generation := programming\<rparr>))
                     EV_BeginInstall (rr_generation r);
                   attempt = make_attempt rt i updated (if previously_installed then OP_Replace else OP_Install)
               in case commit_dispatch updated attempt rt of
                    (Inl e, rt) \<Rightarrow> (Refused e, rt)
                  | (Inr _, rt) \<Rightarrow>
                      (Dispatching \<lparr>pn_route = rr_id updated, pn_attempt = attempt,
                                    pn_previously_installed = previously_installed, pn_replaced = False\<rparr>,
                       bump ct_revalidations_update rt)))"

definition revalidate_begin ::
  "path_query \<Rightarrow> bool \<Rightarrow> lifecycle_request \<Rightarrow> runtime \<Rightarrow> withdraw_outcome locked_answer \<times> runtime" where
  "revalidate_begin query violated request rt =
     (case validate_lifecycle_request (lq_publisher request) (lq_worker_boot request) (lq_attempt request)
             (lq_route request) (lq_reason request) of
        Inl e \<Rightarrow> (Refused e, rt)
      | Inr _ \<Rightarrow>
          if \<not> rt_opened rt then (Refused SC_NotOpen, rt)
          else case prepare_lifecycle_mutation (lq_route request) (lq_publisher request)
                      (lq_worker_boot request) rt of
                 (Inl e, rt) \<Rightarrow> (Refused e, rt)
               | (Inr (registration, r), rt) \<Rightarrow>
                   if rr_lifecycle r = LC_Withdrawn then (Refused SC_LifecycleViolation, rt)
                   else case path_check query violated (rr_binding r) rt of
                          (Inl e, rt) \<Rightarrow> (Refused e, rt)
                        | (Inr _, rt) \<Rightarrow>
                            (case publish_advance r of
                               Inl e \<Rightarrow> (Refused e, rt)
                             | Inr advanced \<Rightarrow> revalidate_commit request r advanced rt))"

text \<open>The second half of \<open>WithdrawRoute\<close> and \<open>RevalidateRoute\<close>.\<close>

definition lifecycle_finish ::
  "pending \<Rightarrow> completion_disposition \<Rightarrow> runtime \<Rightarrow> withdraw_outcome expected" where
  "lifecycle_finish p disposition rt =
     (if disposition = CD_RouteMissing then Inl SC_Internal
      else case om_find (rt_routes rt) (pn_route p) of
             None \<Rightarrow> Inl SC_Internal
           | Some r \<Rightarrow> Inr (withdraw_outcome_of r))"

definition finish_section ::
  "'b backend_ops \<Rightarrow> withdraw_outcome locked_answer \<times> runtime \<Rightarrow> 'b \<Rightarrow> withdraw_outcome expected \<times> 'b \<times> runtime" where
  "finish_section ops answer b =
     (case answer of
        (Refused e, rt) \<Rightarrow> (Inl e, b, rt)
      | (Answered x, rt) \<Rightarrow> (Inr x, b, rt)
      | (Dispatching p, rt) \<Rightarrow>
          let (cd, b, rt) = run_dispatch ops p b rt
          in (lifecycle_finish p cd rt, b, rt))"

definition WithdrawRoute ::
  "'b backend_ops \<Rightarrow> withdraw_request \<Rightarrow> 'b \<Rightarrow> runtime \<Rightarrow> withdraw_outcome expected \<times> 'b \<times> runtime" where
  "WithdrawRoute ops request b rt = finish_section ops (withdraw_begin request rt) b"

definition RevalidateRoute ::
  "'b backend_ops \<Rightarrow> path_query \<Rightarrow> bool \<Rightarrow> lifecycle_request \<Rightarrow> 'b \<Rightarrow> runtime \<Rightarrow>
   withdraw_outcome expected \<times> 'b \<times> runtime" where
  "RevalidateRoute ops query violated request b rt =
     finish_section ops (revalidate_begin query violated request rt) b"

text \<open>The retired record of \<open>RetireRoute\<close> and \<open>RevokeRoute\<close>.\<close>

definition retired_record ::
  "runtime \<Rightarrow> lifecycle_request \<Rightarrow> retirement_cause \<Rightarrow> route_event \<Rightarrow> route_lifecycle \<Rightarrow> route_generation \<Rightarrow>
   route_record \<Rightarrow> route_record" where
  "retired_record rt request cause event lifecycle prior r =
     push_history rt
       (r\<lparr>rr_lifecycle := lifecycle,
          rr_retirement := \<lparr>re_cause = cause, re_reason = bounded (lq_reason request),
                            re_epoch = rt_epoch rt, re_generation = rr_generation r,
                            re_attempt = lq_attempt request\<rparr>\<rparr>)
       event prior"

definition RetireRoute :: "lifecycle_request \<Rightarrow> runtime \<Rightarrow> withdraw_outcome expected \<times> runtime" where
  "RetireRoute request rt =
     (case validate_lifecycle_request (lq_publisher request) (lq_worker_boot request) (lq_attempt request)
             (lq_route request) (lq_reason request) of
        Inl e \<Rightarrow> (Inl e, rt)
      | Inr _ \<Rightarrow>
          if \<not> rt_opened rt then (Inl SC_NotOpen, rt)
          else case prepare_lifecycle_mutation (lq_route request) (lq_publisher request)
                      (lq_worker_boot request) rt of
                 (Inl e, rt) \<Rightarrow> (Inl e, rt)
               | (Inr (registration, r), rt) \<Rightarrow>
                   if rr_lifecycle r = LC_Retired then (Inr (withdraw_outcome_of r), rt)
                   else case publish_advance r of
                          Inl e \<Rightarrow> (Inl e, rt)
                        | Inr advanced \<Rightarrow>
                            (case apply_event (rr_lifecycle advanced) EV_Retire of
                               (Inl e, _) \<Rightarrow> (Inl e, rt)
                             | (Inr _, lifecycle) \<Rightarrow>
                                 let updated = retired_record rt request RT_Administrative EV_Retire lifecycle
                                                 (rr_generation r) advanced
                                 in case validate_route_record updated (rt_limits rt) of
                                      Inl e \<Rightarrow> (Inl e, rt)
                                    | Inr _ \<Rightarrow>
                                        (case persist [updated] [] [] rt of
                                           (Inl e, rt) \<Rightarrow> (Inl e, rt)
                                         | (Inr _, rt) \<Rightarrow>
                                             (Inr (withdraw_outcome_of updated),
                                              bump ct_retirements_update (commit updated rt)))))"

definition RevokeRoute :: "lifecycle_request \<Rightarrow> runtime \<Rightarrow> withdraw_outcome expected \<times> runtime" where
  "RevokeRoute request rt =
     (case validate_lifecycle_request (lq_publisher request) (lq_worker_boot request) (lq_attempt request)
             (lq_route request) (lq_reason request) of
        Inl e \<Rightarrow> (Inl e, rt)
      | Inr _ \<Rightarrow>
          if \<not> rt_opened rt then (Inl SC_NotOpen, rt)
          else case om_find (rt_routes rt) (lq_route request) of
                 None \<Rightarrow> (Inl SC_NotFound, rt)
               | Some r \<Rightarrow>
                   (case authorize rt (lq_publisher request) (lq_worker_boot request) of
                      Inl e \<Rightarrow> (Inl e, bump ct_stale_authority_rejections_update rt)
                    | Inr registration \<Rightarrow>
                        if \<not> sp_administrative_override (rg_scope registration)
                          then (Inl SC_Unauthorized, bump ct_conflicts_update rt)
                        else if om_contains (rt_revocations rt) (rr_id r)
                          then (Inr (withdraw_outcome_of r), rt)
                        else case publish_advance r of
                               Inl e \<Rightarrow> (Inl e, rt)
                             | Inr advanced \<Rightarrow>
                                 (case apply_event (rr_lifecycle advanced) EV_Revoke of
                                    (Inl e, _) \<Rightarrow> (Inl e, rt)
                                  | (Inr _, lifecycle) \<Rightarrow>
                                      let updated = retired_record rt request RT_Revoked EV_Revoke lifecycle
                                                      (rr_generation r) advanced;
                                          revocation = \<lparr>rv_route = rr_id updated, rv_key = rr_key updated,
                                                        rv_generation = rr_generation updated,
                                                        rv_epoch = rt_epoch rt, rv_attempt = lq_attempt request,
                                                        rv_reason = bounded (lq_reason request)\<rparr>
                                      in case validate_route_record updated (rt_limits rt) of
                                           Inl e \<Rightarrow> (Inl e, rt)
                                         | Inr _ \<Rightarrow>
                                             (case persist [updated] [revocation] [] rt of
                                                (Inl e, rt) \<Rightarrow> (Inl e, rt)
                                              | (Inr _, rt) \<Rightarrow>
                                                  let rt = commit updated rt;
                                                      rt = rt\<lparr>rt_revocations :=
                                                        om_set (rv_route revocation) revocation (rt_revocations rt)\<rparr>
                                                  in (Inr (withdraw_outcome_of updated),
                                                      bump ct_revocations_update rt)))))"

definition ApplyProgrammingCompletion ::
  "programming_completion \<Rightarrow> runtime \<Rightarrow> completion_disposition expected \<times> runtime" where
  "ApplyProgrammingCompletion completion rt =
     (if \<not> fixed_is_valid (pc_attempt completion) then (Inl SC_InvalidArgument, rt)
      else if length (pc_detail completion) > kMaxDiagnosticChars then (Inl SC_LimitExceeded, rt)
      else if \<not> rt_opened rt then (Inl SC_NotOpen, rt)
      else
        let (cd, rt) = apply_completion_locked
              \<lparr>ps_outcome = pc_outcome completion, ps_attempt = pc_attempt completion,
               ps_backend = backend_id_of rt, ps_detail = pc_detail completion\<rparr> rt
        in (Inr cd, rt))"

end
