(* ===== verification/RF_Control.thy ===== *)
theory RF_Control
  imports RF_Operations
begin

text \<open>
  \<^bold>\<open>Opening, authority, invalidation and reconciliation.\<close> This theory models the methods
  of \<open>src/runtime.cpp\<close> that run in one locked section or that only observe the backend:
  \<open>Open\<close> with its conservative recovery, publisher registration and fencing, the
  coordinator epoch, path invalidation and reconciliation.
\<close>

section \<open>Opening\<close>

text \<open>
  The store is built on the files found at \<open>config.store_path\<close>; the argument \<open>files\<close>
  carries their contents and the results the file system will answer with.
\<close>

definition bind_store :: "runtime_config \<Rightarrow> route_store \<Rightarrow> route_store" where
  "bind_store config files =
     (route_store (cf_limits config) (cf_durability config))
       \<lparr>rs_snapshot := rs_snapshot files, rs_journal := rs_journal files, rs_io := rs_io files\<rparr>"

definition load_attempt :: "programming_attempt_record \<Rightarrow> runtime \<Rightarrow> runtime" where
  "load_attempt attempt rt =
     (let rt = rt\<lparr>rt_attempts := om_set (at_attempt attempt) attempt (rt_attempts rt)\<rparr>
      in if \<not> at_resolved attempt then rt\<lparr>rt_outstanding := rt_outstanding rt + 1\<rparr> else rt)"

definition load_state :: "persisted_state \<Rightarrow> runtime \<Rightarrow> runtime" where
  "load_state state rt =
     (let rt = rt\<lparr>rt_epoch := pst_epoch state, rt_policy_generation := pst_policy_generation state,
                  rt_routes := fold (\<lambda>r. om_set (rr_id r) r) (pst_routes state) (rt_routes rt),
                  rt_revocations := fold (\<lambda>v. om_set (rv_route v) v) (pst_revocations state) (rt_revocations rt)\<rparr>;
          rt = fold load_attempt (pst_attempts state) rt
      in fold index_insert (om_values (rt_routes rt)) rt)"

text \<open>The record of a route whose programming attempt was never resolved.\<close>

definition recovered_record :: "runtime \<Rightarrow> programming_attempt_record \<Rightarrow> route_record \<Rightarrow> route_record" where
  "recovered_record rt attempt r =
     (let event = (if at_operation attempt = OP_Withdraw then EV_WithdrawFailed else EV_BackendAmbiguous);
          lifecycle = (case next_lifecycle (rr_lifecycle r) event of
                         Some l \<Rightarrow> l | None \<Rightarrow> LC_RevalidationRequired)
      in push_history rt
           (r\<lparr>rr_lifecycle := lifecycle,
              rr_applied := \<lparr>ap_classification = AC_Ambiguous, ap_attempt = at_attempt attempt,
                ap_programming_generation = at_programming_generation attempt,
                ap_programmed_generation = at_desired_generation attempt,
                ap_programmed_authority_generation = rr_authority_generation r,
                ap_backend = backend_id_of rt,
                ap_detail = ''unresolved programming attempt recovered after restart''\<rparr>\<rparr>)
           event 0)"

text \<open>One iteration of the recovery loop, on the records and attempts collected so far.\<close>

definition recover_attempt ::
  "programming_attempt_record \<Rightarrow> route_record list \<times> programming_attempt_record list \<times> runtime \<Rightarrow>
   route_record list \<times> programming_attempt_record list \<times> runtime" where
  "recover_attempt attempt = (\<lambda>(recovered, resolved, rt).
     if at_resolved attempt then (recovered, resolved, rt)
     else
       let done = attempt\<lparr>at_resolved := True\<rparr>
       in case om_find (rt_routes rt) (at_route attempt) of
            None \<Rightarrow> (recovered, resolved @ [done], resolve_attempt done rt)
          | Some r \<Rightarrow>
              if has_outstanding_programming (rr_lifecycle r) \<and>
                 rr_programming_generation r = at_programming_generation attempt
              then let updated = recovered_record rt attempt r
                   in (recovered @ [updated], resolved @ [done], resolve_attempt done (commit updated rt))
              else (recovered, resolved @ [done], resolve_attempt done rt))"

definition recover :: "runtime \<Rightarrow> status \<times> runtime" where
  "recover rt =
     (let (recovered, resolved, rt) = fold recover_attempt (om_values (rt_attempts rt)) ([], [], rt)
      in if recovered = [] \<and> resolved = [] then (ok_status, rt\<lparr>rt_opened := True\<rparr>)
         else case persist recovered [] resolved rt of
                (Inl e, rt) \<Rightarrow> (Inl e, rt)
              | (Inr _, rt) \<Rightarrow> (ok_status, rt\<lparr>rt_opened := True\<rparr>))"

definition Open :: "route_store \<Rightarrow> runtime \<Rightarrow> status \<times> runtime" where
  "Open files rt =
     (let config = rt_config rt
      in if rt_opened rt then (Inl SC_AlreadyExists, rt)
         else case limits_validate (cf_limits config) of
                Inl e \<Rightarrow> (Inl e, rt)
              | Inr _ \<Rightarrow>
                  if rt_backend rt = None then (Inl SC_InvalidArgument, rt)
                  else if \<not> rt_path_authority rt then (Inl SC_InvalidArgument, rt)
                  else if \<not> token_is_valid (cf_fabric config) then (Inl SC_InvalidArgument, rt)
                  else if cf_history_limit config = 0 \<or>
                          cf_history_limit config > max_history_entries_per_route (cf_limits config)
                    then (Inl SC_InvalidArgument, rt)
                  else if cf_durability config = DU_None then recover rt
                  else if cf_store_path config = [] then (Inl SC_InvalidArgument, rt)
                  else case Load (bind_store config files) of
                         (Inl e, store) \<Rightarrow> (Inl e, rt\<lparr>rt_store := Some store\<rparr>)
                       | (Inr state, store) \<Rightarrow> recover (load_state state (rt\<lparr>rt_store := Some store\<rparr>)))"

definition Compact :: "runtime \<Rightarrow> status \<times> runtime" where
  "Compact rt =
     (if \<not> rt_opened rt then (Inl SC_NotOpen, rt)
      else if rt_store rt = None then (Inl SC_Unsupported, rt)
      else compact_store rt)"

section \<open>Authority\<close>

definition scope_admissible :: "runtime_config \<Rightarrow> publisher_scope \<Rightarrow> status" where
  "scope_admissible config scope =
     (if \<not> token_is_valid (sp_fabric scope) \<or> sp_fabric scope \<noteq> cf_fabric config then Inl SC_ScopeViolation
      else if length (sp_namespaces scope) + length (sp_destinations scope) + length (sp_route_classes scope)
                > max_publisher_scopes (cf_limits config)
        then Inl SC_LimitExceeded
      else if \<not> sp_administrative_override scope \<and>
              (\<not> sp_wildcard_namespaces scope \<and> sp_namespaces scope = [] \<or>
               \<not> sp_wildcard_destinations scope \<and> sp_destinations scope = [] \<or>
               \<not> sp_wildcard_route_classes scope \<and> sp_route_classes scope = [])
        then Inl SC_ScopeViolation
      else ok_status)"

definition RegisterPublisher ::
  "publisher_id \<Rightarrow> worker_boot_id \<Rightarrow> publisher_scope \<Rightarrow> runtime \<Rightarrow> publisher_registration expected \<times> runtime" where
  "RegisterPublisher publisher worker_boot scope rt =
     (if \<not> token_is_valid publisher then (Inl SC_InvalidArgument, rt)
      else if \<not> fixed_is_valid worker_boot then (Inl SC_InvalidArgument, rt)
      else case scope_admissible (rt_config rt) scope of
             Inl e \<Rightarrow> (Inl e, rt)
           | Inr _ \<Rightarrow>
               if \<not> rt_opened rt then (Inl SC_NotOpen, rt)
               else if om_contains (rt_administrative_fences rt) publisher then (Inl SC_Fenced, rt)
               else if om_find (rt_registrations rt) publisher = None \<and>
                       length (rt_registrations rt) \<ge> max_publishers (rt_limits rt)
                 then (Inl SC_LimitExceeded, rt)
               else
                 let boots = (case om_find (rt_registrations rt) publisher of
                                None \<Rightarrow> rt_fenced_boots rt
                              | Some existing \<Rightarrow>
                                  if rg_worker_boot existing \<noteq> worker_boot
                                  then os_insert (rg_worker_boot existing) (rt_fenced_boots rt)
                                  else rt_fenced_boots rt);
                     registration = \<lparr>rg_publisher = publisher, rg_worker_boot = worker_boot,
                       rg_epoch = rt_epoch rt, rg_scope = scope, rg_fenced = False,
                       rg_fence_reason = FR_SessionClosed\<rparr>
                 in (Inr registration,
                     rt\<lparr>rt_fenced_boots := boots,
                        rt_registrations := om_set publisher registration (rt_registrations rt)\<rparr>))"

definition FencePublisher :: "publisher_id \<Rightarrow> fencing_reason \<Rightarrow> runtime \<Rightarrow> status \<times> runtime" where
  "FencePublisher publisher reason rt =
     (let rt = (case om_find (rt_registrations rt) publisher of
                  None \<Rightarrow> rt
                | Some registration \<Rightarrow>
                    rt\<lparr>rt_fenced_boots := os_insert (rg_worker_boot registration) (rt_fenced_boots rt),
                       rt_registrations := om_erase publisher (rt_registrations rt)\<rparr>)
      in (ok_status,
          if reason = FR_Administrative
          then rt\<lparr>rt_administrative_fences := om_set publisher reason (rt_administrative_fences rt)\<rparr> else rt))"

definition FenceWorkerBoot :: "worker_boot_id \<Rightarrow> fencing_reason \<Rightarrow> runtime \<Rightarrow> status \<times> runtime" where
  "FenceWorkerBoot worker_boot reason rt =
     (if \<not> fixed_is_valid worker_boot then (Inl SC_InvalidArgument, rt)
      else
        let rt = rt\<lparr>rt_fenced_boots := os_insert worker_boot (rt_fenced_boots rt)\<rparr>
        in if reason = FR_Administrative then
             let fenced = filter (\<lambda>(p, registration). rg_worker_boot registration = worker_boot)
                            (rt_registrations rt)
             in (ok_status,
                 rt\<lparr>rt_administrative_fences :=
                      fold (\<lambda>(p, registration). om_set p reason) fenced (rt_administrative_fences rt),
                    rt_registrations :=
                      filter (\<lambda>(p, registration). rg_worker_boot registration \<noteq> worker_boot)
                        (rt_registrations rt)\<rparr>)
           else (ok_status, rt))"

definition ClearAdministrativeFence :: "publisher_id \<Rightarrow> runtime \<Rightarrow> status \<times> runtime" where
  "ClearAdministrativeFence publisher rt =
     (ok_status, rt\<lparr>rt_administrative_fences := om_erase publisher (rt_administrative_fences rt)\<rparr>)"

definition LookupRegistration :: "runtime \<Rightarrow> publisher_id \<Rightarrow> publisher_registration expected" where
  "LookupRegistration rt publisher =
     (case om_find (rt_registrations rt) publisher of
        None \<Rightarrow> Inl SC_NotFound
      | Some registration \<Rightarrow> Inr registration)"

definition AdvanceEpoch :: "runtime \<Rightarrow> coordinator_epoch expected \<times> runtime" where
  "AdvanceEpoch rt =
     (if \<not> rt_opened rt then (Inl SC_NotOpen, rt)
      else case counter_next (rt_epoch rt) of
             Inl _ \<Rightarrow> (Inl SC_StaleEpoch, rt)
           | Inr epoch \<Rightarrow>
               let advanced = rt\<lparr>rt_epoch := epoch\<rparr>
               in case rt_store rt of
                    None \<Rightarrow> (Inr epoch, advanced)
                  | Some store \<Rightarrow>
                      (case SaveSnapshot store (collect_state advanced) of
                         (Inl e, store) \<Rightarrow> (Inl e, rt\<lparr>rt_store := Some store\<rparr>)
                       | (Inr _, store) \<Rightarrow> (Inr epoch, advanced\<lparr>rt_store := Some store\<rparr>)))"

section \<open>Path authority changes\<close>

text \<open>The lifecycles whose routes still assert installability.\<close>

definition asserts_installability :: "route_lifecycle \<Rightarrow> bool" where
  "asserts_installability l \<longleftrightarrow> l \<in> {LC_Installed, LC_Installing, LC_Ready, LC_RevalidationRequired}"

text \<open>One dependent of an invalidated path: \<open>None\<close> is \<open>continue\<close>.\<close>

definition invalidate_record ::
  "runtime \<Rightarrow> path_authority_generation \<Rightarrow> path_authorization \<Rightarrow> route_id \<Rightarrow> route_record option expected" where
  "invalidate_record rt generation state i =
     (case om_find (rt_routes rt) i of
        None \<Rightarrow> Inr None
      | Some r \<Rightarrow>
          if om_contains (rt_revocations rt) i then Inr None
          else if \<not> asserts_installability (rr_lifecycle r) then Inr None
          else if state = PA_Usable \<and> generation = rb_path_authority_generation (rr_binding r) then Inr None
          else case publish_advance r of
                 Inl e \<Rightarrow> Inl e
               | Inr advanced \<Rightarrow>
                   (case apply_event (rr_lifecycle advanced) EV_RequireRevalidation of
                      (Inl e, _) \<Rightarrow> Inl e
                    | (Inr _, lifecycle) \<Rightarrow>
                        Inr (Some (push_history rt
                          (advanced\<lparr>rr_invalidation_watermark := rr_authority_generation advanced,
                             rr_provenance := (rr_provenance advanced)\<lparr>pv_path_authority_generation := generation\<rparr>,
                             rr_lifecycle := lifecycle\<rparr>)
                          EV_RequireRevalidation (rr_generation r)))))"

fun invalidate_records ::
  "runtime \<Rightarrow> path_authority_generation \<Rightarrow> path_authorization \<Rightarrow> route_id list \<Rightarrow>
   route_record list expected" where
  "invalidate_records rt generation state [] = Inr []"
| "invalidate_records rt generation state (i # rest) =
     (case invalidate_record rt generation state i of
        Inl e \<Rightarrow> Inl e
      | Inr updated \<Rightarrow>
          (case invalidate_records rt generation state rest of
             Inl e \<Rightarrow> Inl e
           | Inr records \<Rightarrow> Inr (case updated of None \<Rightarrow> records | Some r \<Rightarrow> r # records)))"

definition invalidate_path_locked ::
  "path_id \<Rightarrow> path_authority_generation \<Rightarrow> path_authorization \<Rightarrow> runtime \<Rightarrow> status \<times> runtime" where
  "invalidate_path_locked path generation state rt =
     (case om_find (rt_path_index rt) path of
        None \<Rightarrow> (ok_status, rt)
      | Some dependents \<Rightarrow>
          (case invalidate_records rt generation state dependents of
             Inl e \<Rightarrow> (Inl e, rt)
           | Inr records \<Rightarrow>
               if records = [] then (ok_status, rt)
               else case persist records [] [] rt of
                      (Inl e, rt) \<Rightarrow> (Inl e, rt)
                    | (Inr _, rt) \<Rightarrow> (ok_status, fold commit records rt)))"

definition OnPathAuthorityChanged ::
  "path_id \<Rightarrow> path_authority_generation \<Rightarrow> path_authorization \<Rightarrow> runtime \<Rightarrow> status \<times> runtime" where
  "OnPathAuthorityChanged path generation state rt =
     (if \<not> fixed_is_valid path then (Inl SC_InvalidArgument, rt)
      else if \<not> counter_is_valid generation then (Inl SC_InvalidArgument, rt)
      else if \<not> rt_opened rt then (Inl SC_NotOpen, rt)
      else invalidate_path_locked path generation state rt)"

fun revalidate_paths :: "path_query \<Rightarrow> path_id list \<Rightarrow> runtime \<Rightarrow> status \<times> runtime" where
  "revalidate_paths query [] rt = (ok_status, rt)"
| "revalidate_paths query (path # paths) rt =
     (case invalidate_path_locked path (pr_generation (query path)) (pr_state (query path)) rt of
        (Inl e, rt) \<Rightarrow> (Inl e, rt)
      | (Inr _, rt) \<Rightarrow> revalidate_paths query paths rt)"

definition RevalidatePathAuthorities :: "path_query \<Rightarrow> runtime \<Rightarrow> status \<times> runtime" where
  "RevalidatePathAuthorities query rt =
     (if \<not> rt_opened rt then (Inl SC_NotOpen, rt)
      else revalidate_paths query (om_keys (rt_path_index rt)) rt)"

section \<open>Reconciliation\<close>

definition classify_observation :: "route_record \<Rightarrow> backend_query_result \<Rightarrow> observation_class" where
  "classify_observation r q =
     (let desired_present = (rr_lifecycle r \<in> {LC_Installed, LC_Installing, LC_RevalidationRequired})
      in if bq_presence q = BP_Unavailable then OC_Unavailable
         else if bq_presence q = BP_Unknown then OC_Unknown
         else if counter_is_valid (bq_observed_generation q) \<and> bq_observed_generation q \<noteq> rr_generation r
           then OC_Diverged
         else if bq_presence q = BP_Present then (if desired_present then OC_Matched else OC_Extra)
         else (if desired_present then OC_Missing else OC_Matched))"

definition observed_record :: "runtime \<Rightarrow> backend_query_result \<Rightarrow> route_record \<Rightarrow> route_record" where
  "observed_record rt q r =
     r\<lparr>rr_observation :=
         \<lparr>ob_classification = classify_observation r q, ob_attempt = ap_attempt (rr_applied r),
          ob_observed_generation =
            (if counter_is_valid (bq_observed_generation q) \<and> bq_observed_generation q \<le> rr_generation r
             then bq_observed_generation q else 0),
          ob_backend = (if token_is_valid (bq_backend q) then bq_backend q else backend_id_of rt),
          ob_detail = bounded (bq_detail q)\<rparr>\<rparr>"

text \<open>The second locked section of \<open>reconcile_one\<close>: the backend answered \<open>q\<close>.\<close>

definition reconcile_locked ::
  "route_id \<Rightarrow> backend_query_result \<Rightarrow> runtime \<Rightarrow> observation_class expected \<times> runtime" where
  "reconcile_locked i q rt =
     (case om_find (rt_routes rt) i of
        None \<Rightarrow> (Inl SC_NotFound, rt)
      | Some r \<Rightarrow>
          let updated = observed_record rt q r
          in case validate_route_record updated (rt_limits rt) of
               Inl e \<Rightarrow> (Inl e, rt)
             | Inr _ \<Rightarrow>
                 (case persist [updated] [] [] rt of
                    (Inl e, rt) \<Rightarrow> (Inl e, rt)
                  | (Inr _, rt) \<Rightarrow>
                      (Inr (classify_observation r q), bump ct_reconciliations_update (commit updated rt))))"

definition reconcile_one ::
  "'b backend_ops \<Rightarrow> 'b \<Rightarrow> route_id \<Rightarrow> runtime \<Rightarrow> observation_class expected \<times> runtime" where
  "reconcile_one ops b i rt =
     (case om_find (rt_routes rt) i of
        None \<Rightarrow> (Inl SC_NotFound, rt)
      | Some r \<Rightarrow> reconcile_locked i (bo_query ops b (rr_key r)) rt)"

definition ReconcileRoute ::
  "'b backend_ops \<Rightarrow> 'b \<Rightarrow> route_id \<Rightarrow> runtime \<Rightarrow> observation_class expected \<times> runtime" where
  "ReconcileRoute ops b i rt =
     (if \<not> fixed_is_valid i then (Inl SC_InvalidArgument, rt) else reconcile_one ops b i rt)"

record reconciliation_summary =
  sm_checked :: nat
  sm_matched :: nat
  sm_missing :: nat
  sm_diverged :: nat
  sm_extra :: nat
  sm_unavailable :: nat

fun count_class :: "observation_class \<Rightarrow> reconciliation_summary \<Rightarrow> reconciliation_summary" where
  "count_class OC_Matched s = s\<lparr>sm_checked := sm_checked s + 1, sm_matched := sm_matched s + 1\<rparr>"
| "count_class OC_Missing s = s\<lparr>sm_checked := sm_checked s + 1, sm_missing := sm_missing s + 1\<rparr>"
| "count_class OC_Diverged s = s\<lparr>sm_checked := sm_checked s + 1, sm_diverged := sm_diverged s + 1\<rparr>"
| "count_class OC_Extra s = s\<lparr>sm_checked := sm_checked s + 1, sm_extra := sm_extra s + 1\<rparr>"
| "count_class OC_Unknown s = s\<lparr>sm_checked := sm_checked s + 1, sm_unavailable := sm_unavailable s + 1\<rparr>"
| "count_class OC_Unavailable s = s\<lparr>sm_checked := sm_checked s + 1, sm_unavailable := sm_unavailable s + 1\<rparr>"

fun reconcile_each ::
  "'b backend_ops \<Rightarrow> 'b \<Rightarrow> route_id list \<Rightarrow> reconciliation_summary \<Rightarrow> runtime \<Rightarrow>
   reconciliation_summary \<times> runtime" where
  "reconcile_each ops b [] s rt = (s, rt)"
| "reconcile_each ops b (i # rest) s rt =
     (case reconcile_one ops b i rt of
        (Inl _, rt) \<Rightarrow> reconcile_each ops b rest s rt
      | (Inr c, rt) \<Rightarrow> reconcile_each ops b rest (count_class c s) rt)"

definition ReconcileAll ::
  "'b backend_ops \<Rightarrow> 'b \<Rightarrow> runtime \<Rightarrow> reconciliation_summary expected \<times> runtime" where
  "ReconcileAll ops b rt =
     (if \<not> rt_opened rt then (Inl SC_NotOpen, rt)
      else
        let (s, rt) = reconcile_each ops b (om_keys (rt_routes rt))
              \<lparr>sm_checked = 0, sm_matched = 0, sm_missing = 0, sm_diverged = 0, sm_extra = 0,
               sm_unavailable = 0\<rparr> rt
        in (Inr s, rt))"

end
