(* ===== verification/RF_Queries.thy ===== *)
theory RF_Queries
  imports RF_Control
begin

text \<open>
  \<^bold>\<open>Queries, statistics, explanations and the index check.\<close> This theory models the
  read-only methods of \<open>src/runtime.cpp\<close>. They hold the shared lock and query the path
  authority through \<open>currentness_of\<close>; none of them changes the state.
\<close>

section \<open>Lookups\<close>

definition find_by_key :: "runtime \<Rightarrow> route_key \<Rightarrow> route_record expected" where
  "find_by_key rt key =
     (case om_find (rt_key_index rt) key of
        None \<Rightarrow> Inl SC_NotFound
      | Some i \<Rightarrow> (case om_find (rt_routes rt) i of None \<Rightarrow> Inl SC_NotFound | Some r \<Rightarrow> Inr r))"

definition find_by_id :: "runtime \<Rightarrow> route_id \<Rightarrow> route_record expected" where
  "find_by_id rt i = (case om_find (rt_routes rt) i of None \<Rightarrow> Inl SC_NotFound | Some r \<Rightarrow> Inr r)"

definition QueryRoute :: "path_query \<Rightarrow> runtime \<Rightarrow> route_key \<Rightarrow> route_snapshot expected" where
  "QueryRoute query rt key =
     map_sum id (\<lambda>r. make_snapshot r (currentness_of query rt r)) (find_by_key rt key)"

definition QueryRouteById :: "path_query \<Rightarrow> runtime \<Rightarrow> route_id \<Rightarrow> route_snapshot expected" where
  "QueryRouteById query rt i =
     map_sum id (\<lambda>r. make_snapshot r (currentness_of query rt r)) (find_by_id rt i)"

section \<open>Listing\<close>

record route_list_filter =
  fl_publisher :: "publisher_id option"
  fl_lifecycle :: "route_lifecycle option"
  fl_currentness :: "route_currentness option"
  fl_namespace :: "routing_namespace option"
  fl_limit :: nat

text \<open>A \<open>has_\<close> flag and its value are one optional field; an absent field matches everything.\<close>

definition matches :: "'a option \<Rightarrow> 'a \<Rightarrow> bool" where
  "matches wanted x \<longleftrightarrow> (case wanted of None \<Rightarrow> True | Some w \<Rightarrow> x = w)"

definition filter_accepts :: "path_query \<Rightarrow> runtime \<Rightarrow> route_list_filter \<Rightarrow> route_record \<Rightarrow> bool" where
  "filter_accepts query rt flt r \<longleftrightarrow>
     matches (fl_publisher flt) (pv_publisher (rr_provenance r)) \<and>
     matches (fl_lifecycle flt) (rr_lifecycle r) \<and>
     matches (fl_namespace flt) (rk_routing_namespace (rr_key r)) \<and>
     matches (fl_currentness flt) (currentness_of query rt r)"

fun list_routes ::
  "path_query \<Rightarrow> runtime \<Rightarrow> route_list_filter \<Rightarrow> nat \<Rightarrow> route_record list \<Rightarrow> route_snapshot list \<Rightarrow>
   route_snapshot list" where
  "list_routes query rt flt cap [] snapshots = snapshots"
| "list_routes query rt flt cap (r # rest) snapshots =
     (if \<not> filter_accepts query rt flt r then list_routes query rt flt cap rest snapshots
      else
        let snapshots = snapshots @ [make_snapshot r (currentness_of query rt r)]
        in if length snapshots \<ge> cap then snapshots else list_routes query rt flt cap rest snapshots)"

definition ListRoutes :: "path_query \<Rightarrow> runtime \<Rightarrow> route_list_filter \<Rightarrow> route_snapshot list" where
  "ListRoutes query rt flt =
     (let hard_cap = max_snapshot_routes (rt_limits rt);
          soft_cap = (if fl_limit flt = 0 then hard_cap else min (fl_limit flt) hard_cap)
      in list_routes query rt flt soft_cap (om_values (rt_routes rt)) [])"

definition Snapshot :: "path_query \<Rightarrow> runtime \<Rightarrow> route_snapshot_set expected" where
  "Snapshot query rt =
     (if length (rt_routes rt) > max_snapshot_routes (rt_limits rt) then Inl SC_LimitExceeded
      else
        let records = om_values (rt_routes rt)
        in Inr (make_snapshot_set records (map (currentness_of query rt) records) (rt_epoch rt)))"

section \<open>Statistics\<close>

record route_statistics =
  st_epoch :: coordinator_epoch
  st_state_digest :: digest128
  st_route_count :: nat
  st_installed_count :: nat
  st_current_count :: nat
  st_revalidation_required_count :: nat
  st_withdrawn_count :: nat
  st_retired_count :: nat
  st_failed_count :: nat
  st_superseded_count :: nat
  st_publisher_count :: nat
  st_path_dependency_count :: nat
  st_outstanding_programming_count :: nat
  st_revocation_count :: nat
  st_routing_namespace_count :: nat
  st_counters :: route_counters

definition state_digest :: "route_record list \<Rightarrow> coordinator_epoch \<Rightarrow> digest128" where
  "state_digest records epoch =
     (let lanes = digest_both (kFnvBasis, kFnvBasisAlt) (w_raw_text ''routefabric.state-digest.v1'');
          lanes = foldl (\<lambda>lanes d. digest_both lanes (array16_bytes d)) lanes
                    (sort (map semantic_digest records));
          lanes = digest_both lanes (w_counter epoch)
      in from_u64_pair (mix64 (fst lanes)) (mix64 (snd lanes)))"

definition count_lifecycle :: "route_lifecycle \<Rightarrow> route_record list \<Rightarrow> nat" where
  "count_lifecycle l records = length (filter (\<lambda>r. rr_lifecycle r = l) records)"

definition Statistics :: "path_query \<Rightarrow> runtime \<Rightarrow> route_statistics" where
  "Statistics query rt =
     (let records = om_values (rt_routes rt)
      in \<lparr>st_epoch = rt_epoch rt,
          st_state_digest = state_digest records (rt_epoch rt),
          st_route_count = length (rt_routes rt),
          st_installed_count = count_lifecycle LC_Installed records,
          st_current_count = length (filter (\<lambda>r. is_current (currentness_of query rt r)) records),
          st_revalidation_required_count = count_lifecycle LC_RevalidationRequired records,
          st_withdrawn_count = count_lifecycle LC_Withdrawn records,
          st_retired_count = count_lifecycle LC_Retired records,
          st_failed_count = count_lifecycle LC_Failed records,
          st_superseded_count = count_lifecycle LC_Superseded records,
          st_publisher_count = length (rt_registrations rt),
          st_path_dependency_count = length (rt_path_index rt),
          st_outstanding_programming_count = rt_outstanding rt,
          st_revocation_count = length (rt_revocations rt),
          st_routing_namespace_count =
            length (fold os_insert (map (\<lambda>r. rk_routing_namespace (rr_key r)) records) []),
          st_counters = rt_counters rt\<rparr>)"

section \<open>Explanations\<close>

definition explain_authority :: "runtime \<Rightarrow> route_record \<Rightarrow> route_currentness \<Rightarrow> string" where
  "explain_authority rt r currentness =
     ''route '' @ fixed_render (rr_id r) @ '' is '' @
     (if is_current currentness then ''authoritative'' else ''not authoritative'') @
     ''; lifecycle='' @ lifecycle_to_string (rr_lifecycle r) @
     '' currentness='' @ currentness_to_string currentness @
     '' owner='' @ pv_publisher (rr_provenance r) @
     '' worker-boot='' @ fixed_render (pv_worker_boot (rr_provenance r)) @
     '' epoch='' @ to_decimal (pv_epoch (rr_provenance r)) @
     (case om_find (rt_registrations rt) (pv_publisher (rr_provenance r)) of
        None \<Rightarrow> '' registration=none''
      | Some registration \<Rightarrow>
          '' registration-epoch='' @ to_decimal (rg_epoch registration) @
          '' registration-boot='' @ fixed_render (rg_worker_boot registration))"

fun explain_currentness :: "runtime \<Rightarrow> route_record \<Rightarrow> route_currentness \<Rightarrow> string" where
  "explain_currentness rt r CU_Current =
     ''the backend reported the desired binding as applied and live authority is current''"
| "explain_currentness rt r CU_NotInstalled = ''the route has no applied backend outcome yet''"
| "explain_currentness rt r CU_RevalidationRequired =
     ''the applied state cannot be proven; an explicit revalidation is required''"
| "explain_currentness rt r CU_StaleEpoch =
     ''the route was published under epoch '' @ to_decimal (pv_epoch (rr_provenance r)) @
     '' and the coordinator epoch is now '' @ to_decimal (rt_epoch rt)"
| "explain_currentness rt r CU_StalePublisher =
     ''the owning publisher has no live registration after restart or fencing''"
| "explain_currentness rt r CU_StaleWorkerBoot =
     ''the owning worker boot is not the currently registered boot for the publisher''"
| "explain_currentness rt r CU_StalePathAuthority =
     ''the bound path authority generation is no longer the current generation''"
| "explain_currentness rt r CU_StaleBackendObservation =
     ''backend reconciliation observed a divergent state''"
| "explain_currentness rt r CU_FencedPublisher = ''the producing worker boot has been fenced''"
| "explain_currentness rt r CU_PathAuthorityRejected = ''path authority no longer authorizes the bound path''"
| "explain_currentness rt r CU_Withdrawn = ''the route was withdrawn and the backend reported it removed''"
| "explain_currentness rt r CU_Retired = ''the route lineage is retired''"
| "explain_currentness rt r CU_Superseded = ''the route lineage was superseded by a successor lineage''"
| "explain_currentness rt r CU_Failed = ''the backend definitively refused the desired binding''"
| "explain_currentness rt r CU_Revoked = ''the route was administratively revoked''"
| "explain_currentness rt r CU_DesiredAppliedMismatch =
     ''reconciliation found the desired route missing from the backend''"

definition explain_lifecycle :: "route_record \<Rightarrow> string" where
  "explain_lifecycle r =
     ''lifecycle='' @ lifecycle_to_string (rr_lifecycle r) @
     '' generation='' @ to_decimal (rr_generation r) @
     '' authority-generation='' @ to_decimal (rr_authority_generation r) @
     '' invalidation-watermark='' @ to_decimal (rr_invalidation_watermark r) @
     '' history='' @ to_decimal (of_nat (length (rr_history r))) @
     (if rr_history r \<noteq> [] then '' last-event='' @ route_event_to_string (le_event (last (rr_history r))) else [])"

definition explain_path :: "path_query \<Rightarrow> route_record \<Rightarrow> string" where
  "explain_path query r =
     (if rb_kind (rr_binding r) = BK_AuthorizedPath then
        let authority = query (rb_path (rr_binding r))
        in ''path='' @ fixed_render (rb_path (rr_binding r)) @
           '' bound-generation='' @ to_decimal (rb_path_authority_generation (rr_binding r)) @
           '' current-generation='' @ to_decimal (pr_generation authority) @
           '' state='' @ path_authorization_to_string (pr_state authority)
      else ''the binding is not path-backed; no path authority is involved'')"

definition text_or_none :: "string \<Rightarrow> string" where
  "text_or_none s = (if s = [] then ''none'' else s)"

definition explain_backend :: "route_record \<Rightarrow> string" where
  "explain_backend r =
     ''backend='' @ ap_backend (rr_applied r) @
     '' applied='' @ applied_classification_to_string (ap_classification (rr_applied r)) @
     '' attempt='' @ fixed_or_none (ap_attempt (rr_applied r)) @
     '' programmed-generation='' @ counter_or_none (ap_programmed_generation (rr_applied r)) @
     '' programming-generation='' @ to_decimal (rr_programming_generation r) @
     '' detail='' @ text_or_none (ap_detail (rr_applied r))"

definition explain_reconciliation :: "route_record \<Rightarrow> string" where
  "explain_reconciliation r =
     ''observation='' @ observation_class_to_string (ob_classification (rr_observation r)) @
     '' backend='' @ ob_backend (rr_observation r) @
     '' detail='' @ text_or_none (ob_detail (rr_observation r)) @
     '' backend-matched-desired='' @
     (if ob_classification (rr_observation r) = OC_Matched then ''yes'' else ''no'')"

definition explain_supersession :: "supersession_record \<Rightarrow> string" where
  "explain_supersession su =
     (if su_kind su = SK_None then ''none''
      else ''kind='' @ supersession_kind_to_string (su_kind su) @
           '' prior-generation='' @ counter_or_none (su_prior_generation su) @
           '' successor-generation='' @ counter_or_none (su_successor_generation su) @
           '' successor-lineage='' @ fixed_or_none (su_successor_lineage su) @
           '' reason='' @ su_reason su)"

definition explain_retirement :: "runtime \<Rightarrow> route_record \<Rightarrow> string" where
  "explain_retirement rt r =
     (let re = rr_retirement r
      in if re_cause re = RT_None then ''none''
         else ''cause='' @ retirement_cause_to_string (re_cause re) @
              '' generation='' @ counter_or_none (re_generation re) @
              '' epoch='' @ counter_or_none (re_epoch re) @
              '' reason='' @ re_reason re @
              '' revocation='' @ (if om_contains (rt_revocations rt) (rr_id r) then ''durable'' else ''none''))"

definition explain_locked :: "path_query \<Rightarrow> runtime \<Rightarrow> route_record \<Rightarrow> route_explanation" where
  "explain_locked query rt r =
     (let currentness = currentness_of query rt r
      in \<lparr>ex_snapshot = make_snapshot r currentness, ex_authoritative = is_current currentness,
          ex_authority_reason = explain_authority rt r currentness,
          ex_currentness_reason = explain_currentness rt r currentness,
          ex_lifecycle_reason = explain_lifecycle r,
          ex_path_authority_reason = explain_path query r,
          ex_backend_reason = explain_backend r,
          ex_reconciliation_reason = explain_reconciliation r,
          ex_supersession_reason = explain_supersession (rr_supersession r),
          ex_retirement_reason = explain_retirement rt r\<rparr>)"

definition ExplainRoute :: "path_query \<Rightarrow> runtime \<Rightarrow> route_key \<Rightarrow> route_explanation expected" where
  "ExplainRoute query rt key = map_sum id (explain_locked query rt) (find_by_key rt key)"

definition ExplainRouteById :: "path_query \<Rightarrow> runtime \<Rightarrow> route_id \<Rightarrow> route_explanation expected" where
  "ExplainRouteById query rt i = map_sum id (explain_locked query rt) (find_by_id rt i)"

section \<open>The index check\<close>

text \<open>\<open>++counts[key]\<close> over a range, and the sum of the counters.\<close>

definition count_by :: "'k :: linorder list \<Rightarrow> ('k, nat) omap" where
  "count_by keys = fold (\<lambda>k m. om_set k ((case om_find m k of None \<Rightarrow> 0 | Some n \<Rightarrow> n) + 1) m) keys []"

definition om_total :: "('k, nat) omap \<Rightarrow> nat" where
  "om_total m = sum_list (om_values m)"

definition mi_total :: "('k, 'x list) omap \<Rightarrow> nat" where
  "mi_total m = sum_list (map length (om_values m))"

definition indexed :: "('k, 'x list) omap \<Rightarrow> 'k \<Rightarrow> 'x \<Rightarrow> bool" where
  "indexed m k x \<longleftrightarrow> (case om_find m k of None \<Rightarrow> False | Some xs \<Rightarrow> x \<in> set xs)"

text \<open>The checks on one record, in the loop over the route map.\<close>

definition record_indexed :: "runtime \<Rightarrow> route_record \<Rightarrow> bool" where
  "record_indexed rt r \<longleftrightarrow>
     (if rr_lifecycle r = LC_Superseded then om_find (rt_key_index rt) (rr_key r) \<noteq> Some (rr_id r)
      else om_find (rt_key_index rt) (rr_key r) = Some (rr_id r)) \<and>
     (rb_kind (rr_binding r) = BK_AuthorizedPath \<longrightarrow>
        indexed (rt_path_index rt) (rb_path (rr_binding r)) (rr_id r)) \<and>
     indexed (rt_publisher_index rt) (pv_publisher (rr_provenance r)) (rr_id r) \<and>
     indexed (rt_lifecycle_index rt) (rr_lifecycle r) (rr_id r)"

definition ValidateIndexes :: "runtime \<Rightarrow> status" where
  "ValidateIndexes rt =
     (let records = om_values (rt_routes rt);
          keyed_routes = length (filter (\<lambda>r. rr_lifecycle r \<noteq> LC_Superseded) records);
          path_counts = count_by (map (\<lambda>r. rb_path (rr_binding r))
                          (filter (\<lambda>r. rb_kind (rr_binding r) = BK_AuthorizedPath) records));
          publisher_counts = count_by (map (\<lambda>r. pv_publisher (rr_provenance r)) records);
          lifecycle_counts = count_by (map rr_lifecycle records);
          namespace_counts = count_by (map (\<lambda>r. rk_routing_namespace (rr_key r)) records);
          attempts = om_values (rt_attempts rt)
      in if length (rt_key_index rt) \<noteq> keyed_routes then Inl SC_Internal
         else if \<not> list_all (record_indexed rt) records then Inl SC_Internal
         else if mi_total (rt_path_index rt) \<noteq> om_total path_counts then Inl SC_Internal
         else if mi_total (rt_publisher_index rt) \<noteq> om_total publisher_counts then Inl SC_Internal
         else if mi_total (rt_lifecycle_index rt) \<noteq> om_total lifecycle_counts then Inl SC_Internal
         else if length namespace_counts \<noteq> length (rt_namespace_counts rt) then Inl SC_Internal
         else if \<not> list_all (\<lambda>(ns, n). om_find (rt_namespace_counts rt) ns = Some n) namespace_counts
           then Inl SC_Internal
         else if \<not> list_all (\<lambda>a. om_contains (rt_routes rt) (at_route a)) attempts then Inl SC_Internal
         else if length (filter (\<lambda>a. \<not> at_resolved a) attempts) \<noteq> rt_outstanding rt then Inl SC_Internal
         else ok_status)"

end
