(* ===== verification/RF_Messages.thy ===== *)
theory RF_Messages
  imports RF_Wire RF_Queries
begin

text \<open>
  \<^bold>\<open>The wire protocol: messages.\<close> The codecs of the message payloads in \<open>src/wire.cpp\<close>. For
  every message \<open>X\<close> there is its record, \<open>encode_X\<close>, the reader \<open>rd_X\<close> up to the test that
  the payload is consumed, \<open>decode_X\<close>, and an interpretation of the codec locale. The
  decoders answer only whether they succeed; their texts are not modelled.
\<close>

section \<open>Shared parts\<close>

text \<open>\<open>reader.at_end()\<close> at the end of every decoder.\<close>

definition decode_payload :: "'a reader \<Rightarrow> bytes \<Rightarrow> 'a option" where
  "decode_payload rd payload =
     (case rd payload of
        None \<Rightarrow> None
      | Some (message, rest) \<Rightarrow> if rest \<noteq> [] then None else Some message)"

context codec
begin

lemma decode_payload_iff: "decode_payload dec payload = Some x \<longleftrightarrow> wf x \<and> payload = enc x"
  using read_write_all [of x] read_canonical [of payload x "[]"]
  by (auto simp: decode_payload_def split: option.splits if_splits)

end

text \<open>Unlike the readers of the store, the wire refuses counters past the largest value.\<close>

definition rd_wire_counter :: "counter_id reader" where
  "rd_wire_counter data = do {
     (present, data) \<leftarrow> rd_u8 data;
     (raw, data) \<leftarrow> rd_u64 data;
     if present = 0 then (if raw \<noteq> 0 then None else Some (0, data))
     else if present \<noteq> 1 \<or> raw = 0 \<or> raw > kMaxValue then None
     else Some (raw, data) }"

definition w_status :: "status_code \<Rightarrow> string \<Rightarrow> bytes" where
  "w_status code detail = w_u16 (status_code_raw code) @ w_string detail"

definition rd_status :: "(status_code \<times> string) reader" where
  "rd_status data = do {
     (raw, data) \<leftarrow> rd_u16 data;
     code \<leftarrow> enum_of_raw status_code_raw status_code_values raw;
     (detail, data) \<leftarrow> rd_string kMaxDiagnosticChars data;
     Some ((code, detail), data) }"

record request_context =
  rx_epoch :: coordinator_epoch
  rx_publisher :: publisher_id
  rx_worker_boot :: worker_boot_id
  rx_attempt :: mutation_attempt_id

definition w_context :: "request_context \<Rightarrow> bytes" where
  "w_context c =
     w_counter (rx_epoch c) @ w_token (rx_publisher c) @ w_fixed (rx_worker_boot c) @ w_fixed (rx_attempt c)"

definition rd_context :: "request_context reader" where
  "rd_context data = do {
     (epoch, data) \<leftarrow> rd_counter data;
     (publisher, data) \<leftarrow> rd_token data;
     (worker_boot, data) \<leftarrow> rd_fixed data;
     (attempt, data) \<leftarrow> rd_fixed data;
     Some (\<lparr>rx_epoch = epoch, rx_publisher = publisher, rx_worker_boot = worker_boot,
            rx_attempt = attempt\<rparr>, data) }"

definition w_counter_fields :: "route_counters \<Rightarrow> bytes" where
  "w_counter_fields c =
     w_all w_u64
       [ct_publications c, ct_replacements c, ct_idempotent_publications c, ct_withdrawals c,
        ct_revalidations c, ct_retirements c, ct_revocations c, ct_supersessions c,
        ct_programming_dispatches c, ct_programming_deferred c, ct_programming_applied c,
        ct_programming_ambiguous c, ct_programming_lifecycle_rejected c, ct_stale_completions_rejected c,
        ct_stale_authority_rejections c, ct_scope_violations c, ct_path_authority_rejections c,
        ct_conflicts c, ct_reconciliations c]"

definition rd_counter_fields :: "route_counters reader" where
  "rd_counter_fields data = do {
     (vs, data) \<leftarrow> rd_times 19 rd_u64 data;
     Some (\<lparr>ct_publications = vs ! 0, ct_replacements = vs ! 1, ct_idempotent_publications = vs ! 2,
            ct_withdrawals = vs ! 3, ct_revalidations = vs ! 4, ct_retirements = vs ! 5,
            ct_revocations = vs ! 6, ct_supersessions = vs ! 7, ct_programming_dispatches = vs ! 8,
            ct_programming_deferred = vs ! 9, ct_programming_applied = vs ! 10,
            ct_programming_ambiguous = vs ! 11, ct_programming_lifecycle_rejected = vs ! 12,
            ct_stale_completions_rejected = vs ! 13, ct_stale_authority_rejections = vs ! 14,
            ct_scope_violations = vs ! 15, ct_path_authority_rejections = vs ! 16, ct_conflicts = vs ! 17,
            ct_reconciliations = vs ! 18\<rparr>, data) }"

definition rd_digest :: "digest128 reader" where
  "rd_digest data = do { (raw, data) \<leftarrow> rd_raw 16 data; Some (array16_of raw, data) }"

definition w_publisher_scope :: "publisher_scope \<Rightarrow> bytes" where
  "w_publisher_scope scope =
     w_token (sp_fabric scope) @
     w_u32 (of_nat (length (sp_namespaces scope))) @ w_all w_token (sp_namespaces scope) @
     w_u32 (of_nat (length (sp_destinations scope))) @ w_all w_destination (sp_destinations scope) @
     w_u32 (of_nat (length (sp_route_classes scope))) @
     w_all (\<lambda>c. w_u8 (route_class_raw c)) (sp_route_classes scope) @
     w_boolean (sp_wildcard_namespaces scope) @ w_boolean (sp_wildcard_destinations scope) @
     w_boolean (sp_wildcard_route_classes scope) @ w_boolean (sp_administrative_override scope)"

text \<open>A count checked against a bound, then that many items.\<close>

definition rd_counted :: "nat \<Rightarrow> 'a reader \<Rightarrow> 'a list reader" where
  "rd_counted bound rd data = do {
     (count, data) \<leftarrow> rd_u32 data;
     if unat count > bound then None else rd_times (unat count) rd data }"

definition rd_publisher_scope :: "limits \<Rightarrow> publisher_scope reader" where
  "rd_publisher_scope limits data = do {
     (fabric, data) \<leftarrow> rd_token data;
     (namespaces, data) \<leftarrow> rd_counted (max_publisher_scopes limits) rd_token data;
     (destinations, data) \<leftarrow>
       rd_counted (max_publisher_scopes limits) (rd_destination (max_destination_chars limits)) data;
     (route_classes, data) \<leftarrow>
       rd_counted (max_publisher_scopes limits) (rd_enum route_class_raw route_class_values) data;
     (wildcard_namespaces, data) \<leftarrow> rd_boolean data;
     (wildcard_destinations, data) \<leftarrow> rd_boolean data;
     (wildcard_route_classes, data) \<leftarrow> rd_boolean data;
     (administrative_override, data) \<leftarrow> rd_boolean data;
     Some (\<lparr>sp_fabric = fabric, sp_namespaces = namespaces, sp_destinations = destinations,
            sp_route_classes = route_classes, sp_wildcard_namespaces = wildcard_namespaces,
            sp_wildcard_destinations = wildcard_destinations,
            sp_wildcard_route_classes = wildcard_route_classes,
            sp_administrative_override = administrative_override\<rparr>, data) }"

definition w_route_snapshot :: "route_snapshot \<Rightarrow> bytes" where
  "w_route_snapshot s =
     w_fixed (sn_id s) @ array16_bytes (sn_digest s) @ w_u8 (currentness_raw (sn_currentness s)) @
     w_route_record (sn_record s)"

definition rd_route_snapshot :: "limits \<Rightarrow> route_snapshot reader" where
  "rd_route_snapshot limits data = do {
     (i, data) \<leftarrow> rd_fixed data;
     (digest, data) \<leftarrow> rd_digest data;
     (currentness, data) \<leftarrow> rd_enum currentness_raw currentness_values data;
     (r, data) \<leftarrow> rd_route_record limits data;
     if semantic_digest r \<noteq> digest then None
     else Some (\<lparr>sn_id = i, sn_digest = digest, sn_currentness = currentness, sn_record = r\<rparr>, data) }"

section \<open>Enumerations of the runtime on the wire\<close>

fun fencing_reason_raw :: "fencing_reason \<Rightarrow> u8" where
  "fencing_reason_raw FR_SessionClosed = 1"
| "fencing_reason_raw FR_WorkerDeath = 2"
| "fencing_reason_raw FR_Administrative = 3"
| "fencing_reason_raw FR_EpochInvalidated = 4"

definition fencing_reason_values :: "fencing_reason list" where
  "fencing_reason_values = [FR_SessionClosed, FR_WorkerDeath, FR_Administrative, FR_EpochInvalidated]"

fun completion_disposition_raw :: "completion_disposition \<Rightarrow> u8" where
  "completion_disposition_raw CD_Applied = 1"
| "completion_disposition_raw CD_Stale = 2"
| "completion_disposition_raw CD_UnknownAttempt = 3"
| "completion_disposition_raw CD_RouteMissing = 4"
| "completion_disposition_raw CD_LifecycleRejected = 5"

definition completion_disposition_values :: "completion_disposition list" where
  "completion_disposition_values = [CD_Applied, CD_Stale, CD_UnknownAttempt, CD_RouteMissing, CD_LifecycleRejected]"

interpretation fencing_reason_enum: numbered_enum fencing_reason_raw fencing_reason_values
proof unfold_locales
  show "e \<in> set fencing_reason_values" for e by (cases e) (simp_all add: fencing_reason_values_def)
qed (simp_all add: fencing_reason_values_def)

interpretation completion_disposition_enum: numbered_enum completion_disposition_raw completion_disposition_values
proof unfold_locales
  show "e \<in> set completion_disposition_values" for e by (cases e) (simp_all add: completion_disposition_values_def)
qed (simp_all add: completion_disposition_values_def)

interpretation backend_presence_enum: numbered_enum backend_presence_raw backend_presence_values
proof unfold_locales
  show "e \<in> set backend_presence_values" for e by (cases e) (simp_all add: backend_presence_values_def)
qed (simp_all add: backend_presence_values_def)

interpretation fencing_reason_codec: codec "\<lambda>e. w_u8 (fencing_reason_raw e)"
    "rd_enum fencing_reason_raw fencing_reason_values" "\<lambda>_. True"
  by (rule enum_codec) unfold_locales

interpretation completion_disposition_codec: codec "\<lambda>e. w_u8 (completion_disposition_raw e)"
    "rd_enum completion_disposition_raw completion_disposition_values" "\<lambda>_. True"
  by (rule enum_codec) unfold_locales

interpretation backend_presence_codec: codec "\<lambda>e. w_u8 (backend_presence_raw e)"
    "rd_enum backend_presence_raw backend_presence_values" "\<lambda>_. True"
  by (rule enum_codec) unfold_locales

interpretation programming_outcome_codec: codec "\<lambda>e. w_u8 (programming_outcome_raw e)"
    "rd_enum programming_outcome_raw programming_outcome_values" "\<lambda>_. True"
  by (rule enum_codec) unfold_locales

interpretation currentness_codec: codec "\<lambda>e. w_u8 (currentness_raw e)"
    "rd_enum currentness_raw currentness_values" "\<lambda>_. True"
  by (rule enum_codec) unfold_locales

section \<open>Codecs of the shared parts\<close>

interpretation wire_counter_codec: codec w_optional_counter rd_wire_counter "\<lambda>c. c \<le> kMaxValue"
proof unfold_locales
  show "c \<le> kMaxValue \<Longrightarrow> rd_wire_counter (w_optional_counter c @ rest) = Some (c, rest)" for c rest
    by (simp add: w_optional_counter_def rd_wire_counter_def counter_is_valid_def w_counter_def codec leD)
next
  fix data c rest assume "rd_wire_counter data = Some (c, rest)"
  then show "c \<le> kMaxValue \<and> data = w_optional_counter c @ rest"
    by (auto simp: w_optional_counter_def rd_wire_counter_def counter_is_valid_def w_counter_def not_less
        bind_eq_Some_conv dest!: u8_codec.read_data u64_codec.read_data split: if_splits)
qed

interpretation digest_codec: codec array16_bytes rd_digest "\<lambda>_. True"
  by unfold_locales (auto simp: rd_digest_def codec bind_eq_Some_conv array16_bytes_of dest!: raw_canonical)

interpretation status_codec: codec "\<lambda>(code, detail). w_status code detail" rd_status "\<lambda>(code, detail). diagnostic_wf detail"
  by unfold_locales
    (auto simp: w_status_def rd_status_def diagnostic_wf_def codec diagnostic_wf_length status_code_enum.of_raw_raw
      status_code_enum.of_raw_Some bind_eq_Some_conv dest!: u16_codec.read_data string_codec.read_canonical)

definition context_wf :: "request_context \<Rightarrow> bool" where
  "context_wf c \<longleftrightarrow>
     counter_wire_valid (rx_epoch c) \<and> token_is_valid (rx_publisher c) \<and> rx_worker_boot c \<noteq> 0 \<and> rx_attempt c \<noteq> 0"

interpretation context_codec: codec w_context rd_context context_wf
proof unfold_locales
  show "context_wf c \<Longrightarrow> rd_context (w_context c @ rest) = Some (c, rest)" for c rest
    by (cases c) (simp add: context_wf_def rd_context_def w_context_def codec)
  show "rd_context data = Some (c, rest) \<Longrightarrow> context_wf c \<and> data = w_context c @ rest" for data c rest
    by (auto simp: context_wf_def rd_context_def w_context_def bind_eq_Some_conv dest!: part_canonical)
qed

interpretation counter_fields_codec: codec w_counter_fields rd_counter_fields "\<lambda>_. True"
proof unfold_locales
  fix c :: route_counters and rest
  let ?vs = "[ct_publications c, ct_replacements c, ct_idempotent_publications c, ct_withdrawals c,
        ct_revalidations c, ct_retirements c, ct_revocations c, ct_supersessions c,
        ct_programming_dispatches c, ct_programming_deferred c, ct_programming_applied c,
        ct_programming_ambiguous c, ct_programming_lifecycle_rejected c, ct_stale_completions_rejected c,
        ct_stale_authority_rejections c, ct_scope_violations c, ct_path_authority_rejections c,
        ct_conflicts c, ct_reconciliations c]"
  have "rd_times (length ?vs) rd_u64 (w_all w_u64 ?vs @ rest) = Some (?vs, rest)"
    by (rule u64_codec.times_write) simp
  moreover have "length ?vs = 19" by simp
  ultimately have "rd_times 19 rd_u64 (w_counter_fields c @ rest) = Some (?vs, rest)"
    by (simp only: w_counter_fields_def)
  then show "rd_counter_fields (w_counter_fields c @ rest) = Some (c, rest)"
    by (cases c) (simp add: rd_counter_fields_def)
next
  fix data c rest assume "rd_counter_fields data = Some (c, rest)"
  moreover have "[0..<19] = [0, 1, 2, 3, 4, 5, 6, 7, 8, 9, 10, 11, 12, 13, 14, 15, 16, 17, 18]" by code_simp
  ultimately obtain vs where vs: "rd_times 19 rd_u64 data = Some (vs, rest)"
    and c: "w_counter_fields c = w_all w_u64 (map (\<lambda>i. vs ! i) [0..<19])"
    by (auto simp: rd_counter_fields_def w_counter_fields_def bind_eq_Some_conv)
  have "length vs = 19" and data: "data = w_all w_u64 vs @ rest"
    using u64_codec.times_canonical [OF vs] by auto
  then have "map (\<lambda>i. vs ! i) [0..<19] = vs" using map_nth [of vs] by simp
  with data c show "True \<and> data = w_counter_fields c @ rest" by simp
qed

lemma counted_write:
  assumes "codec enc dec ok" and "list_all ok xs" and "length xs \<le> bound" and "length xs < 2 ^ 32"
  shows "rd_counted bound dec (w_u32 (of_nat (length xs)) @ w_all enc xs @ rest) = Some (xs, rest)"
  using assms codec.times_write [OF assms(1,2), of rest] by (simp add: rd_counted_def codec unat_of_nat)

lemma counted_canonical:
  assumes "codec enc dec ok" and "rd_counted bound dec data = Some (xs, rest)"
  shows "list_all ok xs \<and> length xs \<le> bound \<and> length xs < 2 ^ 32 \<and>
    data = w_u32 (of_nat (length xs)) @ w_all enc xs @ rest"
  using assms codec.times_canonical [OF assms(1)] unat_u32_less
  by (auto simp: rd_counted_def bind_eq_Some_conv not_less dest!: u32_codec.read_data split: if_splits)

lemmas counted_writes =
  counted_write [OF token_codec.codec_axioms] counted_write [OF destination_codec.codec_axioms]
  counted_write [OF route_class_codec.codec_axioms]

lemmas counted_canonicals =
  counted_canonical [OF token_codec.codec_axioms] counted_canonical [OF destination_codec.codec_axioms]
  counted_canonical [OF route_class_codec.codec_axioms]

definition publisher_scope_wf :: "limits \<Rightarrow> publisher_scope \<Rightarrow> bool" where
  "publisher_scope_wf limits s \<longleftrightarrow>
     token_is_valid (sp_fabric s) \<and> list_all token_is_valid (sp_namespaces s) \<and>
     list_all (destination_wf (max_destination_chars limits)) (sp_destinations s) \<and>
     length (sp_namespaces s) \<le> max_publisher_scopes limits \<and> length (sp_namespaces s) < 2 ^ 32 \<and>
     length (sp_destinations s) \<le> max_publisher_scopes limits \<and> length (sp_destinations s) < 2 ^ 32 \<and>
     length (sp_route_classes s) \<le> max_publisher_scopes limits \<and> length (sp_route_classes s) < 2 ^ 32"

interpretation publisher_scope_codec: codec w_publisher_scope "rd_publisher_scope limits" "publisher_scope_wf limits" for limits
proof unfold_locales
  show "publisher_scope_wf limits s \<Longrightarrow> rd_publisher_scope limits (w_publisher_scope s @ rest) = Some (s, rest)" for s rest
    by (cases s) (simp add: publisher_scope_wf_def rd_publisher_scope_def w_publisher_scope_def codec counted_writes list_all_iff)
  show "rd_publisher_scope limits data = Some (s, rest) \<Longrightarrow> publisher_scope_wf limits s \<and> data = w_publisher_scope s @ rest"
    for data s rest
    by (auto simp: publisher_scope_wf_def rd_publisher_scope_def w_publisher_scope_def bind_eq_Some_conv
        dest!: token_codec.read_canonical boolean_codec.read_data counted_canonicals)
qed

definition route_snapshot_wf :: "limits \<Rightarrow> route_snapshot \<Rightarrow> bool" where
  "route_snapshot_wf limits s \<longleftrightarrow>
     sn_id s \<noteq> 0 \<and> route_record_wf limits (sn_record s) \<and> semantic_digest (sn_record s) = sn_digest s"

lemmas wire_enum_codecs [codec] =
  fencing_reason_codec.read_write [OF TrueI] completion_disposition_codec.read_write [OF TrueI]
  backend_presence_codec.read_write [OF TrueI] programming_outcome_codec.read_write [OF TrueI]
  currentness_codec.read_write [OF TrueI]

interpretation route_snapshot_codec: codec w_route_snapshot "rd_route_snapshot limits" "route_snapshot_wf limits" for limits
proof unfold_locales
  show "route_snapshot_wf limits s \<Longrightarrow> rd_route_snapshot limits (w_route_snapshot s @ rest) = Some (s, rest)" for s rest
    by (cases s) (simp add: route_snapshot_wf_def rd_route_snapshot_def w_route_snapshot_def codec digest_codec.read_write)
  show "rd_route_snapshot limits data = Some (s, rest) \<Longrightarrow> route_snapshot_wf limits s \<and> data = w_route_snapshot s @ rest"
    for data s rest
    by (auto simp: route_snapshot_wf_def rd_route_snapshot_def w_route_snapshot_def bind_eq_Some_conv
        dest!: fixed_codec.read_canonical digest_codec.read_data currentness_codec.read_data
          route_record_codec.read_canonical split: if_splits)
qed

text \<open>What the codecs of the messages rest on, in the two directions.\<close>

lemma status_write: "diagnostic_wf detail \<Longrightarrow> rd_status (w_status code detail @ rest) = Some ((code, detail), rest)"
  using status_codec.read_write [of "(code, detail)"] by simp

lemma status_canonical:
  "rd_status data = Some ((code, detail), rest) \<Longrightarrow> diagnostic_wf detail \<and> data = w_status code detail @ rest"
  using status_codec.read_canonical [of data "(code, detail)"] by simp

lemma diagnostic_write: "diagnostic_wf s \<Longrightarrow> rd_string kMaxDiagnosticChars (w_string s @ rest) = Some (s, rest)"
  by (simp add: diagnostic_wf_def codec diagnostic_wf_length)

lemma name_write: "length s \<le> 64 \<Longrightarrow> rd_string 64 (w_string s @ rest) = Some (s, rest)"
  by (simp add: codec)

lemma explanation_write:
  "length s \<le> kMaxDiagnosticChars * 8 \<Longrightarrow> rd_string (kMaxDiagnosticChars * 8) (w_string s @ rest) = Some (s, rest)"
  by (simp add: codec kMaxDiagnosticChars_def)

lemmas message =
  codec wire_counter_codec.read_write digest_codec.read_write [OF TrueI] status_write context_codec.read_write
  counter_fields_codec.read_write [OF TrueI] publisher_scope_codec.read_write route_snapshot_codec.read_write
  diagnostic_write name_write explanation_write

lemmas message_canonical =
  part_canonical word_canonical boolean_codec.read_data route_binding_codec.read_canonical
  wire_counter_codec.read_canonical digest_codec.read_data status_canonical context_codec.read_canonical
  counter_fields_codec.read_data publisher_scope_codec.read_canonical route_snapshot_codec.read_canonical
  fencing_reason_codec.read_data completion_disposition_codec.read_data backend_presence_codec.read_data
  programming_outcome_codec.read_data currentness_codec.read_data

section \<open>Messages\<close>

record hello_request =
  hq_wire_version :: u16
  hq_client_name :: string

definition encode_HelloRequest :: "hello_request \<Rightarrow> bytes" where
  "encode_HelloRequest m =
     w_u16 (hq_wire_version m) @ w_string (hq_client_name m)"

definition rd_HelloRequest :: "wire_constants \<Rightarrow> hello_request reader" where
  "rd_HelloRequest wc data = do {
     (wire_version, data) \<leftarrow> rd_u16 data;
     if wire_version \<noteq> kWireProtocolVersion wc then None else do {
     (client_name, data) \<leftarrow> rd_string 64 data;
     Some (\<lparr>hq_wire_version = wire_version, hq_client_name = client_name\<rparr>, data) } }"

definition decode_HelloRequest :: "wire_constants \<Rightarrow> bytes \<Rightarrow> hello_request option" where
  "decode_HelloRequest wc payload = decode_payload (rd_HelloRequest wc) payload"

definition hello_request_wf :: "wire_constants \<Rightarrow> hello_request \<Rightarrow> bool" where
  "hello_request_wf wc m \<longleftrightarrow> hq_wire_version m = kWireProtocolVersion wc \<and> length (hq_client_name m) \<le> 64"

interpretation hello_request_codec: codec encode_HelloRequest "rd_HelloRequest wc" "hello_request_wf wc" for wc
proof unfold_locales
  show "hello_request_wf wc m \<Longrightarrow> rd_HelloRequest wc (encode_HelloRequest m @ rest) = Some (m, rest)" for m rest
    by (cases m) (simp add: hello_request_wf_def rd_HelloRequest_def encode_HelloRequest_def message)
  show "rd_HelloRequest wc data = Some (m, rest) \<Longrightarrow> hello_request_wf wc m \<and> data = encode_HelloRequest m @ rest" for data m rest
    by (auto simp: hello_request_wf_def rd_HelloRequest_def encode_HelloRequest_def bind_eq_Some_conv diagnostic_wf_def
        dest!: message_canonical split: if_splits)
qed

record hello_result =
  hr_status :: status_code
  hr_detail :: string
  hr_wire_version :: u16
  hr_epoch :: coordinator_epoch
  hr_fabric :: fabric_id
  hr_backend :: backend_id
  hr_backend_read_only :: bool

definition encode_HelloResult :: "hello_result \<Rightarrow> bytes" where
  "encode_HelloResult m =
     w_status (hr_status m) (hr_detail m) @ w_u16 (hr_wire_version m) @ w_counter (hr_epoch m) @
     w_token (hr_fabric m) @ w_token (hr_backend m) @ w_boolean (hr_backend_read_only m)"

definition rd_HelloResult :: "wire_constants \<Rightarrow> hello_result reader" where
  "rd_HelloResult wc data = do {
     ((status, detail), data) \<leftarrow> rd_status data;
     (wire_version, data) \<leftarrow> rd_u16 data;
     if wire_version \<noteq> kWireProtocolVersion wc then None else do {
     (epoch, data) \<leftarrow> rd_counter data;
     (fabric, data) \<leftarrow> rd_token data;
     (backend, data) \<leftarrow> rd_token data;
     (backend_read_only, data) \<leftarrow> rd_boolean data;
     Some (\<lparr>hr_status = status, hr_detail = detail, hr_wire_version = wire_version,
            hr_epoch = epoch, hr_fabric = fabric, hr_backend = backend,
            hr_backend_read_only = backend_read_only\<rparr>, data) } }"

definition decode_HelloResult :: "wire_constants \<Rightarrow> bytes \<Rightarrow> hello_result option" where
  "decode_HelloResult wc payload = decode_payload (rd_HelloResult wc) payload"

definition hello_result_wf :: "wire_constants \<Rightarrow> hello_result \<Rightarrow> bool" where
  "hello_result_wf wc m \<longleftrightarrow> diagnostic_wf (hr_detail m) \<and> hr_wire_version m = kWireProtocolVersion wc \<and>
     counter_wire_valid (hr_epoch m) \<and> token_is_valid (hr_fabric m) \<and>
     token_is_valid (hr_backend m)"

interpretation hello_result_codec: codec encode_HelloResult "rd_HelloResult wc" "hello_result_wf wc" for wc
proof unfold_locales
  show "hello_result_wf wc m \<Longrightarrow> rd_HelloResult wc (encode_HelloResult m @ rest) = Some (m, rest)" for m rest
    by (cases m) (simp add: hello_result_wf_def rd_HelloResult_def encode_HelloResult_def message)
  show "rd_HelloResult wc data = Some (m, rest) \<Longrightarrow> hello_result_wf wc m \<and> data = encode_HelloResult m @ rest" for data m rest
    by (auto simp: hello_result_wf_def rd_HelloResult_def encode_HelloResult_def bind_eq_Some_conv diagnostic_wf_def
        dest!: message_canonical split: if_splits)
qed

record register_publisher_request =
  gq_context :: request_context
  gq_scope :: publisher_scope

definition encode_RegisterPublisherRequest :: "register_publisher_request \<Rightarrow> bytes" where
  "encode_RegisterPublisherRequest m =
     w_context (gq_context m) @ w_publisher_scope (gq_scope m)"

definition rd_RegisterPublisherRequest :: "limits \<Rightarrow> register_publisher_request reader" where
  "rd_RegisterPublisherRequest limits data = do {
     (context, data) \<leftarrow> rd_context data;
     (scope, data) \<leftarrow> rd_publisher_scope limits data;
     Some (\<lparr>gq_context = context, gq_scope = scope\<rparr>, data) }"

definition decode_RegisterPublisherRequest :: "limits \<Rightarrow> bytes \<Rightarrow> register_publisher_request option" where
  "decode_RegisterPublisherRequest limits payload = decode_payload (rd_RegisterPublisherRequest limits) payload"

definition register_publisher_request_wf :: "limits \<Rightarrow> register_publisher_request \<Rightarrow> bool" where
  "register_publisher_request_wf limits m \<longleftrightarrow> context_wf (gq_context m) \<and> publisher_scope_wf limits (gq_scope m)"

interpretation register_publisher_request_codec: codec encode_RegisterPublisherRequest "rd_RegisterPublisherRequest limits" "register_publisher_request_wf limits" for limits
proof unfold_locales
  show "register_publisher_request_wf limits m \<Longrightarrow> rd_RegisterPublisherRequest limits (encode_RegisterPublisherRequest m @ rest) = Some (m, rest)" for m rest
    by (cases m) (simp add: register_publisher_request_wf_def rd_RegisterPublisherRequest_def encode_RegisterPublisherRequest_def message)
  show "rd_RegisterPublisherRequest limits data = Some (m, rest) \<Longrightarrow> register_publisher_request_wf limits m \<and> data = encode_RegisterPublisherRequest m @ rest" for data m rest
    by (auto simp: register_publisher_request_wf_def rd_RegisterPublisherRequest_def encode_RegisterPublisherRequest_def bind_eq_Some_conv diagnostic_wf_def
        dest!: message_canonical split: if_splits)
qed

record register_publisher_result =
  gr_status :: status_code
  gr_detail :: string
  gr_epoch :: coordinator_epoch

definition encode_RegisterPublisherResult :: "register_publisher_result \<Rightarrow> bytes" where
  "encode_RegisterPublisherResult m =
     w_status (gr_status m) (gr_detail m) @ w_optional_counter (gr_epoch m)"

definition rd_RegisterPublisherResult :: "register_publisher_result reader" where
  "rd_RegisterPublisherResult data = do {
     ((status, detail), data) \<leftarrow> rd_status data;
     (epoch, data) \<leftarrow> rd_wire_counter data;
     Some (\<lparr>gr_status = status, gr_detail = detail, gr_epoch = epoch\<rparr>, data) }"

definition decode_RegisterPublisherResult :: "bytes \<Rightarrow> register_publisher_result option" where
  "decode_RegisterPublisherResult payload = decode_payload rd_RegisterPublisherResult payload"

definition register_publisher_result_wf :: "register_publisher_result \<Rightarrow> bool" where
  "register_publisher_result_wf m \<longleftrightarrow> diagnostic_wf (gr_detail m) \<and> gr_epoch m \<le> kMaxValue"

interpretation register_publisher_result_codec: codec encode_RegisterPublisherResult rd_RegisterPublisherResult register_publisher_result_wf
proof unfold_locales
  show "register_publisher_result_wf m \<Longrightarrow> rd_RegisterPublisherResult (encode_RegisterPublisherResult m @ rest) = Some (m, rest)" for m rest
    by (cases m) (simp add: register_publisher_result_wf_def rd_RegisterPublisherResult_def encode_RegisterPublisherResult_def message)
  show "rd_RegisterPublisherResult data = Some (m, rest) \<Longrightarrow> register_publisher_result_wf m \<and> data = encode_RegisterPublisherResult m @ rest" for data m rest
    by (auto simp: register_publisher_result_wf_def rd_RegisterPublisherResult_def encode_RegisterPublisherResult_def bind_eq_Some_conv diagnostic_wf_def
        dest!: message_canonical split: if_splits)
qed

record publish_route_request =
  pbq_context :: request_context
  pbq_key :: route_key
  pbq_binding :: route_binding
  pbq_policy_generation :: policy_generation
  pbq_expected_generation :: route_generation
  pbq_lineage :: route_id
  pbq_reason :: string

definition encode_PublishRouteRequest :: "publish_route_request \<Rightarrow> bytes" where
  "encode_PublishRouteRequest m =
     w_context (pbq_context m) @ w_route_key (pbq_key m) @ w_route_binding (pbq_binding m) @
     w_counter (pbq_policy_generation m) @ w_optional_counter (pbq_expected_generation m) @
     w_optional_fixed (pbq_lineage m) @ w_string (pbq_reason m)"

definition rd_PublishRouteRequest :: "limits \<Rightarrow> publish_route_request reader" where
  "rd_PublishRouteRequest limits data = do {
     (context, data) \<leftarrow> rd_context data;
     (key, data) \<leftarrow> rd_route_key (max_destination_chars limits) data;
     (binding, data) \<leftarrow> rd_route_binding data;
     (policy_generation, data) \<leftarrow> rd_counter data;
     (expected_generation, data) \<leftarrow> rd_wire_counter data;
     (lineage, data) \<leftarrow> rd_optional_fixed data;
     (reason, data) \<leftarrow> rd_string kMaxDiagnosticChars data;
     Some (\<lparr>pbq_context = context, pbq_key = key, pbq_binding = binding,
            pbq_policy_generation = policy_generation,
            pbq_expected_generation = expected_generation, pbq_lineage = lineage,
            pbq_reason = reason\<rparr>, data) }"

definition decode_PublishRouteRequest :: "limits \<Rightarrow> bytes \<Rightarrow> publish_route_request option" where
  "decode_PublishRouteRequest limits payload = decode_payload (rd_PublishRouteRequest limits) payload"

definition publish_route_request_wf :: "limits \<Rightarrow> publish_route_request \<Rightarrow> bool" where
  "publish_route_request_wf limits m \<longleftrightarrow> context_wf (pbq_context m) \<and>
     route_key_wf (max_destination_chars limits) (pbq_key m) \<and>
     route_binding_wf (pbq_binding m) \<and> counter_wire_valid (pbq_policy_generation m) \<and>
     pbq_expected_generation m \<le> kMaxValue \<and> diagnostic_wf (pbq_reason m)"

interpretation publish_route_request_codec: codec encode_PublishRouteRequest "rd_PublishRouteRequest limits" "publish_route_request_wf limits" for limits
proof unfold_locales
  show "publish_route_request_wf limits m \<Longrightarrow> rd_PublishRouteRequest limits (encode_PublishRouteRequest m @ rest) = Some (m, rest)" for m rest
    by (cases m) (simp add: publish_route_request_wf_def rd_PublishRouteRequest_def encode_PublishRouteRequest_def message)
  show "rd_PublishRouteRequest limits data = Some (m, rest) \<Longrightarrow> publish_route_request_wf limits m \<and> data = encode_PublishRouteRequest m @ rest" for data m rest
    by (auto simp: publish_route_request_wf_def rd_PublishRouteRequest_def encode_PublishRouteRequest_def bind_eq_Some_conv diagnostic_wf_def
        dest!: message_canonical split: if_splits)
qed

record publish_route_result =
  pbr_status :: status_code
  pbr_detail :: string
  pbr_route :: route_id
  pbr_generation :: route_generation
  pbr_authority_generation :: route_authority_generation
  pbr_lifecycle :: route_lifecycle
  pbr_applied :: applied_classification
  pbr_currentness :: route_currentness
  pbr_idempotent :: bool
  pbr_replaced :: bool

definition encode_PublishRouteResult :: "publish_route_result \<Rightarrow> bytes" where
  "encode_PublishRouteResult m =
     w_status (pbr_status m) (pbr_detail m) @ w_optional_fixed (pbr_route m) @
     w_optional_counter (pbr_generation m) @ w_optional_counter (pbr_authority_generation m) @
     w_u8 (lifecycle_raw (pbr_lifecycle m)) @ w_u8 (applied_classification_raw (pbr_applied m)) @
     w_u8 (currentness_raw (pbr_currentness m)) @ w_boolean (pbr_idempotent m) @
     w_boolean (pbr_replaced m)"

definition rd_PublishRouteResult :: "publish_route_result reader" where
  "rd_PublishRouteResult data = do {
     ((status, detail), data) \<leftarrow> rd_status data;
     (route, data) \<leftarrow> rd_optional_fixed data;
     (generation, data) \<leftarrow> rd_wire_counter data;
     (authority_generation, data) \<leftarrow> rd_wire_counter data;
     (lifecycle, data) \<leftarrow> rd_enum lifecycle_raw lifecycle_values data;
     (applied, data) \<leftarrow> rd_enum applied_classification_raw applied_classification_values data;
     (currentness, data) \<leftarrow> rd_enum currentness_raw currentness_values data;
     (idempotent, data) \<leftarrow> rd_boolean data;
     (replaced, data) \<leftarrow> rd_boolean data;
     Some (\<lparr>pbr_status = status, pbr_detail = detail, pbr_route = route,
            pbr_generation = generation, pbr_authority_generation = authority_generation,
            pbr_lifecycle = lifecycle, pbr_applied = applied, pbr_currentness = currentness,
            pbr_idempotent = idempotent, pbr_replaced = replaced\<rparr>, data) }"

definition decode_PublishRouteResult :: "bytes \<Rightarrow> publish_route_result option" where
  "decode_PublishRouteResult payload = decode_payload rd_PublishRouteResult payload"

definition publish_route_result_wf :: "publish_route_result \<Rightarrow> bool" where
  "publish_route_result_wf m \<longleftrightarrow> diagnostic_wf (pbr_detail m) \<and> pbr_generation m \<le> kMaxValue \<and>
     pbr_authority_generation m \<le> kMaxValue"

interpretation publish_route_result_codec: codec encode_PublishRouteResult rd_PublishRouteResult publish_route_result_wf
proof unfold_locales
  show "publish_route_result_wf m \<Longrightarrow> rd_PublishRouteResult (encode_PublishRouteResult m @ rest) = Some (m, rest)" for m rest
    by (cases m) (simp add: publish_route_result_wf_def rd_PublishRouteResult_def encode_PublishRouteResult_def message)
  show "rd_PublishRouteResult data = Some (m, rest) \<Longrightarrow> publish_route_result_wf m \<and> data = encode_PublishRouteResult m @ rest" for data m rest
    by (auto simp: publish_route_result_wf_def rd_PublishRouteResult_def encode_PublishRouteResult_def bind_eq_Some_conv diagnostic_wf_def
        dest!: message_canonical split: if_splits)
qed

record route_mutation_request =
  muq_context :: request_context
  muq_route :: route_id
  muq_expected_generation :: route_generation
  muq_reason :: string

definition encode_RouteMutationRequest :: "route_mutation_request \<Rightarrow> bytes" where
  "encode_RouteMutationRequest m =
     w_context (muq_context m) @ w_optional_fixed (muq_route m) @
     w_optional_counter (muq_expected_generation m) @ w_string (muq_reason m)"

definition rd_RouteMutationRequest :: "route_mutation_request reader" where
  "rd_RouteMutationRequest data = do {
     (context, data) \<leftarrow> rd_context data;
     (route, data) \<leftarrow> rd_optional_fixed data;
     (expected_generation, data) \<leftarrow> rd_wire_counter data;
     (reason, data) \<leftarrow> rd_string kMaxDiagnosticChars data;
     Some (\<lparr>muq_context = context, muq_route = route, muq_expected_generation = expected_generation,
            muq_reason = reason\<rparr>, data) }"

definition decode_RouteMutationRequest :: "bytes \<Rightarrow> route_mutation_request option" where
  "decode_RouteMutationRequest payload = decode_payload rd_RouteMutationRequest payload"

definition route_mutation_request_wf :: "route_mutation_request \<Rightarrow> bool" where
  "route_mutation_request_wf m \<longleftrightarrow> context_wf (muq_context m) \<and> muq_expected_generation m \<le> kMaxValue \<and>
     diagnostic_wf (muq_reason m)"

interpretation route_mutation_request_codec: codec encode_RouteMutationRequest rd_RouteMutationRequest route_mutation_request_wf
proof unfold_locales
  show "route_mutation_request_wf m \<Longrightarrow> rd_RouteMutationRequest (encode_RouteMutationRequest m @ rest) = Some (m, rest)" for m rest
    by (cases m) (simp add: route_mutation_request_wf_def rd_RouteMutationRequest_def encode_RouteMutationRequest_def message)
  show "rd_RouteMutationRequest data = Some (m, rest) \<Longrightarrow> route_mutation_request_wf m \<and> data = encode_RouteMutationRequest m @ rest" for data m rest
    by (auto simp: route_mutation_request_wf_def rd_RouteMutationRequest_def encode_RouteMutationRequest_def bind_eq_Some_conv diagnostic_wf_def
        dest!: message_canonical split: if_splits)
qed

record route_mutation_result =
  mur_status :: status_code
  mur_detail :: string
  mur_route :: route_id
  mur_generation :: route_generation
  mur_lifecycle :: route_lifecycle
  mur_applied :: applied_classification
  mur_already_withdrawn :: bool
  mur_withdrawal_in_flight :: bool

definition encode_RouteMutationResult :: "route_mutation_result \<Rightarrow> bytes" where
  "encode_RouteMutationResult m =
     w_status (mur_status m) (mur_detail m) @ w_optional_fixed (mur_route m) @
     w_optional_counter (mur_generation m) @ w_u8 (lifecycle_raw (mur_lifecycle m)) @
     w_u8 (applied_classification_raw (mur_applied m)) @ w_boolean (mur_already_withdrawn m) @
     w_boolean (mur_withdrawal_in_flight m)"

definition rd_RouteMutationResult :: "route_mutation_result reader" where
  "rd_RouteMutationResult data = do {
     ((status, detail), data) \<leftarrow> rd_status data;
     (route, data) \<leftarrow> rd_optional_fixed data;
     (generation, data) \<leftarrow> rd_wire_counter data;
     (lifecycle, data) \<leftarrow> rd_enum lifecycle_raw lifecycle_values data;
     (applied, data) \<leftarrow> rd_enum applied_classification_raw applied_classification_values data;
     (already_withdrawn, data) \<leftarrow> rd_boolean data;
     (withdrawal_in_flight, data) \<leftarrow> rd_boolean data;
     Some (\<lparr>mur_status = status, mur_detail = detail, mur_route = route,
            mur_generation = generation, mur_lifecycle = lifecycle, mur_applied = applied,
            mur_already_withdrawn = already_withdrawn,
            mur_withdrawal_in_flight = withdrawal_in_flight\<rparr>, data) }"

definition decode_RouteMutationResult :: "bytes \<Rightarrow> route_mutation_result option" where
  "decode_RouteMutationResult payload = decode_payload rd_RouteMutationResult payload"

definition route_mutation_result_wf :: "route_mutation_result \<Rightarrow> bool" where
  "route_mutation_result_wf m \<longleftrightarrow> diagnostic_wf (mur_detail m) \<and> mur_generation m \<le> kMaxValue"

interpretation route_mutation_result_codec: codec encode_RouteMutationResult rd_RouteMutationResult route_mutation_result_wf
proof unfold_locales
  show "route_mutation_result_wf m \<Longrightarrow> rd_RouteMutationResult (encode_RouteMutationResult m @ rest) = Some (m, rest)" for m rest
    by (cases m) (simp add: route_mutation_result_wf_def rd_RouteMutationResult_def encode_RouteMutationResult_def message)
  show "rd_RouteMutationResult data = Some (m, rest) \<Longrightarrow> route_mutation_result_wf m \<and> data = encode_RouteMutationResult m @ rest" for data m rest
    by (auto simp: route_mutation_result_wf_def rd_RouteMutationResult_def encode_RouteMutationResult_def bind_eq_Some_conv diagnostic_wf_def
        dest!: message_canonical split: if_splits)
qed

record query_route_request =
  qq_by_key :: bool
  qq_key :: route_key
  qq_route :: route_id

definition encode_QueryRouteRequest :: "query_route_request \<Rightarrow> bytes" where
  "encode_QueryRouteRequest m =
     w_boolean (qq_by_key m) @ w_route_key (qq_key m) @ w_optional_fixed (qq_route m)"

definition rd_QueryRouteRequest :: "limits \<Rightarrow> query_route_request reader" where
  "rd_QueryRouteRequest limits data = do {
     (by_key, data) \<leftarrow> rd_boolean data;
     (key, data) \<leftarrow> rd_route_key (max_destination_chars limits) data;
     (route, data) \<leftarrow> rd_optional_fixed data;
     Some (\<lparr>qq_by_key = by_key, qq_key = key, qq_route = route\<rparr>, data) }"

definition decode_QueryRouteRequest :: "limits \<Rightarrow> bytes \<Rightarrow> query_route_request option" where
  "decode_QueryRouteRequest limits payload = decode_payload (rd_QueryRouteRequest limits) payload"

definition query_route_request_wf :: "limits \<Rightarrow> query_route_request \<Rightarrow> bool" where
  "query_route_request_wf limits m \<longleftrightarrow> route_key_wf (max_destination_chars limits) (qq_key m)"

interpretation query_route_request_codec: codec encode_QueryRouteRequest "rd_QueryRouteRequest limits" "query_route_request_wf limits" for limits
proof unfold_locales
  show "query_route_request_wf limits m \<Longrightarrow> rd_QueryRouteRequest limits (encode_QueryRouteRequest m @ rest) = Some (m, rest)" for m rest
    by (cases m) (simp add: query_route_request_wf_def rd_QueryRouteRequest_def encode_QueryRouteRequest_def message)
  show "rd_QueryRouteRequest limits data = Some (m, rest) \<Longrightarrow> query_route_request_wf limits m \<and> data = encode_QueryRouteRequest m @ rest" for data m rest
    by (auto simp: query_route_request_wf_def rd_QueryRouteRequest_def encode_QueryRouteRequest_def bind_eq_Some_conv diagnostic_wf_def
        dest!: message_canonical split: if_splits)
qed

record query_route_result =
  qr_status :: status_code
  qr_detail :: string
  qr_found :: bool
  qr_snapshot :: route_snapshot

definition encode_QueryRouteResult :: "query_route_result \<Rightarrow> bytes" where
  "encode_QueryRouteResult m =
     w_status (qr_status m) (qr_detail m) @ w_boolean (qr_found m) @
     w_route_snapshot (qr_snapshot m)"

definition rd_QueryRouteResult :: "limits \<Rightarrow> query_route_result reader" where
  "rd_QueryRouteResult limits data = do {
     ((status, detail), data) \<leftarrow> rd_status data;
     (found, data) \<leftarrow> rd_boolean data;
     (snapshot, data) \<leftarrow> rd_route_snapshot limits data;
     Some (\<lparr>qr_status = status, qr_detail = detail, qr_found = found, qr_snapshot = snapshot\<rparr>, data) }"

definition decode_QueryRouteResult :: "limits \<Rightarrow> bytes \<Rightarrow> query_route_result option" where
  "decode_QueryRouteResult limits payload = decode_payload (rd_QueryRouteResult limits) payload"

definition query_route_result_wf :: "limits \<Rightarrow> query_route_result \<Rightarrow> bool" where
  "query_route_result_wf limits m \<longleftrightarrow> diagnostic_wf (qr_detail m) \<and> route_snapshot_wf limits (qr_snapshot m)"

interpretation query_route_result_codec: codec encode_QueryRouteResult "rd_QueryRouteResult limits" "query_route_result_wf limits" for limits
proof unfold_locales
  show "query_route_result_wf limits m \<Longrightarrow> rd_QueryRouteResult limits (encode_QueryRouteResult m @ rest) = Some (m, rest)" for m rest
    by (cases m) (simp add: query_route_result_wf_def rd_QueryRouteResult_def encode_QueryRouteResult_def message)
  show "rd_QueryRouteResult limits data = Some (m, rest) \<Longrightarrow> query_route_result_wf limits m \<and> data = encode_QueryRouteResult m @ rest" for data m rest
    by (auto simp: query_route_result_wf_def rd_QueryRouteResult_def encode_QueryRouteResult_def bind_eq_Some_conv diagnostic_wf_def
        dest!: message_canonical split: if_splits)
qed

record snapshot_request =
  sq_epoch :: coordinator_epoch

definition encode_SnapshotRequest :: "snapshot_request \<Rightarrow> bytes" where
  "encode_SnapshotRequest m =
     w_optional_counter (sq_epoch m)"

definition rd_SnapshotRequest :: "snapshot_request reader" where
  "rd_SnapshotRequest data = do {
     (epoch, data) \<leftarrow> rd_wire_counter data;
     Some (\<lparr>sq_epoch = epoch\<rparr>, data) }"

definition decode_SnapshotRequest :: "bytes \<Rightarrow> snapshot_request option" where
  "decode_SnapshotRequest payload = decode_payload rd_SnapshotRequest payload"

definition snapshot_request_wf :: "snapshot_request \<Rightarrow> bool" where
  "snapshot_request_wf m \<longleftrightarrow> sq_epoch m \<le> kMaxValue"

interpretation snapshot_request_codec: codec encode_SnapshotRequest rd_SnapshotRequest snapshot_request_wf
proof unfold_locales
  show "snapshot_request_wf m \<Longrightarrow> rd_SnapshotRequest (encode_SnapshotRequest m @ rest) = Some (m, rest)" for m rest
    by (cases m) (simp add: snapshot_request_wf_def rd_SnapshotRequest_def encode_SnapshotRequest_def message)
  show "rd_SnapshotRequest data = Some (m, rest) \<Longrightarrow> snapshot_request_wf m \<and> data = encode_SnapshotRequest m @ rest" for data m rest
    by (auto simp: snapshot_request_wf_def rd_SnapshotRequest_def encode_SnapshotRequest_def bind_eq_Some_conv diagnostic_wf_def
        dest!: message_canonical split: if_splits)
qed

record fence_notice =
  fn_publisher :: publisher_id
  fn_worker_boot :: worker_boot_id
  fn_reason :: fencing_reason
  fn_epoch :: coordinator_epoch

definition encode_FenceNotice :: "fence_notice \<Rightarrow> bytes" where
  "encode_FenceNotice m =
     w_token (fn_publisher m) @ w_fixed (fn_worker_boot m) @
     w_u8 (fencing_reason_raw (fn_reason m)) @ w_counter (fn_epoch m)"

definition rd_FenceNotice :: "fence_notice reader" where
  "rd_FenceNotice data = do {
     (publisher, data) \<leftarrow> rd_token data;
     (worker_boot, data) \<leftarrow> rd_fixed data;
     (reason, data) \<leftarrow> rd_enum fencing_reason_raw fencing_reason_values data;
     (epoch, data) \<leftarrow> rd_counter data;
     Some (\<lparr>fn_publisher = publisher, fn_worker_boot = worker_boot, fn_reason = reason,
            fn_epoch = epoch\<rparr>, data) }"

definition decode_FenceNotice :: "bytes \<Rightarrow> fence_notice option" where
  "decode_FenceNotice payload = decode_payload rd_FenceNotice payload"

definition fence_notice_wf :: "fence_notice \<Rightarrow> bool" where
  "fence_notice_wf m \<longleftrightarrow> token_is_valid (fn_publisher m) \<and> fn_worker_boot m \<noteq> 0 \<and>
     counter_wire_valid (fn_epoch m)"

interpretation fence_notice_codec: codec encode_FenceNotice rd_FenceNotice fence_notice_wf
proof unfold_locales
  show "fence_notice_wf m \<Longrightarrow> rd_FenceNotice (encode_FenceNotice m @ rest) = Some (m, rest)" for m rest
    by (cases m) (simp add: fence_notice_wf_def rd_FenceNotice_def encode_FenceNotice_def message)
  show "rd_FenceNotice data = Some (m, rest) \<Longrightarrow> fence_notice_wf m \<and> data = encode_FenceNotice m @ rest" for data m rest
    by (auto simp: fence_notice_wf_def rd_FenceNotice_def encode_FenceNotice_def bind_eq_Some_conv diagnostic_wf_def
        dest!: message_canonical split: if_splits)
qed

record error_message =
  em_status :: status_code
  em_detail :: string

definition encode_ErrorMessage :: "error_message \<Rightarrow> bytes" where
  "encode_ErrorMessage m =
     w_status (em_status m) (em_detail m)"

definition rd_ErrorMessage :: "error_message reader" where
  "rd_ErrorMessage data = do {
     ((status, detail), data) \<leftarrow> rd_status data;
     Some (\<lparr>em_status = status, em_detail = detail\<rparr>, data) }"

definition decode_ErrorMessage :: "bytes \<Rightarrow> error_message option" where
  "decode_ErrorMessage payload = decode_payload rd_ErrorMessage payload"

definition error_message_wf :: "error_message \<Rightarrow> bool" where
  "error_message_wf m \<longleftrightarrow> diagnostic_wf (em_detail m)"

interpretation error_message_codec: codec encode_ErrorMessage rd_ErrorMessage error_message_wf
proof unfold_locales
  show "error_message_wf m \<Longrightarrow> rd_ErrorMessage (encode_ErrorMessage m @ rest) = Some (m, rest)" for m rest
    by (cases m) (simp add: error_message_wf_def rd_ErrorMessage_def encode_ErrorMessage_def message)
  show "rd_ErrorMessage data = Some (m, rest) \<Longrightarrow> error_message_wf m \<and> data = encode_ErrorMessage m @ rest" for data m rest
    by (auto simp: error_message_wf_def rd_ErrorMessage_def encode_ErrorMessage_def bind_eq_Some_conv diagnostic_wf_def
        dest!: message_canonical split: if_splits)
qed

record reconcile_request =
  rcq_context :: request_context
  rcq_all :: bool
  rcq_route :: route_id

definition encode_ReconcileRequest :: "reconcile_request \<Rightarrow> bytes" where
  "encode_ReconcileRequest m =
     w_context (rcq_context m) @ w_boolean (rcq_all m) @ w_optional_fixed (rcq_route m)"

definition rd_ReconcileRequest :: "reconcile_request reader" where
  "rd_ReconcileRequest data = do {
     (context, data) \<leftarrow> rd_context data;
     (all, data) \<leftarrow> rd_boolean data;
     (route, data) \<leftarrow> rd_optional_fixed data;
     Some (\<lparr>rcq_context = context, rcq_all = all, rcq_route = route\<rparr>, data) }"

definition decode_ReconcileRequest :: "bytes \<Rightarrow> reconcile_request option" where
  "decode_ReconcileRequest payload = decode_payload rd_ReconcileRequest payload"

definition reconcile_request_wf :: "reconcile_request \<Rightarrow> bool" where
  "reconcile_request_wf m \<longleftrightarrow> context_wf (rcq_context m)"

interpretation reconcile_request_codec: codec encode_ReconcileRequest rd_ReconcileRequest reconcile_request_wf
proof unfold_locales
  show "reconcile_request_wf m \<Longrightarrow> rd_ReconcileRequest (encode_ReconcileRequest m @ rest) = Some (m, rest)" for m rest
    by (cases m) (simp add: reconcile_request_wf_def rd_ReconcileRequest_def encode_ReconcileRequest_def message)
  show "rd_ReconcileRequest data = Some (m, rest) \<Longrightarrow> reconcile_request_wf m \<and> data = encode_ReconcileRequest m @ rest" for data m rest
    by (auto simp: reconcile_request_wf_def rd_ReconcileRequest_def encode_ReconcileRequest_def bind_eq_Some_conv diagnostic_wf_def
        dest!: message_canonical split: if_splits)
qed

record epoch_result =
  er_status :: status_code
  er_detail :: string
  er_epoch :: coordinator_epoch

definition encode_EpochResult :: "epoch_result \<Rightarrow> bytes" where
  "encode_EpochResult m =
     w_status (er_status m) (er_detail m) @ w_optional_counter (er_epoch m)"

definition rd_EpochResult :: "epoch_result reader" where
  "rd_EpochResult data = do {
     ((status, detail), data) \<leftarrow> rd_status data;
     (epoch, data) \<leftarrow> rd_wire_counter data;
     Some (\<lparr>er_status = status, er_detail = detail, er_epoch = epoch\<rparr>, data) }"

definition decode_EpochResult :: "bytes \<Rightarrow> epoch_result option" where
  "decode_EpochResult payload = decode_payload rd_EpochResult payload"

definition epoch_result_wf :: "epoch_result \<Rightarrow> bool" where
  "epoch_result_wf m \<longleftrightarrow> diagnostic_wf (er_detail m) \<and> er_epoch m \<le> kMaxValue"

interpretation epoch_result_codec: codec encode_EpochResult rd_EpochResult epoch_result_wf
proof unfold_locales
  show "epoch_result_wf m \<Longrightarrow> rd_EpochResult (encode_EpochResult m @ rest) = Some (m, rest)" for m rest
    by (cases m) (simp add: epoch_result_wf_def rd_EpochResult_def encode_EpochResult_def message)
  show "rd_EpochResult data = Some (m, rest) \<Longrightarrow> epoch_result_wf m \<and> data = encode_EpochResult m @ rest" for data m rest
    by (auto simp: epoch_result_wf_def rd_EpochResult_def encode_EpochResult_def bind_eq_Some_conv diagnostic_wf_def
        dest!: message_canonical split: if_splits)
qed

record statistics_result =
  sr_status :: status_code
  sr_detail :: string
  sr_epoch :: coordinator_epoch
  sr_state_digest :: digest128
  sr_route_count :: u64
  sr_installed_count :: u64
  sr_current_count :: u64
  sr_revalidation_required_count :: u64
  sr_withdrawn_count :: u64
  sr_retired_count :: u64
  sr_failed_count :: u64
  sr_superseded_count :: u64
  sr_publisher_count :: u64
  sr_path_dependency_count :: u64
  sr_outstanding_programming_count :: u64
  sr_revocation_count :: u64
  sr_routing_namespace_count :: u64
  sr_counters :: route_counters

definition encode_StatisticsResult :: "statistics_result \<Rightarrow> bytes" where
  "encode_StatisticsResult m =
     w_status (sr_status m) (sr_detail m) @ w_counter (sr_epoch m) @
     array16_bytes (sr_state_digest m) @ w_u64 (sr_route_count m) @ w_u64 (sr_installed_count m) @
     w_u64 (sr_current_count m) @ w_u64 (sr_revalidation_required_count m) @
     w_u64 (sr_withdrawn_count m) @ w_u64 (sr_retired_count m) @ w_u64 (sr_failed_count m) @
     w_u64 (sr_superseded_count m) @ w_u64 (sr_publisher_count m) @
     w_u64 (sr_path_dependency_count m) @ w_u64 (sr_outstanding_programming_count m) @
     w_u64 (sr_revocation_count m) @ w_u64 (sr_routing_namespace_count m) @
     w_counter_fields (sr_counters m)"

definition rd_StatisticsResult :: "statistics_result reader" where
  "rd_StatisticsResult data = do {
     ((status, detail), data) \<leftarrow> rd_status data;
     (epoch, data) \<leftarrow> rd_counter data;
     (state_digest, data) \<leftarrow> rd_digest data;
     (route_count, data) \<leftarrow> rd_u64 data;
     (installed_count, data) \<leftarrow> rd_u64 data;
     (current_count, data) \<leftarrow> rd_u64 data;
     (revalidation_required_count, data) \<leftarrow> rd_u64 data;
     (withdrawn_count, data) \<leftarrow> rd_u64 data;
     (retired_count, data) \<leftarrow> rd_u64 data;
     (failed_count, data) \<leftarrow> rd_u64 data;
     (superseded_count, data) \<leftarrow> rd_u64 data;
     (publisher_count, data) \<leftarrow> rd_u64 data;
     (path_dependency_count, data) \<leftarrow> rd_u64 data;
     (outstanding_programming_count, data) \<leftarrow> rd_u64 data;
     (revocation_count, data) \<leftarrow> rd_u64 data;
     (routing_namespace_count, data) \<leftarrow> rd_u64 data;
     (counters, data) \<leftarrow> rd_counter_fields data;
     Some (\<lparr>sr_status = status, sr_detail = detail, sr_epoch = epoch,
            sr_state_digest = state_digest, sr_route_count = route_count,
            sr_installed_count = installed_count, sr_current_count = current_count,
            sr_revalidation_required_count = revalidation_required_count,
            sr_withdrawn_count = withdrawn_count, sr_retired_count = retired_count,
            sr_failed_count = failed_count, sr_superseded_count = superseded_count,
            sr_publisher_count = publisher_count, sr_path_dependency_count = path_dependency_count,
            sr_outstanding_programming_count = outstanding_programming_count,
            sr_revocation_count = revocation_count,
            sr_routing_namespace_count = routing_namespace_count, sr_counters = counters\<rparr>, data) }"

definition decode_StatisticsResult :: "bytes \<Rightarrow> statistics_result option" where
  "decode_StatisticsResult payload = decode_payload rd_StatisticsResult payload"

definition statistics_result_wf :: "statistics_result \<Rightarrow> bool" where
  "statistics_result_wf m \<longleftrightarrow> diagnostic_wf (sr_detail m) \<and> counter_wire_valid (sr_epoch m)"

interpretation statistics_result_codec: codec encode_StatisticsResult rd_StatisticsResult statistics_result_wf
proof unfold_locales
  show "statistics_result_wf m \<Longrightarrow> rd_StatisticsResult (encode_StatisticsResult m @ rest) = Some (m, rest)" for m rest
    by (cases m) (simp add: statistics_result_wf_def rd_StatisticsResult_def encode_StatisticsResult_def message)
  show "rd_StatisticsResult data = Some (m, rest) \<Longrightarrow> statistics_result_wf m \<and> data = encode_StatisticsResult m @ rest" for data m rest
    by (auto simp: statistics_result_wf_def rd_StatisticsResult_def encode_StatisticsResult_def bind_eq_Some_conv diagnostic_wf_def
        dest!: message_canonical split: if_splits)
qed

record apply_completion_result =
  acr_status :: status_code
  acr_detail :: string
  acr_disposition :: completion_disposition

definition encode_ApplyCompletionResult :: "apply_completion_result \<Rightarrow> bytes" where
  "encode_ApplyCompletionResult m =
     w_status (acr_status m) (acr_detail m) @ w_u8 (completion_disposition_raw (acr_disposition m))"

definition rd_ApplyCompletionResult :: "apply_completion_result reader" where
  "rd_ApplyCompletionResult data = do {
     ((status, detail), data) \<leftarrow> rd_status data;
     (disposition, data) \<leftarrow> rd_enum completion_disposition_raw completion_disposition_values data;
     Some (\<lparr>acr_status = status, acr_detail = detail, acr_disposition = disposition\<rparr>, data) }"

definition decode_ApplyCompletionResult :: "bytes \<Rightarrow> apply_completion_result option" where
  "decode_ApplyCompletionResult payload = decode_payload rd_ApplyCompletionResult payload"

definition apply_completion_result_wf :: "apply_completion_result \<Rightarrow> bool" where
  "apply_completion_result_wf m \<longleftrightarrow> diagnostic_wf (acr_detail m)"

interpretation apply_completion_result_codec: codec encode_ApplyCompletionResult rd_ApplyCompletionResult apply_completion_result_wf
proof unfold_locales
  show "apply_completion_result_wf m \<Longrightarrow> rd_ApplyCompletionResult (encode_ApplyCompletionResult m @ rest) = Some (m, rest)" for m rest
    by (cases m) (simp add: apply_completion_result_wf_def rd_ApplyCompletionResult_def encode_ApplyCompletionResult_def message)
  show "rd_ApplyCompletionResult data = Some (m, rest) \<Longrightarrow> apply_completion_result_wf m \<and> data = encode_ApplyCompletionResult m @ rest" for data m rest
    by (auto simp: apply_completion_result_wf_def rd_ApplyCompletionResult_def encode_ApplyCompletionResult_def bind_eq_Some_conv diagnostic_wf_def
        dest!: message_canonical split: if_splits)
qed

section \<open>Messages with repeated, nested or optional parts\<close>

record snapshot_response =
  spr_status :: status_code
  spr_detail :: string
  spr_epoch :: coordinator_epoch
  spr_snapshot_id :: route_snapshot_id
  spr_digest :: digest128
  spr_routes :: "route_snapshot list"

definition encode_SnapshotResponse :: "snapshot_response \<Rightarrow> bytes" where
  "encode_SnapshotResponse m =
     w_status (spr_status m) (spr_detail m) @ w_counter (spr_epoch m) @ w_fixed (spr_snapshot_id m) @
     array16_bytes (spr_digest m) @ w_u32 (of_nat (length (spr_routes m))) @ w_all w_route_snapshot (spr_routes m)"

definition rd_SnapshotResponse :: "limits \<Rightarrow> snapshot_response reader" where
  "rd_SnapshotResponse limits data = do {
     ((status, detail), data) \<leftarrow> rd_status data;
     (epoch, data) \<leftarrow> rd_counter data;
     (snapshot_id, data) \<leftarrow> rd_fixed data;
     (digest, data) \<leftarrow> rd_digest data;
     (routes, data) \<leftarrow> rd_counted (max_snapshot_routes limits) (rd_route_snapshot limits) data;
     Some (\<lparr>spr_status = status, spr_detail = detail, spr_epoch = epoch, spr_snapshot_id = snapshot_id,
            spr_digest = digest, spr_routes = routes\<rparr>, data) }"

definition decode_SnapshotResponse :: "limits \<Rightarrow> bytes \<Rightarrow> snapshot_response option" where
  "decode_SnapshotResponse limits payload = decode_payload (rd_SnapshotResponse limits) payload"

definition snapshot_response_wf :: "limits \<Rightarrow> snapshot_response \<Rightarrow> bool" where
  "snapshot_response_wf limits m \<longleftrightarrow>
     diagnostic_wf (spr_detail m) \<and> counter_wire_valid (spr_epoch m) \<and> spr_snapshot_id m \<noteq> 0 \<and>
     list_all (route_snapshot_wf limits) (spr_routes m) \<and> length (spr_routes m) \<le> max_snapshot_routes limits \<and>
     length (spr_routes m) < 2 ^ 32"

interpretation snapshot_response_codec:
  codec encode_SnapshotResponse "rd_SnapshotResponse limits" "snapshot_response_wf limits" for limits
proof unfold_locales
  note counted = counted_write [OF route_snapshot_codec.codec_axioms]
  show "snapshot_response_wf limits m \<Longrightarrow>
      rd_SnapshotResponse limits (encode_SnapshotResponse m @ rest) = Some (m, rest)" for m rest
    by (cases m)
      (simp add: snapshot_response_wf_def rd_SnapshotResponse_def encode_SnapshotResponse_def message counted)
  show "rd_SnapshotResponse limits data = Some (m, rest) \<Longrightarrow>
      snapshot_response_wf limits m \<and> data = encode_SnapshotResponse m @ rest" for data m rest
    by (auto simp: snapshot_response_wf_def rd_SnapshotResponse_def encode_SnapshotResponse_def bind_eq_Some_conv
        dest!: message_canonical counted_canonical [OF route_snapshot_codec.codec_axioms])
qed

definition route_key_default :: route_key where
  "route_key_default =
     \<lparr>rk_fabric = [], rk_routing_namespace = [], rk_destination = destination_default, rk_route_class = RC_Unicast\<rparr>"

definition w_capabilities :: "backend_capabilities \<Rightarrow> bytes" where
  "w_capabilities c =
     w_boolean (bc_install c) @ w_boolean (bc_replace c) @ w_boolean (bc_withdraw c) @ w_boolean (bc_query c) @
     w_boolean (bc_read_only c)"

definition rd_capabilities :: "backend_capabilities reader" where
  "rd_capabilities data = do {
     (install, data) \<leftarrow> rd_boolean data;
     (replace, data) \<leftarrow> rd_boolean data;
     (withdraw, data) \<leftarrow> rd_boolean data;
     (query, data) \<leftarrow> rd_boolean data;
     (read_only, data) \<leftarrow> rd_boolean data;
     Some (\<lparr>bc_install = install, bc_replace = replace, bc_withdraw = withdraw, bc_query = query,
            bc_read_only = read_only\<rparr>, data) }"

interpretation capabilities_codec: codec w_capabilities rd_capabilities "\<lambda>_. True"
proof unfold_locales
  show "rd_capabilities (w_capabilities c @ rest) = Some (c, rest)" for c rest
    by (cases c) (simp add: rd_capabilities_def w_capabilities_def codec)
  show "rd_capabilities data = Some (c, rest) \<Longrightarrow> True \<and> data = w_capabilities c @ rest" for data c rest
    by (auto simp: rd_capabilities_def w_capabilities_def bind_eq_Some_conv dest!: boolean_codec.read_data)
qed

record backend_state_message =
  bs_status :: status_code
  bs_detail :: string
  bs_backend :: backend_id
  bs_capabilities :: backend_capabilities
  bs_evidence_included :: bool
  bs_key :: route_key
  bs_presence :: backend_presence
  bs_evidence :: string

definition encode_BackendState :: "backend_state_message \<Rightarrow> bytes" where
  "encode_BackendState m =
     w_status (bs_status m) (bs_detail m) @ w_token (bs_backend m) @ w_capabilities (bs_capabilities m) @
     w_boolean (bs_evidence_included m) @
     (if bs_evidence_included m
      then w_route_key (bs_key m) @ w_u8 (backend_presence_raw (bs_presence m)) @ w_string (bs_evidence m)
      else [])"

definition rd_BackendState :: "limits \<Rightarrow> backend_state_message reader" where
  "rd_BackendState limits data = do {
     ((status, detail), data) \<leftarrow> rd_status data;
     (backend, data) \<leftarrow> rd_token data;
     (capabilities, data) \<leftarrow> rd_capabilities data;
     (evidence_included, data) \<leftarrow> rd_boolean data;
     let m = \<lparr>bs_status = status, bs_detail = detail, bs_backend = backend, bs_capabilities = capabilities,
              bs_evidence_included = evidence_included, bs_key = route_key_default, bs_presence = BP_Unknown,
              bs_evidence = []\<rparr>;
     if evidence_included then do {
       (key, data) \<leftarrow> rd_route_key (max_destination_chars limits) data;
       (presence, data) \<leftarrow> rd_enum backend_presence_raw backend_presence_values data;
       (evidence, data) \<leftarrow> rd_string kMaxDiagnosticChars data;
       Some (m\<lparr>bs_key := key, bs_presence := presence, bs_evidence := evidence\<rparr>, data) }
     else Some (m, data) }"

definition decode_BackendState :: "limits \<Rightarrow> bytes \<Rightarrow> backend_state_message option" where
  "decode_BackendState limits payload = decode_payload (rd_BackendState limits) payload"

definition backend_state_wf :: "limits \<Rightarrow> backend_state_message \<Rightarrow> bool" where
  "backend_state_wf limits m \<longleftrightarrow>
     diagnostic_wf (bs_detail m) \<and> token_is_valid (bs_backend m) \<and>
     (if bs_evidence_included m
      then route_key_wf (max_destination_chars limits) (bs_key m) \<and> diagnostic_wf (bs_evidence m)
      else bs_key m = route_key_default \<and> bs_presence m = BP_Unknown \<and> bs_evidence m = [])"

interpretation backend_state_codec: codec encode_BackendState "rd_BackendState limits" "backend_state_wf limits" for limits
proof unfold_locales
  show "backend_state_wf limits m \<Longrightarrow> rd_BackendState limits (encode_BackendState m @ rest) = Some (m, rest)" for m rest
    by (cases m) (auto simp: backend_state_wf_def rd_BackendState_def encode_BackendState_def Let_def message
        capabilities_codec.read_write split: if_splits)
  show "rd_BackendState limits data = Some (m, rest) \<Longrightarrow>
      backend_state_wf limits m \<and> data = encode_BackendState m @ rest" for data m rest
    by (auto simp: backend_state_wf_def rd_BackendState_def encode_BackendState_def Let_def bind_eq_Some_conv
        diagnostic_wf_def dest!: message_canonical capabilities_codec.read_data split: if_splits)
qed

record reconcile_result =
  rcr_status :: status_code
  rcr_detail :: string
  rcr_classification :: observation_class
  rcr_summary :: reconciliation_summary

text \<open>The sizes of a summary travel as 64-bit words.\<close>

definition w_summary :: "reconciliation_summary \<Rightarrow> bytes" where
  "w_summary s =
     w_u64 (of_nat (sm_checked s)) @ w_u64 (of_nat (sm_matched s)) @ w_u64 (of_nat (sm_missing s)) @
     w_u64 (of_nat (sm_diverged s)) @ w_u64 (of_nat (sm_extra s)) @ w_u64 (of_nat (sm_unavailable s))"

definition rd_summary :: "reconciliation_summary reader" where
  "rd_summary data = do {
     (checked, data) \<leftarrow> rd_u64 data;
     (matched, data) \<leftarrow> rd_u64 data;
     (missing, data) \<leftarrow> rd_u64 data;
     (diverged, data) \<leftarrow> rd_u64 data;
     (extra, data) \<leftarrow> rd_u64 data;
     (unavailable, data) \<leftarrow> rd_u64 data;
     Some (\<lparr>sm_checked = unat checked, sm_matched = unat matched, sm_missing = unat missing,
            sm_diverged = unat diverged, sm_extra = unat extra, sm_unavailable = unat unavailable\<rparr>, data) }"

definition summary_wf :: "reconciliation_summary \<Rightarrow> bool" where
  "summary_wf s \<longleftrightarrow>
     sm_checked s < 2 ^ 64 \<and> sm_matched s < 2 ^ 64 \<and> sm_missing s < 2 ^ 64 \<and> sm_diverged s < 2 ^ 64 \<and>
     sm_extra s < 2 ^ 64 \<and> sm_unavailable s < 2 ^ 64"

lemma unat_u64_less: "unat (n :: u64) < 2 ^ 64"
  using unsigned_less [of n, where 'a = nat] by simp

interpretation summary_codec: codec w_summary rd_summary summary_wf
proof unfold_locales
  show "summary_wf s \<Longrightarrow> rd_summary (w_summary s @ rest) = Some (s, rest)" for s rest
    by (cases s) (simp add: summary_wf_def rd_summary_def w_summary_def codec unat_of_nat)
  show "rd_summary data = Some (s, rest) \<Longrightarrow> summary_wf s \<and> data = w_summary s @ rest" for data s rest
    using unat_u64_less
    by (auto simp: summary_wf_def rd_summary_def w_summary_def bind_eq_Some_conv dest!: u64_codec.read_data)
qed

definition encode_ReconcileResult :: "reconcile_result \<Rightarrow> bytes" where
  "encode_ReconcileResult m =
     w_status (rcr_status m) (rcr_detail m) @ w_u8 (observation_class_raw (rcr_classification m)) @
     w_summary (rcr_summary m)"

definition rd_ReconcileResult :: "reconcile_result reader" where
  "rd_ReconcileResult data = do {
     ((status, detail), data) \<leftarrow> rd_status data;
     (classification, data) \<leftarrow> rd_enum observation_class_raw observation_class_values data;
     (summary, data) \<leftarrow> rd_summary data;
     Some (\<lparr>rcr_status = status, rcr_detail = detail, rcr_classification = classification,
            rcr_summary = summary\<rparr>, data) }"

definition decode_ReconcileResult :: "bytes \<Rightarrow> reconcile_result option" where
  "decode_ReconcileResult payload = decode_payload rd_ReconcileResult payload"

definition reconcile_result_wf :: "reconcile_result \<Rightarrow> bool" where
  "reconcile_result_wf m \<longleftrightarrow> diagnostic_wf (rcr_detail m) \<and> summary_wf (rcr_summary m)"

interpretation reconcile_result_codec: codec encode_ReconcileResult rd_ReconcileResult reconcile_result_wf
proof unfold_locales
  show "reconcile_result_wf m \<Longrightarrow> rd_ReconcileResult (encode_ReconcileResult m @ rest) = Some (m, rest)" for m rest
    by (cases m)
      (simp add: reconcile_result_wf_def rd_ReconcileResult_def encode_ReconcileResult_def message summary_codec.read_write)
  show "rd_ReconcileResult data = Some (m, rest) \<Longrightarrow>
      reconcile_result_wf m \<and> data = encode_ReconcileResult m @ rest" for data m rest
    by (auto simp: reconcile_result_wf_def rd_ReconcileResult_def encode_ReconcileResult_def bind_eq_Some_conv
        dest!: message_canonical summary_codec.read_canonical)
qed

record apply_completion_request =
  acq_context :: request_context
  acq_completion :: programming_completion

definition encode_ApplyCompletionRequest :: "apply_completion_request \<Rightarrow> bytes" where
  "encode_ApplyCompletionRequest m =
     w_context (acq_context m) @ w_fixed (pc_attempt (acq_completion m)) @
     w_u8 (programming_outcome_raw (pc_outcome (acq_completion m))) @ w_string (pc_detail (acq_completion m))"

definition rd_ApplyCompletionRequest :: "apply_completion_request reader" where
  "rd_ApplyCompletionRequest data = do {
     (context, data) \<leftarrow> rd_context data;
     (attempt, data) \<leftarrow> rd_fixed data;
     (outcome, data) \<leftarrow> rd_enum programming_outcome_raw programming_outcome_values data;
     (detail, data) \<leftarrow> rd_string kMaxDiagnosticChars data;
     Some (\<lparr>acq_context = context,
            acq_completion = \<lparr>pc_attempt = attempt, pc_outcome = outcome, pc_detail = detail\<rparr>\<rparr>, data) }"

definition decode_ApplyCompletionRequest :: "bytes \<Rightarrow> apply_completion_request option" where
  "decode_ApplyCompletionRequest payload = decode_payload rd_ApplyCompletionRequest payload"

definition apply_completion_request_wf :: "apply_completion_request \<Rightarrow> bool" where
  "apply_completion_request_wf m \<longleftrightarrow>
     context_wf (acq_context m) \<and> pc_attempt (acq_completion m) \<noteq> 0 \<and> diagnostic_wf (pc_detail (acq_completion m))"

interpretation apply_completion_request_codec:
  codec encode_ApplyCompletionRequest rd_ApplyCompletionRequest apply_completion_request_wf
proof unfold_locales
  show "apply_completion_request_wf m \<Longrightarrow>
      rd_ApplyCompletionRequest (encode_ApplyCompletionRequest m @ rest) = Some (m, rest)" for m rest
    by (cases m; cases "acq_completion m")
      (auto simp: apply_completion_request_wf_def rd_ApplyCompletionRequest_def encode_ApplyCompletionRequest_def message)
  show "rd_ApplyCompletionRequest data = Some (m, rest) \<Longrightarrow>
      apply_completion_request_wf m \<and> data = encode_ApplyCompletionRequest m @ rest" for data m rest
    by (auto simp: apply_completion_request_wf_def rd_ApplyCompletionRequest_def encode_ApplyCompletionRequest_def
        bind_eq_Some_conv diagnostic_wf_def dest!: message_canonical)
qed

record explain_route_result =
  xr_status :: status_code
  xr_detail :: string
  xr_found :: bool
  xr_explanation :: route_explanation

definition w_explanation :: "route_explanation \<Rightarrow> bytes" where
  "w_explanation x =
     w_route_snapshot (ex_snapshot x) @ w_boolean (ex_authoritative x) @ w_string (ex_authority_reason x) @
     w_string (ex_currentness_reason x) @ w_string (ex_lifecycle_reason x) @
     w_string (ex_path_authority_reason x) @ w_string (ex_backend_reason x) @
     w_string (ex_reconciliation_reason x) @ w_string (ex_supersession_reason x) @
     w_string (ex_retirement_reason x)"

definition rd_explanation :: "limits \<Rightarrow> route_explanation reader" where
  "rd_explanation limits data = do {
     (snapshot, data) \<leftarrow> rd_route_snapshot limits data;
     (authoritative, data) \<leftarrow> rd_boolean data;
     (authority_reason, data) \<leftarrow> rd_string (kMaxDiagnosticChars * 8) data;
     (currentness_reason, data) \<leftarrow> rd_string (kMaxDiagnosticChars * 8) data;
     (lifecycle_reason, data) \<leftarrow> rd_string (kMaxDiagnosticChars * 8) data;
     (path_authority_reason, data) \<leftarrow> rd_string (kMaxDiagnosticChars * 8) data;
     (backend_reason, data) \<leftarrow> rd_string (kMaxDiagnosticChars * 8) data;
     (reconciliation_reason, data) \<leftarrow> rd_string (kMaxDiagnosticChars * 8) data;
     (supersession_reason, data) \<leftarrow> rd_string (kMaxDiagnosticChars * 8) data;
     (retirement_reason, data) \<leftarrow> rd_string (kMaxDiagnosticChars * 8) data;
     Some (\<lparr>ex_snapshot = snapshot, ex_authoritative = authoritative, ex_authority_reason = authority_reason,
            ex_currentness_reason = currentness_reason, ex_lifecycle_reason = lifecycle_reason,
            ex_path_authority_reason = path_authority_reason, ex_backend_reason = backend_reason,
            ex_reconciliation_reason = reconciliation_reason, ex_supersession_reason = supersession_reason,
            ex_retirement_reason = retirement_reason\<rparr>, data) }"

definition explanation_wf :: "limits \<Rightarrow> route_explanation \<Rightarrow> bool" where
  "explanation_wf limits x \<longleftrightarrow>
     route_snapshot_wf limits (ex_snapshot x) \<and>
     list_all (\<lambda>s. length s \<le> kMaxDiagnosticChars * 8)
       [ex_authority_reason x, ex_currentness_reason x, ex_lifecycle_reason x, ex_path_authority_reason x,
        ex_backend_reason x, ex_reconciliation_reason x, ex_supersession_reason x, ex_retirement_reason x]"

interpretation explanation_codec: codec w_explanation "rd_explanation limits" "explanation_wf limits" for limits
proof unfold_locales
  show "explanation_wf limits x \<Longrightarrow> rd_explanation limits (w_explanation x @ rest) = Some (x, rest)" for x rest
    by (cases x) (simp add: explanation_wf_def rd_explanation_def w_explanation_def message)
  show "rd_explanation limits data = Some (x, rest) \<Longrightarrow>
      explanation_wf limits x \<and> data = w_explanation x @ rest" for data x rest
    by (auto simp: explanation_wf_def rd_explanation_def w_explanation_def bind_eq_Some_conv
        dest!: route_snapshot_codec.read_canonical boolean_codec.read_data string_codec.read_canonical)
qed

definition encode_ExplainRouteResult :: "explain_route_result \<Rightarrow> bytes" where
  "encode_ExplainRouteResult m =
     w_status (xr_status m) (xr_detail m) @ w_boolean (xr_found m) @ w_explanation (xr_explanation m)"

definition rd_ExplainRouteResult :: "limits \<Rightarrow> explain_route_result reader" where
  "rd_ExplainRouteResult limits data = do {
     ((status, detail), data) \<leftarrow> rd_status data;
     (found, data) \<leftarrow> rd_boolean data;
     (explanation, data) \<leftarrow> rd_explanation limits data;
     Some (\<lparr>xr_status = status, xr_detail = detail, xr_found = found, xr_explanation = explanation\<rparr>, data) }"

definition decode_ExplainRouteResult :: "limits \<Rightarrow> bytes \<Rightarrow> explain_route_result option" where
  "decode_ExplainRouteResult limits payload = decode_payload (rd_ExplainRouteResult limits) payload"

definition explain_route_result_wf :: "limits \<Rightarrow> explain_route_result \<Rightarrow> bool" where
  "explain_route_result_wf limits m \<longleftrightarrow> diagnostic_wf (xr_detail m) \<and> explanation_wf limits (xr_explanation m)"

interpretation explain_route_result_codec:
  codec encode_ExplainRouteResult "rd_ExplainRouteResult limits" "explain_route_result_wf limits" for limits
proof unfold_locales
  show "explain_route_result_wf limits m \<Longrightarrow>
      rd_ExplainRouteResult limits (encode_ExplainRouteResult m @ rest) = Some (m, rest)" for m rest
    by (cases m) (simp add: explain_route_result_wf_def rd_ExplainRouteResult_def encode_ExplainRouteResult_def message
        explanation_codec.read_write)
  show "rd_ExplainRouteResult limits data = Some (m, rest) \<Longrightarrow>
      explain_route_result_wf limits m \<and> data = encode_ExplainRouteResult m @ rest" for data m rest
    by (auto simp: explain_route_result_wf_def rd_ExplainRouteResult_def encode_ExplainRouteResult_def bind_eq_Some_conv
        dest!: message_canonical explanation_codec.read_canonical)
qed

text \<open>The facts behind every decoder: its definition and that it accepts exactly the encodings.\<close>

lemmas message_decoders =
  decode_HelloRequest_def decode_HelloResult_def decode_RegisterPublisherRequest_def
  decode_RegisterPublisherResult_def decode_PublishRouteRequest_def decode_PublishRouteResult_def
  decode_RouteMutationRequest_def decode_RouteMutationResult_def decode_QueryRouteRequest_def
  decode_QueryRouteResult_def decode_SnapshotRequest_def decode_FenceNotice_def decode_ErrorMessage_def
  decode_ReconcileRequest_def decode_EpochResult_def decode_StatisticsResult_def
  decode_ApplyCompletionResult_def decode_SnapshotResponse_def decode_BackendState_def
  decode_ReconcileResult_def decode_ApplyCompletionRequest_def decode_ExplainRouteResult_def

lemmas message_exact =
  hello_request_codec.decode_payload_iff hello_result_codec.decode_payload_iff
  register_publisher_request_codec.decode_payload_iff register_publisher_result_codec.decode_payload_iff
  publish_route_request_codec.decode_payload_iff publish_route_result_codec.decode_payload_iff
  route_mutation_request_codec.decode_payload_iff route_mutation_result_codec.decode_payload_iff
  query_route_request_codec.decode_payload_iff query_route_result_codec.decode_payload_iff
  snapshot_request_codec.decode_payload_iff fence_notice_codec.decode_payload_iff
  error_message_codec.decode_payload_iff reconcile_request_codec.decode_payload_iff
  epoch_result_codec.decode_payload_iff statistics_result_codec.decode_payload_iff
  apply_completion_result_codec.decode_payload_iff snapshot_response_codec.decode_payload_iff
  backend_state_codec.decode_payload_iff reconcile_result_codec.decode_payload_iff
  apply_completion_request_codec.decode_payload_iff explain_route_result_codec.decode_payload_iff

end
