(* ===== verification/RF_Invariants.thy ===== *)
theory RF_Invariants
  imports RF_Queries
begin

text \<open>
  \<^bold>\<open>The invariants of the route state.\<close> The secondary indexes of the runtime are functions
  of the route map; this theory states that relation, shows that \<open>commit\<close> and the loading
  of a store keep it, and that \<open>ValidateIndexes\<close> decides it.
\<close>

section \<open>What the indexes promise\<close>

type_synonym route_table = "route_id \<Rightarrow> route_record option"

definition key_attr :: "route_record \<Rightarrow> route_key option" where
  "key_attr r = (if rr_lifecycle r = LC_Superseded then None else Some (rr_key r))"

definition path_attr :: "route_record \<Rightarrow> path_id option" where
  "path_attr r =
     (if rb_kind (rr_binding r) = BK_AuthorizedPath \<and> fixed_is_valid (rb_path (rr_binding r))
      then Some (rb_path (rr_binding r)) else None)"

abbreviation publisher_of :: "route_record \<Rightarrow> publisher_id" where
  "publisher_of r \<equiv> pv_publisher (rr_provenance r)"

abbreviation namespace_of :: "route_record \<Rightarrow> routing_namespace" where
  "namespace_of r \<equiv> rk_routing_namespace (rr_key r)"

definition attr_graph :: "(route_record \<Rightarrow> 'a option) \<Rightarrow> route_table \<Rightarrow> ('a \<times> route_id) set" where
  "attr_graph attr tbl = {(a, x). \<exists>r. tbl x = Some r \<and> attr r = Some a}"

definition namespace_routes :: "route_table \<Rightarrow> routing_namespace \<Rightarrow> route_id set" where
  "namespace_routes tbl ns = {i. \<exists>r. tbl i = Some r \<and> namespace_of r = ns}"

definition count_entry :: "nat \<Rightarrow> nat option" where
  "count_entry n = (if n = 0 then None else Some n)"

text \<open>The indexes of a runtime describe the route table \<open>tbl\<close>.\<close>

definition indexes :: "route_table \<Rightarrow> runtime \<Rightarrow> bool" where
  "indexes tbl rt \<longleftrightarrow>
     om_wf (rt_key_index rt) \<and> mi_wf (rt_path_index rt) \<and> mi_wf (rt_publisher_index rt) \<and>
     mi_wf (rt_lifecycle_index rt) \<and> om_wf (rt_namespace_counts rt) \<and> finite (dom tbl) \<and>
     (\<forall>k i. om_find (rt_key_index rt) k = Some i \<longleftrightarrow> (k, i) \<in> attr_graph key_attr tbl) \<and>
     mi_rel (rt_path_index rt) = attr_graph path_attr tbl \<and>
     mi_rel (rt_publisher_index rt) = attr_graph (\<lambda>r. Some (publisher_of r)) tbl \<and>
     mi_rel (rt_lifecycle_index rt) = attr_graph (\<lambda>r. Some (rr_lifecycle r)) tbl \<and>
     (\<forall>ns. om_find (rt_namespace_counts rt) ns = count_entry (card (namespace_routes tbl ns)))"

text \<open>The route may own its key: nobody else does, or it is superseded.\<close>

definition key_free :: "runtime \<Rightarrow> route_record \<Rightarrow> bool" where
  "key_free rt r \<longleftrightarrow>
     rr_lifecycle r = LC_Superseded \<or>
     (case om_find (rt_key_index rt) (rr_key r) of None \<Rightarrow> True | Some i \<Rightarrow> i = rr_id r)"

definition path_named :: "route_record \<Rightarrow> bool" where
  "path_named r \<longleftrightarrow>
     (rb_kind (rr_binding r) = BK_AuthorizedPath \<longrightarrow> fixed_is_valid (rb_path (rr_binding r)))"

definition table_wf :: "route_table \<Rightarrow> bool" where
  "table_wf tbl \<longleftrightarrow> (\<forall>i r. tbl i = Some r \<longrightarrow> rr_id r = i \<and> fixed_is_valid i \<and> path_named r)"

definition index_inv :: "runtime \<Rightarrow> bool" where
  "index_inv rt \<longleftrightarrow>
     om_wf (rt_routes rt) \<and> table_wf (om_find (rt_routes rt)) \<and> indexes (om_find (rt_routes rt)) rt"

section \<open>Erasing and inserting one record\<close>

lemma attr_graph_eq: "attr_graph attr tbl = {(a, x). \<exists>r. tbl x = Some r \<and> attr r = Some a}"
  by (simp add: attr_graph_def)

lemma path_index_erase:
  assumes "mi_rel m = attr_graph path_attr tbl" and "tbl (rr_id q) = Some q"
  shows "mi_rel (erase_path q m) = attr_graph path_attr (tbl(rr_id q := None))"
proof (cases "path_attr q")
  case None
  then show ?thesis
    using mi.graph_skip_remove [of m tbl path_attr "rr_id q" q] assms
    by (auto simp: attr_graph_eq erase_path_def path_attr_def split: if_splits)
next
  case (Some p)
  then have "erase_path q m = mi_erase p (rr_id q) m"
    by (simp add: erase_path_def path_attr_def split: if_splits)
  then show ?thesis
    using mi.graph_remove [of m tbl path_attr "rr_id q" q p] assms Some by (simp add: attr_graph_eq)
qed

lemma path_index_insert:
  assumes "mi_rel m = attr_graph path_attr tbl" and "tbl (rr_id q) = None"
  shows "mi_rel (insert_path q m) = attr_graph path_attr (tbl(rr_id q \<mapsto> q))"
proof (cases "path_attr q")
  case None
  then show ?thesis
    using mi.graph_skip_add [of m tbl path_attr "rr_id q" q] assms
    by (auto simp: attr_graph_eq insert_path_def path_attr_def split: if_splits)
next
  case (Some p)
  then have "insert_path q m = mi_insert p (rr_id q) m"
    by (simp add: insert_path_def path_attr_def split: if_splits)
  then show ?thesis
    using mi.graph_add [of m tbl path_attr "rr_id q" q p] assms Some by (simp add: attr_graph_eq)
qed

lemma attr_index_erase:
  assumes "mi_rel m = attr_graph (\<lambda>r. Some (f r)) tbl" and "tbl i = Some q"
  shows "mi_rel (mi_erase (f q) i m) = attr_graph (\<lambda>r. Some (f r)) (tbl(i := None))"
  using mi.graph_remove [of m tbl "\<lambda>r. Some (f r)" i q "f q"] assms by (simp add: attr_graph_eq)

lemma attr_index_insert:
  assumes "mi_rel m = attr_graph (\<lambda>r. Some (f r)) tbl" and "tbl i = None"
  shows "mi_rel (mi_insert (f q) i m) = attr_graph (\<lambda>r. Some (f r)) (tbl(i \<mapsto> q))"
  using mi.graph_add [of m tbl "\<lambda>r. Some (f r)" i q "f q"] assms by (simp add: attr_graph_eq)

lemma key_index_erase:
  assumes "\<And>k i. om_find m k = Some i \<longleftrightarrow> (k, i) \<in> attr_graph key_attr tbl" and "tbl (rr_id q) = Some q"
  shows "om_find (erase_key q m) k = Some i \<longleftrightarrow> (k, i) \<in> attr_graph key_attr (tbl(rr_id q := None))"
proof (cases "om_find m (rr_key q) = Some (rr_id q)")
  case True
  then have only: "(rr_key q, j) \<in> attr_graph key_attr tbl \<Longrightarrow> j = rr_id q" for j
    using assms(1) by (metis option.inject)
  have rest: "(k, i) \<in> attr_graph key_attr (tbl(rr_id q := None)) \<longleftrightarrow>
      (k, i) \<in> attr_graph key_attr tbl \<and> i \<noteq> rr_id q"
    by (auto simp: attr_graph_def split: if_splits)
  have own: "(k, rr_id q) \<in> attr_graph key_attr tbl \<Longrightarrow> k = rr_key q"
    using assms(2) by (auto simp: attr_graph_def key_attr_def split: if_splits)
  have "om_find (erase_key q m) k = Some i \<longleftrightarrow> k \<noteq> rr_key q \<and> om_find m k = Some i"
    using True by (simp add: erase_key_def)
  also have "\<dots> \<longleftrightarrow> (k, i) \<in> attr_graph key_attr tbl \<and> i \<noteq> rr_id q"
    using only own assms(1) by blast
  finally show ?thesis unfolding rest .
next
  case False
  then have "rr_lifecycle q = LC_Superseded"
    using assms by (auto simp: attr_graph_def key_attr_def split: if_splits)
  with False show ?thesis
    using assms by (auto simp: erase_key_def attr_graph_def key_attr_def)
qed

lemma key_index_insert:
  assumes idx: "\<And>k i. om_find m k = Some i \<longleftrightarrow> (k, i) \<in> attr_graph key_attr tbl"
    and absent: "tbl (rr_id q) = None"
    and free: "rr_lifecycle q \<noteq> LC_Superseded \<Longrightarrow> om_find m (rr_key q) = None"
  shows "om_find (insert_key q m) k = Some i \<longleftrightarrow> (k, i) \<in> attr_graph key_attr (tbl(rr_id q \<mapsto> q))"
proof (cases "rr_lifecycle q = LC_Superseded")
  case True
  then show ?thesis
    using idx absent by (auto simp: insert_key_def attr_graph_def key_attr_def)
next
  case False
  with free have none: "(rr_key q, j) \<notin> attr_graph key_attr tbl" for j
    using idx by (metis option.distinct(1))
  show ?thesis
    using False none idx absent by (auto simp: insert_key_def attr_graph_def key_attr_def)
qed

lemma finite_namespace_routes: "finite (dom tbl) \<Longrightarrow> finite (namespace_routes tbl ns)"
  by (rule finite_subset [of _ "dom tbl"]) (auto simp: namespace_routes_def)

lemma namespace_routes_remove:
  "tbl i = Some q \<Longrightarrow> namespace_routes (tbl(i := None)) ns =
     (if namespace_of q = ns then namespace_routes tbl ns - {i} else namespace_routes tbl ns)"
  by (auto simp: namespace_routes_def split: if_splits)

lemma namespace_routes_add:
  "tbl i = None \<Longrightarrow> namespace_routes (tbl(i \<mapsto> q)) ns =
     (if namespace_of q = ns then insert i (namespace_routes tbl ns) else namespace_routes tbl ns)"
  by (auto simp: namespace_routes_def split: if_splits)

lemma namespace_counts_erase:
  assumes "\<And>ns. om_find m ns = count_entry (card (namespace_routes tbl ns))"
    and "finite (dom tbl)" and "tbl i = Some q"
  shows "om_find (erase_namespace q m) ns = count_entry (card (namespace_routes (tbl(i := None)) ns))"
proof -
  have mem: "i \<in> namespace_routes tbl (namespace_of q)"
    using assms(3) by (auto simp: namespace_routes_def)
  with finite_namespace_routes [OF assms(2)] have "card (namespace_routes tbl (namespace_of q)) > 0"
    by (auto simp: card_gt_0_iff)
  moreover have "card (namespace_routes tbl (namespace_of q) - {i}) = card (namespace_routes tbl (namespace_of q)) - 1"
    using mem by simp
  ultimately show ?thesis
    using namespace_routes_remove [of tbl i q ns] assms(1,3)
    by (auto simp: erase_namespace_def count_entry_def Let_def simp del: card_0_eq)
qed

lemma namespace_counts_insert:
  assumes "\<And>ns. om_find m ns = count_entry (card (namespace_routes tbl ns))"
    and "finite (dom tbl)" and "tbl i = None"
  shows "om_find (insert_namespace q m) ns = count_entry (card (namespace_routes (tbl(i \<mapsto> q)) ns))"
proof -
  have "i \<notin> namespace_routes tbl n" for n
    using assms(3) by (auto simp: namespace_routes_def)
  with assms(1) show ?thesis
    by (auto simp: insert_namespace_def namespace_routes_add [of tbl i q] assms(3) count_entry_def
        finite_namespace_routes [OF assms(2)] Let_def split: option.splits)
qed

lemma om_wf_namespace:
  "om_wf m \<Longrightarrow> om_wf (erase_namespace q m)" "om_wf m \<Longrightarrow> om_wf (insert_namespace q m)"
  by (auto simp: erase_namespace_def insert_namespace_def Let_def om_wf_set om_wf_erase split: option.splits)

lemma om_wf_key: "om_wf m \<Longrightarrow> om_wf (erase_key q m)" "om_wf m \<Longrightarrow> om_wf (insert_key q m)"
  by (auto simp: erase_key_def insert_key_def om_wf_set om_wf_erase)

lemma mi_wf_path: "mi_wf m \<Longrightarrow> mi_wf (erase_path q m)" "mi_wf m \<Longrightarrow> mi_wf (insert_path q m)"
  by (auto simp: erase_path_def insert_path_def mi_wf_insert mi_wf_erase)

lemma indexes_erase:
  assumes "indexes tbl rt" and "tbl (rr_id q) = Some q"
  shows "indexes (tbl(rr_id q := None)) (index_erase q rt)"
  using assms
  unfolding indexes_def
  by (simp add: index_erase_def om_wf_key mi_wf_path om_wf_namespace mi_wf_erase key_index_erase
      path_index_erase namespace_counts_erase attr_index_erase [where f = publisher_of]
      attr_index_erase [where f = rr_lifecycle])

lemma indexes_insert:
  assumes "indexes tbl rt" and "tbl (rr_id q) = None"
    and "rr_lifecycle q \<noteq> LC_Superseded \<Longrightarrow> om_find (rt_key_index rt) (rr_key q) = None"
  shows "indexes (tbl(rr_id q \<mapsto> q)) (index_insert q rt)"
  using assms
  unfolding indexes_def
  by (simp add: index_insert_def om_wf_key mi_wf_path om_wf_namespace mi_wf_insert key_index_insert
      path_index_insert namespace_counts_insert attr_index_insert [where f = publisher_of]
      attr_index_insert [where f = rr_lifecycle])

section \<open>Committing a record\<close>

lemma index_erase_routes [simp]: "rt_routes (index_erase q rt) = rt_routes rt"
  by (simp add: index_erase_def)

lemma index_insert_routes [simp]: "rt_routes (index_insert q rt) = rt_routes rt"
  by (simp add: index_insert_def)

lemma indexes_routes_update [simp]: "indexes tbl (rt\<lparr>rt_routes := x\<rparr>) = indexes tbl rt"
  by (simp add: indexes_def)

lemma commit_routes [simp]: "rt_routes (commit r rt) = om_set (rr_id r) r (rt_routes rt)"
  by (simp add: commit_def Let_def split: option.splits)

lemma commit_find:
  "om_find (rt_routes (commit r rt)) i = (if i = rr_id r then Some r else om_find (rt_routes rt) i)"
  by simp

lemma key_erased:
  assumes "indexes tbl rt" and "tbl (rr_id r) = Some q" and "rr_id q = rr_id r" and "key_free rt r"
    and "rr_lifecycle r \<noteq> LC_Superseded"
  shows "om_find (erase_key q (rt_key_index rt)) (rr_key r) = None"
proof (cases "om_find (rt_key_index rt) (rr_key r)")
  case None
  then show ?thesis by (simp add: erase_key_def)
next
  case (Some i)
  with assms(4,5) have "i = rr_id r" by (simp add: key_free_def)
  with Some assms(1,2) have "rr_key q = rr_key r"
    by (auto simp: indexes_def attr_graph_def key_attr_def split: if_splits)
  with Some \<open>i = rr_id r\<close> assms(3) show ?thesis by (simp add: erase_key_def)
qed

lemma indexes_commit:
  assumes "indexes (om_find (rt_routes rt)) rt" and "table_wf (om_find (rt_routes rt))" and "key_free rt r"
  shows "indexes ((om_find (rt_routes rt))(rr_id r \<mapsto> r)) (commit r rt)"
proof (cases "om_find (rt_routes rt) (rr_id r)")
  case None
  have "rr_lifecycle r \<noteq> LC_Superseded \<Longrightarrow> om_find (rt_key_index rt) (rr_key r) = None"
    using assms(1,3) None
    by (auto simp: key_free_def indexes_def attr_graph_def split: option.splits)
  with None assms(1) show ?thesis
    by (simp add: commit_def indexes_insert)
next
  case (Some q)
  then have qid: "rr_id q = rr_id r" using assms(2) by (simp add: table_wf_def)
  have "indexes ((om_find (rt_routes rt))(rr_id r := None)) (index_erase q rt)"
    using indexes_erase [OF assms(1), of q] Some qid by simp
  moreover have "rr_lifecycle r \<noteq> LC_Superseded \<Longrightarrow>
      om_find (rt_key_index (index_erase q rt)) (rr_key r) = None"
    using key_erased [OF assms(1) Some qid assms(3)] by (simp add: index_erase_def)
  ultimately have "indexes ((om_find (rt_routes rt))(rr_id r \<mapsto> r)) (index_insert r (index_erase q rt))"
    using indexes_insert [of "(om_find (rt_routes rt))(rr_id r := None)" "index_erase q rt" r] by simp
  with Some show ?thesis by (simp add: commit_def)
qed

lemma index_inv_commit:
  assumes "index_inv rt" and "key_free rt r" and "fixed_is_valid (rr_id r)" and "path_named r"
  shows "index_inv (commit r rt)"
  using assms indexes_commit [of rt r]
  by (auto simp: index_inv_def om_wf_set table_wf_def fun_upd_def)

section \<open>ValidateIndexes decides the invariant\<close>

lemma om_wf_Cons: "om_wf ((k, v) # m) \<Longrightarrow> om_wf m \<and> map_of m k = None"
  by (auto simp: om_wf_def map_of_eq_None_iff image_iff)

lemma mi_rel_Cons:
  "map_of m a = None \<Longrightarrow> mi_rel ((a, xs) # m) = {a} \<times> set xs \<union> mi_rel m"
  by (auto simp: mi_rel_def mi_members_def split: if_splits option.splits)

lemma mi_rel_disjoint: "map_of m a = None \<Longrightarrow> ({a} \<times> set xs) \<inter> mi_rel m = {}"
  by (auto simp: mi_rel_def mi_members_def)

lemma finite_mi_rel: "om_wf m \<Longrightarrow> finite (mi_rel m)"
proof (induction m)
  case Nil
  then show ?case by (simp add: mi_rel_def mi_members_def)
next
  case (Cons e m)
  then show ?case by (cases e) (auto dest!: om_wf_Cons simp: mi_rel_Cons)
qed

lemma mi_total_card:
  "om_wf m \<Longrightarrow> \<forall>(a, xs) \<in> set m. distinct xs \<Longrightarrow> mi_total m = card (mi_rel m)"
proof (induction m)
  case Nil
  then show ?case by (simp add: mi_total_def om_values_def mi_rel_def mi_members_def)
next
  case (Cons e m)
  obtain a xs where e: "e = (a, xs)" by (cases e)
  have wf: "om_wf m" and none: "map_of m a = None" using Cons.prems(1) e by (auto dest: om_wf_Cons)
  have "card (mi_rel (e # m)) = card ({a} \<times> set xs) + card (mi_rel m)"
    using e none wf by (simp add: mi_rel_Cons card_Un_disjoint mi_rel_disjoint finite_mi_rel)
  also have "card ({a} \<times> set xs) = length xs"
    using Cons.prems(2) e by (simp add: card_cartesian_product_singleton distinct_card)
  finally show ?case using Cons.IH [OF wf] Cons.prems(2) e by (simp add: mi_total_def om_values_def)
qed

lemma mi_wf_total: "mi_wf m \<Longrightarrow> mi_total m = card (mi_rel m)"
  by (rule mi_total_card)
    (auto simp: mi_wf_def om_find_iff os_wf_def sorted_wrt_less_distinct)

lemma indexed_rel: "indexed m k x \<longleftrightarrow> (k, x) \<in> mi_rel m"
  by (auto simp: indexed_def mi_rel_def mi_members_def split: option.splits)

lemma attr_graph_Cons:
  "map_of m i = None \<Longrightarrow> attr_graph attr (map_of ((i, r) # m)) =
     (case attr r of None \<Rightarrow> {} | Some a \<Rightarrow> {(a, i)}) \<union> attr_graph attr (map_of m)"
  by (auto simp: attr_graph_def split: option.splits if_splits)

lemma attr_graph_card:
  "om_wf m \<Longrightarrow> finite (attr_graph attr (map_of m)) \<and>
     card (attr_graph attr (map_of m)) = length (filter (\<lambda>r. attr r \<noteq> None) (om_values m))"
proof (induction m)
  case Nil
  then show ?case by (simp add: attr_graph_def om_values_def)
next
  case (Cons e m)
  obtain i r where e: "e = (i, r)" by (cases e)
  have wf: "om_wf m" and none: "map_of m i = None" using Cons.prems e by (auto dest: om_wf_Cons)
  then have "(a, i) \<notin> attr_graph attr (map_of m)" for a by (auto simp: attr_graph_def)
  with Cons.IH [OF wf] none e show ?case
    by (auto simp del: map_of.simps simp: attr_graph_Cons om_values_def split: option.splits)
qed

lemma count_by_snoc:
  "count_by (ks @ [k]) = om_set k ((case om_find (count_by ks) k of None \<Rightarrow> 0 | Some n \<Rightarrow> n) + 1) (count_by ks)"
  by (simp add: count_by_def)

lemma count_by_find: "om_find (count_by ks) k = count_entry (count_list ks k)"
proof (induction ks rule: rev_induct)
  case Nil
  then show ?case by (simp add: count_by_def count_entry_def)
next
  case (snoc x ks)
  then show ?case by (auto simp: count_by_snoc count_entry_def split: option.splits if_splits)
qed

lemma count_by_wf: "om_wf (count_by ks)"
proof (induction ks rule: rev_induct)
  case Nil
  then show ?case by (simp add: count_by_def)
next
  case (snoc x ks)
  then show ?case by (simp add: count_by_snoc om_wf_set)
qed

lemma om_total_set:
  "om_wf m \<Longrightarrow> om_total (om_set k (n + (case om_find m k of None \<Rightarrow> 0 | Some c \<Rightarrow> c)) m) = om_total m + n"
proof (induction m)
  case Nil
  then show ?case by (simp add: om_total_def om_values_def)
next
  case (Cons e m)
  obtain j c where e: "e = (j, c)" by (cases e)
  have wf: "om_wf m" and none: "map_of m j = None" using Cons.prems e by (auto dest: om_wf_Cons)
  have small: "k < j \<Longrightarrow> map_of m k = None"
    using Cons.prems e by (force simp: om_wf_def map_of_eq_None_iff)
  show ?case
    using Cons.IH [OF wf] e small by (auto simp: om_total_def om_values_def)
qed

lemma count_by_total: "om_total (count_by ks) = length ks"
proof (induction ks rule: rev_induct)
  case Nil
  then show ?case by (simp add: count_by_def om_total_def om_values_def)
next
  case (snoc x ks)
  then show ?case
    using om_total_set [OF count_by_wf [of ks], where n = 1 and k = x] by (simp add: count_by_snoc add.commute)
qed

lemma om_values_iff:
  assumes "om_wf m" and "table_wf (om_find m)"
  shows "r \<in> set (om_values m) \<longleftrightarrow> om_find m (rr_id r) = Some r"
proof -
  have "r \<in> set (om_values m) \<longleftrightarrow> (\<exists>i. om_find m i = Some r)"
    using assms(1) by (force simp: om_values_def om_find_iff)
  also have "\<dots> \<longleftrightarrow> om_find m (rr_id r) = Some r"
    using assms(2) by (auto simp: table_wf_def)
  finally show ?thesis .
qed

lemma attr_graph_subset:
  assumes "om_wf m" and "table_wf (om_find m)"
  shows "attr_graph attr (om_find m) \<subseteq> R \<longleftrightarrow>
    (\<forall>r \<in> set (om_values m). \<forall>a. attr r = Some a \<longrightarrow> (a, rr_id r) \<in> R)"
proof -
  have "attr_graph attr (om_find m) \<subseteq> R \<longleftrightarrow>
      (\<forall>i r a. om_find m i = Some r \<longrightarrow> attr r = Some a \<longrightarrow> (a, i) \<in> R)"
    unfolding attr_graph_def by blast
  moreover have "om_find m i = Some r \<Longrightarrow> i = rr_id r" for i r
    using assms(2) by (simp add: table_wf_def)
  ultimately show ?thesis
    unfolding Ball_def om_values_iff [OF assms] by blast
qed

lemma graph_decided:
  assumes "om_wf m" and "table_wf (om_find m)" and "finite R"
  shows "card R = length (filter (\<lambda>r. attr r \<noteq> None) (om_values m)) \<and>
      (\<forall>r \<in> set (om_values m). \<forall>a. attr r = Some a \<longrightarrow> (a, rr_id r) \<in> R) \<longleftrightarrow>
    R = attr_graph attr (om_find m)"
proof -
  have "R = attr_graph attr (om_find m) \<longleftrightarrow>
      attr_graph attr (om_find m) \<subseteq> R \<and> card (attr_graph attr (om_find m)) = card R"
    using card_subset_eq [OF assms(3)] by auto
  then show ?thesis
    unfolding attr_graph_subset [OF assms(1,2), symmetric]
    using attr_graph_card [OF assms(1), of attr] by auto
qed

lemma multi_index_decided:
  assumes "om_wf m" and "table_wf (om_find m)" and "mi_wf idx"
  shows "mi_rel idx = attr_graph attr (om_find m) \<longleftrightarrow>
    mi_total idx = length (filter (\<lambda>r. attr r \<noteq> None) (om_values m)) \<and>
    (\<forall>r \<in> set (om_values m). \<forall>a. attr r = Some a \<longrightarrow> indexed idx a (rr_id r))"
  using graph_decided [OF assms(1,2), of "mi_rel idx" attr] assms(3)
  by (auto simp: mi_wf_total indexed_rel mi_wf_def finite_mi_rel)

definition om_rel :: "('k, 'v) omap \<Rightarrow> ('k \<times> 'v) set" where
  "om_rel m = {(k, v). om_find m k = Some v}"

lemma om_rel_card: "om_wf m \<Longrightarrow> finite (om_rel m) \<and> card (om_rel m) = length m"
proof -
  assume wf: "om_wf m"
  then have "om_rel m = set m" by (auto simp: om_rel_def om_find_iff)
  moreover have "distinct m" using om_wf_distinct [OF wf] by (simp add: distinct_map)
  ultimately show ?thesis by (simp add: distinct_card)
qed

lemma key_index_decided:
  assumes "om_wf m" and "table_wf (om_find m)" and "om_wf idx"
  shows "(\<forall>k i. om_find idx k = Some i \<longleftrightarrow> (k, i) \<in> attr_graph key_attr (om_find m)) \<longleftrightarrow>
    length idx = length (filter (\<lambda>r. rr_lifecycle r \<noteq> LC_Superseded) (om_values m)) \<and>
    (\<forall>r \<in> set (om_values m).
       if rr_lifecycle r = LC_Superseded then om_find idx (rr_key r) \<noteq> Some (rr_id r)
       else om_find idx (rr_key r) = Some (rr_id r))"
proof -
  have attr: "(\<lambda>r. key_attr r \<noteq> None) = (\<lambda>r. rr_lifecycle r \<noteq> LC_Superseded)"
    by (auto simp: key_attr_def)
  have eq: "(\<forall>k i. om_find idx k = Some i \<longleftrightarrow> (k, i) \<in> attr_graph key_attr (om_find m)) \<longleftrightarrow>
      om_rel idx = attr_graph key_attr (om_find m)"
    by (auto simp: om_rel_def)
  have mem: "(\<forall>r \<in> set (om_values m). \<forall>a. key_attr r = Some a \<longrightarrow> (a, rr_id r) \<in> om_rel idx) \<longleftrightarrow>
      (\<forall>r \<in> set (om_values m). rr_lifecycle r \<noteq> LC_Superseded \<longrightarrow> om_find idx (rr_key r) = Some (rr_id r))"
    by (auto simp: key_attr_def om_rel_def)
  have sup: "om_find idx (rr_key r) \<noteq> Some (rr_id r)"
    if "om_rel idx = attr_graph key_attr (om_find m)" "r \<in> set (om_values m)" "rr_lifecycle r = LC_Superseded" for r
    using that by (auto simp: om_rel_def attr_graph_def key_attr_def om_values_iff [OF assms(1,2)] set_eq_iff
        split: if_splits)
  show ?thesis
    using graph_decided [OF assms(1,2), of "om_rel idx" key_attr] om_rel_card [OF assms(3)] sup
    unfolding eq attr mem by (auto split: if_splits)
qed

lemma om_eq_decided:
  assumes "om_wf a" and "om_wf b"
  shows "(\<forall>k. om_find b k = om_find a k) \<longleftrightarrow>
    length a = length b \<and> list_all (\<lambda>(k, v). om_find b k = Some v) a"
proof -
  have "(\<forall>k. om_find b k = om_find a k) \<longleftrightarrow> om_rel a = om_rel b"
    unfolding om_rel_def by (auto simp: set_eq_iff) (metis option.exhaust)
  also have "\<dots> \<longleftrightarrow> length a = length b \<and> om_rel a \<subseteq> om_rel b"
    using om_rel_card [OF assms(1)] om_rel_card [OF assms(2)] card_subset_eq [of "om_rel b" "om_rel a"] by auto
  also have "om_rel a \<subseteq> om_rel b \<longleftrightarrow> list_all (\<lambda>(k, v). om_find b k = Some v) a"
    using assms(1) by (auto simp: om_rel_def om_find_iff list_all_iff)
  finally show ?thesis .
qed

lemma namespace_routes_count:
  "om_wf m \<Longrightarrow> card (namespace_routes (om_find m) ns) = count_list (map namespace_of (om_values m)) ns"
proof (induction m)
  case Nil
  then show ?case by (simp add: namespace_routes_def om_values_def)
next
  case (Cons e m)
  obtain i r where e: "e = (i, r)" by (cases e)
  have wf: "om_wf m" and none: "map_of m i = None" using Cons.prems e by (auto dest: om_wf_Cons)
  then have "i \<notin> namespace_routes (map_of m) ns" by (auto simp: namespace_routes_def)
  with Cons.IH [OF wf] e show ?case
    using namespace_routes_add [of "map_of m" i r ns] none by (simp add: om_values_def fun_upd_def)
qed

text \<open>The programming attempts name existing routes and the counter counts the unresolved ones.\<close>

definition unresolved :: "runtime \<Rightarrow> nat" where
  "unresolved rt = length (filter (\<lambda>a. \<not> at_resolved a) (om_values (rt_attempts rt)))"

definition attempts_routed :: "runtime \<Rightarrow> bool" where
  "attempts_routed rt \<longleftrightarrow> (\<forall>a \<in> set (om_values (rt_attempts rt)). om_contains (rt_routes rt) (at_route a))"

definition containers_wf :: "runtime \<Rightarrow> bool" where
  "containers_wf rt \<longleftrightarrow>
     om_wf (rt_routes rt) \<and> table_wf (om_find (rt_routes rt)) \<and>
     om_wf (rt_key_index rt) \<and> mi_wf (rt_path_index rt) \<and> mi_wf (rt_publisher_index rt) \<and>
     mi_wf (rt_lifecycle_index rt) \<and> om_wf (rt_namespace_counts rt)"

lemma namespace_counts_decided:
  assumes "om_wf m" and "om_wf counts"
  shows "(\<forall>ns. om_find counts ns = count_entry (card (namespace_routes (om_find m) ns))) \<longleftrightarrow>
    length (count_by (map namespace_of (om_values m))) = length counts \<and>
    list_all (\<lambda>(ns, n). om_find counts ns = Some n) (count_by (map namespace_of (om_values m)))"
  unfolding om_eq_decided [OF count_by_wf assms(2), symmetric]
  by (simp add: count_by_find namespace_routes_count [OF assms(1)])

lemma attr_index_decided:
  assumes "om_wf m" and "table_wf (om_find m)" and "mi_wf idx"
  shows "mi_rel idx = attr_graph (\<lambda>r. Some (f r)) (om_find m) \<longleftrightarrow>
    mi_total idx = length (om_values m) \<and> (\<forall>r \<in> set (om_values m). indexed idx (f r) (rr_id r))"
  by (simp add: multi_index_decided [OF assms])

lemma indexes_decided:
  assumes wf: "containers_wf rt"
  defines "records \<equiv> om_values (rt_routes rt)"
  shows "indexes (om_find (rt_routes rt)) rt \<longleftrightarrow>
    length (rt_key_index rt) = length (filter (\<lambda>r. rr_lifecycle r \<noteq> LC_Superseded) records) \<and>
    (\<forall>r \<in> set records. record_indexed rt r) \<and>
    mi_total (rt_path_index rt) = length (filter (\<lambda>r. rb_kind (rr_binding r) = BK_AuthorizedPath) records) \<and>
    mi_total (rt_publisher_index rt) = length records \<and>
    mi_total (rt_lifecycle_index rt) = length records \<and>
    length (count_by (map namespace_of records)) = length (rt_namespace_counts rt) \<and>
    list_all (\<lambda>(ns, n). om_find (rt_namespace_counts rt) ns = Some n) (count_by (map namespace_of records))"
proof -
  note routes = wf [unfolded containers_wf_def]
  have named: "r \<in> set records \<Longrightarrow> path_attr r =
      (if rb_kind (rr_binding r) = BK_AuthorizedPath then Some (rb_path (rr_binding r)) else None)" for r
    using routes unfolding records_def
    by (auto simp: om_values_iff table_wf_def path_named_def path_attr_def)
  then have "filter (\<lambda>r. path_attr r \<noteq> None) records =
      filter (\<lambda>r. rb_kind (rr_binding r) = BK_AuthorizedPath) records"
    by (intro filter_cong refl) simp
  moreover have "(\<forall>r \<in> set records. \<forall>a. path_attr r = Some a \<longrightarrow> indexed (rt_path_index rt) a (rr_id r)) \<longleftrightarrow>
      (\<forall>r \<in> set records. rb_kind (rr_binding r) = BK_AuthorizedPath \<longrightarrow>
         indexed (rt_path_index rt) (rb_path (rr_binding r)) (rr_id r))"
    using named by auto
  ultimately have path: "mi_rel (rt_path_index rt) = attr_graph path_attr (om_find (rt_routes rt)) \<longleftrightarrow>
      mi_total (rt_path_index rt) = length (filter (\<lambda>r. rb_kind (rr_binding r) = BK_AuthorizedPath) records) \<and>
      (\<forall>r \<in> set records. rb_kind (rr_binding r) = BK_AuthorizedPath \<longrightarrow>
         indexed (rt_path_index rt) (rb_path (rr_binding r)) (rr_id r))"
    using routes unfolding records_def by (simp add: multi_index_decided)
  note key = key_index_decided [of "rt_routes rt" "rt_key_index rt", folded records_def]
  note pub = attr_index_decided [of "rt_routes rt" "rt_publisher_index rt" publisher_of, folded records_def]
  note lc = attr_index_decided [of "rt_routes rt" "rt_lifecycle_index rt" rr_lifecycle, folded records_def]
  note ns = namespace_counts_decided [of "rt_routes rt" "rt_namespace_counts rt", folded records_def]
  show ?thesis
    unfolding indexes_def record_indexed_def ball_conj_distrib
    using routes key ns path pub lc finite [of "dom (om_find (rt_routes rt))"] by blast
qed

lemma ValidateIndexes_iff:
  assumes "containers_wf rt"
  shows "ValidateIndexes rt = ok_status \<longleftrightarrow>
    indexes (om_find (rt_routes rt)) rt \<and> attempts_routed rt \<and> unresolved rt = rt_outstanding rt"
  unfolding indexes_decided [OF assms]
  by (auto simp: ValidateIndexes_def Let_def count_by_total attempts_routed_def unresolved_def list_all_iff)

end
