(* ===== verification/RF_Steps.thy ===== *)
theory RF_Steps
  imports RF_Invariants
begin

text \<open>
  \<^bold>\<open>What the operations may do.\<close> The abstract specification of the runtime: a small
  relation of permitted effects on the authoritative state, each with its conditions. The
  counters, the store and the identifier source are outside of it. The theory shows that the
  effects keep the invariants; the next one shows that every locked section of the runtime
  is a sequence of effects.
\<close>

section \<open>The authoritative state\<close>

text \<open>The state without the counters, the store and the identifier source.\<close>

definition core :: "runtime \<Rightarrow> runtime" where
  "core rt = rt\<lparr>rt_counters := counters_zero, rt_store := None, rt_ids := seeded_id_source 0\<rparr>"

lemma core_bump [simp]: "core (bump f rt) = core rt"
  by (simp add: core_def bump_def)

lemma core_store [simp]: "core (rt\<lparr>rt_store := s\<rparr>) = core rt"
  by (simp add: core_def)

lemma core_ids [simp]: "core (rt\<lparr>rt_ids := s\<rparr>) = core rt"
  by (simp add: core_def)

lemma core_idem [simp]: "core (core rt) = core rt"
  by (simp add: core_def)

lemma core_fields [simp]:
  "rt_config (core rt) = rt_config rt" "rt_backend (core rt) = rt_backend rt"
  "rt_path_authority (core rt) = rt_path_authority rt" "rt_epoch (core rt) = rt_epoch rt"
  "rt_policy_generation (core rt) = rt_policy_generation rt" "rt_opened (core rt) = rt_opened rt"
  "rt_routes (core rt) = rt_routes rt" "rt_key_index (core rt) = rt_key_index rt"
  "rt_path_index (core rt) = rt_path_index rt" "rt_publisher_index (core rt) = rt_publisher_index rt"
  "rt_lifecycle_index (core rt) = rt_lifecycle_index rt"
  "rt_namespace_counts (core rt) = rt_namespace_counts rt" "rt_attempts (core rt) = rt_attempts rt"
  "rt_revocations (core rt) = rt_revocations rt" "rt_registrations (core rt) = rt_registrations rt"
  "rt_administrative_fences (core rt) = rt_administrative_fences rt"
  "rt_fenced_boots (core rt) = rt_fenced_boots rt" "rt_outstanding (core rt) = rt_outstanding rt"
  by (simp_all add: core_def)

text \<open>Two states with the same core agree on every authoritative field.\<close>

lemma core_eqD:
  assumes "core a = core b"
  shows "rt_config a = rt_config b" "rt_backend a = rt_backend b" "rt_epoch a = rt_epoch b"
    "rt_opened a = rt_opened b" "rt_routes a = rt_routes b" "rt_key_index a = rt_key_index b"
    "rt_path_index a = rt_path_index b" "rt_publisher_index a = rt_publisher_index b"
    "rt_lifecycle_index a = rt_lifecycle_index b" "rt_namespace_counts a = rt_namespace_counts b"
    "rt_attempts a = rt_attempts b" "rt_revocations a = rt_revocations b"
    "rt_registrations a = rt_registrations b"
    "rt_administrative_fences a = rt_administrative_fences b" "rt_fenced_boots a = rt_fenced_boots b"
    "rt_outstanding a = rt_outstanding b"
  using assms by (metis core_fields)+

lemma core_commit: "core (commit r rt) = commit r (core rt)"
  by (simp add: core_def commit_def index_erase_def index_insert_def Let_def split: option.splits)

lemma core_record_attempt: "core (record_attempt a rt) = record_attempt a (core rt)"
  by (simp add: core_def record_attempt_def Let_def)

lemma core_resolve_attempt: "core (resolve_attempt a rt) = resolve_attempt a (core rt)"
  by (simp add: core_def resolve_attempt_def Let_def split: option.splits)

lemmas core_update = core_commit core_record_attempt core_resolve_attempt

lemma persist_core: "persist u v a rt = (st, rt') \<Longrightarrow> core rt' = core rt"
  by (auto simp: persist_def Let_def split: option.splits if_splits prod.splits)

lemma compact_core: "compact_store rt = (st, rt') \<Longrightarrow> core rt' = core rt"
  by (auto simp: compact_store_def split: option.splits prod.splits)

lemma draw_core: "draw_attempt_id rt = (i, rt') \<Longrightarrow> core rt' = core rt"
  by (auto simp: draw_attempt_id_def split: option.splits)

lemma check_scope_core: "check_scope g k rt = (st, rt') \<Longrightarrow> core rt' = core rt"
  by (auto simp: check_scope_def split: if_splits)

lemma path_check_core: "path_check q v b rt = (st, rt') \<Longrightarrow> core rt' = core rt"
  by (auto simp: path_check_def Let_def split: if_splits)

lemma commit_fields [simp]:
  "rt_config (commit r rt) = rt_config rt" "rt_attempts (commit r rt) = rt_attempts rt"
  "rt_outstanding (commit r rt) = rt_outstanding rt" "rt_revocations (commit r rt) = rt_revocations rt"
  "rt_epoch (commit r rt) = rt_epoch rt" "rt_registrations (commit r rt) = rt_registrations rt"
  "rt_fenced_boots (commit r rt) = rt_fenced_boots rt" "rt_opened (commit r rt) = rt_opened rt"
  "rt_administrative_fences (commit r rt) = rt_administrative_fences rt"
  "rt_backend (commit r rt) = rt_backend rt"
  by (simp_all add: commit_def index_erase_def index_insert_def Let_def split: option.splits)

lemma attempt_fields [simp]:
  "rt_routes (record_attempt a rt) = rt_routes rt" "rt_routes (resolve_attempt a rt) = rt_routes rt"
  "rt_config (record_attempt a rt) = rt_config rt" "rt_config (resolve_attempt a rt) = rt_config rt"
  "rt_revocations (record_attempt a rt) = rt_revocations rt"
  "rt_revocations (resolve_attempt a rt) = rt_revocations rt"
  "rt_epoch (record_attempt a rt) = rt_epoch rt" "rt_epoch (resolve_attempt a rt) = rt_epoch rt"
  "rt_fenced_boots (record_attempt a rt) = rt_fenced_boots rt"
  "rt_fenced_boots (resolve_attempt a rt) = rt_fenced_boots rt"
  by (simp_all add: record_attempt_def resolve_attempt_def Let_def split: option.splits)

lemma indexes_cong:
  assumes "rt_key_index a = rt_key_index b" "rt_path_index a = rt_path_index b"
    "rt_publisher_index a = rt_publisher_index b" "rt_lifecycle_index a = rt_lifecycle_index b"
    "rt_namespace_counts a = rt_namespace_counts b"
  shows "indexes tbl a = indexes tbl b"
  using assms by (simp add: indexes_def)

lemma index_inv_attempts [simp]:
  "index_inv (record_attempt a rt) = index_inv rt" "index_inv (resolve_attempt a rt) = index_inv rt"
  by (simp_all add: index_inv_def record_attempt_def resolve_attempt_def Let_def indexes_def split: option.splits)

lemma index_inv_core [simp]: "index_inv (core rt) = index_inv rt"
  by (simp add: index_inv_def indexes_def)

section \<open>Permitted effects\<close>

text \<open>
  An installed record carries the backend's answer for exactly the generation it asserts.
\<close>

definition installed_evidence :: "route_record \<Rightarrow> bool" where
  "installed_evidence r \<longleftrightarrow>
     (rr_lifecycle r = LC_Installed \<longrightarrow>
        reports_applied (rr_applied r) \<and> ap_programmed_generation (rr_applied r) = rr_generation r \<and>
        ap_programming_generation (rr_applied r) = rr_programming_generation r)"

text \<open>
  A later version of a record: the key stays, no generation goes back, the desired state
  changes only with the generation, and a retired or superseded lineage stays one.
\<close>

definition ended :: "route_lifecycle \<Rightarrow> bool" where
  "ended l \<longleftrightarrow> l = LC_Retired \<or> l = LC_Superseded"

definition evolves :: "route_record \<Rightarrow> route_record \<Rightarrow> bool" where
  "evolves q r \<longleftrightarrow>
     rr_key r = rr_key q \<and> rr_generation q \<le> rr_generation r \<and>
     rr_authority_generation q \<le> rr_authority_generation r \<and>
     rr_programming_generation q \<le> rr_programming_generation r \<and>
     (rr_generation r = rr_generation q \<longrightarrow> rr_binding r = rr_binding q \<and> rr_provenance r = rr_provenance q) \<and>
     (ended (rr_lifecycle q) \<longrightarrow> ended (rr_lifecycle r))"

definition revises :: "runtime \<Rightarrow> route_record \<Rightarrow> bool" where
  "revises rt r \<longleftrightarrow> (\<forall>q. om_find (rt_routes rt) (rr_id r) = Some q \<longrightarrow> evolves q r)"

definition commit_ok :: "runtime \<Rightarrow> route_record \<Rightarrow> bool" where
  "commit_ok rt r \<longleftrightarrow>
     fixed_is_valid (rr_id r) \<and> path_named r \<and> key_free rt r \<and> installed_evidence r \<and>
     length (rr_history r) \<le> cf_history_limit (rt_config rt)"

text \<open>
  The permitted effects. Under \<open>strict\<close> a dispatch uses identifiers that are not in use:
  its programming attempt is new, and a route it creates does not displace another one.
\<close>

inductive effect :: "bool \<Rightarrow> runtime \<Rightarrow> runtime \<Rightarrow> bool" for strict :: bool where
  quiet: "core rt' = core rt \<Longrightarrow> effect strict rt rt'"
| revise: "effect strict rt rt'"
    if "om_contains (rt_routes rt) (rr_id r)" and "commit_ok rt r" and "revises rt r"
      and "core rt' = core (commit r rt)"
| dispatch: "effect strict rt rt'"
    if "commit_ok rt r" and "strict \<Longrightarrow> revises rt r"
      and "om_contains (rt_routes rt) (rr_id r) \<or> length (rt_routes rt) < max_routes (rt_limits rt)"
      and "rt_outstanding rt < max_outstanding_programming (rt_limits rt)"
      and "\<not> at_resolved a" and "at_route a = rr_id r"
      and "strict \<Longrightarrow> om_find (rt_attempts rt) (at_attempt a) = None"
      and "core rt' = core (record_attempt a (commit r rt))"
| resolve: "effect strict rt rt'"
    if "om_find (rt_attempts rt) i = Some a" and "\<not> at_resolved a"
      and "core rt' = core (resolve_attempt (a\<lparr>at_resolved := True\<rparr>) rt)"
| revoke: "effect strict rt rt'"
    if "core rt' = core (rt\<lparr>rt_revocations := om_set i v (rt_revocations rt)\<rparr>)"
| authority: "effect strict rt rt'"
    if "set (rt_fenced_boots rt) \<subseteq> set boots"
      and "core rt' = core (rt\<lparr>rt_registrations := registrations, rt_administrative_fences := fences,
                              rt_fenced_boots := boots\<rparr>)"
| epoch: "effect strict rt rt'"
    if "rt_epoch rt < e" and "core rt' = core (rt\<lparr>rt_epoch := e\<rparr>)"

abbreviation effects :: "bool \<Rightarrow> runtime \<Rightarrow> runtime \<Rightarrow> bool" where
  "effects strict \<equiv> (effect strict)\<^sup>*\<^sup>*"

lemma core_field_updates:
  "core (rt\<lparr>rt_revocations := x\<rparr>) = (core rt)\<lparr>rt_revocations := x\<rparr>"
  "core (rt\<lparr>rt_registrations := w, rt_administrative_fences := y, rt_fenced_boots := z\<rparr>) =
     (core rt)\<lparr>rt_registrations := w, rt_administrative_fences := y, rt_fenced_boots := z\<rparr>"
  "core (rt\<lparr>rt_epoch := e\<rparr>) = (core rt)\<lparr>rt_epoch := e\<rparr>"
  by (simp_all add: core_def)

lemma commit_ok_core:
  assumes "core a = core b"
  shows "commit_ok a r = commit_ok b r"
  by (simp add: commit_ok_def key_free_def core_eqD [OF assms])

lemma revises_core:
  assumes "core a = core b"
  shows "revises a r = revises b r"
  by (simp add: revises_def core_eqD [OF assms])

text \<open>Effects may follow a change of the counters, the store or the identifier source.\<close>

lemma effect_core_left:
  assumes "effect s a b" and "core a' = core a"
  shows "effect s a' b"
  using assms(1)
proof cases
  case quiet
  with assms(2) show ?thesis by (intro effect.quiet) simp
next
  case (revise r)
  then show ?thesis
    using assms(2) core_eqD [OF assms(2)]
    by (intro effect.revise [of a' r]) (simp_all add: commit_ok_core [OF assms(2)] revises_core [OF assms(2)] core_update)
next
  case (dispatch r x)
  then show ?thesis
    using assms(2) core_eqD [OF assms(2)]
    by (intro effect.dispatch [of a' r _ x]) (simp_all add: commit_ok_core [OF assms(2)] revises_core [OF assms(2)] core_update)
next
  case (resolve i x)
  then show ?thesis
    using assms(2) core_eqD [OF assms(2)]
    by (intro effect.resolve [of a' i x]) (simp_all add: core_update)
next
  case (revoke i v)
  then show ?thesis
    using assms(2) core_eqD(12) [OF assms(2)] by (intro effect.revoke [where rt = a' and i = i and v = v]) (simp add: core_field_updates)
next
  case (authority boots registrations fences)
  then show ?thesis
    using assms(2) core_eqD [OF assms(2)]
    by (intro effect.authority [of a' boots _ registrations fences]) (simp_all add: core_field_updates)
next
  case (epoch e)
  then show ?thesis
    using assms(2) core_eqD [OF assms(2)] by (intro effect.epoch [of a' e]) (simp_all add: core_field_updates)
qed

lemma effect_core_right:
  assumes "effect s a b" and "core b' = core b"
  shows "effect s a b'"
  using assms by (cases rule: effect.cases) (metis effect.intros)+

lemma effect_bump [simp]: "effect s a (bump f b) = effect s a b"
  by (metis effect_core_right core_bump)

lemma effects_core_left: "effects s a b \<Longrightarrow> core a' = core a \<Longrightarrow> effects s a' b"
  by (rule converse_rtranclp_into_rtranclp [of _ a' a]) (simp_all add: effect.quiet)

lemma effects_quiet: "core b = core a \<Longrightarrow> effects s a b"
  by (simp add: effect.quiet r_into_rtranclp)

section \<open>The invariant of the runtime\<close>

definition records_inv :: "runtime \<Rightarrow> bool" where
  "records_inv rt \<longleftrightarrow>
     (\<forall>i r. om_find (rt_routes rt) i = Some r \<longrightarrow>
        installed_evidence r \<and> length (rr_history r) \<le> cf_history_limit (rt_config rt)) \<and>
     length (rt_routes rt) \<le> max_routes (rt_limits rt)"

definition attempts_inv :: "runtime \<Rightarrow> bool" where
  "attempts_inv rt \<longleftrightarrow>
     om_wf (rt_attempts rt) \<and>
     (\<forall>i a. om_find (rt_attempts rt) i = Some a \<longrightarrow> at_attempt a = i \<and> om_contains (rt_routes rt) (at_route a)) \<and>
     unresolved rt \<le> rt_outstanding rt \<and> rt_outstanding rt \<le> max_outstanding_programming (rt_limits rt)"

definition rt_inv :: "runtime \<Rightarrow> bool" where
  "rt_inv rt \<longleftrightarrow> index_inv rt \<and> records_inv rt \<and> attempts_inv rt"

lemma rt_inv_core: "rt_inv (core rt) = rt_inv rt"
  by (simp add: rt_inv_def records_inv_def attempts_inv_def unresolved_def)

lemma rt_inv_core_eq: "core a = core b \<Longrightarrow> rt_inv a = rt_inv b"
  by (metis rt_inv_core)

text \<open>How the number of unresolved attempts changes.\<close>

definition pending_attempts :: "(programming_attempt_id, programming_attempt_record) omap \<Rightarrow> nat" where
  "pending_attempts m = length (filter (\<lambda>a. \<not> at_resolved a) (om_values m))"

lemma unresolved_pending: "unresolved rt = pending_attempts (rt_attempts rt)"
  by (simp add: unresolved_def pending_attempts_def)

definition open_weight :: "programming_attempt_record option \<Rightarrow> nat" where
  "open_weight x = (case x of None \<Rightarrow> 0 | Some a \<Rightarrow> if at_resolved a then 0 else 1)"

lemma pending_set:
  "om_wf m \<Longrightarrow> pending_attempts (om_set i a m) + open_weight (om_find m i) =
     pending_attempts m + open_weight (Some a)"
proof (induction m)
  case Nil
  then show ?case by (simp add: pending_attempts_def om_values_def open_weight_def)
next
  case (Cons e m)
  obtain j b where e: "e = (j, b)" by (cases e)
  have wf: "om_wf m" using Cons.prems e by (auto dest: om_wf_Cons)
  have small: "i < j \<Longrightarrow> map_of m i = None"
    using Cons.prems e by (force simp: om_wf_def map_of_eq_None_iff)
  show ?case
    using Cons.IH [OF wf] e small by (auto simp: pending_attempts_def om_values_def open_weight_def)
qed

lemma records_inv_commit:
  assumes "rt_inv rt" and "commit_ok rt r"
    and "om_contains (rt_routes rt) (rr_id r) \<or> length (rt_routes rt) < max_routes (rt_limits rt)"
  shows "records_inv (commit r rt)"
  using assms om.size_assign [of "rt_routes rt" "rr_id r" r]
  by (auto simp: rt_inv_def records_inv_def commit_ok_def index_inv_def om_contains_def)

lemma attempts_inv_commit: "attempts_inv rt \<Longrightarrow> attempts_inv (commit r rt)"
  by (auto simp: attempts_inv_def unresolved_def)

lemma rt_inv_commit:
  assumes "rt_inv rt" and "commit_ok rt r"
    and "om_contains (rt_routes rt) (rr_id r) \<or> length (rt_routes rt) < max_routes (rt_limits rt)"
  shows "rt_inv (commit r rt)"
  using assms records_inv_commit [OF assms] attempts_inv_commit [of rt r] index_inv_commit [of rt r]
  by (simp add: rt_inv_def commit_ok_def)

lemma records_inv_attempts [simp]:
  "records_inv (record_attempt a rt) = records_inv rt" "records_inv (resolve_attempt a rt) = records_inv rt"
  by (simp_all add: records_inv_def)

lemma rt_inv_record_attempt:
  assumes "rt_inv rt" and "rt_outstanding rt < max_outstanding_programming (rt_limits rt)"
    and "\<not> at_resolved a" and "om_contains (rt_routes rt) (at_route a)"
  shows "rt_inv (record_attempt a rt)"
  using assms pending_set [of "rt_attempts rt" "at_attempt a" a]
  by (auto simp: rt_inv_def attempts_inv_def record_attempt_def unresolved_pending om_wf_set open_weight_def Let_def
      records_inv_def index_inv_def indexes_def)

lemma rt_inv_resolve_attempt:
  assumes "rt_inv rt" and "om_find (rt_attempts rt) i = Some a" and "\<not> at_resolved a"
  shows "rt_inv (resolve_attempt (a\<lparr>at_resolved := True\<rparr>) rt)"
proof -
  have i: "at_attempt a = i" and inv: "attempts_inv rt" using assms by (auto simp: rt_inv_def attempts_inv_def)
  have "pending_attempts (om_set i (a\<lparr>at_resolved := True\<rparr>) (rt_attempts rt)) + 1 = unresolved rt"
    using pending_set [of "rt_attempts rt" i "a\<lparr>at_resolved := True\<rparr>"] inv assms(2,3)
    by (simp add: attempts_inv_def open_weight_def unresolved_pending)
  with assms i inv have "attempts_inv (resolve_attempt (a\<lparr>at_resolved := True\<rparr>) rt)"
    by (auto simp: attempts_inv_def resolve_attempt_def unresolved_pending om_wf_set Let_def)
  with assms(1) show ?thesis by (simp add: rt_inv_def)
qed

lemma rt_inv_fields:
  "rt_inv (rt\<lparr>rt_revocations := x\<rparr>) = rt_inv rt"
  "rt_inv (rt\<lparr>rt_registrations := w, rt_administrative_fences := y, rt_fenced_boots := z\<rparr>) = rt_inv rt"
  "rt_inv (rt\<lparr>rt_epoch := e\<rparr>) = rt_inv rt"
  by (simp_all add: rt_inv_def index_inv_def indexes_def records_inv_def attempts_inv_def unresolved_def)

lemma effect_inv:
  assumes "effect s rt rt'" and "rt_inv rt"
  shows "rt_inv rt'"
  using assms
proof cases
  case quiet
  with assms(2) show ?thesis by (metis rt_inv_core)
next
  case (revise r)
  then have "rt_inv (commit r rt)" using assms(2) by (simp add: rt_inv_commit)
  with revise show ?thesis by (metis rt_inv_core)
next
  case (dispatch r a)
  have "rt_inv (commit r rt)" using assms(2) dispatch by (simp add: rt_inv_commit)
  then have "rt_inv (record_attempt a (commit r rt))"
    using dispatch by (intro rt_inv_record_attempt) simp_all
  with dispatch show ?thesis by (metis rt_inv_core)
next
  case (resolve i a)
  with assms(2) show ?thesis by (metis rt_inv_core rt_inv_resolve_attempt)
next
  case (revoke i v)
  with assms(2) show ?thesis by (metis rt_inv_core rt_inv_fields(1))
next
  case (authority boots registrations fences)
  with assms(2) show ?thesis by (metis rt_inv_core rt_inv_fields(2))
next
  case (epoch e)
  with assms(2) show ?thesis by (metis rt_inv_core rt_inv_fields(3))
qed

lemma effects_inv: "effects s rt rt' \<Longrightarrow> rt_inv rt \<Longrightarrow> rt_inv rt'"
  by (induction rule: rtranclp_induct) (auto dest: effect_inv)

section \<open>What only grows\<close>

definition advances :: "runtime \<Rightarrow> runtime \<Rightarrow> bool" where
  "advances rt rt' \<longleftrightarrow>
     (\<forall>i q. om_find (rt_routes rt) i = Some q \<longrightarrow> (\<exists>r. om_find (rt_routes rt') i = Some r \<and> evolves q r))"

lemma evolves_refl [simp]: "evolves q q"
  by (simp add: evolves_def)

lemma evolves_trans: "evolves p q \<Longrightarrow> evolves q r \<Longrightarrow> evolves p r"
  by (auto simp: evolves_def)

lemma advances_trans: "advances a b \<Longrightarrow> advances b c \<Longrightarrow> advances a c"
  unfolding advances_def by (meson evolves_trans)

lemma advances_same: "rt_routes b = rt_routes a \<Longrightarrow> advances a b"
  by (auto simp: advances_def)

lemma advances_commit: "revises rt r \<Longrightarrow> rt_routes b = rt_routes (commit r rt) \<Longrightarrow> advances rt b"
  by (auto simp: advances_def revises_def)

lemma effect_advances:
  assumes "effect True rt rt'"
  shows "advances rt rt'"
  using assms
proof cases
  case (revise r)
  then show ?thesis using core_eqD(5) [of rt' "commit r rt"] by (intro advances_commit) auto
next
  case (dispatch r a)
  then show ?thesis
    using core_eqD(5) [of rt' "record_attempt a (commit r rt)"] by (intro advances_commit) auto
qed (auto dest!: core_eqD(5) intro: advances_same)

lemma effects_advance: "effects True rt rt' \<Longrightarrow> advances rt rt'"
  by (induction rule: rtranclp_induct) (auto intro: advances_same advances_trans dest: effect_advances)

text \<open>Revocations, fenced worker boots and the epoch never go back.\<close>

definition authority_grows :: "runtime \<Rightarrow> runtime \<Rightarrow> bool" where
  "authority_grows rt rt' \<longleftrightarrow>
     (\<forall>i. om_contains (rt_revocations rt) i \<longrightarrow> om_contains (rt_revocations rt') i) \<and>
     set (rt_fenced_boots rt) \<subseteq> set (rt_fenced_boots rt') \<and> rt_epoch rt \<le> rt_epoch rt'"

lemma authority_grows_trans: "authority_grows a b \<Longrightarrow> authority_grows b c \<Longrightarrow> authority_grows a c"
  by (auto simp: authority_grows_def)

lemma core_authority:
  "core a = core b \<Longrightarrow>
     rt_epoch a = rt_epoch b \<and> rt_revocations a = rt_revocations b \<and> rt_fenced_boots a = rt_fenced_boots b"
  by (intro conjI core_eqD(3,12,15))

lemma effect_authority: "effect s rt rt' \<Longrightarrow> authority_grows rt rt'"
  by (induction rule: effect.induct) (auto dest!: core_authority simp: authority_grows_def)

lemma effects_authority: "effects s rt rt' \<Longrightarrow> authority_grows rt rt'"
  by (induction rule: rtranclp_induct)
    (auto simp: authority_grows_def [of rt rt] intro: authority_grows_trans dest: effect_authority)

text \<open>With fresh attempt identifiers the counter is exact.\<close>

definition counter_exact :: "runtime \<Rightarrow> bool" where
  "counter_exact rt \<longleftrightarrow> unresolved rt = rt_outstanding rt"

lemma counter_exact_core: "counter_exact (core rt) = counter_exact rt"
  by (simp add: counter_exact_def unresolved_def)

lemma counter_exact_record:
  "attempts_inv rt \<Longrightarrow> om_find (rt_attempts rt) (at_attempt a) = None \<Longrightarrow> \<not> at_resolved a \<Longrightarrow> counter_exact rt \<Longrightarrow>
   counter_exact (record_attempt a rt)"
  using pending_set [of "rt_attempts rt" "at_attempt a" a]
  by (auto simp: counter_exact_def attempts_inv_def unresolved_pending record_attempt_def open_weight_def Let_def)

lemma counter_exact_resolve:
  "attempts_inv rt \<Longrightarrow> om_find (rt_attempts rt) i = Some a \<Longrightarrow> \<not> at_resolved a \<Longrightarrow> counter_exact rt \<Longrightarrow>
   counter_exact (resolve_attempt (a\<lparr>at_resolved := True\<rparr>) rt)"
  using pending_set [of "rt_attempts rt" i "a\<lparr>at_resolved := True\<rparr>"]
  by (auto simp: counter_exact_def attempts_inv_def unresolved_pending resolve_attempt_def open_weight_def Let_def)

lemma counter_exact_fields:
  "counter_exact (commit r rt) = counter_exact rt"
  "counter_exact (rt\<lparr>rt_revocations := x\<rparr>) = counter_exact rt"
  "counter_exact (rt\<lparr>rt_registrations := w, rt_administrative_fences := y, rt_fenced_boots := z\<rparr>) = counter_exact rt"
  "counter_exact (rt\<lparr>rt_epoch := e\<rparr>) = counter_exact rt"
  by (simp_all add: counter_exact_def unresolved_def)

lemma effect_exact:
  assumes "effect True rt rt'" and "rt_inv rt" and "counter_exact rt"
  shows "counter_exact rt'"
  using assms(1)
proof cases
  case (dispatch r a)
  have "counter_exact (record_attempt a (commit r rt))"
    using assms dispatch
    by (intro counter_exact_record) (simp_all add: counter_exact_fields attempts_inv_commit rt_inv_def)
  with dispatch show ?thesis by (metis counter_exact_core)
next
  case (resolve i a)
  then show ?thesis using assms by (metis counter_exact_core counter_exact_resolve rt_inv_def)
qed (use assms(3) in \<open>metis counter_exact_core counter_exact_fields\<close>)+

lemma effects_exact: "effects True rt rt' \<Longrightarrow> rt_inv rt \<Longrightarrow> counter_exact rt \<Longrightarrow> counter_exact rt'"
  by (induction rule: rtranclp_induct) (auto dest: effect_exact effects_inv)

lemma rt_inv_containers: "rt_inv rt \<Longrightarrow> containers_wf rt"
  by (auto simp: rt_inv_def index_inv_def containers_wf_def indexes_def)

lemma rt_inv_validate:
  assumes "rt_inv rt"
  shows "ValidateIndexes rt = ok_status \<longleftrightarrow> counter_exact rt"
proof -
  have "attempts_routed rt"
    using assms by (force simp: rt_inv_def attempts_inv_def attempts_routed_def om_values_def om_find_iff)
  with assms show ?thesis
    by (simp add: ValidateIndexes_iff rt_inv_containers counter_exact_def rt_inv_def index_inv_def)
qed

end
