(* ===== verification/RF_Refinement.thy ===== *)
theory RF_Refinement
  imports RF_Steps
begin

text \<open>
  \<^bold>\<open>Every locked section is a sequence of permitted effects.\<close> The lemmas of this theory show,
  operation by operation, that the code of \<open>src/runtime.cpp\<close> implements the abstract
  specification of the previous theory, and so keeps its invariants.
\<close>

section \<open>Records\<close>

lemma push_history_fields [simp]:
  "rr_id (push_history rt r e p) = rr_id r" "rr_key (push_history rt r e p) = rr_key r"
  "rr_generation (push_history rt r e p) = rr_generation r"
  "rr_authority_generation (push_history rt r e p) = rr_authority_generation r"
  "rr_invalidation_watermark (push_history rt r e p) = rr_invalidation_watermark r"
  "rr_programming_generation (push_history rt r e p) = rr_programming_generation r"
  "rr_lifecycle (push_history rt r e p) = rr_lifecycle r" "rr_binding (push_history rt r e p) = rr_binding r"
  "rr_applied (push_history rt r e p) = rr_applied r" "rr_observation (push_history rt r e p) = rr_observation r"
  "rr_provenance (push_history rt r e p) = rr_provenance r"
  "rr_supersession (push_history rt r e p) = rr_supersession r"
  "rr_retirement (push_history rt r e p) = rr_retirement r"
  by (simp_all add: push_history_def Let_def)

lemma push_history_bounded: "length (rr_history (push_history rt r e p)) \<le> cf_history_limit (rt_config rt)"
  unfolding push_history_def Let_def by (auto simp: min_def)

lemma counter_next_less: "counter_next c = Inr n \<Longrightarrow> c < n"
  using counter_next_unat [of c n] by (simp add: word_less_nat_alt)

lemma advanceD:
  "advance_generation r = Inr g \<Longrightarrow> rr_generation r < g"
  "advance_authority r = Inr a \<Longrightarrow> rr_authority_generation r < a"
  "advance_programming r = Inr p \<Longrightarrow> rr_programming_generation r < p"
  by (auto simp: advance_generation_def advance_authority_def advance_programming_def
      split: sum.splits dest: counter_next_less)

lemma publish_advanceD:
  assumes "publish_advance r = Inr a"
  shows "\<exists>g c. a = r\<lparr>rr_generation := g, rr_authority_generation := c\<rparr> \<and>
    rr_generation r < g \<and> rr_authority_generation r < c"
  using assms by (auto simp: publish_advance_def split: sum.splits dest!: advanceD)

lemma apply_eventD: "apply_event l e = (Inr u, l') \<Longrightarrow> next_lifecycle l e = Some l'"
  by (auto simp: apply_event_def split: option.splits)

lemma next_lifecycle_begin:
  "next_lifecycle l EV_BeginInstall = Some l' \<Longrightarrow> l' = LC_Installing \<and> \<not> ended l"
  "next_lifecycle l EV_BeginWithdraw = Some l' \<Longrightarrow> l' = LC_Withdrawing \<and> \<not> ended l"
  "next_lifecycle l EV_Retire = Some l' \<Longrightarrow> l' = LC_Retired"
  "next_lifecycle l EV_Revoke = Some l' \<Longrightarrow> l' = LC_Retired"
  unfolding next_lifecycle_iff kTransitions_def by (auto simp: ended_def)

lemma next_lifecycle_installed:
  "next_lifecycle l e = Some LC_Installed \<Longrightarrow> l = LC_Installing \<and> (e = EV_BackendApplied \<or> e = EV_BackendIdempotent)"
  unfolding next_lifecycle_iff kTransitions_def by auto

lemma next_lifecycle_superseded: "next_lifecycle l e = Some LC_Superseded \<Longrightarrow> e = EV_Supersede"
  unfolding next_lifecycle_iff kTransitions_def by auto

section \<open>Owning a key\<close>

lemma key_free_owner:
  assumes "index_inv rt" and "om_find (rt_routes rt) i = Some q" and "rr_lifecycle q \<noteq> LC_Superseded"
    and "rr_id r = i" and "rr_key r = rr_key q"
  shows "key_free rt r"
proof -
  have "om_find (rt_key_index rt) (rr_key q) = Some i"
    using assms(1-3) by (auto simp: index_inv_def indexes_def attr_graph_def key_attr_def)
  with assms(4,5) show ?thesis by (simp add: key_free_def)
qed

lemma inv_key_index:
  assumes "rt_inv rt"
  shows "om_find (rt_key_index rt) k = Some i \<longleftrightarrow>
    (\<exists>r. om_find (rt_routes rt) i = Some r \<and> rr_lifecycle r \<noteq> LC_Superseded \<and> rr_key r = k)"
  using assms by (auto simp: rt_inv_def index_inv_def indexes_def attr_graph_def key_attr_def)

lemma inv_record:
  assumes "rt_inv rt" and "om_find (rt_routes rt) i = Some r"
  shows "rr_id r = i" and "fixed_is_valid i" and "path_named r" and "installed_evidence r"
    and "length (rr_history r) \<le> cf_history_limit (rt_config rt)" and "om_contains (rt_routes rt) i"
  using assms by (auto simp: rt_inv_def index_inv_def table_wf_def records_inv_def om_contains_def)

lemma validate_recordD:
  assumes "validate_route_record r limits = ok_status"
  shows "fixed_is_valid (rr_id r)" and "path_named r"
  using assms
  by (auto simp: validate_route_record_def validate_fields_def path_named_def route_binding_is_valid_def
      split: sum.splits if_splits)

section \<open>Dispatching\<close>

text \<open>The next attempt identifier is not in use.\<close>

definition draws_fresh :: "runtime \<Rightarrow> bool" where
  "draws_fresh rt \<longleftrightarrow> om_find (rt_attempts rt) (fst (draw_attempt_id rt)) = None"

lemma commit_dispatch_effect:
  assumes "commit_dispatch u a rt = (st, rt')" and "\<not> at_resolved a" and "at_route a = rr_id u"
    and "validate_route_record u (rt_limits rt) = ok_status \<Longrightarrow> commit_ok rt u"
    and "s \<Longrightarrow> revises rt u" and "s \<Longrightarrow> om_find (rt_attempts rt) (at_attempt a) = None"
    and "om_contains (rt_routes rt) (rr_id u) \<or> length (rt_routes rt) < max_routes (rt_limits rt)"
  shows "effect s rt rt'"
proof (cases "core rt' = core rt")
  case True
  then show ?thesis by (rule effect.quiet)
next
  case False
  then obtain rt1 where valid: "validate_route_record u (rt_limits rt) = ok_status"
    and room: "rt_outstanding rt < max_outstanding_programming (rt_limits rt)"
    and "persist [u] [] [a] rt = (ok_status, rt1)"
    and rt': "rt' = bump ct_programming_dispatches_update (record_attempt a (commit u rt1))"
    using assms(1)
    by (auto simp: commit_dispatch_def ok_status_def split: sum.splits if_splits prod.splits dest: persist_core)
  then have "core rt' = core (record_attempt a (commit u rt))"
    by (auto simp: core_update dest: persist_core)
  with valid room assms show ?thesis
    by (intro effect.dispatch [of rt u s a]) auto
qed

text \<open>The record a dispatch commits is not installed, and its history was just bounded.\<close>

lemma commit_ok_dispatched:
  assumes "rt_inv rt" and "validate_route_record u limits = ok_status" and "key_free rt u"
    and "rr_lifecycle u \<noteq> LC_Installed" and "length (rr_history u) \<le> cf_history_limit (rt_config rt)"
  shows "commit_ok rt u"
  using assms validate_recordD [OF assms(2)] by (simp add: commit_ok_def installed_evidence_def)

text \<open>
  The common shape of the three dispatching operations: an identifier is drawn, then a
  version of an existing record, or a new one, is committed with its attempt.
\<close>

lemma dispatch_effect:
  assumes inv: "rt_inv rt" and draw: "draw_attempt_id rt = (i, rt1)"
    and cd: "commit_dispatch u a rt1 = (st, rt')"
    and a: "\<not> at_resolved a" "at_route a = rr_id u" "at_attempt a = i"
    and key: "key_free rt u" and l: "rr_lifecycle u \<noteq> LC_Installed"
    and h: "length (rr_history u) \<le> cf_history_limit (rt_config rt)"
    and rev: "s \<Longrightarrow> revises rt u" and fresh: "s \<Longrightarrow> draws_fresh rt"
    and room: "om_contains (rt_routes rt) (rr_id u) \<or> length (rt_routes rt) < max_routes (rt_limits rt)"
  shows "effect s rt rt'"
proof -
  have core: "core rt1 = core rt" using draw by (rule draw_core)
  have "effect s rt1 rt'"
  proof (rule commit_dispatch_effect [OF cd a(1,2)])
    assume "validate_route_record u (rt_limits rt1) = ok_status"
    then have "commit_ok rt u" by (rule commit_ok_dispatched [OF inv _ key l h])
    then show "commit_ok rt1 u" by (simp add: commit_ok_core [OF core])
  next
    assume s
    then show "revises rt1 u" using rev by (simp add: revises_core [OF core])
  next
    assume s
    then show "om_find (rt_attempts rt1) (at_attempt a) = None"
      using fresh draw a(3) core_eqD(11) [OF core] by (simp add: draws_fresh_def)
  next
    show "om_contains (rt_routes rt1) (rr_id u) \<or> length (rt_routes rt1) < max_routes (rt_limits rt1)"
      using room by (simp add: core_eqD(1,5) [OF core])
  qed
  then show ?thesis using core by (rule effect_core_left [OF _ sym])
qed

lemma make_attempt_fields [simp]:
  "\<not> at_resolved (make_attempt rt i u op)" "at_route (make_attempt rt i u op) = rr_id u"
  "at_attempt (make_attempt rt i u op) = i"
  by (simp_all add: make_attempt_def)

lemma pending_applied_fields [simp]:
  "rr_id (pending_applied rt i reason r) = rr_id r" "rr_key (pending_applied rt i reason r) = rr_key r"
  "rr_generation (pending_applied rt i reason r) = rr_generation r"
  "rr_authority_generation (pending_applied rt i reason r) = rr_authority_generation r"
  "rr_programming_generation (pending_applied rt i reason r) = rr_programming_generation r"
  "rr_lifecycle (pending_applied rt i reason r) = rr_lifecycle r"
  "rr_binding (pending_applied rt i reason r) = rr_binding r"
  by (simp_all add: pending_applied_def)

text \<open>A newer version of an existing record that has not ended.\<close>

lemma evolves_newer:
  assumes "rr_key u = rr_key r" and "rr_generation r < rr_generation u"
    and "rr_authority_generation r \<le> rr_authority_generation u"
    and "rr_programming_generation r \<le> rr_programming_generation u"
    and "ended (rr_lifecycle r) \<Longrightarrow> ended (rr_lifecycle u)"
  shows "evolves r u"
  using assms by (auto simp: evolves_def)

lemma revises_record: "om_find (rt_routes rt) (rr_id u) = Some r \<Longrightarrow> evolves r u \<Longrightarrow> revises rt u"
  by (simp add: revises_def)

lemma prepare_core:
  assumes "prepare_lifecycle_mutation route p w rt = (x, rt')"
  shows "core rt' = core rt"
  using assms check_scope_core
  by (auto simp: prepare_lifecycle_mutation_def split: option.splits sum.splits prod.splits if_splits)

lemma prepare_record:
  assumes "prepare_lifecycle_mutation route p w rt = (Inr (g, r), rt')"
  shows "om_find (rt_routes rt) route = Some r" and "\<not> ended (rr_lifecycle r)" and "rt' = rt"
  using assms
  by (auto simp: prepare_lifecycle_mutation_def check_scope_def ended_def
      split: option.splits sum.splits prod.splits if_splits)

lemma path_check_ok: "path_check q v b rt = (Inr u, rt') \<Longrightarrow> rt' = rt"
  by (auto simp: path_check_def Let_def split: if_splits)

lemma check_scope_ok: "check_scope g k rt = (Inr u, rt') \<Longrightarrow> rt' = rt"
  by (auto simp: check_scope_def split: if_splits)

section \<open>Withdrawal and revalidation\<close>

lemma withdraw_commit_effect:
  assumes inv: "rt_inv rt" and r: "om_find (rt_routes rt) i = Some r" "\<not> ended (rr_lifecycle r)"
    and adv: "publish_advance r = Inr advanced"
    and run: "withdraw_commit reason r advanced rt = (answer, rt')" and fresh: "s \<Longrightarrow> draws_fresh rt"
  shows "effect s rt rt'"
proof (cases "core rt' = core rt")
  case True
  then show ?thesis by (rule effect.quiet)
next
  case False
  obtain g c where advanced: "advanced = r\<lparr>rr_generation := g, rr_authority_generation := c\<rparr>"
    and less: "rr_generation r < g" "rr_authority_generation r < c"
    using publish_advanceD [OF adv] by blast
  obtain lifecycle programming j rt1 st where
    l: "next_lifecycle (rr_lifecycle advanced) EV_BeginWithdraw = Some lifecycle"
    and pg: "advance_programming r = Inr programming" and draw: "draw_attempt_id rt = (j, rt1)"
    and cd: "commit_dispatch
        (push_history rt1 (pending_applied rt1 j reason
          (advanced\<lparr>rr_lifecycle := lifecycle, rr_programming_generation := programming\<rparr>))
          EV_BeginWithdraw (rr_generation r))
        (make_attempt rt1 j
          (push_history rt1 (pending_applied rt1 j reason
            (advanced\<lparr>rr_lifecycle := lifecycle, rr_programming_generation := programming\<rparr>))
            EV_BeginWithdraw (rr_generation r)) OP_Withdraw) rt1 = (st, rt')"
    using run False
    by (auto simp: withdraw_commit_def Let_def dest!: apply_eventD split: prod.splits sum.splits)
  note id = inv_record(1) [OF inv r(1)]
  show ?thesis
  proof (rule dispatch_effect [OF inv draw cd])
    show "key_free rt (push_history rt1 (pending_applied rt1 j reason
        (advanced\<lparr>rr_lifecycle := lifecycle, rr_programming_generation := programming\<rparr>))
        EV_BeginWithdraw (rr_generation r))"
      using inv r id by (intro key_free_owner [of rt i r]) (auto simp: rt_inv_def ended_def advanced)
    show "revises rt (push_history rt1 (pending_applied rt1 j reason
        (advanced\<lparr>rr_lifecycle := lifecycle, rr_programming_generation := programming\<rparr>))
        EV_BeginWithdraw (rr_generation r))"
      using r id less advanceD(3) [OF pg]
      by (intro revises_record [of _ _ r] evolves_newer) (auto simp: advanced)
  qed (use next_lifecycle_begin(2) [OF l] push_history_bounded [of rt1] core_eqD(1) [OF draw_core [OF draw]]
      inv_record(6) [OF inv r(1)] id advanced fresh in auto)
qed

lemma withdraw_begin_effect:
  assumes inv: "rt_inv rt" and run: "withdraw_begin request rt = (answer, rt')" and fresh: "s \<Longrightarrow> draws_fresh rt"
  shows "effect s rt rt'"
proof -
  have main: "effect s rt rt'"
    if "prepare_lifecycle_mutation i p w rt = (Inr (g, r), rt1)" "publish_advance r = Inr advanced"
      "withdraw_commit reason r advanced rt1 = (answer, rt')" for i p w g r rt1 advanced reason
    using that(2,3) prepare_record [OF that(1)] withdraw_commit_effect [OF inv, of i r advanced reason answer rt' s]
      fresh by simp
  show ?thesis
    using run unfolding withdraw_begin_def
    by (auto split: sum.splits if_splits prod.splits intro: effect.quiet dest: prepare_core main)
qed

lemma revalidate_commit_effect:
  assumes inv: "rt_inv rt" and r: "om_find (rt_routes rt) i = Some r" "\<not> ended (rr_lifecycle r)"
    and adv: "publish_advance r = Inr advanced"
    and run: "revalidate_commit request r advanced rt = (answer, rt')" and fresh: "s \<Longrightarrow> draws_fresh rt"
  shows "effect s rt rt'"
proof (cases "core rt' = core rt")
  case True
  then show ?thesis by (rule effect.quiet)
next
  case False
  obtain g c where advanced: "advanced = r\<lparr>rr_generation := g, rr_authority_generation := c\<rparr>"
    and less: "rr_generation r < g" "rr_authority_generation r < c"
    using publish_advanceD [OF adv] by blast
  obtain programming j rt1 u op st rt2 where
    pg: "advance_programming r = Inr programming" and draw: "draw_attempt_id rt = (j, rt1)"
    and cd: "commit_dispatch u (make_attempt rt1 j u op) rt1 = (st, rt2)" and rt': "core rt' = core rt2"
    and u: "rr_id u = rr_id r" "rr_key u = rr_key r" "rr_generation u = g" "rr_authority_generation u = c"
      "rr_programming_generation u = programming" "rr_lifecycle u = LC_Installing"
      "length (rr_history u) \<le> cf_history_limit (rt_config rt1)"
    using run False push_history_bounded
    by (auto simp: revalidate_commit_def Let_def advanced dest!: apply_eventD next_lifecycle_begin(1)
        split: prod.splits sum.splits)
  note id = inv_record(1) [OF inv r(1)]
  have "effect s rt rt2"
  proof (rule dispatch_effect [OF inv draw cd])
    show "key_free rt u"
      using inv r id u by (intro key_free_owner [of rt i r]) (auto simp: rt_inv_def ended_def)
    show "revises rt u"
      using r id less u advanceD(3) [OF pg] by (intro revises_record [of _ _ r] evolves_newer) auto
  qed (use core_eqD(1) [OF draw_core [OF draw]] inv_record(6) [OF inv r(1)] id u fresh in auto)
  then show ?thesis using rt' by (rule effect_core_right)
qed

lemma revalidate_begin_effect:
  assumes inv: "rt_inv rt" and run: "revalidate_begin query violated request rt = (answer, rt')"
    and fresh: "s \<Longrightarrow> draws_fresh rt"
  shows "effect s rt rt'"
proof -
  have main: "effect s rt rt'"
    if "prepare_lifecycle_mutation i p w rt = (Inr (g, r), rt1)" "path_check query violated b rt1 = (Inr u, rt2)"
      "publish_advance r = Inr advanced" "revalidate_commit request r advanced rt2 = (answer, rt')"
    for i p w g r rt1 rt2 advanced b u
    using that(3,4) prepare_record [OF that(1)] path_check_ok [OF that(2)]
      revalidate_commit_effect [OF inv, of i r advanced request answer rt' s] fresh by simp
  have quiet: "effect s rt rt'"
    if "prepare_lifecycle_mutation i p w rt = (x, rt1)" "path_check query violated b rt1 = (y, rt')"
    for i p w x y rt1 b
    using prepare_core [OF that(1)] path_check_core [OF that(2)] by (simp add: effect.quiet)
  show ?thesis
    using run unfolding revalidate_begin_def
    by (auto split: sum.splits if_splits prod.splits intro: effect.quiet dest: prepare_core main quiet)
qed

section \<open>Publication\<close>

text \<open>The identity of a created route.\<close>

definition new_route_id :: "publish_request \<Rightarrow> route_id" where
  "new_route_id request =
     (if fixed_is_valid (pq_lineage request) then pq_lineage request else derive_route_id (pq_key request))"

definition publishes_fresh :: "publish_request \<Rightarrow> runtime \<Rightarrow> bool" where
  "publishes_fresh request rt \<longleftrightarrow>
     (case publish_lookup rt (pq_key request) of
        None \<Rightarrow> om_find (rt_routes rt) (new_route_id request) = None
      | Some r \<Rightarrow> blocks_republication r \<longrightarrow> om_find (rt_routes rt) (new_route_id request) = None)"

lemma published_record_fields [simp]:
  "rr_id (published_record rt request prior l p i r) = rr_id r"
  "rr_key (published_record rt request prior l p i r) = rr_key r"
  "rr_generation (published_record rt request prior l p i r) = rr_generation r"
  "rr_authority_generation (published_record rt request prior l p i r) = rr_authority_generation r"
  "rr_programming_generation (published_record rt request prior l p i r) = p"
  "rr_lifecycle (published_record rt request prior l p i r) = l"
  by (simp_all add: published_record_def)

lemma published_record_bounded:
  "length (rr_history (published_record rt request prior l p i r)) \<le> cf_history_limit (rt_config rt)"
  unfolding published_record_def by (rule push_history_bounded)

lemma publish_commit_effect:
  assumes inv: "rt_inv rt" and run: "publish_commit request prior previously r rt = (answer, rt')"
    and key: "case om_find (rt_key_index rt) (rr_key r) of None \<Rightarrow> True | Some i \<Rightarrow> i = rr_id r"
    and old: "\<And>q. s \<Longrightarrow> om_find (rt_routes rt) (rr_id r) = Some q \<Longrightarrow>
      rr_key r = rr_key q \<and> rr_generation q < rr_generation r \<and>
      rr_authority_generation q \<le> rr_authority_generation r \<and>
      rr_programming_generation q \<le> rr_programming_generation r \<and> \<not> ended (rr_lifecycle q)"
    and fresh: "s \<Longrightarrow> draws_fresh rt"
    and room: "om_contains (rt_routes rt) (rr_id r) \<or> length (rt_routes rt) < max_routes (rt_limits rt)"
  shows "effect s rt rt'"
proof (cases "core rt' = core rt")
  case True
  then show ?thesis by (rule effect.quiet)
next
  case False
  obtain programming j rt1 op st rt2 where
    pg: "advance_programming r = Inr programming" and draw: "draw_attempt_id rt = (j, rt1)"
    and cd: "commit_dispatch (published_record rt1 request prior LC_Installing programming j r)
      (make_attempt rt1 j (published_record rt1 request prior LC_Installing programming j r) op) rt1 = (st, rt2)"
    and rt': "core rt' = core rt2"
    using run False
    by (auto simp: publish_commit_def Let_def dest!: apply_eventD next_lifecycle_begin(1)
        split: prod.splits sum.splits)
  have "effect s rt rt2"
  proof (rule dispatch_effect [OF inv draw cd])
    show "key_free rt (published_record rt1 request prior LC_Installing programming j r)"
      using key by (simp add: key_free_def split: option.splits)
    show "revises rt (published_record rt1 request prior LC_Installing programming j r)" if s
      unfolding revises_def published_record_fields
      using old [OF that] advanceD(3) [OF pg]
      by (auto intro!: evolves_newer)
  qed (use core_eqD(1) [OF draw_core [OF draw]] published_record_bounded [of rt1] room fresh in auto)
  then show ?thesis using rt' by (rule effect_core_right)
qed

lemma publish_createD:
  assumes "publish_create request rt = Inr r"
  shows "rr_id r = new_route_id request" and "rr_key r = pq_key request"
    and "length (rt_routes rt) < max_routes (rt_limits rt)"
  using assms by (auto simp: publish_create_def new_route_id_def Let_def split: if_splits prod.splits)

lemma publish_new_effect:
  assumes inv: "rt_inv rt" and run: "publish_new query violated request rt = (answer, rt')"
    and key: "om_find (rt_key_index rt) (pq_key request) = None"
    and new: "s \<Longrightarrow> om_find (rt_routes rt) (new_route_id request) = None" and fresh: "s \<Longrightarrow> draws_fresh rt"
  shows "effect s rt rt'"
proof -
  have main: "effect s rt rt'"
    if "publish_create request rt = Inr r" "path_check query violated b rt = (Inr u, rt1)"
      "publish_commit request None False r rt1 = (answer, rt')" for r b u rt1
    using that(3) path_check_ok [OF that(2)] publish_createD [OF that(1)] key new fresh
    by (intro publish_commit_effect [OF inv, of request None False r answer]) auto
  show ?thesis
    using run unfolding publish_new_def
    by (auto split: sum.splits prod.splits intro: effect.quiet dest: path_check_core main)
qed

lemma publish_lookup_record:
  assumes "rt_inv rt" and "publish_lookup rt key = Some r"
  shows "om_find (rt_routes rt) (rr_id r) = Some r" and "rr_key r = key"
    and "om_find (rt_key_index rt) key = Some (rr_id r)" and "rr_lifecycle r \<noteq> LC_Superseded"
proof -
  obtain i where i: "om_find (rt_key_index rt) key = Some i" "om_find (rt_routes rt) i = Some r"
    using assms(2) by (auto simp: publish_lookup_def bind_eq_Some_conv split: if_splits)
  with inv_record(1) [OF assms(1) i(2)] assms(1)
  show "om_find (rt_routes rt) (rr_id r) = Some r" and "rr_key r = key"
    and "om_find (rt_key_index rt) key = Some (rr_id r)" and "rr_lifecycle r \<noteq> LC_Superseded"
    by (auto simp: rt_inv_def index_inv_def indexes_def attr_graph_def key_attr_def split: if_splits)
qed

lemma publish_lookup_none:
  assumes "rt_inv rt" and "publish_lookup rt key = None"
  shows "om_find (rt_key_index rt) key = None"
proof (rule ccontr)
  assume "om_find (rt_key_index rt) key \<noteq> None"
  then obtain i r where "om_find (rt_key_index rt) key = Some i" "om_find (rt_routes rt) i = Some r"
    using assms(1) by (auto simp: rt_inv_def index_inv_def indexes_def attr_graph_def)
  with assms inv_record [OF assms(1)] show False by (auto simp: publish_lookup_def)
qed

lemma publish_replace_effect:
  assumes inv: "rt_inv rt" and run: "publish_replace query violated request r rt = (answer, rt')"
    and r: "publish_lookup rt (pq_key request) = Some r" and live: "\<not> ended (rr_lifecycle r)"
    and fresh: "s \<Longrightarrow> draws_fresh rt"
  shows "effect s rt rt'"
proof -
  note own = publish_lookup_record [OF inv r]
  have main: "effect s rt rt'"
    if "publish_advance r = Inr advanced" "path_check query violated b rt = (Inr u, rt1)"
      "publish_commit request prior previously advanced rt1 = (answer, rt')" for advanced b u rt1 prior previously
    using that(3) path_check_ok [OF that(2)] publish_advanceD [OF that(1)] own live fresh
    by (intro publish_commit_effect [OF inv, of request prior previously advanced answer])
      (auto simp: om_contains_def)
  show ?thesis
    using run unfolding publish_replace_def
    by (auto split: sum.splits prod.splits intro: effect.quiet dest: path_check_core main)
qed

lemma persist_ids: "persist u v a rt = (st, rt') \<Longrightarrow> rt_ids rt' = rt_ids rt"
  by (auto simp: persist_def Let_def split: option.splits if_splits prod.splits)

lemma commit_ids [simp]: "rt_ids (commit r rt) = rt_ids rt"
  by (simp add: commit_def index_erase_def index_insert_def Let_def split: option.splits)

lemma bump_fields [simp]: "rt_ids (bump f rt) = rt_ids rt"
  by (simp add: bump_def)

lemma draws_fresh_cong: "rt_ids a = rt_ids b \<Longrightarrow> rt_attempts a = rt_attempts b \<Longrightarrow> draws_fresh a = draws_fresh b"
  by (simp add: draws_fresh_def draw_attempt_id_def split: option.splits)

lemma superseded_record_fields [simp]:
  "rr_id (superseded_record rt request g a r) = rr_id r" "rr_key (superseded_record rt request g a r) = rr_key r"
  "rr_generation (superseded_record rt request g a r) = g"
  "rr_authority_generation (superseded_record rt request g a r) = a"
  "rr_programming_generation (superseded_record rt request g a r) = rr_programming_generation r"
  "rr_lifecycle (superseded_record rt request g a r) = LC_Superseded"
  "rr_binding (superseded_record rt request g a r) = rr_binding r"
  by (simp_all add: superseded_record_def)

lemma superseded_record_bounded:
  "length (rr_history (superseded_record rt request g a r)) \<le> cf_history_limit (rt_config rt)"
  unfolding superseded_record_def by (rule push_history_bounded)

text \<open>A refused takeover changes nothing; an accepted one frees the key.\<close>

lemma publish_supersede_refused:
  "publish_supersede request g r rt = (Inl e, rt') \<Longrightarrow> core rt' = core rt"
  by (auto simp: publish_supersede_def Let_def ok_status_def split: if_splits sum.splits prod.splits dest: persist_core)

lemma publish_supersede_accepted:
  assumes inv: "rt_inv rt" and r: "publish_lookup rt (pq_key request) = Some r"
    and run: "publish_supersede request g r rt = (Inr u, rt')"
  shows "effect s rt rt'" and "om_find (rt_key_index rt') (pq_key request) = None"
    and "draws_fresh rt' = draws_fresh rt"
    and "om_find (rt_routes rt) (new_route_id request) = None \<Longrightarrow>
      om_find (rt_routes rt') (new_route_id request) = None"
proof -
  note own = publish_lookup_record [OF inv r]
  obtain gen auth rt1 where lin: "fixed_is_valid (pq_lineage request)" "pq_lineage request \<noteq> rr_id r"
    and less: "rr_generation r < gen" "rr_authority_generation r < auth"
    and p: "persist [superseded_record rt request gen auth r] [] [] rt = (Inr (), rt1)"
    and rt': "rt' = bump ct_supersessions_update (commit (superseded_record rt request gen auth r) rt1)"
    using run by (auto simp: publish_supersede_def Let_def split: if_splits sum.splits prod.splits dest!: advanceD)
  let ?u = "superseded_record rt request gen auth r"
  have core: "core rt1 = core rt" using p by (rule persist_core)
  have core': "core rt' = core (commit ?u rt)" by (simp add: rt' core_update core)
  have "commit_ok rt ?u"
    using inv_record [OF inv own(1)] superseded_record_bounded
    by (simp add: commit_ok_def key_free_def installed_evidence_def path_named_def)
  moreover have "revises rt ?u"
    using less own(1) by (intro revises_record [of _ _ r] evolves_newer) (auto simp: ended_def)
  ultimately show eff: "effect s rt rt'"
    using own(1) core' by (intro effect.revise [of rt ?u]) (auto simp: om_contains_def)
  have inv': "rt_inv rt'" using eff inv by (rule effect_inv)
  note routes = core_eqD(5) [OF core', simplified]
  show "om_find (rt_key_index rt') (pq_key request) = None"
  proof (rule ccontr)
    assume "om_find (rt_key_index rt') (pq_key request) \<noteq> None"
    then obtain i q where q: "om_find (rt_routes rt') i = Some q" "rr_lifecycle q \<noteq> LC_Superseded"
      "rr_key q = pq_key request"
      using inv_key_index [OF inv'] by blast
    then have "i \<noteq> rr_id r" and "om_find (rt_routes rt) i = Some q" by (auto simp: routes split: if_splits)
    with q own(3) show False using inv_key_index [OF inv, of "pq_key request" i] by auto
  qed
  show "draws_fresh rt' = draws_fresh rt"
  proof (rule draws_fresh_cong)
    show "rt_ids rt' = rt_ids rt" by (simp add: rt' persist_ids [OF p])
    show "rt_attempts rt' = rt_attempts rt" using core_eqD(11) [OF core'] by simp
  qed
  show "om_find (rt_routes rt) (new_route_id request) = None \<Longrightarrow>
      om_find (rt_routes rt') (new_route_id request) = None"
    using lin by (simp add: routes new_route_id_def)
qed

lemma publish_admit_core: "publish_admit query request g r rt = (x, rt') \<Longrightarrow> core rt' = core rt"
  by (auto simp: publish_admit_def split: if_splits)

lemma publish_admit_on: "publish_admit query request g r rt = (None, rt') \<Longrightarrow> rt' = rt"
  by (auto simp: publish_admit_def split: if_splits)

lemma publish_takeover_effects:
  assumes "rt_inv rt" and "publish_lookup rt (pq_key request) = Some r"
    and "publish_supersede request g r rt = (Inr u, rt1)" and "publish_new query violated request rt1 = (answer, rt')"
    and "s \<Longrightarrow> om_find (rt_routes rt) (new_route_id request) = None" and "s \<Longrightarrow> draws_fresh rt"
  shows "effects s rt rt'"
proof -
  note sup = publish_supersede_accepted [OF assms(1-3)]
  have "effect s rt1 rt'"
    using effect_inv [OF sup(1) assms(1)] assms(4-) sup(2-) by (intro publish_new_effect) auto
  with sup(1) [of s] show ?thesis by (meson r_into_rtranclp rtranclp_trans)
qed

lemma publish_begin_effects:
  assumes inv: "rt_inv rt" and run: "publish_begin query violated request rt = (answer, rt')"
    and fresh: "s \<Longrightarrow> draws_fresh rt \<and> publishes_fresh request rt"
  shows "effects s rt rt'"
proof -
  have scope: "check_scope g k rt = (Inr u, rt1) \<Longrightarrow> rt1 = rt" for g k u rt1 by (rule check_scope_ok)
  have new: "publish_lookup rt (pq_key request) = None \<Longrightarrow> publish_new query violated request rt = (answer, rt') \<Longrightarrow>
      effects s rt rt'"
    using fresh publish_lookup_none [OF inv, of "pq_key request"]
    by (intro r_into_rtranclp [where r = "effect s"] publish_new_effect [OF inv]) (auto simp: publishes_fresh_def)
  have take: "publish_lookup rt (pq_key request) = Some r \<Longrightarrow> blocks_republication r \<Longrightarrow>
      publish_supersede request g r rt = (Inr u, rt1) \<Longrightarrow>
      publish_new query violated request rt1 = (answer, rt') \<Longrightarrow> effects s rt rt'" for g r u rt1
    using fresh by (intro publish_takeover_effects [OF inv]) (auto simp: publishes_fresh_def)
  have replace: "publish_lookup rt (pq_key request) = Some r \<Longrightarrow> \<not> blocks_republication r \<Longrightarrow>
      publish_admit query request g r rt = (None, rt1) \<Longrightarrow>
      publish_replace query violated request r rt1 = (answer, rt') \<Longrightarrow> effects s rt rt'" for r g rt1
    using fresh publish_admit_on [of query request g r rt rt1]
    by (intro r_into_rtranclp [where r = "effect s"] publish_replace_effect [OF inv])
      (auto simp: blocks_republication_def ended_def)
  show ?thesis
    using run unfolding publish_begin_def
    by (auto split: sum.splits if_splits prod.splits option.splits intro: effects_quiet new take replace
        dest: check_scope_core publish_supersede_refused publish_admit_core dest!: scope)
qed

section \<open>Retirement and revocation\<close>

lemma retired_record_fields [simp]:
  "rr_id (retired_record rt request c e l p r) = rr_id r" "rr_key (retired_record rt request c e l p r) = rr_key r"
  "rr_generation (retired_record rt request c e l p r) = rr_generation r"
  "rr_authority_generation (retired_record rt request c e l p r) = rr_authority_generation r"
  "rr_programming_generation (retired_record rt request c e l p r) = rr_programming_generation r"
  "rr_lifecycle (retired_record rt request c e l p r) = l"
  "rr_binding (retired_record rt request c e l p r) = rr_binding r"
  by (simp_all add: retired_record_def)

lemma retired_record_bounded:
  "length (rr_history (retired_record rt request c e l p r)) \<le> cf_history_limit (rt_config rt)"
  unfolding retired_record_def by (rule push_history_bounded)

lemma retire_effect:
  assumes inv: "rt_inv rt" and r: "om_find (rt_routes rt) i = Some r" "rr_lifecycle r \<noteq> LC_Superseded"
    and adv: "publish_advance r = Inr advanced"
    and p: "persist us vs as rt = (st, rt1)"
  shows "effect s rt (commit (retired_record rt request c e LC_Retired p' advanced) rt1)"
proof -
  let ?u = "retired_record rt request c e LC_Retired p' advanced"
  obtain g a where advanced: "advanced = r\<lparr>rr_generation := g, rr_authority_generation := a\<rparr>"
    and less: "rr_generation r < g" "rr_authority_generation r < a"
    using publish_advanceD [OF adv] by blast
  note rec = inv_record [OF inv r(1)]
  have "key_free rt ?u"
    using inv r rec(1) by (intro key_free_owner [of rt i r]) (auto simp: rt_inv_def advanced)
  then have "commit_ok rt ?u"
    using rec retired_record_bounded by (simp add: commit_ok_def installed_evidence_def path_named_def advanced)
  moreover have "revises rt ?u"
    using r rec(1) less by (intro revises_record [of _ _ r] evolves_newer) (auto simp: advanced ended_def)
  ultimately show ?thesis
    using rec(1,6) persist_core [OF p] by (intro effect.revise [of rt ?u]) (auto simp: advanced core_update)
qed

lemma RetireRoute_effect:
  assumes inv: "rt_inv rt" and run: "RetireRoute request rt = (x, rt')"
  shows "effect s rt rt'"
proof -
  have main: "effect s rt (bump f
      (commit (retired_record rt1 request RT_Administrative EV_Retire lifecycle (rr_generation r) advanced) rt2))"
    if r: "prepare_lifecycle_mutation i p w rt = (Inr (g, r), rt1)" and adv: "publish_advance r = Inr advanced"
      and l: "apply_event (rr_lifecycle advanced) EV_Retire = (Inr u, lifecycle)"
      and p: "persist us vs as rt1 = (st, rt2)" for i p w g r advanced u lifecycle us vs as st rt1 rt2 f
    using prepare_record [OF r] retire_effect [OF inv, of i r advanced us vs as st rt2] adv p
      next_lifecycle_begin(3) [OF apply_eventD [OF l]]
    by (auto simp: ended_def)
  have quiet: "effect s rt rt'"
    if "prepare_lifecycle_mutation i p w rt = (y, rt1)" "persist us vs as rt1 = (st, rt')"
    for i p w y rt1 us vs as st
    using prepare_core [OF that(1)] persist_core [OF that(2)] by (simp add: effect.quiet)
  show ?thesis
    using run unfolding RetireRoute_def Let_def
    by (auto split: sum.splits if_splits prod.splits intro: effect.quiet main dest: prepare_core quiet)
qed

text \<open>Revocation keeps the specification for every route that is not superseded.\<close>

lemma RevokeRoute_effects:
  assumes inv: "rt_inv rt" and run: "RevokeRoute request rt = (x, rt')"
    and live: "\<And>r. om_find (rt_routes rt) (lq_route request) = Some r \<Longrightarrow> rr_lifecycle r \<noteq> LC_Superseded"
  shows "effects s rt rt'"
proof -
  have main: "effects s rt (bump f
      (commit (retired_record rt request RT_Revoked EV_Revoke lifecycle (rr_generation r) advanced) rt1
        \<lparr>rt_revocations := om_set i v (rt_revocations rt1)\<rparr>))"
    if r: "om_find (rt_routes rt) (lq_route request) = Some r" and adv: "publish_advance r = Inr advanced"
      and l: "apply_event (rr_lifecycle advanced) EV_Revoke = (Inr u, lifecycle)"
      and p: "persist us vs as rt = (st, rt1)" for r advanced u lifecycle us vs as st rt1 f i v
  proof -
    let ?u = "commit (retired_record rt request RT_Revoked EV_Revoke lifecycle (rr_generation r) advanced) rt1"
    have "effect s rt ?u"
      using retire_effect [OF inv r live [OF r] adv p] next_lifecycle_begin(4) [OF apply_eventD [OF l]] by simp
    moreover have "effect s ?u (bump f (?u\<lparr>rt_revocations := om_set i v (rt_revocations rt1)\<rparr>))"
      by (rule effect.revoke [where i = i and v = v]) simp
    ultimately show ?thesis by (meson r_into_rtranclp rtranclp_trans)
  qed
  show ?thesis
    using run unfolding RevokeRoute_def Let_def
    by (auto split: option.splits sum.splits if_splits prod.splits intro: effects_quiet main dest: persist_core)
qed

end
