(* ===== verification/RF_Refinement2.thy ===== *)
theory RF_Refinement2
  imports RF_Refinement
begin

text \<open>
  \<^bold>\<open>Completion, invalidation, reconciliation and authority as permitted effects.\<close> The second
  half of the refinement: the sections that apply a backend outcome, react to a path
  authority change, record an observation, or change who may act.
\<close>

section \<open>Programming outcomes\<close>

lemma completed_record_fields [simp]:
  "rr_id (completed_record rt a x e l r) = rr_id r" "rr_key (completed_record rt a x e l r) = rr_key r"
  "rr_generation (completed_record rt a x e l r) = rr_generation r"
  "rr_authority_generation (completed_record rt a x e l r) = rr_authority_generation r"
  "rr_programming_generation (completed_record rt a x e l r) = rr_programming_generation r"
  "rr_lifecycle (completed_record rt a x e l r) = l" "rr_binding (completed_record rt a x e l r) = rr_binding r"
  "rr_provenance (completed_record rt a x e l r) = rr_provenance r"
  by (simp_all add: completed_record_def Let_def)

lemma completed_record_bounded:
  "length (rr_history (completed_record rt a x e l r)) \<le> cf_history_limit (rt_config rt)"
  unfolding completed_record_def Let_def by (rule push_history_bounded)

definition outcome_event :: "programming_attempt_record \<Rightarrow> programming_result \<Rightarrow> route_event" where
  "outcome_event a x =
     (if at_operation a = OP_Withdraw then withdraw_event (ps_outcome x) else install_event (ps_outcome x))"

lemma withdraw_event_cases: "withdraw_event x \<in> {EV_WithdrawApplied, EV_WithdrawFailed}"
  by (cases x) simp_all

lemma install_event_applied:
  "install_event x \<in> {EV_BackendApplied, EV_BackendIdempotent} \<longleftrightarrow> x \<in> {PO_Applied, PO_Idempotent}"
  by (cases x) simp_all

lemma outcome_not_supersede: "outcome_event a x \<noteq> EV_Supersede"
  unfolding outcome_event_def by (cases "ps_outcome x") simp_all

text \<open>An outcome that installs the route leaves the evidence for it in the record.\<close>

lemma completed_evidence:
  assumes "next_lifecycle (rr_lifecycle r) (outcome_event a x) = Some l" and "\<not> completion_stale rt a r"
  shows "installed_evidence (completed_record rt a x (outcome_event a x) l r)"
proof (cases "l = LC_Installed")
  case True
  then have e: "outcome_event a x \<in> {EV_BackendApplied, EV_BackendIdempotent}"
    using next_lifecycle_installed [of "rr_lifecycle r" "outcome_event a x"] assms(1) by auto
  then have "at_operation a \<noteq> OP_Withdraw"
    using withdraw_event_cases [of "ps_outcome x"] by (auto simp: outcome_event_def)
  with e have "install_classification (ps_outcome x) \<in> {AC_Applied, AC_IdempotentAlreadyApplied}"
    using install_event_applied [of "ps_outcome x"] by (auto simp: outcome_event_def)
  with \<open>at_operation a \<noteq> OP_Withdraw\<close> assms(2) show ?thesis
    by (auto simp: installed_evidence_def completed_record_def completion_stale_def reports_applied_def Let_def)
qed (simp add: installed_evidence_def)

lemma completed_effects:
  assumes inv: "rt_inv rt" and a: "om_find (rt_attempts rt) i = Some a" "\<not> at_resolved a"
    and r: "om_find (rt_routes rt) (at_route a) = Some r" and live: "\<not> completion_stale rt a r"
    and l: "next_lifecycle (rr_lifecycle r) (outcome_event a x) = Some l"
    and p: "persist us vs as rt = (st, rt1)"
  shows "effects s rt (resolve_attempt (a\<lparr>at_resolved := True\<rparr>)
    (commit (completed_record rt a x (outcome_event a x) l r) rt1))"
proof -
  let ?u = "completed_record rt a x (outcome_event a x) l r"
  note rec = inv_record [OF inv r]
  have ls: "rr_lifecycle r \<noteq> LC_Superseded" "\<not> ended (rr_lifecycle r)"
    using live by (auto simp: completion_stale_def ended_def)
  have "key_free rt ?u"
    using inv r rec(1) ls by (intro key_free_owner [of rt "at_route a" r]) (auto simp: rt_inv_def)
  then have "commit_ok rt ?u"
    using rec completed_record_bounded completed_evidence [OF l live]
    by (simp add: commit_ok_def path_named_def)
  moreover have "revises rt ?u"
    using r rec(1) ls by (intro revises_record [of _ _ r]) (auto simp: evolves_def)
  ultimately have 1: "effect s rt (commit ?u rt1)"
    using rec(1,6) persist_core [OF p] by (intro effect.revise [of rt ?u]) (auto simp: core_update)
  have "rt_attempts (commit ?u rt1) = rt_attempts rt"
    using core_eqD(11) [OF persist_core [OF p]] by simp
  then have "effect s (commit ?u rt1) (resolve_attempt (a\<lparr>at_resolved := True\<rparr>) (commit ?u rt1))"
    using a by (intro effect.resolve [of _ i a]) auto
  with 1 show ?thesis by (meson r_into_rtranclp rtranclp_trans)
qed

lemma resolved_effect:
  assumes "om_find (rt_attempts rt) i = Some a" and "\<not> at_resolved a" and "persist us vs as rt = (st, rt1)"
  shows "effect s rt (resolve_attempt (a\<lparr>at_resolved := True\<rparr>) rt1)"
  using assms persist_core [OF assms(3)] by (intro effect.resolve [of rt i a]) (auto simp: core_update)

lemma effects_bump [simp]: "effects s a (bump f b) = effects s a b"
proof
  assume "effects s a (bump f b)"
  then show "effects s a b"
    by (rule rtranclp.rtrancl_into_rtrancl) (simp add: effect.quiet)
next
  assume "effects s a b"
  then show "effects s a (bump f b)"
    by (rule rtranclp.rtrancl_into_rtrancl) (simp add: effect.quiet)
qed

lemma apply_completion_effects:
  assumes inv: "rt_inv rt" and run: "apply_completion_locked result rt = (d, rt')"
  shows "effects s rt rt'"
  using run unfolding apply_completion_locked_def Let_def outcome_event_def [symmetric]
  by (auto split: option.splits sum.splits if_splits prod.splits intro: effects_quiet completed_effects [OF inv]
      r_into_rtranclp [of "effect s", OF resolved_effect] dest: persist_core)

section \<open>Path invalidation\<close>

text \<open>A version of a live record that asks for revalidation.\<close>

definition demotes :: "runtime \<Rightarrow> route_record \<Rightarrow> bool" where
  "demotes rt u \<longleftrightarrow>
     (\<exists>r. om_find (rt_routes rt) (rr_id u) = Some r \<and> \<not> ended (rr_lifecycle r) \<and> rr_key u = rr_key r \<and>
        rr_binding u = rr_binding r \<and> rr_generation r < rr_generation u \<and>
        rr_authority_generation r < rr_authority_generation u \<and>
        rr_programming_generation u = rr_programming_generation r \<and>
        rr_lifecycle u = LC_RevalidationRequired \<and>
        length (rr_history u) \<le> cf_history_limit (rt_config rt))"

lemma demote_effect:
  assumes inv: "rt_inv rt" and "demotes rt u"
  shows "effect s rt (commit u rt)"
proof -
  obtain r where r: "om_find (rt_routes rt) (rr_id u) = Some r" "\<not> ended (rr_lifecycle r)"
    and u: "rr_key u = rr_key r" "rr_binding u = rr_binding r" "rr_generation r < rr_generation u"
      "rr_authority_generation r < rr_authority_generation u"
      "rr_programming_generation u = rr_programming_generation r"
      "rr_lifecycle u = LC_RevalidationRequired" "length (rr_history u) \<le> cf_history_limit (rt_config rt)"
    using assms(2) by (auto simp: demotes_def)
  have "key_free rt u"
    using inv r u by (intro key_free_owner [of rt "rr_id u" r]) (auto simp: rt_inv_def ended_def)
  then have "commit_ok rt u"
    using inv_record [OF inv r(1)] u by (simp add: commit_ok_def installed_evidence_def path_named_def)
  moreover have "evolves r u"
    using r(2) u by (intro evolves_newer) simp_all
  then have "revises rt u" by (rule revises_record [OF r(1)])
  ultimately show ?thesis
    using r by (intro effect.revise [of rt u]) (auto simp: om_contains_def)
qed

lemma demotes_commit: "rr_id v \<noteq> rr_id u \<Longrightarrow> demotes (commit u rt) v = demotes rt v"
  by (simp add: demotes_def)

lemma demote_all_effects:
  "rt_inv rt \<Longrightarrow> \<forall>u \<in> set us. demotes rt u \<Longrightarrow> distinct (map rr_id us) \<Longrightarrow> effects s rt (fold commit us rt)"
proof (induction us arbitrary: rt)
  case (Cons u us)
  have eff: "effect s rt (commit u rt)" using Cons.prems by (intro demote_effect) auto
  have "\<forall>v \<in> set us. demotes (commit u rt) v"
  proof
    fix v assume "v \<in> set us"
    then have "rr_id v \<in> rr_id ` set us" by simp
    with Cons.prems(3) have "rr_id v \<noteq> rr_id u" by auto
    then show "demotes (commit u rt) v" using Cons.prems(2) \<open>v \<in> set us\<close> by (simp add: demotes_commit)
  qed
  with Cons.prems(3) have "effects s (commit u rt) (fold commit us (commit u rt))"
    by (intro Cons.IH effect_inv [OF eff Cons.prems(1)]) auto
  with eff show ?case by (simp add: converse_rtranclp_into_rtranclp)
qed simp

lemma invalidate_record_demotes:
  assumes inv: "rt_inv rt" and "invalidate_record rt generation state i = Inr (Some u)"
  shows "rr_id u = i" and "demotes rt u"
proof -
  obtain r advanced l where r: "om_find (rt_routes rt) i = Some r" "asserts_installability (rr_lifecycle r)"
    and adv: "publish_advance r = Inr advanced"
    and l: "next_lifecycle (rr_lifecycle advanced) EV_RequireRevalidation = Some l"
    and u: "u = push_history rt
      (advanced\<lparr>rr_invalidation_watermark := rr_authority_generation advanced,
         rr_provenance := (rr_provenance advanced)\<lparr>pv_path_authority_generation := generation\<rparr>,
         rr_lifecycle := l\<rparr>) EV_RequireRevalidation (rr_generation r)"
    using assms(2)
    by (auto simp: invalidate_record_def split: option.splits if_splits sum.splits prod.splits dest!: apply_eventD)
  obtain g c where advanced: "advanced = r\<lparr>rr_generation := g, rr_authority_generation := c\<rparr>"
    and less: "rr_generation r < g" "rr_authority_generation r < c"
    using publish_advanceD [OF adv] by blast
  have "l = LC_RevalidationRequired"
    using l r(2) unfolding next_lifecycle_iff kTransitions_def by (auto simp: advanced asserts_installability_def)
  moreover have "\<not> ended (rr_lifecycle r)" using r(2) by (auto simp: asserts_installability_def ended_def)
  moreover note inv_record(1) [OF inv r(1)] push_history_bounded [of rt]
  ultimately show "rr_id u = i" and "demotes rt u"
    using r less by (auto simp: demotes_def u advanced)
qed

lemma invalidate_records_demote:
  assumes inv: "rt_inv rt"
  shows "invalidate_records rt generation state is = Inr us \<Longrightarrow>
    (\<forall>u \<in> set us. demotes rt u \<and> rr_id u \<in> set is) \<and> (distinct is \<longrightarrow> distinct (map rr_id us))"
proof (induction "is" arbitrary: us)
  case (Cons i "is")
  then obtain x vs where x: "invalidate_record rt generation state i = Inr x"
    and vs: "invalidate_records rt generation state is = Inr vs"
    and us: "us = (case x of None \<Rightarrow> vs | Some u \<Rightarrow> u # vs)"
    by (auto split: sum.splits)
  show ?case
    using Cons.IH [OF vs] us x invalidate_record_demotes [OF inv, of generation state i]
    by (cases x) auto
qed simp

lemma demotes_core:
  assumes "core a = core b"
  shows "demotes a u = demotes b u"
  by (simp add: demotes_def core_eqD [OF assms])

lemma invalidate_path_effects:
  assumes inv: "rt_inv rt" and run: "invalidate_path_locked path generation state rt = (st, rt')"
  shows "effects s rt rt'"
proof (cases "core rt' = core rt")
  case True
  then show ?thesis by (rule effects_quiet)
next
  case False
  then obtain deps us rt1 where deps: "om_find (rt_path_index rt) path = Some deps"
    and us: "invalidate_records rt generation state deps = Inr us" and p: "persist us [] [] rt = (Inr (), rt1)"
    and rt': "rt' = fold commit us rt1"
    using run by (auto simp: invalidate_path_locked_def split: option.splits sum.splits if_splits prod.splits
        dest: persist_core)
  have core: "core rt1 = core rt" using p by (rule persist_core)
  have "mi_wf (rt_path_index rt)"
    using inv unfolding rt_inv_def index_inv_def indexes_def by blast
  with deps have "distinct deps"
    by (auto simp: mi_wf_def os_wf_def intro: sorted_wrt_less_distinct)
  with invalidate_records_demote [OF inv us]
  have us: "\<forall>u \<in> set us. demotes rt1 u" "distinct (map rr_id us)" by (simp_all add: demotes_core [OF core])
  have "rt_inv rt1" using inv by (simp only: rt_inv_core_eq [OF core])
  then have "effects s rt1 rt'" unfolding rt' using us by (rule demote_all_effects)
  then show ?thesis using core [symmetric] by (rule effects_core_left)
qed

lemma OnPathAuthorityChanged_effects:
  assumes "rt_inv rt" and "OnPathAuthorityChanged path generation state rt = (st, rt')"
  shows "effects s rt rt'"
  using assms invalidate_path_effects
  by (auto simp: OnPathAuthorityChanged_def split: if_splits intro: effects_quiet)

lemma revalidate_paths_effects:
  "rt_inv rt \<Longrightarrow> revalidate_paths query paths rt = (st, rt') \<Longrightarrow> effects s rt rt'"
proof (induction paths arbitrary: rt)
  case (Cons path paths)
  obtain x rt1 where x: "invalidate_path_locked path (pr_generation (query path)) (pr_state (query path)) rt = (x, rt1)"
    by fastforce
  have eff: "effects s rt rt1" using invalidate_path_effects [OF Cons.prems(1) x] .
  with Cons.IH [OF effects_inv [OF eff Cons.prems(1)]] Cons.prems(2) x show ?case
    by (auto split: sum.splits intro: rtranclp_trans)
qed simp

lemma RevalidatePathAuthorities_effects:
  assumes "rt_inv rt" and "RevalidatePathAuthorities query rt = (st, rt')"
  shows "effects s rt rt'"
  using assms revalidate_paths_effects
  by (auto simp: RevalidatePathAuthorities_def split: if_splits intro: effects_quiet)

section \<open>Reconciliation\<close>

lemma observed_record_fields [simp]:
  "rr_id (observed_record rt q r) = rr_id r" "rr_key (observed_record rt q r) = rr_key r"
  "rr_generation (observed_record rt q r) = rr_generation r"
  "rr_authority_generation (observed_record rt q r) = rr_authority_generation r"
  "rr_programming_generation (observed_record rt q r) = rr_programming_generation r"
  "rr_lifecycle (observed_record rt q r) = rr_lifecycle r" "rr_binding (observed_record rt q r) = rr_binding r"
  "rr_provenance (observed_record rt q r) = rr_provenance r" "rr_applied (observed_record rt q r) = rr_applied r"
  "rr_history (observed_record rt q r) = rr_history r"
  by (simp_all add: observed_record_def)

lemma observe_effect:
  assumes inv: "rt_inv rt" and r: "om_find (rt_routes rt) i = Some r" and p: "persist us vs as rt = (st, rt1)"
  shows "effect s rt (commit (observed_record rt q r) rt1)"
proof -
  note rec = inv_record [OF inv r]
  have "key_free rt (observed_record rt q r)"
  proof (cases "rr_lifecycle r = LC_Superseded")
    case True
    then show ?thesis by (simp add: key_free_def)
  next
    case False
    then show ?thesis using inv r rec(1) by (intro key_free_owner [of rt i r]) (auto simp: rt_inv_def)
  qed
  then have "commit_ok rt (observed_record rt q r)"
    using rec by (simp add: commit_ok_def installed_evidence_def path_named_def)
  moreover have "revises rt (observed_record rt q r)"
    using r rec(1) by (intro revises_record [of _ _ r]) (simp_all add: evolves_def)
  ultimately show ?thesis
    using rec(1,6) persist_core [OF p]
    by (intro effect.revise [of rt "observed_record rt q r"]) (simp_all add: core_update)
qed

lemma reconcile_effect:
  assumes "rt_inv rt" and "reconcile_locked i q rt = (x, rt')"
  shows "effect s rt rt'"
  using assms(2) unfolding reconcile_locked_def Let_def
  by (auto split: option.splits sum.splits prod.splits intro: effect.quiet observe_effect [OF assms(1)]
      dest: persist_core)

section \<open>Authority\<close>

lemma authority_effect:
  assumes "set (rt_fenced_boots rt) \<subseteq> set (rt_fenced_boots rt')"
    and "rt' = rt\<lparr>rt_registrations := rt_registrations rt',
      rt_administrative_fences := rt_administrative_fences rt', rt_fenced_boots := rt_fenced_boots rt'\<rparr>"
  shows "effect s rt rt'"
  using assms(1) arg_cong [OF assms(2), of core] by (rule effect.authority)

lemma RegisterPublisher_effect: "RegisterPublisher p w scope rt = (x, rt') \<Longrightarrow> effect s rt rt'"
  by (intro authority_effect)
    (auto simp: RegisterPublisher_def Let_def split: sum.splits if_splits option.splits)

lemma FencePublisher_effect: "FencePublisher p reason rt = (x, rt') \<Longrightarrow> effect s rt rt'"
  by (intro authority_effect) (auto simp: FencePublisher_def Let_def split: option.splits if_splits)

lemma FenceWorkerBoot_effect: "FenceWorkerBoot w reason rt = (x, rt') \<Longrightarrow> effect s rt rt'"
  by (intro authority_effect) (auto simp: FenceWorkerBoot_def Let_def split: if_splits)

lemma ClearAdministrativeFence_effect: "ClearAdministrativeFence p rt = (x, rt') \<Longrightarrow> effect s rt rt'"
  by (intro authority_effect) (auto simp: ClearAdministrativeFence_def)

lemma AdvanceEpoch_effect:
  assumes "AdvanceEpoch rt = (x, rt')"
  shows "effect s rt rt'"
proof (cases "core rt' = core rt")
  case True
  then show ?thesis by (rule effect.quiet)
next
  case False
  then obtain e where "counter_next (rt_epoch rt) = Inr e" and "core rt' = core (rt\<lparr>rt_epoch := e\<rparr>)"
    using assms by (auto simp: AdvanceEpoch_def Let_def split: if_splits sum.splits option.splits prod.splits)
  then show ?thesis by (intro effect.epoch [of rt e]) (simp_all add: counter_next_less)
qed

lemma Compact_effect: "Compact rt = (x, rt') \<Longrightarrow> effect s rt rt'"
  by (auto simp: Compact_def split: if_splits intro: effect.quiet dest: compact_core)

end
