(* ===== verification/RF_Recovery.thy ===== *)
theory RF_Recovery
  imports RF_Refinement2
begin

text \<open>
  \<^bold>\<open>Opening establishes the invariant.\<close> What \<open>Open\<close> builds from a loaded store: the
  indexes of the loaded records, and the conservative recovery of every programming attempt
  that was still unresolved when the store was written.
\<close>

section \<open>Loading maps\<close>

definition fill :: "('a \<Rightarrow> 'k :: linorder) \<Rightarrow> 'a list \<Rightarrow> ('k, 'a) omap \<Rightarrow> ('k, 'a) omap" where
  "fill key xs m = fold (\<lambda>x. om_set (key x) x) xs m"

lemma fill_wf: "om_wf m \<Longrightarrow> om_wf (fill key xs m)"
  by (induction xs arbitrary: m) (simp_all add: fill_def om_wf_set)

lemma fill_find:
  "distinct (map key xs) \<Longrightarrow> om_find (fill key xs m) = om_find m ++ map_of (map (\<lambda>x. (key x, x)) xs)"
proof (induction xs arbitrary: m)
  case Nil
  then show ?case by (simp add: fill_def)
next
  case (Cons x xs)
  have "om_find (fill key (x # xs) m) = om_find (fill key xs (om_set (key x) x m))" by (simp add: fill_def)
  also have "\<dots> = om_find (om_set (key x) x m) ++ map_of (map (\<lambda>x. (key x, x)) xs)"
    using Cons.prems by (intro Cons.IH) simp
  also have "\<dots> = om_find m ++ map_of (map (\<lambda>x. (key x, x)) (x # xs))"
    using Cons.prems
    by (auto simp: fun_eq_iff map_add_def om_find_set map_of_eq_None_iff split: option.splits dest!: map_of_SomeD)
  finally show ?case .
qed

lemma keyed_find: "distinct (map key xs) \<Longrightarrow> map_of (map (\<lambda>x. (key x, x)) xs) i = Some x \<longleftrightarrow> x \<in> set xs \<and> key x = i"
  by (subst map_of_eq_Some_iff) (auto simp: comp_def)

lemma fill_empty_find:
  "distinct (map key xs) \<Longrightarrow> om_find (fill key xs []) i = Some x \<longleftrightarrow> x \<in> set xs \<and> key x = i"
  by (simp add: fill_find keyed_find)

lemma fill_empty_values:
  assumes "distinct (map key xs)"
  shows "set (om_values (fill key xs [])) = set xs"
proof -
  have "om_wf (fill key xs [])" by (simp add: fill_wf)
  then show ?thesis
    using fill_empty_find [OF assms] by (force simp: om_values_def om_find_iff)
qed

lemma fill_empty_length:
  assumes "distinct (map key xs)"
  shows "length (fill key xs []) = length xs"
proof -
  have wf: "om_wf (fill key xs [])" by (simp add: fill_wf)
  have "dom (om_find (fill key xs [])) = key ` set xs"
    using fill_empty_find [OF assms] by (auto simp: dom_def image_iff)
  then show ?thesis
    using om.size_dom [OF wf] distinct_card [OF assms] by simp
qed

lemma keyed_list:
  "\<forall>i x. (i, x) \<in> set m \<longrightarrow> key x = i \<Longrightarrow> map (\<lambda>x. (key x, x)) (om_values m) = m"
  by (induction m) (auto simp: om_values_def)

section \<open>Indexing the loaded records\<close>

definition live :: "route_record \<Rightarrow> bool" where
  "live r \<longleftrightarrow> rr_lifecycle r \<noteq> LC_Superseded"

lemma indexes_fold_insert:
  assumes "indexes tbl rt" and "distinct (map rr_id rs)" and "\<forall>r \<in> set rs. tbl (rr_id r) = None"
    and "distinct (map rr_key (filter live rs))"
    and "\<forall>r \<in> set rs. \<forall>i q. tbl i = Some q \<longrightarrow> live q \<longrightarrow> live r \<longrightarrow> rr_key q \<noteq> rr_key r"
  shows "indexes (tbl ++ map_of (map (\<lambda>r. (rr_id r, r)) rs)) (fold index_insert rs rt)"
  using assms
proof (induction rs arbitrary: tbl rt)
  case (Cons r rs)
  have "om_find (rt_key_index rt) (rr_key r) = None" if "live r"
  proof (rule ccontr)
    assume "om_find (rt_key_index rt) (rr_key r) \<noteq> None"
    then obtain i where "(rr_key r, i) \<in> attr_graph key_attr tbl"
      using Cons.prems(1) by (auto simp: indexes_def)
    then obtain q where "tbl i = Some q" "live q" "rr_key q = rr_key r"
      by (auto simp: attr_graph_def key_attr_def live_def split: if_splits)
    with Cons.prems(5) that show False by auto
  qed
  then have 1: "indexes (tbl(rr_id r \<mapsto> r)) (index_insert r rt)"
    using Cons.prems by (intro indexes_insert) (auto simp: live_def)
  have 2: "\<forall>x \<in> set rs. \<forall>i q. (tbl(rr_id r \<mapsto> r)) i = Some q \<longrightarrow> live q \<longrightarrow> live x \<longrightarrow> rr_key q \<noteq> rr_key x"
  proof (intro ballI allI impI)
    fix x i q assume x: "x \<in> set rs" and q: "(tbl(rr_id r \<mapsto> r)) i = Some q" and l: "live q" "live x"
    show "rr_key q \<noteq> rr_key x"
    proof (cases "i = rr_id r")
      case True
      with q have "q = r" by simp
      moreover have "rr_key x \<in> rr_key ` set (filter live rs)" using x l by simp
      ultimately show ?thesis using Cons.prems(4) l by auto
    next
      case False
      then show ?thesis using Cons.prems(5) x q l by auto
    qed
  qed
  have 3: "\<forall>x \<in> set rs. (tbl(rr_id r \<mapsto> r)) (rr_id x) = None"
    using Cons.prems(2,3) by (auto simp: image_iff)
  have "indexes (tbl(rr_id r \<mapsto> r) ++ map_of (map (\<lambda>r. (rr_id r, r)) rs))
      (fold index_insert rs (index_insert r rt))"
    by (rule Cons.IH [OF 1 _ 3 _ 2]) (use Cons.prems(2,4) in \<open>auto split: if_splits\<close>)
  moreover have "tbl(rr_id r \<mapsto> r) ++ map_of (map (\<lambda>r. (rr_id r, r)) rs) =
      tbl ++ map_of (map (\<lambda>r. (rr_id r, r)) (r # rs))"
    using Cons.prems(2)
    by (auto simp: fun_eq_iff map_add_def split: option.splits dest!: map_of_SomeD)
  ultimately show ?case by (simp only: fold_simps)
qed simp

text \<open>
  What a store must hold: unique identities, one live record per key, records within the
  configured bounds, and attempts that name their routes.
\<close>

definition admissible :: "runtime_config \<Rightarrow> persisted_state \<Rightarrow> bool" where
  "admissible config state \<longleftrightarrow>
     distinct (map rr_id (pst_routes state)) \<and> distinct (map rr_key (filter live (pst_routes state))) \<and>
     length (pst_routes state) \<le> max_routes (cf_limits config) \<and>
     (\<forall>r \<in> set (pst_routes state). fixed_is_valid (rr_id r) \<and> path_named r \<and> installed_evidence r \<and>
        length (rr_history r) \<le> cf_history_limit config) \<and>
     distinct (map at_attempt (pst_attempts state)) \<and>
     length (pst_attempts state) \<le> max_outstanding_programming (cf_limits config) \<and>
     (\<forall>a \<in> set (pst_attempts state). at_route a \<in> rr_id ` set (pst_routes state))"

text \<open>A runtime that holds nothing yet.\<close>

definition blank :: "runtime \<Rightarrow> bool" where
  "blank rt \<longleftrightarrow>
     rt_routes rt = [] \<and> rt_key_index rt = [] \<and> rt_path_index rt = [] \<and> rt_publisher_index rt = [] \<and>
     rt_lifecycle_index rt = [] \<and> rt_namespace_counts rt = [] \<and> rt_attempts rt = [] \<and> rt_outstanding rt = 0"

lemma blank_make_runtime: "blank (make_runtime config backend authority seed)"
  by (simp add: blank_def make_runtime_def)

lemma blank_indexes: "blank rt \<Longrightarrow> indexes Map.empty rt"
  by (simp add: blank_def indexes_def attr_graph_def namespace_routes_def count_entry_def mi_rel_def mi_members_def)

lemma index_fold_fields:
  "rt_routes (fold index_insert rs rt) = rt_routes rt" "rt_attempts (fold index_insert rs rt) = rt_attempts rt"
  "rt_outstanding (fold index_insert rs rt) = rt_outstanding rt" "rt_config (fold index_insert rs rt) = rt_config rt"
  by (induction rs arbitrary: rt) (simp_all add: index_insert_def)

lemma load_attempts:
  "fold load_attempt as rt = rt\<lparr>rt_attempts := fill at_attempt as (rt_attempts rt),
     rt_outstanding := rt_outstanding rt + length (filter (\<lambda>a. \<not> at_resolved a) as)\<rparr>"
  by (induction as arbitrary: rt) (simp_all add: load_attempt_def fill_def Let_def)

lemma pending_fill:
  "distinct (map at_attempt as) \<Longrightarrow> om_wf m \<Longrightarrow> \<forall>a \<in> set as. om_find m (at_attempt a) = None \<Longrightarrow>
   pending_attempts (fill at_attempt as m) = pending_attempts m + length (filter (\<lambda>a. \<not> at_resolved a) as)"
proof (induction as arbitrary: m)
  case (Cons a as)
  have "pending_attempts (fill at_attempt as (om_set (at_attempt a) a m)) =
      pending_attempts (om_set (at_attempt a) a m) + length (filter (\<lambda>a. \<not> at_resolved a) as)"
    using Cons.prems by (intro Cons.IH) (auto simp: om_wf_set image_iff)
  with pending_set [of m "at_attempt a" a] Cons.prems show ?case
    by (simp add: fill_def open_weight_def)
qed (simp add: fill_def)

lemma load_state_routes:
  "rt_routes (load_state state rt) = fill rr_id (pst_routes state) (rt_routes rt)"
  "rt_attempts (load_state state rt) = fill at_attempt (pst_attempts state) (rt_attempts rt)"
  "rt_outstanding (load_state state rt) =
     rt_outstanding rt + length (filter (\<lambda>a. \<not> at_resolved a) (pst_attempts state))"
  "rt_config (load_state state rt) = rt_config rt"
  by (simp_all add: load_state_def Let_def load_attempts fill_def index_fold_fields)

lemma load_state_indexes:
  assumes "blank rt" and "admissible (rt_config rt) state"
  shows "indexes (om_find (rt_routes (load_state state rt))) (load_state state rt)"
proof -
  let ?routes = "fill rr_id (pst_routes state) []"
  have wf: "om_wf ?routes" by (simp add: fill_wf)
  have d: "distinct (map rr_id (pst_routes state))" using assms(2) by (simp add: admissible_def)
  have keyed: "map (\<lambda>r. (rr_id r, r)) (om_values ?routes) = ?routes"
    using fill_empty_find [OF d] om_find_iff [OF wf] by (intro keyed_list) metis
  have ids: "distinct (map rr_id (om_values ?routes))"
    using om_wf_distinct [OF wf] keyed by (metis (no_types, lifting) comp_apply fst_conv list.map_comp map_eq_conv)
  have perm: "mset (om_values ?routes) = mset (pst_routes state)"
    using fill_empty_values [OF d] ids d by (intro set_eq_iff_mset_eq_distinct [THEN iffD1]) (auto simp: distinct_map)
  have "mset (map rr_key (filter live (om_values ?routes))) = mset (map rr_key (filter live (pst_routes state)))"
    by (simp add: perm)
  then have keys: "distinct (map rr_key (filter live (om_values ?routes)))"
    using assms(2) mset_eq_imp_distinct_iff unfolding admissible_def by blast
  have "load_state state rt = fold index_insert (om_values ?routes)
      (rt\<lparr>rt_epoch := pst_epoch state, rt_policy_generation := pst_policy_generation state, rt_routes := ?routes,
         rt_revocations := fold (\<lambda>v. om_set (rv_route v) v) (pst_revocations state) (rt_revocations rt),
         rt_attempts := fill at_attempt (pst_attempts state) [],
         rt_outstanding := length (filter (\<lambda>a. \<not> at_resolved a) (pst_attempts state))\<rparr>)"
    using assms(1) by (simp add: load_state_def Let_def load_attempts fill_def blank_def)
  moreover have "indexes (Map.empty ++ map_of (map (\<lambda>r. (rr_id r, r)) (om_values ?routes))) \<dots>"
    using ids keys blank_indexes [OF assms(1)] by (intro indexes_fold_insert) (auto simp: indexes_def)
  ultimately show ?thesis
    by (simp add: keyed index_fold_fields)
qed

lemma load_state_inv:
  assumes "blank rt" and "admissible (rt_config rt) state"
  shows "rt_inv (load_state state rt)" and "counter_exact (load_state state rt)"
proof -
  let ?l = "load_state state rt"
  have d: "distinct (map rr_id (pst_routes state))" "distinct (map at_attempt (pst_attempts state))"
    using assms(2) by (simp_all add: admissible_def)
  have routes: "rt_routes ?l = fill rr_id (pst_routes state) []"
    and attempts: "rt_attempts ?l = fill at_attempt (pst_attempts state) []"
    and out: "rt_outstanding ?l = length (filter (\<lambda>a. \<not> at_resolved a) (pst_attempts state))"
    and config: "rt_config ?l = rt_config rt"
    using assms(1) by (simp_all add: load_state_routes blank_def)
  have pend: "unresolved ?l = rt_outstanding ?l"
    using pending_fill [OF d(2), of "[]"] by (simp add: unresolved_pending attempts out pending_attempts_def om_values_def)
  then show "counter_exact ?l" by (simp add: counter_exact_def)
  have "index_inv ?l"
    using load_state_indexes [OF assms] assms(2) fill_empty_find [OF d(1)]
    by (auto simp: index_inv_def routes fill_wf table_wf_def admissible_def)
  moreover have "records_inv ?l"
    using assms(2) fill_empty_find [OF d(1)] fill_empty_length [OF d(1)]
    by (auto simp: records_inv_def routes config admissible_def)
  moreover have "rt_outstanding ?l \<le> max_outstanding_programming (rt_limits ?l)"
    unfolding out config using assms(2)
    by (intro order_trans [OF length_filter_le]) (simp add: admissible_def)
  then have "attempts_inv ?l"
    using assms(2) pend fill_empty_find [OF d(2)] fill_empty_find [OF d(1)]
    by (force simp: attempts_inv_def attempts routes fill_wf admissible_def om_contains_def)
  ultimately show "rt_inv ?l" by (simp add: rt_inv_def)
qed

section \<open>Recovery\<close>

lemma recovered_record_fields [simp]:
  "rr_id (recovered_record rt a r) = rr_id r" "rr_key (recovered_record rt a r) = rr_key r"
  "rr_generation (recovered_record rt a r) = rr_generation r"
  "rr_authority_generation (recovered_record rt a r) = rr_authority_generation r"
  "rr_programming_generation (recovered_record rt a r) = rr_programming_generation r"
  "rr_binding (recovered_record rt a r) = rr_binding r" "rr_provenance (recovered_record rt a r) = rr_provenance r"
  by (simp_all add: recovered_record_def Let_def)

lemma recovered_record_bounded: "length (rr_history (recovered_record rt a r)) \<le> cf_history_limit (rt_config rt)"
  unfolding recovered_record_def Let_def by (rule push_history_bounded)

lemma recovered_lifecycle:
  assumes "has_outstanding_programming (rr_lifecycle r)"
  shows "rr_lifecycle (recovered_record rt a r) = LC_RevalidationRequired"
proof -
  have "rr_lifecycle r \<in> {LC_Installing, LC_Withdrawing}"
    using assms by (auto simp: has_outstanding_programming_def)
  then have "next_lifecycle (rr_lifecycle r) EV_WithdrawFailed \<in> {None, Some LC_RevalidationRequired}"
    and "next_lifecycle (rr_lifecycle r) EV_BackendAmbiguous \<in> {None, Some LC_RevalidationRequired}"
    by (auto simp: table_simps)
  then show ?thesis by (auto simp: recovered_record_def Let_def split: option.splits)
qed

lemma recover_attempt_effects:
  assumes inv: "rt_inv rt" and a: "om_find (rt_attempts rt) i = Some a"
    and run: "recover_attempt a (us, ds, rt) = (us', ds', rt')"
  shows "effects s rt rt'"
proof -
  have resolve: "om_find (rt_attempts x) i = Some a \<Longrightarrow> \<not> at_resolved a \<Longrightarrow>
      effect s x (resolve_attempt (a\<lparr>at_resolved := True\<rparr>) x)" for x
    by (rule effect.resolve [of x i a]) simp_all
  have main: "effects s rt (resolve_attempt (a\<lparr>at_resolved := True\<rparr>) (commit (recovered_record rt a r) rt))"
    if r: "om_find (rt_routes rt) (at_route a) = Some r" "has_outstanding_programming (rr_lifecycle r)"
      and open_a: "\<not> at_resolved a" for r
  proof -
    let ?u = "recovered_record rt a r"
    note rec = inv_record [OF inv r(1)]
    have ls: "\<not> ended (rr_lifecycle r)" using r(2) by (auto simp: has_outstanding_programming_def ended_def)
    have "key_free rt ?u"
      using inv r(1) rec(1) ls by (intro key_free_owner [of rt "at_route a" r]) (auto simp: rt_inv_def ended_def)
    then have "commit_ok rt ?u"
      using rec recovered_record_bounded recovered_lifecycle [OF r(2)]
      by (simp add: commit_ok_def path_named_def installed_evidence_def)
    moreover have "revises rt ?u"
      using r(1) rec(1) ls by (intro revises_record [of _ _ r]) (auto simp: evolves_def)
    ultimately have "effect s rt (commit ?u rt)"
      using rec(1,6) by (intro effect.revise [of rt ?u]) auto
    moreover have "effect s (commit ?u rt) (resolve_attempt (a\<lparr>at_resolved := True\<rparr>) (commit ?u rt))"
      using a open_a by (intro resolve) simp_all
    ultimately show ?thesis by (meson r_into_rtranclp rtranclp_trans)
  qed
  show ?thesis
    using run a by (auto simp: recover_attempt_def Let_def split: if_splits option.splits
        intro: effects_quiet main r_into_rtranclp [of "effect s", OF resolve])
qed

lemma resolve_attempts_find:
  "om_find (rt_attempts (resolve_attempt a rt)) i = (if i = at_attempt a then Some a else om_find (rt_attempts rt) i)"
  by (simp add: resolve_attempt_def Let_def split: option.splits)

lemma recover_attempt_attempts:
  assumes "recover_attempt a (us, ds, rt) = (us', ds', rt')"
  shows "om_find (rt_attempts rt') i =
    (if i = at_attempt a \<and> \<not> at_resolved a then Some (a\<lparr>at_resolved := True\<rparr>) else om_find (rt_attempts rt) i)"
  using assms
  by (auto simp: recover_attempt_def Let_def resolve_attempts_find split: if_splits option.splits)

lemma recover_fold_effects:
  assumes "rt_inv rt" and "\<forall>a \<in> set as. om_find (rt_attempts rt) (at_attempt a) = Some a"
    and "distinct (map at_attempt as)" and "fold recover_attempt as (us, ds, rt) = (us', ds', rt')"
  shows "effects s rt rt' \<and>
    (\<forall>i a. om_find (rt_attempts rt') i = Some a \<longrightarrow>
       (i \<in> at_attempt ` set as \<longrightarrow> at_resolved a) \<and>
       (i \<notin> at_attempt ` set as \<longrightarrow> om_find (rt_attempts rt) i = Some a))"
  using assms
proof (induction as arbitrary: us ds rt)
  case (Cons a as)
  obtain us1 ds1 rt1 where step: "recover_attempt a (us, ds, rt) = (us1, ds1, rt1)" by (cases "recover_attempt a (us, ds, rt)")
  have eff: "effects s rt rt1"
    using Cons.prems(2) by (intro recover_attempt_effects [OF Cons.prems(1) _ step]) auto
  note find = recover_attempt_attempts [OF step]
  have "\<forall>b \<in> set as. om_find (rt_attempts rt1) (at_attempt b) = Some b"
  proof
    fix b assume b: "b \<in> set as"
    then have "at_attempt b \<in> at_attempt ` set as" by simp
    with Cons.prems(3) have "at_attempt b \<noteq> at_attempt a" by auto
    with b Cons.prems(2) show "om_find (rt_attempts rt1) (at_attempt b) = Some b" by (simp add: find)
  qed
  from Cons.IH [OF effects_inv [OF eff Cons.prems(1)] this] Cons.prems(3,4) step
  have IH: "effects s rt1 rt'" "\<forall>i a. om_find (rt_attempts rt') i = Some a \<longrightarrow>
      (i \<in> at_attempt ` set as \<longrightarrow> at_resolved a) \<and> (i \<notin> at_attempt ` set as \<longrightarrow> om_find (rt_attempts rt1) i = Some a)"
    by auto
  have "effects s rt rt'" using eff IH(1) by (rule rtranclp_trans)
  moreover have "(i \<in> at_attempt ` set (a # as) \<longrightarrow> at_resolved b) \<and>
      (i \<notin> at_attempt ` set (a # as) \<longrightarrow> om_find (rt_attempts rt) i = Some b)"
    if "om_find (rt_attempts rt') i = Some b" for i b
  proof -
    have "i \<in> at_attempt ` set as \<longrightarrow> at_resolved b" "i \<notin> at_attempt ` set as \<longrightarrow> om_find (rt_attempts rt1) i = Some b"
      using IH(2) that by blast+
    then show ?thesis using Cons.prems(2) by (auto simp: find split: if_splits)
  qed
  ultimately show ?case by blast
qed simp

text \<open>After the recovery every attempt is resolved and the counter is back at zero.\<close>

lemma recover_result:
  assumes inv: "rt_inv rt" and exact: "counter_exact rt" and run: "recover rt = (Inr u, rt')"
  shows "rt_inv rt'" and "unresolved rt' = 0" and "rt_outstanding rt' = 0" and "rt_opened rt'"
    and "advances rt rt'"
proof -
  obtain us ds rt1 where f: "fold recover_attempt (om_values (rt_attempts rt)) ([], [], rt) = (us, ds, rt1)"
    by (cases "fold recover_attempt (om_values (rt_attempts rt)) ([], [], rt)")
  have wf: "om_wf (rt_attempts rt)" and ids: "\<forall>i a. om_find (rt_attempts rt) i = Some a \<longrightarrow> at_attempt a = i"
    using inv by (auto simp: rt_inv_def attempts_inv_def)
  have keyed: "map (\<lambda>a. (at_attempt a, a)) (om_values (rt_attempts rt)) = rt_attempts rt"
    using ids om_find_iff [OF wf] by (intro keyed_list) metis
  then have d: "distinct (map at_attempt (om_values (rt_attempts rt)))"
    using om_wf_distinct [OF wf] by (metis (no_types, lifting) comp_apply fst_conv list.map_comp map_eq_conv)
  have "\<forall>a \<in> set (om_values (rt_attempts rt)). om_find (rt_attempts rt) (at_attempt a) = Some a"
    using ids by (force simp: om_values_def om_find_iff [OF wf])
  note fold = recover_fold_effects [OF inv this d f, of True]
  then have eff: "effects True rt rt1" by blast
  have cov: "at_attempt ` set (om_values (rt_attempts rt)) = dom (om_find (rt_attempts rt))"
    using keyed_find [OF d] keyed by (force simp: dom_def)
  have inv1: "rt_inv rt1" and exact1: "counter_exact rt1"
    using effects_inv [OF eff inv] effects_exact [OF eff inv exact] by simp_all
  have "at_resolved a" if "om_find (rt_attempts rt1) i = Some a" for i a
    using fold that cov by (metis domI)
  then have zero: "unresolved rt1 = 0"
    using inv1 by (force simp: unresolved_def om_values_def rt_inv_def attempts_inv_def om_find_iff filter_empty_conv)
  obtain rt2 where rt2: "core rt2 = core rt1" and rt': "rt' = rt2\<lparr>rt_opened := True\<rparr>"
    using run f by (auto simp: recover_def split: if_splits prod.splits sum.splits dest!: persist_core)
  have "rt_inv (rt2\<lparr>rt_opened := True\<rparr>) = rt_inv rt2"
    by (simp add: rt_inv_def index_inv_def indexes_def records_inv_def attempts_inv_def unresolved_def)
  then show "rt_inv rt'" using inv1 by (simp only: rt' rt_inv_core_eq [OF rt2])
  show un: "unresolved rt' = 0" using zero core_eqD(11) [OF rt2] by (simp add: rt' unresolved_def)
  show "rt_outstanding rt' = 0"
    using exact1 zero core_eqD(16) [OF rt2] by (simp add: rt' counter_exact_def)
  show "rt_opened rt'" by (simp add: rt')
  show "advances rt rt'"
    using effects_advance [OF eff] core_eqD(5) [OF rt2] by (simp add: rt' advances_def)
qed

section \<open>Open\<close>

text \<open>The durable state an opening starts from.\<close>

definition opens_on :: "runtime_config \<Rightarrow> route_store \<Rightarrow> bool" where
  "opens_on config files \<longleftrightarrow>
     (case fst (Load (bind_store config files)) of Inl _ \<Rightarrow> True | Inr state \<Rightarrow> admissible config state)"

lemma blank_store: "blank rt \<Longrightarrow> blank (rt\<lparr>rt_store := x\<rparr>)"
  by (simp add: blank_def)

lemma blank_inv: "blank rt \<Longrightarrow> rt_inv rt \<and> counter_exact rt"
  using blank_indexes [of rt]
  by (simp add: rt_inv_def index_inv_def records_inv_def attempts_inv_def table_wf_def blank_def unresolved_def
      om_values_def counter_exact_def)

lemma Open_result:
  assumes blank: "blank rt" and files: "opens_on (rt_config rt) files" and run: "Open files rt = (Inr u, rt')"
  shows "rt_inv rt' \<and> unresolved rt' = 0 \<and> rt_outstanding rt' = 0 \<and> rt_opened rt'"
proof -
  have none: ?thesis if "recover rt = (Inr u, rt')"
    using recover_result [OF _ _ that] blank_inv [OF blank] by simp
  have load: ?thesis
    if "Load (bind_store (rt_config rt) files) = (Inr state, store)"
      and r: "recover (load_state state (rt\<lparr>rt_store := Some store\<rparr>)) = (Inr u, rt')" for state store
  proof -
    have "admissible (rt_config (rt\<lparr>rt_store := Some store\<rparr>)) state"
      using files that(1) by (simp add: opens_on_def)
    note inv = load_state_inv [OF blank_store [OF blank] this]
    show ?thesis using recover_result [OF inv r] by simp
  qed
  have "recover rt = (Inr u, rt') \<or>
      (\<exists>state store. Load (bind_store (rt_config rt) files) = (Inr state, store) \<and>
         recover (load_state state (rt\<lparr>rt_store := Some store\<rparr>)) = (Inr u, rt'))"
    using run unfolding Open_def Let_def by (auto split: if_splits sum.splits prod.splits)
  with none load show ?thesis by blast
qed

end
