(* ===== verification/RF_Reachable.thy ===== *)
theory RF_Reachable
  imports RF_Recovery
begin

text \<open>
  \<^bold>\<open>The runtime as a state machine.\<close> A step is one locked section of one operation, so two
  operations interleave freely between the sections of each other: in particular between the
  section that dispatches a programming attempt and the one that applies its outcome. The
  reachable states start from an opened runtime.
\<close>

section \<open>Steps\<close>

text \<open>
  Under \<open>strict\<close> the identifiers a publication introduces are not in use. The only section
  left out is the revocation of a superseded route, which does not keep the key index.
\<close>

inductive step :: "bool \<Rightarrow> runtime \<Rightarrow> runtime \<Rightarrow> bool" for strict :: bool where
  publish: "step strict rt rt'"
    if "publish_begin query violated request rt = (published, rt')"
      and "strict \<Longrightarrow> draws_fresh rt \<and> publishes_fresh request rt"
| withdraw: "step strict rt rt'"
    if "withdraw_begin withdrawal rt = (withdrawn, rt')" and "strict \<Longrightarrow> draws_fresh rt"
| revalidate: "step strict rt rt'"
    if "revalidate_begin query violated revalidation rt = (withdrawn, rt')" and "strict \<Longrightarrow> draws_fresh rt"
| complete: "step strict rt rt'"
    if "apply_completion_locked result rt = (disposition, rt')"
| deferral: "step strict rt (bump ct_programming_deferred_update rt)"
| retire: "step strict rt rt'"
    if "RetireRoute retirement rt = (outcome, rt')"
| revoke: "step strict rt rt'"
    if "RevokeRoute revocation rt = (outcome, rt')"
      and "\<And>r. om_find (rt_routes rt) (lq_route revocation) = Some r \<Longrightarrow> rr_lifecycle r \<noteq> LC_Superseded"
| path_changed: "step strict rt rt'"
    if "OnPathAuthorityChanged path generation authorization rt = (st, rt')"
| revalidate_paths: "step strict rt rt'"
    if "RevalidatePathAuthorities query rt = (st, rt')"
| reconcile: "step strict rt rt'"
    if "reconcile_locked i observed rt = (observation, rt')"
| register: "step strict rt rt'"
    if "RegisterPublisher publisher worker_boot scope rt = (registration, rt')"
| fence: "step strict rt rt'"
    if "FencePublisher publisher reason rt = (st, rt')"
| fence_boot: "step strict rt rt'"
    if "FenceWorkerBoot worker_boot reason rt = (st, rt')"
| clear_fence: "step strict rt rt'"
    if "ClearAdministrativeFence publisher rt = (st, rt')"
| advance_epoch: "step strict rt rt'"
    if "AdvanceEpoch rt = (e, rt')"
| compact: "step strict rt rt'"
    if "Compact rt = (st, rt')"

text \<open>All locked sections, the one left out above included.\<close>

inductive locked_section :: "bool \<Rightarrow> runtime \<Rightarrow> runtime \<Rightarrow> bool" for strict :: bool where
  permitted: "locked_section strict rt rt'"
    if "step strict rt rt'"
| revoke_superseded: "locked_section strict rt rt'"
    if "RevokeRoute revocation rt = (outcome, rt')" and "om_find (rt_routes rt) (lq_route revocation) = Some r"
      and "rr_lifecycle r = LC_Superseded"

abbreviation steps :: "bool \<Rightarrow> runtime \<Rightarrow> runtime \<Rightarrow> bool" where
  "steps strict \<equiv> (step strict)\<^sup>*\<^sup>*"

inductive reachable :: "bool \<Rightarrow> runtime \<Rightarrow> bool" for strict :: bool where
  opened: "reachable strict rt"
    if "Open files (make_runtime config backend authority seed) = (Inr u, rt)" and "opens_on config files"
| continue: "reachable strict rt'"
    if "reachable strict rt" and "step strict rt rt'"

lemmas steps_one = r_into_rtranclp [of "step s" for s]

section \<open>Steps are permitted effects\<close>

lemmas effects_one = r_into_rtranclp [of "effect s" for s]

lemma step_effects:
  assumes "step s rt rt'" and "rt_inv rt"
  shows "effects s rt rt'"
  using assms
proof cases
  case publish
  then show ?thesis using assms(2) by (intro publish_begin_effects) auto
next
  case (withdraw withdrawal answer)
  then show ?thesis using assms(2) by (intro effects_one withdraw_begin_effect) auto
next
  case (revalidate query violated request answer)
  then show ?thesis using assms(2) by (intro effects_one revalidate_begin_effect) auto
next
  case (complete result d)
  then show ?thesis using assms(2) by (intro apply_completion_effects)
next
  case deferral
  then show ?thesis by (simp add: effects_quiet)
next
  case (revoke request x)
  then show ?thesis using assms(2) by (intro RevokeRoute_effects) auto
qed (use assms(2) in \<open>auto intro: effects_one RetireRoute_effect reconcile_effect RegisterPublisher_effect
    FencePublisher_effect FenceWorkerBoot_effect ClearAdministrativeFence_effect AdvanceEpoch_effect Compact_effect
    OnPathAuthorityChanged_effects RevalidatePathAuthorities_effects\<close>)

text \<open>What the revocation of a superseded route touches: that route, its revocation, and what is derived from it.\<close>

lemma RevokeRoute_others:
  assumes "rt_inv rt" and "RevokeRoute request rt = (x, rt')"
  shows "(i = lq_route request \<or>
      om_find (rt_routes rt') i = om_find (rt_routes rt) i \<and> om_find (rt_revocations rt') i = om_find (rt_revocations rt) i) \<and>
    rt_attempts rt' = rt_attempts rt \<and> rt_outstanding rt' = rt_outstanding rt \<and> rt_epoch rt' = rt_epoch rt \<and>
    rt_registrations rt' = rt_registrations rt \<and> rt_fenced_boots rt' = rt_fenced_boots rt \<and>
    rt_administrative_fences rt' = rt_administrative_fences rt"
proof -
  have own: "rr_id r = lq_route request" if "om_find (rt_routes rt) (lq_route request) = Some r" for r
    using assms(1) that by (auto simp: rt_inv_def index_inv_def table_wf_def)
  have kept: "rr_id (retired_record rt request k e l g a) = rr_id r" if "publish_advance r = Inr a" for k e l g a r
    using that by (auto simp: retired_record_def push_history_def publish_advance_def Let_def split: sum.splits)
  define others where "others rt' \<longleftrightarrow>
      (i = lq_route request \<or>
        om_find (rt_routes rt') i = om_find (rt_routes rt) i \<and> om_find (rt_revocations rt') i = om_find (rt_revocations rt) i) \<and>
      rt_attempts rt' = rt_attempts rt \<and> rt_outstanding rt' = rt_outstanding rt \<and> rt_epoch rt' = rt_epoch rt \<and>
      rt_registrations rt' = rt_registrations rt \<and> rt_fenced_boots rt' = rt_fenced_boots rt \<and>
      rt_administrative_fences rt' = rt_administrative_fences rt" for rt' :: runtime
  have quiet: "others rt1" if "core rt1 = core rt" for rt1
    using core_eqD [OF that] by (simp add: others_def)
  have main: "others (bump f ((commit u rt1)\<lparr>rt_revocations := om_set (lq_route request) v (rt_revocations rt1)\<rparr>))"
    if "rr_id u = lq_route request" and "core rt1 = core rt" for u rt1 f v
    using core_eqD [OF that(2)] that(1) by (simp add: others_def bump_def)
  have "others rt'"
    using assms(2) own kept unfolding RevokeRoute_def Let_def
    by (auto split: sum.splits if_splits option.splits prod.splits intro: quiet main dest!: persist_core)
  then show ?thesis by (simp add: others_def)
qed

lemma steps_effects: "steps s rt rt' \<Longrightarrow> rt_inv rt \<Longrightarrow> effects s rt rt'"
proof (induction rule: rtranclp_induct)
  case (step y z)
  then show ?case by (meson effects_inv rtranclp_trans step_effects)
qed simp

lemma reachable_rt_inv: "reachable s rt \<Longrightarrow> rt_inv rt"
proof (induction rule: reachable.induct)
  case (opened files config backend authority seed u rt)
  then show ?case
    using Open_result [OF blank_make_runtime, of config backend authority seed files u rt]
    by (simp add: make_runtime_def)
next
  case (continue rt rt')
  then show ?case by (meson effects_inv step_effects)
qed

lemma reachable_exact: "reachable True rt \<Longrightarrow> counter_exact rt"
proof (induction rule: reachable.induct)
  case (opened files config backend authority seed u rt)
  then show ?case
    using Open_result [OF blank_make_runtime, of config backend authority seed files u rt]
    by (simp add: make_runtime_def counter_exact_def)
next
  case (continue rt rt')
  then show ?case by (meson effects_exact step_effects reachable_rt_inv)
qed

section \<open>Whole operations are sequences of steps\<close>

lemma run_dispatch_steps:
  assumes "run_dispatch ops p b rt = (d, b', rt')"
  shows "steps s rt rt'"
  using assms
  by (auto simp: run_dispatch_def Let_def split: option.splits prod.splits if_splits
      intro: r_into_rtranclp [of "step s"] step.deferral step.complete)

lemma publish_one_steps:
  assumes "publish_one ops query violated request b rt = (x, b', rt')"
    and "s \<Longrightarrow> draws_fresh rt \<and> publishes_fresh request rt"
  shows "steps s rt rt'"
proof -
  obtain answer rt1 where start: "publish_begin query violated request rt = (answer, rt1)" by fastforce
  have first: "steps s rt rt1"
    using step.publish [OF start] assms(2) by (intro r_into_rtranclp) blast
  moreover have "steps s rt1 rt'"
    using assms(1) start
    by (auto simp: publish_one_def Let_def split: locked_answer.splits prod.splits intro: run_dispatch_steps)
  ultimately show ?thesis by (rule rtranclp_trans)
qed

lemma finish_section_steps:
  assumes "finish_section ops (answer, rt1) b = (x, b', rt')"
  shows "steps s rt1 rt'"
  using assms
  by (auto simp: finish_section_def Let_def split: locked_answer.splits prod.splits intro: run_dispatch_steps)

lemma WithdrawRoute_steps:
  assumes "WithdrawRoute ops request b rt = (x, b', rt')" and "s \<Longrightarrow> draws_fresh rt"
  shows "steps s rt rt'"
proof -
  obtain answer rt1 where start: "withdraw_begin request rt = (answer, rt1)" by fastforce
  have "steps s rt rt1" using step.withdraw [OF start] assms(2) by (intro r_into_rtranclp) blast
  moreover have "steps s rt1 rt'"
    using assms(1) start by (auto simp: WithdrawRoute_def intro: finish_section_steps)
  ultimately show ?thesis by (rule rtranclp_trans)
qed

lemma RevalidateRoute_steps:
  assumes "RevalidateRoute ops query violated request b rt = (x, b', rt')" and "s \<Longrightarrow> draws_fresh rt"
  shows "steps s rt rt'"
proof -
  obtain answer rt1 where start: "revalidate_begin query violated request rt = (answer, rt1)" by fastforce
  have "steps s rt rt1" using step.revalidate [OF start] assms(2) by (intro r_into_rtranclp) blast
  moreover have "steps s rt1 rt'"
    using assms(1) start by (auto simp: RevalidateRoute_def intro: finish_section_steps)
  ultimately show ?thesis by (rule rtranclp_trans)
qed

lemma reachable_steps: "steps s rt rt' \<Longrightarrow> reachable s rt \<Longrightarrow> reachable s rt'"
  by (induction rule: rtranclp_induct) (auto intro: reachable.continue)

lemma publish_each_steps:
  "publish_each ops query violated requests b rt = (xs, b', rt') \<Longrightarrow> steps False rt rt'"
proof (induction requests arbitrary: xs b rt b' rt')
  case (Cons request requests)
  obtain x b1 rt1 where one: "publish_one ops query violated request b rt = (x, b1, rt1)"
    by (cases "publish_one ops query violated request b rt")
  obtain ys b2 rt2 where rest: "publish_each ops query violated requests b1 rt1 = (ys, b2, rt2)"
    by (cases "publish_each ops query violated requests b1 rt1")
  have "steps False rt rt1" using publish_one_steps [OF one] by simp
  with Cons.IH [OF rest] Cons.prems one rest show ?case by (auto intro: rtranclp_trans)
qed simp

end
