(* ===== verification/RF_Server.thy ===== *)
theory RF_Server
  imports RF_Messages RF_Reachable
begin

text \<open>
  \<^bold>\<open>The coordinator's sessions.\<close> This theory models \<open>src/server.cpp\<close>: what the server does
  with a decoded frame (\<open>handle\<close>) and which connections become sessions. The texts of errors are
  a parameter: \<open>sv_text\<close> gives the text for a message and a status. What the socket
  calls return is not part of the state; a failed \<open>send_all\<close> is ignored by the code.
\<close>

section \<open>State\<close>

record 'b server_env =
  sv_wire :: wire_constants
  sv_limits :: limits
  sv_ops :: "'b backend_ops"
  sv_backend_id :: backend_id
  sv_capabilities :: backend_capabilities
  sv_query :: path_query
  sv_violated :: bool
  sv_text :: "message_id \<Rightarrow> status_code \<Rightarrow> string"

record server_counters =
  sc_sessions_accepted :: u64
  sc_sessions_rejected :: u64
  sc_sessions_closed :: u64
  sc_frames_received :: u64
  sc_requests_handled :: u64
  sc_malformed_frames :: u64
  sc_integrity_failures :: u64
  sc_oversized_frames :: u64
  sc_protocol_errors :: u64

record 'b server_state =
  sx_runtime :: runtime
  sx_backend :: 'b
  sx_counters :: server_counters
  sx_active :: nat

record session =
  se_publisher :: publisher_id
  se_worker_boot :: worker_boot_id
  se_registered :: bool

definition session_default :: session where
  "session_default = \<lparr>se_publisher = [], se_worker_boot = 0, se_registered = False\<rparr>"

definition count ::
  "((u64 \<Rightarrow> u64) \<Rightarrow> server_counters \<Rightarrow> server_counters) \<Rightarrow> 'b server_state \<Rightarrow> 'b server_state" where
  "count f st = st\<lparr>sx_counters := f (\<lambda>n. n + 1) (sx_counters st)\<rparr>"

text \<open>Whether the session goes on, the frame sent, and the new states.\<close>

type_synonym 'b handled = "bool \<times> bytes \<times> session \<times> 'b server_state"

definition send_payload :: "'b server_env \<Rightarrow> message_id \<Rightarrow> bytes \<Rightarrow> bytes" where
  "send_payload env i payload = encode_frame (sv_wire env) i payload"

definition send_error :: "'b server_env \<Rightarrow> status_code \<Rightarrow> string \<Rightarrow> bytes" where
  "send_error env code detail =
     send_payload env MI_Error (encode_ErrorMessage \<lparr>em_status = code, em_detail = detail\<rparr>)"

definition protocol_error :: "'b server_env \<Rightarrow> message_id \<Rightarrow> session \<Rightarrow> 'b server_state \<Rightarrow> 'b handled" where
  "protocol_error env i session st =
     (False, send_error env SC_ProtocolViolation (sv_text env i SC_ProtocolViolation), session,
      count sc_protocol_errors_update st)"

definition answer ::
  "'b server_env \<Rightarrow> message_id \<Rightarrow> bytes \<Rightarrow> session \<Rightarrow> 'b server_state \<Rightarrow> 'b handled" where
  "answer env i payload session st = (True, send_payload env i payload, session, st)"

section \<open>Requests\<close>

definition handle_hello :: "'b server_env \<Rightarrow> bytes \<Rightarrow> session \<Rightarrow> 'b server_state \<Rightarrow> 'b handled" where
  "handle_hello env payload session st =
     (case decode_HelloRequest (sv_wire env) payload of
        None \<Rightarrow> protocol_error env MI_Hello session st
      | Some request \<Rightarrow>
          answer env MI_HelloResult
            (encode_HelloResult
               \<lparr>hr_status = SC_Ok, hr_detail = ''route fabric coordinator session established'',
                hr_wire_version = kWireProtocolVersion (sv_wire env), hr_epoch = rt_epoch (sx_runtime st),
                hr_fabric = cf_fabric (rt_config (sx_runtime st)), hr_backend = sv_backend_id env,
                hr_backend_read_only = bc_read_only (sv_capabilities env)\<rparr>)
            session st)"

definition handle_register :: "'b server_env \<Rightarrow> bytes \<Rightarrow> session \<Rightarrow> 'b server_state \<Rightarrow> 'b handled" where
  "handle_register env payload session st =
     (case decode_RegisterPublisherRequest (sv_limits env) payload of
        None \<Rightarrow> protocol_error env MI_RegisterPublisher session st
      | Some request \<Rightarrow>
          let publisher = rx_publisher (gq_context request);
              worker_boot = rx_worker_boot (gq_context request)
          in case RegisterPublisher publisher worker_boot (gq_scope request) (sx_runtime st) of
               (Inr registered, rt) \<Rightarrow>
                 answer env MI_RegisterPublisherResult
                   (encode_RegisterPublisherResult
                      \<lparr>gr_status = SC_Ok, gr_detail = ''publisher registered'', gr_epoch = rg_epoch registered\<rparr>)
                   \<lparr>se_publisher = publisher, se_worker_boot = worker_boot, se_registered = True\<rparr>
                   (st\<lparr>sx_runtime := rt\<rparr>)
             | (Inl e, rt) \<Rightarrow>
                 answer env MI_RegisterPublisherResult
                   (encode_RegisterPublisherResult
                      \<lparr>gr_status = e, gr_detail = sv_text env MI_RegisterPublisher e, gr_epoch = 0\<rparr>)
                   session (st\<lparr>sx_runtime := rt\<rparr>))"

definition publish_of :: "publish_route_request \<Rightarrow> publish_request" where
  "publish_of request =
     \<lparr>pq_publisher = rx_publisher (pbq_context request), pq_worker_boot = rx_worker_boot (pbq_context request),
      pq_attempt = rx_attempt (pbq_context request), pq_key = pbq_key request, pq_binding = pbq_binding request,
      pq_policy_generation = pbq_policy_generation request,
      pq_expected_generation = pbq_expected_generation request, pq_lineage = pbq_lineage request,
      pq_reason = pbq_reason request\<rparr>"

definition publish_answer :: "'b server_env \<Rightarrow> publish_result expected \<Rightarrow> publish_route_result" where
  "publish_answer env published =
     (case published of
        Inr x \<Rightarrow>
          \<lparr>pbr_status = SC_Ok, pbr_detail = [], pbr_route = px_route x, pbr_generation = px_generation x,
           pbr_authority_generation = px_authority_generation x, pbr_lifecycle = px_lifecycle x,
           pbr_applied = px_applied x, pbr_currentness = px_currentness x, pbr_idempotent = px_idempotent x,
           pbr_replaced = px_replaced x\<rparr>
      | Inl e \<Rightarrow>
          \<lparr>pbr_status = e, pbr_detail = sv_text env MI_PublishRoute e, pbr_route = 0, pbr_generation = 0,
           pbr_authority_generation = 0, pbr_lifecycle = LC_Declared, pbr_applied = AC_Unknown,
           pbr_currentness = CU_NotInstalled, pbr_idempotent = False, pbr_replaced = False\<rparr>)"

definition handle_publish :: "'b server_env \<Rightarrow> bytes \<Rightarrow> session \<Rightarrow> 'b server_state \<Rightarrow> 'b handled" where
  "handle_publish env payload session st =
     (case decode_PublishRouteRequest (sv_limits env) payload of
        None \<Rightarrow> protocol_error env MI_PublishRoute session st
      | Some request \<Rightarrow>
          (case publish_one (sv_ops env) (sv_query env) (sv_violated env) (publish_of request)
                  (sx_backend st) (sx_runtime st) of
             (published, b, rt) \<Rightarrow>
               answer env MI_PublishRouteResult (encode_PublishRouteResult (publish_answer env published)) session
                 (st\<lparr>sx_backend := b, sx_runtime := rt\<rparr>)))"

definition withdraw_of :: "route_mutation_request \<Rightarrow> withdraw_request" where
  "withdraw_of request =
     \<lparr>wq_publisher = rx_publisher (muq_context request), wq_worker_boot = rx_worker_boot (muq_context request),
      wq_attempt = rx_attempt (muq_context request), wq_route = muq_route request,
      wq_expected_generation = muq_expected_generation request, wq_reason = muq_reason request\<rparr>"

definition lifecycle_of :: "route_mutation_request \<Rightarrow> lifecycle_request" where
  "lifecycle_of request =
     \<lparr>lq_publisher = rx_publisher (muq_context request), lq_worker_boot = rx_worker_boot (muq_context request),
      lq_attempt = rx_attempt (muq_context request), lq_route = muq_route request, lq_reason = muq_reason request\<rparr>"

definition mutate ::
  "'b server_env \<Rightarrow> message_id \<Rightarrow> route_mutation_request \<Rightarrow> 'b \<Rightarrow> runtime \<Rightarrow>
   withdraw_outcome expected \<times> 'b \<times> runtime" where
  "mutate env i request b rt =
     (if i = MI_WithdrawRoute then WithdrawRoute (sv_ops env) (withdraw_of request) b rt
      else if i = MI_RevalidateRoute
        then RevalidateRoute (sv_ops env) (sv_query env) (sv_violated env) (lifecycle_of request) b rt
      else if i = MI_RetireRoute then (case RetireRoute (lifecycle_of request) rt of (x, rt) \<Rightarrow> (x, b, rt))
      else (case RevokeRoute (lifecycle_of request) rt of (x, rt) \<Rightarrow> (x, b, rt)))"

definition mutation_answer :: "'b server_env \<Rightarrow> message_id \<Rightarrow> withdraw_outcome expected \<Rightarrow> route_mutation_result" where
  "mutation_answer env i outcome =
     (case outcome of
        Inr x \<Rightarrow>
          \<lparr>mur_status = SC_Ok, mur_detail = [], mur_route = wx_route x, mur_generation = wx_generation x,
           mur_lifecycle = wx_lifecycle x, mur_applied = wx_applied x,
           mur_already_withdrawn = wx_already_withdrawn x, mur_withdrawal_in_flight = wx_withdrawal_in_flight x\<rparr>
      | Inl e \<Rightarrow>
          \<lparr>mur_status = e, mur_detail = sv_text env i e, mur_route = 0, mur_generation = 0,
           mur_lifecycle = LC_Declared, mur_applied = AC_Unknown, mur_already_withdrawn = False,
           mur_withdrawal_in_flight = False\<rparr>)"

definition mutation_response :: "message_id \<Rightarrow> message_id" where
  "mutation_response i =
     (if i = MI_RevalidateRoute then MI_RevalidateRouteResult
      else if i = MI_RetireRoute then MI_RetireRouteResult
      else if i = MI_RevokeRoute then MI_RevokeRouteResult
      else MI_WithdrawRouteResult)"

definition handle_mutation ::
  "'b server_env \<Rightarrow> message_id \<Rightarrow> bytes \<Rightarrow> session \<Rightarrow> 'b server_state \<Rightarrow> 'b handled" where
  "handle_mutation env i payload session st =
     (case decode_RouteMutationRequest payload of
        None \<Rightarrow> protocol_error env i session st
      | Some request \<Rightarrow>
          (case mutate env i request (sx_backend st) (sx_runtime st) of
             (outcome, b, rt) \<Rightarrow>
               answer env (mutation_response i) (encode_RouteMutationResult (mutation_answer env i outcome)) session
                 (st\<lparr>sx_backend := b, sx_runtime := rt\<rparr>)))"

text \<open>A default-constructed snapshot: what the answer carries when there is no route.\<close>

definition route_record_default :: route_record where
  "route_record_default =
     \<lparr>rr_id = 0, rr_key = route_key_default, rr_generation = 0, rr_authority_generation = 0,
      rr_invalidation_watermark = 0, rr_programming_generation = 0, rr_lifecycle = LC_Declared,
      rr_binding = \<lparr>rb_kind = BK_NextHop,
        rb_next_hop = \<lparr>nh_kind = NH_DirectEndpoint, nh_next_hop = 0, nh_next_hop_group = 0, nh_entity_generation = 0\<rparr>,
        rb_path = 0, rb_path_authority_generation = 0, rb_policy_generation = 0\<rparr>,
      rr_applied = applied_default, rr_observation = observation_default, rr_provenance = provenance_default,
      rr_supersession = supersession_default, rr_retirement = retirement_default, rr_history = []\<rparr>"

definition route_snapshot_default :: route_snapshot where
  "route_snapshot_default =
     \<lparr>sn_id = 0, sn_digest = 0, sn_currentness = CU_NotInstalled, sn_record = route_record_default\<rparr>"

definition query_answer :: "'b server_env \<Rightarrow> route_snapshot expected \<Rightarrow> query_route_result" where
  "query_answer env snapshot =
     (case snapshot of
        Inr s \<Rightarrow> \<lparr>qr_status = SC_Ok, qr_detail = [], qr_found = True, qr_snapshot = s\<rparr>
      | Inl e \<Rightarrow>
          if e = SC_NotFound
          then \<lparr>qr_status = SC_Ok, qr_detail = ''no route'', qr_found = False, qr_snapshot = route_snapshot_default\<rparr>
          else \<lparr>qr_status = e, qr_detail = sv_text env MI_QueryRoute e, qr_found = False,
                qr_snapshot = route_snapshot_default\<rparr>)"

definition handle_query :: "'b server_env \<Rightarrow> bytes \<Rightarrow> session \<Rightarrow> 'b server_state \<Rightarrow> 'b handled" where
  "handle_query env payload session st =
     (case decode_QueryRouteRequest (sv_limits env) payload of
        None \<Rightarrow> protocol_error env MI_QueryRoute session st
      | Some request \<Rightarrow>
          let snapshot = (if qq_by_key request then QueryRoute (sv_query env) (sx_runtime st) (qq_key request)
                          else QueryRouteById (sv_query env) (sx_runtime st) (qq_route request))
          in answer env MI_QueryRouteResult (encode_QueryRouteResult (query_answer env snapshot)) session st)"

definition explanation_default :: route_explanation where
  "explanation_default =
     \<lparr>ex_snapshot = route_snapshot_default, ex_authoritative = False, ex_authority_reason = [],
      ex_currentness_reason = [], ex_lifecycle_reason = [], ex_path_authority_reason = [], ex_backend_reason = [],
      ex_reconciliation_reason = [], ex_supersession_reason = [], ex_retirement_reason = []\<rparr>"

definition explain_answer :: "'b server_env \<Rightarrow> route_explanation expected \<Rightarrow> explain_route_result" where
  "explain_answer env explanation =
     (case explanation of
        Inr x \<Rightarrow> \<lparr>xr_status = SC_Ok, xr_detail = [], xr_found = True, xr_explanation = x\<rparr>
      | Inl e \<Rightarrow>
          if e = SC_NotFound
          then \<lparr>xr_status = SC_Ok, xr_detail = ''no route'', xr_found = False, xr_explanation = explanation_default\<rparr>
          else \<lparr>xr_status = e, xr_detail = sv_text env MI_ExplainRoute e, xr_found = False,
                xr_explanation = explanation_default\<rparr>)"

definition handle_explain :: "'b server_env \<Rightarrow> bytes \<Rightarrow> session \<Rightarrow> 'b server_state \<Rightarrow> 'b handled" where
  "handle_explain env payload session st =
     (case decode_QueryRouteRequest (sv_limits env) payload of
        None \<Rightarrow> protocol_error env MI_ExplainRoute session st
      | Some request \<Rightarrow>
          let explanation = (if qq_by_key request then ExplainRoute (sv_query env) (sx_runtime st) (qq_key request)
                             else ExplainRouteById (sv_query env) (sx_runtime st) (qq_route request))
          in answer env MI_ExplainRouteResult (encode_ExplainRouteResult (explain_answer env explanation)) session st)"

definition snapshot_answer :: "'b server_env \<Rightarrow> route_snapshot_set expected \<Rightarrow> snapshot_response" where
  "snapshot_answer env snapshot =
     (case snapshot of
        Inr s \<Rightarrow> \<lparr>spr_status = SC_Ok, spr_detail = [], spr_epoch = ss_epoch s, spr_snapshot_id = ss_id s,
                  spr_digest = ss_digest s, spr_routes = ss_routes s\<rparr>
      | Inl e \<Rightarrow> \<lparr>spr_status = e, spr_detail = sv_text env MI_SnapshotRequest e, spr_epoch = 0, spr_snapshot_id = 0,
                  spr_digest = 0, spr_routes = []\<rparr>)"

definition handle_snapshot :: "'b server_env \<Rightarrow> bytes \<Rightarrow> session \<Rightarrow> 'b server_state \<Rightarrow> 'b handled" where
  "handle_snapshot env payload session st =
     (case decode_SnapshotRequest payload of
        None \<Rightarrow> protocol_error env MI_SnapshotRequest session st
      | Some request \<Rightarrow>
          answer env MI_SnapshotResponse
            (encode_SnapshotResponse (snapshot_answer env (Snapshot (sv_query env) (sx_runtime st)))) session st)"

definition statistics_answer :: "route_statistics \<Rightarrow> statistics_result" where
  "statistics_answer s =
     \<lparr>sr_status = SC_Ok, sr_detail = [], sr_epoch = st_epoch s, sr_state_digest = st_state_digest s,
      sr_route_count = of_nat (st_route_count s), sr_installed_count = of_nat (st_installed_count s),
      sr_current_count = of_nat (st_current_count s),
      sr_revalidation_required_count = of_nat (st_revalidation_required_count s),
      sr_withdrawn_count = of_nat (st_withdrawn_count s), sr_retired_count = of_nat (st_retired_count s),
      sr_failed_count = of_nat (st_failed_count s), sr_superseded_count = of_nat (st_superseded_count s),
      sr_publisher_count = of_nat (st_publisher_count s),
      sr_path_dependency_count = of_nat (st_path_dependency_count s),
      sr_outstanding_programming_count = of_nat (st_outstanding_programming_count s),
      sr_revocation_count = of_nat (st_revocation_count s),
      sr_routing_namespace_count = of_nat (st_routing_namespace_count s), sr_counters = st_counters s\<rparr>"

definition handle_statistics :: "'b server_env \<Rightarrow> session \<Rightarrow> 'b server_state \<Rightarrow> 'b handled" where
  "handle_statistics env session st =
     answer env MI_StatisticsResult
       (encode_StatisticsResult (statistics_answer (Statistics (sv_query env) (sx_runtime st)))) session st"

definition handle_epoch :: "'b server_env \<Rightarrow> session \<Rightarrow> 'b server_state \<Rightarrow> 'b handled" where
  "handle_epoch env session st =
     answer env MI_EpochResult
       (encode_EpochResult \<lparr>er_status = SC_Ok, er_detail = [], er_epoch = rt_epoch (sx_runtime st)\<rparr>) session st"

definition summary_zero :: reconciliation_summary where
  "summary_zero =
     \<lparr>sm_checked = 0, sm_matched = 0, sm_missing = 0, sm_diverged = 0, sm_extra = 0, sm_unavailable = 0\<rparr>"

definition reconcile_answer ::
  "'b server_env \<Rightarrow> reconcile_request \<Rightarrow> 'b \<Rightarrow> runtime \<Rightarrow> reconcile_result \<times> runtime" where
  "reconcile_answer env request b rt =
     (let result = \<lparr>rcr_status = SC_Ok, rcr_detail = [], rcr_classification = OC_Unknown, rcr_summary = summary_zero\<rparr>;
          refused = (\<lambda>e. result\<lparr>rcr_status := e, rcr_detail := sv_text env MI_ReconcileRequest e\<rparr>)
      in if rcq_all request then
           (case ReconcileAll (sv_ops env) b rt of
              (Inr summary, rt) \<Rightarrow> (result\<lparr>rcr_summary := summary\<rparr>, rt)
            | (Inl e, rt) \<Rightarrow> (refused e, rt))
         else
           (case ReconcileRoute (sv_ops env) b (rcq_route request) rt of
              (Inr c, rt) \<Rightarrow> (result\<lparr>rcr_classification := c, rcr_summary := summary_zero\<lparr>sm_checked := 1\<rparr>\<rparr>, rt)
            | (Inl e, rt) \<Rightarrow> (refused e, rt)))"

definition handle_reconcile :: "'b server_env \<Rightarrow> bytes \<Rightarrow> session \<Rightarrow> 'b server_state \<Rightarrow> 'b handled" where
  "handle_reconcile env payload session st =
     (case decode_ReconcileRequest payload of
        None \<Rightarrow> protocol_error env MI_ReconcileRequest session st
      | Some request \<Rightarrow>
          (case reconcile_answer env request (sx_backend st) (sx_runtime st) of
             (result, rt) \<Rightarrow>
               answer env MI_ReconcileResult (encode_ReconcileResult result) session (st\<lparr>sx_runtime := rt\<rparr>)))"

definition handle_completion :: "'b server_env \<Rightarrow> bytes \<Rightarrow> session \<Rightarrow> 'b server_state \<Rightarrow> 'b handled" where
  "handle_completion env payload session st =
     (case decode_ApplyCompletionRequest payload of
        None \<Rightarrow> protocol_error env MI_ApplyCompletion session st
      | Some request \<Rightarrow>
          (case ApplyProgrammingCompletion (acq_completion request) (sx_runtime st) of
             (Inr d, rt) \<Rightarrow>
               answer env MI_ApplyCompletionResult
                 (encode_ApplyCompletionResult \<lparr>acr_status = SC_Ok, acr_detail = [], acr_disposition = d\<rparr>) session
                 (st\<lparr>sx_runtime := rt\<rparr>)
           | (Inl e, rt) \<Rightarrow>
               answer env MI_ApplyCompletionResult
                 (encode_ApplyCompletionResult
                    \<lparr>acr_status = e, acr_detail = sv_text env MI_ApplyCompletion e,
                     acr_disposition = CD_UnknownAttempt\<rparr>) session
                 (st\<lparr>sx_runtime := rt\<rparr>)))"

definition handle_backend :: "'b server_env \<Rightarrow> bytes \<Rightarrow> session \<Rightarrow> 'b server_state \<Rightarrow> 'b handled" where
  "handle_backend env payload session st =
     (case decode_BackendState (sv_limits env) payload of
        None \<Rightarrow> protocol_error env MI_BackendState session st
      | Some request \<Rightarrow>
          let result = \<lparr>bs_status = SC_Ok, bs_detail = [], bs_backend = sv_backend_id env,
                        bs_capabilities = sv_capabilities env, bs_evidence_included = False,
                        bs_key = route_key_default, bs_presence = BP_Unknown, bs_evidence = []\<rparr>;
              query = bo_query (sv_ops env) (sx_backend st) (bs_key request);
              result = (if bs_evidence_included request
                        then result\<lparr>bs_evidence_included := True, bs_key := bs_key request,
                                    bs_presence := bq_presence query, bs_evidence := bq_detail query\<rparr>
                        else result)
          in answer env MI_BackendState (encode_BackendState result) session st)"

definition handle :: "'b server_env \<Rightarrow> decoded_frame \<Rightarrow> session \<Rightarrow> 'b server_state \<Rightarrow> 'b handled" where
  "handle env frame session st =
     (let st = count sc_requests_handled_update st; payload = df_payload frame
      in case df_id frame of
           MI_Hello \<Rightarrow> handle_hello env payload session st
         | MI_RegisterPublisher \<Rightarrow> handle_register env payload session st
         | MI_PublishRoute \<Rightarrow> handle_publish env payload session st
         | MI_WithdrawRoute \<Rightarrow> handle_mutation env (df_id frame) payload session st
         | MI_RevalidateRoute \<Rightarrow> handle_mutation env (df_id frame) payload session st
         | MI_RetireRoute \<Rightarrow> handle_mutation env (df_id frame) payload session st
         | MI_RevokeRoute \<Rightarrow> handle_mutation env (df_id frame) payload session st
         | MI_QueryRoute \<Rightarrow> handle_query env payload session st
         | MI_ExplainRoute \<Rightarrow> handle_explain env payload session st
         | MI_SnapshotRequest \<Rightarrow> handle_snapshot env payload session st
         | MI_StatisticsRequest \<Rightarrow> handle_statistics env session st
         | MI_EpochRequest \<Rightarrow> handle_epoch env session st
         | MI_ReconcileRequest \<Rightarrow> handle_reconcile env payload session st
         | MI_ApplyCompletion \<Rightarrow> handle_completion env payload session st
         | MI_BackendState \<Rightarrow> handle_backend env payload session st
         | _ \<Rightarrow>
             (False, send_error env SC_ProtocolViolation (''unexpected message '' @ message_id_to_string (df_id frame)),
              session, count sc_protocol_errors_update st))"

section \<open>Admission\<close>

text \<open>The locked block of \<open>accept_loop\<close>: whether the connection becomes a session.\<close>

definition accept_session :: "'b server_env \<Rightarrow> bool \<Rightarrow> 'b server_state \<Rightarrow> bool \<times> 'b server_state" where
  "accept_session env stopping st =
     (if \<not> stopping \<and> sx_active st < max_sessions (sv_limits env)
      then (True, count sc_sessions_accepted_update (st\<lparr>sx_active := sx_active st + 1\<rparr>))
      else (False, count sc_sessions_rejected_update st))"

end
