(* ===== verification/RF_Session.thy ===== *)
theory RF_Session
  imports RF_Server
begin

text \<open>
  \<^bold>\<open>Sessions.\<close> The frame reader of \<open>session_loop\<close> in \<open>src/server.cpp\<close> and the end of a
  session. What a session answers does not depend on how the connection cut its bytes into
  chunks, and every request is a run of the runtime.
\<close>

section \<open>The frame reader\<close>

datatype progress = Waiting bytes | Ended

text \<open>
  The part of the loop that needs no further bytes: complete frames are decoded and handled
  one after the other. The list holds the frames sent.
\<close>

function drain ::
  "'b server_env \<Rightarrow> bytes \<Rightarrow> session \<Rightarrow> 'b server_state \<Rightarrow> progress \<times> bytes list \<times> session \<times> 'b server_state" where
  "drain env buffer session st =
     (if length buffer < kFrameHeaderBytes then (Waiting buffer, [], session, st)
      else case frame_header_status (sv_wire env) (sv_limits env) buffer of (header_status, frame_total) \<Rightarrow>
        if header_status = FS_OversizedPayload then
          (Ended, [send_error env SC_LimitExceeded (sv_text env MI_Error SC_LimitExceeded)], session,
           count sc_oversized_frames_update st)
        else if header_status \<noteq> FS_Complete then
          (Ended, [send_error env SC_ProtocolViolation (sv_text env MI_Error SC_ProtocolViolation)], session,
           count sc_malformed_frames_update st)
        else if length buffer \<ge> frame_total then
          (case decode_frame (sv_wire env) (sv_limits env) (take frame_total buffer) of
             Inl status \<Rightarrow>
               (Ended, [send_error env SC_IntegrityFailure (sv_text env MI_Error SC_IntegrityFailure)], session,
                count (if status = FS_IntegrityFailure then sc_integrity_failures_update
                       else sc_malformed_frames_update) st)
           | Inr decoded \<Rightarrow>
               (case handle env decoded session (count sc_frames_received_update st) of
                  (continues, reply, session, st) \<Rightarrow>
                    if \<not> continues then (Ended, [reply], session, st)
                    else (case drain env (drop frame_total buffer) session st of
                            (p, replies, session, st) \<Rightarrow> (p, reply # replies, session, st))))
        else (Waiting buffer, [], session, st))"
  by pat_completeness auto

lemma header_total: "frame_header_status wc limits buffer = (FS_Complete, n) \<Longrightarrow> kFrameHeaderBytes \<le> n"
  by (auto simp: frame_header_status_def Let_def split: if_splits)

termination drain
  by (relation "measure (\<lambda>(env, buffer, session, st). length buffer)")
    (auto dest!: header_total [OF sym] simp: kFrameHeaderBytes_def)

declare drain.simps [simp del]

definition finish_session :: "session \<Rightarrow> 'b server_state \<Rightarrow> 'b server_state" where
  "finish_session session st =
     (let rt = (if se_registered session then
                  (case LookupRegistration (sx_runtime st) (se_publisher session) of
                     Inl _ \<Rightarrow> sx_runtime st
                   | Inr registration \<Rightarrow>
                       if rg_worker_boot registration = se_worker_boot session
                       then snd (FencePublisher (se_publisher session) FR_SessionClosed (sx_runtime st))
                       else sx_runtime st)
                else sx_runtime st)
      in count sc_sessions_closed_update
           (st\<lparr>sx_runtime := rt, sx_active := (if sx_active st > 0 then sx_active st - 1 else sx_active st)\<rparr>))"

text \<open>
  The whole session over the chunks it receives, starting with an empty buffer. The end of the
  list is the end of the connection: the peer closed, a receive or a wait failed, or a
  shutdown was requested while the session waited.
\<close>

fun session_loop ::
  "'b server_env \<Rightarrow> bytes \<Rightarrow> bytes list \<Rightarrow> session \<Rightarrow> 'b server_state \<Rightarrow> bytes list \<times> 'b server_state" where
  "session_loop env buffer chunks session st =
     (case drain env buffer session st of
        (Ended, replies, session, st) \<Rightarrow> (replies, finish_session session st)
      | (Waiting buffer, replies, session, st) \<Rightarrow>
          (case chunks of
             [] \<Rightarrow> (replies, finish_session session st)
           | chunk # rest \<Rightarrow>
               if length buffer + length chunk > max_frame_bytes (sv_limits env) + kFrameHeaderBytes then
                 (replies @ [send_error env SC_LimitExceeded
                               ''the peer sent more bytes than the configured frame bound''],
                  finish_session session (count sc_oversized_frames_update st))
               else
                 (case session_loop env (buffer @ chunk) rest session st of
                    (later, st) \<Rightarrow> (replies @ later, st))))"

declare session_loop.simps [simp del]

section \<open>Chunks do not matter\<close>

text \<open>The header of a frame is decided by the first sixteen bytes.\<close>

lemma read_le_append:
  "4 \<le> length xs \<Longrightarrow> read_le32 (xs @ ys) = read_le32 xs"
  "2 \<le> length xs \<Longrightarrow> read_le16 (xs @ ys) = read_le16 xs"
  by (auto simp: read_le32_def read_le16_def le_load_def upt_rec nth_append)

lemma header_append:
  "kFrameHeaderBytes \<le> length buffer \<Longrightarrow>
   frame_header_status wc limits (buffer @ extra) = frame_header_status wc limits buffer"
  by (simp add: frame_header_status_def kFrameHeaderBytes_def read_le_append)

text \<open>Bytes that arrive later do not change what was done before, and are taken up where it stopped.\<close>

definition resume ::
  "'b server_env \<Rightarrow> bytes \<Rightarrow> progress \<times> bytes list \<times> session \<times> 'b server_state \<Rightarrow>
   progress \<times> bytes list \<times> session \<times> 'b server_state" where
  "resume env extra = (\<lambda>(p, replies, session, st).
     case p of
       Ended \<Rightarrow> (Ended, replies, session, st)
     | Waiting buffer \<Rightarrow>
         (case drain env (buffer @ extra) session st of
            (p, later, session, st) \<Rightarrow> (p, replies @ later, session, st)))"

lemma drain_append: "drain env (buffer @ extra) session st = resume env extra (drain env buffer session st)"
proof (induction env buffer session st rule: drain.induct)
  case (1 env buffer session st)
  note step = drain.simps [of env buffer session st]
  show ?case
  proof (cases "length buffer < kFrameHeaderBytes")
    case True
    then have "drain env buffer session st = (Waiting buffer, [], session, st)" by (simp add: step)
    then show ?thesis by (simp add: resume_def split: prod.splits)
  next
    case False
    obtain status n where header: "frame_header_status (sv_wire env) (sv_limits env) buffer = (status, n)" by fastforce
    then have longer: "frame_header_status (sv_wire env) (sv_limits env) (buffer @ extra) = (status, n)"
      using False by (simp add: header_append not_less)
    show ?thesis
    proof (cases "status = FS_Complete \<and> n \<le> length buffer")
      case no: False
      then consider "status \<noteq> FS_Complete" | "status = FS_Complete" "length buffer < n" by fastforce
      then show ?thesis
      proof cases
        case 1
        then show ?thesis
          using False header longer
          by (simp add: step drain.simps [of env "buffer @ extra"] resume_def)
      next
        case 2
        then have "drain env buffer session st = (Waiting buffer, [], session, st)"
          using False header by (simp add: step)
        then show ?thesis by (simp add: resume_def split: prod.splits)
      qed
    next
      case True
      show ?thesis
      proof (cases "decode_frame (sv_wire env) (sv_limits env) (take n buffer)")
        case (Inl e)
        then show ?thesis
          using False True header longer
          by (simp add: step drain.simps [of env "buffer @ extra"] resume_def)
      next
        case (Inr decoded)
        obtain continues reply session' st' where handled:
          "handle env decoded session (count sc_frames_received_update st) = (continues, reply, session', st')"
          by (metis prod_cases4)
        note ih = "1.IH" [OF False header [symmetric] _ _ _ Inr handled [symmetric] refl refl]
        show ?thesis
          using False True header longer Inr handled ih
          by (simp add: step drain.simps [of env "buffer @ extra"] resume_def split: prod.splits progress.splits)
      qed
    qed
  qed
qed

text \<open>The buffer never outgrows its bound: the loop is not cut off.\<close>

fun within_bound :: "'b server_env \<Rightarrow> bytes \<Rightarrow> bytes list \<Rightarrow> session \<Rightarrow> 'b server_state \<Rightarrow> bool" where
  "within_bound env buffer chunks session st =
     (case drain env buffer session st of
        (Ended, replies, session, st) \<Rightarrow> True
      | (Waiting buffer, replies, session, st) \<Rightarrow>
          (case chunks of
             [] \<Rightarrow> True
           | chunk # rest \<Rightarrow>
               length buffer + length chunk \<le> max_frame_bytes (sv_limits env) + kFrameHeaderBytes \<and>
               within_bound env (buffer @ chunk) rest session st))"

declare within_bound.simps [simp del]

definition session_result ::
  "progress \<times> bytes list \<times> session \<times> 'b server_state \<Rightarrow> bytes list \<times> 'b server_state" where
  "session_result = (\<lambda>(p, replies, session, st). (replies, finish_session session st))"

lemma session_loop_drains:
  "within_bound env buffer chunks session st \<Longrightarrow>
   session_loop env buffer chunks session st = session_result (drain env (buffer @ concat chunks) session st)"
proof (induction env buffer chunks session st rule: session_loop.induct)
  case (1 env buffer chunks session st)
  obtain p replies session' st' where drained: "drain env buffer session st = (p, replies, session', st')"
    by (metis prod_cases4)
  note whole = drain_append [of env buffer "concat chunks" session st]
  show ?case
  proof (cases p)
    case Ended
    then show ?thesis
      using drained whole by (simp add: session_loop.simps [of env buffer] resume_def session_result_def)
  next
    case (Waiting rest)
    show ?thesis
    proof (cases chunks)
      case Nil
      then show ?thesis
        using drained Waiting by (simp add: session_loop.simps [of env buffer] session_result_def)
    next
      case (Cons chunk later)
      have "length rest + length chunk \<le> max_frame_bytes (sv_limits env) + kFrameHeaderBytes"
        and "within_bound env (rest @ chunk) later session' st'"
        using "1.prems" drained Waiting Cons by (simp_all add: within_bound.simps [of env buffer])
      moreover from this have "session_loop env (rest @ chunk) later session' st' =
          session_result (drain env (rest @ concat chunks) session' st')"
        using "1.IH" [OF drained [symmetric] Waiting refl refl Cons] Cons by simp
      ultimately show ?thesis
        using drained Waiting Cons whole
        by (simp add: session_loop.simps [of env buffer "chunk # later"] resume_def session_result_def split: prod.splits)
    qed
  qed
qed

section \<open>One request\<close>

text \<open>A proper prefix of a frame waits for the rest.\<close>

lemma drain_prefix:
  assumes "frame_fits (sv_limits env) payload" and "encode_frame (sv_wire env) i payload = part @ missing" and "missing \<noteq> []"
  shows "drain env part session st = (Waiting part, [], session, st)"
proof (cases "length part < kFrameHeaderBytes")
  case True
  then show ?thesis by (simp add: drain.simps)
next
  case False
  have "frame_header_status (sv_wire env) (sv_limits env) part = (FS_Complete, 16 + length payload)"
    using header_of_frame [OF assms(1), of "sv_wire env" i "[]"] header_append [of part "sv_wire env" "sv_limits env" missing]
      False assms(2) by simp
  moreover have "length part < 16 + length payload"
    using arg_cong [OF assms(2), of length] assms(3) by simp
  ultimately show ?thesis using False by (simp add: drain.simps)
qed

text \<open>A receive that returns no byte reports the end of the connection, so chunks are not empty.\<close>

lemma frame_within_bound:
  assumes fits: "frame_fits (sv_limits env) payload"
  shows "buffer @ concat chunks = encode_frame (sv_wire env) i payload \<Longrightarrow> list_all (\<lambda>c. c \<noteq> []) chunks \<Longrightarrow>
    within_bound env buffer chunks session st"
proof (induction chunks arbitrary: buffer)
  case Nil
  then show ?case by (simp add: within_bound.simps split: prod.splits progress.splits)
next
  case (Cons chunk rest)
  have "drain env buffer session st = (Waiting buffer, [], session, st)"
    using Cons.prems by (intro drain_prefix [OF fits, of i _ "chunk @ concat rest"]) auto
  moreover have "length buffer + length chunk \<le> max_frame_bytes (sv_limits env) + kFrameHeaderBytes"
    using arg_cong [OF Cons.prems(1), of length] fits by (simp add: frame_fits_def kFrameHeaderBytes_def)
  moreover have "within_bound env (buffer @ chunk) rest session st"
    using Cons.prems by (intro Cons.IH) auto
  ultimately show ?case by (simp add: within_bound.simps [of env buffer])
qed

text \<open>One request, however it is cut into chunks, is handled once and answered with one frame.\<close>

lemma drain_request:
  assumes "frame_fits (sv_limits env) payload"
    and "handle env \<lparr>df_id = i, df_wire_version = kWireProtocolVersion (sv_wire env), df_payload = payload\<rparr> session
      (count sc_frames_received_update st) = (continues, reply, session', st')"
  shows "drain env (encode_frame (sv_wire env) i payload) session st =
    (if continues then Waiting [] else Ended, [reply], session', st')"
  using assms(2) header_of_frame [OF assms(1), of "sv_wire env" i "[]"] decode_frame_encode [OF assms(1), of "sv_wire env" i]
  by (simp add: drain.simps [of env "encode_frame (sv_wire env) i payload"] drain.simps [of env "[]"]
      kFrameHeaderBytes_def)

lemma session_one_request:
  assumes "frame_fits (sv_limits env) payload" and "concat chunks = encode_frame (sv_wire env) i payload"
    and "list_all (\<lambda>c. c \<noteq> []) chunks"
    and "handle env \<lparr>df_id = i, df_wire_version = kWireProtocolVersion (sv_wire env), df_payload = payload\<rparr> session
      (count sc_frames_received_update st) = (continues, reply, session', st')"
  shows "session_loop env [] chunks session st = ([reply], finish_session session' st')"
  using session_loop_drains [OF frame_within_bound [OF assms(1), of "[]" chunks i]] assms(2,3)
    drain_request [OF assms(1,4)]
  by (simp add: session_result_def)

section \<open>Requests are runs of the runtime\<close>

lemma reconcile_one_steps: "reconcile_one ops b i rt = (x, rt') \<Longrightarrow> steps s rt rt'"
  by (auto simp: reconcile_one_def split: option.splits intro: steps_one step.reconcile)

lemma reconcile_each_steps: "reconcile_each ops b is summary rt = (x, rt') \<Longrightarrow> steps s rt rt'"
proof (induction "is" arbitrary: summary rt)
  case (Cons i "is")
  obtain y rt1 where one: "reconcile_one ops b i rt = (y, rt1)" by fastforce
  then have "steps s rt1 rt'" using Cons by (cases y) auto
  with reconcile_one_steps [OF one] show ?case by (rule rtranclp_trans)
qed simp

lemma ReconcileAll_steps: "ReconcileAll ops b rt = (x, rt') \<Longrightarrow> steps s rt rt'"
  by (auto simp: ReconcileAll_def Let_def split: if_splits prod.splits intro: reconcile_each_steps)

lemma ReconcileRoute_steps: "ReconcileRoute ops b i rt = (x, rt') \<Longrightarrow> steps s rt rt'"
  by (auto simp: ReconcileRoute_def split: if_splits intro: reconcile_one_steps)

lemma ApplyProgrammingCompletion_steps: "ApplyProgrammingCompletion c rt = (x, rt') \<Longrightarrow> steps s rt rt'"
  by (auto simp: ApplyProgrammingCompletion_def Let_def split: if_splits prod.splits intro: steps_one step.complete)

text \<open>The one request that is not a run: the revocation of a superseded route.\<close>

definition revokes_superseded :: "decoded_frame \<Rightarrow> runtime \<Rightarrow> bool" where
  "revokes_superseded frame rt \<longleftrightarrow>
     df_id frame = MI_RevokeRoute \<and>
     (case decode_RouteMutationRequest (df_payload frame) of
        None \<Rightarrow> False
      | Some request \<Rightarrow>
          (case om_find (rt_routes rt) (muq_route request) of
             None \<Rightarrow> False
           | Some r \<Rightarrow> rr_lifecycle r = LC_Superseded))"

lemma count_runtime [simp]: "sx_runtime (count f st) = sx_runtime st" "sx_backend (count f st) = sx_backend st"
  by (simp_all add: count_def)

lemma mutate_steps:
  assumes "mutate env i request b rt = (x, b', rt')"
    and "i \<notin> {MI_WithdrawRoute, MI_RevalidateRoute, MI_RetireRoute} \<Longrightarrow>
      (case om_find (rt_routes rt) (muq_route request) of None \<Rightarrow> True | Some r \<Rightarrow> rr_lifecycle r \<noteq> LC_Superseded)"
  shows "steps False rt rt'"
  using assms
  by (auto simp: mutate_def lifecycle_of_def split: if_splits prod.splits option.splits
      intro: WithdrawRoute_steps RevalidateRoute_steps steps_one [OF step.retire] steps_one [OF step.revoke])

lemma handle_steps:
  assumes "handle env frame session st = (continues, reply, session', st')"
    and "\<not> revokes_superseded frame (sx_runtime st)"
  shows "steps False (sx_runtime st) (sx_runtime st')"
proof -
  note kept = protocol_error_def answer_def
  have mutation: "steps False (sx_runtime st) (sx_runtime st')"
    if "handle_mutation env i payload session (count sc_requests_handled_update st) = (continues, reply, session', st')"
      "i = df_id frame" "payload = df_payload frame"
      "i \<in> {MI_WithdrawRoute, MI_RevalidateRoute, MI_RetireRoute, MI_RevokeRoute}" for i payload
  proof (cases "decode_RouteMutationRequest payload")
    case None
    with that(1) show ?thesis by (auto simp: handle_mutation_def kept)
  next
    case (Some request)
    obtain x b rt where run: "mutate env i request (sx_backend st) (sx_runtime st) = (x, b, rt)"
      by (cases "mutate env i request (sx_backend st) (sx_runtime st)") auto
    have "steps False (sx_runtime st) rt"
      using that(2-4) assms(2) Some by (intro mutate_steps [OF run]) (auto simp: revokes_superseded_def split: option.splits)
    with that(1) Some run show ?thesis by (auto simp: handle_mutation_def kept)
  qed
  show ?thesis
    using assms(1)
    by (auto simp: handle_def Let_def kept handle_hello_def handle_register_def handle_publish_def handle_query_def
        handle_explain_def handle_snapshot_def handle_statistics_def handle_epoch_def handle_reconcile_def
        reconcile_answer_def handle_completion_def handle_backend_def
        split: message_id.splits option.splits prod.splits sum.splits if_splits
        intro: mutation steps_one [OF step.register] publish_one_steps ReconcileAll_steps ReconcileRoute_steps
          ApplyProgrammingCompletion_steps)
qed

lemma finish_session_steps: "steps s (sx_runtime st) (sx_runtime (finish_session session st))"
  by (auto simp: finish_session_def Let_def split: sum.splits
      intro!: steps_one [OF step.fence [OF surjective_pairing]])

text \<open>What a closed session leaves behind: the worker boot it registered is fenced.\<close>

lemma finish_session_fences:
  assumes "se_registered session" and "LookupRegistration (sx_runtime st) (se_publisher session) = Inr g"
    and "rg_worker_boot g = se_worker_boot session"
  shows "se_worker_boot session \<in> set (rt_fenced_boots (sx_runtime (finish_session session st)))"
  using assms
  by (auto simp: finish_session_def Let_def LookupRegistration_def FencePublisher_def split: option.splits)

section \<open>Sessions are bounded\<close>

text \<open>
  The server with its live sessions. Besides the server's own events, the runtime and the
  backend may change at any time, through other sessions or the embedding process.
\<close>

inductive serving :: "'b server_env \<Rightarrow> 'b server_state \<Rightarrow> session list \<Rightarrow> bool" for env :: "'b server_env" where
  started: "serving env st []"
    if "sx_active st = 0" and "sc_sessions_accepted (sx_counters st) = 0" and "sc_sessions_closed (sx_counters st) = 0"
| accepted: "serving env st' (session_default # ongoing)"
    if "serving env st ongoing" and "accept_session env stopping st = (True, st')"
| rejected: "serving env st' ongoing"
    if "serving env st ongoing" and "accept_session env stopping st = (False, st')"
| request: "serving env st' (before @ session' # after)"
    if "serving env st (before @ session # after)" and "handle env f session st = (continues, reply, session', st')"
| frame_counted: "serving env (count counter st) ongoing"
    if "serving env st ongoing" and "counter \<in> {sc_frames_received_update, sc_malformed_frames_update,
      sc_integrity_failures_update, sc_oversized_frames_update}"
| finished: "serving env (finish_session session st) (before @ after)"
    if "serving env st (before @ session # after)"
| elsewhere: "serving env (st\<lparr>sx_runtime := rt, sx_backend := b\<rparr>) ongoing"
    if "serving env st ongoing"

definition admission_exact :: "'b server_env \<Rightarrow> 'b server_state \<Rightarrow> session list \<Rightarrow> bool" where
  "admission_exact env st ongoing \<longleftrightarrow>
     sx_active st = length ongoing \<and> length ongoing \<le> max_sessions (sv_limits env) \<and>
     sc_sessions_accepted (sx_counters st) = of_nat (length ongoing) + sc_sessions_closed (sx_counters st)"

definition admission_kept :: "'b server_state \<Rightarrow> 'b server_state \<Rightarrow> bool" where
  "admission_kept st st' \<longleftrightarrow>
     sx_active st' = sx_active st \<and>
     sc_sessions_accepted (sx_counters st') = sc_sessions_accepted (sx_counters st) \<and>
     sc_sessions_closed (sx_counters st') = sc_sessions_closed (sx_counters st)"

lemma handle_admission:
  "handle env f session st = (continues, reply, session', st') \<Longrightarrow> admission_kept st st'"
  by (cases "df_id f")
    (auto simp: admission_kept_def handle_def Let_def count_def protocol_error_def answer_def handle_hello_def
      handle_register_def handle_publish_def handle_mutation_def handle_query_def handle_explain_def
      handle_snapshot_def handle_statistics_def handle_epoch_def handle_reconcile_def handle_completion_def
      handle_backend_def
      split: option.splits prod.splits sum.splits if_splits)

lemma serving_admission: "serving env st ongoing \<Longrightarrow> admission_exact env st ongoing"
proof (induction rule: serving.induct)
  case (request st before session after f continues reply session' st')
  then show ?case using handle_admission by (fastforce simp: admission_exact_def admission_kept_def)
next
  case (frame_counted st ongoing counter)
  then show ?case by (auto simp: admission_exact_def count_def)
next
  case (finished st before session after)
  then show ?case by (auto simp: admission_exact_def finish_session_def count_def Let_def)
qed (auto simp: admission_exact_def accept_session_def count_def split: if_splits)

end
