(* ===== verification/RF_Client.thy ===== *)
theory RF_Client
  imports RF_Session
begin

text \<open>
  \<^bold>\<open>The client.\<close> This theory models \<open>src/client.cpp\<close> and the blocking socket loops of
  \<open>src/socket_internal.hpp\<close> it uses. The operating system's socket calls are a record of
  functions over the state of a connection; what a stream socket promises is the locale
  \<open>stream_socket\<close>. It is interpreted on a connection to the modelled server
  that transfers at most \<open>mss + 1\<close> bytes per call, so that the client's operations can be
  compared with the operations of the coordinator's runtime.
\<close>

section \<open>Socket loops\<close>

text \<open>
  \<open>send\<close> returns a number of bytes or a negative value; \<open>recv\<close> returns the bytes read,
  \<open>Some []\<close> when the peer has closed, and \<open>None\<close> on an error.
\<close>

record 'p socket_ops =
  sk_create :: "string \<Rightarrow> 'p option"
  sk_connect :: "string \<Rightarrow> u16 \<Rightarrow> 'p \<Rightarrow> 'p option"
  sk_send :: "bytes \<Rightarrow> 'p \<Rightarrow> int \<times> 'p"
  sk_recv :: "nat \<Rightarrow> 'p \<Rightarrow> bytes option \<times> 'p"

function send_all :: "'p socket_ops \<Rightarrow> bytes \<Rightarrow> 'p \<Rightarrow> bool \<times> 'p" where
  "send_all ops data p =
     (if data = [] then (True, p)
      else case sk_send ops (take (2 ^ 20) data) p of (result, p) \<Rightarrow>
        if result \<le> 0 then (False, p) else send_all ops (drop (nat result) data) p)"
  by pat_completeness auto
termination
  by (relation "measure (\<lambda>(ops, data, p). length data)") auto

declare send_all.simps [simp del]

function recv_exact :: "'p socket_ops \<Rightarrow> nat \<Rightarrow> 'p \<Rightarrow> bytes option \<times> 'p" where
  "recv_exact ops wanted p =
     (if wanted = 0 then (Some [], p)
      else case sk_recv ops (min wanted (2 ^ 20)) p of (result, p) \<Rightarrow>
        (case result of
           None \<Rightarrow> (None, p)
         | Some chunk \<Rightarrow>
             if chunk = [] then (None, p)
             else (case recv_exact ops (wanted - length chunk) p of
                     (None, p) \<Rightarrow> (None, p)
                   | (Some rest, p) \<Rightarrow> (Some (chunk @ rest), p))))"
  by pat_completeness auto
termination
  by (relation "measure (\<lambda>(ops, wanted, p). wanted)") auto

declare recv_exact.simps [simp del]

section \<open>State\<close>

record client_config =
  cc_host :: string
  cc_port :: u16
  cc_limits :: limits
  cc_id_seed :: u64

record 'p client_env =
  ce_config :: client_config
  ce_wire :: wire_constants
  ce_ops :: "'p socket_ops"

text \<open>The socket is \<open>None\<close> for \<open>kInvalidSocket\<close> and holds the state of its connection otherwise.\<close>

record 'p client =
  cl_socket :: "'p option"
  cl_ids :: seeded_id_source
  cl_backend :: backend_id
  cl_context :: request_context

definition new_client :: "client_config \<Rightarrow> u64 \<Rightarrow> 'p client" where
  "new_client config system_seed =
     \<lparr>cl_socket = None,
      cl_ids = seeded_id_source (if cc_id_seed config \<noteq> 0 then cc_id_seed config else system_seed),
      cl_backend = [],
      cl_context = \<lparr>rx_epoch = 0, rx_publisher = [], rx_worker_boot = 0, rx_attempt = 0\<rparr>\<rparr>"

abbreviation client_limits :: "'p client_env \<Rightarrow> limits" where
  "client_limits env \<equiv> cc_limits (ce_config env)"

definition Connect :: "'p client_env \<Rightarrow> 'p client \<Rightarrow> status \<times> 'p client" where
  "Connect env c =
     (case cl_socket c of
        Some _ \<Rightarrow> (Inl SC_AlreadyExists, c)
      | None \<Rightarrow>
          if cc_port (ce_config env) = 0 then (Inl SC_InvalidArgument, c)
          else case sk_create (ce_ops env) (cc_host (ce_config env)) of
            None \<Rightarrow> (Inl SC_Internal, c)
          | Some p \<Rightarrow>
              (case sk_connect (ce_ops env) (cc_host (ce_config env)) (cc_port (ce_config env)) p of
                 None \<Rightarrow> (Inl SC_NotFound, c)
               | Some p \<Rightarrow> (ok_status, c\<lparr>cl_socket := Some p\<rparr>)))"

definition Close :: "'p client \<Rightarrow> 'p client" where
  "Close c = c\<lparr>cl_socket := None\<rparr>"

definition client_connected :: "'p client \<Rightarrow> bool" where
  "client_connected c \<longleftrightarrow> cl_socket c \<noteq> None"

definition next_attempt :: "'p client \<Rightarrow> (mutation_attempt_id \<times> 'p client) option" where
  "next_attempt c =
     (case generate_id (cl_ids c) of
        None \<Rightarrow> None
      | Some (attempt, source) \<Rightarrow>
          Some (attempt, c\<lparr>cl_ids := source, cl_context := cl_context c\<lparr>rx_attempt := attempt\<rparr>\<rparr>))"

section \<open>Frames\<close>

definition SendRawBytes :: "'p client_env \<Rightarrow> bytes \<Rightarrow> 'p client \<Rightarrow> status \<times> 'p client" where
  "SendRawBytes env data c =
     (case cl_socket c of
        None \<Rightarrow> (Inl SC_NotFound, c)
      | Some p \<Rightarrow>
          (case send_all (ce_ops env) data p of
             (sent, p) \<Rightarrow> (if sent then ok_status else Inl SC_ProtocolViolation, c\<lparr>cl_socket := Some p\<rparr>)))"

definition SendFrame :: "'p client_env \<Rightarrow> message_id \<Rightarrow> bytes \<Rightarrow> 'p client \<Rightarrow> status \<times> 'p client" where
  "SendFrame env i payload c =
     (case cl_socket c of
        None \<Rightarrow> (Inl SC_NotFound, c)
      | Some p \<Rightarrow>
          if length payload > max_frame_bytes (client_limits env) then (Inl SC_LimitExceeded, c)
          else (case send_all (ce_ops env) (encode_frame (ce_wire env) i payload) p of
                  (sent, p) \<Rightarrow> (if sent then ok_status else Inl SC_ProtocolViolation, c\<lparr>cl_socket := Some p\<rparr>)))"

definition ReceiveFrame :: "'p client_env \<Rightarrow> 'p client \<Rightarrow> decoded_frame expected \<times> 'p client" where
  "ReceiveFrame env c =
     (case cl_socket c of
        None \<Rightarrow> (Inl SC_NotFound, c)
      | Some p \<Rightarrow>
          (case recv_exact (ce_ops env) kFrameHeaderBytes p of
             (None, p) \<Rightarrow> (Inl SC_ProtocolViolation, c\<lparr>cl_socket := Some p\<rparr>)
           | (Some header, p) \<Rightarrow>
               (case frame_header_status (ce_wire env) (client_limits env) header of (header_status, frame_total) \<Rightarrow>
                  if header_status \<noteq> FS_Complete then (Inl SC_ProtocolViolation, c\<lparr>cl_socket := Some p\<rparr>)
                  else case recv_exact (ce_ops env) (frame_total - kFrameHeaderBytes) p of
                    (None, p) \<Rightarrow> (Inl SC_ProtocolViolation, c\<lparr>cl_socket := Some p\<rparr>)
                  | (Some body, p) \<Rightarrow>
                      (case decode_frame (ce_wire env) (client_limits env) (header @ body) of
                         Inl _ \<Rightarrow> (Inl SC_IntegrityFailure, c\<lparr>cl_socket := Some p\<rparr>)
                       | Inr decoded \<Rightarrow> (Inr decoded, c\<lparr>cl_socket := Some p\<rparr>)))))"

definition expect_frame :: "'p client_env \<Rightarrow> message_id \<Rightarrow> 'p client \<Rightarrow> decoded_frame expected \<times> 'p client" where
  "expect_frame env awaited c =
     (case ReceiveFrame env c of
        (Inl e, c) \<Rightarrow> (Inl e, c)
      | (Inr f, c) \<Rightarrow>
          if df_id f = MI_Error then
            (case decode_ErrorMessage (df_payload f) of
               Some message \<Rightarrow> (Inl (em_status message), c)
             | None \<Rightarrow> (Inl SC_ProtocolViolation, c))
          else if df_id f \<noteq> awaited then (Inl SC_ProtocolViolation, c)
          else (Inr f, c))"

text \<open>The steps every operation repeats: send one frame, await the answer, decode its payload.\<close>

definition exchange ::
  "'p client_env \<Rightarrow> message_id \<Rightarrow> message_id \<Rightarrow> bytes \<Rightarrow> (bytes \<Rightarrow> 'a option) \<Rightarrow> 'p client \<Rightarrow> 'a expected \<times> 'p client" where
  "exchange env request awaited payload decoder c =
     (case SendFrame env request payload c of
        (Inl e, c) \<Rightarrow> (Inl e, c)
      | (Inr _, c) \<Rightarrow>
          (case expect_frame env awaited c of
             (Inl e, c) \<Rightarrow> (Inl e, c)
           | (Inr f, c) \<Rightarrow>
               (case decoder (df_payload f) of
                  None \<Rightarrow> (Inl SC_ProtocolViolation, c)
                | Some result \<Rightarrow> (Inr result, c))))"

text \<open>An answer whose status is not \<open>Ok\<close> is returned as that error.\<close>

definition refuse_status :: "('a \<Rightarrow> status_code) \<Rightarrow> 'a expected \<Rightarrow> 'a expected" where
  "refuse_status code result =
     (case result of
        Inl e \<Rightarrow> Inl e
      | Inr m \<Rightarrow> if code m \<noteq> SC_Ok then Inl (code m) else Inr m)"

definition validate_context :: "request_context \<Rightarrow> status" where
  "validate_context x =
     (if \<not> token_is_valid (rx_publisher x) then Inl SC_InvalidArgument
      else if \<not> fixed_is_valid (rx_worker_boot x) then Inl SC_InvalidArgument
      else if \<not> counter_is_valid (rx_epoch x) then Inl SC_InvalidArgument
      else ok_status)"

section \<open>Operations\<close>

definition Hello :: "'p client_env \<Rightarrow> string \<Rightarrow> 'p client \<Rightarrow> hello_result expected \<times> 'p client" where
  "Hello env client_name c =
     (case exchange env MI_Hello MI_HelloResult
             (encode_HelloRequest \<lparr>hq_wire_version = kWireProtocolVersion (ce_wire env), hq_client_name = client_name\<rparr>)
             (decode_HelloResult (ce_wire env)) c of
        (Inl e, c) \<Rightarrow> (Inl e, c)
      | (Inr result, c) \<Rightarrow>
          (Inr result,
           if hr_status result = SC_Ok
           then c\<lparr>cl_context := cl_context c\<lparr>rx_epoch := hr_epoch result\<rparr>, cl_backend := hr_backend result\<rparr>
           else c))"

definition client_RegisterPublisher ::
  "'p client_env \<Rightarrow> publisher_scope \<Rightarrow> 'p client \<Rightarrow> register_publisher_result expected \<times> 'p client" where
  "client_RegisterPublisher env scope c =
     (case validate_context (cl_context c) of
        Inl e \<Rightarrow> (Inl e, c)
      | Inr _ \<Rightarrow>
          if \<not> fixed_is_valid (rx_attempt (cl_context c)) then (Inl SC_InvalidArgument, c)
          else case exchange env MI_RegisterPublisher MI_RegisterPublisherResult
                      (encode_RegisterPublisherRequest \<lparr>gq_context = cl_context c, gq_scope = scope\<rparr>)
                      decode_RegisterPublisherResult c of
            (Inl e, c) \<Rightarrow> (Inl e, c)
          | (Inr result, c) \<Rightarrow>
              (Inr result,
               if gr_status result = SC_Ok \<and> counter_is_valid (gr_epoch result)
               then c\<lparr>cl_context := cl_context c\<lparr>rx_epoch := gr_epoch result\<rparr>\<rparr>
               else c))"

definition client_PublishRoute ::
  "'p client_env \<Rightarrow> route_key \<Rightarrow> route_binding \<Rightarrow> policy_generation \<Rightarrow> route_generation \<Rightarrow> route_id \<Rightarrow> string \<Rightarrow>
   'p client \<Rightarrow> publish_route_result expected \<times> 'p client" where
  "client_PublishRoute env key binding policy_generation expected_generation lineage reason c =
     (case validate_context (cl_context c) of
        Inl e \<Rightarrow> (Inl e, c)
      | Inr _ \<Rightarrow>
          if \<not> fixed_is_valid (rx_attempt (cl_context c)) then (Inl SC_InvalidArgument, c)
          else exchange env MI_PublishRoute MI_PublishRouteResult
                 (encode_PublishRouteRequest
                    \<lparr>pbq_context = cl_context c, pbq_key = key, pbq_binding = binding,
                     pbq_policy_generation = policy_generation, pbq_expected_generation = expected_generation,
                     pbq_lineage = lineage, pbq_reason = reason\<rparr>)
                 decode_PublishRouteResult c)"

definition send_mutation ::
  "'p client_env \<Rightarrow> message_id \<Rightarrow> message_id \<Rightarrow> route_id \<Rightarrow> route_generation \<Rightarrow> string \<Rightarrow> 'p client \<Rightarrow>
   route_mutation_result expected \<times> 'p client" where
  "send_mutation env request_id response_id route expected_generation reason c =
     (case validate_context (cl_context c) of
        Inl e \<Rightarrow> (Inl e, c)
      | Inr _ \<Rightarrow>
          if \<not> fixed_is_valid (rx_attempt (cl_context c)) then (Inl SC_InvalidArgument, c)
          else exchange env request_id response_id
                 (encode_RouteMutationRequest
                    \<lparr>muq_context = cl_context c, muq_route = route, muq_expected_generation = expected_generation,
                     muq_reason = reason\<rparr>)
                 decode_RouteMutationResult c)"

definition client_WithdrawRoute ::
  "'p client_env \<Rightarrow> route_id \<Rightarrow> route_generation \<Rightarrow> string \<Rightarrow> 'p client \<Rightarrow> route_mutation_result expected \<times> 'p client" where
  "client_WithdrawRoute env = send_mutation env MI_WithdrawRoute MI_WithdrawRouteResult"

definition client_RevalidateRoute ::
  "'p client_env \<Rightarrow> route_id \<Rightarrow> string \<Rightarrow> 'p client \<Rightarrow> route_mutation_result expected \<times> 'p client" where
  "client_RevalidateRoute env route = send_mutation env MI_RevalidateRoute MI_RevalidateRouteResult route 0"

definition client_RetireRoute ::
  "'p client_env \<Rightarrow> route_id \<Rightarrow> string \<Rightarrow> 'p client \<Rightarrow> route_mutation_result expected \<times> 'p client" where
  "client_RetireRoute env route = send_mutation env MI_RetireRoute MI_RetireRouteResult route 0"

definition client_RevokeRoute ::
  "'p client_env \<Rightarrow> route_id \<Rightarrow> string \<Rightarrow> 'p client \<Rightarrow> route_mutation_result expected \<times> 'p client" where
  "client_RevokeRoute env route = send_mutation env MI_RevokeRoute MI_RevokeRouteResult route 0"

definition send_query ::
  "'p client_env \<Rightarrow> query_route_request \<Rightarrow> 'p client \<Rightarrow> query_route_result expected \<times> 'p client" where
  "send_query env request =
     exchange env MI_QueryRoute MI_QueryRouteResult (encode_QueryRouteRequest request)
       (decode_QueryRouteResult (client_limits env))"

definition queried_snapshot :: "query_route_result expected \<Rightarrow> route_snapshot expected" where
  "queried_snapshot result =
     (case result of
        Inl e \<Rightarrow> Inl e
      | Inr m \<Rightarrow>
          if qr_status m \<noteq> SC_Ok then Inl (qr_status m)
          else if \<not> qr_found m then Inl SC_NotFound
          else Inr (qr_snapshot m))"

definition client_QueryRouteByKey ::
  "'p client_env \<Rightarrow> route_key \<Rightarrow> 'p client \<Rightarrow> route_snapshot expected \<times> 'p client" where
  "client_QueryRouteByKey env key c =
     (case send_query env \<lparr>qq_by_key = True, qq_key = key, qq_route = 0\<rparr> c of
        (result, c) \<Rightarrow> (queried_snapshot result, c))"

definition client_QueryRouteById ::
  "'p client_env \<Rightarrow> route_id \<Rightarrow> 'p client \<Rightarrow> route_snapshot expected \<times> 'p client" where
  "client_QueryRouteById env route c =
     (case send_query env \<lparr>qq_by_key = False, qq_key = route_key_default, qq_route = route\<rparr> c of
        (result, c) \<Rightarrow> (queried_snapshot result, c))"

definition client_Snapshot :: "'p client_env \<Rightarrow> 'p client \<Rightarrow> snapshot_response expected \<times> 'p client" where
  "client_Snapshot env c =
     (case validate_context (cl_context c) of
        Inl e \<Rightarrow> (Inl e, c)
      | Inr _ \<Rightarrow>
          (case exchange env MI_SnapshotRequest MI_SnapshotResponse
                  (encode_SnapshotRequest \<lparr>sq_epoch = rx_epoch (cl_context c)\<rparr>)
                  (decode_SnapshotResponse (client_limits env)) c of
             (result, c) \<Rightarrow> (refuse_status spr_status result, c)))"

definition send_explain ::
  "'p client_env \<Rightarrow> query_route_request \<Rightarrow> 'p client \<Rightarrow> explain_route_result expected \<times> 'p client" where
  "send_explain env request =
     exchange env MI_ExplainRoute MI_ExplainRouteResult (encode_QueryRouteRequest request)
       (decode_ExplainRouteResult (client_limits env))"

definition explained :: "explain_route_result expected \<Rightarrow> route_explanation expected" where
  "explained result =
     (case result of
        Inl e \<Rightarrow> Inl e
      | Inr m \<Rightarrow>
          if xr_status m \<noteq> SC_Ok then Inl (xr_status m)
          else if \<not> xr_found m then Inl SC_NotFound
          else Inr (xr_explanation m))"

definition client_ExplainRouteByKey ::
  "'p client_env \<Rightarrow> route_key \<Rightarrow> 'p client \<Rightarrow> route_explanation expected \<times> 'p client" where
  "client_ExplainRouteByKey env key c =
     (case send_explain env \<lparr>qq_by_key = True, qq_key = key, qq_route = 0\<rparr> c of
        (result, c) \<Rightarrow> (explained result, c))"

definition client_ExplainRouteById ::
  "'p client_env \<Rightarrow> route_id \<Rightarrow> 'p client \<Rightarrow> route_explanation expected \<times> 'p client" where
  "client_ExplainRouteById env route c =
     (case send_explain env \<lparr>qq_by_key = False, qq_key = route_key_default, qq_route = route\<rparr> c of
        (result, c) \<Rightarrow> (explained result, c))"

definition client_Statistics :: "'p client_env \<Rightarrow> 'p client \<Rightarrow> statistics_result expected \<times> 'p client" where
  "client_Statistics env c =
     (case exchange env MI_StatisticsRequest MI_StatisticsResult [] decode_StatisticsResult c of
        (result, c) \<Rightarrow> (refuse_status sr_status result, c))"

definition client_Epoch :: "'p client_env \<Rightarrow> 'p client \<Rightarrow> coordinator_epoch expected \<times> 'p client" where
  "client_Epoch env c =
     (case exchange env MI_EpochRequest MI_EpochResult [] decode_EpochResult c of
        (result, c) \<Rightarrow>
          (case refuse_status er_status result of Inl e \<Rightarrow> Inl e | Inr m \<Rightarrow> Inr (er_epoch m), c))"

definition send_reconcile ::
  "'p client_env \<Rightarrow> bool \<Rightarrow> route_id \<Rightarrow> 'p client \<Rightarrow> reconcile_result expected \<times> 'p client" where
  "send_reconcile env every route c =
     (case validate_context (cl_context c) of
        Inl e \<Rightarrow> (Inl e, c)
      | Inr _ \<Rightarrow>
          (case exchange env MI_ReconcileRequest MI_ReconcileResult
                  (encode_ReconcileRequest \<lparr>rcq_context = cl_context c, rcq_all = every, rcq_route = route\<rparr>)
                  decode_ReconcileResult c of
             (result, c) \<Rightarrow> (refuse_status rcr_status result, c)))"

definition client_ReconcileAll :: "'p client_env \<Rightarrow> 'p client \<Rightarrow> reconcile_result expected \<times> 'p client" where
  "client_ReconcileAll env = send_reconcile env True 0"

definition client_ReconcileRoute ::
  "'p client_env \<Rightarrow> route_id \<Rightarrow> 'p client \<Rightarrow> reconcile_result expected \<times> 'p client" where
  "client_ReconcileRoute env = send_reconcile env False"

definition client_ApplyCompletion ::
  "'p client_env \<Rightarrow> programming_completion \<Rightarrow> 'p client \<Rightarrow> apply_completion_result expected \<times> 'p client" where
  "client_ApplyCompletion env completion c =
     (case validate_context (cl_context c) of
        Inl e \<Rightarrow> (Inl e, c)
      | Inr _ \<Rightarrow>
          (case exchange env MI_ApplyCompletion MI_ApplyCompletionResult
                  (encode_ApplyCompletionRequest \<lparr>acq_context = cl_context c, acq_completion = completion\<rparr>)
                  decode_ApplyCompletionResult c of
             (result, c) \<Rightarrow> (refuse_status acr_status result, c)))"

definition send_backend_state ::
  "'p client_env \<Rightarrow> bool \<Rightarrow> route_key \<Rightarrow> 'p client \<Rightarrow> backend_state_message expected \<times> 'p client" where
  "send_backend_state env evidence_included key c =
     (if \<not> token_is_valid (cl_backend c) then (Inl SC_NotOpen, c)
      else case exchange env MI_BackendState MI_BackendState
                  (encode_BackendState
                     \<lparr>bs_status = SC_Ok, bs_detail = [], bs_backend = cl_backend c,
                      bs_capabilities = \<lparr>bc_install = False, bc_replace = False, bc_withdraw = False,
                                         bc_query = False, bc_read_only = False\<rparr>,
                      bs_evidence_included = evidence_included, bs_key = key, bs_presence = BP_Unknown,
                      bs_evidence = []\<rparr>)
                  (decode_BackendState (client_limits env)) c of
             (result, c) \<Rightarrow> (refuse_status bs_status result, c))"

definition client_BackendState :: "'p client_env \<Rightarrow> 'p client \<Rightarrow> backend_state_message expected \<times> 'p client" where
  "client_BackendState env = send_backend_state env False route_key_default"

definition client_BackendStateFor ::
  "'p client_env \<Rightarrow> route_key \<Rightarrow> 'p client \<Rightarrow> backend_state_message expected \<times> 'p client" where
  "client_BackendStateFor env = send_backend_state env True"

section \<open>Stream sockets\<close>

text \<open>What the caller is told when the answer is a frame with the identifier \<open>i\<close>.\<close>

definition answered :: "message_id \<Rightarrow> (bytes \<Rightarrow> 'a option) \<Rightarrow> message_id \<Rightarrow> bytes \<Rightarrow> 'a expected" where
  "answered awaited decoder i reply =
     (if i = MI_Error then
        (case decode_ErrorMessage reply of Some message \<Rightarrow> Inl (em_status message) | None \<Rightarrow> Inl SC_ProtocolViolation)
      else if i \<noteq> awaited then Inl SC_ProtocolViolation
      else (case decoder reply of None \<Rightarrow> Inl SC_ProtocolViolation | Some result \<Rightarrow> Inr result))"

text \<open>
  What the client relies on. \<open>deliver data p\<close> is the connection after the peer received
  \<open>data\<close>, \<open>unread p\<close> are the bytes that wait to be read and \<open>consume n p\<close> is the
  connection after \<open>n\<close> of them were read. A call transfers at least one byte and possibly
  fewer than asked for. Deliveries compose as long as the peer \<open>accepts\<close> the bytes.
\<close>

locale stream_socket =
  fixes ops :: "'p socket_ops"
    and accepts :: "bytes \<Rightarrow> 'p \<Rightarrow> bool"
    and deliver :: "bytes \<Rightarrow> 'p \<Rightarrow> 'p"
    and unread :: "'p \<Rightarrow> bytes"
    and consume :: "nat \<Rightarrow> 'p \<Rightarrow> 'p"
  assumes send_part: "data \<noteq> [] \<Longrightarrow>
      \<exists>n. 0 < n \<and> n \<le> length data \<and> sk_send ops data p = (int n, deliver (take n data) p)"
    and accepts_rest: "accepts (xs @ ys) p \<Longrightarrow> accepts ys (deliver xs p)"
    and deliver_append: "accepts (xs @ ys) p \<Longrightarrow> deliver ys (deliver xs p) = deliver (xs @ ys) p"
    and recv_part: "0 < n \<Longrightarrow> unread p \<noteq> [] \<Longrightarrow>
      \<exists>m. 0 < m \<and> m \<le> n \<and> m \<le> length (unread p) \<and> sk_recv ops n p = (Some (take m (unread p)), consume m p)"
    and unread_consume: "unread (consume n p) = drop n (unread p)"
    and consume_consume: "consume m (consume n p) = consume (n + m) p"
    and consume_none: "consume 0 p = p"
begin

lemma send_all_delivers:
  "accepts data p \<Longrightarrow> data \<noteq> [] \<Longrightarrow> send_all ops data p = (True, deliver data p)"
proof (induction "length data" arbitrary: data p rule: less_induct)
  case less
  have "take (2 ^ 20) data \<noteq> []" using less.prems by simp
  then obtain n where n: "0 < n" "n \<le> length (take (2 ^ 20) data)"
    "sk_send ops (take (2 ^ 20) data) p = (int n, deliver (take n (take (2 ^ 20) data)) p)"
    using send_part by blast
  then have bounded: "n \<le> length data" "min (2 ^ 20) n = n" by auto
  have split: "data = take n data @ drop n data" by simp
  show ?case
  proof (cases "drop n data = []")
    case True
    then have "take n data = data" using bounded by simp
    then show ?thesis
      using n bounded less.prems True by (simp add: send_all.simps [of ops data] send_all.simps [of ops "[]"] min.commute)
  next
    case False
    have "accepts (drop n data) (deliver (take n data) p)"
      using less.prems accepts_rest [of "take n data" "drop n data" p] by simp
    then have "send_all ops (drop n data) (deliver (take n data) p) = (True, deliver (drop n data) (deliver (take n data) p))"
      using False n less.prems by (intro less.hyps) auto
    also have "deliver (drop n data) (deliver (take n data) p) = deliver data p"
      using less.prems deliver_append [of "take n data" "drop n data" p] by simp
    finally show ?thesis
      using n bounded less.prems by (simp add: send_all.simps [of ops data] min.commute)
  qed
qed

lemma recv_exact_reads:
  "wanted \<le> length (unread p) \<Longrightarrow> recv_exact ops wanted p = (Some (take wanted (unread p)), consume wanted p)"
proof (induction wanted arbitrary: p rule: less_induct)
  case (less wanted)
  show ?case
  proof (cases "wanted = 0")
    case True
    then show ?thesis by (simp add: recv_exact.simps consume_none)
  next
    case False
    then have pending: "0 < min wanted (2 ^ 20)" "unread p \<noteq> []" using less.prems by auto
    then obtain m where m: "0 < m" "m \<le> min wanted (2 ^ 20)" "m \<le> length (unread p)"
      "sk_recv ops (min wanted (2 ^ 20)) p = (Some (take m (unread p)), consume m p)"
      using recv_part by blast
    have "recv_exact ops (wanted - m) (consume m p) =
        (Some (take (wanted - m) (unread (consume m p))), consume (wanted - m) (consume m p))"
      using m less.prems False by (intro less.IH) (auto simp: unread_consume)
    moreover have "take m (unread p) @ take (wanted - m) (drop m (unread p)) = take wanted (unread p)"
      using m take_add [of m "wanted - m" "unread p"] by simp
    ultimately show ?thesis
      using m False pending(2) by (simp add: recv_exact.simps [of ops wanted] unread_consume consume_consume)
  qed
qed

lemma ReceiveFrame_reads:
  assumes "ce_ops env = ops" and "cl_socket c = Some p" and "frame_fits (client_limits env) payload"
    and "unread p = encode_frame (ce_wire env) i payload @ rest"
  shows "ReceiveFrame env c =
    (Inr \<lparr>df_id = i, df_wire_version = kWireProtocolVersion (ce_wire env), df_payload = payload\<rparr>,
     c\<lparr>cl_socket := Some (consume (16 + length payload) p)\<rparr>)"
proof -
  let ?f = "encode_frame (ce_wire env) i payload"
  have header: "recv_exact ops 16 p = (Some (take 16 ?f), consume 16 p)"
    using recv_exact_reads [of 16 p] assms(4) by simp
  have "frame_header_status (ce_wire env) (client_limits env) (take 16 ?f @ drop 16 ?f) = (FS_Complete, 16 + length payload)"
    using header_of_frame [OF assms(3), of "ce_wire env" i "[]"] by simp
  then have complete: "frame_header_status (ce_wire env) (client_limits env) (take 16 ?f) = (FS_Complete, 16 + length payload)"
    by (subst (asm) header_append) (simp_all add: kFrameHeaderBytes_def)
  have "recv_exact ops (length payload) (consume 16 p) = (Some (drop 16 ?f), consume (16 + length payload) p)"
    using recv_exact_reads [of "length payload" "consume 16 p"] assms(4) by (simp add: unread_consume consume_consume)
  with header complete show ?thesis
    using assms(1,2) decode_frame_encode [OF assms(3), of "ce_wire env" i]
    by (simp add: ReceiveFrame_def kFrameHeaderBytes_def)
qed

lemma exchange_answered:
  assumes "ce_ops env = ops" and "cl_socket c = Some p"
    and "length payload \<le> max_frame_bytes (client_limits env)" and "frame_fits (client_limits env) reply"
    and "accepts (encode_frame (ce_wire env) request payload) p"
    and "unread (deliver (encode_frame (ce_wire env) request payload) p) = encode_frame (ce_wire env) i reply"
  shows "exchange env request awaited payload decoder c =
    (answered awaited decoder i reply,
     c\<lparr>cl_socket := Some (consume (16 + length reply) (deliver (encode_frame (ce_wire env) request payload) p))\<rparr>)"
proof -
  let ?f = "encode_frame (ce_wire env) request payload"
  let ?p = "deliver ?f p"
  have "?f \<noteq> []" using length_encode_frame [of "ce_wire env" request payload] by (metis add_is_0 list.size(3) zero_neq_numeral)
  then have "SendFrame env request payload c = (ok_status, c\<lparr>cl_socket := Some ?p\<rparr>)"
    using send_all_delivers [OF assms(5)] assms(1-3) by (simp add: SendFrame_def)
  moreover have "ReceiveFrame env (c\<lparr>cl_socket := Some ?p\<rparr>) =
      (Inr \<lparr>df_id = i, df_wire_version = kWireProtocolVersion (ce_wire env), df_payload = reply\<rparr>,
       c\<lparr>cl_socket := Some (consume (16 + length reply) ?p)\<rparr>)"
    using ReceiveFrame_reads [of env "c\<lparr>cl_socket := Some ?p\<rparr>" ?p reply i "[]"] assms(1,4,6) by simp
  ultimately show ?thesis
    by (simp add: exchange_def expect_frame_def answered_def ok_status_def split: option.splits)
qed

end

end
