(* ===== verification/RF_Behaviour.thy ===== *)
theory RF_Behaviour
  imports RF_Reachable
begin

text \<open>
  \<^bold>\<open>What the operations answer and change.\<close> Functional facts about single operations that
  do not need the invariants: which answers leave the authoritative state alone, what an
  accepted outcome changes, who is refused, what a path authority change touches.
\<close>

section \<open>Refusals\<close>

lemma commit_dispatch_refused: "commit_dispatch u a rt = (Inl e, rt') \<Longrightarrow> core rt' = core rt"
  by (auto simp: commit_dispatch_def ok_status_def split: sum.splits if_splits prod.splits dest: persist_core)

lemma withdraw_commit_refused: "withdraw_commit reason r advanced rt = (Refused e, rt') \<Longrightarrow> core rt' = core rt"
  by (auto simp: withdraw_commit_def Let_def split: sum.splits prod.splits dest!: commit_dispatch_refused draw_core)

lemma withdraw_refused: "withdraw_begin request rt = (Refused e, rt') \<Longrightarrow> core rt' = core rt"
  by (auto simp: withdraw_begin_def split: sum.splits if_splits prod.splits
      dest!: withdraw_commit_refused prepare_core)

lemma revalidate_commit_refused: "revalidate_commit request r advanced rt = (Refused e, rt') \<Longrightarrow> core rt' = core rt"
  by (auto simp: revalidate_commit_def Let_def split: sum.splits prod.splits
      dest!: commit_dispatch_refused draw_core)

lemma revalidate_refused: "revalidate_begin query violated request rt = (Refused e, rt') \<Longrightarrow> core rt' = core rt"
  by (auto simp: revalidate_begin_def split: sum.splits if_splits prod.splits
      dest!: revalidate_commit_refused prepare_core path_check_core)

lemma retire_refused: "RetireRoute request rt = (Inl e, rt') \<Longrightarrow> core rt' = core rt"
  by (auto simp: RetireRoute_def Let_def split: sum.splits if_splits prod.splits dest!: persist_core prepare_core)

lemma revoke_refused: "RevokeRoute request rt = (Inl e, rt') \<Longrightarrow> core rt' = core rt"
  by (auto simp: RevokeRoute_def Let_def split: option.splits sum.splits if_splits prod.splits dest!: persist_core)

lemma publish_commit_refused: "publish_commit request prior previously r rt = (Refused e, rt') \<Longrightarrow> core rt' = core rt"
  by (auto simp: publish_commit_def Let_def split: sum.splits prod.splits dest!: commit_dispatch_refused draw_core)

lemma publish_new_refused: "publish_new query violated request rt = (Refused e, rt') \<Longrightarrow> core rt' = core rt"
  by (auto simp: publish_new_def split: sum.splits prod.splits dest!: publish_commit_refused path_check_core)

lemma publish_replace_refused:
  "publish_replace query violated request r rt = (Refused e, rt') \<Longrightarrow> core rt' = core rt"
  by (auto simp: publish_replace_def split: sum.splits prod.splits dest!: publish_commit_refused path_check_core)

text \<open>Only the takeover of an ended lineage can change the state and then be refused.\<close>

lemma publish_refused:
  assumes "publish_begin query violated request rt = (Refused e, rt')"
    and "\<And>r. publish_lookup rt (pq_key request) = Some r \<Longrightarrow> \<not> blocks_republication r"
  shows "core rt' = core rt"
proof -
  have scope: "check_scope g k rt = (Inr u, rt1) \<Longrightarrow> rt1 = rt" for g k u rt1 by (rule check_scope_ok)
  show ?thesis
    using assms
    by (auto simp: publish_begin_def split: sum.splits if_splits prod.splits option.splits
        dest!: scope publish_new_refused publish_replace_refused publish_admit_core dest: check_scope_core)
qed

section \<open>Outcomes\<close>

lemma core_tables: "core a = core b \<Longrightarrow> rt_routes a = rt_routes b \<and> rt_attempts a = rt_attempts b"
  by (intro conjI core_eqD(5,11))

lemma resolve_attempt_attempts [simp]:
  "rt_attempts (resolve_attempt a rt) = om_set (at_attempt a) a (rt_attempts rt)"
  by (simp add: resolve_attempt_def Let_def split: option.splits)

lemma bump_tables [simp]: "rt_routes (bump f rt) = rt_routes rt" "rt_attempts (bump f rt) = rt_attempts rt"
  by (simp_all add: bump_def)

lemma completion_applied:
  assumes "apply_completion_locked result rt = (CD_Applied, rt')"
  shows "\<exists>a r l. om_find (rt_attempts rt) (ps_attempt result) = Some a \<and> \<not> at_resolved a \<and>
    om_find (rt_routes rt) (at_route a) = Some r \<and> \<not> completion_stale rt a r \<and>
    next_lifecycle (rr_lifecycle r) (outcome_event a result) = Some l \<and>
    rt_routes rt' = om_set (rr_id r) (completed_record rt a result (outcome_event a result) l r) (rt_routes rt) \<and>
    rt_attempts rt' = om_set (at_attempt a) (a\<lparr>at_resolved := True\<rparr>) (rt_attempts rt)"
  using assms
  unfolding apply_completion_locked_def Let_def outcome_event_def [symmetric]
  by (auto split: option.splits sum.splits if_splits prod.splits
      dest!: persist_core core_tables)

lemma completion_not_applied:
  assumes "apply_completion_locked result rt = (d, rt')" and "d \<noteq> CD_Applied"
  shows "rt_routes rt' = rt_routes rt"
  using assms
  unfolding apply_completion_locked_def Let_def
  by (auto split: option.splits sum.splits if_splits prod.splits dest!: persist_core core_tables)

text \<open>A resolved attempt stays resolved, as long as identifiers of attempts are not drawn twice.\<close>

definition attempt_resolved :: "runtime \<Rightarrow> programming_attempt_id \<Rightarrow> bool" where
  "attempt_resolved rt i \<longleftrightarrow> (\<exists>a. om_find (rt_attempts rt) i = Some a \<and> at_resolved a)"

lemma effect_resolved:
  assumes "effect True rt rt'" and "attempt_resolved rt i"
  shows "attempt_resolved rt' i"
  using assms(1)
proof cases
  case quiet
  show ?thesis using assms(2) core_eqD(11) [OF quiet] by (simp add: attempt_resolved_def)
next
  case (dispatch r a)
  then have "rt_attempts rt' = om_set (at_attempt a) a (rt_attempts rt)"
    using core_eqD(11) [OF dispatch(8)] by (simp add: record_attempt_def Let_def)
  with dispatch assms(2) show ?thesis by (auto simp: attempt_resolved_def)
next
  case (resolve j a)
  then have "rt_attempts rt' = om_set (at_attempt a) (a\<lparr>at_resolved := True\<rparr>) (rt_attempts rt)"
    using core_eqD(11) [OF resolve(3)] by simp
  with assms(2) show ?thesis by (auto simp: attempt_resolved_def)
qed (use assms(2) in \<open>auto simp: attempt_resolved_def dest: core_eqD(11)\<close>)

lemma effects_resolved: "effects True rt rt' \<Longrightarrow> attempt_resolved rt i \<Longrightarrow> attempt_resolved rt' i"
  by (induction rule: rtranclp_induct) (auto dest: effect_resolved)

lemma completion_resolves:
  assumes "apply_completion_locked result rt = (CD_Applied, rt')" and "rt_inv rt"
  shows "attempt_resolved rt' (ps_attempt result)"
proof -
  obtain a where a: "om_find (rt_attempts rt) (ps_attempt result) = Some a"
    and rt': "rt_attempts rt' = om_set (at_attempt a) (a\<lparr>at_resolved := True\<rparr>) (rt_attempts rt)"
    using completion_applied [OF assms(1)] by blast
  have "at_attempt a = ps_attempt result" using assms(2) a by (auto simp: rt_inv_def attempts_inv_def)
  with rt' show ?thesis by (simp add: attempt_resolved_def)
qed

section \<open>Authority\<close>

lemma authorize_fenced: "w \<in> set (rt_fenced_boots rt) \<Longrightarrow> \<exists>e. authorize rt p w = Inl e"
  by (auto simp: authorize_def split: option.splits)

lemma authorize_registered:
  "authorize rt p w = Inr g \<longleftrightarrow>
     \<not> om_contains (rt_administrative_fences rt) p \<and> om_find (rt_registrations rt) p = Some g \<and>
     rg_worker_boot g = w \<and> rg_epoch g = rt_epoch rt \<and> w \<notin> set (rt_fenced_boots rt)"
  by (auto simp: authorize_def split: option.splits)

lemma AdvanceEpoch_fields:
  assumes "AdvanceEpoch rt = (Inr e, rt')"
  shows "rt_epoch rt < e" and "rt_epoch rt' = e" and "rt_registrations rt' = rt_registrations rt"
    and "rt_administrative_fences rt' = rt_administrative_fences rt" and "rt_routes rt' = rt_routes rt"
  using assms
  by (auto simp: AdvanceEpoch_def Let_def split: if_splits sum.splits option.splits prod.splits
      dest: counter_next_less)

section \<open>Path authority changes\<close>

lemma fold_commit_find:
  "distinct (map rr_id us) \<Longrightarrow> om_find (rt_routes (fold commit us rt)) i =
     (case map_of (map (\<lambda>u. (rr_id u, u)) us) i of None \<Rightarrow> om_find (rt_routes rt) i | Some u \<Rightarrow> Some u)"
proof (induction us arbitrary: rt)
  case (Cons u us)
  then have "map_of (map (\<lambda>u. (rr_id u, u)) us) (rr_id u) = None"
    by (auto simp: map_of_eq_None_iff image_iff)
  with Cons show ?case by (auto split: option.splits)
qed simp

text \<open>Which records an accepted invalidation rewrites.\<close>

lemma invalidate_records_members:
  "invalidate_records rt generation state is = Inr us \<Longrightarrow>
   set us = {u. \<exists>i \<in> set is. invalidate_record rt generation state i = Inr (Some u)} \<and>
   (\<forall>i \<in> set is. \<exists>x. invalidate_record rt generation state i = Inr x)"
proof (induction "is" arbitrary: us)
  case (Cons i "is")
  then obtain x vs where "invalidate_record rt generation state i = Inr x"
    and vs: "invalidate_records rt generation state is = Inr vs"
    and "us = (case x of None \<Rightarrow> vs | Some u \<Rightarrow> u # vs)"
    by (auto split: sum.splits)
  with Cons.IH [OF vs] show ?case by (cases x) auto
qed simp

definition outdated :: "path_authority_generation \<Rightarrow> path_authorization \<Rightarrow> route_record \<Rightarrow> bool" where
  "outdated generation state r \<longleftrightarrow> \<not> (state = PA_Usable \<and> generation = rb_path_authority_generation (rr_binding r))"

lemma invalidate_record_untouched:
  assumes "invalidate_record rt generation state i = Inr None" and "om_find (rt_routes rt) i = Some r"
  shows "om_contains (rt_revocations rt) i \<or> \<not> asserts_installability (rr_lifecycle r) \<or> \<not> outdated generation state r"
  using assms
  by (auto simp: invalidate_record_def outdated_def split: if_splits sum.splits prod.splits)

lemma invalidate_record_touched:
  assumes "invalidate_record rt generation state i = Inr (Some u)" and "om_find (rt_routes rt) i = Some r"
  shows "\<not> om_contains (rt_revocations rt) i" and "asserts_installability (rr_lifecycle r)"
    and "outdated generation state r"
  using assms
  by (auto simp: invalidate_record_def outdated_def split: if_splits sum.splits prod.splits)

lemma path_dependents:
  assumes "rt_inv rt" and "fixed_is_valid path"
  shows "i \<in> set (mi_members (rt_path_index rt) path) \<longleftrightarrow>
    (\<exists>r. om_find (rt_routes rt) i = Some r \<and> rb_kind (rr_binding r) = BK_AuthorizedPath \<and>
       rb_path (rr_binding r) = path)"
proof -
  have "i \<in> set (mi_members (rt_path_index rt) path) \<longleftrightarrow> (path, i) \<in> mi_rel (rt_path_index rt)"
    by (simp add: mi_rel_def)
  also have "\<dots> \<longleftrightarrow> (path, i) \<in> attr_graph path_attr (om_find (rt_routes rt))"
    using assms(1) unfolding rt_inv_def index_inv_def indexes_def by blast
  finally show ?thesis using assms(2) by (auto simp: attr_graph_def path_attr_def)
qed

lemma invalidate_path_routes:
  assumes inv: "rt_inv rt" and run: "invalidate_path_locked path generation state rt = (Inr u, rt')"
  shows "\<exists>us. invalidate_records rt generation state (mi_members (rt_path_index rt) path) = Inr us \<and>
    rt_routes rt' = rt_routes (fold commit us rt)"
proof (cases "om_find (rt_path_index rt) path")
  case None
  with run show ?thesis by (auto simp: invalidate_path_locked_def mi_members_def intro!: exI [of _ "[]"])
next
  case (Some deps)
  have same: "rt_routes (fold commit us a) = rt_routes (fold commit us b)" if "core a = core b" for us a b
    using that
  proof (induction us arbitrary: a b)
    case Nil
    then show ?case unfolding fold_simps by (rule core_eqD(5))
  next
    case (Cons v us)
    then show ?case by (simp add: core_commit)
  qed
  show ?thesis
    using run Some
    by (auto simp: invalidate_path_locked_def mi_members_def split: sum.splits if_splits prod.splits
        dest!: persist_core intro!: same)
qed

definition invalidated_by ::
  "path_id \<Rightarrow> path_authority_generation \<Rightarrow> path_authorization \<Rightarrow> runtime \<Rightarrow> route_record \<Rightarrow> bool" where
  "invalidated_by path generation state rt r \<longleftrightarrow>
     rb_kind (rr_binding r) = BK_AuthorizedPath \<and> rb_path (rr_binding r) = path \<and>
     \<not> om_contains (rt_revocations rt) (rr_id r) \<and> asserts_installability (rr_lifecycle r) \<and>
     outdated generation state r"

lemma invalidate_path_precise:
  assumes inv: "rt_inv rt" and valid: "fixed_is_valid path"
    and run: "invalidate_path_locked path generation state rt = (Inr u, rt')"
    and r: "om_find (rt_routes rt) i = Some r"
  shows "if invalidated_by path generation state rt r
    then \<exists>r'. om_find (rt_routes rt') i = Some r' \<and> rr_lifecycle r' = LC_RevalidationRequired \<and>
           rr_generation r < rr_generation r' \<and> rr_binding r' = rr_binding r
    else om_find (rt_routes rt') i = Some r"
proof -
  let ?deps = "mi_members (rt_path_index rt) path"
  obtain us where us: "invalidate_records rt generation state ?deps = Inr us"
    and rt': "rt_routes rt' = rt_routes (fold commit us rt)"
    using invalidate_path_routes [OF inv run] by blast
  have "mi_wf (rt_path_index rt)" using inv unfolding rt_inv_def index_inv_def indexes_def by blast
  then have "distinct ?deps"
    by (auto simp: mi_wf_def mi_members_def os_wf_def split: option.splits intro: sorted_wrt_less_distinct)
  then have d: "distinct (map rr_id us)" using invalidate_records_demote [OF inv us] by blast
  note id = inv_record(1) [OF inv r]
  note find = fold_commit_find [OF d, of rt i] keyed_find [OF d, of i]
  note mem = invalidate_records_members [OF us]
  have dep: "i \<in> set ?deps \<longleftrightarrow> rb_kind (rr_binding r) = BK_AuthorizedPath \<and> rb_path (rr_binding r) = path"
    using path_dependents [OF inv valid, of i] r by auto
  show ?thesis
  proof (cases "\<exists>v \<in> set us. rr_id v = i")
    case True
    then obtain v where v: "v \<in> set us" "rr_id v = i" by blast
    then obtain j where j: "j \<in> set ?deps" "invalidate_record rt generation state j = Inr (Some v)"
      using mem by blast
    then have [simp]: "j = i" using invalidate_record_demotes(1) [OF inv] v(2) by blast
    have "map_of (map (\<lambda>u. (rr_id u, u)) us) i = Some v" using find(2) v by blast
    then have "om_find (rt_routes rt') i = Some v" using find(1) by (simp add: rt')
    moreover have "demotes rt v" using invalidate_records_demote [OF inv us] v(1) by blast
    ultimately show ?thesis
      using invalidate_record_touched [OF _ r, of generation state v] j dep v(2) r id
      by (auto simp: invalidated_by_def demotes_def)
  next
    case False
    then have "map_of (map (\<lambda>u. (rr_id u, u)) us) i = None" by (auto simp: map_of_eq_None_iff)
    then have same: "om_find (rt_routes rt') i = Some r" using find(1) r by (simp add: rt')
    have "\<not> invalidated_by path generation state rt r"
    proof
      assume hit: "invalidated_by path generation state rt r"
      then have "i \<in> set ?deps" using dep by (simp add: invalidated_by_def)
      then obtain x where x: "invalidate_record rt generation state i = Inr x" using mem by blast
      show False
      proof (cases x)
        case None
        with x invalidate_record_untouched [OF _ r, of generation state] hit id show False
          by (auto simp: invalidated_by_def)
      next
        case (Some v)
        with x \<open>i \<in> set ?deps\<close> mem have "v \<in> set us" by blast
        with False x Some invalidate_record_demotes(1) [OF inv] show False by blast
      qed
    qed
    with same show ?thesis by simp
  qed
qed

end
