(* ===== verification/RF_HostBackend.thy ===== *)
theory RF_HostBackend
  imports RF_Behaviour
begin

text \<open>
  \<^bold>\<open>The host routing table.\<close> This theory models \<open>src/real_backend.cpp\<close>, the read-only backend
  over the routing table of the operating system. What the system call returns for an address
  family is a parameter: a status, or rows whose addresses are already the texts that
  \<open>format_address\<close> makes of them (empty when it fails).
\<close>

section \<open>Entries\<close>

record host_route_entry =
  he_destination :: destination
  he_gateway :: string
  he_next_hop :: fixed_id
  he_interface_alias :: string
  he_metric :: u32
  he_on_link :: bool

record host_row =
  hw_prefix :: string
  hw_prefix_length :: u8
  hw_next_hop :: string
  hw_metric :: u32
  hw_interface :: "string option"

datatype address_family = AF_INET | AF_INET6

type_synonym host_table = "address_family \<Rightarrow> u32 + host_row list"

definition render_host_entry :: "host_route_entry \<Rightarrow> string" where
  "render_host_entry entry =
     render_destination (he_destination entry) @ '' -> '' @
     (if he_gateway entry = [] then ''on-link'' else he_gateway entry) @ '' via '' @ he_interface_alias entry @
     '' metric='' @ to_decimal (ucast (he_metric entry))"

definition derive_next_hop_id :: "string \<Rightarrow> fixed_id" where
  "derive_next_hop_id gateway =
     fixed_from_digest (digest128 ''routefabric.host-route.next-hop'' (w_raw_text gateway))"

section \<open>Programming\<close>

record host_backend =
  hb_last_error :: string

definition host_backend_id :: backend_id where
  "host_backend_id = ''windows-host-routing-table''"

definition not_supported :: "route_programming_request \<Rightarrow> backend_id \<Rightarrow> programming_dispatch" where
  "not_supported request backend =
     \<lparr>pd_deferred = False,
      pd_immediate = \<lparr>ps_outcome = PO_NotSupported, ps_attempt = rq_attempt request, ps_backend = backend,
        ps_detail = ''the host routing table adapter is read-only: route programming is not supported''\<rparr>\<rparr>"

definition host_capabilities :: backend_capabilities where
  "host_capabilities =
     \<lparr>bc_install = False, bc_replace = False, bc_withdraw = False, bc_query = True, bc_read_only = True\<rparr>"

definition host_dispatch :: "host_backend \<Rightarrow> route_programming_request \<Rightarrow> programming_dispatch \<times> host_backend" where
  "host_dispatch b request = (not_supported request host_backend_id, b)"

interpretation host: answering_backend host_dispatch
  by unfold_locales (simp add: host_dispatch_def not_supported_def)

section \<open>Enumeration\<close>

definition host_entry :: "address_family \<Rightarrow> host_row \<Rightarrow> host_route_entry option" where
  "host_entry family row =
     (if hw_prefix row = [] then None
      else
        let text = hw_prefix row @ ''/'' @ to_decimal (ucast (hw_prefix_length row))
        in case (if family = AF_INET then parse_ipv4_prefix text else parse_ipv6_prefix text) of
             Inl _ \<Rightarrow> None
           | Inr destination \<Rightarrow>
               let gateway = hw_next_hop row
               in Some \<lparr>he_destination = destination, he_gateway = gateway,
                        he_next_hop = derive_next_hop_id gateway,
                        he_interface_alias = (case hw_interface row of None \<Rightarrow> [] | Some alias \<Rightarrow> alias),
                        he_metric = hw_metric row,
                        he_on_link = (gateway = [] \<or> gateway = ''0.0.0.0'' \<or> gateway = ''::'')\<rparr>)"

text \<open>One turn of the loop over the address families.\<close>

definition enumerate_family ::
  "host_table \<Rightarrow> address_family \<Rightarrow> host_route_entry list \<times> host_backend \<Rightarrow> host_route_entry list \<times> host_backend" where
  "enumerate_family tbl family = (\<lambda>(entries, b).
     case tbl family of
       Inl code \<Rightarrow>
         (entries, b\<lparr>hb_last_error := ''GetIpForwardTable2 failed with status '' @ to_decimal (ucast code)\<rparr>)
     | Inr rows \<Rightarrow> (entries @ List.map_filter (host_entry family) rows, b))"

text \<open>\<open>windows\<close> is the platform switch of the build.\<close>

definition EnumerateHostRoutes :: "bool \<Rightarrow> host_table \<Rightarrow> host_backend \<Rightarrow> host_route_entry list \<times> host_backend" where
  "EnumerateHostRoutes windows tbl b =
     (if windows then
        (case enumerate_family tbl AF_INET6 (enumerate_family tbl AF_INET ([], b)) of
           (entries, b) \<Rightarrow> (entries, if entries \<noteq> [] then b\<lparr>hb_last_error := []\<rparr> else b))
      else ([], b\<lparr>hb_last_error := ''host routing table enumeration is only implemented on Windows''\<rparr>))"

definition host_query :: "bool \<Rightarrow> host_table \<Rightarrow> route_key \<Rightarrow> host_backend \<Rightarrow> backend_query_result \<times> host_backend" where
  "host_query windows tbl key b =
     (let result = \<lparr>bq_presence = BP_Unknown, bq_backend = host_backend_id, bq_observed_generation = 0, bq_detail = []\<rparr>
      in if \<not> is_prefix (rk_destination key) then
           (result\<lparr>bq_detail := ''the host routing table has no representation for endpoint destinations''\<rparr>, b)
         else case EnumerateHostRoutes windows tbl b of (entries, b) \<Rightarrow>
           (case find (\<lambda>entry. he_destination entry = rk_destination key) entries of
              Some entry \<Rightarrow> (result\<lparr>bq_presence := BP_Present, bq_detail := render_host_entry entry\<rparr>, b)
            | None \<Rightarrow>
                if entries = [] \<and> hb_last_error b \<noteq> [] then
                  (result\<lparr>bq_presence := BP_Unavailable, bq_detail := hb_last_error b\<rparr>, b)
                else
                  (result\<lparr>bq_presence := BP_Absent, bq_detail := ''no matching entry in the host routing table''\<rparr>, b)))"

text \<open>The backend as the runtime sees it, at one state of the host's routing table.\<close>

definition host_ops :: "bool \<Rightarrow> host_table \<Rightarrow> host_backend backend_ops" where
  "host_ops windows tbl =
     \<lparr>bo_install = host_dispatch, bo_replace = host_dispatch, bo_withdraw = host_dispatch,
      bo_query = (\<lambda>b key. fst (host_query windows tbl key b))\<rparr>"

section \<open>What it reports\<close>

lemma enumerate_family_entries:
  "fst (enumerate_family tbl family (entries, b)) =
     entries @ (case tbl family of Inl code \<Rightarrow> [] | Inr rows \<Rightarrow> List.map_filter (host_entry family) rows)"
  by (simp add: enumerate_family_def split: sum.splits)

definition host_entries :: "host_table \<Rightarrow> host_route_entry list" where
  "host_entries tbl =
     concat (map (\<lambda>family. case tbl family of Inl code \<Rightarrow> [] | Inr rows \<Rightarrow> List.map_filter (host_entry family) rows)
       [AF_INET, AF_INET6])"

lemma EnumerateHostRoutes_entries: "fst (EnumerateHostRoutes True tbl b) = host_entries tbl"
  by (simp add: EnumerateHostRoutes_def enumerate_family_def host_entries_def split: sum.splits prod.splits)

lemma host_query_present:
  "bq_presence (fst (host_query True tbl key b)) = BP_Present \<longleftrightarrow>
     is_prefix (rk_destination key) \<and> (\<exists>entry \<in> set (host_entries tbl). he_destination entry = rk_destination key)"
proof -
  obtain entries b' where e: "EnumerateHostRoutes True tbl b = (entries, b')" by fastforce
  then have "entries = host_entries tbl" using EnumerateHostRoutes_entries [of tbl b] by simp
  with e show ?thesis
    by (auto simp: host_query_def Let_def find_None_iff split: option.splits dest: find_SomeD)
qed

text \<open>A family that could not be read is taken for empty as soon as the other has an entry.\<close>

lemma host_query_absent:
  "bq_presence (fst (host_query True tbl key b)) = BP_Absent"
  if "is_prefix (rk_destination key)" "host_entries tbl \<noteq> []"
    "\<And>entry. entry \<in> set (host_entries tbl) \<Longrightarrow> he_destination entry \<noteq> rk_destination key"
proof -
  obtain entries b' where e: "EnumerateHostRoutes True tbl b = (entries, b')" by fastforce
  then have "entries = host_entries tbl" using EnumerateHostRoutes_entries [of tbl b] by simp
  moreover have "find (\<lambda>entry. he_destination entry = rk_destination key) (host_entries tbl) = None"
    using that(3) by (auto simp: find_None_iff)
  ultimately show ?thesis using e that(1,2) by (simp add: host_query_def Let_def)
qed

section \<open>Nothing is installed\<close>

lemma not_supported_event:
  "ps_outcome result = PO_NotSupported \<Longrightarrow> outcome_event a result \<in> {EV_BackendNotSupported, EV_WithdrawFailed}"
  by (simp add: outcome_event_def)

definition installs_nothing :: "runtime \<Rightarrow> runtime \<Rightarrow> bool" where
  "installs_nothing rt rt' \<longleftrightarrow>
     (\<forall>i r. om_find (rt_routes rt') i = Some r \<and> rr_lifecycle r = LC_Installed \<longrightarrow> om_find (rt_routes rt) i = Some r)"

lemma installs_nothing_trans: "installs_nothing a b \<Longrightarrow> installs_nothing b c \<Longrightarrow> installs_nothing a c"
  by (auto simp: installs_nothing_def)

lemma installs_nothing_same: "rt_routes rt' = rt_routes rt \<Longrightarrow> installs_nothing rt rt'"
  by (simp add: installs_nothing_def)

lemma installs_nothing_core: "core rt' = core rt \<Longrightarrow> installs_nothing rt rt'"
  by (rule installs_nothing_same) (rule core_eqD(5))

lemma installs_nothing_set:
  "rt_routes rt' = om_set i r (rt_routes rt) \<Longrightarrow> rr_lifecycle r \<noteq> LC_Installed \<Longrightarrow> installs_nothing rt rt'"
  by (auto simp: installs_nothing_def)

lemma not_supported_installs_nothing:
  assumes "apply_completion_locked result rt = (d, rt')" and "ps_outcome result = PO_NotSupported"
  shows "installs_nothing rt rt'"
proof (cases "d = CD_Applied")
  case False
  then show ?thesis using completion_not_applied [OF assms(1)] by (auto intro: installs_nothing_same)
next
  case True
  then obtain a u l where l: "next_lifecycle (rr_lifecycle u) (outcome_event a result) = Some l"
    and rt': "rt_routes rt' = om_set (rr_id u) (completed_record rt a result (outcome_event a result) l u) (rt_routes rt)"
    using completion_applied assms(1) by blast
  have "l \<noteq> LC_Installed"
    using l not_supported_event [OF assms(2), of a] by (auto simp: next_lifecycle_iff kTransitions_def)
  moreover have "rr_lifecycle (completed_record rt a result (outcome_event a result) l u) = l"
    by (simp add: completed_record_def push_history_def Let_def)
  ultimately show ?thesis using installs_nothing_set [OF rt'] by simp
qed

lemma host_dispatch_to: "dispatch_to (host_ops windows tbl) b request = (not_supported request host_backend_id, b)"
  by (simp add: dispatch_to_def host_ops_def host_dispatch_def split: programming_operation.splits)

lemma host_run_dispatch: "run_dispatch (host_ops windows tbl) p b rt = (d, b', rt') \<Longrightarrow> installs_nothing rt rt'"
  by (auto simp: run_dispatch_def host_dispatch_to not_supported_def Let_def split: option.splits prod.splits
      intro: not_supported_installs_nothing installs_nothing_same)

text \<open>The locked section of a publication installs nothing by itself.\<close>

lemma commit_dispatch_installs:
  assumes "commit_dispatch r a rt = (x, rt')" and "rr_lifecycle r \<noteq> LC_Installed"
  shows "installs_nothing rt rt'"
proof (cases x)
  case (Inl e)
  then show ?thesis using assms(1) commit_dispatch_refused installs_nothing_core by blast
next
  case (Inr u)
  then obtain rt1 where rt1: "core rt1 = core rt"
    and rt': "rt' = bump ct_programming_dispatches_update (record_attempt a (commit r rt1))"
    using assms(1) by (auto simp: commit_dispatch_def split: sum.splits if_splits prod.splits dest: persist_core)
  have "rt_routes rt' = om_set (rr_id r) r (rt_routes rt)"
    using core_eqD(5) [OF rt1] by (simp add: rt' bump_def record_attempt_def Let_def)
  then show ?thesis using assms(2) by (rule installs_nothing_set)
qed

lemma begin_install_lifecycle: "apply_event s EV_BeginInstall = (Inr u, l) \<Longrightarrow> l \<noteq> LC_Installed"
  by (cases s) (auto simp: apply_event_def table_simps ok_status_def)

lemma publish_commit_installs:
  assumes "publish_commit request prior previously r rt = (x, rt')"
  shows "installs_nothing rt rt'"
proof (cases "apply_event (rr_lifecycle r) EV_BeginInstall")
  case event: (Pair outcome l)
  show ?thesis
  proof (cases "outcome = Inr () \<and> (\<exists>g. advance_programming r = Inr g)")
    case False
    then show ?thesis using assms event
      by (auto simp: publish_commit_def split: sum.splits intro: installs_nothing_same)
  next
    case True
    then obtain g where g: "outcome = Inr ()" "advance_programming r = Inr g" by blast
    obtain i rt1 where draw: "draw_attempt_id rt = (i, rt1)" by fastforce
    define u where "u = published_record rt1 request prior l g i r"
    have "rr_lifecycle u \<noteq> LC_Installed"
      using begin_install_lifecycle [of "rr_lifecycle r" "()" l] event g(1)
      by (simp add: u_def published_record_def push_history_def Let_def)
    moreover obtain y rt2 where y: "commit_dispatch u (make_attempt rt1 i u (if prior \<noteq> None then OP_Replace else OP_Install)) rt1 = (y, rt2)"
      by fastforce
    ultimately have "installs_nothing rt1 rt2" by (intro commit_dispatch_installs)
    moreover have "rt_routes rt' = rt_routes rt2"
      using assms event g draw y
      by (auto simp: publish_commit_def Let_def u_def bump_def split: sum.splits prod.splits if_splits)
    ultimately have "installs_nothing rt1 rt'" by (simp add: installs_nothing_def)
    with installs_nothing_core [OF draw_core [OF draw]] show ?thesis by (rule installs_nothing_trans)
  qed
qed

lemma publish_new_installs: "publish_new query violated request rt = (x, rt') \<Longrightarrow> installs_nothing rt rt'"
  by (auto simp: publish_new_def split: sum.splits prod.splits dest!: publish_commit_installs path_check_core
      intro: installs_nothing_same installs_nothing_core installs_nothing_trans)

lemma publish_replace_installs: "publish_replace query violated request r rt = (x, rt') \<Longrightarrow> installs_nothing rt rt'"
  by (auto simp: publish_replace_def split: sum.splits prod.splits dest!: publish_commit_installs path_check_core
      intro: installs_nothing_same installs_nothing_core installs_nothing_trans)

lemma publish_supersede_installs:
  assumes "publish_supersede request g r rt = (x, rt')"
  shows "installs_nothing rt rt'"
proof (cases x)
  case (Inl e)
  then show ?thesis using assms publish_supersede_refused installs_nothing_core by blast
next
  case (Inr u)
  then obtain generation authority rt1 where rt1: "core rt1 = core rt"
    and rt': "rt' = bump ct_supersessions_update (commit (superseded_record rt request generation authority r) rt1)"
    using assms by (auto simp: publish_supersede_def Let_def split: sum.splits if_splits prod.splits dest: persist_core)
  have "rt_routes rt' = om_set (rr_id (superseded_record rt request generation authority r))
      (superseded_record rt request generation authority r) (rt_routes rt)"
    using core_eqD(5) [OF rt1] by (simp add: rt' bump_def)
  then show ?thesis by (rule installs_nothing_set) (simp add: superseded_record_def push_history_def Let_def)
qed

lemma publish_begin_installs: "publish_begin query violated request rt = (x, rt') \<Longrightarrow> installs_nothing rt rt'"
  by (auto simp: publish_begin_def split: sum.splits prod.splits if_splits option.splits
      dest!: publish_new_installs publish_replace_installs publish_supersede_installs
        publish_admit_core [THEN installs_nothing_core] check_scope_core [THEN installs_nothing_core]
      intro: installs_nothing_same installs_nothing_trans)

lemma host_publish_installs_nothing:
  assumes "publish_one (host_ops windows tbl) query violated request b rt = (x, b', rt')"
  shows "installs_nothing rt rt'"
  using assms
  by (auto simp: publish_one_def Let_def split: locked_answer.splits prod.splits
      dest!: publish_begin_installs host_run_dispatch intro: installs_nothing_trans)

lemma host_publish_backend:
  "publish_one (host_ops windows tbl) query violated request b rt = (x, b', rt') \<Longrightarrow> b' = b"
  by (auto simp: publish_one_def run_dispatch_def host_dispatch_to not_supported_def Let_def
      split: locked_answer.splits prod.splits option.splits)

end
