(* ===== verification/RF_Tools.thy ===== *)
theory RF_Tools
  imports RF_PathsFile RF_Client RF_Queries RF_HostBackend
begin

text \<open>
  \<^bold>\<open>The parts of the command-line tools.\<close> Options, the route key and binding a user asks for,
  and what is printed, from \<open>tools/rf_cli.cpp\<close> and \<open>tools/tools_common.hpp\<close>. The text an
  \<open>Error\<close> carries beside its code is not modelled: \<open>Detailed line code\<close> is the printed line
  followed by that text.
\<close>

section \<open>Output\<close>

datatype printed =
    Line string
  | Detailed string status_code
  | Usage

text \<open>
  How a process ends: with an exit code, with the uncaught exception of \<open>Expected::value\<close> on an
  error, or not at all.
\<close>

datatype process_end =
    Exit nat
  | Uncaught
  | Endless

type_synonym answer = "printed list \<times> process_end"

definition print_error :: "status_code \<Rightarrow> printed" where
  "print_error code = Detailed (''error '' @ status_code_to_string code @ '': '') code"

definition size_text :: "nat \<Rightarrow> string" where
  "size_text n = to_decimal (of_nat n)"

section \<open>Options\<close>

record cli_options =
  co_store :: string
  co_durability :: string
  co_fabric :: string
  co_publisher :: string
  co_namespace :: string
  co_class :: string
  co_host :: string
  co_paths_file :: string
  co_seed :: string
  co_path :: string
  co_path_generation :: string
  co_next_hop :: string
  co_expected_generation :: string
  co_reason :: string
  co_port :: u16
  co_administrative :: bool

definition cli_defaults :: cli_options where
  "cli_defaults =
     \<lparr>co_store = [], co_durability = ''none'', co_fabric = ''fabric'', co_publisher = ''cli-admin'',
      co_namespace = ''default'', co_class = ''unicast'', co_host = ''127.0.0.1'', co_paths_file = [],
      co_seed = [], co_path = [], co_path_generation = [], co_next_hop = [], co_expected_generation = [],
      co_reason = ''operator action'', co_port = 0, co_administrative = False\<rparr>"

definition parse_port :: "string \<Rightarrow> u16 option" where
  "parse_port text = map_option ucast (parse_u64_decimal text 65535)"

definition set_option :: "string \<Rightarrow> string \<Rightarrow> cli_options \<Rightarrow> printed + cli_options" where
  "set_option name given opts =
     (if name = ''--store'' then Inr (opts\<lparr>co_store := given\<rparr>)
      else if name = ''--durability'' then Inr (opts\<lparr>co_durability := given\<rparr>)
      else if name = ''--fabric'' then Inr (opts\<lparr>co_fabric := given\<rparr>)
      else if name = ''--publisher'' then Inr (opts\<lparr>co_publisher := given\<rparr>)
      else if name = ''--namespace'' then Inr (opts\<lparr>co_namespace := given\<rparr>)
      else if name = ''--class'' then Inr (opts\<lparr>co_class := given\<rparr>)
      else if name = ''--host'' then Inr (opts\<lparr>co_host := given\<rparr>)
      else if name = ''--path'' then Inr (opts\<lparr>co_path := given\<rparr>)
      else if name = ''--path-generation'' then Inr (opts\<lparr>co_path_generation := given\<rparr>)
      else if name = ''--next-hop'' then Inr (opts\<lparr>co_next_hop := given\<rparr>)
      else if name = ''--expected-generation'' then Inr (opts\<lparr>co_expected_generation := given\<rparr>)
      else if name = ''--paths'' then Inr (opts\<lparr>co_paths_file := given\<rparr>)
      else if name = ''--seed'' then Inr (opts\<lparr>co_seed := given\<rparr>)
      else if name = ''--reason'' then Inr (opts\<lparr>co_reason := given\<rparr>)
      else if name = ''--port'' then
        (case parse_port given of
           None \<Rightarrow> Inl (Line ''error: --port must be a decimal port number'')
         | Some port \<Rightarrow> Inr (opts\<lparr>co_port := port\<rparr>))
      else Inl (Line (''error: unknown option '' @ name)))"

text \<open>The remaining arguments and the options, or what is printed before the failure.\<close>

fun parse_options :: "string list \<Rightarrow> cli_options \<Rightarrow> printed + string list \<times> cli_options" where
  "parse_options [] opts = Inr ([], opts)"
| "parse_options (argument # arguments) opts =
     (if argument = ''--help'' \<or> argument = ''-h'' then Inl Usage
      else if argument = ''--administrative'' then parse_options arguments (opts\<lparr>co_administrative := True\<rparr>)
      else if argument = ''--version'' then
        map_sum id (\<lambda>(remaining, opts). (''version'' # remaining, opts)) (parse_options arguments opts)
      else if take 2 argument \<noteq> ''--'' then
        map_sum id (\<lambda>(remaining, opts). (argument # remaining, opts)) (parse_options arguments opts)
      else case arguments of
             [] \<Rightarrow> Inl (Line (''error: missing value for '' @ argument))
           | given # arguments \<Rightarrow>
               (case set_option argument given opts of
                  Inl message \<Rightarrow> Inl message
                | Inr opts \<Rightarrow> parse_options arguments opts))"

section \<open>Keys and bindings\<close>

definition build_key :: "cli_options \<Rightarrow> string \<Rightarrow> route_key expected" where
  "build_key opts destination_text =
     (case token_parse (co_fabric opts) of
        Inl e \<Rightarrow> Inl e
      | Inr fabric \<Rightarrow>
          (case token_parse (co_namespace opts) of
             Inl e \<Rightarrow> Inl e
           | Inr routing_namespace \<Rightarrow>
               (case parse_destination destination_text 128 of
                  Inl e \<Rightarrow> Inl e
                | Inr destination \<Rightarrow>
                    (case parse_route_class (co_class opts) of
                       None \<Rightarrow> Inl SC_InvalidArgument
                     | Some route_class \<Rightarrow>
                         let key = \<lparr>rk_fabric = fabric, rk_routing_namespace = routing_namespace,
                                    rk_destination = destination, rk_route_class = route_class\<rparr>
                         in if \<not> route_key_is_valid key then Inl SC_InvalidArgument else Inr key))))"

definition path_binding :: "path_id \<Rightarrow> path_authority_generation \<Rightarrow> route_binding" where
  "path_binding path generation =
     \<lparr>rb_kind = BK_AuthorizedPath,
      rb_next_hop = \<lparr>nh_kind = NH_DirectEndpoint, nh_next_hop = 0, nh_next_hop_group = 0, nh_entity_generation = 1\<rparr>,
      rb_path = path, rb_path_authority_generation = generation, rb_policy_generation = 1\<rparr>"

definition next_hop_to :: "next_hop_id \<Rightarrow> route_binding" where
  "next_hop_to next_hop =
     \<lparr>rb_kind = BK_NextHop,
      rb_next_hop = \<lparr>nh_kind = NH_DirectEndpoint, nh_next_hop = next_hop, nh_next_hop_group = 0, nh_entity_generation = 1\<rparr>,
      rb_path = 0, rb_path_authority_generation = 0, rb_policy_generation = 1\<rparr>"

text \<open>\<open>Inl\<close> is what is printed when the failure text is not empty.\<close>

definition build_binding :: "cli_options \<Rightarrow> path_line list \<Rightarrow> printed + route_binding" where
  "build_binding opts paths =
     (if co_path opts \<noteq> [] then
        (case fixed_parse (co_path opts) of
           Inl e \<Rightarrow> Inl (Detailed ''error: '' e)
         | Inr path \<Rightarrow>
             if co_path_generation opts \<noteq> [] then
               (case counter_parse (co_path_generation opts) of
                  Inl e \<Rightarrow> Inl (Detailed ''error: '' e)
                | Inr generation \<Rightarrow> Inr (path_binding path generation))
             else
               (case find_path paths path of
                  None \<Rightarrow> Inl (Line ''error: the path is unknown to the path authority file; supply --path-generation'')
                | Some entry \<Rightarrow> Inr (path_binding path (pl_generation entry))))
      else if co_next_hop opts \<noteq> [] then
        (case fixed_parse (co_next_hop opts) of
           Inl e \<Rightarrow> Inl (Detailed ''error: '' e)
         | Inr next_hop \<Rightarrow> Inr (next_hop_to next_hop))
      else Inr (next_hop_to (fixed_from_digest (digest128 ''routefabric.cli.next-hop'' (w_raw_text ''default'')))))"

definition parse_expected_generation :: "cli_options \<Rightarrow> route_generation expected" where
  "parse_expected_generation opts =
     (if co_expected_generation opts = [] then Inr 0 else counter_parse (co_expected_generation opts))"

definition wildcard_scope :: "fabric_id \<Rightarrow> bool \<Rightarrow> publisher_scope" where
  "wildcard_scope fabric administrative =
     \<lparr>sp_fabric = fabric, sp_namespaces = [], sp_destinations = [], sp_route_classes = [],
      sp_wildcard_namespaces = True, sp_wildcard_destinations = True, sp_wildcard_route_classes = True,
      sp_administrative_override = administrative\<rparr>"

section \<open>What commands print\<close>

definition publish_lines ::
  "route_id \<Rightarrow> route_generation \<Rightarrow> route_lifecycle \<Rightarrow> applied_classification \<Rightarrow> route_currentness \<Rightarrow> printed list" where
  "publish_lines route generation lifecycle applied currentness =
     [Line (''route-id '' @ fixed_render route), Line (''generation '' @ to_decimal generation),
      Line (''lifecycle '' @ lifecycle_to_string lifecycle),
      Line (''applied '' @ applied_classification_to_string applied),
      Line (''currentness '' @ currentness_to_string currentness)]"

definition mutation_lines ::
  "route_id \<Rightarrow> route_generation \<Rightarrow> route_lifecycle \<Rightarrow> applied_classification \<Rightarrow> printed list" where
  "mutation_lines route generation lifecycle applied =
     [Line (''route-id '' @ fixed_render route), Line (''generation '' @ to_decimal generation),
      Line (''lifecycle '' @ lifecycle_to_string lifecycle),
      Line (''applied '' @ applied_classification_to_string applied)]"

definition summary_lines :: "reconciliation_summary \<Rightarrow> printed list" where
  "summary_lines s =
     [Line (''checked '' @ size_text (sm_checked s)), Line (''matched '' @ size_text (sm_matched s)),
      Line (''missing '' @ size_text (sm_missing s)), Line (''diverged '' @ size_text (sm_diverged s)),
      Line (''extra '' @ size_text (sm_extra s)), Line (''unavailable '' @ size_text (sm_unavailable s))]"

definition snapshot_lines ::
  "coordinator_epoch \<Rightarrow> route_snapshot_id \<Rightarrow> digest128 \<Rightarrow> route_snapshot list \<Rightarrow> printed list" where
  "snapshot_lines epoch i digest routes =
     [Line (''epoch '' @ to_decimal epoch), Line (''route-count '' @ size_text (length routes)),
      Line (''snapshot-id '' @ fixed_render i), Line (''digest '' @ fixed_render digest)] @
     map (\<lambda>route. Line (''  '' @ render_compact route)) routes"

definition render_persisted_record :: "route_record \<Rightarrow> string" where
  "render_persisted_record r =
     fixed_render (rr_id r) @ '' key='' @ render_route_key (rr_key r) @
     '' generation='' @ to_decimal (rr_generation r) @
     '' authority-generation='' @ to_decimal (rr_authority_generation r) @
     '' lifecycle='' @ lifecycle_to_string (rr_lifecycle r) @
     '' applied='' @ applied_classification_to_string (ap_classification (rr_applied r)) @
     '' binding='' @ render_route_binding (rr_binding r) @
     '' publisher='' @ pv_publisher (rr_provenance r) @
     '' epoch='' @ to_decimal (pv_epoch (rr_provenance r))"

definition render_counters :: "route_counters \<Rightarrow> string" where
  "render_counters c =
     ''publications '' @ to_decimal (ct_publications c) @ newline @
     ''replacements '' @ to_decimal (ct_replacements c) @ newline @
     ''idempotent-publications '' @ to_decimal (ct_idempotent_publications c) @ newline @
     ''withdrawals '' @ to_decimal (ct_withdrawals c) @ newline @
     ''revalidations '' @ to_decimal (ct_revalidations c) @ newline @
     ''retirements '' @ to_decimal (ct_retirements c) @ newline @
     ''revocations '' @ to_decimal (ct_revocations c) @ newline @
     ''supersessions '' @ to_decimal (ct_supersessions c) @ newline @
     ''programming-dispatches '' @ to_decimal (ct_programming_dispatches c) @ newline @
     ''programming-deferred '' @ to_decimal (ct_programming_deferred c) @ newline @
     ''programming-applied '' @ to_decimal (ct_programming_applied c) @ newline @
     ''programming-ambiguous '' @ to_decimal (ct_programming_ambiguous c) @ newline @
     ''stale-completions-rejected '' @ to_decimal (ct_stale_completions_rejected c) @ newline @
     ''stale-authority-rejections '' @ to_decimal (ct_stale_authority_rejections c) @ newline @
     ''scope-violations '' @ to_decimal (ct_scope_violations c) @ newline @
     ''path-authority-rejections '' @ to_decimal (ct_path_authority_rejections c) @ newline @
     ''conflicts '' @ to_decimal (ct_conflicts c) @ newline @
     ''reconciliations '' @ to_decimal (ct_reconciliations c)"

definition yes_no :: "bool \<Rightarrow> string" where
  "yes_no b = (if b then ''yes'' else ''no'')"

definition describe_backend :: "backend_id \<Rightarrow> backend_capabilities \<Rightarrow> string" where
  "describe_backend i capabilities =
     ''backend '' @ i @ newline @
     ''class '' @ (if bc_read_only capabilities then ''REAL read-only'' else ''SYNTHETIC'') @ newline @
     ''install '' @ yes_no (bc_install capabilities) @ newline @
     ''replace '' @ yes_no (bc_replace capabilities) @ newline @
     ''withdraw '' @ yes_no (bc_withdraw capabilities) @ newline @
     ''query '' @ yes_no (bc_query capabilities)"

section \<open>Keys that are built\<close>

text \<open>Every key a user can ask for is valid, canonical, and of the fabric that was given.\<close>

lemma token_parse_iff: "token_parse t = Inr v \<longleftrightarrow> v = t \<and> token_is_valid t"
  by (auto simp: token_parse_def token_is_valid_def)

lemma build_key_valid:
  assumes "build_key opts destination_text = Inr key"
  shows "route_key_is_valid key \<and> rk_fabric key = co_fabric opts \<and> rk_routing_namespace key = co_namespace opts \<and>
    parse_destination destination_text 128 = Inr (rk_destination key)"
  using assms
  by (auto simp: build_key_def Let_def token_parse_iff split: sum.splits option.splits if_splits)

text \<open>The first lane of a digest is enough to see that it is not zero.\<close>

definition first_lane :: "string \<Rightarrow> bytes \<Rightarrow> u64" where
  "first_lane domain data =
     mix64 (fnv1a64_update (fnv1a64_update_byte (fnv1a64_update kFnvBasis (map byte_of_char domain)) 0) data XOR
            mix64 (of_nat (length data)))"

lemma digest_nonzero: "first_lane domain data \<noteq> 0 \<Longrightarrow> digest128 domain data \<noteq> 0"
  by (simp add: digest128_def Let_def from_u64_pair_zero first_lane_def)

lemma default_next_hop_valid: "digest128 ''routefabric.cli.next-hop'' (w_raw_text ''default'') \<noteq> 0"
proof (rule digest_nonzero)
  show "first_lane ''routefabric.cli.next-hop'' (w_raw_text ''default'') \<noteq> 0" by code_simp
qed

text \<open>Every binding that is built is valid, when the generations in the path file are.\<close>

lemma find_path_in: "find_path entries path = Some entry \<Longrightarrow> entry \<in> set entries \<and> pl_path entry = path"
  by (induction entries) (auto split: if_splits)

lemma build_binding_valid:
  assumes "build_binding opts paths = Inr binding" and "list_all path_line_wf paths"
  shows "route_binding_is_valid binding"
proof (cases "co_path opts = []")
  case True
  then show ?thesis
    using assms(1) default_next_hop_valid
    by (auto simp: build_binding_def next_hop_to_def route_binding_is_valid_def next_hop_binding_is_valid_def
        counter_is_valid_def dest: fixed_text.parse_wf split: sum.splits if_splits)
next
  case False
  then obtain path generation where "fixed_parse (co_path opts) = Inr path" "binding = path_binding path generation"
    "counter_wire_valid generation"
    using assms by (auto simp: build_binding_def list_all_iff path_line_wf_def counter_parse_iff
        dest!: find_path_in split: sum.splits option.splits if_splits)
  then show ?thesis
    using fixed_text.parse_wf
    by (auto simp: path_binding_def route_binding_is_valid_def counter_is_valid_def counter_wire_valid_def)
qed

end
