(* ===== verification/RF_Cli.thy ===== *)
theory RF_Cli
  imports RF_Tools RF_Control RF_Operations RF_Recovery
begin

text \<open>
  \<^bold>\<open>The operator's command line.\<close> This theory models \<open>main\<close> of \<open>tools/rf_cli.cpp\<close>: the
  store, path, backend and route commands, the last against a local runtime (direct mode) or
  against a coordinator (wire mode). The world outside is a record: the sockets, the
  platform, and the files.
\<close>

section \<open>The world\<close>

record 'p tool_env =
  te_version :: string
  te_wire :: wire_constants
  te_sockets :: "'p socket_ops"
  te_system_seed :: u64
  te_windows :: bool
  te_host_table :: host_table

text \<open>
  Text files by name, what a write to a text file meets (\<open>None\<close> when the file cannot be opened,
  otherwise how many characters reach it), and the two files of a store by its base path.
\<close>

record files =
  fs_texts :: "string \<Rightarrow> string option"
  fs_write :: "string \<Rightarrow> nat option"
  fs_stores :: "string \<Rightarrow> route_store"

definition save_paths :: "string \<Rightarrow> path_line list \<Rightarrow> files \<Rightarrow> bool \<times> files" where
  "save_paths file entries fs =
     (case fs_write fs file of
        None \<Rightarrow> (False, fs)
      | Some n \<Rightarrow>
          (length (paths_text entries) \<le> n,
           fs\<lparr>fs_texts := (fs_texts fs)(file := Some (take n (paths_text entries)))\<rparr>))"

text \<open>A \<open>RouteStore\<close> object on the files at a path, and its files after the calls.\<close>

definition snapshot_store :: "string \<Rightarrow> files \<Rightarrow> route_store" where
  "snapshot_store path fs =
     (route_store default_limits DU_Snapshot)
       \<lparr>rs_snapshot := rs_snapshot (fs_stores fs path), rs_journal := rs_journal (fs_stores fs path),
        rs_io := rs_io (fs_stores fs path)\<rparr>"

definition put_store :: "string \<Rightarrow> route_store \<Rightarrow> files \<Rightarrow> files" where
  "put_store path store fs = fs\<lparr>fs_stores := (fs_stores fs)(path := store)\<rparr>"

section \<open>Store commands\<close>

definition store_inspect :: "string \<Rightarrow> files \<Rightarrow> answer \<times> files" where
  "store_inspect path fs =
     (if \<not> store_exists (snapshot_store path fs) then (([Line (''error: no store at '' @ path)], Exit 1), fs)
      else case Load (snapshot_store path fs) of
        (Inl e, store) \<Rightarrow> (([print_error e], Exit 1), put_store path store fs)
      | (Inr state, store) \<Rightarrow>
          (([Line (''store '' @ path), Line (''format-version '' @ to_decimal (ucast kPersistenceFormatVersion)),
             Line ''integrity ok'', Line (''epoch '' @ to_decimal (pst_epoch state)),
             Line (''policy-generation '' @ to_decimal (pst_policy_generation state)),
             Line (''routes '' @ size_text (length (pst_routes state))),
             Line (''revocations '' @ size_text (length (pst_revocations state))),
             Line (''programming-attempts '' @ size_text (length (pst_attempts state))),
             Line (''digest '' @ fixed_render (persisted_digest state))] @
            map (\<lambda>r. Line (''  '' @ render_persisted_record r)) (pst_routes state), Exit 0),
           put_store path store fs))"

definition presence_text :: "'a option \<Rightarrow> string" where
  "presence_text r = (if r = None then ''absent'' else ''present'')"

definition change_line :: "string \<Rightarrow> bool \<Rightarrow> string \<Rightarrow> string \<Rightarrow> printed list" where
  "change_line label same before after = (if same then [] else [Line (label @ before @ '' -> '' @ after)])"

definition record_changes :: "route_record \<Rightarrow> route_record \<Rightarrow> printed list" where
  "record_changes l r =
     change_line ''  generation '' (rr_generation l = rr_generation r)
       (to_decimal (rr_generation l)) (to_decimal (rr_generation r)) @
     change_line ''  authority-generation '' (rr_authority_generation l = rr_authority_generation r)
       (to_decimal (rr_authority_generation l)) (to_decimal (rr_authority_generation r)) @
     change_line ''  lifecycle '' (rr_lifecycle l = rr_lifecycle r)
       (lifecycle_to_string (rr_lifecycle l)) (lifecycle_to_string (rr_lifecycle r)) @
     change_line ''  binding '' (rr_binding l = rr_binding r)
       (render_route_binding (rr_binding l)) (render_route_binding (rr_binding r)) @
     change_line ''  applied '' (ap_classification (rr_applied l) = ap_classification (rr_applied r))
       (applied_classification_to_string (ap_classification (rr_applied l)))
       (applied_classification_to_string (ap_classification (rr_applied r))) @
     change_line ''  epoch '' (pv_epoch (rr_provenance l) = pv_epoch (rr_provenance r))
       (to_decimal (pv_epoch (rr_provenance l))) (to_decimal (pv_epoch (rr_provenance r))) @
     change_line ''  publisher '' (pv_publisher (rr_provenance l) = pv_publisher (rr_provenance r))
       (pv_publisher (rr_provenance l)) (pv_publisher (rr_provenance r))"

text \<open>What is printed for one identity; nothing is printed exactly when it is not a difference.\<close>

definition route_difference :: "route_record option \<Rightarrow> route_record option \<Rightarrow> route_id \<Rightarrow> printed list" where
  "route_difference l r i =
     (case (l, r) of
        (Some l, Some r) \<Rightarrow>
          if semantic_digest l = semantic_digest r then []
          else Line (''route '' @ fixed_render i) # record_changes l r
      | _ \<Rightarrow> [Line (''route '' @ fixed_render i @ '' presence '' @ presence_text l @ '' -> '' @ presence_text r)])"

definition selected :: "string \<Rightarrow> route_id \<Rightarrow> bool" where
  "selected route_filter i \<longleftrightarrow> route_filter = [] \<or> fixed_parse route_filter = Inr i"

definition state_differences :: "persisted_state \<Rightarrow> persisted_state \<Rightarrow> string \<Rightarrow> printed list list" where
  "state_differences x y route_filter =
     (let a = fill rr_id (pst_routes x) [];
          b = fill rr_id (pst_routes y) [];
          ids = fold os_insert (om_keys b) (fold os_insert (om_keys a) [])
      in filter (\<lambda>lines. lines \<noteq> [])
           (map (\<lambda>i. route_difference (om_find a i) (om_find b i) i) (filter (selected route_filter) ids)))"

definition store_diff :: "string \<Rightarrow> string \<Rightarrow> string \<Rightarrow> files \<Rightarrow> answer \<times> files" where
  "store_diff path_a path_b route_filter fs =
     (case Load (snapshot_store path_a fs) of
        (Inl e, store) \<Rightarrow> (([print_error e], Exit 1), put_store path_a store fs)
      | (Inr x, store) \<Rightarrow>
          let fs = put_store path_a store fs
          in case Load (snapshot_store path_b fs) of
               (Inl e, store) \<Rightarrow> (([print_error e], Exit 1), put_store path_b store fs)
             | (Inr y, store) \<Rightarrow>
                 let differences = state_differences x y route_filter
                 in (([Line (''epoch-a '' @ to_decimal (pst_epoch x) @ '' epoch-b '' @ to_decimal (pst_epoch y))] @
                      concat differences @ [Line (''differences '' @ size_text (length differences))], Exit 0),
                     put_store path_b store fs))"

definition store_command :: "string \<Rightarrow> string list \<Rightarrow> files \<Rightarrow> answer \<times> files" where
  "store_command command rest fs =
     (if command = ''inspect'' then
        (case rest of
           [] \<Rightarrow> (([Line ''error: store inspect requires a store path''], Exit 2), fs)
         | path # _ \<Rightarrow> store_inspect path fs)
      else if command = ''diff'' then
        (case rest of
           path_a # path_b # extra \<Rightarrow> store_diff path_a path_b (case extra of [] \<Rightarrow> [] | i # _ \<Rightarrow> i) fs
         | _ \<Rightarrow> (([Line ''error: store diff requires two store paths''], Exit 2), fs))
      else (([Usage], Exit 2), fs))"

section \<open>Path commands\<close>

definition path_entry_line :: "path_line \<Rightarrow> printed" where
  "path_entry_line entry =
     Line (''path '' @ fixed_render (pl_path entry) @ '' generation '' @ to_decimal (pl_generation entry) @
           '' state '' @ path_authorization_to_string (pl_state entry))"

text \<open>Save the changed entries and print the changed one.\<close>

definition save_and_print :: "string \<Rightarrow> path_line list \<Rightarrow> path_line \<Rightarrow> files \<Rightarrow> answer \<times> files" where
  "save_and_print file entries entry fs =
     (case save_paths file entries fs of
        (False, fs) \<Rightarrow> (([Line ''error: cannot write the path authority file''], Exit 1), fs)
      | (True, fs) \<Rightarrow> (([path_entry_line entry], Exit 0), fs))"

definition path_add :: "string \<Rightarrow> path_line list \<Rightarrow> string list \<Rightarrow> files \<Rightarrow> answer \<times> files" where
  "path_add file entries rest fs =
     (case rest of
        path_text # generation_text # state_text # _ \<Rightarrow>
          (case (fixed_parse path_text, counter_parse generation_text, parse_path_authorization state_text) of
             (Inr path, Inr generation, Some state) \<Rightarrow>
               let entry = \<lparr>pl_path = path, pl_generation = generation, pl_state = state\<rparr>
               in save_and_print file
                    (case find_path entries path of
                       None \<Rightarrow> entries @ [entry]
                     | Some _ \<Rightarrow> set_path path generation state entries) entry fs
           | _ \<Rightarrow> (([Line ''error: malformed path entry''], Exit 2), fs))
      | _ \<Rightarrow> (([Line ''error: path add requires <path-id> <generation> <state>''], Exit 2), fs))"

definition path_invalidate :: "string \<Rightarrow> path_line list \<Rightarrow> string list \<Rightarrow> files \<Rightarrow> answer \<times> files" where
  "path_invalidate file entries rest fs =
     (case rest of
        path_text # state_text # _ \<Rightarrow>
          (case (fixed_parse path_text, parse_path_authorization state_text) of
             (Inr path, Some state) \<Rightarrow>
               (case find_path entries path of
                  None \<Rightarrow> (([Line ''error: unknown path''], Exit 1), fs)
                | Some existing \<Rightarrow>
                    (case counter_next (pl_generation existing) of
                       Inl _ \<Rightarrow> (([Line ''error: path authority generation would overflow''], Exit 1), fs)
                     | Inr generation \<Rightarrow>
                         save_and_print file (set_path path generation state entries)
                           (existing\<lparr>pl_generation := generation, pl_state := state\<rparr>) fs))
           | _ \<Rightarrow> (([Line ''error: malformed path entry''], Exit 2), fs))
      | _ \<Rightarrow> (([Line ''error: path invalidate requires <path-id> <state>''], Exit 2), fs))"

definition path_command :: "cli_options \<Rightarrow> string \<Rightarrow> string list \<Rightarrow> files \<Rightarrow> answer \<times> files" where
  "path_command opts command rest fs =
     (let file = co_paths_file opts
      in if file = [] then (([Line ''error: path commands require --paths <file>''], Exit 2), fs)
         else case load_paths file (fs_texts fs) of
           None \<Rightarrow> (([Line ''error: malformed path authority file''], Exit 1), fs)
         | Some entries \<Rightarrow>
             if command = ''list'' then
               ((Line paths_header # map (\<lambda>entry. Line (render_path_line entry)) entries, Exit 0), fs)
             else if command = ''add'' then path_add file entries rest fs
             else if command = ''invalidate'' then path_invalidate file entries rest fs
             else (([Usage], Exit 2), fs))"

section \<open>The backend command\<close>

definition backend_show :: "'p tool_env \<Rightarrow> answer" where
  "backend_show env =
     (if te_windows env then
        (case EnumerateHostRoutes True (te_host_table env) \<lparr>hb_last_error = []\<rparr> of (entries, b) \<Rightarrow>
           ([Line (describe_backend host_backend_id host_capabilities),
             Line (''host-routes '' @ size_text (length entries))] @
            map (\<lambda>entry. Line (''  '' @ render_host_entry entry)) (take 32 entries) @
            (if entries = [] \<and> hb_last_error b \<noteq> []
             then [Line (''  host-route-enumeration-error '' @ hb_last_error b)] else []), Exit 0))
      else
        ([Line (describe_backend ''synthetic-programming''
            (synthetic_capabilities (synthetic_backend ''synthetic-programming''))),
          Line ''host-routes 0'',
          Line ''  host-route-enumeration-error the host routing table adapter is unavailable on this platform''],
         Exit 0))"

section \<open>Direct mode\<close>

record direct_runtime =
  dr_backend :: synthetic_backend
  dr_paths :: synthetic_path_authority
  dr_runtime :: runtime

text \<open>\<open>SetPath\<close> for every entry of the paths file.\<close>

fun set_paths :: "path_line list \<Rightarrow> synthetic_path_authority \<Rightarrow> synthetic_path_authority expected" where
  "set_paths [] authority = Inr authority"
| "set_paths (entry # entries) authority =
     (case SetPath authority (pl_path entry) (pl_generation entry) (pl_state entry) of
        (Inl e, _) \<Rightarrow> Inl e
      | (Inr _, authority) \<Rightarrow> set_paths entries authority)"

definition parse_seed :: "string \<Rightarrow> u64 option" where
  "parse_seed text = (if text = [] then Some 0 else parse_u64_decimal text 0xFFFFFFFFFFFFFFFF)"

definition runtime_configuration :: "fabric_id \<Rightarrow> durability \<Rightarrow> string \<Rightarrow> u64 \<Rightarrow> runtime_config" where
  "runtime_configuration fabric durability store seed =
     \<lparr>cf_fabric = fabric, cf_limits = default_limits, cf_durability = durability, cf_store_path = store,
      cf_id_seed = seed, cf_history_limit = 32\<rparr>"

text \<open>The part of \<open>build_direct_runtime\<close> before the runtime is constructed.\<close>

definition direct_configuration ::
  "cli_options \<Rightarrow> path_line list \<Rightarrow> printed + synthetic_path_authority \<times> runtime_config" where
  "direct_configuration opts paths =
     (case set_paths paths [] of
        Inl e \<Rightarrow> Inl (Detailed ''error: '' e)
      | Inr authority \<Rightarrow>
          (case token_parse (co_fabric opts) of
             Inl e \<Rightarrow> Inl (Detailed ''error: '' e)
           | Inr fabric \<Rightarrow>
               (case parse_durability (co_durability opts) of
                  None \<Rightarrow> Inl (Line ''error: --durability must be none, snapshot or journal'')
                | Some durability \<Rightarrow>
                    (case parse_seed (co_seed opts) of
                       None \<Rightarrow> Inl (Line ''error: --seed must be a decimal integer'')
                     | Some seed \<Rightarrow> Inr (authority, runtime_configuration fabric durability (co_store opts) seed)))))"

text \<open>The part after \<open>Open\<close>.\<close>

definition direct_register :: "cli_options \<Rightarrow> runtime \<Rightarrow> (printed + publisher_registration) \<times> runtime" where
  "direct_register opts rt =
     (case token_parse (co_publisher opts) of
        Inl e \<Rightarrow> (Inl (Detailed ''error: '' e), rt)
      | Inr publisher \<Rightarrow>
          (case token_parse (co_namespace opts) of
             Inl e \<Rightarrow> (Inl (Detailed ''error: '' e), rt)
           | Inr _ \<Rightarrow>
               (case parse_route_class (co_class opts) of
                  None \<Rightarrow> (Inl (Line ''error: unknown route class''), rt)
                | Some _ \<Rightarrow>
                    (case RegisterPublisher publisher
                            (fixed_from_digest (digest128 ''routefabric.cli.boot'' (w_raw_text (co_publisher opts))))
                            (wildcard_scope (cf_fabric (rt_config rt)) (co_administrative opts)) rt of
                       (Inl e, rt) \<Rightarrow> (Inl (Detailed ''error: '' e), rt)
                     | (Inr registration, rt) \<Rightarrow> (Inr registration, rt)))))"

definition build_direct_runtime ::
  "'p tool_env \<Rightarrow> cli_options \<Rightarrow> path_line list \<Rightarrow> files \<Rightarrow>
   (printed + direct_runtime \<times> publisher_registration) \<times> runtime option" where
  "build_direct_runtime env opts paths fs =
     (case direct_configuration opts paths of
        Inl message \<Rightarrow> (Inl message, None)
      | Inr (authority, config) \<Rightarrow>
          (case Open (fs_stores fs (co_store opts))
                  (make_runtime config (Some ''synthetic-programming'') True (te_system_seed env)) of
             (Inl e, rt) \<Rightarrow> (Inl (Detailed ''error: '' e), Some rt)
           | (Inr _, rt) \<Rightarrow>
               (case direct_register opts rt of
                  (Inl message, rt) \<Rightarrow> (Inl message, Some rt)
                | (Inr registration, rt) \<Rightarrow>
                    (Inr (\<lparr>dr_backend = synthetic_backend ''synthetic-programming'', dr_paths = authority,
                           dr_runtime = rt\<rparr>, registration), Some rt))))"

text \<open>Commands on the runtime. The path authority of this process does not call back into it.\<close>

definition direct_snapshot :: "direct_runtime \<Rightarrow> answer" where
  "direct_snapshot direct =
     (case Snapshot (Query (dr_paths direct)) (dr_runtime direct) of
        Inl e \<Rightarrow> ([print_error e], Exit 1)
      | Inr ss \<Rightarrow> (snapshot_lines (ss_epoch ss) (ss_id ss) (ss_digest ss) (ss_routes ss), Exit 0))"

definition rendered :: "('a \<Rightarrow> string) \<Rightarrow> 'a expected \<Rightarrow> answer" where
  "rendered render result =
     (case result of
        Inl e \<Rightarrow> ([print_error e], Exit 1)
      | Inr x \<Rightarrow> ([Line (render x)], Exit 0))"

definition direct_show :: "cli_options \<Rightarrow> string \<Rightarrow> string list \<Rightarrow> direct_runtime \<Rightarrow> answer" where
  "direct_show opts command rest direct =
     (let query = Query (dr_paths direct); rt = dr_runtime direct
      in case rest of
           [] \<Rightarrow> ([Line (''error: route '' @ command @ '' requires a route identity or destination'')], Exit 2)
         | wanted # _ \<Rightarrow>
             (case fixed_parse wanted of
                Inr route \<Rightarrow>
                  if command = ''show'' then rendered render_snapshot (QueryRouteById query rt route)
                  else rendered render_explanation (ExplainRouteById query rt route)
              | Inl _ \<Rightarrow>
                  (case build_key opts wanted of
                     Inl e \<Rightarrow> ([print_error e], Exit 2)
                   | Inr key \<Rightarrow>
                       if command = ''show'' then rendered render_snapshot (QueryRoute query rt key)
                       else rendered render_explanation (ExplainRoute query rt key))))"

definition direct_publish_request ::
  "cli_options \<Rightarrow> publisher_registration \<Rightarrow> string \<Rightarrow> route_key \<Rightarrow> route_binding \<Rightarrow> route_generation \<Rightarrow>
   publish_request" where
  "direct_publish_request opts registration destination_text key binding expected_generation =
     \<lparr>pq_publisher = rg_publisher registration, pq_worker_boot = rg_worker_boot registration,
      pq_attempt = fixed_from_digest (digest128 ''routefabric.cli.publish'' (w_raw_text destination_text)),
      pq_key = key, pq_binding = binding, pq_policy_generation = 1, pq_expected_generation = expected_generation,
      pq_lineage = 0, pq_reason = co_reason opts\<rparr>"

text \<open>What \<open>route publish\<close> reads from its arguments, in both modes.\<close>

definition publish_arguments ::
  "cli_options \<Rightarrow> path_line list \<Rightarrow> string list \<Rightarrow> printed + string \<times> route_key \<times> route_binding \<times> route_generation" where
  "publish_arguments opts paths rest =
     (case rest of
        [] \<Rightarrow> Inl (Line ''error: route publish requires a destination'')
      | destination_text # _ \<Rightarrow>
          (case build_key opts destination_text of
             Inl e \<Rightarrow> Inl (print_error e)
           | Inr key \<Rightarrow>
               (case build_binding opts paths of
                  Inl message \<Rightarrow> Inl message
                | Inr binding \<Rightarrow>
                    (case parse_expected_generation opts of
                       Inl e \<Rightarrow> Inl (print_error e)
                     | Inr expected_generation \<Rightarrow> Inr (destination_text, key, binding, expected_generation)))))"

definition direct_publish ::
  "cli_options \<Rightarrow> path_line list \<Rightarrow> string list \<Rightarrow> publisher_registration \<Rightarrow> direct_runtime \<Rightarrow> answer \<times> runtime" where
  "direct_publish opts paths rest registration direct =
     (case publish_arguments opts paths rest of
        Inl message \<Rightarrow> (([message], Exit 2), dr_runtime direct)
      | Inr (destination_text, key, binding, expected_generation) \<Rightarrow>
          (case publish_one synthetic_ops (Query (dr_paths direct)) False
                  (direct_publish_request opts registration destination_text key binding expected_generation)
                  (dr_backend direct) (dr_runtime direct) of
             (Inl e, _, rt) \<Rightarrow> (([print_error e], Exit 1), rt)
           | (Inr x, _, rt) \<Rightarrow>
               ((publish_lines (px_route x) (px_generation x) (px_lifecycle x) (px_applied x) (px_currentness x),
                 Exit 0), rt)))"

text \<open>What the four lifecycle commands read from their arguments, in both modes.\<close>

definition mutation_arguments :: "cli_options \<Rightarrow> string \<Rightarrow> string list \<Rightarrow> printed + string \<times> route_id \<times> route_generation" where
  "mutation_arguments opts command rest =
     (case rest of
        [] \<Rightarrow> Inl (Line (''error: route '' @ command @ '' requires a route identity''))
      | wanted # _ \<Rightarrow>
          (case fixed_parse wanted of
             Inl e \<Rightarrow> Inl (print_error e)
           | Inr route \<Rightarrow>
               (case parse_expected_generation opts of
                  Inl e \<Rightarrow> Inl (print_error e)
                | Inr expected_generation \<Rightarrow> Inr (wanted, route, expected_generation))))"

definition direct_mutate ::
  "cli_options \<Rightarrow> string \<Rightarrow> string list \<Rightarrow> publisher_registration \<Rightarrow> direct_runtime \<Rightarrow> answer \<times> runtime" where
  "direct_mutate opts command rest registration direct =
     (case mutation_arguments opts command rest of
        Inl message \<Rightarrow> (([message], Exit 2), dr_runtime direct)
      | Inr (wanted, route, expected_generation) \<Rightarrow>
          let attempt = fixed_from_digest (digest128 ''routefabric.cli.mutation'' (w_raw_text (wanted @ command)));
              request = \<lparr>lq_publisher = rg_publisher registration, lq_worker_boot = rg_worker_boot registration,
                         lq_attempt = attempt, lq_route = route, lq_reason = co_reason opts\<rparr>;
              b = dr_backend direct;
              rt = dr_runtime direct;
              (outcome, rt) =
                (if command = ''withdraw'' then
                   (case WithdrawRoute synthetic_ops
                           \<lparr>wq_publisher = rg_publisher registration, wq_worker_boot = rg_worker_boot registration,
                            wq_attempt = attempt, wq_route = route, wq_expected_generation = expected_generation,
                            wq_reason = co_reason opts\<rparr> b rt of (outcome, _, rt) \<Rightarrow> (outcome, rt))
                 else if command = ''revalidate'' then
                   (case RevalidateRoute synthetic_ops (Query (dr_paths direct)) False request b rt of
                      (outcome, _, rt) \<Rightarrow> (outcome, rt))
                 else if command = ''retire'' then RetireRoute request rt
                 else RevokeRoute request rt)
          in case outcome of
               Inl e \<Rightarrow> (([print_error e], Exit 1), rt)
             | Inr x \<Rightarrow> ((mutation_lines (wx_route x) (wx_generation x) (wx_lifecycle x) (wx_applied x), Exit 0), rt))"

definition direct_reconcile :: "string list \<Rightarrow> direct_runtime \<Rightarrow> answer \<times> runtime" where
  "direct_reconcile rest direct =
     (case rest of
        [] \<Rightarrow>
          (case ReconcileAll synthetic_ops (dr_backend direct) (dr_runtime direct) of
             (Inl e, rt) \<Rightarrow> (([print_error e], Exit 1), rt)
           | (Inr summary, rt) \<Rightarrow> ((summary_lines summary, Exit 0), rt))
      | wanted # _ \<Rightarrow>
          (case fixed_parse wanted of
             Inl e \<Rightarrow> (([print_error e], Exit 2), dr_runtime direct)
           | Inr route \<Rightarrow>
               (case ReconcileRoute synthetic_ops (dr_backend direct) route (dr_runtime direct) of
                  (Inl e, rt) \<Rightarrow> (([print_error e], Exit 1), rt)
                | (Inr c, rt) \<Rightarrow> (([Line (''classification '' @ observation_class_to_string c)], Exit 0), rt))))"

definition is_mutation :: "string \<Rightarrow> bool" where
  "is_mutation command \<longleftrightarrow> command \<in> {''withdraw'', ''revalidate'', ''retire'', ''revoke''}"

definition direct_command ::
  "cli_options \<Rightarrow> path_line list \<Rightarrow> string \<Rightarrow> string list \<Rightarrow> publisher_registration \<Rightarrow> direct_runtime \<Rightarrow>
   answer \<times> runtime" where
  "direct_command opts paths command rest registration direct =
     (if command = ''snapshot'' \<or> command = ''list'' then (direct_snapshot direct, dr_runtime direct)
      else if command = ''show'' \<or> command = ''explain'' then (direct_show opts command rest direct, dr_runtime direct)
      else if command = ''publish'' then direct_publish opts paths rest registration direct
      else if is_mutation command then direct_mutate opts command rest registration direct
      else if command = ''reconcile'' then direct_reconcile rest direct
      else if command = ''counters'' then
        (([Line (render_counters (rt_counters (dr_runtime direct)))], Exit 0), dr_runtime direct)
      else (([Usage], Exit 2), dr_runtime direct))"

text \<open>The files of the store after the process.\<close>

definition keep_store :: "string \<Rightarrow> runtime option \<Rightarrow> files \<Rightarrow> files" where
  "keep_store path rt fs =
     (case rt of
        None \<Rightarrow> fs
      | Some rt \<Rightarrow> (case rt_store rt of None \<Rightarrow> fs | Some store \<Rightarrow> put_store path store fs))"

definition direct_mode ::
  "'p tool_env \<Rightarrow> cli_options \<Rightarrow> path_line list \<Rightarrow> string \<Rightarrow> string list \<Rightarrow> files \<Rightarrow> answer \<times> files" where
  "direct_mode env opts paths command rest fs =
     (case build_direct_runtime env opts paths fs of
        (Inl message, rt) \<Rightarrow> (([message], Exit 1), keep_store (co_store opts) rt fs)
      | (Inr (direct, registration), _) \<Rightarrow>
          (case direct_command opts paths command rest registration direct of
             (told, rt) \<Rightarrow> (told, keep_store (co_store opts) (Some rt) fs)))"

section \<open>Wire mode\<close>

definition cli_client_env :: "'p tool_env \<Rightarrow> cli_options \<Rightarrow> 'p client_env" where
  "cli_client_env env opts =
     \<lparr>ce_config = \<lparr>cc_host = co_host opts, cc_port = co_port opts, cc_limits = default_limits, cc_id_seed = 0\<rparr>,
      ce_wire = te_wire env, ce_ops = te_sockets env\<rparr>"

text \<open>\<open>client.next_attempt()\<close> before a request.\<close>

definition with_attempt :: "('p client \<Rightarrow> answer \<times> 'p client) \<Rightarrow> 'p client \<Rightarrow> answer \<times> 'p client" where
  "with_attempt request c =
     (case next_attempt c of None \<Rightarrow> (([], Endless), c) | Some (_, c) \<Rightarrow> request c)"

definition status_line :: "status_code \<Rightarrow> string \<Rightarrow> printed" where
  "status_line code detail = Line (''error '' @ status_code_to_string code @ '': '' @ detail)"

definition wire_snapshot :: "'p client_env \<Rightarrow> 'p client \<Rightarrow> answer \<times> 'p client" where
  "wire_snapshot cenv c =
     (case client_Snapshot cenv c of
        (Inl e, c) \<Rightarrow> (([print_error e], Exit 1), c)
      | (Inr m, c) \<Rightarrow> ((snapshot_lines (spr_epoch m) (spr_snapshot_id m) (spr_digest m) (spr_routes m), Exit 0), c))"

text \<open>\<open>show\<close> and \<open>explain\<close>: the query decides whether the explanation is asked for.\<close>

definition wire_asked ::
  "string \<Rightarrow> route_snapshot expected \<times> 'p client \<Rightarrow> ('p client \<Rightarrow> route_explanation expected \<times> 'p client) \<Rightarrow>
   answer \<times> 'p client" where
  "wire_asked command queried explain =
     (case queried of
        (Inl e, c) \<Rightarrow> (([print_error e], Exit 1), c)
      | (Inr snapshot, c) \<Rightarrow>
          if command = ''show'' then (([Line (render_snapshot snapshot)], Exit 0), c)
          else (case explain c of (explanation, c) \<Rightarrow> (rendered render_explanation explanation, c)))"

definition wire_show ::
  "'p client_env \<Rightarrow> cli_options \<Rightarrow> string \<Rightarrow> string list \<Rightarrow> 'p client \<Rightarrow> answer \<times> 'p client" where
  "wire_show cenv opts command rest c =
     (case rest of
        [] \<Rightarrow> (([Line (''error: route '' @ command @ '' requires a route identity or destination'')], Exit 2), c)
      | wanted # _ \<Rightarrow>
          (case fixed_parse wanted of
             Inr route \<Rightarrow>
               wire_asked command (client_QueryRouteById cenv route c) (client_ExplainRouteById cenv route)
           | Inl _ \<Rightarrow>
               (case build_key opts wanted of
                  Inl e \<Rightarrow> (([print_error e], Exit 2), c)
                | Inr key \<Rightarrow>
                    wire_asked command (client_QueryRouteByKey cenv key c) (client_ExplainRouteByKey cenv key))))"

definition wire_publish ::
  "'p client_env \<Rightarrow> cli_options \<Rightarrow> path_line list \<Rightarrow> string list \<Rightarrow> 'p client \<Rightarrow> answer \<times> 'p client" where
  "wire_publish cenv opts paths rest c =
     (case publish_arguments opts paths rest of
        Inl message \<Rightarrow> (([message], Exit 2), c)
      | Inr (_, key, binding, expected_generation) \<Rightarrow>
          with_attempt (\<lambda>c.
            case client_PublishRoute cenv key binding 1 expected_generation 0 (co_reason opts) c of
              (Inl e, c) \<Rightarrow> (([print_error e], Exit 1), c)
            | (Inr m, c) \<Rightarrow>
                if pbr_status m \<noteq> SC_Ok then (([status_line (pbr_status m) (pbr_detail m)], Exit 1), c)
                else ((publish_lines (pbr_route m) (pbr_generation m) (pbr_lifecycle m) (pbr_applied m)
                         (pbr_currentness m), Exit 0), c)) c)"

definition wire_mutate ::
  "'p client_env \<Rightarrow> cli_options \<Rightarrow> string \<Rightarrow> string list \<Rightarrow> 'p client \<Rightarrow> answer \<times> 'p client" where
  "wire_mutate cenv opts command rest c =
     (case mutation_arguments opts command rest of
        Inl message \<Rightarrow> (([message], Exit 2), c)
      | Inr (_, route, expected_generation) \<Rightarrow>
          with_attempt (\<lambda>c.
            case (if command = ''withdraw'' then client_WithdrawRoute cenv route expected_generation (co_reason opts) c
                  else if command = ''revalidate'' then client_RevalidateRoute cenv route (co_reason opts) c
                  else if command = ''retire'' then client_RetireRoute cenv route (co_reason opts) c
                  else client_RevokeRoute cenv route (co_reason opts) c) of
              (Inl e, c) \<Rightarrow> (([print_error e], Exit 1), c)
            | (Inr m, c) \<Rightarrow>
                if mur_status m \<noteq> SC_Ok then (([status_line (mur_status m) (mur_detail m)], Exit 1), c)
                else ((mutation_lines (mur_route m) (mur_generation m) (mur_lifecycle m) (mur_applied m), Exit 0),
                      c)) c)"

definition wire_reconcile :: "'p client_env \<Rightarrow> string list \<Rightarrow> 'p client \<Rightarrow> answer \<times> 'p client" where
  "wire_reconcile cenv rest c =
     (let finish = (\<lambda>extra (result, c).
            case result of
              Inl e \<Rightarrow> (([print_error e], Exit 1), c)
            | Inr m \<Rightarrow> ((summary_lines (rcr_summary m) @ extra m, Exit 0), c))
      in case rest of
           [] \<Rightarrow> finish (\<lambda>m. []) (client_ReconcileAll cenv c)
         | wanted # _ \<Rightarrow>
             (case fixed_parse wanted of
                Inl _ \<Rightarrow> (([], Uncaught), c)
              | Inr route \<Rightarrow>
                  finish (\<lambda>m. [Line (''classification '' @ observation_class_to_string (rcr_classification m))])
                    (client_ReconcileRoute cenv route c)))"

definition needs_registration :: "string \<Rightarrow> bool" where
  "needs_registration command \<longleftrightarrow> command = ''publish'' \<or> is_mutation command \<or> command = ''reconcile''"

text \<open>The commands, on a session whose context names the publisher.\<close>

definition wire_command ::
  "'p client_env \<Rightarrow> cli_options \<Rightarrow> path_line list \<Rightarrow> string \<Rightarrow> string list \<Rightarrow> 'p client \<Rightarrow> answer \<times> 'p client" where
  "wire_command cenv opts paths command rest c =
     (if command = ''list'' \<or> command = ''snapshot'' then wire_snapshot cenv c
      else if command = ''show'' \<or> command = ''explain'' then wire_show cenv opts command rest c
      else if command = ''publish'' then wire_publish cenv opts paths rest c
      else if is_mutation command then wire_mutate cenv opts command rest c
      else if command = ''reconcile'' then wire_reconcile cenv rest c
      else (([Usage], Exit 2), c))"

definition wire_register ::
  "'p client_env \<Rightarrow> publisher_scope \<Rightarrow> ('p client \<Rightarrow> answer \<times> 'p client) \<Rightarrow> 'p client \<Rightarrow> answer \<times> 'p client" where
  "wire_register cenv scope continue =
     with_attempt (\<lambda>c.
       case client_RegisterPublisher cenv scope c of
         (Inr m, c) \<Rightarrow>
           if gr_status m \<noteq> SC_Ok then (([Line ''error: registration failed''], Exit 1), c) else continue c
       | (Inl _, c) \<Rightarrow> (([Line ''error: registration failed''], Exit 1), c))"

definition wire_session ::
  "'p client_env \<Rightarrow> cli_options \<Rightarrow> path_line list \<Rightarrow> string \<Rightarrow> string list \<Rightarrow> 'p client \<Rightarrow> answer \<times> 'p client" where
  "wire_session cenv opts paths command rest c =
     (case token_parse (co_publisher opts) of
        Inl e \<Rightarrow> (([print_error e], Exit 2), c)
      | Inr publisher \<Rightarrow>
          let c = c\<lparr>cl_context := cl_context c\<lparr>rx_publisher := publisher\<rparr>\<rparr>
          in case token_parse (co_fabric opts) of
               Inl e \<Rightarrow> (([print_error e], Exit 2), c)
             | Inr fabric \<Rightarrow>
                 if needs_registration command
                 then wire_register cenv (wildcard_scope fabric (co_administrative opts))
                        (wire_command cenv opts paths command rest) c
                 else wire_command cenv opts paths command rest c)"

definition wire_mode ::
  "'p tool_env \<Rightarrow> cli_options \<Rightarrow> path_line list \<Rightarrow> string \<Rightarrow> string list \<Rightarrow> answer \<times> 'p client" where
  "wire_mode env opts paths command rest =
     (let cenv = cli_client_env env opts
      in case Connect cenv (new_client (ce_config cenv) (te_system_seed env)) of
           (Inl e, c) \<Rightarrow> (([print_error e], Exit 1), c)
         | (Inr _, c) \<Rightarrow>
             (case Hello cenv ''rf_cli'' c of
                (Inl _, c) \<Rightarrow> (([Line ''error: hello failed''], Exit 1), c)
              | (Inr m, c) \<Rightarrow>
                  if hr_status m \<noteq> SC_Ok then (([Line ''error: hello failed''], Exit 1), c)
                  else wire_session cenv opts paths command rest c))"

section \<open>The program\<close>

definition version_lines :: "'p tool_env \<Rightarrow> printed list" where
  "version_lines env =
     [Line (''route-fabric '' @ te_version env), Line (''library-version '' @ te_version env),
      Line (''package-version '' @ te_version env),
      Line (''wire-protocol '' @ to_decimal (ucast (kWireProtocolVersion (te_wire env)))),
      Line (''persistence-format '' @ to_decimal (ucast kPersistenceFormatVersion))]"

definition route_command ::
  "'p tool_env \<Rightarrow> cli_options \<Rightarrow> path_line list \<Rightarrow> string \<Rightarrow> string list \<Rightarrow> files \<Rightarrow> answer \<times> files" where
  "route_command env opts paths command rest fs =
     (if co_port opts \<noteq> 0 then (fst (wire_mode env opts paths command rest), fs)
      else direct_mode env opts paths command rest fs)"

definition cli_main :: "'p tool_env \<Rightarrow> string list \<Rightarrow> files \<Rightarrow> answer \<times> files" where
  "cli_main env arguments fs =
     (case parse_options arguments cli_defaults of
        Inl message \<Rightarrow> (([message], Exit 2), fs)
      | Inr ([], opts) \<Rightarrow> (([Usage], Exit 2), fs)
      | Inr (grp # arguments, opts) \<Rightarrow>
          let command = (case arguments of [] \<Rightarrow> [] | command # _ \<Rightarrow> command);
              rest = drop 1 arguments
          in if grp = ''version'' then ((version_lines env, Exit 0), fs)
             else if grp = ''store'' then store_command command rest fs
             else if grp = ''path'' then path_command opts command rest fs
             else case load_paths (co_paths_file opts) (fs_texts fs) of
                    None \<Rightarrow> (([Line ''error: malformed path authority file''], Exit 1), fs)
                  | Some paths \<Rightarrow>
                      if grp = ''backend'' then
                        (if command \<noteq> ''show'' then (([Usage], Exit 2), fs) else (backend_show env, fs))
                      else if grp \<noteq> ''route'' then (([Usage], Exit 2), fs)
                      else route_command env opts paths command rest fs)"

end
