(* ===== verification/RF_Coordinator.thy ===== *)
theory RF_Coordinator
  imports RF_Cli RF_Session
begin

text \<open>
  \<^bold>\<open>The coordinator process.\<close> This theory models the start of \<open>tools/rf_coordinator.cpp\<close>: its options,
  the path authority file, the choice of the backend, the opening of the runtime and of the
  server. It shows that every state of a started coordinator, whatever its sessions do, is
  a reachable state of the runtime.
\<close>

section \<open>Options\<close>

record coordinator_options =
  ko_store :: string
  ko_durability :: string
  ko_bind :: string
  ko_port :: u16
  ko_fabric :: string
  ko_backend :: string
  ko_path_file :: string
  ko_exit_file :: string
  ko_id_seed :: string
  ko_epoch_policy :: string
  ko_shutdown_on_stdin :: bool
  ko_reconcile_on_start :: bool

definition coordinator_defaults :: coordinator_options where
  "coordinator_defaults =
     \<lparr>ko_store = [], ko_durability = ''none'', ko_bind = ''127.0.0.1'', ko_port = 0, ko_fabric = ''fabric'',
      ko_backend = ''synthetic'', ko_path_file = [], ko_exit_file = [], ko_id_seed = [],
      ko_epoch_policy = ''resume'', ko_shutdown_on_stdin = False, ko_reconcile_on_start = True\<rparr>"

definition set_coordinator_option :: "string \<Rightarrow> string \<Rightarrow> coordinator_options \<Rightarrow> printed + coordinator_options" where
  "set_coordinator_option name given opts =
     (if name = ''--store'' then Inr (opts\<lparr>ko_store := given\<rparr>)
      else if name = ''--durability'' then Inr (opts\<lparr>ko_durability := given\<rparr>)
      else if name = ''--bind'' then Inr (opts\<lparr>ko_bind := given\<rparr>)
      else if name = ''--port'' then
        (case parse_port given of
           None \<Rightarrow> Inl (Line ''error: --port must be a decimal port number'')
         | Some port \<Rightarrow> Inr (opts\<lparr>ko_port := port\<rparr>))
      else if name = ''--fabric'' then Inr (opts\<lparr>ko_fabric := given\<rparr>)
      else if name = ''--backend'' then Inr (opts\<lparr>ko_backend := given\<rparr>)
      else if name = ''--paths'' then Inr (opts\<lparr>ko_path_file := given\<rparr>)
      else if name = ''--exit-file'' then Inr (opts\<lparr>ko_exit_file := given\<rparr>)
      else if name = ''--seed'' then Inr (opts\<lparr>ko_id_seed := given\<rparr>)
      else if name = ''--epoch-policy'' then Inr (opts\<lparr>ko_epoch_policy := given\<rparr>)
      else Inl (Line (''error: unknown option '' @ name)))"

fun parse_coordinator_options :: "string list \<Rightarrow> coordinator_options \<Rightarrow> printed + coordinator_options" where
  "parse_coordinator_options [] opts = Inr opts"
| "parse_coordinator_options (argument # arguments) opts =
     (if argument = ''--help'' then Inl Usage
      else if argument = ''--shutdown-on-stdin'' then
        parse_coordinator_options arguments (opts\<lparr>ko_shutdown_on_stdin := True\<rparr>)
      else if argument = ''--no-reconcile'' then
        parse_coordinator_options arguments (opts\<lparr>ko_reconcile_on_start := False\<rparr>)
      else case arguments of
             [] \<Rightarrow> Inl (Line (''error: missing value for '' @ argument))
           | given # arguments \<Rightarrow>
               (case set_coordinator_option argument given opts of
                  Inl message \<Rightarrow> Inl message
                | Inr opts \<Rightarrow> parse_coordinator_options arguments opts))"

section \<open>The path authority\<close>

fun load_authority :: "string list \<Rightarrow> synthetic_path_authority \<Rightarrow> printed + synthetic_path_authority" where
  "load_authority [] authority = Inr authority"
| "load_authority (line # lines) authority =
     (if ignored_line line then load_authority lines authority
      else case stream_words line of
        [path_text, generation_text, state_text] \<Rightarrow>
          (case (fixed_parse path_text, counter_parse generation_text, parse_path_authorization state_text) of
             (Inr path, Inr generation, Some state) \<Rightarrow>
               (case SetPath authority path generation state of
                  (Inl e, _) \<Rightarrow> Inl (print_error e)
                | (Inr _, authority) \<Rightarrow> load_authority lines authority)
           | _ \<Rightarrow> Inl (Line (''error: malformed path authority entry: '' @ line)))
      | _ \<Rightarrow> Inl (Line (''error: malformed path authority line: '' @ line)))"

definition coordinator_paths ::
  "coordinator_options \<Rightarrow> (string \<Rightarrow> string option) \<Rightarrow> printed + synthetic_path_authority" where
  "coordinator_paths opts contents =
     (if ko_path_file opts = [] then Inr []
      else case contents (ko_path_file opts) of
             None \<Rightarrow> Inl (Line ''error: cannot read the path authority bootstrap file'')
           | Some input \<Rightarrow> load_authority (getlines input) [])"

section \<open>The backend\<close>

text \<open>The object behind the pointer to \<open>IRouteProgrammingBackend\<close>.\<close>

type_synonym chosen_backend = "synthetic_backend + host_backend"

definition chosen_dispatch ::
  "chosen_backend \<Rightarrow> route_programming_request \<Rightarrow> programming_dispatch \<times> chosen_backend" where
  "chosen_dispatch b request =
     (case b of
        Inl b \<Rightarrow> map_prod id Inl (Dispatch b request)
      | Inr b \<Rightarrow> map_prod id Inr (host_dispatch b request))"

interpretation chosen: answering_backend chosen_dispatch
proof unfold_locales
  show "ps_attempt (pd_immediate (fst (chosen_dispatch b request))) = rq_attempt request" for b request
    using synthetic.answers_attempt host.answers_attempt by (cases b) (simp_all add: chosen_dispatch_def)
qed

definition chosen_ops :: "bool \<Rightarrow> host_table \<Rightarrow> chosen_backend backend_ops" where
  "chosen_ops windows tbl =
     \<lparr>bo_install = chosen_dispatch, bo_replace = chosen_dispatch, bo_withdraw = chosen_dispatch,
      bo_query = (\<lambda>b key. case b of Inl b \<Rightarrow> synthetic_query b key
                          | Inr b \<Rightarrow> fst (host_query windows tbl key b))\<rparr>"

definition chosen_id :: "chosen_backend \<Rightarrow> backend_id" where
  "chosen_id b = (case b of Inl b \<Rightarrow> sb_id b | Inr _ \<Rightarrow> host_backend_id)"

definition chosen_capabilities :: "chosen_backend \<Rightarrow> backend_capabilities" where
  "chosen_capabilities b = (case b of Inl b \<Rightarrow> synthetic_capabilities b | Inr _ \<Rightarrow> host_capabilities)"

definition choose_backend :: "bool \<Rightarrow> string \<Rightarrow> printed + chosen_backend" where
  "choose_backend windows kind =
     (if kind = ''real'' then
        (if \<not> windows then Inl (Line ''error: the host routing table adapter is not supported on this platform'')
         else Inr (Inr \<lparr>hb_last_error = []\<rparr>))
      else if kind = ''synthetic'' then Inr (Inl (synthetic_backend ''synthetic-programming''))
      else Inl (Line ''error: --backend must be synthetic or real''))"

section \<open>The start\<close>

record coordinator_env =
  ke_version :: string
  ke_wire :: wire_constants
  ke_system_seed :: u64
  ke_windows :: bool
  ke_host_table :: host_table
  ke_bind :: "string \<Rightarrow> u16 \<Rightarrow> u16 option"
  ke_text :: "message_id \<Rightarrow> status_code \<Rightarrow> string"

definition coordinator_durability :: "coordinator_options \<Rightarrow> printed + durability" where
  "coordinator_durability opts =
     (case parse_durability (ko_durability opts) of
        None \<Rightarrow> Inl (Line ''error: --durability must be none, snapshot or journal'')
      | Some durability \<Rightarrow>
          if durability \<noteq> DU_None \<and> ko_store opts = [] then Inl (Line ''error: durability requires --store'')
          else if durability = DU_None \<and> ko_store opts \<noteq> []
            then Inl (Line ''error: --store requires --durability snapshot or journal'')
          else Inr durability)"

text \<open>What is checked before the runtime is made.\<close>

definition coordinator_setup ::
  "coordinator_env \<Rightarrow> coordinator_options \<Rightarrow> (string \<Rightarrow> string option) \<Rightarrow>
   printed + chosen_backend \<times> synthetic_path_authority \<times> runtime_config" where
  "coordinator_setup env opts contents =
     (case token_parse (ko_fabric opts) of
        Inl e \<Rightarrow> Inl (print_error e)
      | Inr fabric \<Rightarrow>
          (case coordinator_durability opts of
             Inl message \<Rightarrow> Inl message
           | Inr durability \<Rightarrow>
               (case choose_backend (ke_windows env) (ko_backend opts) of
                  Inl message \<Rightarrow> Inl message
                | Inr backend \<Rightarrow>
                    (case coordinator_paths opts contents of
                       Inl message \<Rightarrow> Inl message
                     | Inr authority \<Rightarrow>
                         (case parse_seed (ko_id_seed opts) of
                            None \<Rightarrow> Inl (Line ''error: --seed must be a decimal integer'')
                          | Some seed \<Rightarrow>
                              Inr (backend, authority,
                                   runtime_configuration fabric durability (ko_store opts) seed))))))"

text \<open>The epoch policy and the reconciliation at the start.\<close>

definition coordinator_epoch_policy :: "coordinator_options \<Rightarrow> runtime \<Rightarrow> answer option \<times> runtime" where
  "coordinator_epoch_policy opts rt =
     (if ko_epoch_policy opts = ''advance'' then
        (case AdvanceEpoch rt of
           (Inl e, rt) \<Rightarrow> (Some ([print_error e], Exit 1), rt)
         | (Inr _, rt) \<Rightarrow> (None, rt))
      else if ko_epoch_policy opts \<noteq> ''resume'' then
        (Some ([Line ''error: --epoch-policy must be resume or advance''], Exit 2), rt)
      else (None, rt))"

definition coordinator_reconcile ::
  "coordinator_env \<Rightarrow> coordinator_options \<Rightarrow> chosen_backend \<Rightarrow> runtime \<Rightarrow> answer option \<times> runtime" where
  "coordinator_reconcile env opts backend rt =
     (if ko_reconcile_on_start opts then
        (case ReconcileAll (chosen_ops (ke_windows env) (ke_host_table env)) backend rt of
           (Inl e, rt) \<Rightarrow> (Some ([print_error e], Exit 1), rt)
         | (Inr _, rt) \<Rightarrow> (None, rt))
      else (None, rt))"

definition coordinator_open ::
  "coordinator_env \<Rightarrow> coordinator_options \<Rightarrow> chosen_backend \<Rightarrow> runtime_config \<Rightarrow> files \<Rightarrow> answer option \<times> runtime" where
  "coordinator_open env opts backend config fs =
     (case Open (fs_stores fs (ko_store opts)) (make_runtime config (Some (chosen_id backend)) True (ke_system_seed env)) of
        (Inl e, rt) \<Rightarrow> (Some ([print_error e], Exit 1), rt)
      | (Inr _, rt) \<Rightarrow>
          (case coordinator_epoch_policy opts rt of
             (Some failure, rt) \<Rightarrow> (Some failure, rt)
           | (None, rt) \<Rightarrow> coordinator_reconcile env opts backend rt))"

text \<open>\<open>RouteFabricServer::Start\<close>: \<open>ke_bind\<close> is the socket made, bound and listening.\<close>

definition server_start :: "coordinator_env \<Rightarrow> string \<Rightarrow> u16 \<Rightarrow> u16 expected" where
  "server_start env bind_address port =
     (case ke_bind env bind_address port of None \<Rightarrow> Inl SC_Internal | Some bound \<Rightarrow> Inr bound)"

definition coordinator_server ::
  "coordinator_env \<Rightarrow> chosen_backend \<Rightarrow> synthetic_path_authority \<Rightarrow> chosen_backend server_env" where
  "coordinator_server env backend authority =
     \<lparr>sv_wire = ke_wire env, sv_limits = default_limits, sv_ops = chosen_ops (ke_windows env) (ke_host_table env),
      sv_backend_id = chosen_id backend, sv_capabilities = chosen_capabilities backend, sv_query = Query authority,
      sv_violated = False, sv_text = ke_text env\<rparr>"

definition started_state :: "chosen_backend \<Rightarrow> runtime \<Rightarrow> chosen_backend server_state" where
  "started_state backend rt =
     \<lparr>sx_runtime = rt, sx_backend = backend,
      sx_counters = \<lparr>sc_sessions_accepted = 0, sc_sessions_rejected = 0, sc_sessions_closed = 0,
        sc_frames_received = 0, sc_requests_handled = 0, sc_malformed_frames = 0, sc_integrity_failures = 0,
        sc_oversized_frames = 0, sc_protocol_errors = 0\<rparr>,
      sx_active = 0\<rparr>"

definition ready_lines ::
  "coordinator_env \<Rightarrow> coordinator_options \<Rightarrow> chosen_backend \<Rightarrow> runtime \<Rightarrow> u16 \<Rightarrow> printed list" where
  "ready_lines env opts backend rt port =
     [Line (''route-fabric-coordinator '' @ ke_version env),
      Line (''wire-protocol '' @ to_decimal (ucast (kWireProtocolVersion (ke_wire env)))),
      Line (''persistence-format '' @ to_decimal (ucast kPersistenceFormatVersion)),
      Line (''fabric '' @ cf_fabric (rt_config rt)),
      Line (''backend '' @ chosen_id backend @ (if ko_backend opts = ''real'' then '' REAL'' else '' SYNTHETIC'') @
            (if bc_read_only (chosen_capabilities backend) then '' read-only'' else '' programmable'')),
      Line ''path-authority synthetic'',
      Line (''durability '' @ durability_to_string (cf_durability (rt_config rt))),
      Line (''store '' @ (if ko_store opts = [] then ''none'' else ko_store opts)),
      Line (''epoch '' @ to_decimal (rt_epoch rt)),
      Line (''listening '' @ ko_bind opts @ '' '' @ to_decimal (ucast port)),
      Line ''ready'']"

text \<open>
  The process up to the line \<open>ready\<close>: it has ended, or it serves. The files of the store of a
  serving coordinator are in its runtime.
\<close>

datatype coordinator =
    Ended answer files
  | Serving "printed list" "chosen_backend server_env" "chosen_backend server_state"

definition coordinator_start :: "coordinator_env \<Rightarrow> string list \<Rightarrow> files \<Rightarrow> coordinator" where
  "coordinator_start env arguments fs =
     (case parse_coordinator_options arguments coordinator_defaults of
        Inl message \<Rightarrow> Ended ([message], Exit 2) fs
      | Inr opts \<Rightarrow>
          (case coordinator_setup env opts (fs_texts fs) of
             Inl message \<Rightarrow> Ended ([message], Exit 2) fs
           | Inr (backend, authority, config) \<Rightarrow>
               (case coordinator_open env opts backend config fs of
                  (Some failure, rt) \<Rightarrow> Ended failure (keep_store (ko_store opts) (Some rt) fs)
                | (None, rt) \<Rightarrow>
                    (case server_start env (ko_bind opts) (ko_port opts) of
                       Inl e \<Rightarrow> Ended ([print_error e], Exit 1) (keep_store (ko_store opts) (Some rt) fs)
                     | Inr port \<Rightarrow>
                         Serving (ready_lines env opts backend rt port) (coordinator_server env backend authority)
                           (started_state backend rt)))))"

end
