(* ===== verification/RF_PublisherTool.thy ===== *)
theory RF_PublisherTool
  imports RF_Cli
begin

text \<open>
  \<^bold>\<open>The publisher worker.\<close> This theory models \<open>tools/rf_publisher.cpp\<close>: a process that registers with
  a coordinator, publishes one route, perhaps withdraws it, and reports through a status file.
\<close>

section \<open>Options\<close>

record publisher_options =
  po_host :: string
  po_port :: u16
  po_publisher :: string
  po_boot :: string
  po_fabric :: string
  po_namespace :: string
  po_destination :: string
  po_class :: string
  po_next_hop :: string
  po_next_hop_group :: string
  po_path :: string
  po_path_generation :: string
  po_status_file :: string
  po_seed :: string
  po_reason :: string
  po_hold :: bool
  po_withdraw :: bool
  po_administrative :: bool

definition publisher_defaults :: publisher_options where
  "publisher_defaults =
     \<lparr>po_host = ''127.0.0.1'', po_port = 0, po_publisher = ''publisher-a'', po_boot = [], po_fabric = ''fabric'',
      po_namespace = ''default'', po_destination = ''ipv4:10.0.0.0/24'', po_class = ''unicast'', po_next_hop = [],
      po_next_hop_group = [], po_path = [], po_path_generation = [], po_status_file = [], po_seed = [],
      po_reason = ''worker publication'', po_hold = False, po_withdraw = False, po_administrative = False\<rparr>"

definition set_publisher_option :: "string \<Rightarrow> string \<Rightarrow> publisher_options \<Rightarrow> printed + publisher_options" where
  "set_publisher_option name given opts =
     (if name = ''--host'' then Inr (opts\<lparr>po_host := given\<rparr>)
      else if name = ''--port'' then
        (case parse_port given of
           None \<Rightarrow> Inl (Line ''error: --port must be a decimal port number'')
         | Some port \<Rightarrow> Inr (opts\<lparr>po_port := port\<rparr>))
      else if name = ''--publisher'' then Inr (opts\<lparr>po_publisher := given\<rparr>)
      else if name = ''--boot'' then Inr (opts\<lparr>po_boot := given\<rparr>)
      else if name = ''--fabric'' then Inr (opts\<lparr>po_fabric := given\<rparr>)
      else if name = ''--namespace'' then Inr (opts\<lparr>po_namespace := given\<rparr>)
      else if name = ''--destination'' then Inr (opts\<lparr>po_destination := given\<rparr>)
      else if name = ''--class'' then Inr (opts\<lparr>po_class := given\<rparr>)
      else if name = ''--next-hop'' then Inr (opts\<lparr>po_next_hop := given\<rparr>)
      else if name = ''--next-hop-group'' then Inr (opts\<lparr>po_next_hop_group := given\<rparr>)
      else if name = ''--path'' then Inr (opts\<lparr>po_path := given\<rparr>)
      else if name = ''--path-generation'' then Inr (opts\<lparr>po_path_generation := given\<rparr>)
      else if name = ''--status-file'' then Inr (opts\<lparr>po_status_file := given\<rparr>)
      else if name = ''--seed'' then Inr (opts\<lparr>po_seed := given\<rparr>)
      else Inl (Line (''error: unknown option '' @ name)))"

fun parse_publisher_options :: "string list \<Rightarrow> publisher_options \<Rightarrow> printed + publisher_options" where
  "parse_publisher_options [] opts = Inr opts"
| "parse_publisher_options (argument # arguments) opts =
     (if argument = ''--help'' then Inl Usage
      else if argument = ''--hold'' then parse_publisher_options arguments (opts\<lparr>po_hold := True\<rparr>)
      else if argument = ''--withdraw'' then parse_publisher_options arguments (opts\<lparr>po_withdraw := True\<rparr>)
      else if argument = ''--administrative'' then
        parse_publisher_options arguments (opts\<lparr>po_administrative := True\<rparr>)
      else case arguments of
             [] \<Rightarrow> Inl (Line (''error: missing value for '' @ argument))
           | given # arguments \<Rightarrow>
               (case set_publisher_option argument given opts of
                  Inl message \<Rightarrow> Inl message
                | Inr opts \<Rightarrow> parse_publisher_options arguments opts))"

section \<open>Reports\<close>

text \<open>A printed line, or a replacement of the status file: the state and further lines, each ended by a line feed.\<close>

datatype tool_event =
    Print printed
  | StatusFile string printed

type_synonym 'p report = "(tool_event list \<times> process_end) \<times> 'p client"

definition publish_status :: "publisher_options \<Rightarrow> string \<Rightarrow> printed \<Rightarrow> tool_event list" where
  "publish_status opts state extra = (if po_status_file opts = [] then [] else [StatusFile state extra])"

definition failed :: "publisher_options \<Rightarrow> printed \<Rightarrow> printed \<Rightarrow> nat \<Rightarrow> tool_event list \<times> process_end" where
  "failed opts extra message code = (publish_status opts ''failed'' extra @ [Print message], Exit code)"

definition failed_with :: "publisher_options \<Rightarrow> status_code \<Rightarrow> nat \<Rightarrow> tool_event list \<times> process_end" where
  "failed_with opts e code = failed opts (Detailed ''error='' e) (print_error e) code"

text \<open>Failures whose text is the detail of an answer or of a local error.\<close>

definition refused_by :: "publisher_options \<Rightarrow> string \<Rightarrow> status_code + string \<Rightarrow> tool_event list \<times> process_end" where
  "refused_by opts what reason =
     (case reason of
        Inl e \<Rightarrow> failed opts (Detailed ''error='' e) (Detailed (''error: '' @ what @ '' failed: '') e) 1
      | Inr detail \<Rightarrow>
          failed opts (Line (''error='' @ detail)) (Line (''error: '' @ what @ '' failed: '' @ detail)) 1)"

definition emit :: "tool_event list \<Rightarrow> 'p report \<Rightarrow> 'p report" where
  "emit events report = (case report of ((later, e), c) \<Rightarrow> ((events @ later, e), c))"

section \<open>The request\<close>

definition publisher_key :: "publisher_options \<Rightarrow> (tool_event list \<times> process_end) + publisher_id \<times> route_key" where
  "publisher_key opts =
     (case token_parse (po_publisher opts) of
        Inl e \<Rightarrow> Inl (failed_with opts e 2)
      | Inr publisher \<Rightarrow>
          (case token_parse (po_fabric opts) of
             Inl e \<Rightarrow> Inl (failed_with opts e 2)
           | Inr fabric \<Rightarrow>
               (case token_parse (po_namespace opts) of
                  Inl e \<Rightarrow> Inl (failed_with opts e 2)
                | Inr routing_namespace \<Rightarrow>
                    (case parse_destination (po_destination opts) 128 of
                       Inl e \<Rightarrow> Inl (failed_with opts e 2)
                     | Inr destination \<Rightarrow>
                         (case parse_route_class (po_class opts) of
                            None \<Rightarrow> Inl (failed opts (Line ''error=unknown route class'')
                                          (Line ''error: unknown route class'') 2)
                          | Some route_class \<Rightarrow>
                              Inr (publisher, \<lparr>rk_fabric = fabric, rk_routing_namespace = routing_namespace,
                                    rk_destination = destination, rk_route_class = route_class\<rparr>))))))"

definition group_binding :: "next_hop_group_id \<Rightarrow> route_binding" where
  "group_binding i =
     \<lparr>rb_kind = BK_NextHop,
      rb_next_hop = \<lparr>nh_kind = NH_NextHopGroup, nh_next_hop = 0, nh_next_hop_group = i, nh_entity_generation = 1\<rparr>,
      rb_path = 0, rb_path_authority_generation = 0, rb_policy_generation = 1\<rparr>"

definition publisher_binding :: "publisher_options \<Rightarrow> (tool_event list \<times> process_end) + route_binding" where
  "publisher_binding opts =
     (if po_path opts \<noteq> [] then
        (case (fixed_parse (po_path opts), counter_parse (po_path_generation opts)) of
           (Inr path, Inr generation) \<Rightarrow> Inr (path_binding path generation)
         | _ \<Rightarrow> Inl (failed opts (Line ''error=malformed path binding'') (Line ''error: malformed path binding'') 2))
      else if po_next_hop_group opts \<noteq> [] then
        (case fixed_parse (po_next_hop_group opts) of
           Inr i \<Rightarrow> Inr (group_binding i)
         | Inl _ \<Rightarrow> Inl (failed opts (Line ''error=malformed next-hop group'')
                           (Line ''error: malformed next-hop group identity'') 2))
      else if po_next_hop opts \<noteq> [] then
        (case fixed_parse (po_next_hop opts) of
           Inr next_hop \<Rightarrow> Inr (next_hop_to next_hop)
         | Inl _ \<Rightarrow> Inl (failed opts (Line ''error=malformed next hop'') (Line ''error: malformed next-hop identity'') 2))
      else Inr (next_hop_to (fixed_from_digest
                  (digest128 ''routefabric.publisher.next-hop'' (w_raw_text ''default'')))))"

section \<open>The session\<close>

text \<open>The identity of this incarnation; \<open>seed1\<close> and \<open>seed2\<close> are two results of \<open>system_seed\<close>.\<close>

definition worker_boot_of ::
  "publisher_options \<Rightarrow> u64 \<Rightarrow> u64 \<Rightarrow> u64 \<Rightarrow> ((tool_event list \<times> process_end) + worker_boot_id) option" where
  "worker_boot_of opts id_seed seed1 seed2 =
     (if po_boot opts = [] then
        (case generate_id (seeded_id_source (mix64 ((if id_seed \<noteq> 0 then id_seed else seed1) XOR seed2))) of
           None \<Rightarrow> None
         | Some (boot, _) \<Rightarrow> Some (Inr boot))
      else (case fixed_parse (po_boot opts) of
              Inl e \<Rightarrow> Some (Inl (failed_with opts e 2))
            | Inr boot \<Rightarrow> Some (Inr boot)))"

definition drawing :: "('p client \<Rightarrow> 'p report) \<Rightarrow> 'p client \<Rightarrow> 'p report" where
  "drawing request c = (case next_attempt c of None \<Rightarrow> (([], Endless), c) | Some (_, c) \<Rightarrow> request c)"

text \<open>The end of \<open>main\<close>: hold the session or close it.\<close>

definition publisher_leave :: "publisher_options \<Rightarrow> 'p client \<Rightarrow> 'p report" where
  "publisher_leave opts c = (if po_hold opts then (([], Endless), c) else (([], Exit 0), Close c))"

definition publisher_withdraw ::
  "'p client_env \<Rightarrow> publisher_options \<Rightarrow> string \<Rightarrow> route_id \<Rightarrow> 'p client \<Rightarrow> 'p report" where
  "publisher_withdraw cenv opts boot_text route =
     drawing (\<lambda>c.
       case client_WithdrawRoute cenv route 0 ''worker withdrawal'' c of
         (Inl e, c) \<Rightarrow> (refused_by opts ''withdrawal'' (Inl e), c)
       | (Inr m, c) \<Rightarrow>
           if mur_status m \<noteq> SC_Ok then (refused_by opts ''withdrawal'' (Inr (mur_detail m)), c)
           else emit
                  (publish_status opts ''withdrawn''
                     (Line (''boot='' @ boot_text @ newline @ ''route-id='' @ fixed_render route @ newline @
                            ''lifecycle='' @ lifecycle_to_string (mur_lifecycle m) @ newline @
                            ''applied='' @ applied_classification_to_string (mur_applied m))) @
                   [Print (Line (''withdrawn route='' @ fixed_render route @
                                 '' lifecycle='' @ lifecycle_to_string (mur_lifecycle m)))])
                  (publisher_leave opts c))"

text \<open>The lines that \<open>registered\<close> and \<open>published\<close> share.\<close>

definition registered_lines :: "publisher_options \<Rightarrow> string \<Rightarrow> publisher_id \<Rightarrow> coordinator_epoch \<Rightarrow> string" where
  "registered_lines opts boot_text publisher epoch =
     ''boot='' @ boot_text @ newline @ ''publisher='' @ publisher @ newline @ ''epoch='' @ to_decimal epoch @
     newline @ ''port='' @ to_decimal (ucast (po_port opts))"

definition publisher_publish ::
  "'p client_env \<Rightarrow> publisher_options \<Rightarrow> string \<Rightarrow> publisher_id \<Rightarrow> coordinator_epoch \<Rightarrow> route_key \<Rightarrow> route_binding \<Rightarrow>
   'p client \<Rightarrow> 'p report" where
  "publisher_publish cenv opts boot_text publisher epoch key binding =
     drawing (\<lambda>c.
       case client_PublishRoute cenv key binding 1 0 0 (po_reason opts) c of
         (Inl e, c) \<Rightarrow> (refused_by opts ''publication'' (Inl e), c)
       | (Inr m, c) \<Rightarrow>
           if pbr_status m \<noteq> SC_Ok then (refused_by opts ''publication'' (Inr (pbr_detail m)), c)
           else emit
                  (publish_status opts ''published''
                     (Line (registered_lines opts boot_text publisher epoch @ newline @
                            ''route-id='' @ fixed_render (pbr_route m) @ newline @
                            ''route-generation='' @ to_decimal (pbr_generation m) @ newline @
                            ''lifecycle='' @ lifecycle_to_string (pbr_lifecycle m) @ newline @
                            ''applied='' @ applied_classification_to_string (pbr_applied m) @ newline @
                            ''currentness='' @ currentness_to_string (pbr_currentness m))) @
                   [Print (Line (''published route='' @ fixed_render (pbr_route m) @
                                 '' lifecycle='' @ lifecycle_to_string (pbr_lifecycle m) @
                                 '' applied='' @ applied_classification_to_string (pbr_applied m)))])
                  (if po_withdraw opts then publisher_withdraw cenv opts boot_text (pbr_route m) c
                   else publisher_leave opts c))"

definition publisher_session ::
  "'p client_env \<Rightarrow> publisher_options \<Rightarrow> publisher_id \<Rightarrow> worker_boot_id \<Rightarrow> route_key \<Rightarrow> 'p client \<Rightarrow> 'p report" where
  "publisher_session cenv opts publisher boot key c =
     drawing (\<lambda>c.
       case client_RegisterPublisher cenv (wildcard_scope (rk_fabric key) (po_administrative opts)) c of
         (Inl e, c) \<Rightarrow> (refused_by opts ''registration'' (Inl e), c)
       | (Inr m, c) \<Rightarrow>
           if gr_status m \<noteq> SC_Ok then (refused_by opts ''registration'' (Inr (gr_detail m)), c)
           else emit
                  (publish_status opts ''registered'' (Line (registered_lines opts (fixed_render boot) publisher (gr_epoch m))) @
                   [Print (Line (''registered publisher='' @ publisher @ '' boot='' @ fixed_render boot))])
                  (case publisher_binding opts of
                     Inl failure \<Rightarrow> (failure, c)
                   | Inr binding \<Rightarrow>
                       publisher_publish cenv opts (fixed_render boot) publisher (gr_epoch m) key binding c))
     (c\<lparr>cl_context := cl_context c\<lparr>rx_worker_boot := boot, rx_publisher := publisher\<rparr>\<rparr>)"

definition publisher_client_env :: "'p tool_env \<Rightarrow> publisher_options \<Rightarrow> u64 \<Rightarrow> 'p client_env" where
  "publisher_client_env env opts id_seed =
     \<lparr>ce_config = \<lparr>cc_host = po_host opts, cc_port = po_port opts, cc_limits = default_limits, cc_id_seed = id_seed\<rparr>,
      ce_wire = te_wire env, ce_ops = te_sockets env\<rparr>"

definition publisher_connect ::
  "'p tool_env \<Rightarrow> publisher_options \<Rightarrow> u64 \<Rightarrow> u64 \<Rightarrow> u64 \<Rightarrow> publisher_id \<Rightarrow> route_key \<Rightarrow> 'p report" where
  "publisher_connect env opts id_seed seed1 seed2 publisher key =
     (let cenv = publisher_client_env env opts id_seed
      in case Connect cenv (new_client (ce_config cenv) (te_system_seed env)) of
           (Inl e, c) \<Rightarrow> (failed_with opts e 1, c)
         | (Inr _, c) \<Rightarrow>
             (case Hello cenv ''rf_publisher'' c of
                (Inl _, c) \<Rightarrow> (failed opts (Line ''error=hello failed'') (Line ''error: hello failed'') 1, c)
              | (Inr m, c) \<Rightarrow>
                  if hr_status m \<noteq> SC_Ok
                  then (failed opts (Line ''error=hello failed'') (Line ''error: hello failed'') 1, c)
                  else (case worker_boot_of opts id_seed seed1 seed2 of
                          None \<Rightarrow> (([], Endless), c)
                        | Some (Inl failure) \<Rightarrow> (failure, c)
                        | Some (Inr boot) \<Rightarrow> publisher_session cenv opts publisher boot key c)))"

text \<open>\<open>None\<close> for the client: the process ended before it was made.\<close>

definition publisher_main ::
  "'p tool_env \<Rightarrow> u64 \<Rightarrow> u64 \<Rightarrow> string list \<Rightarrow> (tool_event list \<times> process_end) \<times> 'p client option" where
  "publisher_main env seed1 seed2 arguments =
     (case parse_publisher_options arguments publisher_defaults of
        Inl message \<Rightarrow> (([Print message], Exit 2), None)
      | Inr opts \<Rightarrow>
          if po_port opts = 0 then (([Print (Line ''error: --port is required'')], Exit 2), None)
          else case publisher_key opts of
            Inl failure \<Rightarrow> (failure, None)
          | Inr (publisher, key) \<Rightarrow>
              (case parse_seed (po_seed opts) of
                 None \<Rightarrow> (([Print (Line ''error: --seed must be a decimal integer'')], Exit 2), None)
               | Some id_seed \<Rightarrow>
                   (case publisher_connect env opts id_seed seed1 seed2 publisher key of (told, c) \<Rightarrow> (told, Some c))))"

end
