(* ===== verification/RF_ToolFacts.thy ===== *)
theory RF_ToolFacts
  imports RF_Coordinator RF_PublisherTool
begin

text \<open>
  \<^bold>\<open>What the tools do.\<close> Facts about the command-line tools: the command line in wire mode cannot
  change or list anything, its edits of the path file are what the next process reads, a
  store has no differences from itself, and a started coordinator stays reachable.
\<close>

section \<open>Wire mode\<close>

lemma exchange_kept:
  "exchange env i j payload decoder c = (result, c') \<Longrightarrow> cl_context c' = cl_context c \<and> cl_ids c' = cl_ids c"
  by (auto simp: exchange_def SendFrame_def expect_frame_def ReceiveFrame_def Let_def
      split: option.splits prod.splits if_splits sum.splits)

lemma Connect_kept: "Connect env c = (result, c') \<Longrightarrow> cl_context c' = cl_context c \<and> cl_ids c' = cl_ids c"
  by (auto simp: Connect_def split: option.splits if_splits)

lemma Hello_kept:
  "Hello env name c = (result, c') \<Longrightarrow> rx_worker_boot (cl_context c') = rx_worker_boot (cl_context c) \<and> cl_ids c' = cl_ids c"
  by (auto simp: Hello_def dest!: exchange_kept split: prod.splits sum.splits if_splits)

text \<open>Nothing that needs a context is sent while the context names no worker boot.\<close>

lemma no_boot_refused:
  assumes "rx_worker_boot (cl_context c) = 0"
  shows "client_RegisterPublisher env scope c = (Inl SC_InvalidArgument, c)" "client_Snapshot env c = (Inl SC_InvalidArgument, c)"
  using assms by (simp_all add: client_RegisterPublisher_def client_Snapshot_def validate_context_def)

lemma next_attempt_returns:
  assumes "source_alive (cl_ids c)"
  shows "\<exists>attempt c'. next_attempt c = Some (attempt, c') \<and> attempt \<noteq> 0 \<and> cl_socket c' = cl_socket c \<and>
    rx_worker_boot (cl_context c') = rx_worker_boot (cl_context c) \<and> source_alive (cl_ids c')"
  using generate_id_returns [OF assms] by (auto simp: next_attempt_def)

lemma wire_register_fails:
  assumes "source_alive (cl_ids c)" and "rx_worker_boot (cl_context c) = 0"
  shows "\<exists>c'. wire_register cenv scope continue c = (([Line ''error: registration failed''], Exit 1), c') \<and>
    cl_socket c' = cl_socket c"
proof -
  obtain attempt c' where c': "next_attempt c = Some (attempt, c')" "cl_socket c' = cl_socket c"
    "rx_worker_boot (cl_context c') = 0"
    using next_attempt_returns [OF assms(1)] assms(2) by auto
  then show ?thesis by (simp add: wire_register_def with_attempt_def no_boot_refused)
qed

lemma wire_session_fails:
  assumes "source_alive (cl_ids c)" and "rx_worker_boot (cl_context c) = 0"
    and "needs_registration command \<or> command \<in> {''list'', ''snapshot''}"
  shows "\<exists>lines code c'. wire_session cenv opts paths command rest c = ((lines, Exit code), c') \<and> code \<noteq> 0 \<and>
    cl_socket c' = cl_socket c"
proof -
  let ?c = "\<lambda>publisher. c\<lparr>cl_context := cl_context c\<lparr>rx_publisher := publisher\<rparr>\<rparr>"
  have register: "\<exists>c'. wire_register cenv scope continue (?c publisher) =
      (([Line ''error: registration failed''], Exit 1), c') \<and> cl_socket c' = cl_socket c" for scope continue publisher
    using wire_register_fails [of "?c publisher" cenv scope continue] assms(1,2) by simp
  have snapshot: "wire_snapshot cenv (?c publisher) = (([print_error SC_InvalidArgument], Exit 1), ?c publisher)" for publisher
    using assms(2) by (simp add: wire_snapshot_def no_boot_refused)
  show ?thesis
  proof (cases "token_parse (co_publisher opts)")
    case (Inl e)
    then show ?thesis by (simp add: wire_session_def)
  next
    case publisher: (Inr publisher)
    show ?thesis
    proof (cases "token_parse (co_fabric opts)")
      case (Inl e)
      with publisher show ?thesis by (simp add: wire_session_def)
    next
      case fabric: (Inr fabric)
      show ?thesis
      proof (cases "needs_registration command")
        case True
        with publisher fabric show ?thesis
          using register [of "wildcard_scope fabric (co_administrative opts)" "wire_command cenv opts paths command rest" publisher]
          by (auto simp: wire_session_def)
      next
        case False
        with publisher fabric assms(3) show ?thesis
          by (auto simp: wire_session_def wire_command_def snapshot)
      qed
    qed
  qed
qed

lemma wire_mode_fails:
  assumes "needs_registration command \<or> command \<in> {''list'', ''snapshot''}"
  shows "\<exists>lines code. fst (wire_mode env opts paths command rest) = (lines, Exit code) \<and> code \<noteq> 0"
proof -
  let ?c = "new_client (ce_config (cli_client_env env opts)) (te_system_seed env) :: 'a client"
  have fresh: "source_alive (cl_ids ?c)" "rx_worker_boot (cl_context ?c) = 0"
    by (simp_all add: new_client_def seeded_id_source_alive)
  obtain connected c1 where c1: "Connect (cli_client_env env opts) ?c = (connected, c1)" by fastforce
  obtain hello c2 where c2: "Hello (cli_client_env env opts) ''rf_cli'' c1 = (hello, c2)" by fastforce
  have "source_alive (cl_ids c2)" "rx_worker_boot (cl_context c2) = 0"
    using fresh Connect_kept [OF c1] Hello_kept [OF c2] by auto
  from wire_session_fails [OF this assms]
  obtain lines code c' where "wire_session (cli_client_env env opts) opts paths command rest c2 = ((lines, Exit code), c')"
    "code \<noteq> 0" by blast
  then show ?thesis by (auto simp: wire_mode_def Let_def c1 c2 split: sum.splits)
qed

section \<open>The path file\<close>

lemma parse_path_lines_wf: "parse_path_lines lines = Some entries \<Longrightarrow> list_all path_line_wf entries"
  by (induction lines arbitrary: entries)
    (auto simp: parse_path_line_def path_line_wf_def counter_parse_iff split: if_splits option.splits list.splits sum.splits
      dest: fixed_text.parse_wf)

lemma set_path_wf:
  "list_all path_line_wf entries \<Longrightarrow> counter_wire_valid generation \<Longrightarrow> list_all path_line_wf (set_path path generation state entries)"
  by (induction entries) (auto simp: path_line_wf_def)

lemma find_set_path:
  "find_path (set_path path generation state entries) p =
     (if p = path then map_option (\<lambda>e. e\<lparr>pl_generation := generation, pl_state := state\<rparr>) (find_path entries path)
      else find_path entries p)"
  by (induction entries) auto

lemma set_path_paths: "map pl_path (set_path path generation state entries) = map pl_path entries"
  by (induction entries) auto

lemma find_path_none: "find_path entries path = None \<longleftrightarrow> path \<notin> set (map pl_path entries)"
  by (induction entries) auto

lemma find_path_append:
  "find_path (entries @ [entry]) p =
     (case find_path entries p of Some e \<Rightarrow> Some e | None \<Rightarrow> if pl_path entry = p then Some entry else None)"
  by (induction entries) auto

lemma saved_is_loaded:
  assumes "save_and_print file entries entry fs = ((lines, Exit 0), fs')" and "list_all path_line_wf entries" and "file \<noteq> []"
  shows "load_paths file (fs_texts fs') = Some entries \<and> lines = [path_entry_line entry] \<and>
    (\<forall>other. other \<noteq> file \<longrightarrow> fs_texts fs' other = fs_texts fs other) \<and> fs_stores fs' = fs_stores fs"
  using assms parse_paths_text [OF assms(2)]
  by (auto simp: save_and_print_def save_paths_def load_paths_def split: option.splits bool.splits)

text \<open>A change of the path file: the old entries, the entry that was printed, and the new ones.\<close>

definition path_recorded :: "string \<Rightarrow> files \<Rightarrow> files \<Rightarrow> printed list \<Rightarrow> path_line list \<Rightarrow> path_line \<Rightarrow> bool" where
  "path_recorded file fs fs' lines entries entry \<longleftrightarrow>
     load_paths file (fs_texts fs) = Some entries \<and> lines = [path_entry_line entry] \<and>
     (\<exists>entries'. load_paths file (fs_texts fs') = Some entries' \<and>
        (distinct (map pl_path entries) \<longrightarrow> distinct (map pl_path entries')) \<and>
        (\<forall>p. find_path entries' p = (if p = pl_path entry then Some entry else find_path entries p)))"

lemma load_paths_wf: "load_paths file contents = Some entries \<Longrightarrow> list_all path_line_wf entries"
  by (auto simp: load_paths_def split: if_splits option.splits dest: parse_path_lines_wf)

lemma path_add_records:
  assumes "path_add file entries (path_text # generation_text # state_text # extra) fs = ((lines, Exit 0), fs')"
    and "file \<noteq> []" and "load_paths file (fs_texts fs) = Some entries"
  shows "\<exists>entry. path_recorded file fs fs' lines entries entry \<and> fixed_parse path_text = Inr (pl_path entry) \<and>
    counter_parse generation_text = Inr (pl_generation entry) \<and>
    parse_path_authorization state_text = Some (pl_state entry)"
proof -
  obtain path generation state where parsed: "fixed_parse path_text = Inr path"
    "counter_parse generation_text = Inr generation" "parse_path_authorization state_text = Some state"
    using assms(1) by (auto simp: path_add_def split: sum.splits option.splits)
  define entry where "entry = \<lparr>pl_path = path, pl_generation = generation, pl_state = state\<rparr>"
  define entries' where "entries' = (case find_path entries path of None \<Rightarrow> entries @ [entry]
    | Some _ \<Rightarrow> set_path path generation state entries)"
  have valid: "counter_wire_valid generation" "path \<noteq> 0"
    using parsed fixed_text.parse_wf by (auto simp: counter_parse_iff)
  then have "list_all path_line_wf entries'"
    using load_paths_wf [OF assms(3)]
    by (auto simp: entries'_def entry_def path_line_wf_def set_path_wf split: option.splits)
  moreover have "save_and_print file entries' entry fs = ((lines, Exit 0), fs')"
    using assms(1) parsed unfolding entries'_def entry_def by (simp add: path_add_def Let_def)
  ultimately have saved: "load_paths file (fs_texts fs') = Some entries'" "lines = [path_entry_line entry]"
    using saved_is_loaded assms(2) by blast+
  moreover have "find_path entries' p = (if p = pl_path entry then Some entry else find_path entries p)" for p
    by (auto simp: entries'_def entry_def find_path_append find_set_path split: option.splits dest!: find_path_in)
  moreover have "distinct (map pl_path entries) \<longrightarrow> distinct (map pl_path entries')"
    by (auto simp: entries'_def entry_def set_path_paths find_path_none split: option.splits)
  ultimately have "path_recorded file fs fs' lines entries entry" using assms(3) by (auto simp: path_recorded_def)
  then show ?thesis using parsed by (intro exI [of _ entry]) (simp add: entry_def)
qed

lemma path_invalidate_records:
  assumes "path_invalidate file entries (path_text # state_text # extra) fs = ((lines, Exit 0), fs')"
    and "file \<noteq> []" and "load_paths file (fs_texts fs) = Some entries"
  shows "\<exists>old entry. path_recorded file fs fs' lines entries entry \<and> find_path entries (pl_path entry) = Some old \<and>
    fixed_parse path_text = Inr (pl_path entry) \<and> unat (pl_generation entry) = unat (pl_generation old) + 1 \<and>
    parse_path_authorization state_text = Some (pl_state entry)"
proof -
  obtain path state old generation where parsed: "fixed_parse path_text = Inr path"
    "parse_path_authorization state_text = Some state" and old: "find_path entries path = Some old"
    and generation: "counter_next (pl_generation old) = Inr generation"
    using assms(1) by (auto simp: path_invalidate_def split: sum.splits option.splits)
  define entry where "entry = old\<lparr>pl_generation := generation, pl_state := state\<rparr>"
  define entries' where "entries' = set_path path generation state entries"
  have "list_all path_line_wf entries'"
    using load_paths_wf [OF assms(3)] counter_next_unat(3) [OF generation] by (simp add: entries'_def set_path_wf)
  moreover have "save_and_print file entries' entry fs = ((lines, Exit 0), fs')"
    using assms(1) parsed old generation by (simp add: path_invalidate_def entries'_def entry_def)
  ultimately have saved: "load_paths file (fs_texts fs') = Some entries'" "lines = [path_entry_line entry]"
    using saved_is_loaded assms(2) by blast+
  moreover have path: "pl_path entry = path" using find_path_in [OF old] by (simp add: entry_def)
  moreover have "find_path entries' p = (if p = pl_path entry then Some entry else find_path entries p)" for p
    using path old by (auto simp: entries'_def entry_def find_set_path)
  moreover have "distinct (map pl_path entries) \<longrightarrow> distinct (map pl_path entries')"
    by (simp add: entries'_def set_path_paths)
  ultimately have "path_recorded file fs fs' lines entries entry" using assms(3) by (auto simp: path_recorded_def)
  then show ?thesis using parsed old path counter_next_unat(1) [OF generation]
    by (intro exI [of _ old] exI [of _ entry]) (simp add: entry_def)
qed

section \<open>The authority made from the file\<close>

lemma set_paths_total:
  "list_all path_line_wf entries \<Longrightarrow> \<exists>a. set_paths entries authority = Inr a"
  by (induction entries authority rule: set_paths.induct)
    (auto simp: path_line_wf_def SetPath_def ok_status_def counter_is_valid_def counter_wire_valid_def)

text \<open>The last entry of a path counts, whereas \<open>find_path\<close> returns and edits the first.\<close>

lemma set_paths_last:
  "list_all path_line_wf entries \<Longrightarrow> set_paths entries authority = Inr a \<Longrightarrow>
   om_find a p = (case find_path (rev entries) p of
     None \<Rightarrow> om_find authority p
   | Some e \<Rightarrow> Some \<lparr>pe_generation = pl_generation e, pe_state = pl_state e\<rparr>)"
proof (induction entries authority rule: set_paths.induct)
  case (2 entry entries authority)
  then show ?case
    by (auto simp: path_line_wf_def SetPath_def ok_status_def counter_is_valid_def counter_wire_valid_def find_path_append
        split: option.splits)
qed simp

lemma find_path_rev: "distinct (map pl_path entries) \<Longrightarrow> find_path (rev entries) p = find_path entries p"
  by (induction entries) (auto simp: find_path_append image_iff split: option.splits dest!: find_path_in)

definition file_authority :: "path_line list \<Rightarrow> path_id \<Rightarrow> path_authority_result" where
  "file_authority entries p =
     (case find_path entries p of
        None \<Rightarrow> \<lparr>pr_path = p, pr_generation = 1, pr_state = PA_Rejected\<rparr>
      | Some e \<Rightarrow> \<lparr>pr_path = p, pr_generation = pl_generation e, pr_state = pl_state e\<rparr>)"

lemma set_paths_query:
  assumes "list_all path_line_wf entries" and "set_paths entries [] = Inr a"
  shows "Query a = file_authority (rev entries)"
  by (rule ext) (auto simp: Query_def file_authority_def set_paths_last [OF assms] split: option.splits)

text \<open>The coordinator makes the same authority of the file as the command line does.\<close>

lemma load_authority_same:
  "(\<exists>message. load_authority lines authority = Inl message) \<and> parse_path_lines lines = None \<or>
   (\<exists>entries. parse_path_lines lines = Some entries \<and> list_all path_line_wf entries \<and>
      load_authority lines authority = map_sum print_error id (set_paths entries authority))"
proof (induction lines arbitrary: authority)
  case (Cons line lines)
  show ?case
  proof (cases "ignored_line line")
    case True
    then show ?thesis using Cons.IH [of authority] by simp
  next
    case False
    show ?thesis
    proof (cases "parse_path_line line")
      case None
      then show ?thesis using False
        by (auto simp: parse_path_line_def split: list.splits sum.splits option.splits)
    next
      case (Some entry)
      then obtain a b c where words: "stream_words line = [a, b, c]" "fixed_parse a = Inr (pl_path entry)"
        "counter_parse b = Inr (pl_generation entry)" "parse_path_authorization c = Some (pl_state entry)"
        by (auto simp: parse_path_line_def split: list.splits sum.splits option.splits)
      have wf: "path_line_wf entry"
        using words fixed_text.parse_wf by (auto simp: path_line_wf_def counter_parse_iff)
      let ?next = "om_set (pl_path entry) \<lparr>pe_generation = pl_generation entry, pe_state = pl_state entry\<rparr> authority"
      from wf have "SetPath authority (pl_path entry) (pl_generation entry) (pl_state entry) = (Inr (), ?next)"
        by (simp add: SetPath_def path_line_wf_def ok_status_def counter_is_valid_def counter_wire_valid_def)
      then show ?thesis using Cons.IH [of ?next] False words Some wf by auto
    qed
  qed
qed simp

text \<open>
  A path that the file names twice cannot be edited: the first entry changes, and the
  authority takes the last.
\<close>

lemma edit_shadowed:
  assumes "find_path later path \<noteq> None" and "pl_path entry = path" and "find_path earlier path = None"
  shows "file_authority (rev (set_path path generation state (earlier @ entry # later))) =
    file_authority (rev (earlier @ entry # later))"
proof -
  have edit: "set_path path generation state (earlier @ entry # later) =
      earlier @ entry\<lparr>pl_generation := generation, pl_state := state\<rparr> # later"
    using assms(2,3) by (induction earlier) (auto split: if_splits)
  have split: "find_path (xs @ ys) p = (case find_path xs p of None \<Rightarrow> find_path ys p | Some e \<Rightarrow> Some e)" for xs ys p
    by (induction xs) auto
  have "find_path (rev later) path \<noteq> None" using assms(1) by (simp add: find_path_none)
  then show ?thesis
    using assms(2) by (auto simp: fun_eq_iff file_authority_def edit split split: option.splits)
qed

lemma coordinator_paths_query:
  assumes "load_paths (ko_path_file opts) contents = Some entries" and "ko_path_file opts \<noteq> []"
  shows "\<exists>a. coordinator_paths opts contents = Inr a \<and> set_paths entries [] = Inr a \<and> Query a = file_authority (rev entries)"
proof -
  obtain input where input: "contents (ko_path_file opts) = Some input" "parse_path_lines (getlines input) = Some entries"
    using assms by (auto simp: load_paths_def split: option.splits)
  have wf: "list_all path_line_wf entries" using parse_path_lines_wf input(2) .
  obtain a where a: "set_paths entries [] = Inr a" using set_paths_total [OF wf] by blast
  then have "load_authority (getlines input) [] = Inr a"
    using load_authority_same [of "getlines input" "[]"] input(2) by auto
  then show ?thesis using a input(1) assms(2) set_paths_query [OF wf a] by (simp add: coordinator_paths_def)
qed

lemma recorded_authority:
  assumes "path_recorded (ko_path_file kopts) fs fs' lines entries entry" and "distinct (map pl_path entries)"
    and "ko_path_file kopts \<noteq> []"
  shows "\<exists>a. coordinator_paths kopts (fs_texts fs') = Inr a \<and>
    Query a = (file_authority entries)(pl_path entry :=
      \<lparr>pr_path = pl_path entry, pr_generation = pl_generation entry, pr_state = pl_state entry\<rparr>)"
proof -
  obtain entries' where e: "load_paths (ko_path_file kopts) (fs_texts fs') = Some entries'" "distinct (map pl_path entries')"
    "\<And>p. find_path entries' p = (if p = pl_path entry then Some entry else find_path entries p)"
    using assms(1,2) by (auto simp: path_recorded_def)
  obtain a where "coordinator_paths kopts (fs_texts fs') = Inr a" "Query a = file_authority (rev entries')"
    using coordinator_paths_query [OF e(1) assms(3)] by blast
  moreover have "file_authority (rev entries') = (file_authority entries)(pl_path entry :=
      \<lparr>pr_path = pl_path entry, pr_generation = pl_generation entry, pr_state = pl_state entry\<rparr>)"
    by (auto simp: fun_eq_iff file_authority_def find_path_rev [OF e(2)] e(3) split: option.splits)
  ultimately show ?thesis by auto
qed

text \<open>An edit of the path file, as far as the authority of the next process is concerned.\<close>

lemma path_edit_authority:
  assumes "path_command opts command (path_text # rest) fs = ((lines, Exit 0), fs')"
    and "command = ''add'' \<or> command = ''invalidate''"
    and "load_paths (co_paths_file opts) (fs_texts fs) = Some entries" and "distinct (map pl_path entries)"
    and "ko_path_file kopts = co_paths_file opts"
  shows "\<exists>entry a. lines = [path_entry_line entry] \<and> fixed_parse path_text = Inr (pl_path entry) \<and>
    (command = ''invalidate'' \<longrightarrow> (\<exists>old. find_path entries (pl_path entry) = Some old \<and>
       unat (pl_generation entry) = unat (pl_generation old) + 1)) \<and>
    coordinator_paths kopts (fs_texts fs') = Inr a \<and>
    Query a = (file_authority entries)(pl_path entry :=
      \<lparr>pr_path = pl_path entry, pr_generation = pl_generation entry, pr_state = pl_state entry\<rparr>)"
proof -
  let ?file = "co_paths_file opts"
  have named: "?file \<noteq> []" using assms(1) by (auto simp: path_command_def)
  have "\<exists>entry. path_recorded ?file fs fs' lines entries entry \<and> fixed_parse path_text = Inr (pl_path entry) \<and>
      (command = ''invalidate'' \<longrightarrow> (\<exists>old. find_path entries (pl_path entry) = Some old \<and>
         unat (pl_generation entry) = unat (pl_generation old) + 1))"
  proof (cases "command = ''add''")
    case True
    then have run: "path_add ?file entries (path_text # rest) fs = ((lines, Exit 0), fs')"
      using assms(1,3) named by (simp add: path_command_def)
    then obtain g st extra where "rest = g # st # extra" by (auto simp: path_add_def split: list.splits)
    then show ?thesis using path_add_records [OF _ named assms(3)] run True by fastforce
  next
    case False
    then have run: "path_invalidate ?file entries (path_text # rest) fs = ((lines, Exit 0), fs')"
      using assms(1,2,3) named by (simp add: path_command_def)
    then obtain st extra where "rest = st # extra" by (auto simp: path_invalidate_def split: list.splits)
    then show ?thesis using path_invalidate_records [OF _ named assms(3)] run by fastforce
  qed
  then show ?thesis using recorded_authority [of kopts fs fs' lines entries] assms(4,5) named
    by (auto simp: path_recorded_def)
qed

section \<open>Differences of stores\<close>

definition stored :: "persisted_state \<Rightarrow> route_id \<Rightarrow> route_record option" where
  "stored state i = om_find (fill rr_id (pst_routes state) []) i"

lemma fold_os_insert_set: "set (fold os_insert xs ys) = set xs \<union> set ys"
  by (induction xs arbitrary: ys) auto

lemma route_difference_none:
  "(l \<noteq> None \<or> r \<noteq> None \<longrightarrow> route_difference l r i = []) \<longleftrightarrow>
     map_option semantic_digest l = map_option semantic_digest r"
  by (cases l; cases r) (simp_all add: route_difference_def)

lemma state_differences_none:
  "state_differences x y [] = [] \<longleftrightarrow>
     (\<forall>i. map_option semantic_digest (stored x i) = map_option semantic_digest (stored y i))"
proof -
  let ?a = "fill rr_id (pst_routes x) []" and ?b = "fill rr_id (pst_routes y) []"
  have keys: "i \<in> set (om_keys m) \<longleftrightarrow> om_find m i \<noteq> None" for m :: "(route_id, route_record) omap" and i
    by (simp add: om_keys_def map_of_eq_None_iff)
  have "state_differences x y [] = [] \<longleftrightarrow>
      (\<forall>i. om_find ?a i \<noteq> None \<or> om_find ?b i \<noteq> None \<longrightarrow> route_difference (om_find ?a i) (om_find ?b i) i = [])"
    by (auto simp: state_differences_def Let_def filter_empty_conv fold_os_insert_set keys selected_def)
  also have "\<dots> \<longleftrightarrow> (\<forall>i. map_option semantic_digest (om_find ?a i) = map_option semantic_digest (om_find ?b i))"
    by (simp only: route_difference_none)
  finally show ?thesis by (simp add: stored_def)
qed

lemma differences_counted: "concat (state_differences x y f) = [] \<longleftrightarrow> state_differences x y f = []"
proof -
  have "[] \<notin> set (state_differences x y f)" by (simp add: state_differences_def Let_def)
  then show ?thesis by (cases "state_differences x y f") auto
qed

section \<open>A serving coordinator\<close>

text \<open>The stores the coordinator may find: those whose contents are consistent.\<close>

definition admissible_files :: "files \<Rightarrow> bool" where
  "admissible_files fs \<longleftrightarrow>
     (\<forall>fabric durability path seed. opens_on (runtime_configuration fabric durability path seed) (fs_stores fs path))"

lemma coordinator_open_reachable:
  assumes "coordinator_open env opts backend config fs = (None, rt)"
    and "opens_on config (fs_stores fs (ko_store opts))"
  shows "reachable s rt"
proof -
  let ?rt = "make_runtime config (Some (chosen_id backend)) True (ke_system_seed env)"
  obtain u rt1 where opened: "Open (fs_stores fs (ko_store opts)) ?rt = (Inr u, rt1)"
    and policy: "(case coordinator_epoch_policy opts rt1 of (Some failure, rt) \<Rightarrow> (Some failure, rt)
      | (None, rt) \<Rightarrow> coordinator_reconcile env opts backend rt) = (None, rt)"
    using assms(1) by (auto simp: coordinator_open_def split: sum.splits prod.splits)
  have 1: "reachable s rt1" by (rule reachable.opened [OF opened assms(2)])
  obtain x rt2 where epoch: "coordinator_epoch_policy opts rt1 = (x, rt2)" by fastforce
  have "steps s rt1 rt2"
    using epoch by (auto simp: coordinator_epoch_policy_def split: if_splits sum.splits prod.splits
        intro: steps_one step.advance_epoch)
  moreover have "steps s rt2 rt"
    using policy epoch
    by (auto simp: coordinator_reconcile_def split: option.splits if_splits sum.splits prod.splits
        intro: ReconcileAll_steps)
  ultimately show ?thesis using 1 reachable_steps by blast
qed

lemma coordinator_start_reachable:
  assumes "coordinator_start env arguments fs = Serving lines senv st" and "admissible_files fs"
  shows "reachable s (sx_runtime st) \<and> serving senv st [] \<and> sv_limits senv = default_limits"
proof -
  obtain opts backend authority config rt port where made: "coordinator_setup env opts (fs_texts fs) = Inr (backend, authority, config)"
    and opened: "coordinator_open env opts backend config fs = (None, rt)"
    and st: "st = started_state backend rt" "senv = coordinator_server env backend authority"
    using assms(1) by (auto simp: coordinator_start_def split: sum.splits prod.splits option.splits)
  obtain fabric durability seed where "config = runtime_configuration fabric durability (ko_store opts) seed"
    using made by (auto simp: coordinator_setup_def split: sum.splits option.splits)
  then have "opens_on config (fs_stores fs (ko_store opts))"
    using assms(2) by (simp add: admissible_files_def)
  from coordinator_open_reachable [OF opened this] show ?thesis
    by (auto simp: st started_state_def coordinator_server_def intro: serving.started)
qed

text \<open>
  The life of a serving coordinator: connections are accepted or rejected, sessions hand
  frames to the runtime or end. The one request left out is the revocation of a superseded route.
\<close>

inductive coordinating :: "'b server_env \<Rightarrow> 'b server_state \<Rightarrow> 'b server_state \<Rightarrow> session list \<Rightarrow> bool"
  for env :: "'b server_env" and start :: "'b server_state" where
  ready: "coordinating env start start []"
| accept: "coordinating env start st' (session_default # ongoing)"
    if "coordinating env start st ongoing" and "accept_session env stopping st = (True, st')"
| reject: "coordinating env start st' ongoing"
    if "coordinating env start st ongoing" and "accept_session env stopping st = (False, st')"
| request: "coordinating env start st' (before @ session' # after)"
    if "coordinating env start st (before @ session # after)"
      and "handle env f session st = (continues, reply, session', st')" and "\<not> revokes_superseded f (sx_runtime st)"
| counted: "coordinating env start (count counter st) ongoing"
    if "coordinating env start st ongoing" and "counter \<in> {sc_frames_received_update, sc_malformed_frames_update,
      sc_integrity_failures_update, sc_oversized_frames_update}"
| finish: "coordinating env start (finish_session session st) (before @ after)"
    if "coordinating env start st (before @ session # after)"

lemma accept_session_runtime: "accept_session env stopping st = (a, st') \<Longrightarrow> sx_runtime st' = sx_runtime st"
  by (auto simp: accept_session_def split: if_splits)

lemma coordinating_steps: "coordinating env start st ongoing \<Longrightarrow> steps False (sx_runtime start) (sx_runtime st)"
proof (induction rule: coordinating.induct)
  case (request st before session after f continues reply session' st')
  then show ?case using handle_steps by (meson rtranclp_trans)
next
  case (finish st before session after)
  then show ?case using finish_session_steps by (meson rtranclp_trans)
qed (auto dest: accept_session_runtime)

lemma coordinating_serving:
  assumes "coordinating env start st ongoing" and "serving env start []"
  shows "serving env st ongoing"
  using assms
proof (induction rule: coordinating.induct)
  case (request st before session after f continues reply session' st')
  then show ?case by (auto intro: serving.request)
qed (auto intro: serving.accepted serving.rejected serving.frame_counted serving.finished)

section \<open>Requests made of arguments\<close>

lemma publish_arguments_valid:
  assumes "publish_arguments opts paths rest = Inr (destination_text, key, binding, generation)"
    and "load_paths (co_paths_file opts) contents = Some paths"
  shows "route_key_is_valid key \<and> rk_fabric key = co_fabric opts \<and> rk_routing_namespace key = co_namespace opts \<and>
    parse_destination destination_text 128 = Inr (rk_destination key) \<and> route_binding_is_valid binding \<and>
    (generation = 0 \<or> counter_wire_valid generation)"
proof -
  have parts: "build_key opts destination_text = Inr key" "build_binding opts paths = Inr binding"
    "parse_expected_generation opts = Inr generation"
    using assms(1) by (auto simp: publish_arguments_def split: list.splits sum.splits)
  have "generation = 0 \<or> counter_wire_valid generation"
    using parts(3) by (auto simp: parse_expected_generation_def counter_parse_iff split: if_splits)
  then show ?thesis
    using build_key_valid [OF parts(1)] build_binding_valid [OF parts(2) load_paths_wf [OF assms(2)]] by blast
qed

text \<open>A publisher that ends with the exit code 0 has reported its publication.\<close>

lemma emit_end: "emit events report = ((all, e), c) \<longleftrightarrow> (\<exists>later. report = ((later, e), c) \<and> all = events @ later)"
  by (auto simp: emit_def split: prod.splits)

lemma refused_by_end: "refused_by opts what reason = (events, Exit code) \<Longrightarrow> code = 1"
  by (auto simp: refused_by_def failed_def split: sum.splits)

lemma publisher_published:
  assumes "publisher_publish cenv opts boot_text publisher epoch key binding c = ((events, Exit 0), c')"
  shows "\<exists>c1 c2 m. client_PublishRoute cenv key binding 1 0 0 (po_reason opts) c1 = (Inr m, c2) \<and> pbr_status m = SC_Ok \<and>
    Print (Line (''published route='' @ fixed_render (pbr_route m) @
      '' lifecycle='' @ lifecycle_to_string (pbr_lifecycle m) @
      '' applied='' @ applied_classification_to_string (pbr_applied m))) \<in> set events"
proof -
  obtain attempt c1 where c1: "next_attempt c = Some (attempt, c1)"
    using assms by (auto simp: publisher_publish_def drawing_def split: option.splits)
  obtain result c2 where c2: "client_PublishRoute cenv key binding 1 0 0 (po_reason opts) c1 = (result, c2)" by fastforce
  show ?thesis
  proof (cases result)
    case (Inl e)
    then show ?thesis using assms c1 c2 refused_by_end by (fastforce simp: publisher_publish_def drawing_def)
  next
    case (Inr m)
    then show ?thesis using assms c1 c2 refused_by_end
      by (cases "pbr_status m = SC_Ok") (fastforce simp: publisher_publish_def drawing_def emit_end)+
  qed
qed

end
