(* ===== verification/RF_Samples.thy ===== *)
theory RF_Samples
  imports RF_Behaviour
begin

text \<open>
  \<^bold>\<open>Concrete configurations.\<close> Small runs of the model on which the properties are applied: a
  runtime without a store, a publisher registered with the right to override, and a route
  over an authorized path.
\<close>

definition sample_limits :: limits where
  "sample_limits =
     \<lparr>max_routes = 4, max_routing_namespaces = 4, max_frame_bytes = 64, max_destination_chars = 32,
      max_history_entries_per_route = 4, max_outstanding_programming = 4, max_publishers = 4,
      max_sessions = 4, max_snapshot_routes = 4, max_batch_mutations = 4, max_publisher_scopes = 4,
      max_persist_bytes = 4096\<rparr>"

definition sample_config :: runtime_config where
  "sample_config =
     \<lparr>cf_fabric = ''f'', cf_limits = sample_limits, cf_durability = DU_None, cf_store_path = [],
      cf_id_seed = 42, cf_history_limit = 4\<rparr>"

definition sample_files :: route_store where
  "sample_files = route_store sample_limits DU_None"

definition sample_scope :: publisher_scope where
  "sample_scope =
     \<lparr>sp_fabric = ''f'', sp_namespaces = [], sp_destinations = [], sp_route_classes = [],
      sp_wildcard_namespaces = True, sp_wildcard_destinations = True, sp_wildcard_route_classes = True,
      sp_administrative_override = True\<rparr>"

definition sample_key :: route_key where
  "sample_key =
     \<lparr>rk_fabric = ''f'', rk_routing_namespace = ''n'',
      rk_destination = \<lparr>dst_kind = DK_FabricEndpoint, dst_valid = True, dst_address = 0, dst_prefix_length = 0,
        dst_token = ''d''\<rparr>,
      rk_route_class = RC_Logical\<rparr>"

definition sample_binding :: route_binding where
  "sample_binding =
     \<lparr>rb_kind = BK_AuthorizedPath,
      rb_next_hop = \<lparr>nh_kind = NH_Router, nh_next_hop = 0, nh_next_hop_group = 0, nh_entity_generation = 1\<rparr>,
      rb_path = 7, rb_path_authority_generation = 1, rb_policy_generation = 1\<rparr>"

definition sample_request :: publish_request where
  "sample_request =
     \<lparr>pq_publisher = ''p'', pq_worker_boot = 5, pq_attempt = 9, pq_key = sample_key, pq_binding = sample_binding,
      pq_policy_generation = 1, pq_expected_generation = 0, pq_lineage = 3, pq_reason = []\<rparr>"

definition sample_query :: path_query where
  "sample_query path = \<lparr>pr_path = path, pr_generation = 1, pr_state = PA_Usable\<rparr>"

lemmas sample_defs = sample_limits_def sample_config_def sample_files_def sample_scope_def sample_key_def
  sample_binding_def sample_request_def sample_query_def

lemma sample_tokens [simp]:
  "token_is_valid ''p''" "token_is_valid ''f''" "token_is_valid ''n''" "token_is_valid ''d''"
  "token_is_valid ''b''"
  by (simp_all add: token_is_valid_def is_valid_token_text_def kTokenMaxLength_def is_alphanumeric_def
      is_token_char_def char_between_def)

lemma sample_counter: "\<not> kMaxValue \<le> 1" "\<not> (2 :: u64) \<le> 1"
  by code_simp+

section \<open>Opening and registering\<close>

definition sample_opened :: runtime where
  "sample_opened = (make_runtime sample_config (Some ''b'') True 1)\<lparr>rt_opened := True\<rparr>"

definition sample_registration :: publisher_registration where
  "sample_registration =
     \<lparr>rg_publisher = ''p'', rg_worker_boot = 5, rg_epoch = 1, rg_scope = sample_scope, rg_fenced = False,
      rg_fence_reason = FR_SessionClosed\<rparr>"

definition sample_registered :: runtime where
  "sample_registered = sample_opened\<lparr>rt_registrations := [(''p'', sample_registration)]\<rparr>"

lemma sample_opened_fields [simp]:
  "rt_config sample_opened = sample_config" "rt_backend sample_opened = Some ''b''"
  "rt_epoch sample_opened = 1" "rt_opened sample_opened" "rt_routes sample_opened = []"
  "rt_key_index sample_opened = []" "rt_path_index sample_opened = []"
  "rt_publisher_index sample_opened = []" "rt_lifecycle_index sample_opened = []"
  "rt_namespace_counts sample_opened = []" "rt_attempts sample_opened = []"
  "rt_revocations sample_opened = []" "rt_registrations sample_opened = []"
  "rt_administrative_fences sample_opened = []" "rt_fenced_boots sample_opened = []"
  "rt_store sample_opened = None" "rt_ids sample_opened = seeded_id_source 42"
  "rt_outstanding sample_opened = 0"
  by (simp_all add: sample_opened_def make_runtime_def sample_config_def)

lemma Open_sample:
  "Open sample_files (make_runtime sample_config (Some ''b'') True 1) = (Inr (), sample_opened)"
  by (simp add: sample_opened_def sample_defs Open_def make_runtime_def limits_validate_def recover_def
      om_values_def ok_status_def)

lemma sample_opens_on: "opens_on sample_config sample_files"
  by (simp add: opens_on_def Load_def bind_store_def route_store_def next_io_def load_snapshot_def sample_defs
      admissible_def initial_state_def)

lemma sample_opened_reachable: "reachable s sample_opened"
  by (rule reachable.opened [OF Open_sample sample_opens_on])

lemma RegisterPublisher_sample:
  "RegisterPublisher ''p'' 5 sample_scope sample_opened = (Inr sample_registration, sample_registered)"
proof -
  have "scope_admissible sample_config sample_scope = Inr ()"
    by (simp add: scope_admissible_def sample_defs ok_status_def)
  then show ?thesis
    by (simp add: RegisterPublisher_def om_contains_def sample_config_def sample_limits_def Let_def
        sample_registration_def sample_registered_def sample_opened_def make_runtime_def)
qed

lemma sample_registered_reachable: "reachable s sample_registered"
  by (rule reachable.continue [OF sample_opened_reachable step.register [OF RegisterPublisher_sample]])

lemma sample_registered_fields [simp]:
  "rt_config sample_registered = sample_config" "rt_backend sample_registered = Some ''b''"
  "rt_epoch sample_registered = 1" "rt_opened sample_registered" "rt_routes sample_registered = []"
  "rt_key_index sample_registered = []" "rt_path_index sample_registered = []"
  "rt_publisher_index sample_registered = []" "rt_lifecycle_index sample_registered = []"
  "rt_namespace_counts sample_registered = []" "rt_attempts sample_registered = []"
  "rt_revocations sample_registered = []"
  "rt_registrations sample_registered = [(''p'', sample_registration)]"
  "rt_administrative_fences sample_registered = []" "rt_fenced_boots sample_registered = []"
  "rt_store sample_registered = None" "rt_ids sample_registered = seeded_id_source 42"
  "rt_outstanding sample_registered = 0"
  by (simp_all add: sample_registered_def)

section \<open>Publishing\<close>

text \<open>The first identifier drawn from the source stays symbolic: only that it is not zero matters.\<close>

definition sample_draw :: "programming_attempt_id \<times> seeded_id_source" where
  "sample_draw = the (generate_id (seeded_id_source 42))"

lemma sample_draw_some: "generate_id (seeded_id_source 42) = Some sample_draw" "fst sample_draw \<noteq> 0"
  using generate_id_returns [OF seeded_id_source_alive [of 42]] by (auto simp: sample_draw_def)

definition sample_publishing :: runtime where
  "sample_publishing = sample_registered\<lparr>rt_ids := snd sample_draw\<rparr>"

lemma sample_publishing_fields [simp]:
  "rt_config sample_publishing = sample_config" "rt_backend sample_publishing = Some ''b''"
  "rt_epoch sample_publishing = 1" "rt_opened sample_publishing" "rt_routes sample_publishing = []"
  "rt_key_index sample_publishing = []" "rt_path_index sample_publishing = []"
  "rt_publisher_index sample_publishing = []" "rt_lifecycle_index sample_publishing = []"
  "rt_namespace_counts sample_publishing = []" "rt_attempts sample_publishing = []"
  "rt_revocations sample_publishing = []"
  "rt_registrations sample_publishing = [(''p'', sample_registration)]"
  "rt_administrative_fences sample_publishing = []" "rt_fenced_boots sample_publishing = []"
  "rt_store sample_publishing = None" "rt_outstanding sample_publishing = 0"
  by (simp_all add: sample_publishing_def)

lemma draw_sample: "draw_attempt_id sample_registered = (fst sample_draw, sample_publishing)"
  by (simp add: draw_attempt_id_def sample_draw_some sample_publishing_def split_beta)

definition sample_base :: route_record where
  "sample_base =
     \<lparr>rr_id = 3, rr_key = sample_key, rr_generation = 1, rr_authority_generation = 1,
      rr_invalidation_watermark = 1, rr_programming_generation = 1, rr_lifecycle = LC_Ready,
      rr_binding = sample_binding, rr_applied = applied_default, rr_observation = observation_default,
      rr_provenance = provenance_default\<lparr>pv_path_authority_generation := no_path_authority\<rparr>,
      rr_supersession = supersession_default, rr_retirement = retirement_default, rr_history = []\<rparr>"

definition sample_route :: route_record where
  "sample_route = published_record sample_publishing sample_request None LC_Installing 2 (fst sample_draw) sample_base"

definition sample_attempt :: programming_attempt_record where
  "sample_attempt = make_attempt sample_publishing (fst sample_draw) sample_route OP_Install"

definition sample_published :: runtime where
  "sample_published =
     bump ct_publications_update
       (bump ct_programming_dispatches_update
          (record_attempt sample_attempt (commit sample_route sample_publishing)))"

lemma sample_route_fields [simp]:
  "rr_id sample_route = 3" "rr_key sample_route = sample_key" "rr_generation sample_route = 1"
  "rr_authority_generation sample_route = 1" "rr_invalidation_watermark sample_route = 1"
  "rr_programming_generation sample_route = 2" "rr_lifecycle sample_route = LC_Installing"
  "rr_binding sample_route = sample_binding"
  "rr_provenance sample_route =
     \<lparr>pv_publisher = ''p'', pv_worker_boot = 5, pv_epoch = 1, pv_source_class = PS_LineageMint,
      pv_source_generation = 1, pv_mutation_attempt = 9, pv_policy_generation = 1,
      pv_path_authority_generation = 1\<rparr>"
  "rr_observation sample_route = observation_default\<lparr>ob_backend := ''b''\<rparr>"
  "rr_applied sample_route =
     applied_default\<lparr>ap_classification := AC_Pending, ap_attempt := fst sample_draw,
       ap_programming_generation := 2, ap_programmed_generation := 1,
       ap_programmed_authority_generation := 1, ap_backend := ''b''\<rparr>"
  "rr_supersession sample_route = supersession_default" "rr_retirement sample_route = retirement_default"
  by (simp_all add: sample_route_def published_record_def push_history_def sample_base_def sample_request_def Let_def
      sample_binding_def binding_path_authority_def backend_id_of_def)

lemma sample_key_valid: "route_key_is_valid sample_key" "rk_fabric sample_key = ''f''"
  by (simp_all add: sample_key_def route_key_is_valid_def)

lemma sample_binding_valid: "route_binding_is_valid sample_binding"
  by (simp add: sample_binding_def route_binding_is_valid_def counter_is_valid_def)

lemma publish_validate_sample: "publish_validate sample_request = Inr ()"
  using sample_key_valid sample_binding_valid
  by (simp add: publish_validate_def validate_common_def sample_request_def counter_is_valid_def kMaxDiagnosticChars_def
      ok_status_def)

lemma publish_create_sample: "publish_create sample_request sample_registered = Inr sample_base"
  by (simp add: publish_create_def om_contains_def sample_config_def sample_limits_def apply_event_def table_simps
      ok_status_def sample_request_def sample_base_def)

lemma sample_history:
  "rr_history sample_route =
     [\<lparr>le_generation = 1, le_prior_generation = 0, le_event = EV_BeginInstall, le_lifecycle = LC_Installing,
       le_binding_kind = BK_AuthorizedPath, le_path = 7, le_path_authority_generation = 1,
       le_publisher = ''p'', le_epoch = 1\<rparr>]"
  by (simp add: sample_route_def published_record_def push_history_def sample_base_def Let_def
      sample_defs binding_path_authority_def backend_id_of_def)

lemma validate_sample_route: "validate_route_record sample_route sample_limits = Inr ()"
proof -
  have "validate_fields sample_route sample_limits = Inr ()"
    using sample_key_valid sample_binding_valid
    by (simp add: validate_fields_def sample_history sample_limits_def counter_is_valid_def is_lifecycle_value_def kRouteLifecycleCount_def
        applied_default_def observation_default_def supersession_default_def retirement_default_def
        kMaxDiagnosticChars_def ok_status_def)
  moreover have "validate_history (rr_generation sample_route) None (rr_history sample_route) = Inr ()"
    by (simp add: sample_history counter_is_valid_def ok_status_def)
  moreover have "validate_lifecycle_evidence sample_route = Inr ()"
    by (simp add: validate_lifecycle_evidence_def retirement_default_def ok_status_def)
  ultimately show ?thesis by (simp add: validate_route_record_def)
qed

lemma publish_commit_sample:
  "\<exists>p. pn_route p = 3 \<and> publish_commit sample_request None False sample_base sample_registered = (Dispatching p, sample_published)"
proof -
  have start: "apply_event (rr_lifecycle sample_base) EV_BeginInstall = (Inr (), LC_Installing)"
    by (simp add: sample_base_def apply_event_def table_simps ok_status_def)
  have advance: "advance_programming sample_base = Inr 2"
    using sample_counter by (simp add: advance_programming_def sample_base_def counter_next_def)
  have dispatch: "commit_dispatch sample_route sample_attempt sample_publishing =
      (Inr (), bump ct_programming_dispatches_update (record_attempt sample_attempt (commit sample_route sample_publishing)))"
    using validate_sample_route
    by (simp add: commit_dispatch_def persist_def sample_config_def sample_limits_def ok_status_def)
  show ?thesis
    by (simp add: publish_commit_def start advance draw_sample Let_def sample_route_def [symmetric]
        sample_attempt_def [symmetric] dispatch sample_published_def)
qed

lemma publish_sample:
  "\<exists>p. pn_route p = 3 \<and> publish_begin sample_query False sample_request sample_registered = (Dispatching p, sample_published)"
proof -
  have "authorize sample_registered ''p'' 5 = Inr sample_registration"
    by (simp add: authorize_registered om_contains_def sample_registration_def)
  moreover have "check_scope sample_registration sample_key sample_registered = (Inr (), sample_registered)"
    using sample_key_valid
    by (simp add: check_scope_def covers_def sample_registration_def sample_scope_def ok_status_def)
  moreover have "publish_lookup sample_registered sample_key = None"
    by (simp add: publish_lookup_def)
  moreover have "path_check sample_query False sample_binding sample_registered = (Inr (), sample_registered)"
    by (simp add: path_check_def sample_binding_def sample_query_def usable_def Let_def ok_status_def)
  moreover have "pq_publisher sample_request = ''p''" "pq_worker_boot sample_request = 5"
    "pq_key sample_request = sample_key" "pq_binding sample_request = sample_binding"
    by (simp_all add: sample_request_def)
  ultimately show ?thesis
    using publish_commit_sample
    by (simp add: publish_begin_def publish_validate_sample publish_new_def publish_create_sample)
qed

text \<open>The state after the publication: one route being installed, one outstanding attempt.\<close>

lemma sample_attempt_fields [simp]:
  "at_attempt sample_attempt = fst sample_draw" "at_route sample_attempt = 3"
  "at_desired_generation sample_attempt = 1" "at_programming_generation sample_attempt = 2"
  "at_operation sample_attempt = OP_Install" "at_epoch sample_attempt = 1" "\<not> at_resolved sample_attempt"
  by (simp_all add: sample_attempt_def make_attempt_def)

lemma sample_published_fields [simp]:
  "rt_config sample_published = sample_config" "rt_backend sample_published = Some ''b''"
  "rt_epoch sample_published = 1" "rt_opened sample_published" "rt_routes sample_published = [(3, sample_route)]"
  "rt_key_index sample_published = [(sample_key, 3)]" "rt_path_index sample_published = [(7, [3])]"
  "rt_attempts sample_published = [(fst sample_draw, sample_attempt)]"
  "rt_revocations sample_published = []"
  "rt_registrations sample_published = [(''p'', sample_registration)]"
  "rt_administrative_fences sample_published = []" "rt_fenced_boots sample_published = []"
  "rt_store sample_published = None" "rt_outstanding sample_published = 1"
  by (simp_all add: sample_published_def bump_def record_attempt_def Let_def commit_def index_insert_def
      insert_key_def insert_path_def sample_binding_def mi_insert_def mi_members_def)

lemma sample_fresh: "draws_fresh sample_registered \<and> publishes_fresh sample_request sample_registered"
  by (simp add: draws_fresh_def publishes_fresh_def publish_lookup_def)

lemma sample_published_reachable: "reachable s sample_published"
  using publish_sample sample_fresh reachable.continue [OF sample_registered_reachable step.publish] by blast

section \<open>The backend answers\<close>

definition sample_result :: programming_result where
  "sample_result =
     \<lparr>ps_outcome = PO_Applied, ps_attempt = fst sample_draw, ps_backend = ''b'', ps_detail = []\<rparr>"

definition sample_installed :: runtime where
  "sample_installed = snd (apply_completion_locked sample_result sample_published)"

lemma complete_sample: "apply_completion_locked sample_result sample_published = (CD_Applied, sample_installed)"
  by (simp add: sample_installed_def apply_completion_locked_def sample_result_def Let_def completion_stale_def om_contains_def
      table_simps persist_def ok_status_def)

lemma sample_installed_reachable: "reachable s sample_installed"
  by (rule reachable.continue [OF sample_published_reachable step.complete [OF complete_sample]])

lemma sample_installed_route:
  "\<exists>r. om_find (rt_routes sample_installed) 3 = Some r \<and> rr_lifecycle r = LC_Installed \<and> rr_generation r = 1 \<and>
     rr_binding r = sample_binding \<and> rr_id r = 3 \<and> rr_key r = sample_key"
  using completion_applied [OF complete_sample]
  by (auto simp: sample_result_def outcome_event_def table_simps completed_record_def push_history_def Let_def)

section \<open>Fencing and epochs\<close>

definition sample_fenced :: runtime where
  "sample_fenced = snd (FenceWorkerBoot 5 FR_Administrative sample_published)"

lemma sample_fenced_boot: "5 \<in> set (rt_fenced_boots sample_fenced)"
  by (simp add: sample_fenced_def FenceWorkerBoot_def Let_def)

lemma sample_fenced_reachable: "reachable s sample_fenced"
  unfolding sample_fenced_def
  by (rule reachable.continue [OF sample_published_reachable step.fence_boot [OF surjective_pairing]])

lemma authorize_sample: "authorize sample_registered ''p'' 5 = Inr sample_registration"
  by (simp add: authorize_registered om_contains_def sample_registration_def)

lemma AdvanceEpoch_sample: "AdvanceEpoch sample_registered = (Inr 2, snd (AdvanceEpoch sample_registered))"
  using sample_counter by (simp add: AdvanceEpoch_def counter_next_def Let_def)

section \<open>Requests and path changes\<close>

definition sample_revocation :: lifecycle_request where
  "sample_revocation = \<lparr>lq_publisher = ''p'', lq_worker_boot = 5, lq_attempt = 11, lq_route = 3, lq_reason = []\<rparr>"

lemma sample_revocation_valid:
  "validate_lifecycle_request (lq_publisher sample_revocation) (lq_worker_boot sample_revocation)
     (lq_attempt sample_revocation) (lq_route sample_revocation) (lq_reason sample_revocation) = Inr ()"
  by (simp add: sample_revocation_def validate_lifecycle_request_def validate_common_def kMaxDiagnosticChars_def
      ok_status_def)

lemma sample_request_fields:
  "pq_publisher sample_request = ''p''" "pq_worker_boot sample_request = 5" "pq_key sample_request = sample_key"
  "pq_binding sample_request = sample_binding" "pq_expected_generation sample_request = 0"
  by (simp_all add: sample_request_def)

lemma sample_route_invalidated: "invalidated_by 7 2 PA_Usable sample_published sample_route"
  by (simp add: invalidated_by_def sample_binding_def om_contains_def asserts_installability_def outdated_def)

lemma invalidate_path_sample:
  "invalidate_path_locked 7 2 PA_Usable sample_published =
     (Inr (), snd (invalidate_path_locked 7 2 PA_Usable sample_published))"
proof -
  have "publish_advance sample_route = Inr (sample_route\<lparr>rr_generation := 2, rr_authority_generation := 2\<rparr>)"
    using sample_counter
    by (simp add: publish_advance_def advance_generation_def advance_authority_def counter_next_def)
  then show ?thesis
    by (simp add: invalidate_path_locked_def invalidate_record_def om_contains_def asserts_installability_def
        sample_binding_def apply_event_def table_simps persist_def ok_status_def)
qed

section \<open>A superseded predecessor\<close>

definition sample_predecessor :: route_record where
  "sample_predecessor =
     sample_route\<lparr>rr_id := 4, rr_lifecycle := LC_Superseded,
       rr_supersession := supersession_default\<lparr>su_kind := SK_LineageTakeover\<rparr>\<rparr>"

definition sample_taken_over :: runtime where
  "sample_taken_over = sample_published\<lparr>rt_routes := [(3, sample_route), (4, sample_predecessor)]\<rparr>"

definition sample_late_revocation :: lifecycle_request where
  "sample_late_revocation = sample_revocation\<lparr>lq_route := 4\<rparr>"

lemma sample_predecessor_fields [simp]:
  "rr_id sample_predecessor = 4" "rr_key sample_predecessor = sample_key"
  "rr_lifecycle sample_predecessor = LC_Superseded" "rr_generation sample_predecessor = 1"
  "rr_authority_generation sample_predecessor = 1"
  by (simp_all add: sample_predecessor_def)

lemma sample_taken_over_fields [simp]:
  "rt_routes sample_taken_over = [(3, sample_route), (4, sample_predecessor)]"
  "rt_key_index sample_taken_over = [(sample_key, 3)]" "rt_revocations sample_taken_over = []"
  "rt_opened sample_taken_over" "lq_route sample_late_revocation = 4" "rt_store sample_taken_over = None"
  "rt_config sample_taken_over = sample_config" "rt_epoch sample_taken_over = 1"
  by (simp_all add: sample_taken_over_def sample_late_revocation_def)

lemma revoke_sample_valid:
  assumes "advanced = sample_predecessor\<lparr>rr_generation := 2, rr_authority_generation := 2\<rparr>"
  shows "validate_route_record (retired_record sample_taken_over sample_late_revocation RT_Revoked EV_Revoke LC_Retired 1
    advanced) sample_limits = Inr ()"
proof -
  let ?u = "retired_record sample_taken_over sample_late_revocation RT_Revoked EV_Revoke LC_Retired 1 advanced"
  note defs = assms sample_predecessor_def retired_record_def push_history_def sample_history Let_def
    sample_config_def sample_late_revocation_def sample_revocation_def bounded_def kMaxDiagnosticChars_def
  have "validate_fields ?u sample_limits = Inr ()"
    using sample_key_valid sample_binding_valid
    by (simp add: validate_fields_def defs sample_limits_def counter_is_valid_def is_lifecycle_value_def
        kRouteLifecycleCount_def applied_default_def observation_default_def supersession_default_def
        ok_status_def)
  moreover have "validate_history (rr_generation ?u) None (rr_history ?u) = Inr ()"
    using sample_counter by (simp add: defs counter_is_valid_def ok_status_def)
  moreover have "validate_lifecycle_evidence ?u = Inr ()"
    by (simp add: validate_lifecycle_evidence_def defs counter_is_valid_def ok_status_def)
  ultimately show ?thesis by (simp add: validate_route_record_def)
qed

lemma revoke_sample:
  "\<exists>x. RevokeRoute sample_late_revocation sample_taken_over =
     (Inr x, snd (RevokeRoute sample_late_revocation sample_taken_over))"
proof -
  let ?advanced = "sample_predecessor\<lparr>rr_generation := 2, rr_authority_generation := 2\<rparr>"
  have "validate_lifecycle_request (lq_publisher sample_late_revocation) (lq_worker_boot sample_late_revocation)
      (lq_attempt sample_late_revocation) 4 (lq_reason sample_late_revocation) = Inr ()"
    by (simp add: sample_late_revocation_def sample_revocation_def validate_lifecycle_request_def validate_common_def
        kMaxDiagnosticChars_def ok_status_def)
  moreover have "authorize sample_taken_over (lq_publisher sample_late_revocation)
      (lq_worker_boot sample_late_revocation) = Inr sample_registration"
    by (simp add: authorize_registered om_contains_def sample_registration_def sample_taken_over_def
        sample_late_revocation_def sample_revocation_def)
  moreover have "publish_advance sample_predecessor = Inr ?advanced"
    using sample_counter
    by (simp add: publish_advance_def advance_generation_def advance_authority_def counter_next_def)
  moreover have "apply_event LC_Superseded EV_Revoke = (Inr (), LC_Retired)"
    by (simp add: apply_event_def table_simps ok_status_def)
  moreover have "sp_administrative_override (rg_scope sample_registration)"
    by (simp add: sample_registration_def sample_scope_def)
  moreover have "cf_limits sample_config = sample_limits" by (simp add: sample_config_def)
  ultimately show ?thesis
    using revoke_sample_valid [OF refl]
    by (simp add: RevokeRoute_def om_contains_def Let_def persist_def ok_status_def)
qed

section \<open>A parsed prefix\<close>

definition sample_prefix :: destination where
  "sample_prefix =
     \<lparr>dst_kind = DK_Ipv4Prefix, dst_valid = True, dst_address = 0x0A000000000000000000000000000000,
      dst_prefix_length = 8, dst_token = []\<rparr>"

lemma parse_sample: "parse_destination ''10.1.2.3/8'' m = Inr sample_prefix"
proof -
  have zeros: "replicate 12 (0 :: u8) = [0, 0, 0, 0, 0, 0, 0, 0, 0, 0, 0, 0]" by code_simp
  have positions: "[0..<16] = [0, 1, 2, 3, 4, 5, 6, 7, 8, 9, 10, 11, 12, 13, 14, 15]" by code_simp
  have "array16_of (map ucast [10, 1, 2, 3 :: u32] @ replicate 12 0) = 0x0A010203000000000000000000000000"
    by (simp add: array16_of_def le_load_def zeros positions push_bit_eq_mult)
  moreover have "mask_host_bits 0x0A010203000000000000000000000000 8 = 0x0A000000000000000000000000000000"
    by (simp add: mask_host_bits_mask mask_eq_exp_minus_1)
  moreover have "split_prefix ''10.1.2.3/8'' = Some (''10.1.2.3'', ''8'')" by code_simp
  moreover have "parse_octets ''10.1.2.3'' = Some [10, 1, 2, 3]" "parse_decimal_field ''8'' 32 = Some 8"
    by code_simp+
  ultimately show ?thesis
    by (simp add: parse_destination_def parse_ipv4_prefix_def Let_def is_digit_def char_between_def
        destination_default_def sample_prefix_def)
qed

lemma sample_prefix_fields: "dst_valid sample_prefix" "is_prefix_kind (dst_kind sample_prefix)"
  by (simp_all add: sample_prefix_def is_prefix_kind_def)

end
