(* ===== verification/RF_Remote.thy ===== *)
theory RF_Remote
  imports RF_Client
begin

text \<open>
  \<^bold>\<open>Client and server together.\<close> A connection joins a client to a session of the
  server: what the client sends arrives at the session in chunks, and what the session
  sends waits to be read. The connection is an instance of the client's socket contract, so
  every exchange is one application of the server's \<open>handle\<close>.
\<close>

section \<open>Connections\<close>

record 'b connection =
  co_open :: bool
  co_buffer :: bytes
  co_session :: session
  co_server :: "'b server_state"
  co_unread :: bytes

definition new_connection :: "'b server_state \<Rightarrow> 'b connection" where
  "new_connection st =
     \<lparr>co_open = True, co_buffer = [], co_session = session_default, co_server = st, co_unread = []\<rparr>"

text \<open>One turn of \<open>session_loop\<close>: a chunk is received and the complete frames are handled.\<close>

definition receive_chunk :: "'b server_env \<Rightarrow> bytes \<Rightarrow> 'b connection \<Rightarrow> 'b connection" where
  "receive_chunk env chunk co =
     (if \<not> co_open co then co
      else if length (co_buffer co) + length chunk > max_frame_bytes (sv_limits env) + kFrameHeaderBytes then
        co\<lparr>co_open := False, co_buffer := [],
           co_server := finish_session (co_session co) (count sc_oversized_frames_update (co_server co)),
           co_unread := co_unread co @ send_error env SC_LimitExceeded
             ''the peer sent more bytes than the configured frame bound''\<rparr>
      else case drain env (co_buffer co @ chunk) (co_session co) (co_server co) of
        (Ended, replies, session, st) \<Rightarrow>
          co\<lparr>co_open := False, co_buffer := [], co_session := session, co_server := finish_session session st,
             co_unread := co_unread co @ concat replies\<rparr>
      | (Waiting buffer, replies, session, st) \<Rightarrow>
          co\<lparr>co_buffer := buffer, co_session := session, co_server := st,
             co_unread := co_unread co @ concat replies\<rparr>)"

definition hang_up :: "'b connection \<Rightarrow> 'b server_state" where
  "hang_up co = (if co_open co then finish_session (co_session co) (co_server co) else co_server co)"

text \<open>The chunks one after the other, then the end of the connection: that is \<open>session_loop\<close>.\<close>

lemma receive_closed: "\<not> co_open co \<Longrightarrow> fold (receive_chunk env) chunks co = co"
  by (induction chunks) (simp_all add: receive_chunk_def)

lemma drain_waits:
  "drain env buffer session st = (Waiting rest, replies, session', st') \<Longrightarrow>
   drain env rest session' st' = (Waiting rest, [], session', st') \<and> length rest \<le> length buffer"
proof (induction env buffer session st arbitrary: replies rule: drain.induct)
  case (1 env buffer session st)
  note step = drain.simps [of env buffer session st]
  show ?case
  proof (cases "drain env buffer session st = (Waiting buffer, [], session, st)")
    case True
    with "1.prems" show ?thesis by simp
  next
    case False
    then obtain n decoded continues reply session1 st1 p later where
      more: "kFrameHeaderBytes \<le> length buffer" "n \<le> length buffer"
        "frame_header_status (sv_wire env) (sv_limits env) buffer = (FS_Complete, n)"
        "decode_frame (sv_wire env) (sv_limits env) (take n buffer) = Inr decoded"
        "handle env decoded session (count sc_frames_received_update st) = (continues, reply, session1, st1)"
        "continues" and rec: "drain env (drop n buffer) session1 st1 = (Waiting rest, later, session', st')"
      using "1.prems"
      by (subst (asm) step) (auto simp: step not_less split: if_splits prod.splits sum.splits)
    note ih = "1.IH" [OF _ more(3) [symmetric] _ _ more(2) more(4) more(5) [symmetric] refl refl _ rec]
    show ?thesis using ih more by (auto simp: not_less)
  qed
qed

lemma session_is_fold:
  assumes "co_open co"
    and "drain env (co_buffer co) (co_session co) (co_server co) =
      (Waiting (co_buffer co), [], co_session co, co_server co)"
  shows "co_unread (fold (receive_chunk env) chunks co) =
      co_unread co @ concat (fst (session_loop env (co_buffer co) chunks (co_session co) (co_server co))) \<and>
    hang_up (fold (receive_chunk env) chunks co) =
      snd (session_loop env (co_buffer co) chunks (co_session co) (co_server co))"
  using assms
proof (induction chunks arbitrary: co)
  case Nil
  then show ?case by (simp add: session_loop.simps hang_up_def)
next
  case (Cons chunk chunks)
  let ?bound = "max_frame_bytes (sv_limits env) + kFrameHeaderBytes"
  obtain p replies session st where
    drained: "drain env (co_buffer co @ chunk) (co_session co) (co_server co) = (p, replies, session, st)"
    by (metis prod_cases4)
  note start = session_loop.simps [of env "co_buffer co" "chunk # chunks"]
  note next_turn = session_loop.simps [of env "co_buffer co @ chunk"]
  show ?case
  proof (cases "length (co_buffer co) + length chunk > ?bound")
    case True
    then show ?thesis
      using Cons.prems by (simp add: start receive_chunk_def [of env chunk co] receive_closed hang_up_def)
  next
    case False
    show ?thesis
    proof (cases p)
      case Ended
      then show ?thesis
        using Cons.prems False drained
        by (simp add: start next_turn receive_chunk_def [of env chunk co] receive_closed hang_up_def)
    next
      case (Waiting rest)
      let ?co = "receive_chunk env chunk co"
      have co: "co_open ?co" "co_buffer ?co = rest" "co_session ?co = session" "co_server ?co = st"
        "co_unread ?co = co_unread co @ concat replies"
        using Cons.prems False drained Waiting by (simp_all add: receive_chunk_def)
      have waits: "drain env rest session st = (Waiting rest, [], session, st)"
        using drain_waits drained Waiting by blast
      have "session_loop env (co_buffer co @ chunk) chunks (co_session co) (co_server co) =
          (replies @ fst (session_loop env rest chunks session st), snd (session_loop env rest chunks session st))"
        using drained Waiting waits
        by (simp add: next_turn session_loop.simps [of env rest] split: list.splits prod.splits)
      then show ?thesis
        using Cons.IH [of ?co] Cons.prems False co waits by (simp add: start)
    qed
  qed
qed

section \<open>The connection as a socket\<close>

text \<open>
  A call of \<open>send\<close> or \<open>recv\<close> transfers at most \<open>mss + 1\<close> bytes. Reading with nothing to
  read reports a closed peer.
\<close>

definition connection_ops :: "'b server_env \<Rightarrow> nat \<Rightarrow> 'b connection \<Rightarrow> 'b connection socket_ops" where
  "connection_ops env mss start =
     \<lparr>sk_create = (\<lambda>host. Some start), sk_connect = (\<lambda>host port co. Some co),
      sk_send = (\<lambda>data co.
        let n = min (mss + 1) (length data) in (int n, receive_chunk env (take n data) co)),
      sk_recv = (\<lambda>n co.
        let m = min (min n (mss + 1)) (length (co_unread co))
        in (Some (take m (co_unread co)), co\<lparr>co_unread := drop m (co_unread co)\<rparr>))\<rparr>"

definition connection_accepts :: "'b server_env \<Rightarrow> bytes \<Rightarrow> 'b connection \<Rightarrow> bool" where
  "connection_accepts env data co \<longleftrightarrow>
     length (co_buffer co) + length data \<le> max_frame_bytes (sv_limits env) + kFrameHeaderBytes"

definition connection_consume :: "nat \<Rightarrow> 'b connection \<Rightarrow> 'b connection" where
  "connection_consume n co = co\<lparr>co_unread := drop n (co_unread co)\<rparr>"

lemma receive_accepts_rest:
  "connection_accepts env (xs @ ys) co \<Longrightarrow> connection_accepts env ys (receive_chunk env xs co)"
  using drain_waits [of env "co_buffer co @ xs" "co_session co" "co_server co"]
  by (fastforce simp: connection_accepts_def receive_chunk_def split: prod.splits progress.splits)

lemma receive_append:
  assumes "connection_accepts env (xs @ ys) co"
  shows "receive_chunk env ys (receive_chunk env xs co) = receive_chunk env (xs @ ys) co"
proof (cases "co_open co")
  case False
  then show ?thesis by (simp add: receive_chunk_def)
next
  case True
  note whole = drain_append [of env "co_buffer co @ xs" ys "co_session co" "co_server co"]
  obtain p replies session st where
    drained: "drain env (co_buffer co @ xs) (co_session co) (co_server co) = (p, replies, session, st)"
    by (metis prod_cases4)
  have fits: "length (co_buffer co) + length xs + length ys \<le> max_frame_bytes (sv_limits env) + kFrameHeaderBytes"
    using assms by (simp add: connection_accepts_def add.assoc)
  show ?thesis
  proof (cases p)
    case Ended
    then show ?thesis
      using True fits drained whole by (simp add: receive_chunk_def resume_def)
  next
    case (Waiting rest)
    then have "length rest \<le> length (co_buffer co) + length xs"
      using drain_waits drained by fastforce
    then show ?thesis
      using True fits drained whole Waiting
      by (simp add: receive_chunk_def resume_def split: prod.splits progress.splits)
  qed
qed

interpretation served: stream_socket "connection_ops env mss start" "connection_accepts env" "receive_chunk env"
  co_unread connection_consume for env :: "'b server_env" and mss :: nat and start :: "'b connection"
proof unfold_locales
  show "\<exists>n. 0 < n \<and> n \<le> length data \<and>
      sk_send (connection_ops env mss start) data p = (int n, receive_chunk env (take n data) p)"
    if "data \<noteq> []" for data p
    using that by (intro exI [of _ "min (mss + 1) (length data)"]) (auto simp: connection_ops_def Let_def)
  show "\<exists>m. 0 < m \<and> m \<le> n \<and> m \<le> length (co_unread p) \<and>
      sk_recv (connection_ops env mss start) n p = (Some (take m (co_unread p)), connection_consume m p)"
    if "0 < n" "co_unread p \<noteq> []" for n p
    using that by (intro exI [of _ "min (min n (mss + 1)) (length (co_unread p))"])
      (auto simp: connection_ops_def connection_consume_def Let_def)
qed (simp_all add: receive_accepts_rest receive_append connection_consume_def add.commute)

section \<open>Exchanges are applications of the handler\<close>

text \<open>An idle connection: every request was answered and every answer was read.\<close>

definition idle :: "'b connection \<Rightarrow> bool" where
  "idle co \<longleftrightarrow> co_open co \<and> co_buffer co = [] \<and> co_unread co = []"

definition after_request :: "'b connection \<Rightarrow> bool \<Rightarrow> session \<Rightarrow> 'b server_state \<Rightarrow> 'b connection" where
  "after_request co continues session st =
     co\<lparr>co_open := continues, co_session := session,
        co_server := (if continues then st else finish_session session st)\<rparr>"

lemma receive_request:
  assumes "idle co" and "frame_fits (sv_limits env) payload"
    and "handle env \<lparr>df_id = i, df_wire_version = kWireProtocolVersion (sv_wire env), df_payload = payload\<rparr>
      (co_session co) (count sc_frames_received_update (co_server co)) = (continues, reply, session, st)"
  shows "receive_chunk env (encode_frame (sv_wire env) i payload) co =
    (after_request co continues session st)\<lparr>co_unread := reply\<rparr>"
proof -
  have "drain env (encode_frame (sv_wire env) i payload) (co_session co) (co_server co) =
      (if continues then Waiting [] else Ended, [reply], session, st)"
    using drain_request [OF assms(2,3)] .
  moreover have "length payload \<le> max_frame_bytes (sv_limits env)" using assms(2) by (simp add: frame_fits_def)
  ultimately show ?thesis
    using assms(1)
    by (cases co) (simp add: receive_chunk_def idle_def after_request_def kFrameHeaderBytes_def)
qed

text \<open>A client of this server: the same protocol constants, and its socket is the connection.\<close>

definition client_of :: "'b server_env \<Rightarrow> nat \<Rightarrow> 'b connection \<Rightarrow> client_config \<Rightarrow> 'b connection client_env" where
  "client_of env mss start config =
     \<lparr>ce_config = config, ce_wire = sv_wire env, ce_ops = connection_ops env mss start\<rparr>"

lemma exchange_is_handle:
  assumes "cl_socket c = Some co" and "idle co"
    and "frame_fits (sv_limits env) payload" and "frame_fits (cc_limits config) payload"
    and "handle env \<lparr>df_id = i, df_wire_version = kWireProtocolVersion (sv_wire env), df_payload = payload\<rparr>
      (co_session co) (count sc_frames_received_update (co_server co)) =
      (continues, encode_frame (sv_wire env) j reply, session, st)"
    and "frame_fits (cc_limits config) reply"
  shows "exchange (client_of env mss start config) i awaited payload decoder c =
    (answered awaited decoder j reply, c\<lparr>cl_socket := Some (after_request co continues session st)\<rparr>)"
proof -
  let ?cenv = "client_of env mss start config"
  let ?f = "encode_frame (sv_wire env) i payload"
  have client: "ce_ops ?cenv = connection_ops env mss start" "ce_wire ?cenv = sv_wire env"
    "client_limits ?cenv = cc_limits config"
    by (simp_all add: client_of_def)
  have received: "receive_chunk env ?f co =
      (after_request co continues session st)\<lparr>co_unread := encode_frame (sv_wire env) j reply\<rparr>"
    by (rule receive_request [OF assms(2,3,5)])
  have "connection_accepts env ?f co"
    using assms(2,3) by (simp add: connection_accepts_def idle_def frame_fits_def kFrameHeaderBytes_def)
  then have "exchange ?cenv i awaited payload decoder c =
      (answered awaited decoder j reply,
       c\<lparr>cl_socket := Some (connection_consume (16 + length reply) (receive_chunk env ?f co))\<rparr>)"
    using served.exchange_answered [of ?cenv env mss start c co payload reply i j awaited decoder]
      client received assms(1,4,6)
    by (simp add: frame_fits_def)
  moreover have "connection_consume (16 + length reply) (receive_chunk env ?f co) = after_request co continues session st"
    using received assms(2) by (cases co) (simp add: connection_consume_def after_request_def idle_def)
  ultimately show ?thesis by simp
qed

lemma idle_after: "idle co \<Longrightarrow> idle (after_request co True session st)"
  by (simp add: idle_def after_request_def)

section \<open>Operations\<close>

text \<open>The status of an error answer reaches the caller whatever its text is.\<close>

lemma error_status:
  "decode_ErrorMessage (encode_ErrorMessage \<lparr>em_status = code, em_detail = detail\<rparr>) = Some m \<Longrightarrow> em_status m = code"
  by (auto simp: decode_ErrorMessage_def decode_payload_def rd_ErrorMessage_def encode_ErrorMessage_def w_status_def
      rd_status_def bind_eq_Some_conv codec status_code_enum.of_raw_raw
      split: option.splits if_splits)

definition refused :: "'b server_env \<Rightarrow> 'b connection \<Rightarrow> 'b connection" where
  "refused env co =
     after_request co False (co_session co)
       (count sc_protocol_errors_update (count sc_requests_handled_update (count sc_frames_received_update (co_server co))))"

lemma exchange_refused:
  assumes "cl_socket c = Some co" and "idle co"
    and "frame_fits (sv_limits env) payload" and "frame_fits (cc_limits config) payload"
    and "handle env \<lparr>df_id = i, df_wire_version = kWireProtocolVersion (sv_wire env), df_payload = payload\<rparr>
      (co_session co) (count sc_frames_received_update (co_server co)) =
      protocol_error env i (co_session co) (count sc_requests_handled_update (count sc_frames_received_update (co_server co)))"
    and "frame_fits (cc_limits config) (encode_ErrorMessage
      \<lparr>em_status = SC_ProtocolViolation, em_detail = sv_text env i SC_ProtocolViolation\<rparr>)"
  shows "exchange (client_of env mss start config) i awaited payload decoder c =
    (Inl SC_ProtocolViolation, c\<lparr>cl_socket := Some (refused env co)\<rparr>)"
proof -
  let ?error = "encode_ErrorMessage \<lparr>em_status = SC_ProtocolViolation, em_detail = sv_text env i SC_ProtocolViolation\<rparr>"
  have "answered awaited decoder MI_Error ?error = Inl SC_ProtocolViolation"
    using error_status [of SC_ProtocolViolation "sv_text env i SC_ProtocolViolation"]
    by (auto simp: answered_def split: option.splits)
  moreover have "exchange (client_of env mss start config) i awaited payload decoder c =
      (answered awaited decoder MI_Error ?error, c\<lparr>cl_socket := Some (refused env co)\<rparr>)"
    using assms(5)
    by (simp add: refused_def exchange_is_handle [OF assms(1-4) _ assms(6)] protocol_error_def send_error_def send_payload_def)
  ultimately show ?thesis by simp
qed

lemma rd_token_empty: "rd_token (w_token [] @ rest) = None"
  by (simp add: rd_token_def w_token_def string_codec.read_write is_valid_token_text_def)

lemma rd_fixed_zero: "rd_fixed (w_fixed 0 @ rest) = None"
  by (simp add: rd_fixed_def w_fixed_def codec fixed_is_valid_def)

text \<open>A request by identity carries a default key, which no decoder accepts.\<close>

lemma query_by_id_undecodable:
  "decode_QueryRouteRequest limits
     (encode_QueryRouteRequest \<lparr>qq_by_key = False, qq_key = route_key_default, qq_route = i\<rparr>) = None"
  by (simp add: decode_QueryRouteRequest_def decode_payload_def rd_QueryRouteRequest_def encode_QueryRouteRequest_def
      boolean_codec.read_write rd_route_key_def w_route_key_def route_key_default_def rd_token_empty)

text \<open>An answer without a route carries a default snapshot, which no decoder accepts.\<close>

lemma default_snapshot_undecodable: "rd_route_snapshot limits (w_route_snapshot route_snapshot_default @ rest) = None"
  by (simp add: rd_route_snapshot_def w_route_snapshot_def route_snapshot_default_def rd_fixed_zero)

lemma query_answer_undecodable:
  "decode_QueryRouteResult limits (encode_QueryRouteResult (query_answer env (Inl SC_NotFound))) = None"
  by (simp add: decode_QueryRouteResult_def decode_payload_def rd_QueryRouteResult_def encode_QueryRouteResult_def
      query_answer_def message diagnostic_wf_def kMaxDiagnosticChars_def
      default_snapshot_undecodable [of _ "[]", simplified])

lemma explain_answer_undecodable:
  "decode_ExplainRouteResult limits (encode_ExplainRouteResult (explain_answer env (Inl SC_NotFound))) = None"
  by (simp add: decode_ExplainRouteResult_def decode_payload_def rd_ExplainRouteResult_def encode_ExplainRouteResult_def
      explain_answer_def message diagnostic_wf_def kMaxDiagnosticChars_def rd_explanation_def w_explanation_def
      explanation_default_def default_snapshot_undecodable)

text \<open>A request context that the server's decoder accepts passes the client's own checks.\<close>

lemma context_accepted:
  "context_wf x \<Longrightarrow> validate_context x = ok_status" "context_wf x \<Longrightarrow> rx_attempt x \<noteq> 0"
  by (simp_all add: context_wf_def validate_context_def fixed_is_valid_def counter_is_valid_def counter_wire_valid_def)

text \<open>The state of the server after a request that continues the session.\<close>

definition served_state :: "'b connection \<Rightarrow> 'b \<Rightarrow> runtime \<Rightarrow> 'b server_state" where
  "served_state co b rt =
     (count sc_requests_handled_update (count sc_frames_received_update (co_server co)))\<lparr>sx_backend := b, sx_runtime := rt\<rparr>"

lemma handle_publish_request:
  assumes "publish_route_request_wf (sv_limits env) request"
    and "publish_one (sv_ops env) (sv_query env) (sv_violated env) (publish_of request)
      (sx_backend (co_server co)) (sx_runtime (co_server co)) = (published, b, rt)"
  shows "handle env \<lparr>df_id = MI_PublishRoute, df_wire_version = version, df_payload = encode_PublishRouteRequest request\<rparr>
      (co_session co) (count sc_frames_received_update (co_server co)) =
    (True, encode_frame (sv_wire env) MI_PublishRouteResult (encode_PublishRouteResult (publish_answer env published)),
     co_session co, served_state co b rt)"
proof -
  have "decode_PublishRouteRequest (sv_limits env) (encode_PublishRouteRequest request) = Some request"
    using assms(1) by (simp add: decode_PublishRouteRequest_def publish_route_request_codec.decode_payload_iff)
  then show ?thesis
    using assms(2) by (simp add: handle_def handle_publish_def answer_def send_payload_def served_state_def)
qed

lemma handle_mutation_request:
  assumes "route_mutation_request_wf request"
    and "i \<in> {MI_WithdrawRoute, MI_RevalidateRoute, MI_RetireRoute, MI_RevokeRoute}"
    and "mutate env i request (sx_backend (co_server co)) (sx_runtime (co_server co)) = (outcome, b, rt)"
  shows "handle env \<lparr>df_id = i, df_wire_version = version, df_payload = encode_RouteMutationRequest request\<rparr>
      (co_session co) (count sc_frames_received_update (co_server co)) =
    (True, encode_frame (sv_wire env) (mutation_response i) (encode_RouteMutationResult (mutation_answer env i outcome)),
     co_session co, served_state co b rt)"
proof -
  have "decode_RouteMutationRequest (encode_RouteMutationRequest request) = Some request"
    using assms(1) by (simp add: decode_RouteMutationRequest_def route_mutation_request_codec.decode_payload_iff)
  then show ?thesis
    using assms(2,3)
    by (auto simp: handle_def handle_mutation_def answer_def send_payload_def served_state_def)
qed

lemma answered_decoded: "i \<noteq> MI_Error \<Longrightarrow> decoder reply = Some m \<Longrightarrow> answered i decoder i reply = Inr m"
  by (simp add: answered_def)

lemma send_mutation_served:
  assumes "cl_socket c = Some co" and "idle co" and "route_mutation_request_wf request"
    and "request = \<lparr>muq_context = cl_context c, muq_route = route, muq_expected_generation = generation, muq_reason = reason\<rparr>"
    and "i \<in> {MI_WithdrawRoute, MI_RevalidateRoute, MI_RetireRoute, MI_RevokeRoute}"
    and "frame_fits (sv_limits env) (encode_RouteMutationRequest request)"
    and "frame_fits (cc_limits config) (encode_RouteMutationRequest request)"
    and "mutate env i request (sx_backend (co_server co)) (sx_runtime (co_server co)) = (outcome, b, rt)"
    and "frame_fits (cc_limits config) (encode_RouteMutationResult (mutation_answer env i outcome))"
    and "route_mutation_result_wf (mutation_answer env i outcome)"
  shows "send_mutation (client_of env mss start config) i (mutation_response i) route generation reason c =
    (Inr (mutation_answer env i outcome),
     c\<lparr>cl_socket := Some (after_request co True (co_session co) (served_state co b rt))\<rparr>)"
proof -
  have "context_wf (cl_context c)" using assms(3,4) by (simp add: route_mutation_request_wf_def)
  moreover have "decode_RouteMutationResult (encode_RouteMutationResult (mutation_answer env i outcome)) =
      Some (mutation_answer env i outcome)"
    using assms(10) by (simp add: decode_RouteMutationResult_def route_mutation_result_codec.decode_payload_iff)
  moreover have "mutation_response i \<noteq> MI_Error" by (simp add: mutation_response_def)
  ultimately show ?thesis
    using exchange_is_handle [OF assms(1,2,6,7) handle_mutation_request [OF assms(3,5,8)] assms(9),
        where decoder = decode_RouteMutationResult and awaited = "mutation_response i"]
    by (simp add: send_mutation_def context_accepted ok_status_def answered_decoded assms(4) [symmetric])
qed

end
