(* ===== verification/RF_RemoteSamples.thy ===== *)
theory RF_RemoteSamples
  imports RF_Samples RF_Remote
begin

text \<open>
  \<^bold>\<open>Concrete sessions.\<close> A client and a server over the sample runtime, on which the properties
  of sessions are applied. The backend defers every request.
\<close>

definition deferring_ops :: "unit backend_ops" where
  "deferring_ops =
     (let dispatch = (\<lambda>b request. (\<lparr>pd_deferred = True, pd_immediate = sample_result\<rparr>, b))
      in \<lparr>bo_install = dispatch, bo_replace = dispatch, bo_withdraw = dispatch,
          bo_query = (\<lambda>b key. \<lparr>bq_presence = BP_Unknown, bq_backend = ''b'', bq_observed_generation = 0, bq_detail = []\<rparr>)\<rparr>)"

definition remote_limits :: limits where
  "remote_limits = sample_limits\<lparr>max_frame_bytes := 4096\<rparr>"

definition remote_env :: "unit server_env" where
  "remote_env =
     \<lparr>sv_wire = \<lparr>kWireFrameMagic = 0x31574652, kWireProtocolVersion = 1\<rparr>, sv_limits = remote_limits,
      sv_ops = deferring_ops, sv_backend_id = ''b'',
      sv_capabilities = \<lparr>bc_install = True, bc_replace = True, bc_withdraw = True, bc_query = False, bc_read_only = False\<rparr>,
      sv_query = sample_query, sv_violated = False, sv_text = (\<lambda>i code. [])\<rparr>"

definition remote_state :: "unit server_state" where
  "remote_state =
     \<lparr>sx_runtime = sample_registered, sx_backend = (),
      sx_counters = \<lparr>sc_sessions_accepted = 0, sc_sessions_rejected = 0, sc_sessions_closed = 0, sc_frames_received = 0,
        sc_requests_handled = 0, sc_malformed_frames = 0, sc_integrity_failures = 0, sc_oversized_frames = 0,
        sc_protocol_errors = 0\<rparr>,
      sx_active = 0\<rparr>"

definition remote_config :: client_config where
  "remote_config = \<lparr>cc_host = ''127.0.0.1'', cc_port = 7400, cc_limits = remote_limits, cc_id_seed = 7\<rparr>"

definition remote_client :: "unit connection client" where
  "remote_client =
     (new_client remote_config 0)\<lparr>cl_socket := Some (new_connection remote_state),
        cl_context := \<lparr>rx_epoch = 1, rx_publisher = ''p'', rx_worker_boot = 5, rx_attempt = 9\<rparr>\<rparr>"

definition remote_publish :: publish_route_request where
  "remote_publish =
     \<lparr>pbq_context = cl_context remote_client, pbq_key = sample_key, pbq_binding = sample_binding,
      pbq_policy_generation = 1, pbq_expected_generation = 0, pbq_lineage = 3, pbq_reason = []\<rparr>"

lemmas remote_defs = remote_limits_def remote_env_def remote_state_def remote_config_def remote_client_def
  new_connection_def

lemma remote_client_idle: "cl_socket remote_client = Some (new_connection remote_state)" "idle (new_connection remote_state)"
  by (simp_all add: remote_defs idle_def)

lemma sample_key_wf: "route_key_wf 32 sample_key"
  using sample_key_valid
  by (simp add: route_key_wf_def destination_wf_def destination_canonical_def sample_key_def is_prefix_kind_def
      is_valid_token_text_def is_alphanumeric_def is_token_char_def char_between_def array16_bytes_def le_store_def list_all_iff)

lemma sample_binding_wf: "route_binding_wf sample_binding"
  using sample_binding_valid by (simp add: route_binding_wf_def sample_binding_def counter_wire_valid_def kMaxValue_def)

lemma remote_publish_wf: "publish_route_request_wf (sv_limits remote_env) remote_publish"
  using sample_key_wf sample_binding_wf
  by (simp add: publish_route_request_wf_def remote_publish_def remote_defs sample_limits_def context_wf_def
      counter_wire_valid_def kMaxValue_def diagnostic_wf_def)

lemmas wire_lengths =
  w_context_def w_route_key_def w_route_binding_def w_destination_def w_counter_def w_optional_counter_def w_optional_fixed_def
  w_token_def w_string_def w_fixed_def w_status_def w_u8_def counter_is_valid_def

lemma remote_publish_fits: "frame_fits remote_limits (encode_PublishRouteRequest remote_publish)"
  by (simp add: frame_fits_def remote_defs encode_PublishRouteRequest_def remote_publish_def wire_lengths sample_key_def
      sample_binding_def)

lemma publish_of_remote: "publish_of remote_publish = sample_request"
  by (simp add: publish_of_def remote_publish_def remote_client_def sample_request_def)

lemma remote_publish_one:
  "\<exists>x. publish_one deferring_ops sample_query False sample_request () sample_registered =
     (Inr x, (), bump ct_programming_deferred_update sample_published) \<and>
     px_route x = 3 \<and> px_generation x = 1 \<and> px_authority_generation x = 1 \<and> px_lifecycle x = LC_Installing"
proof -
  obtain p where p: "pn_route p = 3" "publish_begin sample_query False sample_request sample_registered =
      (Dispatching p, sample_published)"
    using publish_sample by blast
  then show ?thesis
    by (simp add: publish_one_def run_dispatch_def dispatch_to_def deferring_ops_def publish_finish_def Let_def
        publish_result_of_def split: programming_operation.splits)
qed

end
