(* ===== verification/RF_ToolSamples.thy ===== *)
theory RF_ToolSamples
  imports RF_ToolFacts RF_RemoteSamples
begin

text \<open>
  \<^bold>\<open>Concrete processes.\<close> A command line connected to a server, a path file with one path, and a
  coordinator without a store, on which the properties of the tools are applied.
\<close>

definition tool_sample :: "unit connection tool_env" where
  "tool_sample =
     \<lparr>te_version = ''1.0.0'', te_wire = sv_wire remote_env, te_sockets = connection_ops remote_env 0 (new_connection remote_state),
      te_system_seed = 11, te_windows = False, te_host_table = (\<lambda>family. Inr [])\<rparr>"

section \<open>A path file\<close>

definition sample_path_line :: path_line where
  "sample_path_line = \<lparr>pl_path = 5, pl_generation = 1, pl_state = PA_Usable\<rparr>"

definition invalidated_path_line :: path_line where
  "invalidated_path_line = \<lparr>pl_path = 5, pl_generation = 2, pl_state = PA_Revoked\<rparr>"

definition sample_files :: files where
  "sample_files =
     \<lparr>fs_texts = (\<lambda>file. if file = ''paths'' then Some (paths_text [sample_path_line]) else None),
      fs_write = (\<lambda>file. Some (length (paths_text [invalidated_path_line]))),
      fs_stores = (\<lambda>path. route_store default_limits DU_Snapshot)\<rparr>"

definition sample_cli_options :: cli_options where
  "sample_cli_options = cli_defaults\<lparr>co_paths_file := ''paths''\<rparr>"

lemma sample_path_line_wf: "path_line_wf sample_path_line"
  by (simp add: path_line_wf_def sample_path_line_def counter_wire_valid_def kMaxValue_def)

lemma load_sample: "load_paths (co_paths_file sample_cli_options) (fs_texts sample_files) = Some [sample_path_line]"
  using parse_paths_text [of "[sample_path_line]"] sample_path_line_wf
  by (simp add: load_paths_def sample_cli_options_def sample_files_def)

lemma invalidate_sample:
  "\<exists>fs'. path_command sample_cli_options ''invalidate'' [fixed_render 5, ''REVOKED''] sample_files =
     (([path_entry_line invalidated_path_line], Exit 0), fs')"
proof -
  have "fixed_parse (fixed_render 5) = Inr 5" by (rule fixed_text.parse_render) simp
  moreover have "parse_path_authorization ''REVOKED'' = Some PA_Revoked"
    by (simp add: parse_path_authorization_def parse_by_name_def path_authorization_values_def)
  moreover have "counter_next 1 = Inr 2" using sample_counter by (simp add: counter_next_def)
  ultimately have "path_invalidate ''paths'' [sample_path_line] [fixed_render 5, ''REVOKED''] sample_files =
      save_and_print ''paths'' [invalidated_path_line] invalidated_path_line sample_files"
    by (simp add: path_invalidate_def sample_path_line_def invalidated_path_line_def)
  moreover have "path_command sample_cli_options ''invalidate'' [fixed_render 5, ''REVOKED''] sample_files =
      path_invalidate ''paths'' [sample_path_line] [fixed_render 5, ''REVOKED''] sample_files"
    using load_sample by (simp add: path_command_def sample_cli_options_def)
  ultimately show ?thesis by (simp add: save_and_print_def save_paths_def sample_files_def)
qed

section \<open>A publication\<close>

lemma cli_publish_sample:
  "\<exists>key binding. publish_arguments cli_defaults [] [''10.1.2.3/8''] = Inr (''10.1.2.3/8'', key, binding, 0)"
proof -
  have tokens: "token_parse ''fabric'' = Inr ''fabric''" "token_parse ''default'' = Inr ''default''" by code_simp+
  have "route_key_is_valid \<lparr>rk_fabric = ''fabric'', rk_routing_namespace = ''default'', rk_destination = sample_prefix,
      rk_route_class = RC_Unicast\<rparr>"
    using tokens by (simp add: route_key_is_valid_def sample_prefix_def token_parse_iff)
  moreover have "parse_route_class ''unicast'' = Some RC_Unicast"
    by (simp add: parse_route_class_def parse_by_name_def route_class_values_def)
  ultimately show ?thesis
    using tokens
    by (simp add: publish_arguments_def build_key_def build_binding_def parse_expected_generation_def cli_defaults_def
        parse_sample Let_def)
qed

section \<open>A coordinator\<close>

definition coordinator_sample :: coordinator_env where
  "coordinator_sample =
     \<lparr>ke_version = ''1.0.0'', ke_wire = sv_wire remote_env, ke_system_seed = 11, ke_windows = False,
      ke_host_table = (\<lambda>family. Inr []), ke_bind = (\<lambda>bind_address port. Some 7400), ke_text = (\<lambda>i code. [])\<rparr>"

lemma sample_files_admissible: "admissible_files sample_files"
proof -
  have "fst (Load (bind_store config (route_store default_limits DU_Snapshot))) = Inr initial_state" for config
    by (simp add: bind_store_def route_store_def Load_def next_io_def load_snapshot_def Let_def)
  moreover have "admissible (runtime_configuration fabric durability path seed) initial_state" for fabric durability path seed
    by (simp add: admissible_def initial_state_def)
  ultimately show ?thesis by (simp add: admissible_files_def opens_on_def sample_files_def)
qed

lemma coordinator_started:
  "\<exists>lines senv st. coordinator_start coordinator_sample [] sample_files = Serving lines senv st \<and>
     rt_routes (sx_runtime st) = []"
proof -
  let ?config = "runtime_configuration ''fabric'' DU_None [] 0"
  let ?backend = "Inl (synthetic_backend ''synthetic-programming'') :: chosen_backend"
  let ?rt = "make_runtime ?config (Some ''synthetic-programming'') True 11"
  have token: "token_parse ''fabric'' = Inr ''fabric''" by code_simp
  have "limits_validate default_limits = Inr ()" "32 \<le> max_history_entries_per_route default_limits"
    using limits_validate_default by (simp_all add: default_limits_def ok_status_def)
  then have "Open files ?rt = (Inr (), ?rt\<lparr>rt_opened := True\<rparr>)" for files
    using token by (simp add: Open_def Let_def make_runtime_def runtime_configuration_def token_parse_iff recover_def om_values_def
        ok_status_def)
  moreover have "ReconcileAll ops b (?rt\<lparr>rt_opened := True\<rparr>) =
      (Inr \<lparr>sm_checked = 0, sm_matched = 0, sm_missing = 0, sm_diverged = 0, sm_extra = 0, sm_unavailable = 0\<rparr>,
       ?rt\<lparr>rt_opened := True\<rparr>)" for ops and b :: chosen_backend
    by (simp add: ReconcileAll_def make_runtime_def om_keys_def)
  ultimately have opened: "coordinator_open coordinator_sample coordinator_defaults ?backend ?config sample_files =
      (None, ?rt\<lparr>rt_opened := True\<rparr>)"
    by (simp add: coordinator_open_def coordinator_epoch_policy_def coordinator_reconcile_def coordinator_defaults_def
        chosen_id_def synthetic_backend_def coordinator_sample_def)
  have "coordinator_setup coordinator_sample coordinator_defaults (fs_texts sample_files) = Inr (?backend, [], ?config)"
    using token
    by (simp add: coordinator_setup_def coordinator_defaults_def coordinator_durability_def
        parse_durability_def parse_by_name_def durability_values_def choose_backend_def coordinator_paths_def parse_seed_def)
  with opened show ?thesis
    by (simp add: coordinator_start_def server_start_def coordinator_sample_def started_state_def make_runtime_def)
qed

end
