(* ===== verification/RF_Requests.thy ===== *)
theory RF_Requests
  imports RF_Session
begin

text \<open>
  \<^bold>\<open>A request section by section.\<close> \<open>handle\<close> of \<open>src/server.cpp\<close> takes the lock of the runtime once
  for most messages, but a publication, a withdrawal and a revalidation take it up to four times
  with a call of the backend in between, and a reconciliation twice for every route. Here such a
  request is a task that is advanced by one section at a time, so that the sections of other
  sessions can come in between; without them it is \<open>handle\<close>.
\<close>

section \<open>Tasks\<close>

text \<open>For whom a programming attempt is dispatched, and what a reconciliation has left to do.\<close>

datatype dispatch_for = DF_Publication | DF_Mutation message_id

datatype reconciling = RO_One | RO_All "route_id list" reconciliation_summary

datatype task =
    TK_Snapshot dispatch_for pending
  | TK_Backend dispatch_for pending route_record
  | TK_Outcome dispatch_for pending programming_dispatch
  | TK_Result dispatch_for pending completion_disposition
  | TK_Key reconciling route_id
  | TK_Query reconciling route_id route_key
  | TK_Observe reconciling route_id backend_query_result
  | TK_Reply bool bytes

definition reply_publication :: "'b server_env \<Rightarrow> publish_result expected \<Rightarrow> task" where
  "reply_publication env published =
     TK_Reply True
       (send_payload env MI_PublishRouteResult (encode_PublishRouteResult (publish_answer env published)))"

definition reply_mutation :: "'b server_env \<Rightarrow> message_id \<Rightarrow> withdraw_outcome expected \<Rightarrow> task" where
  "reply_mutation env i outcome =
     TK_Reply True
       (send_payload env (mutation_response i) (encode_RouteMutationResult (mutation_answer env i outcome)))"

definition reconcile_default :: reconcile_result where
  "reconcile_default =
     \<lparr>rcr_status = SC_Ok, rcr_detail = [], rcr_classification = OC_Unknown, rcr_summary = summary_zero\<rparr>"

definition reply_reconcile :: "'b server_env \<Rightarrow> reconcile_result \<Rightarrow> task" where
  "reply_reconcile env result = TK_Reply True (send_payload env MI_ReconcileResult (encode_ReconcileResult result))"

definition refuse_reconcile :: "'b server_env \<Rightarrow> status_code \<Rightarrow> task" where
  "refuse_reconcile env e =
     reply_reconcile env (reconcile_default\<lparr>rcr_status := e, rcr_detail := sv_text env MI_ReconcileRequest e\<rparr>)"

definition reply_handled :: "'b handled \<Rightarrow> task \<times> session \<times> 'b server_state" where
  "reply_handled handled = (case handled of (continues, reply, session, st) \<Rightarrow> (TK_Reply continues reply, session, st))"

section \<open>The first section\<close>

definition begin_publication :: "'b server_env \<Rightarrow> bytes \<Rightarrow> session \<Rightarrow> 'b server_state \<Rightarrow> task \<times> session \<times> 'b server_state" where
  "begin_publication env payload session st =
     (case decode_PublishRouteRequest (sv_limits env) payload of
        None \<Rightarrow> reply_handled (protocol_error env MI_PublishRoute session st)
      | Some request \<Rightarrow>
          (case publish_begin (sv_query env) (sv_violated env) (publish_of request) (sx_runtime st) of
             (answered, rt) \<Rightarrow>
               (case answered of
                  Refused e \<Rightarrow> reply_publication env (Inl e)
                | Answered x \<Rightarrow> reply_publication env (Inr x)
                | Dispatching p \<Rightarrow> TK_Snapshot DF_Publication p,
                session, st\<lparr>sx_runtime := rt\<rparr>)))"

definition begin_mutation ::
  "'b server_env \<Rightarrow> message_id \<Rightarrow> bytes \<Rightarrow> session \<Rightarrow> 'b server_state \<Rightarrow> task \<times> session \<times> 'b server_state" where
  "begin_mutation env i payload session st =
     (case decode_RouteMutationRequest payload of
        None \<Rightarrow> reply_handled (protocol_error env i session st)
      | Some request \<Rightarrow>
          (case (if i = MI_WithdrawRoute then withdraw_begin (withdraw_of request) (sx_runtime st)
                 else revalidate_begin (sv_query env) (sv_violated env) (lifecycle_of request) (sx_runtime st)) of
             (answered, rt) \<Rightarrow>
               (case answered of
                  Refused e \<Rightarrow> reply_mutation env i (Inl e)
                | Answered x \<Rightarrow> reply_mutation env i (Inr x)
                | Dispatching p \<Rightarrow> TK_Snapshot (DF_Mutation i) p,
                session, st\<lparr>sx_runtime := rt\<rparr>)))"

text \<open>The next route of \<open>ReconcileAll\<close>, or its answer.\<close>

definition continue_reconcile :: "'b server_env \<Rightarrow> route_id list \<Rightarrow> reconciliation_summary \<Rightarrow> task" where
  "continue_reconcile env rest summary =
     (case rest of
        [] \<Rightarrow> reply_reconcile env (reconcile_default\<lparr>rcr_summary := summary\<rparr>)
      | i # rest \<Rightarrow> TK_Key (RO_All rest summary) i)"

definition begin_reconcile :: "'b server_env \<Rightarrow> bytes \<Rightarrow> session \<Rightarrow> 'b server_state \<Rightarrow> task \<times> session \<times> 'b server_state" where
  "begin_reconcile env payload session st =
     (case decode_ReconcileRequest payload of
        None \<Rightarrow> reply_handled (protocol_error env MI_ReconcileRequest session st)
      | Some request \<Rightarrow>
          ((if rcq_all request then
              (if \<not> rt_opened (sx_runtime st) then refuse_reconcile env SC_NotOpen
               else continue_reconcile env (om_keys (rt_routes (sx_runtime st))) summary_zero)
            else if \<not> fixed_is_valid (rcq_route request) then refuse_reconcile env SC_InvalidArgument
            else TK_Key RO_One (rcq_route request)),
           session, st))"

definition request_begin :: "'b server_env \<Rightarrow> decoded_frame \<Rightarrow> session \<Rightarrow> 'b server_state \<Rightarrow> task \<times> session \<times> 'b server_state" where
  "request_begin env frame session st =
     (let i = df_id frame; payload = df_payload frame; counted = count sc_requests_handled_update st
      in if i = MI_PublishRoute then begin_publication env payload session counted
         else if i = MI_WithdrawRoute \<or> i = MI_RevalidateRoute then begin_mutation env i payload session counted
         else if i = MI_ReconcileRequest then begin_reconcile env payload session counted
         else reply_handled (handle env frame session st))"

section \<open>The later sections\<close>

text \<open>The end of \<open>publish_one\<close>, \<open>WithdrawRoute\<close> and \<open>RevalidateRoute\<close>.\<close>

definition dispatch_result :: "'b server_env \<Rightarrow> dispatch_for \<Rightarrow> pending \<Rightarrow> completion_disposition \<Rightarrow> runtime \<Rightarrow> task" where
  "dispatch_result env for p disposition rt =
     (case for of
        DF_Publication \<Rightarrow> reply_publication env (publish_finish (sv_query env) p disposition rt)
      | DF_Mutation i \<Rightarrow> reply_mutation env i (lifecycle_finish p disposition rt))"

definition observed :: "'b server_env \<Rightarrow> reconciling \<Rightarrow> observation_class expected \<Rightarrow> task" where
  "observed env left x =
     (case left of
        RO_One \<Rightarrow>
          (case x of
             Inl e \<Rightarrow> refuse_reconcile env e
           | Inr c \<Rightarrow>
               reply_reconcile env
                 (reconcile_default\<lparr>rcr_classification := c, rcr_summary := summary_zero\<lparr>sm_checked := 1\<rparr>\<rparr>))
      | RO_All rest summary \<Rightarrow>
          continue_reconcile env rest (case x of Inl _ \<Rightarrow> summary | Inr c \<Rightarrow> count_class c summary))"

fun request_step :: "'b server_env \<Rightarrow> task \<Rightarrow> 'b server_state \<Rightarrow> task \<times> 'b server_state" where
  "request_step env (TK_Snapshot for p) st =
     (case om_find (rt_routes (sx_runtime st)) (pn_route p) of
        None \<Rightarrow> (dispatch_result env for p CD_RouteMissing (sx_runtime st), st)
      | Some snapshot \<Rightarrow> (TK_Backend for p snapshot, st))"
| "request_step env (TK_Backend for p snapshot) st =
     (case dispatch_to (sv_ops env) (sx_backend st)
             (make_programming_request (sx_runtime st) snapshot (pn_attempt p) (pn_previously_installed p)) of
        (d, b) \<Rightarrow> (TK_Outcome for p d, st\<lparr>sx_backend := b\<rparr>))"
| "request_step env (TK_Outcome for p d) st =
     (if pd_deferred d
      then (TK_Result for p CD_Applied, st\<lparr>sx_runtime := bump ct_programming_deferred_update (sx_runtime st)\<rparr>)
      else case apply_completion_locked (pd_immediate d) (sx_runtime st) of
             (disposition, rt) \<Rightarrow> (TK_Result for p disposition, st\<lparr>sx_runtime := rt\<rparr>))"
| "request_step env (TK_Result for p disposition) st = (dispatch_result env for p disposition (sx_runtime st), st)"
| "request_step env (TK_Key left i) st =
     (case om_find (rt_routes (sx_runtime st)) i of
        None \<Rightarrow> (observed env left (Inl SC_NotFound), st)
      | Some r \<Rightarrow> (TK_Query left i (rr_key r), st))"
| "request_step env (TK_Query left i key) st = (TK_Observe left i (bo_query (sv_ops env) (sx_backend st) key), st)"
| "request_step env (TK_Observe left i q) st =
     (case reconcile_locked i q (sx_runtime st) of (x, rt) \<Rightarrow> (observed env left x, st\<lparr>sx_runtime := rt\<rparr>))"
| "request_step env (TK_Reply continues reply) st = (TK_Reply continues reply, st)"

text \<open>How many sections are left.\<close>

fun reconcile_rank :: "reconciling \<Rightarrow> nat" where
  "reconcile_rank RO_One = 0"
| "reconcile_rank (RO_All rest summary) = 3 * length rest"

fun task_rank :: "task \<Rightarrow> nat" where
  "task_rank (TK_Snapshot for p) = 4"
| "task_rank (TK_Backend for p r) = 3"
| "task_rank (TK_Outcome for p d) = 2"
| "task_rank (TK_Result for p d) = 1"
| "task_rank (TK_Key left i) = 3 + reconcile_rank left"
| "task_rank (TK_Query left i k) = 2 + reconcile_rank left"
| "task_rank (TK_Observe left i q) = 1 + reconcile_rank left"
| "task_rank (TK_Reply c r) = 0"

lemmas reply_defs = reply_publication_def reply_mutation_def reply_reconcile_def refuse_reconcile_def

lemma continue_rank: "task_rank (continue_reconcile env rest summary) = 3 * length rest"
  by (auto simp: continue_reconcile_def reply_defs split: list.splits)

lemma observed_rank: "task_rank (observed env left x) = reconcile_rank left"
  by (cases left) (auto simp: observed_def reply_defs continue_rank split: sum.splits)

lemma result_rank: "task_rank (dispatch_result env for p d rt) = 0"
  by (simp add: dispatch_result_def reply_defs split: dispatch_for.splits)

lemma task_rank_reply: "task_rank task = 0 \<longleftrightarrow> (\<exists>c r. task = TK_Reply c r)"
  by (cases task) auto

lemma request_step_rank:
  assumes "request_step env task st = (task', st')" and "task_rank task \<noteq> 0"
  shows "task_rank task' < task_rank task"
  using assms
  by (cases task) (auto simp: result_rank observed_rank split: option.splits prod.splits if_splits)

section \<open>A request by itself\<close>

function run_task :: "'b server_env \<Rightarrow> task \<Rightarrow> 'b server_state \<Rightarrow> bool \<times> bytes \<times> 'b server_state" where
  "run_task env task st =
     (case task of
        TK_Reply continues reply \<Rightarrow> (continues, reply, st)
      | _ \<Rightarrow> (case request_step env task st of (task', st') \<Rightarrow> run_task env task' st'))"
  by pat_completeness auto

termination run_task
  by (relation "measure (\<lambda>(env, task, st). task_rank task)") 
    (auto simp: result_rank observed_rank split: option.splits prod.splits if_splits)

declare run_task.simps [simp del]

lemma run_reply [simp]: "run_task env (TK_Reply continues reply) st = (continues, reply, st)"
  by (subst run_task.simps) simp

lemma run_step: "task_rank task \<noteq> 0 \<Longrightarrow> run_task env task st = (case request_step env task st of (task', st') \<Rightarrow> run_task env task' st')"
  by (subst run_task.simps) (cases task; simp)

lemma run_dispatched:
  "run_task env (TK_Snapshot for p) st =
     (case run_dispatch (sv_ops env) p (sx_backend st) (sx_runtime st) of
        (d, b, rt) \<Rightarrow> run_task env (dispatch_result env for p d rt) (st\<lparr>sx_backend := b, sx_runtime := rt\<rparr>))"
  by (simp add: run_step run_dispatch_def Let_def split: option.splits prod.splits)

text \<open>One route, and the rest of all.\<close>

lemma run_key:
  "run_task env (TK_Key left i) st =
     (case reconcile_one (sv_ops env) (sx_backend st) i (sx_runtime st) of
        (x, rt) \<Rightarrow> run_task env (observed env left x) (st\<lparr>sx_runtime := rt\<rparr>))"
  by (simp add: run_step reconcile_one_def split: option.splits prod.splits)

lemma run_continue:
  "run_task env (continue_reconcile env rest summary) st =
     (case reconcile_each (sv_ops env) (sx_backend st) rest summary (sx_runtime st) of
        (s, rt) \<Rightarrow> run_task env (reply_reconcile env (reconcile_default\<lparr>rcr_summary := s\<rparr>)) (st\<lparr>sx_runtime := rt\<rparr>))"
proof (induction rest arbitrary: summary st)
  case Nil
  then show ?case by (simp add: continue_reconcile_def)
next
  case (Cons i rest)
  obtain x rt where one: "reconcile_one (sv_ops env) (sx_backend st) i (sx_runtime st) = (x, rt)" by fastforce
  have "run_task env (continue_reconcile env (i # rest) summary) st =
      run_task env (continue_reconcile env rest (case x of Inl _ \<Rightarrow> summary | Inr c \<Rightarrow> count_class c summary)) (st\<lparr>sx_runtime := rt\<rparr>)"
    using one by (simp add: continue_reconcile_def [of env "i # rest"] run_key observed_def)
  then show ?case using Cons.IH one by (simp split: sum.splits)
qed

definition request_alone :: "'b server_env \<Rightarrow> task \<times> session \<times> 'b server_state \<Rightarrow> 'b handled" where
  "request_alone env begun =
     (case begun of (task, session, st) \<Rightarrow>
        (case run_task env task st of (continues, reply, st) \<Rightarrow> (continues, reply, session, st)))"

lemma alone_handled [simp]: "request_alone env (reply_handled handled) = handled"
  by (simp add: request_alone_def reply_handled_def split: prod.splits)

lemma publication_alone: "request_alone env (begin_publication env payload session st) = handle_publish env payload session st"
  by (auto simp: begin_publication_def handle_publish_def publish_one_def answer_def reply_defs reply_handled_def protocol_error_def request_alone_def run_dispatched
      dispatch_result_def Let_def split: option.splits prod.splits locked_answer.splits)

lemma mutation_alone:
  assumes "i = MI_WithdrawRoute \<or> i = MI_RevalidateRoute"
  shows "request_alone env (begin_mutation env i payload session st) = handle_mutation env i payload session st"
  using assms
  by (auto simp: begin_mutation_def handle_mutation_def mutate_def WithdrawRoute_def RevalidateRoute_def finish_section_def
      answer_def reply_defs reply_handled_def protocol_error_def request_alone_def run_dispatched dispatch_result_def Let_def
      split: option.splits prod.splits locked_answer.splits)

lemma reconcile_alone: "request_alone env (begin_reconcile env payload session st) = handle_reconcile env payload session st"
  by (auto simp: begin_reconcile_def handle_reconcile_def reconcile_answer_def ReconcileAll_def ReconcileRoute_def
      answer_def reply_defs reply_handled_def protocol_error_def request_alone_def run_continue run_key observed_def reconcile_default_def summary_zero_def Let_def
      split: option.splits prod.splits sum.splits if_splits)

lemma request_is_handle: "request_alone env (request_begin env frame session st) = handle env frame session st"
  by (cases "df_id frame")
    (simp_all add: request_begin_def Let_def handle_def publication_alone mutation_alone reconcile_alone)

section \<open>Every section is a run of the runtime\<close>

lemma request_begin_steps:
  assumes "request_begin env frame session st = (task, session', st')" and "\<not> revokes_superseded frame (sx_runtime st)"
  shows "steps False (sx_runtime st) (sx_runtime st')"
proof (cases "df_id frame \<in> {MI_PublishRoute, MI_WithdrawRoute, MI_RevalidateRoute, MI_ReconcileRequest}")
  case True
  then show ?thesis
    using assms(1)
    by (auto simp: request_begin_def begin_publication_def begin_mutation_def begin_reconcile_def reply_handled_def
        protocol_error_def Let_def split: option.splits prod.splits if_splits
        intro: steps_one [OF step.publish] steps_one [OF step.withdraw] steps_one [OF step.revalidate])
next
  case False
  then have "reply_handled (handle env frame session st) = (task, session', st')"
    using assms(1) by (simp add: request_begin_def Let_def)
  then obtain c r where "handle env frame session st = (c, r, session', st')"
    by (auto simp: reply_handled_def split: prod.splits)
  from handle_steps [OF this assms(2)] show ?thesis .
qed

lemma request_step_steps:
  assumes "request_step env task st = (task', st')"
  shows "steps s (sx_runtime st) (sx_runtime st')"
  using assms
  by (cases task)
    (auto split: option.splits prod.splits if_splits
      intro: steps_one [OF step.complete] steps_one [OF step.deferral] steps_one [OF step.reconcile])

lemma request_begin_admission:
  assumes "request_begin env frame session st = (task, session', st')"
  shows "admission_kept st st'"
proof (cases "df_id frame \<in> {MI_PublishRoute, MI_WithdrawRoute, MI_RevalidateRoute, MI_ReconcileRequest}")
  case True
  then show ?thesis
    using assms
    by (auto simp: request_begin_def begin_publication_def begin_mutation_def begin_reconcile_def reply_handled_def
        protocol_error_def count_def admission_kept_def Let_def split: option.splits prod.splits if_splits)
next
  case False
  then have "reply_handled (handle env frame session st) = (task, session', st')"
    using assms by (simp add: request_begin_def Let_def)
  then obtain c r where "handle env frame session st = (c, r, session', st')"
    by (auto simp: reply_handled_def split: prod.splits)
  from handle_admission [OF this] show ?thesis .
qed

lemma request_step_admission: "request_step env task st = (task', st') \<Longrightarrow> admission_kept st st'"
  by (cases task) (auto simp: admission_kept_def split: option.splits prod.splits if_splits)

end
