(* ===== verification/RF_Socket.thy ===== *)
theory RF_Socket
  imports RF_Error
begin

text \<open>
  \<^bold>\<open>Socket helpers.\<close> This theory models \<open>src/socket_internal.hpp\<close>: making a socket, binding and
  listening, connecting, one receive, and the waiter of a session. (The blocking loops over a
  whole buffer are with the client.) The calls of the operating system are a record of functions
  over its state; what the helpers rely on is the locale \<open>socket_system\<close>, interpreted
  on a small network whose calls fail when the network says so. Texts of failures are the
  helpers' \<open>why\<close>.
\<close>

unbundle bit_operations_syntax

section \<open>The calls of the system\<close>

type_synonym socket_handle = nat

text \<open>An address, with its port in network byte order.\<close>

record sockaddr =
  sa_ipv6 :: bool
  sa_port :: u16
  sa_bytes :: bytes

text \<open>\<open>None\<close> is \<open>kInvalidSocket\<close>; a boolean tells whether the call succeeded.\<close>

record 'o socket_api =
  so_startup :: "'o \<Rightarrow> bool \<times> 'o"
  so_pton6 :: "string \<Rightarrow> bytes option"
  so_pton4 :: "string \<Rightarrow> bytes option"
  so_socket :: "bool \<Rightarrow> 'o \<Rightarrow> socket_handle option \<times> 'o"
  so_reuse :: "socket_handle \<Rightarrow> 'o \<Rightarrow> 'o"
  so_bind :: "socket_handle \<Rightarrow> sockaddr \<Rightarrow> 'o \<Rightarrow> bool \<times> 'o"
  so_listen :: "socket_handle \<Rightarrow> 'o \<Rightarrow> bool \<times> 'o"
  so_getsockname :: "socket_handle \<Rightarrow> 'o \<Rightarrow> sockaddr option \<times> 'o"
  so_connect :: "socket_handle \<Rightarrow> sockaddr \<Rightarrow> 'o \<Rightarrow> bool \<times> 'o"
  so_close :: "socket_handle \<Rightarrow> 'o \<Rightarrow> 'o"
  so_shutdown :: "socket_handle \<Rightarrow> 'o \<Rightarrow> 'o"

definition socket_runtime_start :: "'o socket_api \<Rightarrow> 'o \<Rightarrow> (string + unit) \<times> 'o" where
  "socket_runtime_start api os =
     (case so_startup api os of
        (False, os) \<Rightarrow> (Inl ''WSAStartup failed'', os)
      | (True, os) \<Rightarrow> (Inr (), os))"

definition close_socket :: "'o socket_api \<Rightarrow> socket_handle option \<Rightarrow> 'o \<Rightarrow> 'o" where
  "close_socket api handle os = (case handle of None \<Rightarrow> os | Some h \<Rightarrow> so_close api h os)"

definition shutdown_socket :: "'o socket_api \<Rightarrow> socket_handle option \<Rightarrow> 'o \<Rightarrow> 'o" where
  "shutdown_socket api handle os = (case handle of None \<Rightarrow> os | Some h \<Rightarrow> so_shutdown api h os)"

section \<open>Addresses\<close>

definition htons :: "u16 \<Rightarrow> u16" where
  "htons p = push_bit 8 p OR drop_bit 8 p"

definition ntohs :: "u16 \<Rightarrow> u16" where
  "ntohs p = push_bit 8 p OR drop_bit 8 p"

lemma ntohs_htons [simp]: "ntohs (htons p) = p"
  by (rule bit_word_eqI) (auto simp: ntohs_def htons_def bit_simps not_less)

text \<open>The structure filled in by \<open>bind_and_listen\<close> and \<open>connect_socket\<close>; an unparsed host stays zero.\<close>

definition socket_address :: "'o socket_api \<Rightarrow> string \<Rightarrow> u16 \<Rightarrow> bool \<Rightarrow> sockaddr" where
  "socket_address api host port ipv6 =
     \<lparr>sa_ipv6 = ipv6, sa_port = htons port,
      sa_bytes = (if ipv6 then (case so_pton6 api host of None \<Rightarrow> replicate 16 0 | Some a \<Rightarrow> a)
                  else (case so_pton4 api host of None \<Rightarrow> replicate 4 0 | Some a \<Rightarrow> a))\<rparr>"

section \<open>Making, binding and connecting\<close>

definition create_tcp_socket :: "'o socket_api \<Rightarrow> string \<Rightarrow> 'o \<Rightarrow> (string + socket_handle \<times> bool) \<times> 'o" where
  "create_tcp_socket api host os =
     (case socket_runtime_start api os of
        (Inl why, os) \<Rightarrow> (Inl why, os)
      | (Inr _, os) \<Rightarrow>
          let is_v6 = (so_pton6 api host \<noteq> None)
          in if \<not> is_v6 \<and> so_pton4 api host = None
             then (Inl ''bind address must be a literal IPv4 or IPv6 address'', os)
             else case so_socket api is_v6 os of
                    (None, os) \<Rightarrow> (Inl ''cannot create a TCP socket'', os)
                  | (Some handle, os) \<Rightarrow> (Inr (handle, is_v6), so_reuse api handle os))"

definition bind_and_listen ::
  "'o socket_api \<Rightarrow> socket_handle \<Rightarrow> string \<Rightarrow> u16 \<Rightarrow> bool \<Rightarrow> 'o \<Rightarrow> (string + u16) \<times> 'o" where
  "bind_and_listen api handle host port ipv6 os =
     (case so_bind api handle (socket_address api host port ipv6) os of
        (False, os) \<Rightarrow> (Inl ''cannot bind the listener'', os)
      | (True, os) \<Rightarrow>
          (case so_listen api handle os of
             (False, os) \<Rightarrow> (Inl ''cannot listen on the socket'', os)
           | (True, os) \<Rightarrow>
               (case so_getsockname api handle os of
                  (None, os) \<Rightarrow> (Inl ''cannot determine the bound port'', os)
                | (Some local, os) \<Rightarrow> (Inr (ntohs (sa_port local)), os))))"

definition connect_socket ::
  "'o socket_api \<Rightarrow> socket_handle \<Rightarrow> string \<Rightarrow> u16 \<Rightarrow> bool \<Rightarrow> 'o \<Rightarrow> (string + unit) \<times> 'o" where
  "connect_socket api handle host port ipv6 os =
     (case so_connect api handle (socket_address api host port ipv6) os of
        (False, os) \<Rightarrow> (Inl ''cannot connect to the coordinator'', os)
      | (True, os) \<Rightarrow> (Inr (), os))"

section \<open>One receive\<close>

datatype receive_status = RE_Data | RE_Closed | RE_WouldBlock | RE_Failed

text \<open>What \<open>recv\<close> returns: bytes, none at the end of the stream, or an error that may mean "not now".\<close>

datatype recv_result = Received bytes | Again | Error

definition receive_some :: "nat \<Rightarrow> recv_result \<Rightarrow> receive_status \<times> bytes" where
  "receive_some capacity result =
     (if capacity = 0 then (RE_Data, [])
      else case result of
             Received data \<Rightarrow> if data = [] then (RE_Closed, []) else (RE_Data, data)
           | Again \<Rightarrow> (RE_WouldBlock, [])
           | Error \<Rightarrow> (RE_Failed, []))"

section \<open>The waiter\<close>

text \<open>
  The shutdown signal is a pipe with a number of unread bytes, on Windows an event that stays
  set. \<open>None\<close> is a waiter without its pipe (\<open>-1\<close>) or its event.
\<close>

record socket_waiter =
  wa_socket :: "socket_handle option"
  wa_signal :: "nat option"

datatype wait_status = WT_Readable | WT_ShutdownRequested | WT_Failed

definition waiter_default :: socket_waiter where
  "waiter_default = \<lparr>wa_socket = None, wa_signal = None\<rparr>"

text \<open>\<open>made\<close> is whether the pipe, or the events and their association, could be made.\<close>

definition waiter_create :: "bool \<Rightarrow> bool \<Rightarrow> socket_handle \<Rightarrow> socket_waiter \<Rightarrow> bool \<times> socket_waiter" where
  "waiter_create windows made socket w =
     (let w = w\<lparr>wa_socket := Some socket\<rparr>
      in if made then (True, w\<lparr>wa_signal := Some 0\<rparr>)
         else (False, if windows then w\<lparr>wa_socket := None, wa_signal := None\<rparr> else w))"

definition waiter_request_shutdown :: "bool \<Rightarrow> socket_waiter \<Rightarrow> socket_waiter" where
  "waiter_request_shutdown windows w =
     (case wa_signal w of
        None \<Rightarrow> w
      | Some n \<Rightarrow> w\<lparr>wa_signal := Some (if windows then 1 else n + 1)\<rparr>)"

text \<open>
  The result is \<open>None\<close> while the call blocks. \<open>fails\<close> is a failure of the wait itself,
  \<open>ready\<close> whether the socket can be read. The shutdown signal is looked at first. A waiter without
  its signal fails, as the code checks on Windows; elsewhere it would select on \<open>-1\<close>, and no thread of the
  server does.
\<close>

definition waiter_wait :: "bool \<Rightarrow> bool \<Rightarrow> bool \<Rightarrow> socket_waiter \<Rightarrow> (wait_status \<times> socket_waiter) option" where
  "waiter_wait windows fails ready w =
     (if fails \<or> wa_signal w = None then Some (WT_Failed, w)
      else if wa_signal w \<noteq> Some 0 then
        Some (WT_ShutdownRequested, if windows then w else w\<lparr>wa_signal := map_option (\<lambda>n. n - 1) (wa_signal w)\<rparr>)
      else if ready then Some (WT_Readable, w)
      else None)"

definition waiter_close :: "socket_waiter \<Rightarrow> socket_waiter" where
  "waiter_close w = w\<lparr>wa_socket := None, wa_signal := None\<rparr>"

text \<open>A wait that was asked to shut down does not block, whatever the socket does.\<close>

lemma wait_after_request:
  assumes "wa_signal w = Some n"
  shows "\<exists>w'. waiter_wait windows False ready (waiter_request_shutdown windows w) = Some (WT_ShutdownRequested, w')"
  using assms by (auto simp: waiter_wait_def waiter_request_shutdown_def)

section \<open>What the helpers rely on\<close>

text \<open>
  The handles that are open: a new socket takes one that is not, closing gives it back, and
  no other call changes them.
\<close>

locale socket_system =
  fixes api :: "'o socket_api" and opened :: "'o \<Rightarrow> socket_handle set"
  assumes socket_new: "so_socket api v6 os = (Some h, os') \<Longrightarrow> h \<notin> opened os \<and> opened os' = insert h (opened os)"
    and socket_none: "so_socket api v6 os = (None, os') \<Longrightarrow> opened os' = opened os"
    and closed: "opened (so_close api h os) = opened os - {h}"
    and kept: "so_startup api os = (ok, os1) \<Longrightarrow> opened os1 = opened os"
      "opened (so_reuse api h os) = opened os"
      "so_bind api h a os = (ok, os2) \<Longrightarrow> opened os2 = opened os"
      "so_listen api h os = (ok, os3) \<Longrightarrow> opened os3 = opened os"
      "so_getsockname api h os = (x, os4) \<Longrightarrow> opened os4 = opened os"
      "so_connect api h a os = (ok, os5) \<Longrightarrow> opened os5 = opened os"
      "opened (so_shutdown api h os) = opened os"
begin

lemma create_opened:
  assumes "create_tcp_socket api host os = (x, os')"
  shows "case x of Inl why \<Rightarrow> opened os' = opened os
    | Inr (h, v6) \<Rightarrow> h \<notin> opened os \<and> opened os' = insert h (opened os)"
proof -
  obtain ok os1 where startup: "so_startup api os = (ok, os1)" by fastforce
  obtain made os2 where made: "so_socket api (so_pton6 api host \<noteq> None) os1 = (made, os2)" by fastforce
  note same = kept(1) [OF startup]
  show ?thesis
    using assms startup made same socket_new [of _ os1] socket_none [of _ os1] kept(2)
    by (cases made; cases ok) (auto simp: create_tcp_socket_def socket_runtime_start_def Let_def split: if_splits)
qed

lemmas create_opens = create_opened [where x = "Inr (h, v6)" for h v6, simplified]
lemmas create_fails = create_opened [where x = "Inl why" for why, simplified]

lemma bind_keeps: "bind_and_listen api h host port v6 os = (x, os') \<Longrightarrow> opened os' = opened os"
  by (auto simp: bind_and_listen_def split: prod.splits bool.splits option.splits dest!: kept(3,4,5))

lemma connect_keeps: "connect_socket api h host port v6 os = (x, os') \<Longrightarrow> opened os' = opened os"
  by (auto simp: connect_socket_def split: prod.splits bool.splits dest!: kept(6))

lemma close_opened: "opened (close_socket api handle os) = opened os - set_option handle"
  by (simp add: close_socket_def closed split: option.splits)

lemma shutdown_opened: "opened (shutdown_socket api handle os) = opened os"
  by (simp add: shutdown_socket_def kept(7) split: option.splits)

end

end
