(* ===== verification/RF_Lifetime.thy ===== *)
theory RF_Lifetime
  imports RF_Requests RF_Socket
begin

text \<open>
  \<^bold>\<open>The life of the server.\<close> Starting, accepting, serving and stopping in \<open>src/server.cpp\<close> as a
  system of threads: the thread that calls \<open>Start\<close> and \<open>Stop\<close>, the accept thread and one
  thread per session. A move is the work of one thread between two points at which others can
  interfere: a locked block of the server or of the runtime, a call of the backend, an atomic
  flag, a call of the operating system. The system's calls are the parameter \<open>le_api\<close> of \<open>RF_Socket\<close> with \<open>le_accept\<close>.
\<close>

section \<open>One pass of the session loop\<close>

datatype iteration = IT_Wait | IT_Request task | IT_Break

definition session_iteration ::
  "'b server_env \<Rightarrow> bytes \<Rightarrow> session \<Rightarrow> 'b server_state \<Rightarrow>
   iteration \<times> bytes \<times> bytes list \<times> session \<times> 'b server_state" where
  "session_iteration env buffer session st =
     (if length buffer < kFrameHeaderBytes then (IT_Wait, buffer, [], session, st)
      else case frame_header_status (sv_wire env) (sv_limits env) buffer of (header_status, frame_total) \<Rightarrow>
        if header_status = FS_OversizedPayload then
          (IT_Break, buffer, [send_error env SC_LimitExceeded (sv_text env MI_Error SC_LimitExceeded)], session,
           count sc_oversized_frames_update st)
        else if header_status \<noteq> FS_Complete then
          (IT_Break, buffer, [send_error env SC_ProtocolViolation (sv_text env MI_Error SC_ProtocolViolation)],
           session, count sc_malformed_frames_update st)
        else if length buffer \<ge> frame_total then
          (case decode_frame (sv_wire env) (sv_limits env) (take frame_total buffer) of
             Inl status \<Rightarrow>
               (IT_Break, buffer, [send_error env SC_IntegrityFailure (sv_text env MI_Error SC_IntegrityFailure)],
                session,
                count (if status = FS_IntegrityFailure then sc_integrity_failures_update
                       else sc_malformed_frames_update) st)
           | Inr decoded \<Rightarrow>
               (case request_begin env decoded session (count sc_frames_received_update st) of
                  (task, session, st) \<Rightarrow> (IT_Request task, drop frame_total buffer, [], session, st)))
        else (IT_Wait, buffer, [], session, st))"

text \<open>\<open>drain\<close> repeats the pass and the request it begins.\<close>

lemma drain_iterates:
  "drain env buffer session st =
     (case session_iteration env buffer session st of
        (IT_Wait, buffer, sent, session, st) \<Rightarrow> (Waiting buffer, sent, session, st)
      | (IT_Break, buffer, sent, session, st) \<Rightarrow> (Ended, sent, session, st)
      | (IT_Request task, buffer, sent, session, st) \<Rightarrow>
          (case run_task env task st of (continues, reply, st) \<Rightarrow>
             if \<not> continues then (Ended, [reply], session, st)
             else (case drain env buffer session st of (p, later, session, st) \<Rightarrow> (p, reply # later, session, st))))"
  by (subst drain.simps)
    (simp add: session_iteration_def request_is_handle [symmetric] request_alone_def split: prod.splits sum.splits)

text \<open>
  The parts of \<open>finish_session\<close> before the handle is closed: the registration is looked up in one
  section of the runtime and the publisher is fenced in another.
\<close>

definition holds_registration :: "session \<Rightarrow> runtime \<Rightarrow> bool" where
  "holds_registration session rt \<longleftrightarrow>
     se_registered session \<and>
     (case LookupRegistration rt (se_publisher session) of
        Inl _ \<Rightarrow> False
      | Inr registration \<Rightarrow> rg_worker_boot registration = se_worker_boot session)"

definition fence_session :: "session \<Rightarrow> 'b server_state \<Rightarrow> 'b server_state" where
  "fence_session session st =
     st\<lparr>sx_runtime := snd (FencePublisher (se_publisher session) FR_SessionClosed (sx_runtime st))\<rparr>"

definition leave_session :: "'b server_state \<Rightarrow> 'b server_state" where
  "leave_session st =
     count sc_sessions_closed_update
       (st\<lparr>sx_active := (if sx_active st > 0 then sx_active st - 1 else sx_active st)\<rparr>)"

lemma finish_session_parts:
  "finish_session session st =
     leave_session (if holds_registration session (sx_runtime st) then fence_session session st else st)"
  by (simp add: finish_session_def leave_session_def fence_session_def holds_registration_def Let_def split: sum.splits)

section \<open>The threads\<close>

datatype session_pc =
    S_New | S_Top | S_Wait | S_Receive | S_Request task | S_Finish | S_Fence | S_Leave
  | S_CloseWaiter "socket_handle option" | S_Shutdown "socket_handle option" | S_Close "socket_handle option" | S_Notify | S_Done

record session_thread =
  th_session :: session
  th_socket :: "socket_handle option"
  th_waiter :: socket_waiter
  th_buffer :: bytes
  th_inbox :: "recv_result list"
  th_sent :: "bytes list"
  th_pc :: session_pc

datatype accept_pc =
    A_None | A_Check | A_Accept | A_Woken socket_handle | A_Reap socket_handle | A_Make socket_handle
  | A_Admit socket_handle socket_waiter | A_Refuse socket_handle | A_Spawn nat | A_Done

datatype main_pc =
    M_Idle | M_Running | M_Wake | M_Connect socket_handle bool | M_CloseWake socket_handle | M_Join | M_CloseListener | M_Copy
  | M_Signal "nat list" | M_ReadSocket nat "nat list" | M_ShutSession "socket_handle option" "nat list" | M_Await | M_Stopped

record ('o, 'b) life_env =
  le_server :: "'b server_env"
  le_api :: "'o socket_api"
  le_accept :: "socket_handle \<Rightarrow> 'o \<Rightarrow> (socket_handle option \<times> 'o) option"
  le_bind_address :: string
  le_port :: u16
  le_windows :: bool
  le_has_runtime :: bool
  le_has_backend :: bool

text \<open>\<open>lf_woken\<close> is no variable of the code: whether the wake-up connection of \<open>Stop\<close> was made.\<close>

record ('o, 'b) life =
  lf_os :: 'o
  lf_state :: "'b server_state"
  lf_threads :: "session_thread list"
  lf_sessions :: "nat list"
  lf_listener :: "socket_handle option"
  lf_stopping :: bool
  lf_running :: bool
  lf_bound_port :: u16
  lf_accept :: accept_pc
  lf_main :: main_pc
  lf_woken :: bool

definition new_life :: "'o \<Rightarrow> 'b server_state \<Rightarrow> ('o, 'b) life" where
  "new_life os st =
     \<lparr>lf_os = os, lf_state = st, lf_threads = [], lf_sessions = [], lf_listener = None, lf_stopping = False,
      lf_running = False, lf_bound_port = 0, lf_accept = A_None, lf_main = M_Idle, lf_woken = False\<rparr>"

section \<open>Starting\<close>

definition Start :: "('o, 'b) life_env \<Rightarrow> ('o, 'b) life \<Rightarrow> status \<times> ('o, 'b) life" where
  "Start env s =
     (if \<not> le_has_runtime env then (Inl SC_InvalidArgument, s)
      else if \<not> le_has_backend env then (Inl SC_InvalidArgument, s)
      else if lf_running s then (Inl SC_AlreadyExists, s)
      else case create_tcp_socket (le_api env) (le_bind_address env) (lf_os s) of
        (Inl why, os) \<Rightarrow> (Inl SC_Internal, s\<lparr>lf_os := os\<rparr>)
      | (Inr (listener, ipv6), os) \<Rightarrow>
          (case bind_and_listen (le_api env) listener (le_bind_address env) (le_port env) ipv6 os of
             (Inl why, os) \<Rightarrow>
               (Inl SC_Internal, s\<lparr>lf_os := close_socket (le_api env) (Some listener) os, lf_listener := None\<rparr>)
           | (Inr bound_port, os) \<Rightarrow>
               (ok_status,
                s\<lparr>lf_os := os, lf_listener := Some listener, lf_bound_port := bound_port, lf_stopping := False,
                  lf_running := True, lf_accept := A_Check, lf_main := M_Running, lf_woken := False\<rparr>)))"

section \<open>The accept thread\<close>

definition reap_sessions :: "('o, 'b) life \<Rightarrow> ('o, 'b) life" where
  "reap_sessions s = s\<lparr>lf_sessions := filter (\<lambda>i. th_socket (lf_threads s ! i) \<noteq> None) (lf_sessions s)\<rparr>"

definition new_thread :: "socket_handle \<Rightarrow> socket_waiter \<Rightarrow> session_thread" where
  "new_thread client waiter =
     \<lparr>th_session = session_default, th_socket = Some client, th_waiter = waiter, th_buffer = [], th_inbox = [],
      th_sent = [], th_pc = S_New\<rparr>"

abbreviation set_pc :: "nat \<Rightarrow> session_pc \<Rightarrow> session_thread list \<Rightarrow> session_thread list" where
  "set_pc i pc ts \<equiv> ts[i := (ts ! i)\<lparr>th_pc := pc\<rparr>]"

text \<open>\<open>None\<close> while the thread is blocked, has not been started or has ended; \<open>made\<close> is the success of the waiter.\<close>

definition accept_move :: "('o, 'b) life_env \<Rightarrow> bool \<Rightarrow> ('o, 'b) life \<Rightarrow> ('o, 'b) life option" where
  "accept_move env made s =
     (case lf_accept s of
        A_None \<Rightarrow> None
      | A_Done \<Rightarrow> None
      | A_Check \<Rightarrow> Some (s\<lparr>lf_accept := (if lf_stopping s then A_Done else A_Accept)\<rparr>)
      | A_Accept \<Rightarrow>
          (case lf_listener s of
             None \<Rightarrow> Some (s\<lparr>lf_accept := A_Done\<rparr>)
           | Some listener \<Rightarrow>
               (case le_accept env listener (lf_os s) of
                  None \<Rightarrow> None
                | Some (None, os) \<Rightarrow> Some (s\<lparr>lf_os := os, lf_accept := A_Done\<rparr>)
                | Some (Some client, os) \<Rightarrow> Some (s\<lparr>lf_os := os, lf_accept := A_Woken client\<rparr>)))
      | A_Woken client \<Rightarrow>
          Some (if lf_stopping s
                then s\<lparr>lf_os := close_socket (le_api env) (Some client) (lf_os s), lf_accept := A_Done\<rparr>
                else s\<lparr>lf_accept := A_Reap client\<rparr>)
      | A_Reap client \<Rightarrow> Some ((reap_sessions s)\<lparr>lf_accept := A_Make client\<rparr>)
      | A_Make client \<Rightarrow>
          (case waiter_create (le_windows env) made client waiter_default of
             (False, _) \<Rightarrow>
               Some (s\<lparr>lf_os := close_socket (le_api env) (Some client) (lf_os s), lf_accept := A_Check\<rparr>)
           | (True, waiter) \<Rightarrow> Some (s\<lparr>lf_accept := A_Admit client waiter\<rparr>))
      | A_Admit client waiter \<Rightarrow>
          (case accept_session (le_server env) (lf_stopping s) (lf_state s) of
             (True, st) \<Rightarrow>
               Some (s\<lparr>lf_state := st, lf_threads := lf_threads s @ [new_thread client waiter],
                       lf_sessions := lf_sessions s @ [length (lf_threads s)],
                       lf_accept := A_Spawn (length (lf_threads s))\<rparr>)
           | (False, st) \<Rightarrow> Some (s\<lparr>lf_state := st, lf_accept := A_Refuse client\<rparr>))
      | A_Refuse client \<Rightarrow>
          Some (s\<lparr>lf_os := close_socket (le_api env) (Some client) (lf_os s), lf_accept := A_Check\<rparr>)
      | A_Spawn i \<Rightarrow> Some (s\<lparr>lf_threads := set_pc i S_Top (lf_threads s), lf_accept := A_Check\<rparr>))"

section \<open>A session thread\<close>

definition receive_move :: "'b server_env \<Rightarrow> session_thread \<Rightarrow> 'b server_state \<Rightarrow> session_thread \<times> 'b server_state" where
  "receive_move env t st =
     (case (case th_inbox t of [] \<Rightarrow> (Again, []) | r # rest \<Rightarrow> (r, rest)) of (result, inbox) \<Rightarrow>
        (let t = t\<lparr>th_inbox := inbox\<rparr>
         in case receive_some 4096 result of (status, data) \<Rightarrow>
              if status = RE_Closed \<or> status = RE_Failed then (t\<lparr>th_pc := S_Finish\<rparr>, st)
              else if status = RE_WouldBlock then (t\<lparr>th_pc := S_Top\<rparr>, st)
              else if length (th_buffer t) + length data > max_frame_bytes (sv_limits env) + kFrameHeaderBytes then
                (t\<lparr>th_sent := th_sent t @ [send_error env SC_LimitExceeded
                                              ''the peer sent more bytes than the configured frame bound''],
                   th_pc := S_Finish\<rparr>,
                 count sc_oversized_frames_update st)
              else (t\<lparr>th_buffer := th_buffer t @ data, th_pc := S_Top\<rparr>, st)))"

definition top_move ::
  "'b server_env \<Rightarrow> bool \<Rightarrow> session_thread \<Rightarrow> 'b server_state \<Rightarrow> session_thread \<times> 'b server_state" where
  "top_move env stopping t st =
     (if stopping then (t\<lparr>th_pc := S_Finish\<rparr>, st)
      else case session_iteration env (th_buffer t) (th_session t) st of (it, buffer, sent, session, st) \<Rightarrow>
        (t\<lparr>th_buffer := buffer, th_sent := th_sent t @ sent, th_session := session,
           th_pc := (case it of IT_Wait \<Rightarrow> S_Wait | IT_Request task \<Rightarrow> S_Request task | IT_Break \<Rightarrow> S_Finish)\<rparr>, st))"

text \<open>The next section of the request, or the reply and the end of \<open>handle\<close>.\<close>

definition request_move ::
  "'b server_env \<Rightarrow> task \<Rightarrow> session_thread \<Rightarrow> 'b server_state \<Rightarrow> session_thread \<times> 'b server_state" where
  "request_move env task t st =
     (case task of
        TK_Reply continues reply \<Rightarrow>
          (t\<lparr>th_sent := th_sent t @ [reply], th_pc := (if continues then S_Top else S_Finish)\<rparr>, st)
      | _ \<Rightarrow> (case request_step env task st of (task, st) \<Rightarrow> (t\<lparr>th_pc := S_Request task\<rparr>, st)))"

text \<open>The thread, the shared state and the operating system after one move; \<open>fails\<close> is a failure of the wait.\<close>

definition thread_move ::
  "('o, 'b) life_env \<Rightarrow> bool \<Rightarrow> bool \<Rightarrow> session_thread \<Rightarrow> 'b server_state \<Rightarrow> 'o \<Rightarrow>
   (session_thread \<times> 'b server_state \<times> 'o) option" where
  "thread_move env stopping fails t st os =
     (case th_pc t of
        S_New \<Rightarrow> None
      | S_Done \<Rightarrow> None
      | S_Top \<Rightarrow> (case top_move (le_server env) stopping t st of (t, st) \<Rightarrow> Some (t, st, os))
      | S_Wait \<Rightarrow>
          (case waiter_wait (le_windows env) fails (th_inbox t \<noteq> []) (th_waiter t) of
             None \<Rightarrow> None
           | Some (status, waiter) \<Rightarrow>
               Some (t\<lparr>th_waiter := waiter, th_pc := (if status = WT_Readable then S_Receive else S_Finish)\<rparr>, st, os))
      | S_Receive \<Rightarrow> (case receive_move (le_server env) t st of (t, st) \<Rightarrow> Some (t, st, os))
      | S_Request task \<Rightarrow> (case request_move (le_server env) task t st of (t, st) \<Rightarrow> Some (t, st, os))
      | S_Finish \<Rightarrow>
          Some (t\<lparr>th_pc := (if holds_registration (th_session t) (sx_runtime st) then S_Fence else S_Leave)\<rparr>, st, os)
      | S_Fence \<Rightarrow> Some (t\<lparr>th_pc := S_Leave\<rparr>, fence_session (th_session t) st, os)
      | S_Leave \<Rightarrow> Some (t\<lparr>th_socket := None, th_pc := S_CloseWaiter (th_socket t)\<rparr>, leave_session st, os)
      | S_CloseWaiter h \<Rightarrow> Some (t\<lparr>th_waiter := waiter_close (th_waiter t), th_pc := S_Shutdown h\<rparr>, st, os)
      | S_Shutdown h \<Rightarrow> Some (t\<lparr>th_pc := S_Close h\<rparr>, st, shutdown_socket (le_api env) h os)
      | S_Close h \<Rightarrow> Some (t\<lparr>th_pc := S_Notify\<rparr>, st, close_socket (le_api env) h os)
      | S_Notify \<Rightarrow> Some (t\<lparr>th_pc := S_Done\<rparr>, st, os))"

definition session_move :: "('o, 'b) life_env \<Rightarrow> bool \<Rightarrow> nat \<Rightarrow> ('o, 'b) life \<Rightarrow> ('o, 'b) life option" where
  "session_move env fails i s =
     (if i < length (lf_threads s) then
        (case thread_move env (lf_stopping s) fails (lf_threads s ! i) (lf_state s) (lf_os s) of
           None \<Rightarrow> None
         | Some (t, st, os) \<Rightarrow> Some (s\<lparr>lf_threads := (lf_threads s)[i := t], lf_state := st, lf_os := os\<rparr>))
      else None)"

section \<open>Stopping\<close>

definition wake_address :: "string \<Rightarrow> string" where
  "wake_address bind_address =
     (if bind_address = ''0.0.0.0'' then ''127.0.0.1''
      else if bind_address = ''::'' \<or> bind_address = ''::0'' then ''::1''
      else bind_address)"

text \<open>\<open>M_Running\<close> is the call of \<open>Stop\<close>, \<open>M_Stopped\<close> its return.\<close>

definition main_move :: "('o, 'b) life_env \<Rightarrow> ('o, 'b) life \<Rightarrow> ('o, 'b) life option" where
  "main_move env s =
     (case lf_main s of
        M_Idle \<Rightarrow> None
      | M_Stopped \<Rightarrow> None
      | M_Running \<Rightarrow>
          Some (s\<lparr>lf_stopping := True,
                  lf_main := (if lf_listener s \<noteq> None \<and> lf_bound_port s \<noteq> 0 then M_Wake else M_Join)\<rparr>)
      | M_Wake \<Rightarrow>
          (case create_tcp_socket (le_api env) (wake_address (le_bind_address env)) (lf_os s) of
             (Inl why, os) \<Rightarrow> Some (s\<lparr>lf_os := os, lf_main := M_Join\<rparr>)
           | (Inr (wake, ipv6), os) \<Rightarrow> Some (s\<lparr>lf_os := os, lf_main := M_Connect wake ipv6\<rparr>))
      | M_Connect wake ipv6 \<Rightarrow>
          (case connect_socket (le_api env) wake (wake_address (le_bind_address env)) (lf_bound_port s) ipv6 (lf_os s) of
             (Inl why, os) \<Rightarrow> Some (s\<lparr>lf_os := os, lf_main := M_CloseWake wake\<rparr>)
           | (Inr _, os) \<Rightarrow> Some (s\<lparr>lf_os := os, lf_main := M_CloseWake wake, lf_woken := True\<rparr>))
      | M_CloseWake wake \<Rightarrow>
          Some (s\<lparr>lf_os := close_socket (le_api env) (Some wake) (lf_os s), lf_main := M_Join\<rparr>)
      | M_Join \<Rightarrow> (if lf_accept s = A_Done then Some (s\<lparr>lf_main := M_CloseListener\<rparr>) else None)
      | M_CloseListener \<Rightarrow>
          Some (s\<lparr>lf_os := close_socket (le_api env) (lf_listener s)
                            (shutdown_socket (le_api env) (lf_listener s) (lf_os s)),
                  lf_listener := None, lf_main := M_Copy\<rparr>)
      | M_Copy \<Rightarrow> Some (s\<lparr>lf_main := M_Signal (lf_sessions s)\<rparr>)
      | M_Signal pending \<Rightarrow>
          (case pending of
             [] \<Rightarrow> Some (s\<lparr>lf_main := M_Await\<rparr>)
           | i # rest \<Rightarrow>
               let t = lf_threads s ! i
               in Some (s\<lparr>lf_threads := (lf_threads s)
                              [i := t\<lparr>th_waiter := waiter_request_shutdown (le_windows env) (th_waiter t)\<rparr>],
                          lf_main := M_ReadSocket i rest\<rparr>))
      | M_ReadSocket i rest \<Rightarrow> Some (s\<lparr>lf_main := M_ShutSession (th_socket (lf_threads s ! i)) rest\<rparr>)
      | M_ShutSession h rest \<Rightarrow>
          Some (s\<lparr>lf_os := shutdown_socket (le_api env) h (lf_os s), lf_main := M_Signal rest\<rparr>)
      | M_Await \<Rightarrow>
          (if sx_active (lf_state s) = 0
           then Some (s\<lparr>lf_sessions := [], lf_running := False, lf_main := M_Stopped\<rparr>) else None))"

definition running :: "('o, 'b) life \<Rightarrow> bool" where
  "running s \<longleftrightarrow> lf_running s"

definition bound_port :: "('o, 'b) life \<Rightarrow> u16" where
  "bound_port s = lf_bound_port s"

definition session_count :: "('o, 'b) life \<Rightarrow> nat" where
  "session_count s = sx_active (lf_state s)"

definition server_counters_of :: "('o, 'b) life \<Rightarrow> server_counters" where
  "server_counters_of s = sx_counters (lf_state s)"

end
