(* ===== verification/RF_LifetimeFacts.thy ===== *)
theory RF_LifetimeFacts
  imports RF_Lifetime
begin

text \<open>
  \<^bold>\<open>The threads of the server together.\<close> The system of all interleavings, its invariants, and
  what they give: the handles that are open are those the server owns, a stop ends after a
  bounded number of moves and not while a session can still touch the runtime.
\<close>

section \<open>The system\<close>

inductive server_move :: "('o, 'b) life_env \<Rightarrow> ('o, 'b) life \<Rightarrow> ('o, 'b) life \<Rightarrow> bool" for env :: "('o, 'b) life_env" where
  main: "server_move env s s'" if "main_move env s = Some s'" and "lf_main s \<noteq> M_Running"
| accept: "server_move env s s'" if "accept_move env made s = Some s'"
| session: "server_move env s s'" if "session_move env fails i s = Some s'"

text \<open>
  What the owner of the server and the world outside do: starting and stopping, results that
  become available to a receive, connections, and changes of the runtime by other users.
\<close>

inductive owner_move ::
  "('o, 'b) life_env \<Rightarrow> ('o \<Rightarrow> 'o \<Rightarrow> bool) \<Rightarrow> ('o, 'b) life \<Rightarrow> ('o, 'b) life \<Rightarrow> bool"
  for env :: "('o, 'b) life_env" and world :: "'o \<Rightarrow> 'o \<Rightarrow> bool" where
  start: "owner_move env world s s'" if "lf_main s \<in> {M_Idle, M_Running, M_Stopped}" and "Start env s = (x, s')"
| stop: "owner_move env world s s'" if "lf_main s = M_Running" and "main_move env s = Some s'"
| arrival: "owner_move env world s (s\<lparr>lf_threads := (lf_threads s)[i := (lf_threads s ! i)\<lparr>th_inbox := th_inbox (lf_threads s ! i) @ [r]\<rparr>]\<rparr>)"
    if "i < length (lf_threads s)"
| outside: "owner_move env world s (s\<lparr>lf_os := os\<rparr>)" if "world (lf_os s) os"
| elsewhere: "owner_move env world s (s\<lparr>lf_state := (lf_state s)\<lparr>sx_runtime := rt, sx_backend := b\<rparr>\<rparr>)"

inductive life_reachable ::
  "('o, 'b) life_env \<Rightarrow> ('o \<Rightarrow> 'o \<Rightarrow> bool) \<Rightarrow> 'o \<Rightarrow> ('o, 'b) life \<Rightarrow> bool"
  for env :: "('o, 'b) life_env" and world :: "'o \<Rightarrow> 'o \<Rightarrow> bool" and os0 :: 'o where
  new: "life_reachable env world os0 (new_life os0 st)"
    if "sx_active st = 0" and "sc_sessions_accepted (sx_counters st) = 0" and "sc_sessions_closed (sx_counters st) = 0"
| moved: "life_reachable env world os0 s'" if "life_reachable env world os0 s" and "server_move env s s'"
| owner: "life_reachable env world os0 s'" if "life_reachable env world os0 s" and "owner_move env world s s'"

section \<open>Moves of one session\<close>

definition live_pc :: "session_pc \<Rightarrow> bool" where
  "live_pc pc \<longleftrightarrow> pc \<in> {S_New, S_Top, S_Wait, S_Receive, S_Finish, S_Fence, S_Leave} \<or> (\<exists>task. pc = S_Request task)"

abbreviation live_thread :: "session_thread \<Rightarrow> bool" where
  "live_thread t \<equiv> live_pc (th_pc t)"

lemma live_pc_simps [simp]:
  "live_pc S_New" "live_pc S_Top" "live_pc S_Wait" "live_pc S_Receive" "live_pc S_Finish" "live_pc S_Fence"
  "live_pc S_Leave" "live_pc (S_Request task)"
  "\<not> live_pc (S_CloseWaiter h)" "\<not> live_pc (S_Shutdown h)" "\<not> live_pc (S_Close h)" "\<not> live_pc S_Notify" "\<not> live_pc S_Done"
  by (simp_all add: live_pc_def)

lemma session_moveD:
  assumes "session_move env fails i s = Some s'"
  obtains t' st' os' where "i < length (lf_threads s)"
    and "thread_move env (lf_stopping s) fails (lf_threads s ! i) (lf_state s) (lf_os s) = Some (t', st', os')"
    and "s' = s\<lparr>lf_threads := (lf_threads s)[i := t'], lf_state := st', lf_os := os'\<rparr>"
  using assms by (auto simp: session_move_def split: if_splits option.splits)

lemma length_filter_update:
  "i < length xs \<Longrightarrow>
   length (filter P (xs[i := x])) + (if P (xs ! i) then 1 else 0) = length (filter P xs) + (if P x then 1 else 0)"
proof (induction xs arbitrary: i)
  case (Cons y ys)
  then show ?case by (cases i) auto
qed simp

lemma iteration_admission:
  "session_iteration env buffer session st = (it, buffer', sent, session', st') \<Longrightarrow> admission_kept st st'"
  by (auto simp: session_iteration_def admission_kept_def count_def
      split: if_splits prod.splits sum.splits dest!: request_begin_admission)

lemma fence_admission: "admission_kept st (fence_session session st)"
  by (simp add: fence_session_def admission_kept_def)

lemma top_move_facts:
  assumes "top_move env stopping t st = (t', st')"
  shows "admission_kept st st' \<and> (th_pc t' \<in> {S_Wait, S_Finish} \<or> (\<exists>task. th_pc t' = S_Request task)) \<and> th_socket t' = th_socket t \<and>
    th_waiter t' = th_waiter t \<and> th_inbox t' = th_inbox t \<and> (stopping \<longrightarrow> th_pc t' = S_Finish)"
proof (cases stopping)
  case True
  with assms show ?thesis by (auto simp: top_move_def admission_kept_def)
next
  case False
  obtain it buffer sent session st1 where it: "session_iteration env (th_buffer t) (th_session t) st = (it, buffer, sent, session, st1)"
    by (metis prod_cases5)
  with assms False iteration_admission [OF it] show ?thesis
    by (cases it) (auto simp: top_move_def)
qed

lemma request_move_facts:
  assumes "request_move env task t st = (t', st')"
  shows "admission_kept st st' \<and> th_socket t' = th_socket t \<and> th_waiter t' = th_waiter t \<and> th_inbox t' = th_inbox t \<and>
    (th_pc t' \<in> {S_Top, S_Finish} \<or> (\<exists>task'. th_pc t' = S_Request task' \<and> task_rank task' < task_rank task))"
proof (cases "\<exists>c r. task = TK_Reply c r")
  case True
  with assms show ?thesis by (auto simp: request_move_def admission_kept_def)
next
  case False
  then have rank: "task_rank task \<noteq> 0" by (simp add: task_rank_reply)
  obtain task' st1 where step: "request_step env task st = (task', st1)" by fastforce
  with assms False have "t' = t\<lparr>th_pc := S_Request task'\<rparr>" "st' = st1"
    by (cases task; simp add: request_move_def)+
  with request_step_rank [OF step rank] request_step_admission [OF step] show ?thesis by simp
qed

lemma receive_move_facts:
  assumes "receive_move env t st = (t', st')"
  shows "admission_kept st st' \<and> th_pc t' \<in> {S_Top, S_Finish} \<and> th_socket t' = th_socket t \<and> th_waiter t' = th_waiter t"
  using assms
  by (auto simp: receive_move_def Let_def admission_kept_def count_def split: list.splits prod.splits if_splits)

text \<open>The handles a thread owns: its socket, and later the one it is about to close.\<close>

definition thread_handles :: "session_thread \<Rightarrow> socket_handle list" where
  "thread_handles t =
     (let own = (\<lambda>h. case h of None \<Rightarrow> [] | Some h \<Rightarrow> [h])
      in case th_pc t of
           S_CloseWaiter h \<Rightarrow> own h
         | S_Shutdown h \<Rightarrow> own h
         | S_Close h \<Rightarrow> own h
         | S_Notify \<Rightarrow> []
         | S_Done \<Rightarrow> []
         | _ \<Rightarrow> own (th_socket t))"

lemma thread_handles_live: "live_thread t \<Longrightarrow> thread_handles t = (case th_socket t of None \<Rightarrow> [] | Some h \<Rightarrow> [h])"
  by (auto simp: thread_handles_def live_pc_def)

definition thread_ok :: "session_thread \<Rightarrow> bool" where
  "thread_ok t \<longleftrightarrow>
     (live_thread t \<longrightarrow> th_socket t \<noteq> None \<and> wa_signal (th_waiter t) \<noteq> None) \<and>
     (\<not> live_thread t \<longrightarrow> th_socket t = None)"

text \<open>A thread that was asked to stop and has not begun to finish will leave its next wait.\<close>

definition asked :: "session_thread \<Rightarrow> bool" where
  "asked t \<longleftrightarrow> (th_pc t \<in> {S_New, S_Top, S_Wait, S_Receive} \<or> (\<exists>task. th_pc t = S_Request task) \<longrightarrow> wa_signal (th_waiter t) \<noteq> Some 0)"

lemma wait_signal:
  assumes "waiter_wait windows fails ready w = Some (status, w')"
  shows "(wa_signal w' = None) = (wa_signal w = None) \<and> (status = WT_Readable \<longrightarrow> w' = w) \<and> wa_socket w' = wa_socket w"
  using assms by (auto simp: waiter_wait_def split: if_splits)

lemma thread_move_facts:
  assumes "thread_move env stopping fails t st os = Some (t', st', os')" and "thread_ok t"
  shows "thread_ok t'" and "live_thread t' \<Longrightarrow> live_thread t" and "th_pc t' \<noteq> S_New"
    and "sx_active st' = (if live_thread t \<and> \<not> live_thread t' then sx_active st - 1 else sx_active st)"
    and "asked t \<Longrightarrow> asked t'"
proof -
  note cases' = thread_move_def thread_ok_def asked_def
  have all: "thread_ok t' \<and> (live_thread t' \<longrightarrow> live_thread t) \<and> th_pc t' \<noteq> S_New \<and>
    sx_active st' = (if live_thread t \<and> \<not> live_thread t' then sx_active st - 1 else sx_active st) \<and> (asked t \<longrightarrow> asked t')"
  proof (cases "th_pc t")
    case S_Top
    with assms show ?thesis by (auto simp: cases' admission_kept_def split: prod.splits dest!: top_move_facts)
  next
    case S_Receive
    with assms show ?thesis by (auto simp: cases' admission_kept_def split: prod.splits dest!: receive_move_facts)
  next
    case S_Wait
    with assms show ?thesis by (auto simp: cases' split: option.splits if_splits dest!: wait_signal)
  next
    case (S_Request task)
    with assms show ?thesis by (auto simp: cases' admission_kept_def split: prod.splits dest!: request_move_facts)
  next
    case S_Finish
    with assms show ?thesis by (auto simp: cases' split: if_splits)
  next
    case S_Fence
    with assms fence_admission [of st "th_session t"] show ?thesis by (auto simp: cases' admission_kept_def)
  next
    case S_Leave
    with assms show ?thesis by (auto simp: cases' leave_session_def count_def)
  qed (use assms in \<open>auto simp: cases'\<close>)
  then show "thread_ok t'" "live_thread t' \<Longrightarrow> live_thread t" "th_pc t' \<noteq> S_New"
    "sx_active st' = (if live_thread t \<and> \<not> live_thread t' then sx_active st - 1 else sx_active st)"
    "asked t \<Longrightarrow> asked t'" by blast+
qed

end
