(* ===== verification/RF_Stopping.thy ===== *)
theory RF_Stopping
  imports RF_LifetimeFacts
begin

text \<open>
  \<^bold>\<open>Stopping.\<close> The invariant of the server's threads and what it gives: a stop ends after a
  bounded number of moves, and not while a session can still touch the runtime.
\<close>

lemma nth_update: "xs[i := x] ! j = (if i = j \<and> j < length xs then x else xs ! j)"
  by (cases "i < length xs") (auto simp: nth_list_update list_update_beyond not_less)

lemma map_update_same: "f x = f (xs ! i) \<Longrightarrow> map f (xs[i := x]) = map f xs"
  by (rule nth_equalityI) (auto simp: nth_update)

section \<open>The invariant\<close>

text \<open>Where the owner is: before the join with the accept thread, after it, and whom it still has to ask.\<close>

fun joining :: "main_pc \<Rightarrow> bool" where
  "joining M_Wake = True"
| "joining (M_Connect h v6) = True"
| "joining (M_CloseWake h) = True"
| "joining M_Join = True"
| "joining _ = False"

fun joined :: "main_pc \<Rightarrow> bool" where
  "joined M_CloseListener = True"
| "joined M_Copy = True"
| "joined (M_Signal p) = True"
| "joined (M_ReadSocket i p) = True"
| "joined (M_ShutSession h p) = True"
| "joined M_Await = True"
| "joined _ = False"

fun to_ask :: "main_pc \<Rightarrow> nat list option" where
  "to_ask (M_Signal p) = Some p"
| "to_ask (M_ReadSocket i p) = Some p"
| "to_ask (M_ShutSession h p) = Some p"
| "to_ask M_Await = Some []"
| "to_ask _ = None"

definition control_ok :: "('o, 'b) life \<Rightarrow> bool" where
  "control_ok s \<longleftrightarrow>
     (lf_main s = M_Idle \<longrightarrow> lf_accept s = A_None \<and> lf_listener s = None \<and> \<not> lf_running s) \<and>
     (lf_main s = M_Running \<longrightarrow> lf_running s \<and> \<not> lf_stopping s \<and> lf_listener s \<noteq> None \<and> lf_accept s \<noteq> A_None) \<and>
     (joining (lf_main s) \<longrightarrow> lf_running s \<and> lf_stopping s \<and> lf_listener s \<noteq> None \<and> lf_accept s \<noteq> A_None) \<and>
     (joined (lf_main s) \<longrightarrow> lf_running s \<and> lf_stopping s \<and> lf_accept s = A_Done) \<and>
     (joined (lf_main s) \<and> lf_main s \<noteq> M_CloseListener \<longrightarrow> lf_listener s = None) \<and>
     (lf_main s = M_Stopped \<longrightarrow> \<not> lf_running s \<and> lf_accept s = A_Done \<and> lf_listener s = None \<and> sx_active (lf_state s) = 0)"

definition sessions_ok :: "('o, 'b) life \<Rightarrow> bool" where
  "sessions_ok s \<longleftrightarrow>
     (\<forall>i < length (lf_threads s). thread_ok (lf_threads s ! i)) \<and>
     sx_active (lf_state s) = length (filter live_thread (lf_threads s)) \<and>
     (\<forall>i < length (lf_threads s). live_thread (lf_threads s ! i) \<longrightarrow> i \<in> set (lf_sessions s))"

text \<open>The accept thread starts the one thread that is new.\<close>

definition spawn_ok :: "('o, 'b) life \<Rightarrow> bool" where
  "spawn_ok s \<longleftrightarrow> (\<forall>i. i < length (lf_threads s) \<and> th_pc (lf_threads s ! i) = S_New \<longleftrightarrow> lf_accept s = A_Spawn i)"

definition asked_ok :: "('o, 'b) life \<Rightarrow> bool" where
  "asked_ok s \<longleftrightarrow>
     (\<forall>p. to_ask (lf_main s) = Some p \<longrightarrow>
        (\<forall>i < length (lf_threads s). live_thread (lf_threads s ! i) \<longrightarrow> i \<in> set p \<or> asked (lf_threads s ! i)))"

definition life_inv :: "('o, 'b) life \<Rightarrow> bool" where
  "life_inv s \<longleftrightarrow> control_ok s \<and> sessions_ok s \<and> spawn_ok s \<and> asked_ok s"

lemmas life_invs = control_ok_def sessions_ok_def spawn_ok_def asked_ok_def

lemma life_invD:
  assumes "life_inv s"
  shows "control_ok s" "sessions_ok s" "spawn_ok s" "asked_ok s"
  using assms by (simp_all add: life_inv_def)

lemma session_move_inv:
  assumes "session_move env fails i s = Some s'" and "life_inv s"
  shows "life_inv s'"
proof -
  obtain t' st' os' where i: "i < length (lf_threads s)"
    and run: "thread_move env (lf_stopping s) fails (lf_threads s ! i) (lf_state s) (lf_os s) = Some (t', st', os')"
    and s': "s' = s\<lparr>lf_threads := (lf_threads s)[i := t'], lf_state := st', lf_os := os'\<rparr>"
    using session_moveD [OF assms(1)] by blast
  note was = life_invD [OF assms(2)]
  have ok: "thread_ok (lf_threads s ! i)" and active: "sx_active (lf_state s) = length (filter live_thread (lf_threads s))"
    using was(2) i by (simp_all add: sessions_ok_def)
  note facts = thread_move_facts [OF run ok]
  have count: "sx_active st' = length (filter live_thread ((lf_threads s)[i := t']))"
    using facts(2,4) length_filter_update [OF i, of live_thread t'] active
    by (cases "live_thread t'"; cases "live_thread (lf_threads s ! i)") simp_all
  have new: "th_pc (lf_threads s ! i) \<noteq> S_New" using run by (auto simp: thread_move_def)
  have "control_ok s'" using was(1) facts(4) by (simp add: s' control_ok_def)
  moreover have "sessions_ok s'"
    using was(2) facts(1,2) count i by (auto simp: s' sessions_ok_def nth_list_update)
  moreover have "spawn_ok s'"
    using was(3) facts(3) new i by (auto simp: s' spawn_ok_def nth_list_update)
  moreover have "asked_ok s'"
    using was(4) facts(2,5) i by (auto simp: s' asked_ok_def nth_list_update)
  ultimately show ?thesis by (simp add: life_inv_def)
qed

text \<open>A new session, and its start.\<close>

lemma admit_inv:
  assumes "life_inv s" and "lf_accept s = A_Admit client waiter" and "wa_signal waiter \<noteq> None"
    and "sx_active st = sx_active (lf_state s) + 1" and "\<not> lf_stopping s"
  shows "life_inv (s\<lparr>lf_state := st, lf_threads := lf_threads s @ [new_thread client waiter],
    lf_sessions := lf_sessions s @ [length (lf_threads s)], lf_accept := A_Spawn (length (lf_threads s))\<rparr>)"
    (is "life_inv ?s'")
proof -
  note was = life_invD [OF assms(1)]
  let ?t = "new_thread client waiter"
  have t: "th_pc ?t = S_New" "thread_ok ?t" using assms(3) by (simp_all add: new_thread_def thread_ok_def)
  have phase: "lf_main s = M_Running"
    using was(1) assms(2,5) by (cases "lf_main s") (auto simp: control_ok_def)
  have "control_ok ?s'" using was(1) phase by (simp add: control_ok_def)
  moreover have "sessions_ok ?s'" using was(2) t assms(4) by (auto simp: sessions_ok_def nth_append less_Suc_eq)
  moreover have "spawn_ok ?s'" using was(3) t assms(2) by (auto simp: spawn_ok_def nth_append less_Suc_eq)
  moreover have "asked_ok ?s'" using phase by (simp add: asked_ok_def)
  ultimately show ?thesis by (simp add: life_inv_def)
qed

lemma spawn_inv:
  assumes "life_inv s" and "lf_accept s = A_Spawn i"
  shows "life_inv (s\<lparr>lf_threads := set_pc i S_Top (lf_threads s), lf_accept := A_Check\<rparr>)"
    (is "life_inv ?s'")
proof -
  note was = life_invD [OF assms(1)]
  have i: "i < length (lf_threads s)" "th_pc (lf_threads s ! i) = S_New"
    using was(3) assms(2) by (auto simp: spawn_ok_def)
  let ?t = "(lf_threads s ! i)\<lparr>th_pc := S_Top\<rparr>"
  have "length (filter live_thread ((lf_threads s)[i := ?t])) = length (filter live_thread (lf_threads s))"
    using length_filter_update [OF i(1), of live_thread ?t] i(2) by simp
  moreover have "thread_ok ?t" using was(2) i by (auto simp: sessions_ok_def thread_ok_def)
  ultimately have "sessions_ok ?s'" using was(2) i by (auto simp: sessions_ok_def nth_list_update)
  moreover have "control_ok ?s'" using was(1) assms(2) by (auto simp: control_ok_def)
  moreover have "spawn_ok ?s'" using was(3) assms(2) i by (auto simp: spawn_ok_def nth_list_update)
  moreover have "to_ask (lf_main s) = None" using was(1) assms(2) by (cases "lf_main s") (auto simp: control_ok_def)
  then have "asked_ok ?s'" by (simp add: asked_ok_def)
  ultimately show ?thesis by (simp add: life_inv_def)
qed

lemma reap_inv:
  assumes "life_inv s" and "lf_accept s = A_Reap client"
  shows "life_inv ((reap_sessions s)\<lparr>lf_accept := A_Make client\<rparr>)"
proof -
  note was = life_invD [OF assms(1)]
  show ?thesis unfolding life_inv_def
  proof (intro conjI)
    show "control_ok ((reap_sessions s)\<lparr>lf_accept := A_Make client\<rparr>)"
      using was(1) assms(2) by (auto simp: control_ok_def reap_sessions_def)
    show "sessions_ok ((reap_sessions s)\<lparr>lf_accept := A_Make client\<rparr>)"
      using was(2) by (auto simp: sessions_ok_def reap_sessions_def thread_ok_def)
    show "spawn_ok ((reap_sessions s)\<lparr>lf_accept := A_Make client\<rparr>)"
      using was(3) assms(2) by (simp add: spawn_ok_def reap_sessions_def)
    show "asked_ok ((reap_sessions s)\<lparr>lf_accept := A_Make client\<rparr>)"
      using was(4) by (simp add: asked_ok_def reap_sessions_def)
  qed
qed

text \<open>Moves that only advance the accept thread.\<close>

lemma advance_inv:
  assumes "life_inv s" and "lf_accept s \<noteq> A_None" "lf_accept s \<noteq> A_Done" "\<And>i. lf_accept s \<noteq> A_Spawn i"
    and "pc \<noteq> A_None" "\<And>i. pc \<noteq> A_Spawn i" and "sx_active st = sx_active (lf_state s)"
  shows "life_inv (s\<lparr>lf_state := st, lf_os := os, lf_accept := pc\<rparr>)"
proof -
  note was = life_invD [OF assms(1)]
  show ?thesis
    using was assms(2-7) by (auto simp: life_inv_def life_invs)
qed

lemmas advance_os_inv = advance_inv [where st = "lf_state s" and s = s for s, simplified]
lemmas advance_pc_inv = advance_os_inv [where os = "lf_os s" and s = s for s, simplified]

lemma accept_session_cases:
  assumes "accept_session env stopping st = (ok, st')"
  shows "if ok then \<not> stopping \<and> sx_active st' = sx_active st + 1 else sx_active st' = sx_active st"
  using assms by (auto simp: accept_session_def count_def split: if_splits)

lemma accept_move_inv:
  assumes "accept_move env made s = Some s'" and "life_inv s" and "\<And>c w. lf_accept s = A_Admit c w \<Longrightarrow> wa_signal w \<noteq> None"
  shows "life_inv s'"
proof (cases "lf_accept s")
  case (A_Admit client waiter)
  obtain ok st where run: "accept_session (le_server env) (lf_stopping s) (lf_state s) = (ok, st)" by fastforce
  show ?thesis
  proof (cases ok)
    case True
    then show ?thesis
      using assms(1) admit_inv [OF assms(2) A_Admit assms(3) [OF A_Admit], of st] A_Admit run accept_session_cases [OF run]
      by (simp add: accept_move_def)
  next
    case False
    then show ?thesis
      using assms(1) advance_inv [OF assms(2), of "A_Refuse client" st "lf_os s"] A_Admit run accept_session_cases [OF run]
      by (simp add: accept_move_def)
  qed
next
  case (A_Spawn i)
  then show ?thesis using assms(1) spawn_inv [OF assms(2) A_Spawn] by (simp add: accept_move_def)
next
  case (A_Reap client)
  then show ?thesis using assms(1) reap_inv [OF assms(2) A_Reap] by (simp add: accept_move_def)
qed (use assms(1) advance_os_inv [OF assms(2)] advance_pc_inv [OF assms(2)] in
    \<open>auto simp: accept_move_def split: option.splits prod.splits bool.splits if_splits\<close>)

section \<open>The owner\<close>

text \<open>The owner asks one session to stop.\<close>

lemma request_asks:
  assumes "thread_ok t" and "live_thread t"
  shows "asked (t\<lparr>th_waiter := waiter_request_shutdown windows (th_waiter t)\<rparr>)"
    and "thread_ok (t\<lparr>th_waiter := waiter_request_shutdown windows (th_waiter t)\<rparr>)"
  using assms by (auto simp: asked_def thread_ok_def waiter_request_shutdown_def split: if_splits)

lemma request_keeps:
  "thread_ok t \<Longrightarrow> thread_ok (t\<lparr>th_waiter := waiter_request_shutdown windows (th_waiter t)\<rparr>)"
  "asked t \<Longrightarrow> asked (t\<lparr>th_waiter := waiter_request_shutdown windows (th_waiter t)\<rparr>)"
  by (auto simp: asked_def thread_ok_def waiter_request_shutdown_def split: option.splits if_splits)

lemma signal_inv:
  fixes windows :: bool
  assumes "life_inv s" and "lf_main s = M_Signal (i # rest)"
  defines "t \<equiv> (lf_threads s ! i)\<lparr>th_waiter := waiter_request_shutdown windows (th_waiter (lf_threads s ! i))\<rparr>"
  shows "life_inv (s\<lparr>lf_threads := (lf_threads s)[i := t], lf_main := M_ReadSocket i rest\<rparr>)" (is "life_inv ?s'")
proof -
  note was = life_invD [OF assms(1)]
  have pc: "th_pc t = th_pc (lf_threads s ! i)" by (simp add: t_def)
  have active: "length (filter live_thread ((lf_threads s)[i := t])) = length (filter live_thread (lf_threads s))"
    using length_filter_update [of i "lf_threads s" live_thread t] pc
    by (cases "i < length (lf_threads s)") (simp_all add: not_less list_update_beyond)
  have "control_ok ?s'" using was(1) assms(2) by (simp add: control_ok_def)
  moreover have "sessions_ok ?s'"
    using was(2) pc active request_keeps(1) by (auto simp: sessions_ok_def nth_update t_def)
  moreover have "spawn_ok ?s'"
    using was(3) pc by (auto simp: spawn_ok_def nth_update)
  moreover have "asked_ok ?s'"
    using was(2,4) assms(2) pc request_asks(1) request_keeps(2)
    by (auto simp: asked_ok_def sessions_ok_def nth_update t_def)
  ultimately show ?thesis by (simp add: life_inv_def)
qed

text \<open>Moves of the owner that leave the sessions alone.\<close>

lemma owner_inv:
  assumes "life_inv s" and "control_ok s'" and "asked_ok s'"
    and "lf_threads s' = lf_threads s" "lf_sessions s' = lf_sessions s" "lf_accept s' = lf_accept s"
      "sx_active (lf_state s') = sx_active (lf_state s)"
  shows "life_inv s'"
  using assms by (simp add: life_inv_def sessions_ok_def spawn_ok_def)

lemma main_move_inv:
  assumes "main_move env s = Some s'" and "life_inv s"
  shows "life_inv s'"
proof (cases "lf_main s")
  case (M_Signal p)
  note was = life_invD [OF assms(2)]
  show ?thesis
  proof (cases p)
    case Nil
    show ?thesis
      by (rule owner_inv [OF assms(2)]) (use assms(1) was M_Signal Nil in \<open>auto simp: main_move_def control_ok_def asked_ok_def\<close>)
  next
    case (Cons i rest)
    then show ?thesis
      using assms(1) signal_inv [OF assms(2), of i rest] M_Signal by (auto simp: main_move_def Let_def)
  qed
next
  case M_Copy
  note was = life_invD [OF assms(2)]
  show ?thesis
    by (rule owner_inv [OF assms(2)]) (use assms(1) was M_Copy in \<open>auto simp: main_move_def control_ok_def asked_ok_def sessions_ok_def\<close>)
next
  case M_Await
  note was = life_invD [OF assms(2)]
  have none: "sx_active (lf_state s) = 0" and s': "s' = s\<lparr>lf_sessions := [], lf_running := False, lf_main := M_Stopped\<rparr>"
    using assms(1) M_Await by (auto simp: main_move_def split: if_splits)
  have "\<not> live_thread (lf_threads s ! i)" if "i < length (lf_threads s)" for i
    using none was(2) that by (auto simp: sessions_ok_def filter_empty_conv)
  then show ?thesis
    using was none M_Await by (auto simp: s' life_inv_def control_ok_def sessions_ok_def spawn_ok_def asked_ok_def)
qed (use assms(1) life_invD [OF assms(2)] in \<open>auto simp: main_move_def control_ok_def asked_ok_def
    intro!: owner_inv [OF assms(2)] split: prod.splits sum.splits if_splits\<close>)

text \<open>A start that fails gives back what it took; one that succeeds begins a new run.\<close>

lemma Start_result:
  assumes "Start env s = (x, s')"
  obtains "s' = s" | os where "\<not> lf_running s" and "s' = s\<lparr>lf_os := os\<rparr>"
  | os where "\<not> lf_running s" and "s' = s\<lparr>lf_os := os, lf_listener := None\<rparr>"
  | os l p where "\<not> lf_running s" and "s' = s\<lparr>lf_os := os, lf_listener := Some l, lf_bound_port := p, lf_stopping := False,
      lf_running := True, lf_accept := A_Check, lf_main := M_Running, lf_woken := False\<rparr>"
proof -
  obtain made os1 where made: "create_tcp_socket (le_api env) (le_bind_address env) (lf_os s) = (made, os1)" by fastforce
  show thesis
  proof (cases "le_has_runtime env \<and> le_has_backend env \<and> \<not> lf_running s")
    case False
    then have "s' = s" using assms by (simp add: Start_def split: if_splits)
    then show thesis by (rule that(1))
  next
    case free: True
    show thesis
    proof (cases made)
      case (Inl why)
      then have "s' = s\<lparr>lf_os := os1\<rparr>" using assms made free by (simp add: Start_def)
      with free show thesis by (intro that(2)) auto
    next
      case (Inr made')
      obtain l v6 where l: "made' = (l, v6)" by fastforce
      obtain bound os2 where bound: "bind_and_listen (le_api env) l (le_bind_address env) (le_port env) v6 os1 = (bound, os2)"
        by fastforce
      show thesis
        using assms made free Inr l bound by (cases bound) (auto simp: Start_def intro: that(3,4))
    qed
  qed
qed

lemma Start_inv:
  assumes "Start env s = (x, s')" and "life_inv s" and "lf_main s \<in> {M_Idle, M_Running, M_Stopped}"
  shows "life_inv s'"
  using assms(1)
proof (cases rule: Start_result)
  case (4 os l p)
  note was = life_invD [OF assms(2)]
  have spawn: "lf_accept s \<noteq> A_Spawn i" for i
    using was(1) assms(3) 4 by (auto simp: control_ok_def)
  show ?thesis
    using was(2,3) spawn by (simp add: 4 life_inv_def control_ok_def sessions_ok_def spawn_ok_def asked_ok_def)
qed (use assms(2,3) life_invD [OF assms(2)] in \<open>auto simp: control_ok_def asked_ok_def intro!: owner_inv [OF assms(2)]\<close>)

section \<open>Reachable states\<close>

text \<open>The waiter of a connection that may become a session has its signal.\<close>

definition admit_ok :: "('o, 'b) life \<Rightarrow> bool" where
  "admit_ok s \<longleftrightarrow> (\<forall>c w. lf_accept s = A_Admit c w \<longrightarrow> wa_signal w \<noteq> None)"

lemma server_move_admit:
  assumes "server_move env s s'" and "admit_ok s"
  shows "admit_ok s'"
  using assms(1)
proof cases
  case main
  then have "lf_accept s' = lf_accept s"
    by (cases "lf_main s") (auto simp: main_move_def Let_def split: prod.splits sum.splits list.splits if_splits)
  with assms(2) show ?thesis by (simp add: admit_ok_def)
next
  case (accept made)
  then show ?thesis
    using assms(2) by (cases "lf_accept s")
      (auto simp: accept_move_def admit_ok_def waiter_create_def Let_def split: option.splits prod.splits bool.splits if_splits)
next
  case (session fails i)
  then show ?thesis using assms(2) by (auto simp: admit_ok_def elim!: session_moveD)
qed

lemma owner_move_facts:
  assumes "owner_move env world s s'" and "life_inv s" and "admit_ok s"
  shows "life_inv s' \<and> admit_ok s'"
  using assms(1)
proof cases
  case (start x)
  then show ?thesis using Start_inv [OF start(2) assms(2)] assms(3)
    by (auto simp: admit_ok_def elim!: Start_result)
next
  case stop
  then show ?thesis using main_move_inv [OF stop(2) assms(2)] assms(3) by (auto simp: admit_ok_def main_move_def)
next
  case (arrival i r)
  note was = life_invD [OF assms(2)]
  let ?t = "(lf_threads s ! i)\<lparr>th_inbox := th_inbox (lf_threads s ! i) @ [r]\<rparr>"
  have "length (filter live_thread ((lf_threads s)[i := ?t])) = length (filter live_thread (lf_threads s))"
    using length_filter_update [OF arrival(2), of live_thread ?t] by simp
  then have "sessions_ok s'" using was(2) by (auto simp: arrival(1) sessions_ok_def nth_update thread_ok_def)
  moreover have "control_ok s'" using was(1) by (simp add: arrival(1) control_ok_def)
  moreover have "spawn_ok s'" using was(3) arrival(2) by (auto simp: arrival(1) spawn_ok_def nth_update)
  moreover have "asked_ok s'" using was(4) by (auto simp: arrival(1) asked_ok_def nth_update asked_def)
  ultimately show ?thesis using assms(3) by (simp add: arrival(1) life_inv_def admit_ok_def)
next
  case (outside os)
  then show ?thesis
    using owner_inv [OF assms(2), of s'] life_invD [OF assms(2)] assms(3) by (simp add: control_ok_def asked_ok_def admit_ok_def)
next
  case (elsewhere rt b)
  then show ?thesis
    using owner_inv [OF assms(2), of s'] life_invD [OF assms(2)] assms(3) by (simp add: control_ok_def asked_ok_def admit_ok_def)
qed

lemma server_move_inv: "server_move env s s' \<Longrightarrow> life_inv s \<Longrightarrow> admit_ok s \<Longrightarrow> life_inv s'"
  by (erule server_move.cases) (auto simp: admit_ok_def intro: main_move_inv accept_move_inv session_move_inv)

lemma new_life_inv: "sx_active st = 0 \<Longrightarrow> life_inv (new_life os st) \<and> admit_ok (new_life os st)"
  by (simp add: new_life_def life_inv_def control_ok_def sessions_ok_def spawn_ok_def asked_ok_def admit_ok_def)

lemma life_reachable_inv: "life_reachable env world os0 s \<Longrightarrow> life_inv s \<and> admit_ok s"
proof (induction rule: life_reachable.induct)
  case (moved s s')
  then show ?case using server_move_inv server_move_admit by blast
next
  case (owner s s')
  then show ?case using owner_move_facts by blast
qed (rule new_life_inv)

section \<open>A stop ends\<close>

text \<open>How many moves are left: of a session, of the accept thread and of the owner.\<close>

fun thread_rank :: "session_pc \<Rightarrow> nat" where
  "thread_rank S_Done = 0"
| "thread_rank S_Notify = 1"
| "thread_rank (S_Close h) = 2"
| "thread_rank (S_Shutdown h) = 3"
| "thread_rank (S_CloseWaiter h) = 4"
| "thread_rank S_Leave = 5"
| "thread_rank S_Fence = 6"
| "thread_rank S_Finish = 7"
| "thread_rank S_Top = 8"
| "thread_rank S_Receive = 9"
| "thread_rank S_Wait = 10"
| "thread_rank S_New = 11"
| "thread_rank (S_Request task) = 9 + task_rank task"

fun accept_rank :: "accept_pc \<Rightarrow> nat" where
  "accept_rank A_None = 0"
| "accept_rank A_Done = 0"
| "accept_rank A_Check = 1"
| "accept_rank (A_Woken h) = 1"
| "accept_rank A_Accept = 2"
| "accept_rank (A_Refuse h) = 2"
| "accept_rank (A_Spawn i) = 2"
| "accept_rank (A_Admit h w) = 3"
| "accept_rank (A_Make h) = 4"
| "accept_rank (A_Reap h) = 5"

fun main_rank :: "nat \<Rightarrow> main_pc \<Rightarrow> nat" where
  "main_rank n M_Stopped = 0"
| "main_rank n M_Await = 1"
| "main_rank n (M_Signal p) = 2 + 3 * length p"
| "main_rank n (M_ShutSession h p) = 3 + 3 * length p"
| "main_rank n (M_ReadSocket i p) = 4 + 3 * length p"
| "main_rank n M_Copy = 3 + 3 * n"
| "main_rank n M_CloseListener = 4 + 3 * n"
| "main_rank n M_Join = 5 + 3 * n"
| "main_rank n (M_CloseWake h) = 6 + 3 * n"
| "main_rank n (M_Connect h v6) = 7 + 3 * n"
| "main_rank n M_Wake = 8 + 3 * n"
| "main_rank n M_Running = 9 + 3 * n"
| "main_rank n M_Idle = 0"

definition stop_rank :: "('o, 'b) life \<Rightarrow> nat" where
  "stop_rank s =
     sum_list (map (thread_rank \<circ> th_pc) (lf_threads s)) + accept_rank (lf_accept s) +
     main_rank (length (lf_sessions s)) (lf_main s)"

lemma sum_list_update:
  fixes f :: "'a \<Rightarrow> nat"
  shows "i < length xs \<Longrightarrow> sum_list (map f (xs[i := x])) + f (xs ! i) = sum_list (map f xs) + f x"
proof (induction xs arbitrary: i)
  case (Cons y ys)
  then show ?case by (cases i) auto
qed simp

lemma thread_move_rank:
  assumes "thread_move env True fails t st os = Some (t', st', os')"
  shows "thread_rank (th_pc t') < thread_rank (th_pc t)"
  using assms
  by (cases "th_pc t") (auto simp: thread_move_def split: option.splits prod.splits
      dest!: top_move_facts receive_move_facts request_move_facts)

lemma main_rank_mono: "m \<le> n \<Longrightarrow> main_rank m pc \<le> main_rank n pc"
  by (cases pc) auto

text \<open>While a stop is under way every move of the server brings it closer to its end.\<close>

lemma server_move_rank:
  assumes "server_move env s s'" and "lf_stopping s" and "life_inv s" and "lf_main s \<noteq> M_Idle"
  shows "stop_rank s' < stop_rank s \<and> lf_stopping s' \<and> lf_main s' \<noteq> M_Idle"
  using assms(1)
proof cases
  case main
  then show ?thesis
    using assms(2) by (cases "lf_main s")
      (auto simp: main_move_def stop_rank_def Let_def map_update_same split: prod.splits sum.splits list.splits if_splits)
next
  case (accept made)
  show ?thesis
  proof (cases "lf_accept s")
    case (A_Spawn i)
    have "i < length (lf_threads s)" "th_pc (lf_threads s ! i) = S_New"
      using life_invD(3) [OF assms(3)] A_Spawn by (auto simp: spawn_ok_def)
    then show ?thesis
      using accept assms(2,4) A_Spawn sum_list_update [of i "lf_threads s" "thread_rank \<circ> th_pc" "(lf_threads s ! i)\<lparr>th_pc := S_Top\<rparr>"]
      by (auto simp: accept_move_def stop_rank_def)
  next
    case (A_Reap h)
    have "length (filter (\<lambda>i. th_socket (lf_threads s ! i) \<noteq> None) (lf_sessions s)) \<le> length (lf_sessions s)" by simp
    from main_rank_mono [OF this, of "lf_main s"] show ?thesis
      using accept assms(2,4) A_Reap by (auto simp: accept_move_def stop_rank_def reap_sessions_def)
  next
    case (A_Admit h w)
    then show ?thesis
      using accept assms(2,4) by (auto simp: accept_move_def stop_rank_def accept_session_def)
  qed (use accept assms(2,4) in \<open>auto simp: accept_move_def stop_rank_def split: option.splits prod.splits bool.splits\<close>)
next
  case (session fails i)
  from session show ?thesis
  proof (cases rule: session_moveD)
    case (1 t' st' os')
    have "thread_rank (th_pc t') < thread_rank (th_pc (lf_threads s ! i))"
      using thread_move_rank 1(2) assms(2) by auto
    then show ?thesis
      using 1(3) assms(2,4) sum_list_update [OF 1(1), of "thread_rank \<circ> th_pc" t'] by (simp add: stop_rank_def)
  qed
qed

section \<open>Nothing stands in its way\<close>

text \<open>What can hold the owner up: the accept thread in a call of accept that has nothing to return.\<close>

definition accept_held :: "('o, 'b) life_env \<Rightarrow> ('o, 'b) life \<Rightarrow> bool" where
  "accept_held env s \<longleftrightarrow>
     lf_main s = M_Join \<and> lf_accept s = A_Accept \<and> (\<exists>l. lf_listener s = Some l \<and> le_accept env l (lf_os s) = None)"

lemma live_thread_moves:
  assumes "thread_ok t" and "live_thread t" and "asked t" and "th_pc t \<noteq> S_New"
  shows "\<exists>x. thread_move env stopping False t st os = Some x"
proof (cases "th_pc t")
  case S_Wait
  obtain n where "wa_signal (th_waiter t) = Some n" "n \<noteq> 0"
    using assms S_Wait by (auto simp: thread_ok_def asked_def)
  with S_Wait show ?thesis by (auto simp: thread_move_def waiter_wait_def)
qed (use assms in \<open>auto simp: thread_move_def split: prod.splits\<close>)

lemma accept_moves:
  assumes "lf_accept s \<notin> {A_None, A_Done}" and "\<And>l. lf_accept s = A_Accept \<Longrightarrow> lf_listener s = Some l \<Longrightarrow> le_accept env l (lf_os s) \<noteq> None"
  shows "\<exists>s'. accept_move env True s = Some s'"
  using assms by (cases "lf_accept s") (auto simp: accept_move_def split: option.splits prod.splits bool.splits)

lemma main_moves:
  assumes "joining (lf_main s) \<or> joined (lf_main s)" and "lf_main s = M_Join \<longrightarrow> lf_accept s = A_Done"
    and "lf_main s = M_Await \<longrightarrow> sx_active (lf_state s) = 0"
  shows "\<exists>s'. main_move env s = Some s'"
  using assms by (cases "lf_main s") (auto simp: main_move_def Let_def split: prod.splits sum.splits list.splits)

lemma stop_not_stuck:
  assumes "life_inv s" and "joining (lf_main s) \<or> joined (lf_main s)" and "\<not> accept_held env s"
  shows "\<exists>s'. server_move env s s'"
proof -
  note was = life_invD [OF assms(1)]
  have running: "lf_main s \<noteq> M_Running" using assms(2) by auto
  consider "lf_main s = M_Join" "lf_accept s \<noteq> A_Done" | "lf_main s = M_Await" "sx_active (lf_state s) \<noteq> 0"
    | "lf_main s = M_Join \<longrightarrow> lf_accept s = A_Done" "lf_main s = M_Await \<longrightarrow> sx_active (lf_state s) = 0"
    by (cases "lf_main s") auto
  then show ?thesis
  proof cases
    case 1
    then have "lf_accept s \<notin> {A_None, A_Done}" using was(1) by (auto simp: control_ok_def)
    moreover have "le_accept env l (lf_os s) \<noteq> None" if "lf_accept s = A_Accept" "lf_listener s = Some l" for l
      using assms(3) 1 that by (auto simp: accept_held_def)
    ultimately show ?thesis using accept_moves [of s env] by (auto intro: server_move.accept)
  next
    case 2
    then have "filter live_thread (lf_threads s) \<noteq> []" using was(2) by (auto simp: sessions_ok_def)
    then obtain i where i: "i < length (lf_threads s)" "live_thread (lf_threads s ! i)"
      by (auto simp: filter_empty_conv in_set_conv_nth)
    have "thread_ok (lf_threads s ! i)" "asked (lf_threads s ! i)" "th_pc (lf_threads s ! i) \<noteq> S_New"
      using was i 2(1) by (auto simp: sessions_ok_def asked_ok_def spawn_ok_def control_ok_def)
    from live_thread_moves [OF this(1) i(2) this(2,3), of env "lf_stopping s" "lf_state s" "lf_os s"] obtain x where
      "thread_move env (lf_stopping s) False (lf_threads s ! i) (lf_state s) (lf_os s) = Some x" by blast
    then have "session_move env False i s \<noteq> None" using i(1) by (auto simp: session_move_def split: prod.splits)
    then show ?thesis by (auto intro: server_move.session)
  next
    case 3
    then show ?thesis using main_moves [OF assms(2), of env] running by (auto intro: server_move.main)
  qed
qed

section \<open>Runs of a stop\<close>

text \<open>A run while a stop is under way, with the number of moves that the server's own threads make.\<close>

inductive stop_run ::
  "('o, 'b) life_env \<Rightarrow> ('o \<Rightarrow> 'o \<Rightarrow> bool) \<Rightarrow> nat \<Rightarrow> ('o, 'b) life \<Rightarrow> ('o, 'b) life \<Rightarrow> bool"
  for env :: "('o, 'b) life_env" and world :: "'o \<Rightarrow> 'o \<Rightarrow> bool" where
  none: "stop_run env world 0 s s"
| own: "stop_run env world (Suc n) s s''" if "stop_run env world n s s'" and "server_move env s' s''"
| other: "stop_run env world n s s''" if "stop_run env world n s s'" and "lf_main s' \<noteq> M_Stopped" and "owner_move env world s' s''"

lemma stop_run_trans:
  assumes "stop_run env world m s s'" and "stop_run env world n s' s''"
  shows "stop_run env world (m + n) s s''"
  using assms(2,1) by (induction rule: stop_run.induct) (auto intro: stop_run.intros)

definition stop_under_way :: "('o, 'b) life \<Rightarrow> bool" where
  "stop_under_way s \<longleftrightarrow> joining (lf_main s) \<or> joined (lf_main s)"

lemma under_way_stopping: "life_inv s \<Longrightarrow> stop_under_way s \<Longrightarrow> lf_stopping s"
  by (auto simp: stop_under_way_def dest!: life_invD(1) simp: control_ok_def)

lemma main_move_phase:
  assumes "main_move env s = Some s'" and "stop_under_way s"
  shows "stop_under_way s' \<or> lf_main s' = M_Stopped" and "lf_woken s \<Longrightarrow> lf_woken s'" and "lf_stopping s' = lf_stopping s"
  using assms
  by (cases "lf_main s"; auto simp: stop_under_way_def main_move_def Let_def split: prod.splits sum.splits list.splits if_splits)+

lemma others_phase:
  assumes "accept_move env made s = Some s' \<or> session_move env fails i s = Some s'"
  shows "lf_main s' = lf_main s \<and> lf_woken s' = lf_woken s \<and> lf_stopping s' = lf_stopping s"
  using assms
proof
  assume "accept_move env made s = Some s'"
  then show ?thesis
    by (cases "lf_accept s") (auto simp: accept_move_def reap_sessions_def split: option.splits prod.splits bool.splits if_splits)
qed (auto elim!: session_moveD)

lemma server_move_phase:
  assumes "server_move env s s'" and "stop_under_way s"
  shows "stop_under_way s' \<or> lf_main s' = M_Stopped" and "lf_woken s \<Longrightarrow> lf_woken s'" and "lf_stopping s' = lf_stopping s"
proof -
  have "(stop_under_way s' \<or> lf_main s' = M_Stopped) \<and> (lf_woken s \<longrightarrow> lf_woken s') \<and> lf_stopping s' = lf_stopping s"
    using assms(1)
  proof cases
    case main
    then show ?thesis using main_move_phase [OF _ assms(2)] by blast
  next
    case (accept made)
    then show ?thesis using others_phase [of env made s s'] assms(2) by (simp add: stop_under_way_def)
  next
    case (session fails i)
    then show ?thesis using others_phase [of env _ s s' fails i] assms(2) by (simp add: stop_under_way_def)
  qed
  then show "stop_under_way s' \<or> lf_main s' = M_Stopped" "lf_woken s \<Longrightarrow> lf_woken s'" "lf_stopping s' = lf_stopping s"
    by blast+
qed

text \<open>After the stop, the threads that are left change neither its outcome nor the shared state.\<close>

lemma stopped_keeps:
  assumes "server_move env s s'" and "life_inv s" and "lf_main s = M_Stopped"
  shows "lf_main s' = M_Stopped \<and> lf_state s' = lf_state s"
  using assms(1)
proof cases
  case main
  with assms(3) show ?thesis by (simp add: main_move_def)
next
  case (accept made)
  with assms(3) life_invD(1) [OF assms(2)] show ?thesis by (simp add: accept_move_def control_ok_def)
next
  case (session fails i)
  from session show ?thesis
  proof (cases rule: session_moveD)
    case (1 t st os)
    have "filter live_thread (lf_threads s) = []"
      using life_invD(1,2) [OF assms(2)] assms(3) by (auto simp: control_ok_def sessions_ok_def)
    then have "\<not> live_thread (lf_threads s ! i)" using 1(1) by (auto simp: filter_empty_conv)
    then have "st = lf_state s" using 1(2) by (cases "th_pc (lf_threads s ! i)") (auto simp: thread_move_def)
    with 1(3) assms(3) show ?thesis by simp
  qed
qed

lemma owner_move_rank:
  assumes "owner_move env world s s'" and "stop_under_way s"
  shows "stop_rank s' = stop_rank s \<and> lf_main s' = lf_main s \<and> lf_woken s' = lf_woken s \<and> lf_stopping s' = lf_stopping s"
  using assms
  by (auto elim!: owner_move.cases simp: stop_under_way_def stop_rank_def map_update_same)

lemma stop_run_bound:
  assumes "stop_run env world n s s'" and "life_reachable env world os0 s" and "stop_under_way s \<or> lf_main s = M_Stopped \<and> lf_stopping s"
  shows "life_reachable env world os0 s' \<and> n + stop_rank s' \<le> stop_rank s \<and>
    (stop_under_way s' \<or> lf_main s' = M_Stopped \<and> lf_stopping s') \<and> (stop_under_way s' \<and> lf_woken s \<longrightarrow> lf_woken s')"
  using assms(1,2,3)
proof (induction rule: stop_run.induct)
  case (own n s s' s'')
  then have here: "life_reachable env world os0 s'" "n + stop_rank s' \<le> stop_rank s"
    "stop_under_way s' \<or> lf_main s' = M_Stopped \<and> lf_stopping s'" "stop_under_way s' \<and> lf_woken s \<longrightarrow> lf_woken s'" by blast+
  have ok: "life_inv s'" using life_reachable_inv [OF here(1)] by blast
  have stopping: "lf_stopping s'" "lf_main s' \<noteq> M_Idle"
    using here(3) under_way_stopping [OF ok] by (auto simp: stop_under_way_def)
  note rank = server_move_rank [OF own.hyps(2) stopping(1) ok stopping(2)]
  have phase: "stop_under_way s'' \<or> lf_main s'' = M_Stopped" "stop_under_way s'' \<and> lf_woken s' \<longrightarrow> lf_woken s''"
    using here(3) server_move_phase [OF own.hyps(2)] stopped_keeps [OF own.hyps(2) ok] by (auto simp: stop_under_way_def)
  have earlier: "stop_under_way s'' \<Longrightarrow> stop_under_way s'"
    using here(3) stopped_keeps [OF own.hyps(2) ok] by (auto simp: stop_under_way_def)
  show ?case
    using life_reachable.moved [OF here(1) own.hyps(2)] here(2,4) rank phase earlier by auto
next
  case (other n s s' s'')
  then have here: "life_reachable env world os0 s'" "n + stop_rank s' \<le> stop_rank s" "stop_under_way s'" "lf_woken s \<longrightarrow> lf_woken s'"
    by auto
  show ?case
    using life_reachable.owner [OF here(1) other.hyps(3)] here(2-4) owner_move_rank [OF other.hyps(3) here(3)]
    by (simp add: stop_under_way_def)
qed simp

section \<open>Sessions are bounded\<close>

definition admission_counted :: "('o, 'b) life_env \<Rightarrow> 'b server_state \<Rightarrow> bool" where
  "admission_counted env st \<longleftrightarrow>
     sx_active st \<le> max_sessions (sv_limits (le_server env)) \<and>
     sc_sessions_accepted (sx_counters st) = of_nat (sx_active st) + sc_sessions_closed (sx_counters st)"

lemma admission_kept_counted: "admission_kept st st' \<Longrightarrow> admission_counted env st \<Longrightarrow> admission_counted env st'"
  by (simp add: admission_kept_def admission_counted_def)

lemma leave_counted: "0 < sx_active st \<Longrightarrow> admission_counted env st \<Longrightarrow> admission_counted env (leave_session st)"
  by (auto simp: admission_counted_def leave_session_def count_def of_nat_diff algebra_simps)

lemma thread_move_admission:
  assumes "thread_move env stopping fails t st os = Some (t', st', os')"
  shows "admission_kept st st' \<or> live_thread t \<and> st' = leave_session st"
proof -
  have same: "admission_kept st st" by (simp add: admission_kept_def)
  show ?thesis
    using assms same fence_admission [of st "th_session t"]
    by (cases "th_pc t") (auto simp: thread_move_def split: option.splits prod.splits
      dest!: top_move_facts receive_move_facts request_move_facts)
qed

lemma server_move_admission:
  assumes "server_move env s s'" and "life_inv s" and "admission_counted env (lf_state s)"
  shows "admission_counted env (lf_state s')"
  using assms(1)
proof cases
  case main
  then have "lf_state s' = lf_state s"
    by (cases "lf_main s") (auto simp: main_move_def Let_def split: prod.splits sum.splits list.splits if_splits)
  with assms(3) show ?thesis by simp
next
  case (accept made)
  then have "lf_state s' = lf_state s \<or> lf_state s' = snd (accept_session (le_server env) (lf_stopping s) (lf_state s))"
    by (cases "lf_accept s")
      (auto simp: accept_move_def reap_sessions_def split: option.splits prod.splits bool.splits if_splits)
  with assms(3) show ?thesis
    by (auto simp: accept_session_def count_def admission_counted_def algebra_simps)
next
  case (session fails i)
  from session show ?thesis
  proof (cases rule: session_moveD)
    case (1 t st os)
    have "0 < sx_active (lf_state s)" if "live_thread (lf_threads s ! i)"
      using life_invD(2) [OF assms(2)] 1(1) that by (auto simp: sessions_ok_def filter_empty_conv)
    with thread_move_admission [OF 1(2)] assms(3) show ?thesis
      by (auto simp: 1(3) intro: admission_kept_counted leave_counted)
  qed
qed

lemma Start_state: "Start env s = (x, s') \<Longrightarrow> lf_state s' = lf_state s"
  by (elim Start_result) simp_all

lemma owner_move_admission: "owner_move env world s s' \<Longrightarrow> admission_kept (lf_state s) (lf_state s')"
  by (erule owner_move.cases) (auto simp: admission_kept_def main_move_def dest: Start_state)

lemma life_reachable_admission: "life_reachable env world os0 s \<Longrightarrow> admission_counted env (lf_state s)"
proof (induction rule: life_reachable.induct)
  case (new st)
  then show ?case by (simp add: new_life_def admission_counted_def)
next
  case (moved s s')
  then show ?case
    using server_move_admission [OF moved.hyps(2) _ moved.IH] life_reachable_inv [OF moved.hyps(1)] by simp
next
  case (owner s s')
  show ?case by (rule admission_kept_counted [OF owner_move_admission [OF owner.hyps(2)] owner.IH])
qed

end
