(* ===== verification/RF_Handles.thy ===== *)
theory RF_Handles
  imports RF_Stopping "HOL-Library.Multiset"
begin

text \<open>
  \<^bold>\<open>Handles and the wake-up connection.\<close> The contract of the operating system towards the server's
  threads, and what follows: the handles that are open are those the threads own, each once, and
  the connection that a stop makes reaches the accept thread.
\<close>

section \<open>Who owns which handle\<close>

definition own :: "socket_handle option \<Rightarrow> socket_handle list" where
  "own h = (case h of None \<Rightarrow> [] | Some h \<Rightarrow> [h])"

lemma own_simps [simp]: "own None = []" "own (Some h) = [h]"
  by (simp_all add: own_def)

fun accept_handles :: "accept_pc \<Rightarrow> socket_handle list" where
  "accept_handles (A_Woken h) = [h]"
| "accept_handles (A_Reap h) = [h]"
| "accept_handles (A_Make h) = [h]"
| "accept_handles (A_Admit h w) = [h]"
| "accept_handles (A_Refuse h) = [h]"
| "accept_handles _ = []"

fun main_handles :: "main_pc \<Rightarrow> socket_handle list" where
  "main_handles (M_Connect h v6) = [h]"
| "main_handles (M_CloseWake h) = [h]"
| "main_handles _ = []"

definition owned :: "('o, 'b) life \<Rightarrow> socket_handle list" where
  "owned s = own (lf_listener s) @ accept_handles (lf_accept s) @ main_handles (lf_main s) @
     concat (map thread_handles (lf_threads s))"

lemma concat_update:
  assumes "i < length ts"
  obtains xs ys where "concat (map f ts) = xs @ f (ts ! i) @ ys" and "\<And>x. concat (map f (ts[i := x])) = xs @ f x @ ys"
proof
  show "concat (map f ts) = concat (map f (take i ts)) @ f (ts ! i) @ concat (map f (drop (Suc i) ts))"
    using assms by (subst id_take_nth_drop [OF assms]) simp
  show "concat (map f (ts[i := x])) = concat (map f (take i ts)) @ f x @ concat (map f (drop (Suc i) ts))" for x
    using assms by (simp add: upd_conv_take_nth_drop)
qed

section \<open>The contract\<close>

text \<open>
  \<open>port_of\<close> is the port a handle listens at, \<open>waiting\<close> the connections that wait to be accepted
  there, and \<open>world\<close> what happens to the system from outside. A connection made to the address and
  port of a listener waits there until it is accepted; calls on other handles do not change it.
\<close>

locale listening_system = socket_system "le_api env" opened
  for env :: "('o, 'b) life_env" and opened :: "'o \<Rightarrow> socket_handle set" +
  fixes port_of :: "socket_handle \<Rightarrow> 'o \<Rightarrow> u16 option" and waiting :: "socket_handle \<Rightarrow> 'o \<Rightarrow> nat" and world :: "'o \<Rightarrow> 'o \<Rightarrow> bool"
  assumes accepted: "le_accept env l os = Some (Some c, os') \<Longrightarrow> c \<notin> opened os \<and> opened os' = insert c (opened os)"
    and not_accepted: "le_accept env l os = Some (None, os') \<Longrightarrow> opened os' = opened os"
    and accept_blocks: "le_accept env l os = None \<Longrightarrow> waiting l os = 0"
    and accept_port: "le_accept env l os = Some (x, os') \<Longrightarrow> port_of l os' = port_of l os"
    and named: "so_getsockname (le_api env) l os = (Some a, os') \<Longrightarrow> port_of l os' = Some (ntohs (sa_port a))"
    and connected: "so_connect (le_api env) h (socket_address (le_api env) (wake_address (le_bind_address env)) p v6) os = (True, os') \<Longrightarrow>
        port_of l os = Some p \<Longrightarrow> 0 < waiting l os'"
    and connect_port: "so_connect (le_api env) h a os = (ok, os') \<Longrightarrow> port_of l os' = port_of l os"
    and startup_port: "so_startup (le_api env) os = (ok, os') \<Longrightarrow> port_of l os' = port_of l os"
    and socket_port: "so_socket (le_api env) v6 os = (x, os') \<Longrightarrow> l \<in> opened os \<Longrightarrow> port_of l os' = port_of l os"
    and reuse_port: "h \<noteq> l \<Longrightarrow> port_of l (so_reuse (le_api env) h os) = port_of l os"
    and close_other: "h \<noteq> l \<Longrightarrow> port_of l (so_close (le_api env) h os) = port_of l os \<and>
        waiting l (so_close (le_api env) h os) = waiting l os"
    and shutdown_other: "h \<noteq> l \<Longrightarrow> port_of l (so_shutdown (le_api env) h os) = port_of l os \<and>
        waiting l (so_shutdown (le_api env) h os) = waiting l os"
    and outside: "world os os' \<Longrightarrow> opened os' = opened os \<and> port_of l os' = port_of l os \<and> waiting l os \<le> waiting l os'"
begin

definition owns :: "socket_handle set \<Rightarrow> ('o, 'b) life \<Rightarrow> bool" where
  "owns base s \<longleftrightarrow> distinct (owned s) \<and> base \<inter> set (owned s) = {} \<and> opened (lf_os s) = base \<union> set (owned s)"

text \<open>The three ways a move changes who owns what.\<close>

lemma owns_kept:
  assumes "owns base s" and "mset (owned s') = mset (owned s)" and "opened (lf_os s') = opened (lf_os s)"
  shows "owns base s'"
  using assms(1,3) mset_eq_imp_distinct_iff [OF assms(2)] mset_eq_setD [OF assms(2)] by (simp add: owns_def)

lemma owns_more:
  assumes "owns base s" and "mset (owned s') = add_mset h (mset (owned s))"
    and "h \<notin> opened (lf_os s) \<and> opened (lf_os s') = insert h (opened (lf_os s))"
  shows "owns base s'"
proof -
  have perm: "mset (owned s') = mset (h # owned s)" using assms(2) by simp
  show ?thesis
    using assms(1,3) mset_eq_imp_distinct_iff [OF perm] mset_eq_setD [OF perm] by (auto simp: owns_def)
qed

lemma owns_less:
  assumes "owns base s" and "mset (owned s) = add_mset h (mset (owned s'))" and "opened (lf_os s') = opened (lf_os s) - {h}"
  shows "owns base s'"
proof -
  have perm: "mset (owned s) = mset (h # owned s')" using assms(2) by simp
  show ?thesis
    using assms(1,3) mset_eq_imp_distinct_iff [OF perm] mset_eq_setD [OF perm] by (auto simp: owns_def)
qed

lemma thread_move_handles:
  assumes "thread_move env stopping fails t st os = Some (t', st', os')" and "thread_ok t"
  shows "thread_handles t' = thread_handles t \<and> opened os' = opened os \<or>
    thread_handles t' = [] \<and> opened os' = opened os - set (thread_handles t)"
  using assms
  by (cases "th_pc t")
    (auto simp: thread_move_def thread_handles_def thread_ok_def Let_def shutdown_opened close_opened
      split: prod.splits option.splits if_splits dest!: top_move_facts receive_move_facts request_move_facts)

lemma session_owns:
  assumes "session_move env fails i s = Some s'" and "life_inv s" and "owns base s"
  shows "owns base s'"
  using assms(1)
proof (cases rule: session_moveD)
  case (1 t' st' os')
  have ok: "thread_ok (lf_threads s ! i)" using life_invD(2) [OF assms(2)] 1(1) by (simp add: sessions_ok_def)
  obtain xs ys where before: "concat (map thread_handles (lf_threads s)) = xs @ thread_handles (lf_threads s ! i) @ ys"
    and after: "concat (map thread_handles ((lf_threads s)[i := t'])) = xs @ thread_handles t' @ ys"
    using concat_update [OF 1(1), of thread_handles] by metis
  show ?thesis
    using thread_move_handles [OF 1(2) ok] assms(3) by (auto simp: 1(3) owns_def owned_def before after)
qed

lemma accept_owns:
  assumes "accept_move env made s = Some s'" and "life_inv s" and "owns base s"
  shows "owns base s'"
proof (cases "lf_accept s")
  case (A_Spawn i)
  have "th_pc (lf_threads s ! i) = S_New"
    using life_invD(3) [OF assms(2)] A_Spawn by (auto simp: spawn_ok_def)
  then have "map thread_handles (set_pc i S_Top (lf_threads s)) = map thread_handles (lf_threads s)"
    by (intro map_update_same) (simp add: thread_handles_def Let_def)
  with assms(1) A_Spawn show ?thesis by (intro owns_kept [OF assms(3)]) (auto simp: accept_move_def owned_def)
next
  case (A_Admit client waiter)
  obtain ok st where run: "accept_session (le_server env) (lf_stopping s) (lf_state s) = (ok, st)" by fastforce
  show ?thesis
    by (rule owns_kept [OF assms(3)]; use assms(1) A_Admit run in \<open>cases ok\<close>)
      (auto simp: accept_move_def owned_def new_thread_def thread_handles_def)
next
  case A_Accept
  obtain l where l: "lf_listener s = Some l"
    using life_invD(1) [OF assms(2)] A_Accept by (cases "lf_main s"; cases "lf_listener s") (auto simp: control_ok_def)
  obtain x os where run: "le_accept env l (lf_os s) = Some (x, os)"
    using assms(1) A_Accept l by (cases "le_accept env l (lf_os s)") (auto simp: accept_move_def)
  show ?thesis
  proof (cases x)
    case None
    with assms(1) A_Accept l run show ?thesis
      by (intro owns_kept [OF assms(3)]) (auto simp: accept_move_def owned_def dest: not_accepted)
  next
    case (Some client)
    with assms(1) A_Accept l run show ?thesis
      by (intro owns_more [OF assms(3), of _ client]) (auto simp: accept_move_def owned_def dest: accepted)
  qed
next
  case (A_Make client)
  show ?thesis
  proof (cases made)
    case True
    with assms(1) A_Make show ?thesis
      by (intro owns_kept [OF assms(3)]) (auto simp: accept_move_def waiter_create_def owned_def Let_def)
  next
    case False
    with assms(1) A_Make show ?thesis
      by (intro owns_less [OF assms(3), of client]) (auto simp: accept_move_def waiter_create_def owned_def Let_def close_opened)
  qed
next
  case (A_Woken client)
  show ?thesis
  proof (cases "lf_stopping s")
    case True
    with assms(1) A_Woken show ?thesis
      by (intro owns_less [OF assms(3), of client]) (auto simp: accept_move_def owned_def close_opened)
  next
    case False
    with assms(1) A_Woken show ?thesis
      by (intro owns_kept [OF assms(3)]) (auto simp: accept_move_def owned_def)
  qed
next
  case (A_Refuse client)
  with assms(1) show ?thesis
    by (intro owns_less [OF assms(3), of client]) (auto simp: accept_move_def owned_def close_opened)
qed (use assms(1) in \<open>auto simp: accept_move_def owned_def reap_sessions_def intro: owns_kept [OF assms(3)]\<close>)

lemma main_owns:
  assumes "main_move env s = Some s'" and "owns base s"
  shows "owns base s'"
proof (cases "lf_main s")
  case M_Wake
  obtain x os where run: "create_tcp_socket (le_api env) (wake_address (le_bind_address env)) (lf_os s) = (x, os)" by fastforce
  show ?thesis
  proof (cases x)
    case (Inl why)
    then have "opened os = opened (lf_os s)" and "s' = s\<lparr>lf_os := os, lf_main := M_Join\<rparr>"
      using create_opened [OF run] run assms(1) M_Wake by (simp_all add: main_move_def)
    with M_Wake show ?thesis by (intro owns_kept [OF assms(2)]) (simp_all add: owned_def)
  next
    case (Inr made)
    obtain h v6 where "made = (h, v6)" by fastforce
    with Inr have "h \<notin> opened (lf_os s) \<and> opened os = insert h (opened (lf_os s))"
      and "s' = s\<lparr>lf_os := os, lf_main := M_Connect h v6\<rparr>"
      using create_opened [OF run] run assms(1) M_Wake by (simp_all add: main_move_def)
    with M_Wake show ?thesis by (intro owns_more [OF assms(2), of _ h]) (simp_all add: owned_def)
  qed
next
  case (M_Connect wake v6)
  obtain x os where run: "connect_socket (le_api env) wake (wake_address (le_bind_address env)) (lf_bound_port s) v6 (lf_os s) = (x, os)" by fastforce
  have "lf_os s' = os" "lf_main s' = M_CloseWake wake" "lf_listener s' = lf_listener s" "lf_accept s' = lf_accept s"
    "lf_threads s' = lf_threads s"
    using run assms(1) M_Connect by (cases x; auto simp: main_move_def)+
  with connect_keeps [OF run] M_Connect show ?thesis by (intro owns_kept [OF assms(2)]) (simp_all add: owned_def)
next
  case (M_CloseWake wake)
  with assms(1) show ?thesis
    by (intro owns_less [OF assms(2), of wake]) (auto simp: main_move_def owned_def close_opened)
next
  case (M_Signal p)
  show ?thesis
  proof (cases p)
    case Nil
    with assms(1) M_Signal show ?thesis by (intro owns_kept [OF assms(2)]) (auto simp: main_move_def owned_def)
  next
    case (Cons i rest)
    let ?t = "(lf_threads s ! i)\<lparr>th_waiter := waiter_request_shutdown (le_windows env) (th_waiter (lf_threads s ! i))\<rparr>"
    have "map thread_handles ((lf_threads s)[i := ?t]) = map thread_handles (lf_threads s)"
      by (intro map_update_same) (simp add: thread_handles_def cong: session_pc.case_cong)
    with assms(1) M_Signal Cons show ?thesis
      by (intro owns_kept [OF assms(2)]) (auto simp: main_move_def owned_def Let_def)
  qed
next
  case M_CloseListener
  show ?thesis
  proof (cases "lf_listener s")
    case None
    with assms(1) M_CloseListener show ?thesis
      by (intro owns_kept [OF assms(2)]) (auto simp: main_move_def owned_def close_opened shutdown_opened)
  next
    case (Some l)
    with assms(1) M_CloseListener show ?thesis
      by (intro owns_less [OF assms(2), of l]) (auto simp: main_move_def owned_def close_opened shutdown_opened)
  qed
qed (use assms(1) in \<open>auto simp: main_move_def owned_def shutdown_opened split: if_splits intro: owns_kept [OF assms(2)]\<close>)

lemma Start_owns:
  assumes "Start env s = (x, s')" and "owns base s" and "life_inv s" and "lf_main s \<in> {M_Idle, M_Running, M_Stopped}"
  shows "owns base s'"
proof (cases "le_has_runtime env \<and> le_has_backend env \<and> \<not> lf_running s")
  case False
  then have "s' = s" using assms(1) by (simp add: Start_def split: if_splits)
  with assms(2) show ?thesis by simp
next
  case free: True
  have idle: "lf_listener s = None" "accept_handles (lf_accept s) = []" "main_handles (lf_main s) = []"
    using life_invD(1) [OF assms(3)] assms(4) free by (auto simp: control_ok_def)
  obtain made os1 where made: "create_tcp_socket (le_api env) (le_bind_address env) (lf_os s) = (made, os1)" by fastforce
  note created = create_opened [OF made]
  show ?thesis
  proof (cases made)
    case (Inl why)
    then have "opened os1 = opened (lf_os s)" and "s' = s\<lparr>lf_os := os1\<rparr>"
      using assms(1) made free created by (simp_all add: Start_def)
    then show ?thesis by (intro owns_kept [OF assms(2)]) (simp_all add: owned_def)
  next
    case (Inr made')
    obtain l v6 where l: "made' = (l, v6)" by fastforce
    obtain bound os2 where bound: "bind_and_listen (le_api env) l (le_bind_address env) (le_port env) v6 os1 = (bound, os2)"
      by fastforce
    note same = bind_keeps [OF bound]
    show ?thesis
    proof (cases bound)
      case failed: (Inl why)
      have "s' = s\<lparr>lf_os := close_socket (le_api env) (Some l) os2, lf_listener := None\<rparr>"
        using assms(1) made free Inr l bound failed by (simp add: Start_def)
      then show ?thesis
        using created Inr l same idle by (intro owns_kept [OF assms(2)]) (auto simp: owned_def close_opened)
    next
      case (Inr p)
      have "s' = s\<lparr>lf_os := os2, lf_listener := Some l, lf_bound_port := p, lf_stopping := False,
          lf_running := True, lf_accept := A_Check, lf_main := M_Running, lf_woken := False\<rparr>"
        using assms(1) made free \<open>made = Inr made'\<close> l bound Inr by (simp add: Start_def)
      then show ?thesis
        using created \<open>made = Inr made'\<close> l same idle by (intro owns_more [OF assms(2), of _ l]) (auto simp: owned_def)
    qed
  qed
qed

lemma owner_owns:
  assumes "owner_move env world s s'" and "owns base s" and "life_inv s"
  shows "owns base s'"
  using assms(1)
proof cases
  case (start x)
  then show ?thesis using Start_owns assms by blast
next
  case stop
  then show ?thesis using main_owns assms(2) by blast
next
  case (arrival i r)
  have "map thread_handles ((lf_threads s)[i := (lf_threads s ! i)\<lparr>th_inbox := th_inbox (lf_threads s ! i) @ [r]\<rparr>]) =
      map thread_handles (lf_threads s)"
    by (intro map_update_same) (simp add: thread_handles_def cong: session_pc.case_cong)
  with arrival assms(2) show ?thesis by (simp add: owns_def owned_def)
next
  case out: (outside os)
  then show ?thesis using assms(2) outside [OF out(2)] by (simp add: owns_def owned_def)
next
  case (elsewhere rt b)
  then show ?thesis using assms(2) by (simp add: owns_def owned_def)
qed

lemma life_reachable_owns: "life_reachable env world os0 s \<Longrightarrow> owns (opened os0) s"
proof (induction rule: life_reachable.induct)
  case (new st)
  then show ?case by (simp add: owns_def owned_def new_life_def)
next
  case (moved s s')
  then show ?case
    using life_reachable_inv [OF moved.hyps(1)]
    by (auto elim!: server_move.cases intro: main_owns accept_owns session_owns)
next
  case (owner s s')
  then show ?case using life_reachable_inv [OF owner.hyps(1)] owner_owns by blast
qed

section \<open>The wake-up connection\<close>

text \<open>
  Until the accept thread is joined, the listener has the port the server announced, and after the
  wake-up connection there is something for the accept thread to return.
\<close>

definition wakes :: "('o, 'b) life \<Rightarrow> bool" where
  "wakes s \<longleftrightarrow>
     (\<forall>h v6. lf_main s \<in> {M_Running, M_Wake, M_Connect h v6} \<longrightarrow> \<not> lf_woken s) \<and>
     (\<forall>l. lf_listener s = Some l \<longrightarrow> lf_main s = M_Running \<or> joining (lf_main s) \<longrightarrow>
        port_of l (lf_os s) = Some (lf_bound_port s) \<and>
        (lf_woken s \<and> joining (lf_main s) \<and> lf_accept s = A_Accept \<longrightarrow> 0 < waiting l (lf_os s)))"

lemma owns_listener:
  assumes "owns base s" and "lf_listener s = Some l"
  shows "l \<in> opened (lf_os s)" and "h \<in> set (accept_handles (lf_accept s)) \<Longrightarrow> h \<noteq> l"
    and "h \<in> set (main_handles (lf_main s)) \<Longrightarrow> h \<noteq> l"
    and "i < length (lf_threads s) \<Longrightarrow> h \<in> set (thread_handles (lf_threads s ! i)) \<Longrightarrow> h \<noteq> l"
  using assms by (auto simp: owns_def owned_def)

lemma close_keeps_view:
  "(case h of None \<Rightarrow> True | Some h \<Rightarrow> h \<noteq> l) \<Longrightarrow>
   port_of l (close_socket (le_api env) h os) = port_of l os \<and> waiting l (close_socket (le_api env) h os) = waiting l os"
  by (cases h) (simp_all add: close_socket_def close_other)

lemma shutdown_keeps_view:
  "(case h of None \<Rightarrow> True | Some h \<Rightarrow> h \<noteq> l) \<Longrightarrow>
   port_of l (shutdown_socket (le_api env) h os) = port_of l os \<and> waiting l (shutdown_socket (le_api env) h os) = waiting l os"
  by (cases h) (simp_all add: shutdown_socket_def shutdown_other)

lemma thread_move_view:
  assumes "thread_move env stopping fails t st os = Some (t', st', os')" and "l \<notin> set (thread_handles t)"
  shows "port_of l os' = port_of l os \<and> waiting l os' = waiting l os"
  using assms
  by (cases "th_pc t")
    (auto simp: thread_move_def thread_handles_def Let_def split: prod.splits option.splits
      intro: close_keeps_view [THEN conjunct1] close_keeps_view [THEN conjunct2]
        shutdown_keeps_view [THEN conjunct1] shutdown_keeps_view [THEN conjunct2])

lemma session_wakes:
  assumes "session_move env fails i s = Some s'" and "owns base s" and "wakes s"
  shows "wakes s'"
  using assms(1)
proof (cases rule: session_moveD)
  case (1 t' st' os')
  have "port_of l os' = port_of l (lf_os s) \<and> waiting l os' = waiting l (lf_os s)" if "lf_listener s = Some l" for l
    using thread_move_view [OF 1(2)] owns_listener(4) [OF assms(2) that 1(1)] by blast
  then show ?thesis using assms(3) by (auto simp: 1(3) wakes_def)
qed

lemma create_view:
  assumes "create_tcp_socket (le_api env) host os = (x, os')" and "l \<in> opened os"
  shows "port_of l os' = port_of l os"
proof -
  obtain ok os1 where startup: "so_startup (le_api env) os = (ok, os1)" by fastforce
  obtain made os2 where made: "so_socket (le_api env) (so_pton6 (le_api env) host \<noteq> None) os1 = (made, os2)" by fastforce
  have l: "l \<in> opened os1" using kept(1) [OF startup] assms(2) by simp
  have "h \<noteq> l" if "made = Some h" for h using socket_new [of _ os1 h os2] made l that by auto
  then show ?thesis
    using assms(1) startup made startup_port [OF startup, of l] socket_port [OF made l] reuse_port
    by (cases made; cases ok) (auto simp: create_tcp_socket_def socket_runtime_start_def Let_def split: if_splits)
qed

lemma main_wakes:
  assumes "main_move env s = Some s'" and "owns base s" and "wakes s"
  shows "wakes s'"
proof (cases "lf_main s")
  case M_Running
  with assms(1,3) show ?thesis by (auto simp: main_move_def wakes_def split: if_splits)
next
  case M_Wake
  obtain x os where run: "create_tcp_socket (le_api env) (wake_address (le_bind_address env)) (lf_os s) = (x, os)" by fastforce
  show ?thesis
    using create_view [OF run owns_listener(1) [OF assms(2)]] run assms(1,3) M_Wake
    by (cases x) (auto simp: main_move_def wakes_def)
next
  case (M_Connect wake v6)
  obtain ok os where run: "so_connect (le_api env) wake (socket_address (le_api env) (wake_address (le_bind_address env)) (lf_bound_port s) v6) (lf_os s) = (ok, os)"
    by fastforce
  show ?thesis
    using connected [of wake "lf_bound_port s" v6 "lf_os s" os] connect_port [OF run] run assms(1,3) M_Connect
    by (cases ok) (auto simp: main_move_def wakes_def connect_socket_def)
next
  case (M_CloseWake wake)
  have "port_of l (lf_os s') = port_of l (lf_os s) \<and> waiting l (lf_os s') = waiting l (lf_os s)" if "lf_listener s = Some l" for l
    using assms(1) M_CloseWake owns_listener(3) [OF assms(2) that, of wake] close_keeps_view [where h = "Some wake" and l = l] by (auto simp: main_move_def)
  with assms(1,3) M_CloseWake show ?thesis by (auto simp: main_move_def wakes_def)
next
  case (M_Signal p)
  with assms(1) show ?thesis by (cases p) (auto simp: main_move_def wakes_def Let_def)
qed (use assms(1) in \<open>auto simp: main_move_def wakes_def split: if_splits\<close>)

lemma accept_wakes:
  assumes "accept_move env made s = Some s'" and "owns base s" and "life_inv s" and "wakes s"
  shows "wakes s'"
proof -
  have phase: "lf_stopping s" if "joining (lf_main s)" using life_invD(1) [OF assms(3)] that by (simp add: control_ok_def)
  have pc: "lf_accept s' = A_Accept \<Longrightarrow> \<not> joining (lf_main s')"
    and same: "lf_main s' = lf_main s" "lf_listener s' = lf_listener s" "lf_bound_port s' = lf_bound_port s" "lf_woken s' = lf_woken s"
    using assms(1) phase
    by (cases "lf_accept s"; auto simp: accept_move_def reap_sessions_def split: option.splits prod.splits bool.splits if_splits)+
  have "port_of l (lf_os s') = port_of l (lf_os s)" if l: "lf_listener s = Some l" for l
  proof (cases "lf_accept s = A_Accept")
    case True
    obtain x os where "le_accept env l (lf_os s) = Some (x, os)"
      using assms(1) True l by (cases "le_accept env l (lf_os s)") (auto simp: accept_move_def)
    with assms(1) True l accept_port show ?thesis by (cases x) (auto simp: accept_move_def)
  next
    case False
    then show ?thesis
      using assms(1) owns_listener(2) [OF assms(2) l] close_keeps_view [where l = l]
      by (cases "lf_accept s") (auto simp: accept_move_def reap_sessions_def split: prod.splits bool.splits if_splits)
  qed
  with assms(4) pc same show ?thesis by (auto simp: wakes_def)
qed

lemma Start_wakes:
  assumes "Start env s = (x, s')" and "life_inv s" and "wakes s" and "lf_main s \<in> {M_Idle, M_Running, M_Stopped}"
  shows "wakes s'"
proof (cases "le_has_runtime env \<and> le_has_backend env \<and> \<not> lf_running s")
  case False
  then have "s' = s" using assms(1) by (simp add: Start_def split: if_splits)
  with assms(3) show ?thesis by simp
next
  case free: True
  then have idle: "lf_main s \<in> {M_Idle, M_Stopped}" using life_invD(1) [OF assms(2)] assms(4) by (auto simp: control_ok_def)
  show ?thesis
  proof (cases "lf_main s' = M_Running")
    case False
    have "lf_main s' = lf_main s" using assms(1) False by (elim Start_result) simp_all
    with idle show ?thesis by (auto simp: wakes_def)
  next
    case True
    obtain made os1 where made: "create_tcp_socket (le_api env) (le_bind_address env) (lf_os s) = (made, os1)" by fastforce
    with assms(1) True free idle obtain l v6 where l: "made = Inr (l, v6)"
      by (cases made) (auto simp: Start_def)
    obtain bound os2 where bound: "bind_and_listen (le_api env) l (le_bind_address env) (le_port env) v6 os1 = (bound, os2)"
      by fastforce
    with assms(1) True free idle made l obtain p where p: "bound = Inr p"
      by (cases bound) (auto simp: Start_def)
    have "port_of l os2 = Some p"
      using bound p named by (auto simp: bind_and_listen_def split: prod.splits bool.splits option.splits)
    with assms(1) free made l bound p show ?thesis by (auto simp: Start_def wakes_def)
  qed
qed

lemma owner_wakes:
  assumes "owner_move env world s s'" and "owns base s" and "life_inv s" and "wakes s"
  shows "wakes s'"
  using assms(1)
proof cases
  case (start x)
  then show ?thesis using Start_wakes assms by blast
next
  case stop
  then show ?thesis using main_wakes assms by blast
next
  case out: (outside os)
  have "port_of l os = port_of l (lf_os s) \<and> waiting l (lf_os s) \<le> waiting l os" for l using outside [OF out(2)] by blast
  then show ?thesis using assms(4) by (auto simp: out(1) wakes_def intro: less_le_trans)
qed (use assms(4) in \<open>simp_all add: wakes_def\<close>)

lemma life_reachable_wakes: "life_reachable env world os0 s \<Longrightarrow> wakes s"
proof (induction rule: life_reachable.induct)
  case (new st)
  then show ?case by (simp add: wakes_def new_life_def)
next
  case (moved s s')
  then show ?case
    using life_reachable_inv [OF moved.hyps(1)] life_reachable_owns [OF moved.hyps(1)]
    by (auto elim!: server_move.cases intro: main_wakes accept_wakes session_wakes)
next
  case (owner s s')
  then show ?case
    using life_reachable_inv [OF owner.hyps(1)] life_reachable_owns [OF owner.hyps(1)] owner_wakes by blast
qed

text \<open>With the wake-up connection made, a stop is never held up.\<close>

lemma woken_not_held:
  assumes "life_reachable env world os0 s" and "lf_woken s"
  shows "\<not> accept_held env s"
proof
  assume "accept_held env s"
  then obtain l where "lf_main s = M_Join" "lf_accept s = A_Accept" "lf_listener s = Some l" "le_accept env l (lf_os s) = None"
    by (auto simp: accept_held_def)
  then show False
    using life_reachable_wakes [OF assms(1)] assms(2) accept_blocks [of l "lf_os s"] by (auto simp: wakes_def)
qed

text \<open>So every run of a stop makes a bounded number of moves, can go on until it has returned, and can be completed.\<close>

lemma stop_goes_on:
  assumes "life_reachable env world os0 s" and "stop_under_way s" and "lf_woken s" and "stop_run env world n s s'"
  shows "n \<le> stop_rank s \<and> (lf_main s' = M_Stopped \<or> (\<exists>s''. server_move env s' s''))"
proof -
  have run: "life_reachable env world os0 s'" "n + stop_rank s' \<le> stop_rank s"
    "stop_under_way s' \<or> lf_main s' = M_Stopped" "stop_under_way s' \<longrightarrow> lf_woken s'"
    using stop_run_bound [OF assms(4,1)] assms(2,3) by auto
  have "\<exists>s''. server_move env s' s''" if "stop_under_way s'"
    using stop_not_stuck [of s' env] life_reachable_inv [OF run(1)] woken_not_held [OF run(1)] run(4) that
    by (auto simp: stop_under_way_def)
  with run show ?thesis by auto
qed

lemma stop_completes:
  assumes "life_reachable env world os0 s" and "stop_under_way s" and "lf_woken s"
  shows "\<exists>m s'. stop_run env world m s s' \<and> lf_main s' = M_Stopped"
  using assms
proof (induction "stop_rank s" arbitrary: s rule: less_induct)
  case less
  have ok: "life_inv s" "lf_stopping s" "lf_main s \<noteq> M_Idle" "lf_main s \<noteq> M_Stopped"
    using life_reachable_inv [OF less.prems(1)] under_way_stopping less.prems(2) by (auto simp: stop_under_way_def)
  obtain t where move: "server_move env s t"
    using stop_goes_on [OF less.prems stop_run.none] ok(4) by blast
  have step: "stop_run env world (Suc 0) s t" by (rule stop_run.own [OF stop_run.none move])
  show ?case
  proof (cases "lf_main t = M_Stopped")
    case False
    then have "stop_under_way t" "lf_woken t" using server_move_phase [OF move less.prems(2)] less.prems(3) by blast+
    moreover have "stop_rank t < stop_rank s" using server_move_rank [OF move ok(2,1,3)] by simp
    ultimately obtain m s' where "stop_run env world m t s'" "lf_main s' = M_Stopped"
      using less.hyps life_reachable.moved [OF less.prems(1) move] by blast
    with stop_run_trans [OF step] show ?thesis by blast
  qed (use step in blast)
qed

end

end
