(* ===== verification/RF_Net.thy ===== *)
theory RF_Net
  imports RF_Handles
begin

text \<open>
  \<^bold>\<open>A small network.\<close> An operating system for the server's threads: handles are numbers and the
  lowest free one is taken, a connection waits at every listener of its port, and a list of
  answers tells which calls fail. It is an instance of the contract, and the runs
  of the server that the code does not guard against are carried out on it.
\<close>

section \<open>The network\<close>

record net =
  nt_open :: "socket_handle list"
  nt_port :: "socket_handle \<Rightarrow> u16 option"
  nt_backlog :: "socket_handle \<Rightarrow> nat"
  nt_answers :: "bool list"

definition fresh_handle :: "socket_handle list \<Rightarrow> socket_handle" where
  "fresh_handle used = hd (filter (\<lambda>n. n \<notin> set used) [0..<Suc (length used)])"

lemma fresh_handle: "fresh_handle used \<notin> set used"
proof -
  let ?free = "filter (\<lambda>n. n \<notin> set used) [0..<Suc (length used)]"
  have "?free \<noteq> []"
  proof
    assume "?free = []"
    then have "set [0..<Suc (length used)] \<subseteq> set used" by (simp add: filter_empty_conv subset_iff del: upt_Suc)
    then have "card (set [0..<Suc (length used)]) \<le> card (set used)" by (intro card_mono) auto
    then show False using card_length [of used] by simp
  qed
  then have "hd ?free \<in> set ?free" by (rule hd_in_set)
  then show ?thesis by (simp add: fresh_handle_def del: upt_Suc)
qed

definition next_answer :: "net \<Rightarrow> bool \<times> net" where
  "next_answer os = (case nt_answers os of [] \<Rightarrow> (True, os) | ok # rest \<Rightarrow> (ok, os\<lparr>nt_answers := rest\<rparr>))"

definition open_handle :: "net \<Rightarrow> socket_handle \<times> net" where
  "open_handle os = (fresh_handle (nt_open os), os\<lparr>nt_open := fresh_handle (nt_open os) # nt_open os\<rparr>)"

definition net_socket :: "bool \<Rightarrow> net \<Rightarrow> socket_handle option \<times> net" where
  "net_socket v6 os =
     (case next_answer os of
        (False, os) \<Rightarrow> (None, os)
      | (True, os) \<Rightarrow> (case open_handle os of (h, os) \<Rightarrow> (Some h, os)))"

definition net_bind :: "socket_handle \<Rightarrow> sockaddr \<Rightarrow> net \<Rightarrow> bool \<times> net" where
  "net_bind h a os =
     (case next_answer os of
        (False, os) \<Rightarrow> (False, os)
      | (True, os) \<Rightarrow>
          (True, os\<lparr>nt_port := (nt_port os)(h := Some (if ntohs (sa_port a) = 0 then 49152 else ntohs (sa_port a)))\<rparr>))"

definition net_getsockname :: "socket_handle \<Rightarrow> net \<Rightarrow> sockaddr option \<times> net" where
  "net_getsockname h os =
     (case nt_port os h of
        None \<Rightarrow> (None, os)
      | Some p \<Rightarrow> (Some \<lparr>sa_ipv6 = False, sa_port = htons p, sa_bytes = [127, 0, 0, 1]\<rparr>, os))"

definition net_connect :: "socket_handle \<Rightarrow> sockaddr \<Rightarrow> net \<Rightarrow> bool \<times> net" where
  "net_connect h a os =
     (case next_answer os of
        (False, os) \<Rightarrow> (False, os)
      | (True, os) \<Rightarrow>
          (True, os\<lparr>nt_backlog := (\<lambda>l. if nt_port os l = Some (ntohs (sa_port a)) then nt_backlog os l + 1
                                           else nt_backlog os l)\<rparr>))"

definition net_accept :: "socket_handle \<Rightarrow> net \<Rightarrow> (socket_handle option \<times> net) option" where
  "net_accept l os =
     (if nt_backlog os l = 0 then None
      else case next_answer os of
             (False, os) \<Rightarrow> Some (None, os)
           | (True, os) \<Rightarrow>
               (case open_handle (os\<lparr>nt_backlog := (nt_backlog os)(l := nt_backlog os l - 1)\<rparr>) of
                  (h, os) \<Rightarrow> Some (Some h, os)))"

definition net_close :: "socket_handle \<Rightarrow> net \<Rightarrow> net" where
  "net_close h os =
     os\<lparr>nt_open := filter (\<lambda>n. n \<noteq> h) (nt_open os), nt_port := (nt_port os)(h := None),
        nt_backlog := (nt_backlog os)(h := 0)\<rparr>"

definition net_api :: "net socket_api" where
  "net_api =
     \<lparr>so_startup = (\<lambda>os. (True, os)), so_pton6 = (\<lambda>host. None),
      so_pton4 = (\<lambda>host. if host = ''127.0.0.1'' then Some [127, 0, 0, 1] else None), so_socket = net_socket,
      so_reuse = (\<lambda>h os. os), so_bind = net_bind, so_listen = (\<lambda>h os. next_answer os),
      so_getsockname = net_getsockname, so_connect = net_connect, so_close = net_close,
      so_shutdown = (\<lambda>h os. os)\<rparr>"

definition net_env :: "'b server_env \<Rightarrow> bool \<Rightarrow> (net, 'b) life_env" where
  "net_env senv windows =
     \<lparr>le_server = senv, le_api = net_api, le_accept = net_accept, le_bind_address = ''127.0.0.1'', le_port = 0,
      le_windows = windows, le_has_runtime = True, le_has_backend = True\<rparr>"

text \<open>From outside, peers connect and calls begin to fail.\<close>

definition net_world :: "net \<Rightarrow> net \<Rightarrow> bool" where
  "net_world os os' \<longleftrightarrow>
     (\<exists>l. os' = os\<lparr>nt_backlog := (nt_backlog os)(l := nt_backlog os l + 1)\<rparr>) \<or> (\<exists>bs. os' = os\<lparr>nt_answers := bs\<rparr>)"

abbreviation net_opened :: "net \<Rightarrow> socket_handle set" where
  "net_opened os \<equiv> set (nt_open os)"

lemma next_answer_kept:
  "next_answer os = (ok, os') \<Longrightarrow> nt_open os' = nt_open os \<and> nt_port os' = nt_port os \<and> nt_backlog os' = nt_backlog os"
  by (auto simp: next_answer_def split: list.splits)

lemmas net_defs = net_env_def net_api_def net_socket_def net_bind_def net_getsockname_def net_connect_def net_accept_def
  net_close_def open_handle_def

lemma net_fields:
  "le_api (net_env senv windows) = net_api" "le_accept (net_env senv windows) = net_accept"
  "le_bind_address (net_env senv windows) = ''127.0.0.1''" "le_server (net_env senv windows) = senv"
  "le_windows (net_env senv windows) = windows"
  by (simp_all add: net_env_def)

interpretation net: listening_system "net_env senv windows" net_opened "\<lambda>l os. nt_port os l" "\<lambda>l os. nt_backlog os l" net_world
  for senv :: "'b server_env" and windows :: bool
  by unfold_locales
    (auto simp: net_defs net_world_def fresh_handle socket_address_def
      split: prod.splits bool.splits option.splits if_splits dest!: next_answer_kept)

section \<open>Schedules\<close>

datatype action =
    Ac_Start | Ac_Stop | Ac_Main | Ac_Accept | Ac_Session nat | Ac_Arrive nat recv_result | Ac_Peer socket_handle
  | Ac_Answers "bool list"

fun act :: "(net, 'b) life_env \<Rightarrow> action \<Rightarrow> (net, 'b) life \<Rightarrow> (net, 'b) life option" where
  "act env Ac_Start s = (if lf_main s \<in> {M_Idle, M_Running, M_Stopped} then Some (snd (Start env s)) else None)"
| "act env Ac_Stop s = (if lf_main s = M_Running then main_move env s else None)"
| "act env Ac_Main s = (if lf_main s \<noteq> M_Running then main_move env s else None)"
| "act env Ac_Accept s = accept_move env True s"
| "act env (Ac_Session i) s = session_move env False i s"
| "act env (Ac_Arrive i r) s =
     (if i < length (lf_threads s)
      then Some (s\<lparr>lf_threads := (lf_threads s)[i := (lf_threads s ! i)\<lparr>th_inbox := th_inbox (lf_threads s ! i) @ [r]\<rparr>]\<rparr>)
      else None)"
| "act env (Ac_Peer l) s = Some (s\<lparr>lf_os := (lf_os s)\<lparr>nt_backlog := (nt_backlog (lf_os s))(l := nt_backlog (lf_os s) l + 1)\<rparr>\<rparr>)"
| "act env (Ac_Answers bs) s = Some (s\<lparr>lf_os := (lf_os s)\<lparr>nt_answers := bs\<rparr>\<rparr>)"

fun schedule :: "(net, 'b) life_env \<Rightarrow> action list \<Rightarrow> (net, 'b) life \<Rightarrow> (net, 'b) life option" where
  "schedule env [] s = Some s"
| "schedule env (a # as) s = (case act env a s of None \<Rightarrow> None | Some s' \<Rightarrow> schedule env as s')"

lemma act_reachable:
  assumes "act env a s = Some s'" and "life_reachable env net_world os0 s"
  shows "life_reachable env net_world os0 s'"
proof -
  have "server_move env s s' \<or> owner_move env net_world s s'"
  proof (cases a)
    case (Ac_Peer l)
    then have "net_world (lf_os s) ((lf_os s)\<lparr>nt_backlog := (nt_backlog (lf_os s))(l := nt_backlog (lf_os s) l + 1)\<rparr>)"
      unfolding net_world_def by blast
    from owner_move.outside [where world = net_world, OF this] show ?thesis using assms(1) Ac_Peer by auto
  next
    case (Ac_Answers bs)
    then have "net_world (lf_os s) ((lf_os s)\<lparr>nt_answers := bs\<rparr>)" unfolding net_world_def by blast
    from owner_move.outside [where world = net_world, OF this] show ?thesis using assms(1) Ac_Answers by auto
  next
    case (Ac_Arrive i r)
    then show ?thesis using assms(1) by (auto split: if_splits intro: owner_move.arrival)
  next
    case Ac_Start
    then have "lf_main s \<in> {M_Idle, M_Running, M_Stopped}" "Start env s = (fst (Start env s), s')"
      using assms(1) by (auto split: if_splits)
    then show ?thesis by (auto intro: owner_move.start)
  qed (use assms(1) in \<open>auto split: if_splits intro: owner_move.stop server_move.intros\<close>)
  with assms(2) show ?thesis by (auto intro: life_reachable.moved life_reachable.owner)
qed

lemma schedule_reachable:
  "schedule env as s = Some s' \<Longrightarrow> life_reachable env net_world os0 s \<Longrightarrow> life_reachable env net_world os0 s'"
  by (induction as arbitrary: s) (auto split: option.splits dest: act_reachable)

lemma schedule_append:
  "schedule env (as @ bs) s = (case schedule env as s of None \<Rightarrow> None | Some s' \<Rightarrow> schedule env bs s')"
  by (induction as arbitrary: s) (auto split: option.splits)

definition net0 :: net where
  "net0 = \<lparr>nt_open = [], nt_port = (\<lambda>h. None), nt_backlog = (\<lambda>h. 0), nt_answers = []\<rparr>"

text \<open>The server is started, a peer connects and its session waits for a frame.\<close>

definition one_session :: "action list" where
  "one_session =
     [Ac_Start, Ac_Accept, Ac_Peer 0, Ac_Accept, Ac_Accept, Ac_Accept, Ac_Accept, Ac_Accept, Ac_Accept, Ac_Accept,
      Ac_Session 0]"

definition serving_one :: "bool \<Rightarrow> 'b server_state \<Rightarrow> (net, 'b) life" where
  "serving_one windows st =
     \<lparr>lf_os = \<lparr>nt_open = [1, 0], nt_port = [0 \<mapsto> 49152], nt_backlog = (\<lambda>h. 0), nt_answers = []\<rparr>,
      lf_state = count sc_sessions_accepted_update (st\<lparr>sx_active := 1\<rparr>),
      lf_threads = [(new_thread 1 \<lparr>wa_socket = Some 1, wa_signal = Some 0\<rparr>)\<lparr>th_pc := S_Wait\<rparr>],
      lf_sessions = [0], lf_listener = Some 0, lf_stopping = False, lf_running = True, lf_bound_port = 49152,
      lf_accept = A_Accept, lf_main = M_Running, lf_woken = False\<rparr>"

lemmas life_evals = net_fields net_defs next_answer_def fresh_handle_def Start_def create_tcp_socket_def socket_runtime_start_def
  bind_and_listen_def socket_address_def connect_socket_def close_socket_def shutdown_socket_def wake_address_def
  accept_move_def main_move_def session_move_def thread_move_def top_move_def request_move_def receive_move_def receive_some_def
  session_iteration_def kFrameHeaderBytes_def waiter_create_def waiter_default_def waiter_wait_def waiter_request_shutdown_def
  waiter_close_def reap_sessions_def new_thread_def fence_session_def holds_registration_def session_default_def leave_session_def

lemma serving_one_runs:
  assumes "sx_active st = 0" and "0 < max_sessions (sv_limits senv)"
  shows "schedule (net_env senv windows) one_session (new_life net0 st) = Some (serving_one windows st)"
  using assms
  by (simp add: one_session_def new_life_def net0_def serving_one_def life_evals accept_session_def Let_def fun_eq_iff)

section \<open>Runs the code does not guard against\<close>

text \<open>
  A session leaves and a stop runs to its end between the session's locked block and the close of
  its handle: the stop returns, and the session thread still has to close the waiter and the
  handle and to touch the condition variable of the server.
\<close>

definition early_return :: "action list" where
  "early_return =
     [Ac_Arrive 0 (Received []), Ac_Session 0, Ac_Session 0, Ac_Session 0, Ac_Session 0, Ac_Stop, Ac_Main, Ac_Main,
      Ac_Main, Ac_Accept, Ac_Accept, Ac_Main, Ac_Main, Ac_Main, Ac_Main, Ac_Main, Ac_Main, Ac_Main, Ac_Main]"

lemma early_return_runs:
  "\<exists>s. schedule (net_env senv windows) early_return (serving_one windows st) = Some s \<and> lf_main s = M_Stopped \<and>
     map th_pc (lf_threads s) = [S_CloseWaiter (Some 1)] \<and> nt_open (lf_os s) = [1]"
  by (simp add: early_return_def serving_one_def life_evals Let_def count_def)

text \<open>
  The stop reads the handle of a session without the lock; the session clears and closes it; the
  stop shuts down a handle that is closed.
\<close>

definition stale_shutdown :: "action list" where
  "stale_shutdown =
     [Ac_Stop, Ac_Main, Ac_Main, Ac_Main, Ac_Accept, Ac_Accept, Ac_Main, Ac_Main, Ac_Main, Ac_Main, Ac_Main,
      Ac_Session 0, Ac_Session 0, Ac_Session 0, Ac_Session 0, Ac_Session 0, Ac_Session 0]"

lemma stale_shutdown_runs:
  "\<exists>s. schedule (net_env senv windows) stale_shutdown (serving_one windows st) = Some s \<and>
     lf_main s = M_ShutSession (Some 1) [] \<and> nt_open (lf_os s) = []"
  by (simp add: stale_shutdown_def serving_one_def life_evals Let_def count_def)

text \<open>
  The wake-up connection cannot be made: the stop waits for the accept thread, the accept thread
  waits for a connection, and the listener would be closed only after the wait.
\<close>

definition failed_wake :: "action list" where
  "failed_wake = [Ac_Start, Ac_Accept, Ac_Answers [False], Ac_Stop, Ac_Main]"

definition held_up :: "'b server_state \<Rightarrow> (net, 'b) life" where
  "held_up st =
     \<lparr>lf_os = \<lparr>nt_open = [0], nt_port = [0 \<mapsto> 49152], nt_backlog = (\<lambda>h. 0), nt_answers = []\<rparr>,
      lf_state = st, lf_threads = [], lf_sessions = [], lf_listener = Some 0, lf_stopping = True, lf_running = True,
      lf_bound_port = 49152, lf_accept = A_Accept, lf_main = M_Join, lf_woken = False\<rparr>"

lemma failed_wake_runs: "schedule (net_env senv windows) failed_wake (new_life net0 st) = Some (held_up st)"
  by (simp add: failed_wake_def new_life_def net0_def held_up_def life_evals Let_def fun_eq_iff)

lemma held_up_stuck: "\<not> server_move (net_env senv windows) (held_up st) s'"
  by (auto elim!: server_move.cases simp: held_up_def life_evals)

end
