(* ===== verification/RF_ThreadRuns.thy ===== *)
theory RF_ThreadRuns
  imports RF_Net RF_ToolFacts
begin

text \<open>
  \<^bold>\<open>What the threads do to the runtime.\<close> Whatever the interleaving, a move of the server is one
  section of the runtime or leaves it alone, so the runs of the server's threads are runs of the
  runtime; and what happens when a registration comes between the two sections with which a
  session ends.
\<close>

section \<open>Moves are sections of the runtime\<close>

text \<open>The frame that the next pass of the loop takes up, and whether a move takes up one that revokes a superseded route.\<close>

definition pending_frame :: "'b server_env \<Rightarrow> bytes \<Rightarrow> decoded_frame option" where
  "pending_frame env buffer =
     (if length buffer < kFrameHeaderBytes then None
      else case frame_header_status (sv_wire env) (sv_limits env) buffer of (status, n) \<Rightarrow>
        if status = FS_Complete \<and> n \<le> length buffer then
          (case decode_frame (sv_wire env) (sv_limits env) (take n buffer) of Inl _ \<Rightarrow> None | Inr f \<Rightarrow> Some f)
        else None)"

definition revoking :: "('o, 'b) life_env \<Rightarrow> ('o, 'b) life \<Rightarrow> ('o, 'b) life \<Rightarrow> bool" where
  "revoking env s s' \<longleftrightarrow>
     (\<exists>i < length (lf_threads s).
        th_pc (lf_threads s ! i) = S_Top \<and> th_pc (lf_threads s' ! i) \<noteq> S_Top \<and>
        (case pending_frame (le_server env) (th_buffer (lf_threads s ! i)) of
           None \<Rightarrow> False | Some f \<Rightarrow> revokes_superseded f (sx_runtime (lf_state s))))"

lemma iteration_steps:
  assumes "session_iteration env buffer session st = (it, buffer', sent, session', st')"
    and "\<And>f. pending_frame env buffer = Some f \<Longrightarrow> \<not> revokes_superseded f (sx_runtime st)"
  shows "steps False (sx_runtime st) (sx_runtime st')"
proof (cases "pending_frame env buffer")
  case None
  then have "sx_runtime st' = sx_runtime st"
    using assms(1) by (auto simp: session_iteration_def pending_frame_def split: if_splits prod.splits sum.splits)
  then show ?thesis by simp
next
  case (Some f)
  obtain task session1 st1 where run: "request_begin env f session (count sc_frames_received_update st) = (task, session1, st1)"
    by (metis prod_cases3)
  then have "st' = st1"
    using assms(1) Some by (auto simp: session_iteration_def pending_frame_def split: if_splits prod.splits sum.splits)
  then show ?thesis using request_begin_steps [OF run] assms(2) [OF Some] by simp
qed

lemma fence_steps: "steps s (sx_runtime st) (sx_runtime (fence_session session st))"
  by (simp add: fence_session_def steps_one [OF step.fence [OF surjective_pairing]])

lemma request_move_steps:
  assumes "request_move env task t st = (t', st')"
  shows "steps s (sx_runtime st) (sx_runtime st')"
proof (cases "\<exists>c r. task = TK_Reply c r")
  case True
  with assms show ?thesis by (auto simp: request_move_def)
next
  case False
  obtain task' st1 where step: "request_step env task st = (task', st1)" by fastforce
  with assms False have "st' = st1" by (cases task) (simp_all add: request_move_def)
  with request_step_steps [OF step] show ?thesis by simp
qed

lemma thread_move_steps:
  assumes "thread_move env stopping fails t st os = Some (t', st', os')"
    and "\<And>f. th_pc t = S_Top \<Longrightarrow> th_pc t' \<noteq> S_Top \<Longrightarrow> pending_frame (le_server env) (th_buffer t) = Some f \<Longrightarrow>
      \<not> revokes_superseded f (sx_runtime st)"
  shows "steps False (sx_runtime st) (sx_runtime st')"
proof (cases "th_pc t")
  case S_Top
  show ?thesis
  proof (cases stopping)
    case True
    with assms(1) S_Top show ?thesis by (auto simp: thread_move_def top_move_def)
  next
    case False
    obtain it buffer sent session st1
      where it: "session_iteration (le_server env) (th_buffer t) (th_session t) st = (it, buffer, sent, session, st1)"
      by (metis prod_cases5)
    then have "st' = st1" "th_pc t' \<noteq> S_Top"
      using assms(1) S_Top False by (auto simp: thread_move_def top_move_def split: iteration.splits)
    then show ?thesis using iteration_steps [OF it] assms(2) [OF S_Top] by simp
  qed
next
  case S_Receive
  then have "sx_runtime st' = sx_runtime st"
    using assms(1) by (auto simp: thread_move_def receive_move_def Let_def split: prod.splits if_splits list.splits)
  then show ?thesis by simp
next
  case (S_Request task)
  obtain t1 st1 where run: "request_move (le_server env) task t st = (t1, st1)" by fastforce
  with assms(1) S_Request have "st' = st1" by (simp add: thread_move_def)
  with request_move_steps [OF run] show ?thesis by simp
next
  case S_Fence
  with assms(1) fence_steps [of False st "th_session t"] show ?thesis by (auto simp: thread_move_def)
qed (use assms(1) in \<open>auto simp: thread_move_def leave_session_def split: option.splits\<close>)

lemma server_move_steps:
  assumes "server_move env s s'" and "\<not> revoking env s s'"
  shows "steps False (sx_runtime (lf_state s)) (sx_runtime (lf_state s'))"
  using assms(1)
proof cases
  case main
  then have "lf_state s' = lf_state s"
    by (cases "lf_main s") (auto simp: main_move_def Let_def split: prod.splits sum.splits list.splits if_splits)
  then show ?thesis by simp
next
  case (accept made)
  then have "sx_runtime (lf_state s') = sx_runtime (lf_state s)"
    by (cases "lf_accept s") (auto simp: accept_move_def reap_sessions_def split: option.splits prod.splits bool.splits if_splits
        dest: accept_session_runtime)
  then show ?thesis by simp
next
  case (session fails i)
  from session show ?thesis
  proof (cases rule: session_moveD)
    case (1 t st os)
    have "\<not> revokes_superseded f (sx_runtime (lf_state s))"
      if "th_pc (lf_threads s ! i) = S_Top" "th_pc t \<noteq> S_Top" "pending_frame (le_server env) (th_buffer (lf_threads s ! i)) = Some f" for f
    proof
      assume "revokes_superseded f (sx_runtime (lf_state s))"
      with that 1(1,3) have "revoking env s s'" unfolding revoking_def by (intro exI [of _ i]) simp
      with assms(2) show False by simp
    qed
    then have "steps False (sx_runtime (lf_state s)) (sx_runtime st)" by (rule thread_move_steps [OF 1(2)])
    with 1(3) show ?thesis by simp
  qed
qed

section \<open>Runs of the server\<close>

text \<open>
  A run of the server's threads with its owner and the world outside, in which no session takes up the
  revocation of a superseded route and the other users of the runtime make its steps.
\<close>

inductive life_run ::
  "('o, 'b) life_env \<Rightarrow> ('o \<Rightarrow> 'o \<Rightarrow> bool) \<Rightarrow> ('o, 'b) life \<Rightarrow> ('o, 'b) life \<Rightarrow> bool"
  for env :: "('o, 'b) life_env" and world :: "'o \<Rightarrow> 'o \<Rightarrow> bool" and start :: "('o, 'b) life" where
  begun: "life_run env world start start"
| moved: "life_run env world start s'" if "life_run env world start s" and "server_move env s s'" and "\<not> revoking env s s'"
| owner: "life_run env world start s'" if "life_run env world start s" and "owner_move env world s s'"
    and "steps False (sx_runtime (lf_state s)) (sx_runtime (lf_state s'))"

lemma life_run_steps: "life_run env world start s \<Longrightarrow> steps False (sx_runtime (lf_state start)) (sx_runtime (lf_state s))"
proof (induction rule: life_run.induct)
  case (moved s s')
  then show ?case using server_move_steps by (meson rtranclp_trans)
next
  case (owner s s')
  then show ?case by (meson rtranclp_trans)
qed simp

lemma life_run_reachable:
  "life_run env world start s \<Longrightarrow> life_reachable env world os0 start \<Longrightarrow> life_reachable env world os0 s"
  by (induction rule: life_run.induct) (auto intro: life_reachable.moved life_reachable.owner)

text \<open>The server of a started coordinator is new.\<close>

lemma coordinator_start_fresh:
  assumes "coordinator_start env arguments fs = Serving lines senv st"
  shows "sx_active st = 0 \<and> sc_sessions_accepted (sx_counters st) = 0 \<and> sc_sessions_closed (sx_counters st) = 0"
  using assms by (auto simp: coordinator_start_def started_state_def split: sum.splits prod.splits option.splits)

section \<open>Schedules of the small network\<close>

text \<open>Whether a thread could take up a revocation.\<close>

definition may_revoke :: "(net, 'b) life_env \<Rightarrow> (net, 'b) life \<Rightarrow> bool" where
  "may_revoke env s =
     list_ex (\<lambda>t. th_pc t = S_Top \<and>
       (case pending_frame (le_server env) (th_buffer t) of None \<Rightarrow> False | Some f \<Rightarrow> df_id f = MI_RevokeRoute)) (lf_threads s)"

fun guarded :: "(net, 'b) life_env \<Rightarrow> action list \<Rightarrow> (net, 'b) life \<Rightarrow> (net, 'b) life option" where
  "guarded env [] s = Some s"
| "guarded env (a # as) s =
     (if may_revoke env s then None else case act env a s of None \<Rightarrow> None | Some s' \<Rightarrow> guarded env as s')"

lemma guarded_revoking: "\<not> may_revoke env s \<Longrightarrow> \<not> revoking env s s'"
  unfolding may_revoke_def revoking_def revokes_superseded_def
  by (fastforce simp: list_ex_iff in_set_conv_nth split: option.splits)

lemma act_run:
  assumes "act env a s = Some s'" and "\<not> may_revoke env s" and "life_run env net_world start s"
  shows "life_run env net_world start s'"
proof -
  have moved: "life_run env net_world start s'" if "server_move env s s'"
    using life_run.moved [OF assms(3) that guarded_revoking [OF assms(2)]] .
  have owner: "life_run env net_world start s'" if "owner_move env net_world s s'" "lf_state s' = lf_state s"
    using life_run.owner [OF assms(3) that(1)] that(2) by simp
  show ?thesis
  proof (cases a)
    case (Ac_Peer l)
    then have "net_world (lf_os s) ((lf_os s)\<lparr>nt_backlog := (nt_backlog (lf_os s))(l := nt_backlog (lf_os s) l + 1)\<rparr>)"
      unfolding net_world_def by blast
    from owner_move.outside [where world = net_world, OF this] show ?thesis using assms(1) Ac_Peer by (intro owner) auto
  next
    case (Ac_Answers bs)
    then have "net_world (lf_os s) ((lf_os s)\<lparr>nt_answers := bs\<rparr>)" unfolding net_world_def by blast
    from owner_move.outside [where world = net_world, OF this] show ?thesis using assms(1) Ac_Answers by (intro owner) auto
  next
    case (Ac_Arrive i r)
    then show ?thesis using assms(1) by (intro owner) (auto split: if_splits intro: owner_move.arrival)
  next
    case Ac_Start
    then have "lf_main s \<in> {M_Idle, M_Running, M_Stopped}" "Start env s = (fst (Start env s), s')"
      using assms(1) by (auto split: if_splits)
    then show ?thesis using Start_state by (intro owner) (auto intro: owner_move.start)
  next
    case Ac_Stop
    then have "lf_main s = M_Running" "main_move env s = Some s'" using assms(1) by (auto split: if_splits)
    then show ?thesis by (intro owner) (auto intro: owner_move.stop simp: main_move_def)
  qed (use assms(1) in \<open>auto split: if_splits intro: moved server_move.intros\<close>)
qed

lemma guarded_run:
  "guarded env as s = Some s' \<Longrightarrow> life_run env net_world start s \<Longrightarrow> life_run env net_world start s'"
  by (induction as arbitrary: s) (auto split: option.splits if_splits dest: act_run)

section \<open>A registration between the two sections of a session's end\<close>

text \<open>
  A session that holds the registration of its publisher looks it up; before it fences the
  publisher, the publisher registers again with another worker boot. The fence then falls on the
  new boot, which no session closed.
\<close>

lemma late_fence:
  assumes "th_pc t = S_Finish" and "holds_registration (th_session t) (sx_runtime st)"
    and "RegisterPublisher (se_publisher (th_session t)) boot scope (sx_runtime st) = (Inr g, rt)"
  shows "\<exists>t1 t2 st2. thread_move env stopping fails t st os = Some (t1, st, os) \<and>
    thread_move env stopping fails t1 (st\<lparr>sx_runtime := rt\<rparr>) os = Some (t2, st2, os) \<and>
    boot \<in> set (rt_fenced_boots (sx_runtime st2)) \<and>
    om_find (rt_registrations (sx_runtime st2)) (se_publisher (th_session t)) = None"
proof -
  have "om_find (rt_registrations rt) (se_publisher (th_session t)) = Some g" "rg_worker_boot g = boot"
    using assms(3) by (auto simp: RegisterPublisher_def Let_def split: if_splits sum.splits option.splits)
  then have "boot \<in> set (rt_fenced_boots (snd (FencePublisher (se_publisher (th_session t)) FR_SessionClosed rt))) \<and>
      om_find (rt_registrations (snd (FencePublisher (se_publisher (th_session t)) FR_SessionClosed rt)))
        (se_publisher (th_session t)) = None"
    by (simp add: FencePublisher_def Let_def)
  then show ?thesis using assms(1,2) by (simp add: thread_move_def fence_session_def)
qed

end
