(* ===== verification/RF_Shutdown.thy ===== *)
theory RF_Shutdown
  imports RF_Coordinator RF_Stopping
begin

text \<open>
  \<^bold>\<open>The end of the coordinator.\<close> \<open>tools/rf_coordinator.cpp\<close> after the line \<open>ready\<close>: a thread
  that reads standard input and a thread that watches for a file both fulfil one promise, the
  main thread waits for it, joins the watcher, stops the server and returns. The call of
  \<open>server.Stop()\<close> is the stop of \<open>RF_Lifetime\<close>, move by move, while the threads of the server go on.
\<close>

section \<open>The threads\<close>

datatype signal_pc = G_Off | G_Run | G_Look | G_Set | G_End

datatype closing_pc = C_Wait | C_Flag | C_Join | C_Stop | C_Stopping | C_Exit

text \<open>\<open>cs_aborted\<close>: a second fulfilment of the promise throws in a thread, which ends the process.\<close>

record closing =
  cs_lines :: "string list"
  cs_file :: bool
  cs_set :: bool
  cs_aborted :: bool
  cs_watcher_stop :: bool
  cs_stdin :: signal_pc
  cs_watcher :: signal_pc
  cs_main :: closing_pc
  cs_printed :: "printed list"

definition closing_start :: "coordinator_options \<Rightarrow> string list \<Rightarrow> bool \<Rightarrow> closing" where
  "closing_start opts input file_exists =
     \<lparr>cs_lines = input, cs_file = file_exists, cs_set = False, cs_aborted = False, cs_watcher_stop = False,
      cs_stdin = (if ko_shutdown_on_stdin opts then G_Run else G_Off),
      cs_watcher = (if ko_exit_file opts \<noteq> [] then G_Run else G_Off), cs_main = C_Wait, cs_printed = []\<rparr>"

definition set_value :: "closing \<Rightarrow> closing" where
  "set_value s = (if cs_set s then s\<lparr>cs_aborted := True\<rparr> else s\<lparr>cs_set := True\<rparr>)"

definition stdin_move :: "closing \<Rightarrow> closing option" where
  "stdin_move s =
     (case cs_stdin s of
        G_Run \<Rightarrow>
          (case cs_lines s of
             [] \<Rightarrow> Some (s\<lparr>cs_stdin := G_Set\<rparr>)
           | line # rest \<Rightarrow>
               Some (s\<lparr>cs_lines := rest, cs_stdin := (if line = ''shutdown'' then G_Set else G_Run)\<rparr>))
      | G_Set \<Rightarrow> Some ((set_value s)\<lparr>cs_stdin := G_End\<rparr>)
      | _ \<Rightarrow> None)"

definition watcher_move :: "closing \<Rightarrow> closing option" where
  "watcher_move s =
     (case cs_watcher s of
        G_Run \<Rightarrow> Some (s\<lparr>cs_watcher := (if cs_watcher_stop s then G_End else G_Look)\<rparr>)
      | G_Look \<Rightarrow> Some (s\<lparr>cs_watcher := (if cs_file s then G_Set else G_Run)\<rparr>)
      | G_Set \<Rightarrow> Some ((set_value s)\<lparr>cs_watcher := G_End\<rparr>)
      | _ \<Rightarrow> None)"

text \<open>The main thread with the server: \<open>C_Stop\<close> calls \<open>Stop\<close>, \<open>C_Stopping\<close> is inside it. \<open>None\<close> while the thread waits.\<close>

definition closing_move :: "('o, 'b) life_env \<Rightarrow> closing \<Rightarrow> ('o, 'b) life \<Rightarrow> (closing \<times> ('o, 'b) life) option" where
  "closing_move env c s =
     (case cs_main c of
        C_Wait \<Rightarrow> (if cs_set c then Some (c\<lparr>cs_main := C_Flag\<rparr>, s) else None)
      | C_Flag \<Rightarrow> Some (c\<lparr>cs_watcher_stop := True, cs_main := C_Join\<rparr>, s)
      | C_Join \<Rightarrow> (if cs_watcher c = G_Off \<or> cs_watcher c = G_End then Some (c\<lparr>cs_main := C_Stop\<rparr>, s) else None)
      | C_Stop \<Rightarrow> (case main_move env s of None \<Rightarrow> None | Some s' \<Rightarrow> Some (c\<lparr>cs_main := C_Stopping\<rparr>, s'))
      | C_Stopping \<Rightarrow>
          (if lf_main s = M_Stopped
           then Some (c\<lparr>cs_main := C_Exit, cs_printed := [Line ''shutdown complete'']\<rparr>, s)
           else case main_move env s of None \<Rightarrow> None | Some s' \<Rightarrow> Some (c, s'))
      | C_Exit \<Rightarrow> None)"

text \<open>The threads of the coordinator, those of its server, and the peers; nobody else starts or stops the server.\<close>

inductive closing_step ::
  "('o, 'b) life_env \<Rightarrow> ('o \<Rightarrow> 'o \<Rightarrow> bool) \<Rightarrow> closing \<times> ('o, 'b) life \<Rightarrow> closing \<times> ('o, 'b) life \<Rightarrow> bool"
  for env :: "('o, 'b) life_env" and world :: "'o \<Rightarrow> 'o \<Rightarrow> bool" where
  stdin: "closing_step env world (c, s) (c', s)" if "\<not> cs_aborted c" and "cs_main c \<noteq> C_Exit" and "stdin_move c = Some c'"
| watcher: "closing_step env world (c, s) (c', s)" if "\<not> cs_aborted c" and "watcher_move c = Some c'"
| main: "closing_step env world (c, s) x" if "\<not> cs_aborted c" and "closing_move env c s = Some x"
| created: "closing_step env world (c, s) (c\<lparr>cs_file := True\<rparr>, s)"
| accepting: "closing_step env world (c, s) (c, s')" if "\<not> cs_aborted c" and "accept_move env made s = Some s'"
| session: "closing_step env world (c, s) (c, s')" if "\<not> cs_aborted c" and "session_move env fails i s = Some s'"
| others: "closing_step env world (c, s) (c, s')" if "owner_move env world s s'" and "lf_main s' = lf_main s"

section \<open>One signal is enough, two are one too many\<close>

text \<open>Who has set the promise, when only one thread can.\<close>

definition single_signal :: "closing \<Rightarrow> bool" where
  "single_signal s \<longleftrightarrow>
     \<not> cs_aborted s \<and> (cs_stdin s = G_Off \<or> cs_watcher s = G_Off) \<and>
     (cs_set s \<longrightarrow> cs_stdin s \<in> {G_Off, G_End} \<and> cs_watcher s \<in> {G_Off, G_End}) \<and>
     (cs_main s \<noteq> C_Wait \<longrightarrow> cs_set s)"

lemma single_signal_moves:
  assumes "single_signal c"
  shows "stdin_move c = Some c' \<Longrightarrow> single_signal c'" "watcher_move c = Some c' \<Longrightarrow> single_signal c'"
    "closing_move env c s = Some (c', s') \<Longrightarrow> single_signal c'" "single_signal (c\<lparr>cs_file := True\<rparr>)"
  using assms
  by (auto simp: single_signal_def stdin_move_def watcher_move_def closing_move_def set_value_def
      split: signal_pc.splits closing_pc.splits list.splits if_splits option.splits)

text \<open>Where the server is while the main thread gets to its stop.\<close>

definition stop_phase :: "closing \<Rightarrow> ('o, 'b) life \<Rightarrow> bool" where
  "stop_phase c s \<longleftrightarrow>
     (case cs_main c of
        C_Stopping \<Rightarrow> stop_under_way s \<or> lf_main s = M_Stopped
      | C_Exit \<Rightarrow> lf_main s = M_Stopped
      | _ \<Rightarrow> lf_main s = M_Running)"

lemma stop_phase_same: "stop_phase c s \<Longrightarrow> cs_main c' = cs_main c \<Longrightarrow> lf_main s' = lf_main s \<Longrightarrow> stop_phase c' s'"
  by (auto simp: stop_phase_def stop_under_way_def split: closing_pc.splits)

lemma signal_main: "stdin_move c = Some c' \<Longrightarrow> cs_main c' = cs_main c" "watcher_move c = Some c' \<Longrightarrow> cs_main c' = cs_main c"
  by (auto simp: stdin_move_def watcher_move_def set_value_def split: signal_pc.splits list.splits if_splits)

lemma closing_move_phase:
  assumes "closing_move env c s = Some (c', s')" and "stop_phase c s" and "life_reachable env world os0 s"
  shows "stop_phase c' s' \<and> life_reachable env world os0 s'"
proof (cases "cs_main c")
  case C_Stop
  then have here: "lf_main s = M_Running" "main_move env s = Some s'" "cs_main c' = C_Stopping"
    using assms(1,2) by (auto simp: closing_move_def stop_phase_def split: option.splits)
  then have "stop_under_way s'" by (auto simp: main_move_def stop_under_way_def)
  with here life_reachable.owner [OF assms(3) owner_move.stop] show ?thesis by (simp add: stop_phase_def)
next
  case C_Stopping
  show ?thesis
  proof (cases "lf_main s = M_Stopped")
    case True
    with assms C_Stopping show ?thesis by (auto simp: closing_move_def stop_phase_def)
  next
    case False
    then have here: "stop_under_way s" "main_move env s = Some s'" "c' = c"
      using assms(1,2) C_Stopping by (auto simp: closing_move_def stop_phase_def split: option.splits)
    then have "lf_main s \<noteq> M_Running" by (auto simp: stop_under_way_def)
    with here main_move_phase(1) [OF here(2,1)] life_reachable.moved [OF assms(3) server_move.main] C_Stopping show ?thesis
      by (auto simp: stop_phase_def)
  qed
qed (use assms in \<open>auto simp: closing_move_def stop_phase_def split: if_splits\<close>)

text \<open>With at most one of the two threads, the promise is set once and the server is where the main thread put it.\<close>

definition closing_inv :: "('o, 'b) life_env \<Rightarrow> ('o \<Rightarrow> 'o \<Rightarrow> bool) \<Rightarrow> 'o \<Rightarrow> closing \<times> ('o, 'b) life \<Rightarrow> bool" where
  "closing_inv env world os0 = (\<lambda>(c, s). single_signal c \<and> stop_phase c s \<and> life_reachable env world os0 s)"

lemma closing_step_inv:
  assumes "closing_step env world x y" and "closing_inv env world os0 x"
  shows "closing_inv env world os0 y"
  using assms(1)
proof cases
  case (main c s)
  obtain c' s' where y: "y = (c', s')" by fastforce
  with main assms(2) closing_move_phase [of env c s c' s' world os0] single_signal_moves(3) [of c env s c' s'] show ?thesis
    by (auto simp: closing_inv_def)
next
  case (accepting c made s s')
  with assms(2) others_phase [of env made s s'] show ?thesis
    by (auto simp: closing_inv_def intro: stop_phase_same life_reachable.moved server_move.accept)
next
  case (session c fails i s s')
  with assms(2) others_phase [of env _ s s' fails i] show ?thesis
    by (auto simp: closing_inv_def intro: stop_phase_same life_reachable.moved server_move.session)
next
  case (others s s' c)
  with assms(2) show ?thesis by (auto simp: closing_inv_def intro: stop_phase_same life_reachable.owner)
qed (use assms(2) in \<open>auto simp: closing_inv_def intro: single_signal_moves stop_phase_same dest: signal_main\<close>)

lemma closing_run_inv:
  assumes "(closing_step env world)\<^sup>*\<^sup>* (closing_start opts input e, start) x" and "\<not> ko_shutdown_on_stdin opts \<or> ko_exit_file opts = []"
    and "life_reachable env world os0 start" and "lf_main start = M_Running"
  shows "closing_inv env world os0 x"
  using assms(1)
proof (induction rule: rtranclp_induct)
  case base
  then show ?case using assms(2-4) by (auto simp: closing_start_def single_signal_def closing_inv_def stop_phase_def)
qed (rule closing_step_inv)

text \<open>Once the promise is set, what holds the main thread up is the accept thread or a session, inside \<open>Stop\<close>.\<close>

lemma closing_held:
  assumes "closing_inv env world os0 (c, s)" and "cs_set c" and "cs_main c \<noteq> C_Exit" and "closing_move env c s = None"
  shows "cs_main c = C_Stopping \<and> stop_under_way s \<and> main_move env s = None \<and>
    (lf_main s = M_Join \<and> lf_accept s \<noteq> A_Done \<or> lf_main s = M_Await \<and> 0 < session_count s)"
proof -
  have one: "single_signal c" and phase: "stop_phase c s" using assms(1) by (simp_all add: closing_inv_def)
  have "cs_main c = C_Stopping"
  proof (cases "cs_main c")
    case C_Stop
    then have "main_move env s \<noteq> None" using phase by (simp add: stop_phase_def main_move_def)
    with C_Stop assms(4) show ?thesis by (simp add: closing_move_def split: option.splits)
  qed (use one assms(2-4) in \<open>auto simp: single_signal_def closing_move_def\<close>)
  moreover from this phase assms(4) have under: "stop_under_way s" "main_move env s = None"
    by (auto simp: stop_phase_def closing_move_def split: if_splits option.splits)
  moreover have "lf_main s = M_Join \<and> lf_accept s \<noteq> A_Done \<or> lf_main s = M_Await \<and> 0 < session_count s"
    using main_moves [of s env] under by (auto simp: stop_under_way_def session_count_def)
  ultimately show ?thesis by simp
qed

text \<open>And then a thread of the server can go on, unless the accept thread has no connection to accept.\<close>

lemma closing_others_move:
  assumes "life_reachable env world os0 s" and "stop_under_way s" and "main_move env s = None" and "\<not> accept_held env s"
  shows "(\<exists>made s'. accept_move env made s = Some s') \<or> (\<exists>fails i s'. session_move env fails i s = Some s')"
proof -
  have "life_inv s" using life_reachable_inv [OF assms(1)] by blast
  from stop_not_stuck [OF this _ assms(4)] assms(2) obtain s' where "server_move env s s'" by (auto simp: stop_under_way_def)
  then show ?thesis using assms(3) by cases auto
qed

text \<open>With both, the second fulfilment ends the process before the server is stopped.\<close>

lemma both_signals_abort:
  assumes "ko_shutdown_on_stdin opts" and "ko_exit_file opts \<noteq> []"
  shows "\<exists>c. (closing_step env world)\<^sup>*\<^sup>* (closing_start opts [''shutdown''] True, s) (c, s) \<and> cs_aborted c \<and> cs_main c = C_Wait"
proof -
  let ?s0 = "closing_start opts [''shutdown''] True"
  let ?s1 = "?s0\<lparr>cs_lines := [], cs_stdin := G_Set\<rparr>"
  let ?s2 = "?s1\<lparr>cs_watcher := G_Look\<rparr>"
  let ?s3 = "?s2\<lparr>cs_watcher := G_Set\<rparr>"
  let ?s4 = "?s3\<lparr>cs_set := True, cs_watcher := G_End\<rparr>"
  let ?s5 = "?s4\<lparr>cs_aborted := True, cs_stdin := G_End\<rparr>"
  note defs = closing_start_def stdin_move_def watcher_move_def set_value_def
  have "closing_step env world (?s0, s) (?s1, s)" by (rule closing_step.stdin) (use assms in \<open>simp_all add: defs\<close>)
  moreover have "closing_step env world (?s1, s) (?s2, s)" by (rule closing_step.watcher) (use assms in \<open>simp_all add: defs\<close>)
  moreover have "closing_step env world (?s2, s) (?s3, s)" by (rule closing_step.watcher) (use assms in \<open>simp_all add: defs\<close>)
  moreover have "closing_step env world (?s3, s) (?s4, s)" by (rule closing_step.watcher) (use assms in \<open>simp_all add: defs\<close>)
  moreover have "closing_step env world (?s4, s) (?s5, s)" by (rule closing_step.stdin) (use assms in \<open>simp_all add: defs\<close>)
  ultimately have "(closing_step env world)\<^sup>*\<^sup>* (?s0, s) (?s5, s)" by (meson converse_rtranclp_into_rtranclp rtranclp.rtrancl_refl)
  then show ?thesis by (intro exI [of _ ?s5]) (simp add: closing_start_def)
qed

end
