(* ===== verification/RF_Durability.thy ===== *)
theory RF_Durability
  imports RF_Persistence
begin

text \<open>
  \<^bold>\<open>What the store keeps.\<close> The contract of the store towards the runtime: what was saved
  or appended successfully is what the next load returns, and an append that is cut off at any
  byte loses that entry and nothing else.
\<close>

section \<open>Loading\<close>

text \<open>The journal file holds complete entries followed by a tail no reader recognises.\<close>

definition journal_holds :: "route_store \<Rightarrow> journal_entry list \<Rightarrow> bytes \<Rightarrow> bool" where
  "journal_holds store entries tail \<longleftrightarrow>
     list_all (entry_wf (rs_limits store)) entries \<and> torn (rs_limits store) tail \<and>
     (rs_journal store = Some (encode_journal (rs_limits store) entries @ tail) \<or>
      rs_journal store = None \<and> entries = [] \<and> tail = [])"

lemma torn_Nil [simp]: "torn limits []"
  unfolding torn_def
  by (subst replay_journal.simps) (simp add: Let_def kPersistFrameHeaderBytes_def kPersistFrameTrailerBytes_def)

lemma next_io_ok [simp]: "rs_io store = [] \<Longrightarrow> next_io store = (io_ok, store)"
  by (simp add: next_io_def)

lemma Load_replays:
  assumes "rs_io store = []" and "load_snapshot store io_ok = Inr base" and "journal_holds store entries tail"
  shows "fst (Load store) = Inr (foldl replay_entry base entries)"
  using assms replay_journal_entries [of "rs_limits store" entries tail base 0 0]
  by (auto simp: Load_def journal_holds_def Let_def io_ok_def)

section \<open>Saving and appending\<close>

lemma encode_journal_append: "encode_journal limits (es @ fs) = encode_journal limits es @ encode_journal limits fs"
  by (simp add: encode_journal_def)

lemma journal_contents_holds:
  "journal_holds store entries [] \<Longrightarrow> journal_contents store = encode_journal (rs_limits store) entries"
  by (auto simp: journal_holds_def journal_contents_def encode_journal_def)

lemma Save_then_Load:
  assumes "SaveSnapshot store state = (Inr u, store')" and "rs_io store = []" and "state_wf (rs_limits store) state"
  shows "fst (Load store') = Inr state"
proof -
  have "rs_limits store' = rs_limits store" "rs_io store' = []" "rs_journal store' = None"
    and "rs_snapshot store' = Some (EncodeSnapshot state (rs_limits store))"
    using assms(1,2) by (auto simp: SaveSnapshot_def Let_def io_ok_def split: if_splits)
  then show ?thesis
    using Load_replays [of store' state "[]" "[]"] DecodeSnapshot_encoded [OF assms(3)]
    by (simp add: load_snapshot_def io_ok_def journal_holds_def)
qed

lemma take_all_or_torn:
  assumes "entry_wf limits entry"
  shows "take n (EncodeJournalEntry entry limits) = EncodeJournalEntry entry limits \<or>
    n < length (EncodeJournalEntry entry limits) \<and> torn limits (take n (EncodeJournalEntry entry limits))"
  using proper_prefix_torn [OF assms append_take_drop_id [symmetric], of n] by (cases "n < length (EncodeJournalEntry entry limits)") auto

text \<open>The answer of the operating system to an append: how many bytes reached the file.\<close>

definition append_survives :: "io_result \<Rightarrow> bytes \<Rightarrow> bool" where
  "append_survives io img \<longleftrightarrow> (case io_append io of None \<Rightarrow> True | Some n \<Rightarrow> length img \<le> n)"

lemma Append_then_Load:
  assumes "rs_durability store \<noteq> DU_None" and "rs_io store = [io]" and "entry_wf (rs_limits store) entry"
    and "load_snapshot store io_ok = Inr base" and "journal_holds store entries []"
  shows "fst (Load (snd (AppendJournal store entry))) =
    Inr (foldl replay_entry base
      (if append_survives io (EncodeJournalEntry entry (rs_limits store)) then entries @ [entry] else entries))"
proof -
  let ?img = "EncodeJournalEntry entry (rs_limits store)"
  let ?store' = "snd (AppendJournal store entry)"
  have "?img \<noteq> []" using assms(3) by (simp add: EncodeJournalEntry_wf length_write_frame flip: length_greater_0_conv)
  have kept: "rs_limits ?store' = rs_limits store" "rs_io ?store' = []" "rs_snapshot ?store' = rs_snapshot store"
    and journal: "rs_journal ?store' = Some (journal_contents store @
      (case io_append io of None \<Rightarrow> ?img | Some n \<Rightarrow> take n ?img))"
    using assms(1,2) \<open>?img \<noteq> []\<close>
    by (auto simp: AppendJournal_def next_io_def Let_def journal_contents_def split: option.splits)
  have "load_snapshot ?store' io_ok = Inr base" using assms(4) by (simp only: load_snapshot_def kept)
  moreover have "\<exists>tail. journal_holds ?store' (if append_survives io ?img then entries @ [entry] else entries) tail"
    using assms(3,5) kept journal journal_contents_holds [OF assms(5)] take_all_or_torn [OF assms(3)]
    by (auto simp: journal_holds_def encode_journal_append encode_journal_def append_survives_def split: option.splits)
  ultimately show ?thesis using Load_replays kept(2) by blast
qed

section \<open>A small store\<close>

definition small_store :: route_store where
  "small_store = route_store default_limits DU_Journal"

definition small_entry :: journal_entry where
  "small_entry =
     \<lparr>je_epoch = 2, je_policy_generation = 1, je_upserts = [], je_revocations = [],
      je_attempts = [\<lparr>at_attempt = 5, at_route = 3, at_desired_generation = 1, at_programming_generation = 2,
        at_operation = OP_Install, at_epoch = 2, at_resolved = True\<rparr>]\<rparr>"

lemma small_counters: "1 \<le> kMaxValue" "2 \<le> kMaxValue"
  by code_simp+

lemma small_entry_wf: "entry_wf default_limits small_entry"
  using small_counters
  by (simp add: entry_wf_def small_entry_def body_wf_def attempt_wf_def counter_wire_valid_def payload_fits_def
      entry_payload_def w_state_body_def w_attempt_def w_all_def w_fixed_def w_counter_def w_u8_def w_boolean_def
      default_limits_def)

lemma small_store_fields:
  "rs_limits small_store = default_limits" "rs_durability small_store = DU_Journal" "rs_io small_store = []"
  "load_snapshot small_store io = Inr initial_state" "journal_holds small_store [] []"
  by (simp_all add: small_store_def route_store_def load_snapshot_def journal_holds_def)

lemma initial_state_wf: "state_wf default_limits initial_state"
  using small_counters
  by (simp add: state_wf_def initial_state_def body_wf_def counter_wire_valid_def payload_fits_def state_unique_def
      snapshot_payload_def w_state_body_def w_all_def default_limits_def)

lemma save_small: "SaveSnapshot small_store initial_state = (Inr (), snd (SaveSnapshot small_store initial_state))"
proof -
  have "EncodeSnapshot initial_state default_limits \<noteq> []"
    by (simp add: EncodeSnapshot_wf [OF initial_state_wf] length_write_frame flip: length_greater_0_conv)
  then show ?thesis
    by (simp add: SaveSnapshot_def small_store_fields Let_def io_ok_def ok_status_def)
qed

lemma small_entry_cut: "20 < length (EncodeJournalEntry small_entry default_limits)"
  by (simp add: EncodeJournalEntry_wf [OF small_entry_wf] length_write_frame)

end
