(* ===== verification/RF_Mirror.thy ===== *)
theory RF_Mirror
  imports RF_Durability RF_Behaviour
begin

text \<open>
  \<^bold>\<open>The store mirrors the runtime.\<close> With a journal, what the next process would load from the
  store is at every moment the state that the runtime holds: a locked section first appends
  what it is about to commit, and the replay of the entry does to the loaded state what the
  commit does to the tables.
\<close>

section \<open>Lists of records as tables\<close>

definition keyed :: "('a \<Rightarrow> 'k) \<Rightarrow> 'a list \<Rightarrow> 'k \<Rightarrow> 'a option" where
  "keyed key xs = map_of (map (\<lambda>x. (key x, x)) xs)"

lemma keyed_upsert_attempt: "keyed at_attempt (upsert_attempt a xs) = (keyed at_attempt xs)(at_attempt a \<mapsto> a)"
  by (induction xs) (auto simp: keyed_def fun_eq_iff)

lemma keyed_upsert_revocation: "keyed rv_route (upsert_revocation v xs) = (keyed rv_route xs)(rv_route v \<mapsto> v)"
  by (induction xs) (auto simp: keyed_def fun_eq_iff)

lemma keyed_upsert_route:
  "(\<And>q. keyed rr_id xs (rr_id r) = Some q \<Longrightarrow> rr_generation q \<le> rr_generation r) \<Longrightarrow>
   keyed rr_id (upsert_route r xs) = (keyed rr_id xs)(rr_id r \<mapsto> r)"
  by (induction xs) (auto simp: keyed_def fun_eq_iff split: if_splits)

section \<open>The mirror\<close>

definition mirrors :: "persisted_state \<Rightarrow> runtime \<Rightarrow> bool" where
  "mirrors state rt \<longleftrightarrow>
     pst_epoch state = rt_epoch rt \<and> pst_policy_generation state = rt_policy_generation rt \<and>
     keyed rr_id (pst_routes state) = om_find (rt_routes rt) \<and>
     keyed rv_route (pst_revocations state) = om_find (rt_revocations rt) \<and>
     keyed at_attempt (pst_attempts state) = om_find (rt_attempts rt)"

definition store_mirrors :: "runtime \<Rightarrow> bool" where
  "store_mirrors rt \<longleftrightarrow>
     (\<exists>store base entries. rt_store rt = Some store \<and> cf_durability (rt_config rt) = DU_Journal \<and>
        rs_durability store = DU_Journal \<and> rs_limits store = rt_limits rt \<and> rs_io store = [] \<and>
        load_snapshot store io_ok = Inr base \<and> journal_holds store entries [] \<and>
        mirrors (foldl replay_entry base entries) rt)"

text \<open>What the next process loads.\<close>

lemma store_mirrors_Load:
  assumes "store_mirrors rt"
  shows "\<exists>store state. rt_store rt = Some store \<and> fst (Load (bind_store (rt_config rt) store)) = Inr state \<and> mirrors state rt"
proof -
  obtain store base entries where s: "rt_store rt = Some store" "rs_limits store = rt_limits rt" "rs_io store = []"
    "load_snapshot store io_ok = Inr base" "journal_holds store entries []" "mirrors (foldl replay_entry base entries) rt"
    using assms by (auto simp: store_mirrors_def)
  let ?store = "bind_store (rt_config rt) store"
  have kept: "rs_limits ?store = rs_limits store" "rs_io ?store = []" "rs_snapshot ?store = rs_snapshot store"
    "rs_journal ?store = rs_journal store"
    using s(2,3) by (simp_all add: bind_store_def route_store_def)
  have "load_snapshot ?store io_ok = Inr base" using s(4) by (simp only: load_snapshot_def kept)
  moreover have "journal_holds ?store entries []" using s(5) by (simp only: journal_holds_def kept)
  ultimately show ?thesis using Load_replays [OF kept(2)] s(1,6) by blast
qed

section \<open>Appending and committing\<close>

definition entry_of ::
  "runtime \<Rightarrow> route_record list \<Rightarrow> revocation_record list \<Rightarrow> programming_attempt_record list \<Rightarrow> journal_entry" where
  "entry_of rt upserts revoked attempts =
     \<lparr>je_epoch = rt_epoch rt, je_policy_generation = rt_policy_generation rt, je_upserts = upserts,
      je_revocations = revoked, je_attempts = attempts\<rparr>"

lemma AppendJournal_kept:
  assumes "rs_durability store = DU_Journal" and "rs_io store = []" and "entry_wf (rs_limits store) entry"
    and "load_snapshot store io_ok = Inr base" and "journal_holds store entries []"
  shows "\<exists>store'. AppendJournal store entry = (ok_status, store') \<and> rs_durability store' = DU_Journal \<and>
    rs_limits store' = rs_limits store \<and> rs_io store' = [] \<and> load_snapshot store' io_ok = Inr base \<and>
    journal_holds store' (entries @ [entry]) []"
proof -
  have "EncodeJournalEntry entry (rs_limits store) \<noteq> []"
    using assms(3) by (simp add: EncodeJournalEntry_wf length_write_frame flip: length_greater_0_conv)
  then obtain store' where run: "AppendJournal store entry = (ok_status, store')"
    and kept: "rs_durability store' = DU_Journal" "rs_limits store' = rs_limits store" "rs_io store' = []"
      "rs_snapshot store' = rs_snapshot store"
    and journal: "rs_journal store' = Some (journal_contents store @ EncodeJournalEntry entry (rs_limits store))"
    using assms(1,2) by (auto simp: AppendJournal_def Let_def io_ok_def)
  have "load_snapshot store' io_ok = Inr base" using assms(4) by (simp only: load_snapshot_def kept)
  moreover have "journal_holds store' (entries @ [entry]) []"
    using assms(3,5) journal journal_contents_holds [OF assms(5)]
    by (auto simp: journal_holds_def kept encode_journal_append encode_journal_def)
  ultimately show ?thesis using run kept by blast
qed

lemma persist_mirrors:
  assumes "store_mirrors rt" and "entry_wf (rt_limits rt) (entry_of rt us vs as)"
  shows "\<exists>store base entries. persist us vs as rt = (ok_status, rt\<lparr>rt_store := Some store\<rparr>) \<and>
    rs_durability store = DU_Journal \<and> rs_limits store = rt_limits rt \<and> rs_io store = [] \<and>
    load_snapshot store io_ok = Inr base \<and> journal_holds store (entries @ [entry_of rt us vs as]) [] \<and>
    mirrors (foldl replay_entry base entries) rt"
proof -
  obtain store base entries where s: "rt_store rt = Some store" "cf_durability (rt_config rt) = DU_Journal"
    "rs_durability store = DU_Journal" "rs_limits store = rt_limits rt" "rs_io store = []"
    "load_snapshot store io_ok = Inr base" "journal_holds store entries []" "mirrors (foldl replay_entry base entries) rt"
    using assms(1) by (auto simp: store_mirrors_def)
  obtain store' where "AppendJournal store (entry_of rt us vs as) = (ok_status, store')" "rs_durability store' = DU_Journal"
    "rs_limits store' = rs_limits store" "rs_io store' = []" "load_snapshot store' io_ok = Inr base"
    "journal_holds store' (entries @ [entry_of rt us vs as]) []"
    using AppendJournal_kept [OF s(3,5) _ s(6,7)] assms(2) s(4) by auto
  then show ?thesis using s by (auto simp: persist_def Let_def entry_of_def)
qed

text \<open>The replay of an entry of one record and one attempt, and the tables after the commit.\<close>

lemma replay_one:
  assumes "mirrors state rt" and "\<And>q. om_find (rt_routes rt) (rr_id r) = Some q \<Longrightarrow> rr_generation q \<le> rr_generation r"
    and "rt_epoch rt' = rt_epoch rt" and "rt_policy_generation rt' = rt_policy_generation rt"
    and "rt_routes rt' = om_set (rr_id r) r (rt_routes rt)" and "rt_revocations rt' = rt_revocations rt"
    and "rt_attempts rt' = om_set (at_attempt a) a (rt_attempts rt)"
  shows "mirrors (replay_entry state (entry_of rt [r] [] [a])) rt'"
proof -
  have "keyed rr_id (upsert_route r (pst_routes state)) = (keyed rr_id (pst_routes state))(rr_id r \<mapsto> r)"
    using assms(1,2) by (intro keyed_upsert_route) (simp add: mirrors_def)
  then show ?thesis
    using assms by (auto simp: mirrors_def replay_entry_def entry_of_def Let_def keyed_upsert_attempt fun_eq_iff)
qed

lemma commit_tables:
  "rt_epoch (commit r rt) = rt_epoch rt" "rt_policy_generation (commit r rt) = rt_policy_generation rt"
  "rt_store (commit r rt) = rt_store rt"
  by (simp_all add: commit_def index_erase_def index_insert_def Let_def split: option.splits)

lemma persist_policy: "persist us vs as rt = (x, rt1) \<Longrightarrow> rt_policy_generation rt1 = rt_policy_generation rt"
  by (auto simp: persist_def Let_def split: option.splits if_splits prod.splits)

lemma mirror_committed:
  assumes "store_mirrors rt" and "entry_wf (rt_limits rt) (entry_of rt [r] [] [a])"
    and "\<And>q. om_find (rt_routes rt) (rr_id r) = Some q \<Longrightarrow> rr_generation q \<le> rr_generation r"
    and "persist [r] [] [a] rt = (x, rt1)"
    and "rt_config rt' = rt_config rt" "rt_store rt' = rt_store rt1" "rt_epoch rt' = rt_epoch rt"
      "rt_policy_generation rt' = rt_policy_generation rt" "rt_revocations rt' = rt_revocations rt"
    and "rt_routes rt' = om_set (rr_id r) r (rt_routes rt)" "rt_attempts rt' = om_set (at_attempt a) a (rt_attempts rt)"
  shows "store_mirrors rt'"
proof -
  obtain store base entries where s: "persist [r] [] [a] rt = (ok_status, rt\<lparr>rt_store := Some store\<rparr>)"
    "rs_durability store = DU_Journal" "rs_limits store = rt_limits rt" "rs_io store = []"
    "load_snapshot store io_ok = Inr base" "journal_holds store (entries @ [entry_of rt [r] [] [a]]) []"
    "mirrors (foldl replay_entry base entries) rt"
    using persist_mirrors [OF assms(1,2)] by blast
  have "mirrors (replay_entry (foldl replay_entry base entries) (entry_of rt [r] [] [a])) rt'"
    using replay_one [OF s(7) assms(3)] assms(7-11) by blast
  moreover have "rt_store rt' = Some store" using assms(4,6) s(1) by auto
  moreover have "cf_durability (rt_config rt) = DU_Journal" using assms(1) by (auto simp: store_mirrors_def)
  ultimately show ?thesis
    using s(2-6) assms(5) unfolding store_mirrors_def
    by (intro exI [of _ store] exI [of _ base] exI [of _ "entries @ [entry_of rt [r] [] [a]]"]) simp
qed

section \<open>Dispatches and completions\<close>

lemma dispatch_mirrors:
  assumes "store_mirrors rt" and "commit_dispatch r a rt = (Inr u, rt')" and "entry_wf (rt_limits rt) (entry_of rt [r] [] [a])"
    and "\<And>q. om_find (rt_routes rt) (rr_id r) = Some q \<Longrightarrow> rr_generation q \<le> rr_generation r"
  shows "store_mirrors rt'"
proof -
  obtain x rt1 where p: "persist [r] [] [a] rt = (x, rt1)" by fastforce
  note same = core_eqD [OF persist_core [OF p]]
  have rt': "rt' = bump ct_programming_dispatches_update (record_attempt a (commit r rt1))"
    using assms(2) p by (auto simp: commit_dispatch_def split: sum.splits if_splits)
  note policy = persist_policy [OF p]
  show ?thesis
  proof (rule mirror_committed [OF assms(1,3,4) p])
    show "rt_config rt' = rt_config rt" "rt_store rt' = rt_store rt1" "rt_epoch rt' = rt_epoch rt"
      "rt_policy_generation rt' = rt_policy_generation rt" "rt_revocations rt' = rt_revocations rt"
      "rt_routes rt' = om_set (rr_id r) r (rt_routes rt)" "rt_attempts rt' = om_set (at_attempt a) a (rt_attempts rt)"
      using same policy by (simp_all add: rt' bump_def record_attempt_def Let_def commit_tables)
  qed
qed

text \<open>The section that applies an outcome: what it persists is what it commits.\<close>

lemma resolve_attempt_kept:
  "rt_epoch (resolve_attempt a rt) = rt_epoch rt" "rt_policy_generation (resolve_attempt a rt) = rt_policy_generation rt"
  "rt_store (resolve_attempt a rt) = rt_store rt" "rt_config (resolve_attempt a rt) = rt_config rt"
  "rt_revocations (resolve_attempt a rt) = rt_revocations rt" "rt_routes (resolve_attempt a rt) = rt_routes rt"
  by (simp_all add: resolve_attempt_def Let_def split: option.splits)

lemma completion_persists:
  assumes "apply_completion_locked result rt = (CD_Applied, rt')"
  shows "\<exists>a r l rt1 x. om_find (rt_attempts rt) (ps_attempt result) = Some a \<and>
    om_find (rt_routes rt) (at_route a) = Some r \<and>
    persist [completed_record rt a result (outcome_event a result) l r] [] [a\<lparr>at_resolved := True\<rparr>] rt = (x, rt1) \<and>
    rt_store rt' = rt_store rt1 \<and> rt_config rt' = rt_config rt1 \<and> rt_epoch rt' = rt_epoch rt1 \<and>
    rt_policy_generation rt' = rt_policy_generation rt1 \<and> rt_revocations rt' = rt_revocations rt1 \<and>
    rt_routes rt' = om_set (rr_id r) (completed_record rt a result (outcome_event a result) l r) (rt_routes rt1) \<and>
    rt_attempts rt' = om_set (at_attempt a) (a\<lparr>at_resolved := True\<rparr>) (rt_attempts rt1)"
  using assms
  unfolding apply_completion_locked_def Let_def outcome_event_def [symmetric]
  by (auto simp: bump_def resolve_attempt_kept commit_tables split: option.splits sum.splits if_splits prod.splits) blast+

lemma completed_record_kept [simp]:
  "rr_id (completed_record rt a result e l r) = rr_id r" "rr_generation (completed_record rt a result e l r) = rr_generation r"
  by (simp_all add: completed_record_def push_history_def Let_def)

lemma completion_mirrors:
  assumes "store_mirrors rt" and "rt_inv rt" and "apply_completion_locked result rt = (CD_Applied, rt')"
    and "om_find (rt_attempts rt') (ps_attempt result) = Some a" and "om_find (rt_routes rt') (at_route a) = Some r"
    and "entry_wf (rt_limits rt) (entry_of rt [r] [] [a])"
  shows "store_mirrors rt'"
proof -
  obtain a0 r0 l rt1 x where found: "om_find (rt_attempts rt) (ps_attempt result) = Some a0"
      "om_find (rt_routes rt) (at_route a0) = Some r0"
    and p: "persist [completed_record rt a0 result (outcome_event a0 result) l r0] [] [a0\<lparr>at_resolved := True\<rparr>] rt = (x, rt1)"
    and rt': "rt_store rt' = rt_store rt1" "rt_config rt' = rt_config rt1" "rt_epoch rt' = rt_epoch rt1"
      "rt_policy_generation rt' = rt_policy_generation rt1" "rt_revocations rt' = rt_revocations rt1"
      "rt_routes rt' = om_set (rr_id r0) (completed_record rt a0 result (outcome_event a0 result) l r0) (rt_routes rt1)"
      "rt_attempts rt' = om_set (at_attempt a0) (a0\<lparr>at_resolved := True\<rparr>) (rt_attempts rt1)"
    using completion_persists [OF assms(3)] by blast
  have ids: "at_attempt a0 = ps_attempt result" "rr_id r0 = at_route a0"
    using assms(2) found by (auto simp: rt_inv_def attempts_inv_def index_inv_def table_wf_def)
  have written: "a = a0\<lparr>at_resolved := True\<rparr>" "r = completed_record rt a0 result (outcome_event a0 result) l r0"
    using assms(4,5) by (auto simp: rt' ids)
  note same = core_eqD [OF persist_core [OF p]]
  show ?thesis
  proof (rule mirror_committed [OF assms(1,6)])
    show "persist [r] [] [a] rt = (x, rt1)" using p by (simp add: written)
    show "rr_generation q \<le> rr_generation r" if "om_find (rt_routes rt) (rr_id r) = Some q" for q
      using that found(2) ids by (auto simp: written)
  qed (use same persist_policy [OF p] in \<open>simp_all add: rt' written\<close>)
qed

end
