(* ===== verification/RF_MirrorSamples.thy ===== *)
theory RF_MirrorSamples
  imports RF_Mirror RF_RemoteSamples
begin

text \<open>
  \<^bold>\<open>A runtime with a journal.\<close> The state of the sample publication, held by a runtime that
  journals: its store has no snapshot and one journal entry, the dispatch of the route.
\<close>

lemma sample_policy [simp]: "rt_policy_generation sample_publishing = 1" "rt_policy_generation sample_published = 1"
  by (simp_all add: sample_published_def sample_publishing_def sample_registered_def sample_opened_def make_runtime_def
      bump_def record_attempt_def Let_def commit_tables)

definition mirror_entry :: journal_entry where
  "mirror_entry = entry_of sample_publishing [sample_route] [] [sample_attempt]"

definition mirror_store :: route_store where
  "mirror_store =
     (route_store sample_limits DU_Journal)\<lparr>rs_journal := Some (EncodeJournalEntry mirror_entry sample_limits)\<rparr>"

definition mirror_published :: runtime where
  "mirror_published =
     sample_published\<lparr>rt_config := sample_config\<lparr>cf_durability := DU_Journal\<rparr>, rt_store := Some mirror_store\<rparr>"

definition mirror_installed :: runtime where
  "mirror_installed = snd (apply_completion_locked sample_result mirror_published)"

section \<open>The entries are well formed\<close>

text \<open>Records that differ from the published one in the lifecycle, the applied state and the history.\<close>

definition sample_like :: "route_lifecycle \<Rightarrow> applied_state \<Rightarrow> lineage_entry list \<Rightarrow> route_record" where
  "sample_like l a h = sample_route\<lparr>rr_lifecycle := l, rr_applied := a, rr_history := h\<rparr>"

definition sample_evidence :: "applied_state \<Rightarrow> lineage_entry list \<Rightarrow> bool" where
  "sample_evidence a h \<longleftrightarrow>
     ap_backend a = ''b'' \<and> ap_detail a = [] \<and> length h \<le> 2 \<and>
     list_all (\<lambda>e. le_generation e = 1 \<and> le_publisher e = ''p'' \<and> le_epoch e = 1) h"

lemma sample_wire_counters [simp]: "counter_wire_valid 1" "counter_wire_valid 2"
  by (simp_all add: counter_wire_valid_def kMaxValue_def)

lemma sample_like_wf:
  assumes "sample_evidence a h" and "validate_route_record (sample_like l a h) sample_limits = Inr ()"
  shows "route_record_wf sample_limits (sample_like l a h)"
proof -
  have "list_all history_entry_wf h"
    using assms(1) by (auto simp: sample_evidence_def history_entry_wf_def list_all_iff)
  then show ?thesis
    using assms sample_key_wf sample_binding_wf
    by (simp add: route_record_wf_def sample_like_def sample_evidence_def ok_status_def applied_wf_def observation_wf_def
        provenance_wf_def supersession_wf_def retirement_wf_def diagnostic_wf_def observation_default_def
        supersession_default_def retirement_default_def sample_limits_def)
qed

lemma length_history_entry: "le_publisher e = ''p'' \<Longrightarrow> length (w_history_entry e) \<le> 100"
  by (simp add: w_history_entry_def wire_lengths)

lemma length_w_history:
  "list_all (\<lambda>e. le_generation e = 1 \<and> le_publisher e = ''p'' \<and> le_epoch e = 1) h \<Longrightarrow>
   length (w_all w_history_entry h) \<le> 100 * length h"
  by (induction h) (use length_history_entry in \<open>fastforce simp: w_all_def\<close>)+

lemma length_sample_like:
  assumes "sample_evidence a h"
  shows "length (w_route_record (sample_like l a h)) \<le> 1000"
proof -
  have "length (w_all w_history_entry h) \<le> 200"
    using assms length_w_history [of h] by (simp add: sample_evidence_def)
  moreover have "length (w_applied a) \<le> 100" "length (w_observation (observation_default\<lparr>ob_backend := ''b''\<rparr>)) \<le> 100"
    using assms by (simp_all add: sample_evidence_def w_applied_def w_observation_def observation_default_def wire_lengths)
  ultimately show ?thesis
    by (simp add: w_route_record_def sample_like_def w_provenance_def w_supersession_def w_retirement_def
        supersession_default_def retirement_default_def sample_key_def sample_binding_def wire_lengths)
qed

lemma sample_like_entry_wf:
  assumes "sample_evidence a h" and "validate_route_record (sample_like l a h) sample_limits = Inr ()"
    and "rt_epoch rt = 1" and "rt_policy_generation rt = 1"
    and "t = sample_attempt \<or> t = sample_attempt\<lparr>at_resolved := True\<rparr>"
  shows "entry_wf sample_limits (entry_of rt [sample_like l a h] [] [t])"
proof -
  have "attempt_wf t" "length (w_attempt t) \<le> 100"
    using assms(5) sample_draw_some(2) by (auto simp: attempt_wf_def w_attempt_def wire_lengths w_boolean_def)
  then show ?thesis
    using sample_like_wf [OF assms(1,2)] length_sample_like [OF assms(1), of l] assms(3,4)
    by (simp add: entry_wf_def entry_of_def body_wf_def payload_fits_def entry_payload_def w_state_body_def w_all_def
        sample_limits_def)
qed

section \<open>The store mirrors the runtime\<close>

lemma sample_route_like: "sample_route = sample_like LC_Installing (rr_applied sample_route) (rr_history sample_route)"
  by (cases sample_route) (use sample_route_fields(7) in \<open>simp add: sample_like_def\<close>)

lemma sample_route_evidence: "sample_evidence (rr_applied sample_route) (rr_history sample_route)"
  by (simp add: sample_evidence_def sample_history applied_default_def)

lemma mirror_entry_wf: "entry_wf sample_limits mirror_entry"
  unfolding mirror_entry_def
  using sample_like_entry_wf [OF sample_route_evidence, of LC_Installing sample_publishing sample_attempt]
    validate_sample_route sample_route_like by simp

lemma mirror_published_mirrors: "store_mirrors mirror_published"
proof -
  have "load_snapshot mirror_store io_ok = Inr initial_state"
    by (simp add: mirror_store_def load_snapshot_def route_store_def)
  moreover have "journal_holds mirror_store [mirror_entry] []"
    using mirror_entry_wf by (simp add: mirror_store_def journal_holds_def route_store_def encode_journal_def)
  moreover have "mirrors (foldl replay_entry initial_state [mirror_entry]) mirror_published"
    by (simp add: mirrors_def mirror_published_def mirror_entry_def entry_of_def replay_entry_def initial_state_def
        keyed_def Let_def fun_eq_iff)
  ultimately show ?thesis
    unfolding store_mirrors_def
    by (intro exI [of _ mirror_store] exI [of _ initial_state] exI [of _ "[mirror_entry]"])
      (simp add: mirror_published_def mirror_store_def route_store_def sample_config_def)
qed

section \<open>The outcome arrives\<close>

lemma mirror_published_fields [simp]:
  "rt_config mirror_published = sample_config\<lparr>cf_durability := DU_Journal\<rparr>" "rt_backend mirror_published = Some ''b''"
  "rt_epoch mirror_published = 1" "rt_policy_generation mirror_published = 1"
  "rt_routes mirror_published = [(3, sample_route)]" "rt_attempts mirror_published = [(fst sample_draw, sample_attempt)]"
  "rt_revocations mirror_published = []"
  by (simp_all add: mirror_published_def)

lemma mirror_published_inv: "rt_inv mirror_published"
  using reachable_rt_inv [OF sample_published_reachable]
  by (simp add: mirror_published_def rt_inv_def index_inv_def records_inv_def attempts_inv_def unresolved_def indexes_def)

definition mirror_route :: route_record where
  "mirror_route =
     completed_record mirror_published sample_attempt sample_result EV_BackendApplied LC_Installed sample_route"

lemma mirror_route_like:
  "mirror_route = sample_like LC_Installed (rr_applied mirror_route) (rr_history mirror_route)"
  "sample_evidence (rr_applied mirror_route) (rr_history mirror_route)"
  by (simp_all add: mirror_route_def completed_record_def push_history_def Let_def sample_like_def sample_evidence_def
      sample_history sample_defs sample_result_def bounded_def)

lemma mirror_history:
  "rr_history mirror_route = rr_history sample_route @
     [(hd (rr_history sample_route))\<lparr>le_event := EV_BackendApplied, le_lifecycle := LC_Installed\<rparr>]"
  by (simp add: mirror_route_def completed_record_def push_history_def Let_def sample_history sample_defs)

lemma validate_mirror_route: "validate_route_record mirror_route sample_limits = Inr ()"
proof -
  have fields: "rr_lifecycle mirror_route = LC_Installed" "reports_applied (rr_applied mirror_route)"
    "ap_classification (rr_applied mirror_route) = AC_Applied"
    "ap_programming_generation (rr_applied mirror_route) = 2" "ap_programmed_generation (rr_applied mirror_route) = 1"
    "ap_programmed_authority_generation (rr_applied mirror_route) = 1"
    "ap_backend (rr_applied mirror_route) = ''b''" "ap_detail (rr_applied mirror_route) = []"
    by (simp_all add: mirror_route_def completed_record_def push_history_def Let_def sample_result_def bounded_def
        reports_applied_def)
  have same: "rr_id mirror_route = 3" "rr_key mirror_route = sample_key" "rr_generation mirror_route = 1"
    "rr_authority_generation mirror_route = 1" "rr_invalidation_watermark mirror_route = 1"
    "rr_programming_generation mirror_route = 2" "rr_binding mirror_route = sample_binding"
    "rr_provenance mirror_route = rr_provenance sample_route" "rr_observation mirror_route = rr_observation sample_route"
    "rr_supersession mirror_route = supersession_default" "rr_retirement mirror_route = retirement_default"
    by (subst mirror_route_like(1), simp add: sample_like_def)+
  have "validate_fields mirror_route sample_limits = Inr ()"
    using sample_key_valid sample_binding_valid
    by (simp add: validate_fields_def same fields mirror_history sample_history sample_limits_def counter_is_valid_def
        is_lifecycle_value_def kRouteLifecycleCount_def observation_default_def supersession_default_def
        retirement_default_def kMaxDiagnosticChars_def ok_status_def)
  moreover have "validate_history (rr_generation mirror_route) None (rr_history mirror_route) = Inr ()"
    by (simp add: same mirror_history sample_history counter_is_valid_def ok_status_def)
  moreover have "validate_lifecycle_evidence mirror_route = Inr ()"
    using fields by (simp add: validate_lifecycle_evidence_def same retirement_default_def ok_status_def)
  ultimately show ?thesis by (simp add: validate_route_record_def)
qed

lemma mirror_install_wf:
  "entry_wf sample_limits (entry_of mirror_published [mirror_route] [] [sample_attempt\<lparr>at_resolved := True\<rparr>])"
  using sample_like_entry_wf [OF mirror_route_like(2), of LC_Installed mirror_published] validate_mirror_route
    mirror_route_like(1) by simp

lemma complete_mirror:
  "apply_completion_locked sample_result mirror_published = (CD_Applied, mirror_installed)"
  "om_find (rt_attempts mirror_installed) (ps_attempt sample_result) = Some (sample_attempt\<lparr>at_resolved := True\<rparr>)"
  "om_find (rt_routes mirror_installed) 3 = Some mirror_route"
proof -
  obtain store where "persist [mirror_route] [] [sample_attempt\<lparr>at_resolved := True\<rparr>] mirror_published =
      (ok_status, mirror_published\<lparr>rt_store := Some store\<rparr>)"
    using persist_mirrors [OF mirror_published_mirrors, of "[mirror_route]" "[]" "[sample_attempt\<lparr>at_resolved := True\<rparr>]"]
      mirror_install_wf by (auto simp: sample_config_def)
  then have run: "apply_completion_locked sample_result mirror_published =
      (CD_Applied, bump ct_programming_applied_update
        (resolve_attempt (sample_attempt\<lparr>at_resolved := True\<rparr>)
          (commit mirror_route (mirror_published\<lparr>rt_store := Some store\<rparr>))))"
    by (simp add: apply_completion_locked_def sample_result_def Let_def completion_stale_def om_contains_def
        table_simps ok_status_def mirror_route_def)
  then show "apply_completion_locked sample_result mirror_published = (CD_Applied, mirror_installed)"
    by (simp add: mirror_installed_def)
  have "rr_id mirror_route = 3" by (subst mirror_route_like(1)) (simp add: sample_like_def)
  then show "om_find (rt_attempts mirror_installed) (ps_attempt sample_result) = Some (sample_attempt\<lparr>at_resolved := True\<rparr>)"
    "om_find (rt_routes mirror_installed) 3 = Some mirror_route"
    using run by (simp_all add: mirror_installed_def sample_result_def resolve_attempt_kept)
qed

end
