(* ===== verification/RF_Files.thy ===== *)
theory RF_Files
  imports RF_Durability
begin

text \<open>
  \<^bold>\<open>The store's files.\<close> The portable file helpers at the end of \<open>src/persistence.cpp\<close>, on a
  disk whose calls fail where a list of faults says so and whose trace holds every state of the
  files that a crash could leave. The store's operations are carried out on two files; they
  refine the operations of \<open>RF_Persistence\<close>, whose \<open>io_result\<close> is what the faults amount to.
\<close>

section \<open>The disk\<close>

type_synonym file_map = "string \<Rightarrow> bytes option"

text \<open>A call works, fails without effect, or writes only some of its bytes.\<close>

datatype fault = Works | Fails | Short nat

record disk =
  dk_files :: file_map
  dk_faults :: "fault list"
  dk_trace :: "file_map list"

definition next_fault :: "disk \<Rightarrow> fault \<times> disk" where
  "next_fault d = (case dk_faults d of [] \<Rightarrow> (Works, d) | f # rest \<Rightarrow> (f, d\<lparr>dk_faults := rest\<rparr>))"

definition put_files :: "file_map list \<Rightarrow> file_map \<Rightarrow> disk \<Rightarrow> disk" where
  "put_files through f d = d\<lparr>dk_files := f, dk_trace := dk_trace d @ through @ [f]\<rparr>"

definition call_ok :: "disk \<Rightarrow> bool \<times> disk" where
  "call_ok d = (case next_fault d of (f, d) \<Rightarrow> (f = Works, d))"

definition file_contents :: "file_map \<Rightarrow> string \<Rightarrow> bytes" where
  "file_contents f path = (case f path of None \<Rightarrow> [] | Some data \<Rightarrow> data)"

text \<open>Opening for writing empties the file, opening to append creates it.\<close>

definition open_truncated :: "string \<Rightarrow> disk \<Rightarrow> bool \<times> disk" where
  "open_truncated path d =
     (case call_ok d of
        (False, d) \<Rightarrow> (False, d)
      | (True, d) \<Rightarrow> (True, put_files [] ((dk_files d)(path \<mapsto> [])) d))"

definition open_append :: "string \<Rightarrow> disk \<Rightarrow> bool \<times> disk" where
  "open_append path d =
     (case call_ok d of
        (False, d) \<Rightarrow> (False, d)
      | (True, d) \<Rightarrow> (True, put_files [] ((dk_files d)(path \<mapsto> file_contents (dk_files d) path)) d))"

text \<open>A write extends the file byte by byte; a crash can fall between any two of them.\<close>

definition write_bytes :: "string \<Rightarrow> bytes \<Rightarrow> disk \<Rightarrow> bool \<times> disk" where
  "write_bytes path data d =
     (case next_fault d of
        (f, d) \<Rightarrow>
          let old = file_contents (dk_files d) path;
              upto = (\<lambda>n. (dk_files d)(path \<mapsto> old @ take n data));
              written = (case f of Works \<Rightarrow> length data | Fails \<Rightarrow> 0 | Short n \<Rightarrow> n)
          in (f = Works, put_files (map upto [0..<written]) (upto written) d))"

definition remove_file :: "string \<Rightarrow> disk \<Rightarrow> bool \<times> disk" where
  "remove_file path d =
     (case call_ok d of
        (False, d) \<Rightarrow> (False, d)
      | (True, d) \<Rightarrow> (True, put_files [] ((dk_files d)(path := None)) d))"

definition rename_file :: "string \<Rightarrow> string \<Rightarrow> disk \<Rightarrow> bool \<times> disk" where
  "rename_file source target d =
     (case call_ok d of
        (False, d) \<Rightarrow> (False, d)
      | (True, d) \<Rightarrow> (True, put_files [] ((dk_files d)(target := dk_files d source, source := None)) d))"

section \<open>The helpers\<close>

definition has_parent :: "bool \<Rightarrow> string \<Rightarrow> bool" where
  "has_parent windows path \<longleftrightarrow> CHR ''/'' \<in> set path \<or> windows \<and> CHR 0x5C \<in> set path"

definition make_parent :: "bool \<Rightarrow> string \<Rightarrow> disk \<Rightarrow> bool \<times> disk" where
  "make_parent windows path d = (if has_parent windows path then call_ok d else (True, d))"

text \<open>The loop around \<open>WriteFile\<close>, in pieces of at most one mebibyte.\<close>

function write_pieces :: "string \<Rightarrow> bytes \<Rightarrow> disk \<Rightarrow> bool \<times> disk" where
  "write_pieces path data d =
     (if data = [] then (True, d)
      else case write_bytes path (take (2 ^ 20) data) d of
             (False, d) \<Rightarrow> (False, d)
           | (True, d) \<Rightarrow> write_pieces path (drop (2 ^ 20) data) d)"
  by pat_completeness auto
termination
  by (relation "measure (\<lambda>(path, data, d). length data)") auto

declare write_pieces.simps [simp del]

definition write_and_flush :: "bool \<Rightarrow> string \<Rightarrow> bytes \<Rightarrow> disk \<Rightarrow> bool \<times> disk" where
  "write_and_flush windows path data d =
     (case (if windows then write_pieces path data d else write_bytes path data d) of
        (False, d) \<Rightarrow> (False, d)
      | (True, d) \<Rightarrow> call_ok d)"

text \<open>On Windows a failed attempt deletes its temporary file; elsewhere it is left.\<close>

definition drop_temporary :: "bool \<Rightarrow> string \<Rightarrow> disk \<Rightarrow> disk" where
  "drop_temporary windows temporary d = (if windows then snd (remove_file temporary d) else d)"

definition write_file_atomic :: "bool \<Rightarrow> string \<Rightarrow> bytes \<Rightarrow> disk \<Rightarrow> bool \<times> disk" where
  "write_file_atomic windows path data d =
     (let temporary = path @ ''.tmp''
      in case make_parent windows path d of
           (False, d) \<Rightarrow> (False, d)
         | (True, d) \<Rightarrow>
             (case open_truncated temporary d of
                (False, d) \<Rightarrow> (False, d)
              | (True, d) \<Rightarrow>
                  (case write_and_flush windows temporary data d of
                     (False, d) \<Rightarrow>
                       (False, drop_temporary windows temporary d)
                   | (True, d) \<Rightarrow>
                       (case rename_file temporary path d of
                          (False, d) \<Rightarrow>
                            (False, drop_temporary windows temporary d)
                        | (True, d) \<Rightarrow> (True, d)))))"

definition append_file_flushed :: "bool \<Rightarrow> string \<Rightarrow> bytes \<Rightarrow> disk \<Rightarrow> bool \<times> disk" where
  "append_file_flushed windows path data d =
     (case make_parent windows path d of
        (False, d) \<Rightarrow> (False, d)
      | (True, d) \<Rightarrow>
          (case open_append path d of
             (False, d) \<Rightarrow> (False, d)
           | (True, d) \<Rightarrow>
               (case write_and_flush windows path data d of
                  (False, d) \<Rightarrow> (False, d)
                | (True, d) \<Rightarrow> (True, d))))"

definition read_file_bytes :: "string \<Rightarrow> disk \<Rightarrow> bytes option \<times> disk" where
  "read_file_bytes path d =
     (case dk_files d path of
        None \<Rightarrow> (None, d)
      | Some data \<Rightarrow>
          (case call_ok d of
             (False, d) \<Rightarrow> (None, d)
           | (True, d) \<Rightarrow>
               (case call_ok d of
                  (False, d) \<Rightarrow> (None, d)
                | (True, d) \<Rightarrow>
                    if data = [] then (Some [], d)
                    else (case call_ok d of
                            (False, d) \<Rightarrow> (None, d)
                          | (True, d) \<Rightarrow> (Some data, d)))))"

definition truncate_file :: "bool \<Rightarrow> string \<Rightarrow> nat \<Rightarrow> disk \<Rightarrow> bool \<times> disk" where
  "truncate_file windows path len d =
     (case (if windows then call_ok d else (True, d)) of
        (False, d) \<Rightarrow> (False, d)
      | (True, d) \<Rightarrow>
          (case (if windows then call_ok d else (True, d)) of
             (False, d) \<Rightarrow> (False, d)
           | (True, d) \<Rightarrow>
               (case call_ok d of
                  (False, d) \<Rightarrow> (False, d)
                | (True, d) \<Rightarrow>
                    (True, put_files [] ((dk_files d)(path \<mapsto> take len (file_contents (dk_files d) path))) d))))"

section \<open>The store on its files\<close>

definition snapshot_path :: "string \<Rightarrow> string" where
  "snapshot_path base = base @ ''.snapshot''"

definition journal_path :: "string \<Rightarrow> string" where
  "journal_path base = base @ ''.journal''"

text \<open>The store of \<open>RF_Persistence\<close> that the files hold.\<close>

definition store_of :: "string \<Rightarrow> file_map \<Rightarrow> route_store \<Rightarrow> route_store" where
  "store_of base f store = store\<lparr>rs_snapshot := f (snapshot_path base), rs_journal := f (journal_path base)\<rparr>"

definition file_SaveSnapshot ::
  "bool \<Rightarrow> string \<Rightarrow> persisted_state \<Rightarrow> route_store \<Rightarrow> disk \<Rightarrow> status \<times> route_store \<times> disk" where
  "file_SaveSnapshot windows base state store d =
     (if rs_durability store = DU_None then (Inl SC_Unsupported, store, d)
      else
        let img = EncodeSnapshot state (rs_limits store)
        in if img = [] then (Inl SC_LimitExceeded, store, d)
           else case write_file_atomic windows (snapshot_path base) img d of
                  (False, d) \<Rightarrow> (Inl SC_PersistenceFailure, store, d)
                | (True, d) \<Rightarrow>
                    (ok_status, store\<lparr>rs_journal_entries := 0, rs_journal_bytes := 0\<rparr>,
                     snd (remove_file (journal_path base) d)))"

definition file_AppendJournal ::
  "bool \<Rightarrow> string \<Rightarrow> journal_entry \<Rightarrow> route_store \<Rightarrow> disk \<Rightarrow> status \<times> route_store \<times> disk" where
  "file_AppendJournal windows base entry store d =
     (if rs_durability store = DU_None then (Inl SC_Unsupported, store, d)
      else
        let img = EncodeJournalEntry entry (rs_limits store)
        in if img = [] then (Inl SC_LimitExceeded, store, d)
           else case append_file_flushed windows (journal_path base) img d of
                  (False, d) \<Rightarrow> (Inl SC_PersistenceFailure, store, d)
                | (True, d) \<Rightarrow>
                    (ok_status,
                     store\<lparr>rs_journal_entries := rs_journal_entries store + 1,
                           rs_journal_bytes := rs_journal_bytes store + length img\<rparr>, d))"

text \<open>The snapshot that \<open>Load\<close> starts from, and the whole of \<open>Load\<close>.\<close>

definition file_load_snapshot :: "string \<Rightarrow> limits \<Rightarrow> disk \<Rightarrow> persisted_state expected \<times> disk" where
  "file_load_snapshot base limits d =
     (case dk_files d (snapshot_path base) of
        None \<Rightarrow> (Inr initial_state, d)
      | Some _ \<Rightarrow>
          (case read_file_bytes (snapshot_path base) d of
             (None, d) \<Rightarrow> (Inl SC_PersistenceFailure, d)
           | (Some img, d) \<Rightarrow>
               (case DecodeSnapshot img limits of
                  None \<Rightarrow> (Inl SC_PersistenceFailure, d)
                | Some state \<Rightarrow> (Inr state, d))))"

definition file_Load ::
  "bool \<Rightarrow> string \<Rightarrow> route_store \<Rightarrow> disk \<Rightarrow> persisted_state expected \<times> route_store \<times> disk" where
  "file_Load windows base store d =
     (case file_load_snapshot base (rs_limits store) d of
        (Inl e, d) \<Rightarrow> (Inl e, store, d)
      | (Inr state, d) \<Rightarrow>
          let store = store\<lparr>rs_journal_entries := 0, rs_journal_bytes := 0\<rparr>
          in case dk_files d (journal_path base) of
               None \<Rightarrow> (Inr state, store, d)
             | Some _ \<Rightarrow>
                 (case read_file_bytes (journal_path base) d of
                    (None, d) \<Rightarrow> (Inl SC_PersistenceFailure, store, d)
                  | (Some journal, d) \<Rightarrow>
                      let (state, entries, valid_bytes) = replay_journal (rs_limits store) journal state 0 0;
                          store = store\<lparr>rs_journal_entries := entries, rs_journal_bytes := valid_bytes\<rparr>
                      in if valid_bytes \<noteq> length journal then
                           (case truncate_file windows (journal_path base) valid_bytes d of
                              (False, d) \<Rightarrow> (Inl SC_PersistenceFailure, store, d)
                            | (True, d) \<Rightarrow> (Inr state, store, d))
                         else (Inr state, store, d)))"

section \<open>What the calls do\<close>

lemma next_fault_kept: "next_fault d = (f, d') \<Longrightarrow> dk_files d' = dk_files d \<and> dk_trace d' = dk_trace d"
  by (auto simp: next_fault_def split: list.splits)

lemma call_ok_kept: "call_ok d = (ok, d') \<Longrightarrow> dk_files d' = dk_files d \<and> dk_trace d' = dk_trace d"
  by (auto simp: call_ok_def split: prod.splits dest: next_fault_kept)

text \<open>Every state of the files on the way from one disk to another, the last one included.\<close>

definition through :: "(file_map \<Rightarrow> bool) \<Rightarrow> disk \<Rightarrow> disk \<Rightarrow> bool" where
  "through P d d' \<longleftrightarrow> (\<exists>ts. dk_trace d' = dk_trace d @ ts \<and> (\<forall>f \<in> set ts. P f)) \<and> (P (dk_files d) \<longrightarrow> P (dk_files d'))"

lemma through_refl: "dk_files d' = dk_files d \<Longrightarrow> dk_trace d' = dk_trace d \<Longrightarrow> through P d d'"
  by (simp add: through_def)

lemma through_trans: "through P d d1 \<Longrightarrow> through P d1 d2 \<Longrightarrow> through P d d2"
  by (auto simp: through_def)

lemma through_put: "P f \<Longrightarrow> \<forall>g \<in> set gs. P g \<Longrightarrow> through P d (put_files gs f d)"
  by (auto simp: through_def put_files_def)

lemma through_call: "call_ok d = (ok, d') \<Longrightarrow> through P d d'"
  by (rule through_refl) (auto dest: call_ok_kept)

lemma contents_upd [simp]:
  "file_contents (f(path \<mapsto> data)) path = data" "q \<noteq> path \<Longrightarrow> file_contents (f(path := x)) q = file_contents f q"
  by (simp_all add: file_contents_def)

text \<open>A file that grows by a prefix of the data.\<close>

definition grows :: "string \<Rightarrow> bytes \<Rightarrow> file_map \<Rightarrow> file_map \<Rightarrow> bool" where
  "grows path data f0 f \<longleftrightarrow> (\<exists>n. f = f0(path \<mapsto> file_contents f0 path @ take n data))"

lemma grows_refl: "f path \<noteq> None \<Longrightarrow> grows path data f f"
  by (auto simp: grows_def file_contents_def fun_eq_iff intro!: exI [of _ 0])

lemma write_bytes_grows:
  assumes "write_bytes path data d = (ok, d')"
  shows "through (grows path data (dk_files d)) d d'" and "grows path data (dk_files d) (dk_files d')"
    and "ok \<Longrightarrow> dk_files d' = (dk_files d)(path \<mapsto> file_contents (dk_files d) path @ data)"
proof -
  obtain f d1 where next_fault: "next_fault d = (f, d1)" by fastforce
  note same = next_fault_kept [OF next_fault]
  define upto where "upto n = (dk_files d)(path \<mapsto> file_contents (dk_files d) path @ take n data)" for n
  define w where "w = (case f of Works \<Rightarrow> length data | Fails \<Rightarrow> 0 | Short n \<Rightarrow> n)"
  have d': "d' = put_files (map upto [0..<w]) (upto w) d1" and ok: "ok = (f = Works)"
    using assms next_fault same by (auto simp: write_bytes_def Let_def upto_def [abs_def] w_def)
  have grown: "grows path data (dk_files d) (upto n)" for n by (auto simp: grows_def upto_def)
  show "grows path data (dk_files d) (dk_files d')" using grown by (simp add: d' put_files_def)
  have "through (grows path data (dk_files d)) d1 d'" unfolding d' by (rule through_put) (use grown in auto)
  then show "through (grows path data (dk_files d)) d d'"
    by (rule through_trans [OF through_refl, rotated 2]) (use same in simp_all)
  show "dk_files d' = (dk_files d)(path \<mapsto> file_contents (dk_files d) path @ data)" if ok
    using that by (simp add: d' put_files_def upto_def w_def \<open>ok = (f = Works)\<close>)
qed

lemma grows_step: "grows path (take n data) f0 f \<Longrightarrow> grows path data f0 f"
  by (auto simp: grows_def min_def intro: exI [of _ n])

lemma grows_append:
  assumes "grows path rest (f0(path \<mapsto> file_contents f0 path @ first)) f"
  shows "grows path (first @ rest) f0 f"
proof -
  obtain n where "f = f0(path \<mapsto> (file_contents f0 path @ first) @ take n rest)"
    using assms by (auto simp: grows_def file_contents_def)
  then show ?thesis by (auto simp: grows_def intro: exI [of _ "length first + n"])
qed

lemma through_mono: "through P d d' \<Longrightarrow> (\<And>f. P f \<Longrightarrow> Q f) \<Longrightarrow> Q (dk_files d') \<Longrightarrow> through Q d d'"
  by (auto simp: through_def)

lemma write_pieces_grows:
  "write_pieces path data d = (ok, d') \<Longrightarrow> dk_files d path \<noteq> None \<Longrightarrow>
   through (grows path data (dk_files d)) d d' \<and> grows path data (dk_files d) (dk_files d') \<and>
   (ok \<longrightarrow> dk_files d' = (dk_files d)(path \<mapsto> file_contents (dk_files d) path @ data))"
proof (induction path data d arbitrary: ok d' rule: write_pieces.induct)
  case (1 path data d)
  let ?first = "take (2 ^ 20) data" and ?rest = "drop (2 ^ 20) data"
  show ?case
  proof (cases "data = []")
    case True
    with 1 show ?thesis
      by (auto simp: write_pieces.simps [of path "[]"] file_contents_def fun_eq_iff intro: through_refl grows_refl)
  next
    case False
    obtain ok1 d1 where first: "write_bytes path ?first d = (ok1, d1)" by fastforce
    note one = write_bytes_grows [OF first]
    have through1: "through (grows path data (dk_files d)) d d1"
      by (rule through_mono [OF one(1)]) (use one(2) grows_step in blast)+
    show ?thesis
    proof (cases ok1)
      case False
      with 1(2) \<open>data \<noteq> []\<close> first have "ok = False" "d' = d1" by (simp_all add: write_pieces.simps [of path data])
      with through1 one(2) grows_step show ?thesis by blast
    next
      case True
      with 1(2) \<open>data \<noteq> []\<close> first have rest: "write_pieces path ?rest d1 = (ok, d')" by (simp add: write_pieces.simps [of path data])
      have d1: "dk_files d1 = (dk_files d)(path \<mapsto> file_contents (dk_files d) path @ ?first)" using one(3) True by simp
      then have some: "dk_files d1 path \<noteq> None" by simp
      have both: "grows path ?rest (dk_files d1) f \<Longrightarrow> grows path data (dk_files d) f" for f
        using grows_append [of path ?rest "dk_files d" ?first f] by (simp add: d1)
      have ih: "through (grows path ?rest (dk_files d1)) d1 d'" "grows path ?rest (dk_files d1) (dk_files d')"
        "ok \<longrightarrow> dk_files d' = (dk_files d1)(path \<mapsto> file_contents (dk_files d1) path @ ?rest)"
        using "1.IH" [OF \<open>data \<noteq> []\<close> first [symmetric] _ rest] True some by blast+
      have "through (grows path data (dk_files d)) d1 d'"
        by (rule through_mono [OF ih(1)]) (use both ih(2) in blast)+
      moreover have "ok \<longrightarrow> dk_files d' = (dk_files d)(path \<mapsto> file_contents (dk_files d) path @ data)"
        using ih(3) by (simp only: d1 contents_upd fun_upd_upd append_assoc append_take_drop_id)
      ultimately show ?thesis using through_trans [OF through1] both ih(2) by blast
    qed
  qed
qed

lemma write_and_flush_grows:
  assumes "write_and_flush windows path data d = (ok, d')" and "dk_files d path \<noteq> None"
  shows "through (grows path data (dk_files d)) d d'" and "grows path data (dk_files d) (dk_files d')"
    and "ok \<Longrightarrow> dk_files d' = (dk_files d)(path \<mapsto> file_contents (dk_files d) path @ data)"
proof -
  obtain ok1 d1 where w: "(if windows then write_pieces path data d else write_bytes path data d) = (ok1, d1)" by fastforce
  have one: "through (grows path data (dk_files d)) d d1" "grows path data (dk_files d) (dk_files d1)"
    "ok1 \<longrightarrow> dk_files d1 = (dk_files d)(path \<mapsto> file_contents (dk_files d) path @ data)"
    using w write_pieces_grows [of path data d ok1 d1] write_bytes_grows [of path data d ok1 d1] assms(2)
    by (auto split: if_splits)
  have "dk_files d' = dk_files d1 \<and> dk_trace d' = dk_trace d1 \<and> (ok \<longrightarrow> ok1)"
    using assms(1) w call_ok_kept by (cases ok1) (auto simp: write_and_flush_def)
  with one show "through (grows path data (dk_files d)) d d'" "grows path data (dk_files d) (dk_files d')"
    "ok \<Longrightarrow> dk_files d' = (dk_files d)(path \<mapsto> file_contents (dk_files d) path @ data)"
    by (auto simp: through_def)
qed

section \<open>Replacing a file is atomic\<close>

text \<open>The target is as it was or has all of the new data, and no other file but the temporary one changes.\<close>

definition replaces :: "string \<Rightarrow> bytes \<Rightarrow> file_map \<Rightarrow> file_map \<Rightarrow> bool" where
  "replaces path data f0 f \<longleftrightarrow>
     (f path = f0 path \<or> f path = Some data) \<and> (\<forall>q. q \<noteq> path \<longrightarrow> q \<noteq> path @ ''.tmp'' \<longrightarrow> f q = f0 q)"

definition untouched :: "string \<Rightarrow> file_map \<Rightarrow> file_map \<Rightarrow> bool" where
  "untouched path f0 f \<longleftrightarrow> (\<forall>q. q \<noteq> path @ ''.tmp'' \<longrightarrow> f q = f0 q)"

lemma untouched_replaces: "untouched path f0 f \<Longrightarrow> replaces path data f0 f"
  by (simp add: untouched_def replaces_def)

lemma untouched_grows: "grows (path @ ''.tmp'') data f1 f \<Longrightarrow> untouched path f0 f1 \<Longrightarrow> untouched path f0 f"
  by (auto simp: grows_def untouched_def)

lemma through_same:
  assumes "through P d1 d2" and "dk_files d1 = dk_files d" "dk_trace d1 = dk_trace d"
  shows "through P d d2"
  using assms by (simp add: through_def)

lemma drop_temporary_through:
  assumes "untouched path f0 (dk_files d)"
  shows "through (untouched path f0) d (drop_temporary windows (path @ ''.tmp'') d) \<and>
    untouched path f0 (dk_files (drop_temporary windows (path @ ''.tmp'') d))"
  using assms
  by (auto simp: drop_temporary_def remove_file_def through_def put_files_def untouched_def
      split: prod.splits bool.splits dest!: call_ok_kept)

definition replaced :: "string \<Rightarrow> bytes \<Rightarrow> bool \<Rightarrow> disk \<Rightarrow> disk \<Rightarrow> bool" where
  "replaced path data ok d d' \<longleftrightarrow>
     through (replaces path data (dk_files d)) d d' \<and>
     (if ok then dk_files d' path = Some data else dk_files d' path = dk_files d path) \<and>
     (\<forall>q. q \<noteq> path \<longrightarrow> q \<noteq> path @ ''.tmp'' \<longrightarrow> dk_files d' q = dk_files d q)"

text \<open>Up to the renaming only the temporary file changes.\<close>

definition prepared :: "string \<Rightarrow> disk \<Rightarrow> disk \<Rightarrow> bool" where
  "prepared path d d' \<longleftrightarrow> through (untouched path (dk_files d)) d d' \<and> untouched path (dk_files d) (dk_files d')"

lemma prepared_replaced: "prepared path d d' \<Longrightarrow> replaced path data False d d'"
  by (auto simp: prepared_def replaced_def untouched_def replaces_def through_def)

lemma prepared_drop: "prepared path d d' \<Longrightarrow> prepared path d (drop_temporary windows (path @ ''.tmp'') d')"
  using drop_temporary_through [of path "dk_files d" d' windows] by (auto simp: prepared_def intro: through_trans)

lemma make_parent_prepared: "make_parent windows path d = (ok, d') \<Longrightarrow> prepared path d d' \<and> dk_files d' = dk_files d \<and> dk_trace d' = dk_trace d"
  using call_ok_kept [of d] by (auto simp: make_parent_def prepared_def untouched_def intro: through_refl split: if_splits)

lemma open_prepared:
  assumes "open_truncated (path @ ''.tmp'') d1 = (ok, d2)" and "prepared path d d1"
  shows "prepared path d d2" and "ok \<Longrightarrow> dk_files d2 (path @ ''.tmp'') = Some []"
  using assms
  by (auto simp: open_truncated_def prepared_def through_def put_files_def untouched_def
      split: prod.splits bool.splits dest!: call_ok_kept)

lemma write_prepared:
  assumes "write_and_flush windows (path @ ''.tmp'') data d2 = (ok, d3)" and "prepared path d d2"
    and "dk_files d2 (path @ ''.tmp'') = Some []"
  shows "prepared path d d3" and "ok \<Longrightarrow> dk_files d3 (path @ ''.tmp'') = Some data"
proof -
  note g = write_and_flush_grows [OF assms(1)]
  have some: "dk_files d2 (path @ ''.tmp'') \<noteq> None" using assms(3) by simp
  have unt: "untouched path (dk_files d) (dk_files d3)"
    using g(2) [OF some] assms(2) untouched_grows by (auto simp: prepared_def)
  have "through (untouched path (dk_files d)) d2 d3"
    by (rule through_mono [OF g(1) [OF some]]) (use assms(2) unt untouched_grows in \<open>auto simp: prepared_def\<close>)
  with assms(2) unt show "prepared path d d3" by (auto simp: prepared_def intro: through_trans)
  show "dk_files d3 (path @ ''.tmp'') = Some data" if ok using g(3) [OF some] that assms(3) by (simp add: file_contents_def)
qed

lemma rename_replaced:
  assumes "rename_file (path @ ''.tmp'') path d3 = (ok, d4)" and "prepared path d d3" and "dk_files d3 (path @ ''.tmp'') = Some data"
  shows "ok \<Longrightarrow> replaced path data True d d4" and "\<not> ok \<Longrightarrow> prepared path d d4"
  using assms
  by (auto simp: rename_file_def put_files_def prepared_def replaced_def replaces_def untouched_def through_def
      split: prod.splits bool.splits dest!: call_ok_kept)

lemma write_file_atomic_replaced:
  assumes "write_file_atomic windows path data d = (ok, d')"
  shows "replaced path data ok d d'"
proof -
  obtain ok1 d1 where s1: "make_parent windows path d = (ok1, d1)" by fastforce
  obtain ok2 d2 where s2: "open_truncated (path @ ''.tmp'') d1 = (ok2, d2)" by fastforce
  obtain ok3 d3 where s3: "write_and_flush windows (path @ ''.tmp'') data d2 = (ok3, d3)" by fastforce
  obtain ok4 d4 where s4: "rename_file (path @ ''.tmp'') path d3 = (ok4, d4)" by fastforce
  have p1: "prepared path d d1" using make_parent_prepared [OF s1] by blast
  note p2 = open_prepared [OF s2 p1]
  have p3: "prepared path d d3" "ok3 \<Longrightarrow> dk_files d3 (path @ ''.tmp'') = Some data" if ok2
    using write_prepared [OF s3 p2(1)] p2(2) that by blast+
  have p4: "ok4 \<Longrightarrow> replaced path data True d d4" "\<not> ok4 \<Longrightarrow> prepared path d d4" if ok2 ok3
    using rename_replaced [OF s4] p3 that by blast+
  show ?thesis
    using assms s1 s2 s3 s4 p1 p2(1) p3(1) p4 prepared_replaced prepared_drop
    by (cases ok1; cases ok2; cases ok3; cases ok4) (auto simp: write_file_atomic_def Let_def)
qed

section \<open>The store's operations on files refine the store's operations\<close>

lemma paths_differ [simp]:
  "snapshot_path base \<noteq> journal_path base" "journal_path base \<noteq> snapshot_path base"
  "journal_path base \<noteq> snapshot_path base @ ''.tmp''"
  by (auto simp: snapshot_path_def journal_path_def)

lemma file_SaveSnapshot_refines:
  assumes "file_SaveSnapshot windows base state store d = (st, store', d')"
  shows "\<exists>ios. SaveSnapshot (store_of base (dk_files d) store\<lparr>rs_io := ios\<rparr>) state =
    (st, store_of base (dk_files d') store'\<lparr>rs_io := []\<rparr>)"
proof (cases "rs_durability store = DU_None \<or> EncodeSnapshot state (rs_limits store) = []")
  case True
  then show ?thesis
    using assms by (intro exI [of _ "[]"]) (auto simp: file_SaveSnapshot_def SaveSnapshot_def store_of_def Let_def)
next
  case False
  let ?img = "EncodeSnapshot state (rs_limits store)"
  obtain ok d1 where w: "write_file_atomic windows (snapshot_path base) ?img d = (ok, d1)" by fastforce
  have r: "if ok then dk_files d1 (snapshot_path base) = Some ?img else dk_files d1 (snapshot_path base) = dk_files d (snapshot_path base)"
    "dk_files d1 (journal_path base) = dk_files d (journal_path base)"
    using write_file_atomic_replaced [OF w] by (simp_all add: replaced_def)
  obtain removed d2 where rm: "remove_file (journal_path base) d1 = (removed, d2)" by fastforce
  have j: "dk_files d2 (journal_path base) = (if removed then None else dk_files d1 (journal_path base))"
    "dk_files d2 (snapshot_path base) = dk_files d1 (snapshot_path base)"
    using rm by (auto simp: remove_file_def put_files_def split: prod.splits bool.splits dest!: call_ok_kept)
  show ?thesis
    using assms False w r rm j
    by (intro exI [of _ "[io_ok\<lparr>io_write_snapshot := ok, io_remove := removed\<rparr>]"])
      (cases ok; auto simp: file_SaveSnapshot_def SaveSnapshot_def store_of_def Let_def next_io_def)
qed

lemma append_grows:
  assumes "append_file_flushed windows path data d = (ok, d')"
  shows "through (\<lambda>f. \<exists>n. file_contents f path = file_contents (dk_files d) path @ take n data \<and> (\<forall>q. q \<noteq> path \<longrightarrow> f q = dk_files d q)) d d'"
    (is "through ?P d d'")
    and "\<exists>n. file_contents (dk_files d') path = file_contents (dk_files d) path @ take n data"
    and "ok \<Longrightarrow> file_contents (dk_files d') path = file_contents (dk_files d) path @ data"
    and "q \<noteq> path \<Longrightarrow> dk_files d' q = dk_files d q"
proof -
  obtain ok1 d1 where s1: "make_parent windows path d = (ok1, d1)" by fastforce
  note same = make_parent_prepared [OF s1]
  obtain ok2 d2 where s2: "open_append path d1 = (ok2, d2)" by fastforce
  obtain ok3 d3 where s3: "write_and_flush windows path data d2 = (ok3, d3)" by fastforce
  have P0: "?P (dk_files d)" by (auto intro: exI [of _ 0])
  have o: "if ok2 then dk_files d2 = (dk_files d)(path \<mapsto> file_contents (dk_files d) path) \<and> through ?P d d2
      else dk_files d2 = dk_files d \<and> dk_trace d2 = dk_trace d"
    using s2 same by (auto simp: open_append_def put_files_def through_def split: prod.splits bool.splits
        dest!: call_ok_kept intro: exI [of _ 0])
  have w: "through ?P d d3 \<and> (\<exists>n. dk_files d3 = (dk_files d)(path \<mapsto> file_contents (dk_files d) path @ take n data)) \<and>
      (ok3 \<longrightarrow> dk_files d3 = (dk_files d)(path \<mapsto> file_contents (dk_files d) path @ data))" if ok2
  proof -
    have d2: "dk_files d2 = (dk_files d)(path \<mapsto> file_contents (dk_files d) path)" and t: "through ?P d d2" using o that by simp_all
    note g = write_and_flush_grows [OF s3]
    have some: "dk_files d2 path \<noteq> None" by (simp add: d2)
    have P: "grows path data (dk_files d2) f \<Longrightarrow> ?P f" for f by (auto simp: grows_def d2)
    have "through ?P d2 d3" by (rule through_mono [OF g(1) [OF some] P]) (use P g(2) [OF some] in blast)+
    then show ?thesis using through_trans [OF t] g(2,3) [OF some] by (auto simp: d2 grows_def)
  qed
  have final: "ok1 \<and> ok2 \<and> d' = d3 \<and> ok = ok3 \<or> \<not> ok \<and> dk_files d' = dk_files d \<and> dk_trace d' = dk_trace d"
    using assms s1 s2 s3 same o by (cases ok1; cases ok2; cases ok3) (auto simp: append_file_flushed_def)
  then show "through ?P d d'" "ok \<Longrightarrow> file_contents (dk_files d') path = file_contents (dk_files d) path @ data"
    "q \<noteq> path \<Longrightarrow> dk_files d' q = dk_files d q"
    using w by (auto intro: through_refl)
  show "\<exists>n. file_contents (dk_files d') path = file_contents (dk_files d) path @ take n data"
    using final w by (metis append_Nil2 contents_upd(1) take_0)
qed

text \<open>A journal file that is missing is an empty journal.\<close>

lemma file_AppendJournal_refines:
  assumes "file_AppendJournal windows base entry store d = (st, store', d')"
  shows "\<exists>ios s. AppendJournal (store_of base (dk_files d) store\<lparr>rs_io := ios\<rparr>) entry = (st, s) \<and>
    s\<lparr>rs_journal := None\<rparr> = store_of base (dk_files d') store'\<lparr>rs_io := [], rs_journal := None\<rparr> \<and>
    journal_contents s = file_contents (dk_files d') (journal_path base)"
proof (cases "rs_durability store = DU_None \<or> EncodeJournalEntry entry (rs_limits store) = []")
  case True
  then show ?thesis
    using assms by (intro exI [of _ "[]"])
      (auto simp: file_AppendJournal_def AppendJournal_def store_of_def Let_def journal_contents_def file_contents_def)
next
  case False
  let ?img = "EncodeJournalEntry entry (rs_limits store)"
  obtain ok d1 where w: "append_file_flushed windows (journal_path base) ?img d = (ok, d1)" by fastforce
  note g = append_grows [OF w]
  obtain n where n: "file_contents (dk_files d1) (journal_path base) = file_contents (dk_files d) (journal_path base) @ take n ?img"
    using g(2) by blast
  have snap: "dk_files d1 (snapshot_path base) = dk_files d (snapshot_path base)" using g(4) by simp
  show ?thesis
    using assms False w n g(3) snap
    by (intro exI [of _ "[io_ok\<lparr>io_append := (if ok then None else Some n)\<rparr>]"])
      (cases ok; auto simp: file_AppendJournal_def AppendJournal_def store_of_def Let_def next_io_def journal_contents_def
        file_contents_def split: option.splits)
qed

lemma read_file_result:
  assumes "read_file_bytes path d = (x, d')" and "dk_files d path = Some data"
  shows "dk_files d' = dk_files d \<and> (x = None \<or> x = Some data)"
  using assms by (auto simp: read_file_bytes_def split: prod.splits bool.splits if_splits dest!: call_ok_kept)

lemma truncate_file_result:
  assumes "truncate_file windows path len d = (ok, d')"
  shows "dk_files d' = (if ok then (dk_files d)(path \<mapsto> take len (file_contents (dk_files d) path)) else dk_files d)"
  using assms
  by (cases windows) (auto simp: truncate_file_def put_files_def split: prod.splits bool.splits dest!: call_ok_kept)

lemma file_load_snapshot_result:
  assumes "file_load_snapshot base (rs_limits store) d = (y, d')"
  obtains r where "dk_files d' = dk_files d" and
    "\<And>io. io_read_snapshot io = r \<Longrightarrow> load_snapshot (store_of base (dk_files d) store\<lparr>rs_io := ios\<rparr>) io = y"
proof (cases "dk_files d (snapshot_path base)")
  case None
  then show thesis
    using assms by (intro that [of True]) (auto simp: file_load_snapshot_def load_snapshot_def store_of_def)
next
  case (Some img)
  obtain x d1 where read: "read_file_bytes (snapshot_path base) d = (x, d1)" by fastforce
  show thesis
    using assms Some read read_file_result [OF read Some]
    by (intro that [of "x \<noteq> None"])
      (auto simp: file_load_snapshot_def load_snapshot_def store_of_def split: option.splits)
qed

lemma store_of_fields [simp]:
  "rs_limits (store_of base f store) = rs_limits store" "rs_journal (store_of base f store) = f (journal_path base)"
  "rs_snapshot (store_of base f store) = f (snapshot_path base)" "rs_io (store_of base f store) = rs_io store"
  by (simp_all add: store_of_def)

lemma store_of_updates:
  "(store_of base f store)\<lparr>rs_io := ios\<rparr> = store_of base f (store\<lparr>rs_io := ios\<rparr>)"
  "(store_of base f store)\<lparr>rs_journal_entries := m\<rparr> = store_of base f (store\<lparr>rs_journal_entries := m\<rparr>)"
  "(store_of base f store)\<lparr>rs_journal_bytes := m\<rparr> = store_of base f (store\<lparr>rs_journal_bytes := m\<rparr>)"
  "(store_of base f store)\<lparr>rs_journal := Some j\<rparr> = store_of base (f(journal_path base \<mapsto> j)) store"
  by (simp_all add: store_of_def)

lemma file_Load_refines:
  assumes "file_Load windows base store d = (x, store', d')"
  shows "\<exists>io. Load (store_of base (dk_files d) (store\<lparr>rs_io := [io]\<rparr>)) = (x, store_of base (dk_files d') (store'\<lparr>rs_io := []\<rparr>))"
proof -
  obtain y d1 where snap: "file_load_snapshot base (rs_limits store) d = (y, d1)" by fastforce
  obtain r where same: "dk_files d1 = dk_files d"
    and r: "\<And>io. io_read_snapshot io = r \<Longrightarrow> load_snapshot (store_of base (dk_files d) (store\<lparr>rs_io := []\<rparr>)) io = y"
    using file_load_snapshot_result [OF snap, of "[]"] by (auto simp: store_of_updates)
  obtain z d2 where read: "read_file_bytes (journal_path base) d1 = (z, d2)" by fastforce
  have z: "dk_files d2 = dk_files d \<and> (z = None \<or> z = Some data)" if "dk_files d (journal_path base) = Some data" for data
    using read_file_result [OF read, of data] that same by simp
  obtain state entries valid where replay: "replay_journal (rs_limits store) (the z) (projr y) 0 0 = (state, entries, valid)"
    by (metis prod_cases3)
  obtain ok d3 where cut: "truncate_file windows (journal_path base) valid d2 = (ok, d3)" by fastforce
  note t = truncate_file_result [OF cut]
  define io where "io = io_ok\<lparr>io_read_snapshot := r, io_read_journal := (z \<noteq> None), io_truncate := ok\<rparr>"
  have flags: "io_read_journal io = (z \<noteq> None)" "io_truncate io = ok" by (simp_all add: io_def)
  have s: "load_snapshot (store_of base (dk_files d) (store\<lparr>rs_io := []\<rparr>)) io = y" by (rule r) (simp add: io_def)
  show ?thesis
  proof (intro exI [of _ io], cases y)
    case (Inl e)
    then have "x = Inl e" "store' = store" "d' = d1" using assms snap by (simp_all add: file_Load_def)
    then show "Load (store_of base (dk_files d) (store\<lparr>rs_io := [io]\<rparr>)) = (x, store_of base (dk_files d') (store'\<lparr>rs_io := []\<rparr>))"
      using same by (simp add: Load_def next_io_def store_of_updates s [unfolded Inl])
  next
    case (Inr st)
    show "Load (store_of base (dk_files d) (store\<lparr>rs_io := [io]\<rparr>)) = (x, store_of base (dk_files d') (store'\<lparr>rs_io := []\<rparr>))"
    proof (cases "dk_files d (journal_path base)")
      case None
      then show ?thesis
        using assms snap same
        by (auto simp: file_Load_def Load_def next_io_def store_of_updates Let_def Inr s [unfolded Inr])
          (simp add: store_of_def)
    next
      case (Some data)
      show ?thesis
        using assms snap same Some read z [OF Some] replay cut t flags
        by (cases z; cases ok; auto simp: file_Load_def Load_def next_io_def store_of_updates Let_def file_contents_def Inr
            s [unfolded Inr] split: if_splits; simp add: store_of_def)
    qed
  qed
qed

end
