(* ===== verification/RF_CrashSafety.thy ===== *)
theory RF_CrashSafety
  imports RF_Files RF_Mirror
begin

text \<open>
  \<^bold>\<open>Crashes.\<close> Whatever the disk does and wherever the process ends while the store is compacted
  or appended to, the next load finds the state of before or of after. For a compaction this rests
  on the replay being idempotent: a journal that was not removed is applied to a snapshot that
  already contains it.
\<close>

section \<open>Replaying twice\<close>

text \<open>One record offered to one entry of a table: it is taken unless the one there is newer.\<close>

definition offer :: "('a \<Rightarrow> 'g :: linorder) \<Rightarrow> 'a \<Rightarrow> 'a option \<Rightarrow> 'a option" where
  "offer gen r v = (case v of None \<Rightarrow> Some r | Some q \<Rightarrow> if gen r < gen q then Some q else Some r)"

lemma offer_bound:
  assumes "\<forall>r \<in> set rs. gen r \<le> G" and "\<And>q. v = Some q \<Longrightarrow> gen q \<le> G" and "fold (offer gen) rs v = Some w"
  shows "gen w \<le> G"
  using assms by (induction rs arbitrary: v) (auto simp: offer_def split: option.splits if_splits)

lemma offer_at_least: "\<exists>w. offer gen r v = Some w \<and> gen r \<le> gen w \<and> (\<forall>q. v = Some q \<longrightarrow> gen q \<le> gen w)"
  by (auto simp: offer_def split: option.splits)

lemma offer_max:
  "fold (offer gen) rs v = Some w \<Longrightarrow> (\<forall>r \<in> set rs. gen r \<le> gen w) \<and> (\<forall>q. v = Some q \<longrightarrow> gen q \<le> gen w)"
proof (induction rs arbitrary: v)
  case (Cons r rs)
  obtain u where u: "offer gen r v = Some u" "gen r \<le> gen u" "\<forall>q. v = Some q \<longrightarrow> gen q \<le> gen u"
    using offer_at_least [of gen r v] by blast
  then have "(\<forall>r \<in> set rs. gen r \<le> gen w) \<and> gen u \<le> gen w" using Cons.IH [of "Some u"] Cons.prems by simp
  with u show ?case by (auto intro: order_trans)
qed simp

lemma offer_some: "fold (offer gen) rs v = None \<Longrightarrow> rs = [] \<and> v = None"
proof (induction rs arbitrary: v)
  case (Cons r rs)
  then have "offer gen r v = None" by simp
  then show ?case by (simp add: offer_def split: option.splits if_splits)
qed simp

lemma offer_twice: "fold (offer gen) rs (fold (offer gen) rs v) = fold (offer gen) rs v"
proof (induction rs rule: rev_induct)
  case (snoc r rs)
  let ?u = "fold (offer gen) rs v"
  show ?case
  proof (cases "offer gen r ?u = ?u")
    case True
    then show ?thesis using snoc by simp
  next
    case False
    then have taken: "offer gen r ?u = Some r" by (auto simp: offer_def split: option.splits if_splits)
    have small: "\<forall>q \<in> set rs. gen q \<le> gen r"
    proof (cases ?u)
      case None
      then show ?thesis using offer_some [of gen rs v] by simp
    next
      case (Some w)
      then have "gen w \<le> gen r" using taken by (auto simp: offer_def split: if_splits)
      then show ?thesis using offer_max [OF Some] by (meson order_trans)
    qed
    have "offer gen r (fold (offer gen) rs (Some r)) = Some r"
    proof (cases "fold (offer gen) rs (Some r)")
      case (Some w)
      then show ?thesis using offer_bound [OF small _ Some] by (auto simp: offer_def)
    qed (simp add: offer_def)
    then show ?thesis by (simp add: taken)
  qed
qed simp

text \<open>The same for tables: a list of records offered in order.\<close>

definition offer_all :: "('a \<Rightarrow> 'k) \<Rightarrow> ('a \<Rightarrow> 'g :: linorder) \<Rightarrow> 'a list \<Rightarrow> ('k \<Rightarrow> 'a option) \<Rightarrow> 'k \<Rightarrow> 'a option" where
  "offer_all key gen rs m k = fold (offer gen) (filter (\<lambda>r. key r = k) rs) (m k)"

lemma offer_all_twice: "offer_all key gen rs (offer_all key gen rs m) = offer_all key gen rs m"
  by (simp add: offer_all_def fun_eq_iff offer_twice)

lemma offer_all_Cons: "offer_all key gen (r # rs) m = offer_all key gen rs (m(key r := offer gen r (m (key r))))"
  by (auto simp: offer_all_def fun_eq_iff)

lemma keyed_upsert_route_offer: "keyed rr_id (upsert_route r xs) = (keyed rr_id xs)(rr_id r := offer rr_generation r (keyed rr_id xs (rr_id r)))"
  by (induction xs) (auto simp: keyed_def fun_eq_iff offer_def)

lemma keyed_routes: "keyed rr_id (fold upsert_route rs xs) = offer_all rr_id rr_generation rs (keyed rr_id xs)"
  by (induction rs arbitrary: xs) (simp_all add: offer_all_Cons keyed_upsert_route_offer, simp add: offer_all_def fun_eq_iff)

lemma offer_unordered: "offer (\<lambda>_. 0 :: nat) r v = Some r"
  by (simp add: offer_def split: option.splits)

lemma keyed_revocations: "keyed rv_route (fold upsert_revocation rs xs) = offer_all rv_route (\<lambda>_. 0 :: nat) rs (keyed rv_route xs)"
  by (induction rs arbitrary: xs) (simp_all add: offer_all_Cons keyed_upsert_revocation offer_unordered, simp add: offer_all_def fun_eq_iff)

lemma keyed_attempts: "keyed at_attempt (fold upsert_attempt rs xs) = offer_all at_attempt (\<lambda>_. 0 :: nat) rs (keyed at_attempt xs)"
  by (induction rs arbitrary: xs) (simp_all add: offer_all_Cons keyed_upsert_attempt offer_unordered, simp add: offer_all_def fun_eq_iff)

section \<open>The replay of a journal\<close>

lemma replay_fields:
  "pst_routes (foldl replay_entry s es) = fold upsert_route (concat (map je_upserts es)) (pst_routes s)"
  "pst_revocations (foldl replay_entry s es) = fold upsert_revocation (concat (map je_revocations es)) (pst_revocations s)"
  "pst_attempts (foldl replay_entry s es) = fold upsert_attempt (concat (map je_attempts es)) (pst_attempts s)"
  "pst_epoch (foldl replay_entry s es) = fold max (map je_epoch es) (pst_epoch s)"
  "pst_policy_generation (foldl replay_entry s es) = fold max (map je_policy_generation es) (pst_policy_generation s)"
  by (induction es arbitrary: s) (simp_all add: replay_entry_def Let_def max_def not_less antisym)

lemma fold_max_ge:
  fixes a :: "'a :: linorder"
  shows "a \<le> fold max xs a" and "x \<in> set xs \<Longrightarrow> x \<le> fold max xs a"
proof (induction xs arbitrary: a)
  case (Cons y ys)
  { case 1 show ?case using Cons(1) [of "max y a"] by simp }
  { case 2 then show ?case using Cons(1) [of "max y a"] Cons(2) by auto }
qed simp_all

lemma fold_max_id: "\<forall>y \<in> set ys. y \<le> b \<Longrightarrow> fold max ys b = (b :: 'a :: linorder)"
  by (induction ys) (auto simp: max_def)

lemma fold_max_twice: "fold max xs (fold max xs a) = fold max xs (a :: 'a :: linorder)"
  using fold_max_ge(2) by (intro fold_max_id) blast

definition same_tables :: "persisted_state \<Rightarrow> persisted_state \<Rightarrow> bool" where
  "same_tables s s' \<longleftrightarrow>
     pst_epoch s = pst_epoch s' \<and> pst_policy_generation s = pst_policy_generation s' \<and>
     keyed rr_id (pst_routes s) = keyed rr_id (pst_routes s') \<and>
     keyed rv_route (pst_revocations s) = keyed rv_route (pst_revocations s') \<and>
     keyed at_attempt (pst_attempts s) = keyed at_attempt (pst_attempts s')"

lemma replay_again:
  assumes "same_tables now (foldl replay_entry s es)"
  shows "same_tables (foldl replay_entry now es) (foldl replay_entry s es)"
  using assms
  by (simp add: same_tables_def replay_fields keyed_routes keyed_revocations keyed_attempts offer_all_twice fold_max_twice)

lemma mirrors_same: "mirrors s rt \<Longrightarrow> mirrors s' rt \<longleftrightarrow> same_tables s' s"
  by (auto simp: mirrors_def same_tables_def)

section \<open>A crash during a compaction\<close>

lemma keyed_values:
  assumes "om_wf m" and "\<And>k v. om_find m k = Some v \<Longrightarrow> key v = k"
  shows "keyed key (om_values m) = om_find m"
proof -
  have "key v = k" if "(k, v) \<in> set m" for k v
    using assms that om_find_iff by metis
  then have "map ((\<lambda>x. (key x, x)) \<circ> snd) m = m" by (intro map_idI) auto
  then show ?thesis by (simp add: keyed_def om_values_def)
qed

lemma keyed_key: "keyed key xs k = Some v \<Longrightarrow> key v = k"
  by (auto simp: keyed_def dest: map_of_SomeD)

lemma collect_mirrors:
  assumes "rt_inv rt" and "om_wf (rt_revocations rt)" and "mirrors s rt"
  shows "mirrors (collect_state rt) rt"
proof -
  have "om_find (rt_revocations rt) k = Some v \<Longrightarrow> rv_route v = k" for k v
    using assms(3) keyed_key [of rv_route "pst_revocations s"] by (simp add: mirrors_def)
  with assms(1,2) show ?thesis
    by (auto simp: mirrors_def collect_state_def rt_inv_def index_inv_def table_wf_def attempts_inv_def intro!: keyed_values)
qed

text \<open>The states of the two files on the way.\<close>

definition compacting :: "string \<Rightarrow> bytes \<Rightarrow> file_map \<Rightarrow> file_map \<Rightarrow> bool" where
  "compacting base img f0 f \<longleftrightarrow>
     (f (snapshot_path base) = f0 (snapshot_path base) \<or> f (snapshot_path base) = Some img) \<and> f (journal_path base) = f0 (journal_path base) \<or>
     f (snapshot_path base) = Some img \<and> f (journal_path base) = None"

lemma remove_file_through:
  assumes "remove_file path d = (ok, d')" and "P (dk_files d)" and "P ((dk_files d)(path := None))"
  shows "through P d d'"
  using assms by (auto simp: remove_file_def through_def put_files_def split: prod.splits bool.splits dest!: call_ok_kept)

lemma file_SaveSnapshot_through:
  assumes "file_SaveSnapshot windows base state store d = (st, store', d')"
  shows "through (compacting base (EncodeSnapshot state (rs_limits store)) (dk_files d)) d d'" (is "through ?P d d'")
proof (cases "rs_durability store = DU_None \<or> EncodeSnapshot state (rs_limits store) = []")
  case True
  then have "d' = d" using assms by (simp add: file_SaveSnapshot_def Let_def split: if_splits)
  then show ?thesis by (simp add: through_refl)
next
  case False
  let ?img = "EncodeSnapshot state (rs_limits store)"
  obtain ok d1 where w: "write_file_atomic windows (snapshot_path base) ?img d = (ok, d1)" by fastforce
  note r = write_file_atomic_replaced [OF w]
  have "?P (dk_files d1)" using r by (auto simp: replaced_def compacting_def split: if_splits)
  moreover have "replaces (snapshot_path base) ?img (dk_files d) f \<Longrightarrow> ?P f" for f by (auto simp: replaces_def compacting_def)
  ultimately have first: "through ?P d d1" using r through_mono by (auto simp: replaced_def)
  obtain removed d2 where rm: "remove_file (journal_path base) d1 = (removed, d2)" by fastforce
  show ?thesis
  proof (cases ok)
    case True
    then have "?P ((dk_files d1)(journal_path base := None))" using r by (simp add: replaced_def compacting_def)
    with \<open>?P (dk_files d1)\<close> have "through ?P d1 d2" by (intro remove_file_through [OF rm])
    with first assms False w rm True show ?thesis by (auto simp: file_SaveSnapshot_def Let_def intro: through_trans)
  next
    case failed: False
    with first assms False w show ?thesis by (auto simp: file_SaveSnapshot_def Let_def)
  qed
qed

lemma store_of_snapshot:
  assumes "store_of base f0 store = store" and "f (snapshot_path base) = f0 (snapshot_path base)"
  shows "load_snapshot (store_of base f store) io = load_snapshot store io"
proof -
  have "rs_snapshot store = f0 (snapshot_path base)" using store_of_fields(3) [of base f0 store] assms(1) by simp
  with assms(2) show ?thesis by (simp add: load_snapshot_def cong: option.case_cong if_cong)
qed

lemma compaction_crash:
  assumes "rt_inv rt" and "om_wf (rt_revocations rt)" and "store_mirrors rt" and "rt_store rt = Some store"
    and "store_of base f0 store = store" and "state_wf (rt_limits rt) (collect_state rt)"
    and "compacting base (EncodeSnapshot (collect_state rt) (rs_limits store)) f0 f"
  shows "\<exists>state. fst (Load (store_of base f store)) = Inr state \<and> mirrors state rt"
proof -
  obtain s es where store: "rs_limits store = rt_limits rt" "rs_io store = []" "load_snapshot store io_ok = Inr s"
    "journal_holds store es []" "mirrors (foldl replay_entry s es) rt"
    using assms(3,4) by (auto simp: store_mirrors_def)
  let ?now = "collect_state rt"
  have now: "mirrors ?now rt" using collect_mirrors assms(1,2) store(5) by blast
  have old: "rs_snapshot store = f0 (snapshot_path base)" "rs_journal store = f0 (journal_path base)"
    using store_of_fields(2,3) [of base f0 store] assms(5) by simp_all
  have io: "rs_io (store_of base f store) = []" using store(2) by simp
  have loads_now: "load_snapshot (store_of base f store) io_ok = Inr ?now"
    if "f (snapshot_path base) = Some (EncodeSnapshot ?now (rs_limits store))"
    using that DecodeSnapshot_encoded [OF assms(6)] store(1) by (simp add: load_snapshot_def io_ok_def)
  have journal: "journal_holds (store_of base f store) es []" if "f (journal_path base) = f0 (journal_path base)"
    using store(4) that by (simp add: journal_holds_def old)
  from assms(7) consider "f (snapshot_path base) = f0 (snapshot_path base)" "f (journal_path base) = f0 (journal_path base)"
    | "f (snapshot_path base) = Some (EncodeSnapshot ?now (rs_limits store))" "f (journal_path base) = f0 (journal_path base)"
    | "f (snapshot_path base) = Some (EncodeSnapshot ?now (rs_limits store))" "f (journal_path base) = None"
    by (auto simp: compacting_def)
  then show ?thesis
  proof cases
    case 1
    then have "load_snapshot (store_of base f store) io_ok = Inr s" using store_of_snapshot [OF assms(5)] store(3) by simp
    then show ?thesis using Load_replays [OF io _ journal] 1 store(5) by blast
  next
    case 2
    have "same_tables (foldl replay_entry ?now es) (foldl replay_entry s es)"
      using replay_again mirrors_same [OF store(5)] now by blast
    then show ?thesis using Load_replays [OF io loads_now journal] 2 mirrors_same [OF store(5)] by blast
  next
    case 3
    have "journal_holds (store_of base f store) [] []" using 3 by (simp add: journal_holds_def)
    from Load_replays [OF io loads_now this] 3 now show ?thesis by simp
  qed
qed

section \<open>A crash during an append\<close>

text \<open>As many bytes of the entry as are there: none of the entry is loaded, or all of it.\<close>

lemma append_holds:
  assumes "entry_wf (rs_limits store) entry" and "journal_holds store es []" and "store_of base f0 store = store"
    and "file_contents f (journal_path base) = file_contents f0 (journal_path base) @ take n (EncodeJournalEntry entry (rs_limits store))"
  shows "\<exists>tail. journal_holds (store_of base f store)
    (if length (EncodeJournalEntry entry (rs_limits store)) \<le> n then es @ [entry] else es) tail"
proof -
  let ?img = "EncodeJournalEntry entry (rs_limits store)"
  have "rs_journal store = f0 (journal_path base)" using store_of_fields(2) [of base f0 store] assms(3) by simp
  then have old: "file_contents f0 (journal_path base) = encode_journal (rs_limits store) es"
    using journal_contents_holds [OF assms(2)] by (simp add: journal_contents_def file_contents_def)
  have wf: "list_all (entry_wf (rs_limits store)) es" using assms(2) by (simp add: journal_holds_def)
  have long: "?img \<noteq> []" using assms(1) by (simp add: EncodeJournalEntry_wf length_write_frame flip: length_greater_0_conv)
  have empty: "es = []" if "encode_journal (rs_limits store) es = []"
  proof (cases es)
    case (Cons e rest)
    then have "EncodeJournalEntry e (rs_limits store) \<noteq> []"
      using wf by (simp add: EncodeJournalEntry_wf length_write_frame flip: length_greater_0_conv)
    with that Cons show ?thesis by (simp add: encode_journal_def)
  qed
  show ?thesis
  proof (cases "f (journal_path base)")
    case None
    then have "encode_journal (rs_limits store) es = []" "take n ?img = []" using assms(4) old by (simp_all add: file_contents_def)
    then have "es = []" "\<not> length ?img \<le> n" using empty long by auto
    with None show ?thesis by (auto simp: journal_holds_def)
  next
    case (Some data)
    then have "data = encode_journal (rs_limits store) es @ take n ?img" using assms(4) old by (simp add: file_contents_def)
    with Some wf assms(1) take_all_or_torn [OF assms(1), of n] show ?thesis
      by (auto simp: journal_holds_def encode_journal_append encode_journal_def)
  qed
qed

lemma append_crash:
  assumes "rs_io store = []" and "entry_wf (rs_limits store) entry" and "load_snapshot store io_ok = Inr s"
    and "journal_holds store es []" and "store_of base f0 store = store"
    and "f (snapshot_path base) = f0 (snapshot_path base)"
    and "file_contents f (journal_path base) = file_contents f0 (journal_path base) @ take n (EncodeJournalEntry entry (rs_limits store))"
  shows "fst (Load (store_of base f store)) =
    Inr (foldl replay_entry s (if length (EncodeJournalEntry entry (rs_limits store)) \<le> n then es @ [entry] else es))"
  using append_holds [OF assms(2,4,5,7)] Load_replays [of "store_of base f store" s] assms(1,3)
    store_of_snapshot [of base f0 store f io_ok] assms(5,6) by auto

section \<open>The next process\<close>

lemma sound_calls:
  assumes "dk_faults d = []"
  shows "call_ok d = (True, d)" and "read_file_bytes path d = (dk_files d path, d)"
    and "fst (truncate_file windows path n d)"
proof -
  show ok: "call_ok d = (True, d)" using assms by (simp add: call_ok_def next_fault_def)
  show "read_file_bytes path d = (dk_files d path, d)" by (simp add: read_file_bytes_def ok split: option.splits)
  show "fst (truncate_file windows path n d)" by (simp add: truncate_file_def ok)
qed

lemma file_Load_sound_disk:
  assumes "dk_faults d = []" and "rs_io store = []"
  shows "fst (file_Load windows base store d) = fst (Load (store_of base (dk_files d) store))"
proof -
  have snap: "file_load_snapshot base (rs_limits store) d = (load_snapshot (store_of base (dk_files d) store) io_ok, d)"
    by (simp add: file_load_snapshot_def load_snapshot_def sound_calls [OF assms(1)] io_ok_def split: option.split)
  show ?thesis
  proof (cases "load_snapshot (store_of base (dk_files d) store) io_ok")
    case (Inr state)
    show ?thesis
    proof (cases "dk_files d (journal_path base)")
      case (Some journal)
      obtain st n valid where "replay_journal (rs_limits store) journal state 0 0 = (st, n, valid)" by (metis prod_cases3)
      with Some Inr sound_calls [OF assms(1)] assms(2) sound_calls(3) [OF assms(1), of windows "journal_path base" valid]
      show ?thesis
        by (cases "truncate_file windows (journal_path base) valid d")
          (simp add: file_Load_def Load_def snap Let_def io_ok_def)
    qed (simp add: file_Load_def Load_def snap Inr assms(2) Let_def)
  qed (simp add: file_Load_def Load_def snap assms(2))
qed

end
