(* ===== verification/RF_LifeSamples.thy ===== *)
theory RF_LifeSamples
  imports RF_ThreadRuns RF_Shutdown RF_ToolSamples RF_RemoteSamples RF_MirrorSamples RF_CrashSafety
begin

text \<open>
  \<^bold>\<open>Concrete runs of the threads and of the disk.\<close> The server of the sample runtime with one
  session on the small network, and the compaction of the sample store on a disk whose last
  call fails.
\<close>

section \<open>The server with one session\<close>

abbreviation remote_life_env :: "(net, unit) life_env" where
  "remote_life_env \<equiv> net_env remote_env True"

abbreviation remote_life :: "(net, unit) life" where
  "remote_life \<equiv> serving_one True remote_state"

lemma new_remote_reachable: "life_reachable remote_life_env net_world net0 (new_life net0 remote_state)"
  by (rule life_reachable.new) (simp_all add: remote_state_def)

lemma remote_life_reachable: "life_reachable remote_life_env net_world net0 remote_life"
proof (rule schedule_reachable [OF serving_one_runs new_remote_reachable])
  show "sx_active remote_state = 0" by (simp add: remote_state_def)
  show "0 < max_sessions (sv_limits remote_env)" by (simp add: remote_defs sample_limits_def)
qed

lemma remote_life_fields:
  "lf_threads remote_life = [(new_thread 1 \<lparr>wa_socket = Some 1, wa_signal = Some 0\<rparr>)\<lparr>th_pc := S_Wait\<rparr>]"
  "lf_listener remote_life = Some 0" "lf_accept remote_life = A_Accept" "lf_main remote_life = M_Running"
  by (simp_all add: serving_one_def)

text \<open>A stop is called and its wake-up connection is made.\<close>

definition woken_life :: "(net, unit) life" where
  "woken_life =
     remote_life\<lparr>lf_os := (lf_os remote_life)\<lparr>nt_open := [2, 1, 0], nt_backlog := (\<lambda>h. if h = 0 then 1 else 0)\<rparr>,
       lf_stopping := True, lf_main := M_CloseWake 2, lf_woken := True\<rparr>"

lemma woken_life_runs: "schedule remote_life_env [Ac_Stop, Ac_Main, Ac_Main] remote_life = Some woken_life"
  by (simp add: woken_life_def serving_one_def life_evals Let_def fun_eq_iff)

lemma woken_life_facts:
  "life_reachable remote_life_env net_world net0 woken_life" "stop_under_way woken_life" "lf_woken woken_life"
  using schedule_reachable [OF woken_life_runs remote_life_reachable]
  by (simp_all add: woken_life_def stop_under_way_def)

lemma early_return_reached:
  obtains s where "life_reachable remote_life_env net_world net0 s" and "lf_main s = M_Stopped"
    and "map th_pc (lf_threads s) = [S_CloseWaiter (Some 1)]" and "nt_open (lf_os s) = [1]"
  using early_return_runs [of remote_env True remote_state]
  by (elim exE conjE) (rule that [OF schedule_reachable [OF _ remote_life_reachable]])

section \<open>A stop while a request is under way\<close>

text \<open>
  A peer asks a coordinator to reconcile a route. Its session has taken the request up, and has not
  yet read the route, when the coordinator is stopped; then the section runs and the answer is sent.
\<close>

definition asking_request :: reconcile_request where
  "asking_request =
     \<lparr>rcq_context = \<lparr>rx_epoch = 1, rx_publisher = ''p'', rx_worker_boot = 5, rx_attempt = 9\<rparr>, rcq_all = False, rcq_route = 3\<rparr>"

abbreviation asking_payload :: bytes where
  "asking_payload \<equiv> encode_ReconcileRequest asking_request"

abbreviation asking_bytes :: "'b server_env \<Rightarrow> bytes" where
  "asking_bytes senv \<equiv> encode_frame (sv_wire senv) MI_ReconcileRequest asking_payload"

lemma asking_decodes: "decode_ReconcileRequest asking_payload = Some asking_request"
  unfolding decode_ReconcileRequest_def
  by (simp add: reconcile_request_codec.decode_payload_iff reconcile_request_wf_def context_wf_def asking_request_def)

lemma asking_length: "length asking_payload \<le> 100"
  by (simp add: encode_ReconcileRequest_def asking_request_def w_context_def w_counter_def w_optional_fixed_def w_boolean_def wire_lengths)

lemma asking_frame:
  assumes "sv_limits senv = default_limits"
  shows "session_iteration senv (asking_bytes senv) session st =
      (IT_Request (TK_Key RO_One 3), [], [], session, count sc_requests_handled_update (count sc_frames_received_update st))"
    and "pending_frame senv (asking_bytes senv) =
      Some \<lparr>df_id = MI_ReconcileRequest, df_wire_version = kWireProtocolVersion (sv_wire senv), df_payload = asking_payload\<rparr>"
proof -
  have fits: "frame_fits (sv_limits senv) asking_payload"
    using asking_length assms by (simp add: frame_fits_def default_limits_def)
  note frame = header_of_frame [OF fits, of "sv_wire senv" MI_ReconcileRequest "[]"]
    decode_frame_encode [OF fits, of "sv_wire senv" MI_ReconcileRequest]
  show "session_iteration senv (asking_bytes senv) session st =
      (IT_Request (TK_Key RO_One 3), [], [], session, count sc_requests_handled_update (count sc_frames_received_update st))"
    using frame asking_decodes
    by (simp add: session_iteration_def kFrameHeaderBytes_def request_begin_def begin_reconcile_def asking_request_def Let_def)
  show "pending_frame senv (asking_bytes senv) =
      Some \<lparr>df_id = MI_ReconcileRequest, df_wire_version = kWireProtocolVersion (sv_wire senv), df_payload = asking_payload\<rparr>"
    using frame by (simp add: pending_frame_def kFrameHeaderBytes_def)
qed

definition asked_and_stopped :: "'b server_env \<Rightarrow> action list" where
  "asked_and_stopped senv =
     [Ac_Arrive 0 (Received (asking_bytes senv)), Ac_Session 0, Ac_Session 0, Ac_Session 0, Ac_Stop, Ac_Session 0, Ac_Session 0]"

lemma serving_one_guarded:
  assumes "sx_active st = 0" and "0 < max_sessions (sv_limits senv)"
  shows "guarded (net_env senv windows) one_session (new_life net0 st) = Some (serving_one windows st)"
  using assms
  by (simp add: one_session_def new_life_def net0_def serving_one_def life_evals accept_session_def Let_def fun_eq_iff
      may_revoke_def pending_frame_def)

lemma asked_and_stopped_guarded:
  assumes "sv_limits senv = default_limits" and "rt_routes (sx_runtime st) = []"
  shows "\<exists>s reply. guarded (net_env senv True) (asked_and_stopped senv) (serving_one True st) = Some s \<and>
    map th_sent (lf_threads s) = [[reply]] \<and> map th_pc (lf_threads s) = [S_Top] \<and> lf_stopping s \<and>
    lf_main s = M_Wake"
proof -
  have ne: "asking_bytes senv \<noteq> []" by (simp flip: length_greater_0_conv)
  have short: "length asking_payload \<le> max_frame_bytes default_limits" using asking_length by (simp add: default_limits_def)
  note evals = net_fields act.simps session_move_def thread_move_def top_move_def request_move_def receive_move_def receive_some_def
    waiter_wait_def new_thread_def may_revoke_def main_move_def
  have start: "pending_frame senv [] = None" by (simp add: pending_frame_def kFrameHeaderBytes_def)
  show ?thesis
    using ne short asking_frame [OF assms(1)] assms start
    by (simp add: asked_and_stopped_def serving_one_def evals Let_def kFrameHeaderBytes_def count_def observed_def reply_defs)
qed

section \<open>A coordinator inside its stop\<close>

text \<open>A line on standard input asks for the shutdown, and the main thread gets as far as it can by itself.\<close>

fun main_run :: "('o, 'b) life_env \<Rightarrow> nat \<Rightarrow> closing \<times> ('o, 'b) life \<Rightarrow> (closing \<times> ('o, 'b) life) option" where
  "main_run env 0 x = Some x"
| "main_run env (Suc n) (c, s) =
     (if cs_aborted c then None else case closing_move env c s of None \<Rightarrow> None | Some x \<Rightarrow> main_run env n x)"

lemma main_run_steps: "main_run env n x = Some y \<Longrightarrow> (closing_step env world)\<^sup>*\<^sup>* x y"
proof (induction env n x rule: main_run.induct)
  case (2 env n c s)
  then obtain z where z: "\<not> cs_aborted c" "closing_move env c s = Some z" "main_run env n z = Some y"
    by (auto split: if_splits option.splits)
  from "2.IH" [OF z] closing_step.main [OF z(1,2)] show ?case by (meson converse_rtranclp_into_rtranclp)
qed simp

definition stdin_options :: coordinator_options where
  "stdin_options = coordinator_defaults\<lparr>ko_shutdown_on_stdin := True\<rparr>"

definition asked_to_close :: closing where
  "asked_to_close = (closing_start stdin_options [''shutdown''] False)\<lparr>cs_lines := [], cs_set := True, cs_stdin := G_End\<rparr>"

lemma asked_to_close_run:
  "(closing_step env world)\<^sup>*\<^sup>* (closing_start stdin_options [''shutdown''] False, s) (asked_to_close, s)"
proof -
  let ?c0 = "closing_start stdin_options [''shutdown''] False"
  let ?c1 = "?c0\<lparr>cs_lines := [], cs_stdin := G_Set\<rparr>"
  note defs = closing_start_def stdin_move_def set_value_def stdin_options_def coordinator_defaults_def asked_to_close_def
  have "closing_step env world (?c0, s) (?c1, s)" by (rule closing_step.stdin) (simp_all add: defs)
  moreover have "closing_step env world (?c1, s) (asked_to_close, s)" by (rule closing_step.stdin) (simp_all add: defs)
  ultimately show ?thesis by (meson converse_rtranclp_into_rtranclp rtranclp.rtrancl_refl)
qed

lemma remote_life_joins:
  "\<exists>c s. main_run remote_life_env (Suc (Suc (Suc (Suc (Suc (Suc (Suc 0))))))) (asked_to_close, remote_life) = Some (c, s) \<and> cs_set c \<and> cs_main c = C_Stopping \<and>
     lf_main s = M_Join \<and> lf_accept s = A_Accept \<and> closing_move remote_life_env c s = None \<and> \<not> accept_held remote_life_env s"
  by (simp add: asked_to_close_def closing_start_def stdin_options_def coordinator_defaults_def closing_move_def
      serving_one_def life_evals accept_held_def Let_def)

section \<open>Compacting the sample store\<close>

lemma mirror_collect_wf: "state_wf sample_limits (collect_state mirror_published)"
proof -
  have "route_record_wf sample_limits sample_route" "length (w_route_record sample_route) \<le> 1000"
    using sample_like_wf [OF sample_route_evidence] length_sample_like [OF sample_route_evidence] validate_sample_route
      sample_route_like by metis+
  moreover have "attempt_wf sample_attempt" "length (w_attempt sample_attempt) \<le> 100"
    using sample_draw_some(2) by (auto simp: attempt_wf_def w_attempt_def wire_lengths w_boolean_def)
  ultimately show ?thesis
    by (simp add: state_wf_def collect_state_def om_values_def body_wf_def payload_fits_def snapshot_payload_def
        w_state_body_def w_all_def sample_limits_def state_unique_def)
qed

abbreviation mirror_image :: bytes where
  "mirror_image \<equiv> EncodeSnapshot (collect_state mirror_published) sample_limits"

lemma mirror_image_some: "mirror_image \<noteq> []"
  by (simp add: EncodeSnapshot_wf [OF mirror_collect_wf] length_write_frame flip: length_greater_0_conv)

text \<open>The journal cannot be removed after the snapshot was moved into place.\<close>

definition mirror_files :: file_map where
  "mirror_files = [journal_path ''s'' \<mapsto> EncodeJournalEntry mirror_entry sample_limits]"

definition mirror_disk :: disk where
  "mirror_disk = \<lparr>dk_files = mirror_files, dk_faults = [Works, Works, Works, Works, Fails], dk_trace = []\<rparr>"

definition both_files :: file_map where
  "both_files = mirror_files(snapshot_path ''s'' \<mapsto> mirror_image)"

lemma mirror_store_of: "store_of ''s'' mirror_files mirror_store = mirror_store"
  by (simp add: store_of_def mirror_store_def mirror_files_def route_store_def snapshot_path_def journal_path_def)

lemma mirror_compacts:
  "\<exists>store' crashes.
     file_SaveSnapshot False ''s'' (collect_state mirror_published) mirror_store mirror_disk =
       (ok_status, store', \<lparr>dk_files = both_files, dk_faults = [], dk_trace = crashes @ [both_files]\<rparr>)"
  using mirror_image_some
  by (simp add: file_SaveSnapshot_def mirror_store_def route_store_def mirror_disk_def write_file_atomic_def make_parent_def
      has_parent_def open_truncated_def write_and_flush_def write_bytes_def rename_file_def remove_file_def call_ok_def
      next_fault_def put_files_def Let_def file_contents_def both_files_def snapshot_path_def journal_path_def mirror_files_def fun_upd_twist)

end
