(* ===== verification/RF_Completion.thy ===== *)
theory RF_Completion
  imports RF_Behaviour
begin

text \<open>
  \<^bold>\<open>What an outcome of the backend does.\<close> The specification of \<open>apply_completion_locked\<close>: when
  an outcome is taken, and all that it changes. It is stated over the stored attempt and route, with
  a table of its own for what each outcome makes of a route.
\<close>

section \<open>The specification\<close>

text \<open>The lifecycle and the classification of the route after each outcome, of a withdrawal or of an installation.\<close>

fun outcome_spec :: "bool \<Rightarrow> programming_outcome \<Rightarrow> route_lifecycle \<times> applied_classification" where
  "outcome_spec False PO_Applied = (LC_Installed, AC_Applied)"
| "outcome_spec False PO_Idempotent = (LC_Installed, AC_IdempotentAlreadyApplied)"
| "outcome_spec False PO_NotSupported = (LC_Failed, AC_NotSupported)"
| "outcome_spec False PO_Rejected = (LC_Failed, AC_Rejected)"
| "outcome_spec False PO_PermanentFailure = (LC_Failed, AC_PermanentFailure)"
| "outcome_spec False PO_RetryableFailure = (LC_RevalidationRequired, AC_RetryableFailure)"
| "outcome_spec False PO_Ambiguous = (LC_RevalidationRequired, AC_Ambiguous)"
| "outcome_spec False PO_BackendUnavailable = (LC_RevalidationRequired, AC_BackendUnavailable)"
| "outcome_spec True PO_Applied = (LC_Withdrawn, AC_Withdrawn)"
| "outcome_spec True PO_Idempotent = (LC_Withdrawn, AC_Withdrawn)"
| "outcome_spec True PO_Ambiguous = (LC_RevalidationRequired, AC_Ambiguous)"
| "outcome_spec True PO_NotSupported = (LC_RevalidationRequired, AC_WithdrawFailed)"
| "outcome_spec True PO_Rejected = (LC_RevalidationRequired, AC_WithdrawFailed)"
| "outcome_spec True PO_PermanentFailure = (LC_RevalidationRequired, AC_WithdrawFailed)"
| "outcome_spec True PO_RetryableFailure = (LC_RevalidationRequired, AC_WithdrawFailed)"
| "outcome_spec True PO_BackendUnavailable = (LC_RevalidationRequired, AC_WithdrawFailed)"

text \<open>The attempt \<open>a\<close> is open and still describes the route \<open>r\<close>, which waits for its outcome.\<close>

definition awaits :: "runtime \<Rightarrow> programming_attempt_record \<Rightarrow> route_record \<Rightarrow> bool" where
  "awaits rt a r \<longleftrightarrow>
     \<not> at_resolved a \<and> om_find (rt_routes rt) (at_route a) = Some r \<and> at_epoch a = rt_epoch rt \<and>
     at_desired_generation a = rr_generation r \<and> at_programming_generation a = rr_programming_generation r \<and>
     rr_lifecycle r = (if at_operation a = OP_Withdraw then LC_Withdrawing else LC_Installing) \<and>
     om_find (rt_revocations rt) (at_route a) = None"

text \<open>The record \<open>r'\<close> is \<open>r\<close> with the outcome recorded in it.\<close>

definition records_outcome :: "runtime \<Rightarrow> programming_attempt_record \<Rightarrow> programming_result \<Rightarrow> route_record \<Rightarrow> route_record \<Rightarrow> bool" where
  "records_outcome rt a result r r' \<longleftrightarrow>
     (rr_lifecycle r', ap_classification (rr_applied r')) = outcome_spec (at_operation a = OP_Withdraw) (ps_outcome result) \<and>
     ap_attempt (rr_applied r') = ps_attempt result \<and> ap_programmed_generation (rr_applied r') = rr_generation r \<and>
     ap_programming_generation (rr_applied r') = rr_programming_generation r \<and>
     ap_programmed_authority_generation (rr_applied r') = rr_authority_generation r \<and>
     ap_backend (rr_applied r') = (if token_is_valid (ps_backend result) then ps_backend result else backend_id_of rt) \<and>
     ap_detail (rr_applied r') = bounded (ps_detail result) \<and>
     (\<exists>forgotten entry. forgotten @ rr_history r' = rr_history r @ [entry] \<and> le_lifecycle entry = rr_lifecycle r' \<and>
        le_generation entry = rr_generation r) \<and>
     rr_id r' = rr_id r \<and> rr_key r' = rr_key r \<and> rr_generation r' = rr_generation r \<and>
     rr_authority_generation r' = rr_authority_generation r \<and> rr_programming_generation r' = rr_programming_generation r \<and>
     rr_invalidation_watermark r' = rr_invalidation_watermark r \<and> rr_binding r' = rr_binding r \<and>
     rr_provenance r' = rr_provenance r \<and> rr_observation r' = rr_observation r \<and>
     rr_supersession r' = rr_supersession r \<and> rr_retirement r' = rr_retirement r"

text \<open>The counters that an outcome moves.\<close>

definition counts_outcome :: "bool \<Rightarrow> programming_outcome \<Rightarrow> route_counters \<Rightarrow> route_counters" where
  "counts_outcome withdrawal x c =
     (if withdrawal then
        (if x = PO_Applied \<or> x = PO_Idempotent then c\<lparr>ct_withdrawals := ct_withdrawals c + 1\<rparr> else c)
      else
        c\<lparr>ct_programming_applied := ct_programming_applied c + 1,
          ct_programming_ambiguous := ct_programming_ambiguous c + (if x = PO_Ambiguous then 1 else 0)\<rparr>)"

section \<open>The code meets it\<close>

lemma outcome_transition:
  "next_lifecycle l (if w then withdraw_event x else install_event x) = Some l' \<longleftrightarrow>
     l = (if w then LC_Withdrawing else LC_Installing) \<and> l' = fst (outcome_spec w x)"
  by (cases x; cases w; cases l) (auto simp: table_simps)

lemma outcome_classification:
  "(if w then withdraw_classification x else install_classification x) = snd (outcome_spec w x)"
  by (cases x; cases w) simp_all

lemma completed_records:
  assumes "at_desired_generation a = rr_generation r" and "at_programming_generation a = rr_programming_generation r"
  shows "records_outcome rt a result r
    (completed_record rt a result e (fst (outcome_spec (at_operation a = OP_Withdraw) (ps_outcome result))) r)"
proof -
  have kept: "\<exists>f. f @ (if n < length h then drop (length h - n) h else h) = h" for n and h :: "lineage_entry list"
    by (cases "n < length h") (auto intro: append_take_drop_id)
  have history: "\<exists>forgotten entry. forgotten @ rr_history (push_history rt u e p) = rr_history u @ [entry] \<and>
      le_lifecycle entry = rr_lifecycle u \<and> le_generation entry = rr_generation u" for u p
  proof -
    obtain entry where entry: "rr_history (push_history rt u e p) =
        (let h = rr_history u @ [entry]; n = cf_history_limit (rt_config rt) in if n < length h then drop (length h - n) h else h)"
      "le_lifecycle entry = rr_lifecycle u" "le_generation entry = rr_generation u"
      by (simp add: push_history_def Let_def)
    then show ?thesis using kept [of "cf_history_limit (rt_config rt)" "rr_history u @ [entry]"] by (metis (no_types))
  qed
  define u where "u = r\<lparr>rr_lifecycle := fst (outcome_spec (at_operation a = OP_Withdraw) (ps_outcome result)),
      rr_applied := \<lparr>ap_classification = snd (outcome_spec (at_operation a = OP_Withdraw) (ps_outcome result)),
        ap_attempt = ps_attempt result, ap_programming_generation = rr_programming_generation r,
        ap_programmed_generation = rr_generation r, ap_programmed_authority_generation = rr_authority_generation r,
        ap_backend = (if token_is_valid (ps_backend result) then ps_backend result else backend_id_of rt),
        ap_detail = bounded (ps_detail result)\<rparr>\<rparr>"
  have made: "completed_record rt a result e (fst (outcome_spec (at_operation a = OP_Withdraw) (ps_outcome result))) r =
      push_history rt u e 0"
    using assms outcome_classification [of "at_operation a = OP_Withdraw" "ps_outcome result"]
    by (simp add: completed_record_def u_def Let_def)
  show ?thesis unfolding made records_outcome_def
    using history [of u 0] by (simp add: push_history_def Let_def u_def)
qed

lemma awaits_stale:
  assumes "om_find (rt_routes rt) (at_route a) = Some r" and "rr_id r = at_route a" and "\<not> at_resolved a"
  shows "\<not> completion_stale rt a r \<and> next_lifecycle (rr_lifecycle r)
      (if at_operation a = OP_Withdraw then withdraw_event (ps_outcome x) else install_event (ps_outcome x)) = Some l \<longleftrightarrow>
    awaits rt a r \<and> l = fst (outcome_spec (at_operation a = OP_Withdraw) (ps_outcome x))"
  using assms
  by (auto simp: completion_stale_def awaits_def outcome_transition om_contains_def)

text \<open>What becomes of an outcome that is awaited.\<close>

definition outcome_record :: "runtime \<Rightarrow> programming_attempt_record \<Rightarrow> programming_result \<Rightarrow> route_record \<Rightarrow> route_record" where
  "outcome_record rt a result r =
     completed_record rt a result
       (if at_operation a = OP_Withdraw then withdraw_event (ps_outcome result) else install_event (ps_outcome result))
       (fst (outcome_spec (at_operation a = OP_Withdraw) (ps_outcome result))) r"

lemma awaited_run:
  assumes "rt_inv rt" and "om_find (rt_attempts rt) (ps_attempt result) = Some a" and "awaits rt a r"
  shows "apply_completion_locked result rt =
    (case persist [outcome_record rt a result r] [] [a\<lparr>at_resolved := True\<rparr>] rt of
       (Inl _, rt1) \<Rightarrow> (CD_LifecycleRejected, rt1)
     | (Inr _, rt1) \<Rightarrow>
         (CD_Applied,
          (resolve_attempt (a\<lparr>at_resolved := True\<rparr>) (commit (outcome_record rt a result r) rt1))
            \<lparr>rt_counters := counts_outcome (at_operation a = OP_Withdraw) (ps_outcome result) (rt_counters rt1)\<rparr>))"
proof -
  have found: "om_find (rt_routes rt) (at_route a) = Some r" "\<not> at_resolved a" using assms(3) by (simp_all add: awaits_def)
  then have "rr_id r = at_route a" using assms(1) by (auto simp: rt_inv_def index_inv_def table_wf_def)
  with found assms(3) have go: "\<not> completion_stale rt a r" "next_lifecycle (rr_lifecycle r)
      (if at_operation a = OP_Withdraw then withdraw_event (ps_outcome result) else install_event (ps_outcome result)) =
      Some (fst (outcome_spec (at_operation a = OP_Withdraw) (ps_outcome result)))"
    using awaits_stale [of rt a r result] by blast+
  define u where "u = outcome_record rt a result r"
  have lifecycle: "rr_lifecycle u = fst (outcome_spec (at_operation a = OP_Withdraw) (ps_outcome result))"
    by (simp add: u_def outcome_record_def completed_record_def push_history_def Let_def)
  have counters: "rt_counters (resolve_attempt b (commit u rt1)) = rt_counters rt1" for b rt1
    by (simp add: resolve_attempt_def commit_def index_insert_def index_erase_def Let_def split: option.splits)
  have counted: "(if at_operation a = OP_Withdraw then
        (if rr_lifecycle u = LC_Withdrawn then bump ct_withdrawals_update x else x)
      else if install_classification (ps_outcome result) = AC_Ambiguous
        then bump ct_programming_ambiguous_update (bump ct_programming_applied_update x)
        else bump ct_programming_applied_update x) =
      x\<lparr>rt_counters := counts_outcome (at_operation a = OP_Withdraw) (ps_outcome result) (rt_counters x)\<rparr>" for x
    unfolding lifecycle
    by (cases "ps_outcome result"; cases "at_operation a = OP_Withdraw") (simp_all add: counts_outcome_def bump_def Let_def)
  obtain st rt1 where kept: "persist [u] [] [a\<lparr>at_resolved := True\<rparr>] rt = (st, rt1)" by fastforce
  have "apply_completion_locked result rt = (case st of Inl _ \<Rightarrow> (CD_LifecycleRejected, rt1)
      | Inr _ \<Rightarrow> (CD_Applied,
          if at_operation a = OP_Withdraw then
            (if rr_lifecycle u = LC_Withdrawn
             then bump ct_withdrawals_update (resolve_attempt (a\<lparr>at_resolved := True\<rparr>) (commit u rt1))
             else resolve_attempt (a\<lparr>at_resolved := True\<rparr>) (commit u rt1))
          else if install_classification (ps_outcome result) = AC_Ambiguous
            then bump ct_programming_ambiguous_update (bump ct_programming_applied_update
              (resolve_attempt (a\<lparr>at_resolved := True\<rparr>) (commit u rt1)))
            else bump ct_programming_applied_update (resolve_attempt (a\<lparr>at_resolved := True\<rparr>) (commit u rt1))))"
    using assms(2) found go
    unfolding apply_completion_locked_def
    by (cases st) (simp_all add: outcome_record_def [symmetric] u_def [symmetric] Let_def kept)
  then show ?thesis unfolding u_def [symmetric] kept counted counters by (simp split: sum.splits)
qed

lemma persist_fails_store: "persist us vs as rt = (Inl e, rt') \<Longrightarrow> rt_store rt \<noteq> None"
  by (auto simp: persist_def split: option.splits)

lemma awaited_outcome:
  assumes "rt_inv rt" and "counter_exact rt" and "om_find (rt_attempts rt) (ps_attempt result) = Some a"
    and "awaits rt a r" and "apply_completion_locked result rt = (d, rt')"
  shows "d = CD_Applied \<and>
      (\<exists>r'. records_outcome rt a result r r' \<and> om_find (rt_routes rt') = (om_find (rt_routes rt))(at_route a \<mapsto> r')) \<and>
      om_find (rt_attempts rt') = (om_find (rt_attempts rt))(ps_attempt result \<mapsto> a\<lparr>at_resolved := True\<rparr>) \<and>
      rt_outstanding rt' + 1 = rt_outstanding rt \<and>
      rt_counters rt' = counts_outcome (at_operation a = OP_Withdraw) (ps_outcome result) (rt_counters rt) \<and>
      rt_revocations rt' = rt_revocations rt \<and> rt_epoch rt' = rt_epoch rt \<and>
      rt_registrations rt' = rt_registrations rt \<and> rt_fenced_boots rt' = rt_fenced_boots rt \<and>
      rt_administrative_fences rt' = rt_administrative_fences rt
    \<or> d = CD_LifecycleRejected \<and> core rt' = core rt \<and> rt_store rt \<noteq> None"
proof -
  define u where "u = outcome_record rt a result r"
  obtain st rt1 where kept: "persist [u] [] [a\<lparr>at_resolved := True\<rparr>] rt = (st, rt1)" by fastforce
  have found: "om_find (rt_routes rt) (at_route a) = Some r" "\<not> at_resolved a"
    "at_desired_generation a = rr_generation r" "at_programming_generation a = rr_programming_generation r"
    using assms(4) by (simp_all add: awaits_def)
  have records: "records_outcome rt a result r u"
    unfolding u_def outcome_record_def by (rule completed_records [OF found(3,4)])
  have ids: "rr_id u = at_route a" "at_attempt a = ps_attempt result"
    using records found(1) assms(1,3)
    by (auto simp: records_outcome_def rt_inv_def index_inv_def table_wf_def attempts_inv_def)
  have "a \<in> set (filter (\<lambda>a. \<not> at_resolved a) (om_values (rt_attempts rt)))"
    using map_of_SomeD [OF assms(3)] found(2) by (force simp: om_values_def)
  from length_pos_if_in_set [OF this] have some: "0 < rt_outstanding rt"
    using assms(2) by (simp only: counter_exact_def unresolved_def)
  note same = persist_core [OF kept]
  have counters: "rt_counters rt1 = rt_counters rt"
    using kept by (auto simp: persist_def Let_def split: option.splits if_splits prod.splits)
  show ?thesis
  proof (cases st)
    case (Inl e)
    with kept assms(5) awaited_run [OF assms(1,3,4)] same show ?thesis
      by (auto simp: u_def [symmetric] dest: persist_fails_store)
  next
    case (Inr x)
    with kept assms(5) awaited_run [OF assms(1,3,4)]
    have "d = CD_Applied" and rt': "rt' = (resolve_attempt (a\<lparr>at_resolved := True\<rparr>) (commit u rt1))
        \<lparr>rt_counters := counts_outcome (at_operation a = OP_Withdraw) (ps_outcome result) (rt_counters rt1)\<rparr>"
      by (simp_all add: u_def [symmetric])
    with records ids some found(2) assms(3) core_eqD [OF same] counters show ?thesis
      by (auto simp: resolve_attempt_def fun_eq_iff Let_def intro!: exI [of _ u])
  qed
qed

lemma applied_awaited:
  assumes "rt_inv rt" and "apply_completion_locked result rt = (CD_Applied, rt')"
  shows "\<exists>a r. om_find (rt_attempts rt) (ps_attempt result) = Some a \<and> awaits rt a r"
proof -
  obtain a r l where a: "om_find (rt_attempts rt) (ps_attempt result) = Some a" "\<not> at_resolved a"
      "om_find (rt_routes rt) (at_route a) = Some r" "\<not> completion_stale rt a r"
      "next_lifecycle (rr_lifecycle r) (outcome_event a result) = Some l"
    using completion_applied [OF assms(2)] by blast
  moreover have "rr_id r = at_route a" using assms(1) a(3) by (auto simp: rt_inv_def index_inv_def table_wf_def)
  ultimately show ?thesis using awaits_stale [of rt a r result l] by (auto simp: outcome_event_def)
qed

end
