(* ===== verification/RF_TwoRoutes.thy ===== *)
theory RF_TwoRoutes
  imports RF_Samples
begin

text \<open>
  \<^bold>\<open>Two live routes.\<close> The sample publisher publishes a second destination while its first route is
  being installed: a reachable state that holds two routes, of different keys.
\<close>

definition second_key :: route_key where
  "second_key = sample_key\<lparr>rk_destination := (rk_destination sample_key)\<lparr>dst_token := ''n''\<rparr>\<rparr>"

definition second_request :: publish_request where
  "second_request = sample_request\<lparr>pq_key := second_key, pq_lineage := 4\<rparr>"

definition second_draw :: "programming_attempt_id \<times> runtime" where
  "second_draw = draw_attempt_id sample_published"

definition second_base :: route_record where
  "second_base = sample_base\<lparr>rr_id := 4, rr_key := second_key\<rparr>"

definition second_route :: route_record where
  "second_route = published_record (snd second_draw) second_request None LC_Installing 2 (fst second_draw) second_base"

definition second_attempt :: programming_attempt_record where
  "second_attempt = make_attempt (snd second_draw) (fst second_draw) second_route OP_Install"

definition sample_two :: runtime where
  "sample_two =
     bump ct_publications_update
       (bump ct_programming_dispatches_update
          (record_attempt second_attempt (commit second_route (snd second_draw))))"

lemma second_draw_fields [simp]:
  "rt_config (snd second_draw) = sample_config" "rt_backend (snd second_draw) = Some ''b''"
  "rt_epoch (snd second_draw) = 1" "rt_opened (snd second_draw)" "rt_routes (snd second_draw) = [(3, sample_route)]"
  "rt_revocations (snd second_draw) = []" "rt_store (snd second_draw) = None" "rt_outstanding (snd second_draw) = 1"
  by (auto simp: second_draw_def draw_attempt_id_def split: option.splits)

lemma second_key_valid: "route_key_is_valid second_key" "rk_fabric second_key = ''f''" "second_key \<noteq> sample_key"
  by (simp_all add: second_key_def sample_key_def route_key_is_valid_def)

lemma second_route_fields [simp]:
  "rr_id second_route = 4" "rr_key second_route = second_key" "rr_generation second_route = 1"
  "rr_authority_generation second_route = 1" "rr_invalidation_watermark second_route = 1"
  "rr_programming_generation second_route = 2" "rr_lifecycle second_route = LC_Installing"
  "rr_binding second_route = sample_binding"
  "rr_provenance second_route = rr_provenance sample_route"
  "rr_observation second_route = observation_default\<lparr>ob_backend := ''b''\<rparr>"
  "rr_applied second_route =
     applied_default\<lparr>ap_classification := AC_Pending, ap_attempt := fst second_draw,
       ap_programming_generation := 2, ap_programmed_generation := 1,
       ap_programmed_authority_generation := 1, ap_backend := ''b''\<rparr>"
  "rr_supersession second_route = supersession_default" "rr_retirement second_route = retirement_default"
  "rr_history second_route = rr_history sample_route"
  by (simp_all add: second_route_def published_record_def push_history_def second_base_def sample_base_def second_request_def
      Let_def sample_defs binding_path_authority_def backend_id_of_def sample_history)

lemma validate_second_route: "validate_route_record second_route sample_limits = Inr ()"
proof -
  have "validate_fields second_route sample_limits = Inr ()"
    using second_key_valid sample_binding_valid
    by (simp add: validate_fields_def sample_history sample_limits_def counter_is_valid_def is_lifecycle_value_def kRouteLifecycleCount_def
        applied_default_def observation_default_def supersession_default_def retirement_default_def
        kMaxDiagnosticChars_def ok_status_def)
  moreover have "validate_history (rr_generation second_route) None (rr_history second_route) = Inr ()"
    by (simp add: sample_history counter_is_valid_def ok_status_def)
  moreover have "validate_lifecycle_evidence second_route = Inr ()"
    by (simp add: validate_lifecycle_evidence_def retirement_default_def ok_status_def)
  ultimately show ?thesis by (simp add: validate_route_record_def)
qed

lemma publish_commit_second:
  "\<exists>p. publish_commit second_request None False second_base sample_published = (Dispatching p, sample_two)"
proof -
  have start: "apply_event (rr_lifecycle second_base) EV_BeginInstall = (Inr (), LC_Installing)"
    by (simp add: second_base_def sample_base_def apply_event_def table_simps ok_status_def)
  have advance: "advance_programming second_base = Inr 2"
    using sample_counter by (simp add: advance_programming_def second_base_def sample_base_def counter_next_def)
  have dispatch: "commit_dispatch second_route second_attempt (snd second_draw) =
      (Inr (), bump ct_programming_dispatches_update (record_attempt second_attempt (commit second_route (snd second_draw))))"
    using validate_second_route
    by (simp add: commit_dispatch_def persist_def sample_config_def sample_limits_def ok_status_def)
  obtain i rt where draw: "second_draw = (i, rt)" by fastforce
  note made = second_route_def [unfolded draw fst_conv snd_conv, symmetric]
    second_attempt_def [unfolded draw fst_conv snd_conv, symmetric] dispatch [unfolded draw fst_conv snd_conv]
  have "draw_attempt_id sample_published = (i, rt)" using draw by (simp add: second_draw_def)
  then show ?thesis
    by (simp add: publish_commit_def start advance Let_def made sample_two_def draw)
qed

lemma sample_published_namespaces [simp]: "rt_namespace_counts sample_published = [(''n'', 1)]"
  by (simp add: sample_published_def bump_def record_attempt_def Let_def commit_def index_insert_def insert_namespace_def
      sample_key_def)

lemma publish_second:
  "\<exists>p. publish_begin sample_query False second_request sample_published = (Dispatching p, sample_two)"
proof -
  have "publish_validate second_request = Inr ()"
    using second_key_valid sample_binding_valid
    by (simp add: publish_validate_def validate_common_def second_request_def sample_request_def counter_is_valid_def
        kMaxDiagnosticChars_def ok_status_def)
  moreover have "authorize sample_published ''p'' 5 = Inr sample_registration"
    by (simp add: authorize_registered om_contains_def sample_registration_def)
  moreover have "check_scope sample_registration second_key sample_published = (Inr (), sample_published)"
    using second_key_valid
    by (simp add: check_scope_def covers_def sample_registration_def sample_scope_def ok_status_def)
  moreover have "publish_lookup sample_published second_key = None"
    using second_key_valid by (simp add: publish_lookup_def)
  moreover have "path_check sample_query False sample_binding sample_published = (Inr (), sample_published)"
    by (simp add: path_check_def sample_binding_def sample_query_def usable_def Let_def ok_status_def)
  moreover have "publish_create second_request sample_published = Inr second_base"
    by (simp add: publish_create_def om_contains_def sample_config_def sample_limits_def apply_event_def table_simps
        ok_status_def second_request_def sample_request_def second_base_def sample_base_def second_key_def sample_key_def)
  ultimately show ?thesis
    using publish_commit_second
    by (simp add: publish_begin_def publish_new_def second_request_def sample_request_fields)
qed

lemma sample_two_reachable: "reachable False sample_two"
  using publish_second reachable.continue [OF sample_published_reachable step.publish] by (metis (no_types))

lemma sample_two_routes: "om_find (rt_routes sample_two) 3 = Some sample_route" "om_find (rt_routes sample_two) 4 = Some second_route"
  by (simp_all add: sample_two_def)

end
