(* ===== verification/Spec2Isabelle.thy ===== *)
theory Spec2Isabelle
  imports RF_ToolSamples RF_LifeSamples RF_ThreadRuns RF_Shutdown RF_Completion RF_TwoRoutes
begin

text \<open>
  \<^bold>\<open>Route Fabric: a verification development.\<close>

  Route Fabric is a C++ library that keeps the authoritative table of routes of a fabric.
  Publishers register with a worker boot and publish routes for keys; the runtime checks
  their authority, moves each route through a lifecycle, programs a backend, applies the
  backend's outcomes, reacts to changes of path authority, persists what it decides and
  recovers from its store. A coordinator process serves the runtime over a wire protocol to
  publisher processes and to an operator's command line. This development translates the
  library under \<open>src/src\<close> and \<open>src/include/routefabric\<close> and the programs under
  \<open>src/tools\<close> into HOL functions and proves the properties their users rely on.

  \<^bold>\<open>Theories and the code they model.\<close>
  \<^item> \<open>RF_Prelude\<close>, \<open>RF_Containers\<close>: machine types, the result type \<open>'a expected\<close>
    (\<open>Inl\<close> a status code), and the ordered containers (\<open>std::map\<close>, \<open>std::set\<close>) as
    sorted association lists behind the locale of an ordered map.
  \<^item> \<open>RF_Error\<close> (\<open>error\<close>, \<open>limits\<close>), \<open>RF_Lifecycle\<close> (\<open>lifecycle\<close>: the table of
    transitions and its lookup), \<open>RF_Encoding\<close> (\<open>encoding\<close>: byte writers and readers,
    decimals), \<open>RF_Hash\<close> (\<open>hash\<close>: CRC-32C, FNV-1a, digests, the xoshiro source).
  \<^item> \<open>RF_Ids\<close> (\<open>ids\<close>), \<open>RF_Destination\<close> (\<open>destination\<close>), \<open>RF_RouteKey\<close>
    (\<open>route_key\<close>), \<open>RF_Record\<close> (\<open>record\<close>): the data of a route with validation and
    codecs. Every codec is an interpretation of one locale: reading accepts exactly what
    writing produces for well-formed values.
  \<^item> \<open>RF_PathAuthority\<close>, \<open>RF_Backend\<close>: the two interfaces the runtime calls, each a locale
    interpreted on the synthetic implementation of the repository. \<open>RF_HostBackend\<close>
    (\<open>real_backend\<close>): the read-only adapter of the host's routing table, a second interpretation.
  \<^item> \<open>RF_Persistence\<close> (\<open>persistence\<close>: frames, snapshot images, journal, loading) and
    \<open>RF_Durability\<close> (what a load returns after saves, appends and torn appends); \<open>RF_Files\<close> (the
    file helpers of \<open>persistence\<close> on a disk that can fail at every call, and the store on its two
    files);
    \<open>RF_Mirror\<close> (with a journal, what a load returns is the state the runtime holds: kept by the
    sections that commit a dispatch and apply an outcome).
  \<^item> \<open>RF_Snapshot\<close> (\<open>snapshot\<close>: snapshots, sets, differences, explanations).
  \<^item> \<open>RF_Runtime\<close>, \<open>RF_Operations\<close>, \<open>RF_Control\<close>, \<open>RF_Queries\<close> (\<open>runtime\<close>): the state
    as a record, the index maintenance, publication, withdrawal, revalidation, retirement,
    revocation, completion, opening and recovery, registration, fencing, epochs, path
    authority changes, reconciliation, and the queries. A method that releases the lock
    around a backend call is split at that point into its locked sections.
  \<^item> \<open>RF_Wire\<close>, \<open>RF_Messages\<close> (\<open>wire\<close>): frames and the payloads of all messages, every codec an
    interpretation of the same locale as the codecs of records.
  \<^item> \<open>RF_Server\<close>, \<open>RF_Session\<close> (\<open>server\<close>): what a session does with a request (\<open>handle\<close>), the
    frame reader (\<open>drain\<close>, \<open>session_loop\<close>), the end of a session and the admission of
    sessions. \<open>RF_Requests\<close>: a request as a task that goes on by one locked section of the runtime or
    one call of the backend at a time; without interruption it is \<open>handle\<close>. \<open>RF_Socket\<close>
    (\<open>socket_internal\<close>: sockets, one receive, the waiter) and \<open>RF_Lifetime\<close>
    (\<open>server\<close>: \<open>Start\<close>, \<open>Stop\<close>, the accept thread and the session threads, each as a machine whose
    moves are what it does between two points at which other threads can interfere).
  \<^item> \<open>RF_Client\<close> (\<open>client\<close>, \<open>socket_internal\<close>): the client's operations over socket calls,
    whose contract is the locale \<open>stream_socket\<close>.
  \<^item> \<open>RF_PathsFile\<close> (the file of paths that the tools share), \<open>RF_Tools\<close>, \<open>RF_Cli\<close>
    (\<open>tools/rf_cli.cpp\<close>: options, store, path and backend commands, the route commands in direct
    and in wire mode), \<open>RF_PublisherTool\<close> (\<open>tools/rf_publisher.cpp\<close>), \<open>RF_Coordinator\<close>
    (\<open>tools/rf_coordinator.cpp\<close> up to the line \<open>ready\<close>) and \<open>RF_Shutdown\<close> (the threads of the
    coordinator after it, with the call of \<open>Stop\<close> move by move). A process is a function from its arguments and the files to what it
    prints, how it ends and the files it leaves.

  \<^bold>\<open>Proofs.\<close>
  \<^item> \<open>RF_Invariants\<close>: the indexes as functions of the route table, their maintenance by
    \<open>commit\<close>, and that the runtime's own check decides the invariant.
  \<^item> \<open>RF_Steps\<close>: the abstract specification, a relation of permitted effects on the
    authoritative state, with the invariants it keeps. \<open>RF_Refinement\<close>, \<open>RF_Refinement2\<close>:
    every locked section is a sequence of effects. \<open>RF_Recovery\<close>: opening establishes the
    invariant.
  \<^item> \<open>RF_Reachable\<close>: the transition system whose steps are the locked sections, so that all
    interleavings of operations are covered; whole operations are runs of it.
    \<open>RF_Behaviour\<close>: what single operations answer and change. \<open>RF_Completion\<close>: the specification of a
    backend outcome, when it is awaited and what it records, apart from the code's helpers.
  \<^item> \<open>RF_Session\<close>: a session does not depend on how its bytes arrive, every request is a run
    of the runtime, sessions are bounded. \<open>RF_Remote\<close>: a connection of a client to a session,
    as an interpretation of the socket contract; an exchange is one call of \<open>handle\<close>.
  \<^item> \<open>RF_LifetimeFacts\<close>, \<open>RF_Stopping\<close>, \<open>RF_Handles\<close>: all interleavings of the server's threads;
    their invariant, a rank that every move of a stop lowers, that nothing but a missing wake-up
    connection can hold a stop up, and who owns which socket handle, under the contract of the
    operating system (the locale \<open>listening_system\<close>). \<open>RF_ThreadRuns\<close>: the moves of all threads, section
    by section, are runs of the runtime as long as none revokes a superseded route; what a registration between
    the two sections of a session's end does. \<open>RF_Net\<close>: a small network as an instance of
    the contract, and on it the runs of a stop that the code does not guard against.
  \<^item> \<open>RF_CrashSafety\<close>: the replay of a journal is idempotent, and every state of the files that a
    crash can leave during an append or a compaction loads to the state before or after.
  \<^item> \<open>RF_ToolFacts\<close>: edits of the path file take effect in the next coordinator, the command line
    in wire mode cannot act, differences of stores are exact, a serving coordinator stays
    reachable.
  \<^item> \<open>RF_Samples\<close>, \<open>RF_RemoteSamples\<close>, \<open>RF_ToolSamples\<close>, \<open>RF_MirrorSamples\<close>, \<open>RF_TwoRoutes\<close>, \<open>RF_LifeSamples\<close>: concrete states on which the properties
    are applied.
  \<^item> This theory: the properties.

  \<^bold>\<open>Modelling decisions.\<close> Generations, epochs and counters are 64-bit words, identifiers 128-bit
  words. The loop that draws an identifier is a partial function with a proof that it returns
  for every seeded source. The journal replay and the text parsers are total by measures on the
  remaining input. The operating system answers the store through a list of results, one for each
  operation, and with success when the list is empty; \<open>RF_Files\<close> shows that this is what the file
  calls amount to. Path authority queries are an argument
  of the operations, and the backend is a record of functions over its own state. The flag
  \<open>violated\<close> stands for the re-entrancy guard. Under \<open>strict\<close>, steps draw identifiers that are not
  in use; without it the statements that need fresh identifiers are not claimed. One section,
  the revocation of a superseded route, breaks the key index; it is left out of the steps and
  stated separately.

  The frame magic and the protocol version come from a generated header and are the parameter
  \<open>wc\<close>. In \<open>RF_Session\<close> a session sees the chunks its receives return, and a request to stop is taken to
  arrive while the session waits; in \<open>RF_Lifetime\<close> it can arrive at any move. The texts the server puts into error answers are the parameter
  \<open>sv_text\<close>. The routing table of the host, the version text and the seeds of the system are
  parameters of the tools; a printed error is its line without the detail text (\<open>Detailed\<close>).
  The files of a store and text files are kept apart, so a text file never is a store file.

  A crash is the end of the process: what the operating system has accepted stays. In the threads
  of the server the two locked blocks, the atomic flags and each call of the operating system are
  moves of their own, and so is every locked section of the runtime and every call of the backend that a
  request makes, and each of the two sections (lookup and fence) at the end of a session. In \<open>RF_Session\<close>, where
  one session is alone, a request is one step of \<open>handle\<close> and \<open>finish_session\<close> is one step. A wait on the condition variable ends when its condition holds. The variable
  \<open>lf_woken\<close> is no variable of the code; it records that the wake-up connection was made.

  \<^bold>\<open>Not modelled.\<close> Message texts of errors and the usage texts; wall-clock time, mutexes and
  threads below the granularity of a locked section; the system calls behind sockets and files, which are
  parameters or a disk with faults; the system calls that read the host's routing table and
  format its addresses; the loss of data that the system has accepted but not yet written to its
  medium; the examples and benchmarks, which only call the public interface.
\<close>

unbundle bit_operations_syntax

section \<open>Lifecycle\<close>

text \<open>
  No other way into the installed state. The transition table leads to \<open>Installed\<close> from
  \<open>Installing\<close> alone, and only on a backend answer that the route is applied.
\<close>

lemma installed_only_by_backend:
  "next_lifecycle s e = Some LC_Installed \<longleftrightarrow>
     s = LC_Installing \<and> (e = EV_BackendApplied \<or> e = EV_BackendIdempotent)"
  unfolding next_lifecycle_iff kTransitions_def by auto

text \<open>
  Retirement is final. Whatever events follow, a retired lifecycle stays retired, and a
  superseded one stays superseded or becomes retired.
\<close>

lemma retirement_absorbs:
  "foldl (\<lambda>s e. snd (apply_event s e)) LC_Retired events = LC_Retired \<and>
   foldl (\<lambda>s e. snd (apply_event s e)) LC_Superseded events \<in> {LC_Superseded, LC_Retired}"
proof -
  have retired: "snd (apply_event LC_Retired e) = LC_Retired" for e
    by (cases e) (simp_all add: apply_event_def table_simps)
  have superseded: "snd (apply_event LC_Superseded e) \<in> {LC_Superseded, LC_Retired}" for e
    by (cases e) (simp_all add: apply_event_def table_simps)
  have "foldl (\<lambda>s e. snd (apply_event s e)) LC_Retired events = LC_Retired"
    by (induction events) (simp_all add: retired)
  moreover have "s \<in> {LC_Superseded, LC_Retired} \<Longrightarrow>
      foldl (\<lambda>s e. snd (apply_event s e)) s events \<in> {LC_Superseded, LC_Retired}" for s
    by (induction events arbitrary: s) (use retired superseded in auto)
  ultimately show ?thesis by blast
qed

section \<open>Encodings and digests\<close>

text \<open>
  C39: the table-driven CRC-32C computes the bit-by-bit definition of the polynomial.
\<close>

theorem crc32c_table_correct: "crc32c_compute data = crc32c_reference data"
proof -
  have "crc32c_update_byte = crc32c_bitwise_byte"
    by (intro ext) (rule crc32c_update_byte_bitwise)
  moreover have ones: "(0xFFFFFFFF :: u32) = NOT 0" by simp
  moreover have "x XOR NOT 0 = NOT x" for x :: u32 by simp
  ultimately show ?thesis
    by (simp only: crc32c_compute_def crc32c_reference_def crc32c_update_def crc32c_value_def crc32c_init_def)
qed

text \<open>
  The checksum detects every corruption of a single byte, wherever it is.
\<close>

lemma crc32c_detects_byte:
  "crc32c_compute (before @ x # after) = crc32c_compute (before @ y # after) \<longleftrightarrow> x = y"
  unfolding crc32c_compute_def crc32c_value_inject
  by (auto simp: crc32c_update_append crc32c_update_def [of _ "_ # _"] crc32c_update_def [of _ after, symmetric]
      dest!: crc32c_update_inject crc32c_byte_inject_byte)

text \<open>
  The destination codec is exact. Reading succeeds precisely on the bytes written for a
  canonical destination, so there is no second encoding of any destination.
\<close>

lemma destination_codec_exact:
  "rd_destination m data = Some (d, rest) \<longleftrightarrow> destination_wf m d \<and> data = w_destination d @ rest"
  using destination_codec.read_data [of m data d rest] destination_codec.read_wf [of m data d rest]
    destination_codec.read_write [of m d rest] by blast

text \<open>
  C38: the route record codec is exact: reading succeeds precisely on the bytes written for a
  record that passes validation within the limits.
\<close>

theorem record_codec_exact:
  "rd_route_record limits data = Some (r, rest) \<longleftrightarrow> route_record_wf limits r \<and> data = w_route_record r @ rest"
  using route_record_codec.read_data [of limits data r rest] route_record_codec.read_wf [of limits data r rest]
    route_record_codec.read_write [of limits r rest] by blast

section \<open>Persistence\<close>

text \<open>
  C29: snapshot images are strict. An image decodes to a state precisely when it is the
  encoding of that state and the state is well formed; every other byte string is refused.
\<close>

theorem snapshot_image_exact:
  "DecodeSnapshot img limits = Some state \<longleftrightarrow> state_wf limits state \<and> img = EncodeSnapshot state limits"
  using DecodeSnapshot_canonical DecodeSnapshot_encoded by blast

section \<open>The runtime: what every reachable state satisfies\<close>

text \<open>
  C1: the consistency check of the runtime does not fail. In every state reachable from a runtime
  that was opened on a store with consistent contents, whatever the interleaving of the locked sections of its
  operations other than the revocation of a superseded route, and with identifiers that are not drawn
  twice, all derived indexes agree with the route table, every programming attempt names a
  route, and the counter of outstanding attempts is exact. (The excluded section breaks the key
  index, \<open>revoked_superseded_takes_key\<close>.)
\<close>

theorem reachable_indexes_valid: "reachable True rt \<Longrightarrow> ValidateIndexes rt = ok_status"
  using rt_inv_validate reachable_rt_inv reachable_exact by (auto simp: counter_exact_def)

theorem reachable_indexes_valid_witness: "ValidateIndexes sample_installed = ok_status"
  by (rule reachable_indexes_valid [OF sample_installed_reachable])

text \<open>
  C25: the consistency check decides the index invariant. Over well-formed containers it
  succeeds precisely when the five indexes are the ones derived from the route table, every
  attempt names a stored route and the outstanding counter is the number of unresolved attempts.
\<close>

theorem validate_indexes_decides:
  "containers_wf rt \<Longrightarrow>
   ValidateIndexes rt = ok_status \<longleftrightarrow>
     indexes (om_find (rt_routes rt)) rt \<and> attempts_routed rt \<and> unresolved rt = rt_outstanding rt"
  by (rule ValidateIndexes_iff)

theorem validate_indexes_decides_witness:
  "ValidateIndexes sample_published = ok_status \<longleftrightarrow>
     indexes (om_find (rt_routes sample_published)) sample_published \<and> attempts_routed sample_published \<and>
     unresolved sample_published = rt_outstanding sample_published"
  by (rule validate_indexes_decides [OF rt_inv_containers [OF reachable_rt_inv [OF sample_published_reachable]]])

text \<open>
  C2: a key has one owner. In a runtime opened on a store with consistent contents, short of
  revoking a superseded route, two stored routes that are not superseded have the same key only
  if they are the same route, and the key index names each of them under its key.
\<close>

theorem one_route_per_key:
  assumes "reachable s rt"
    and "om_find (rt_routes rt) i = Some a" and "om_find (rt_routes rt) j = Some b"
    and "rr_lifecycle a \<noteq> LC_Superseded" and "rr_lifecycle b \<noteq> LC_Superseded"
  shows "(rr_key a = rr_key b \<longleftrightarrow> i = j) \<and>
    om_find (rt_key_index rt) (rr_key a) = Some i \<and> om_find (rt_key_index rt) (rr_key b) = Some j"
proof -
  note owner = inv_key_index [OF reachable_rt_inv [OF assms(1)]]
  have "om_find (rt_key_index rt) (rr_key a) = Some i" and "om_find (rt_key_index rt) (rr_key b) = Some j"
    using assms owner [of "rr_key a"] owner [of "rr_key b"] by auto
  moreover from this have "rr_key a = rr_key b \<Longrightarrow> i = j" by simp
  moreover have "i = j \<Longrightarrow> rr_key a = rr_key b" using assms(2,3) by simp
  ultimately show ?thesis by blast
qed

theorem one_route_per_key_witness:
  "rr_key sample_route \<noteq> rr_key second_route \<and> om_find (rt_key_index sample_two) (rr_key sample_route) = Some 3 \<and>
   om_find (rt_key_index sample_two) (rr_key second_route) = Some 4"
  using one_route_per_key [OF sample_two_reachable sample_two_routes] by simp

text \<open>
  C3: an installed route is one the backend confirmed. In every reachable state a record in
  the installed state carries the backend's answer for exactly the generation and the
  programming generation it asserts.
\<close>

theorem installed_is_confirmed:
  assumes "reachable s rt" and "om_find (rt_routes rt) i = Some r" and "rr_lifecycle r = LC_Installed"
  shows "reports_applied (rr_applied r) \<and> ap_programmed_generation (rr_applied r) = rr_generation r \<and>
    ap_programming_generation (rr_applied r) = rr_programming_generation r"
  using reachable_rt_inv [OF assms(1)] assms(2,3) by (auto simp: rt_inv_def records_inv_def installed_evidence_def)

theorem installed_is_confirmed_witness:
  "\<exists>r. om_find (rt_routes sample_installed) 3 = Some r \<and> reports_applied (rr_applied r) \<and>
     ap_programmed_generation (rr_applied r) = rr_generation r"
  using sample_installed_route installed_is_confirmed [OF sample_installed_reachable, of 3] by blast

text \<open>
  C32: the runtime stays within its configured limits. In every reachable state this holds of the number
  of routes, the number of outstanding programming attempts and the history of every route.
\<close>

theorem reachable_within_limits:
  assumes "reachable s rt"
  shows "length (rt_routes rt) \<le> max_routes (rt_limits rt) \<and>
    unresolved rt \<le> rt_outstanding rt \<and> rt_outstanding rt \<le> max_outstanding_programming (rt_limits rt) \<and>
    list_all (\<lambda>r. length (rr_history r) \<le> cf_history_limit (rt_config rt)) (om_values (rt_routes rt))"
proof -
  have inv: "rt_inv rt" using assms by (rule reachable_rt_inv)
  then have "om_wf (rt_routes rt)" by (simp add: rt_inv_def index_inv_def)
  then have "\<forall>r \<in> set (om_values (rt_routes rt)). \<exists>i. om_find (rt_routes rt) i = Some r"
    by (force simp: om_find_iff om_values_def)
  then show ?thesis
    using inv unfolding rt_inv_def records_inv_def attempts_inv_def list_all_iff by blast
qed

theorem reachable_within_limits_witness:
  "length (rt_routes sample_published) \<le> 4 \<and> rt_outstanding sample_published \<le> 4"
  using reachable_within_limits [OF sample_published_reachable [of True]]
  by (simp add: sample_config_def sample_limits_def)

text \<open>
  C4: refinement. On a reachable state every locked section is a sequence of the permitted effects: no
  section changes the authoritative state in any other way. The one exception is the
  revocation of a superseded route, which changes no other route, no other revocation, no attempt
  and no authority (but the key index).
\<close>

theorem sections_refine_effects:
  assumes "reachable s rt" and "locked_section s rt rt'"
  shows "effects s rt rt' \<or>
    (\<exists>request x r. RevokeRoute request rt = (x, rt') \<and> om_find (rt_routes rt) (lq_route request) = Some r \<and>
       rr_lifecycle r = LC_Superseded \<and>
       (\<forall>i. i = lq_route request \<or> om_find (rt_routes rt') i = om_find (rt_routes rt) i \<and>
          om_find (rt_revocations rt') i = om_find (rt_revocations rt) i) \<and>
       rt_attempts rt' = rt_attempts rt \<and> rt_outstanding rt' = rt_outstanding rt \<and> rt_epoch rt' = rt_epoch rt \<and>
       rt_registrations rt' = rt_registrations rt \<and> rt_fenced_boots rt' = rt_fenced_boots rt \<and>
       rt_administrative_fences rt' = rt_administrative_fences rt)"
  using assms(2)
proof cases
  case permitted
  then show ?thesis using step_effects reachable_rt_inv [OF assms(1)] by blast
next
  case (revoke_superseded request x r)
  then show ?thesis using RevokeRoute_others [OF reachable_rt_inv [OF assms(1)] revoke_superseded(1)] by blast
qed

theorem sections_refine_effects_witness: "effects True sample_published sample_installed"
  using sections_refine_effects [OF sample_published_reachable [of True] locked_section.permitted [OF step.complete [OF complete_sample]]]
  by (auto split: if_splits)

text \<open>
  C5: nothing goes back. Along any run a route keeps its identity and its key, its three
  generations never decrease, its binding and provenance change only together with its
  generation, and a retired or superseded lineage never comes back.
\<close>

theorem generations_never_regress:
  assumes "reachable True rt" and "steps True rt rt'" and "om_find (rt_routes rt) i = Some q"
  shows "\<exists>r. om_find (rt_routes rt') i = Some r \<and> rr_key r = rr_key q \<and>
    rr_generation q \<le> rr_generation r \<and> rr_authority_generation q \<le> rr_authority_generation r \<and>
    rr_programming_generation q \<le> rr_programming_generation r \<and>
    (rr_generation r \<noteq> rr_generation q \<or> rr_binding r = rr_binding q \<and> rr_provenance r = rr_provenance q) \<and>
    (ended (rr_lifecycle r) \<or> \<not> ended (rr_lifecycle q))"
  using effects_advance [OF steps_effects [OF assms(2) reachable_rt_inv [OF assms(1)]]] assms(3)
  by (auto simp: advances_def evolves_def)

theorem generations_never_regress_witness:
  "\<exists>r. om_find (rt_routes sample_installed) 3 = Some r \<and> rr_key r = sample_key \<and> 1 \<le> rr_generation r"
  using generations_never_regress [OF sample_published_reachable steps_one [OF step.complete [OF complete_sample]],
      of 3 sample_route] by auto

section \<open>The runtime: authority\<close>

text \<open>
  Authority is only ever taken away. Along any run the revocations and the fenced worker
  boots grow and the epoch does not decrease.
\<close>

lemma authority_only_grows:
  assumes "reachable s rt" and "steps s rt rt'"
  shows "(om_contains (rt_revocations rt') i \<or> \<not> om_contains (rt_revocations rt) i) \<and>
    set (rt_fenced_boots rt) \<subseteq> set (rt_fenced_boots rt') \<and> rt_epoch rt \<le> rt_epoch rt'"
  using effects_authority [OF steps_effects [OF assms(2) reachable_rt_inv [OF assms(1)]]]
  by (auto simp: authority_grows_def)

text \<open>
  C9: a fenced worker boot never acts again: after any run from a state in which it is fenced,
  every publisher using it is refused.
\<close>

theorem fenced_boot_refused_forever:
  assumes "reachable s rt" and "w \<in> set (rt_fenced_boots rt)" and "steps s rt rt'"
  shows "\<exists>e. authorize rt' p w = Inl e"
proof -
  have "authority_grows rt rt'"
    by (rule effects_authority [OF steps_effects [OF assms(3) reachable_rt_inv [OF assms(1)]]])
  then have "w \<in> set (rt_fenced_boots rt')" using assms(2) by (auto simp: authority_grows_def)
  then show ?thesis by (rule authorize_fenced)
qed

theorem fenced_boot_refused_forever_witness:
  "\<exists>e. authorize (snd (ClearAdministrativeFence ''p'' sample_fenced)) ''p'' 5 = Inl e"
  by (rule fenced_boot_refused_forever [OF sample_fenced_reachable [of True] sample_fenced_boot
        steps_one [OF step.clear_fence [OF surjective_pairing]]])

text \<open>
  C33: advancing the epoch cuts every publisher off: whoever was authorized is answered that its
  epoch is stale until it registers again.
\<close>

theorem epoch_advance_requires_registration:
  assumes "AdvanceEpoch rt = (Inr e, rt')" and "authorize rt p w = Inr g"
  shows "authorize rt' p w = Inl SC_StaleEpoch"
proof -
  have "om_find (rt_registrations rt) p = Some g" "rg_worker_boot g = w" "rg_epoch g = rt_epoch rt"
    and "\<not> om_contains (rt_administrative_fences rt) p"
    using assms(2) by (simp_all add: authorize_registered)
  then show ?thesis using AdvanceEpoch_fields [OF assms(1)] by (simp add: authorize_def)
qed

theorem epoch_advance_requires_registration_witness:
  "authorize (snd (AdvanceEpoch sample_registered)) ''p'' 5 = Inl SC_StaleEpoch"
  by (rule epoch_advance_requires_registration [OF AdvanceEpoch_sample authorize_sample])

text \<open>
  What makes a route current. A route is reported current precisely when it is installed,
  not revoked, published in the current epoch by a registered and unfenced worker boot, its
  path is usable at the generation it was bound to, and the last observation found it present.
\<close>

lemma current_exactly_when:
  "currentness_of query rt r = CU_Current \<longleftrightarrow>
     rr_lifecycle r = LC_Installed \<and> \<not> om_contains (rt_revocations rt) (rr_id r) \<and>
     pv_epoch (rr_provenance r) = rt_epoch rt \<and>
     (\<exists>g. om_find (rt_registrations rt) (pv_publisher (rr_provenance r)) = Some g \<and>
        rg_worker_boot g = pv_worker_boot (rr_provenance r)) \<and>
     pv_worker_boot (rr_provenance r) \<notin> set (rt_fenced_boots rt) \<and>
     (rb_kind (rr_binding r) \<noteq> BK_AuthorizedPath \<or>
        usable (query (rb_path (rr_binding r))) \<and>
        pr_generation (query (rb_path (rr_binding r))) = rb_path_authority_generation (rr_binding r)) \<and>
     ob_classification (rr_observation r) \<noteq> OC_Diverged \<and> ob_classification (rr_observation r) \<noteq> OC_Missing"
  by (auto simp: currentness_of_def split: option.splits)

lemma current_exactly_when_witness:
  "currentness_of sample_query sample_published (sample_route\<lparr>rr_lifecycle := LC_Installed\<rparr>) = CU_Current"
  unfolding current_exactly_when
  by (simp add: om_contains_def sample_registration_def sample_binding_def sample_query_def usable_def
      observation_default_def)

section \<open>The runtime: operations\<close>



text \<open>
  C6: an outcome is applied at most once. After an outcome was applied, every later outcome
  for the same attempt is stale and changes no route, whatever happened in between.
\<close>

theorem completion_applied_once:
  assumes "reachable True rt" and "apply_completion_locked result rt = (CD_Applied, rt1)"
    and "steps True rt1 rt2" and "ps_attempt again = ps_attempt result"
  shows "fst (apply_completion_locked again rt2) = CD_Stale \<and>
    rt_routes (snd (apply_completion_locked again rt2)) = rt_routes rt2"
proof -
  have "attempt_resolved rt1 (ps_attempt result)"
    using completion_resolves [OF assms(2)] reachable_rt_inv [OF assms(1)] by blast
  moreover have "rt_inv rt1" using assms(1,2) by (metis reachable.continue reachable_rt_inv step.complete)
  ultimately have "attempt_resolved rt2 (ps_attempt again)"
    using effects_resolved steps_effects assms(3,4) by metis
  then show ?thesis by (auto simp: attempt_resolved_def apply_completion_locked_def split: option.splits)
qed

theorem completion_applied_once_witness:
  "fst (apply_completion_locked sample_result sample_installed) = CD_Stale"
  using completion_applied_once [OF sample_published_reachable complete_sample rtranclp.rtrancl_refl refl] by simp

text \<open>
  C34: publishing again what is already published is idempotent. The same publisher and worker
  boot repeating the binding of a route that is installed or being installed is answered with
  the stored route, marked idempotent, and no authoritative state changes.
\<close>

theorem replay_is_idempotent:
  assumes "publish_validate request = ok_status" and "rt_opened rt"
    and "authorize rt (pq_publisher request) (pq_worker_boot request) = Inr g"
    and "covers (rg_scope g) (pq_key request)"
    and "publish_lookup rt (pq_key request) = Some r" and "\<not> om_contains (rt_revocations rt) (rr_id r)"
    and "pq_expected_generation request = 0 \<or> pq_expected_generation request = rr_generation r"
    and "rr_binding r = pq_binding request" and "pv_publisher (rr_provenance r) = pq_publisher request"
    and "pv_worker_boot (rr_provenance r) = pq_worker_boot request"
    and "rr_lifecycle r = LC_Installed \<or> rr_lifecycle r = LC_Installing"
  shows "\<exists>rt'. publish_begin query violated request rt =
      (Answered ((publish_result_of query rt r)\<lparr>px_idempotent := True\<rparr>), rt') \<and> core rt' = core rt"
  using assms
  by (auto simp: publish_begin_def publish_admit_def check_scope_def ok_status_def blocks_republication_def
      counter_is_valid_def)

theorem replay_is_idempotent_witness:
  "\<exists>rt'. publish_begin sample_query True sample_request sample_published =
      (Answered ((publish_result_of sample_query sample_published sample_route)\<lparr>px_idempotent := True\<rparr>), rt') \<and>
      core rt' = core sample_published"
  using sample_request_fields sample_key_valid
  by (intro replay_is_idempotent [where g = sample_registration])
    (simp_all add: publish_validate_sample ok_status_def authorize_registered om_contains_def sample_registration_def
      covers_def sample_scope_def publish_lookup_def)

text \<open>
  C35: a refused publication changes nothing. Unless the key belongs to an ended lineage that
  the request takes over, a refusal leaves the authoritative state as it was.
\<close>

theorem refused_publication_changes_nothing:
  assumes "publish_begin query violated request rt = (Refused e, rt')"
    and "\<And>r. publish_lookup rt (pq_key request) = Some r \<Longrightarrow> \<not> blocks_republication r"
  shows "core rt' = core rt"
  using assms by (rule publish_refused)

theorem refused_publication_changes_nothing_witness:
  "core (snd (publish_begin sample_query False sample_request sample_opened)) = core sample_opened"
  using sample_request_fields
  by (intro refused_publication_changes_nothing [of sample_query False sample_request sample_opened SC_NotRegistered])
    (simp_all add: publish_begin_def publish_validate_sample authorize_def om_contains_def publish_lookup_def)

text \<open>
  C36: refused lifecycle requests change nothing: a withdrawal, revalidation, retirement or
  revocation that is answered with an error leaves the authoritative state as it was.
\<close>

theorem refused_lifecycle_changes_nothing:
  "(withdraw_begin w rt = (Refused e, rt') \<or> revalidate_begin query violated v rt = (Refused e, rt') \<or>
    RetireRoute q rt = (Inl e, rt') \<or> RevokeRoute q rt = (Inl e, rt')) \<Longrightarrow>
   core rt' = core rt"
  using withdraw_refused revalidate_refused retire_refused revoke_refused by blast

theorem refused_lifecycle_changes_nothing_witness:
  "core (snd (RevokeRoute sample_revocation sample_registered)) = core sample_registered"
  by (rule refused_lifecycle_changes_nothing [where e = SC_NotFound and q = sample_revocation])
    (simp add: RevokeRoute_def sample_revocation_valid)

text \<open>
  C8: a path authority change invalidates precisely its dependents. Of the stored routes,
  exactly those bound to the path at another generation or to an unusable path, that assert
  installability and are not revoked, move to the revalidation state with a new generation;
  every other record stays the same.
\<close>

theorem path_invalidation_precise:
  assumes "reachable s rt" and "fixed_is_valid path"
    and "invalidate_path_locked path generation state rt = (Inr u, rt')"
    and "om_find (rt_routes rt) i = Some r"
  shows "if invalidated_by path generation state rt r
    then \<exists>r'. om_find (rt_routes rt') i = Some r' \<and> rr_lifecycle r' = LC_RevalidationRequired \<and>
           rr_generation r < rr_generation r' \<and> rr_binding r' = rr_binding r
    else om_find (rt_routes rt') i = Some r"
  by (rule invalidate_path_precise [OF reachable_rt_inv [OF assms(1)] assms(2-4)])

theorem path_invalidation_precise_witness:
  "\<exists>r'. om_find (rt_routes (snd (invalidate_path_locked 7 2 PA_Usable sample_published))) 3 = Some r' \<and>
     rr_lifecycle r' = LC_RevalidationRequired \<and> 1 < rr_generation r'"
  using path_invalidation_precise [OF sample_published_reachable [of True] _ invalidate_path_sample, of 3 sample_route]
    sample_route_invalidated by auto

text \<open>
  C10: opening recovers. When opening succeeds on a store whose contents are consistent (identities
  are unique, a key has one record that is not superseded, attempts name stored routes, and all is within the configured
  bounds, \<open>opens_on\<close>), the runtime satisfies its invariant, no programming attempt is left
  unresolved, and it is open. The code does not check this of what it loads.
\<close>

theorem open_recovers:
  assumes "Open files (make_runtime config backend authority seed) = (Inr u, rt)" and "opens_on config files"
  shows "ValidateIndexes rt = ok_status \<and> unresolved rt = 0 \<and> rt_outstanding rt = 0 \<and> rt_opened rt"
proof -
  have result: "rt_inv rt \<and> unresolved rt = 0 \<and> rt_outstanding rt = 0 \<and> rt_opened rt"
    using Open_result [OF blank_make_runtime _ assms(1)] assms(2) by (simp add: make_runtime_def)
  then show ?thesis using rt_inv_validate [of rt] by (simp add: counter_exact_def)
qed

theorem open_recovers_witness:
  "ValidateIndexes sample_opened = ok_status \<and> unresolved sample_opened = 0 \<and> rt_outstanding sample_opened = 0 \<and>
   rt_opened sample_opened"
  by (rule open_recovers [OF Open_sample sample_opens_on])

text \<open>
  A whole publication is a run of sections: what \<open>publish_one\<close> does to the state, with any
  backend, is a sequence of steps, so everything proved of runs holds across it.
\<close>

lemma publication_is_run:
  assumes "publish_one ops query violated request b rt = (x, b', rt')" and "reachable s rt"
    and "s \<Longrightarrow> draws_fresh rt \<and> publishes_fresh request rt"
  shows "steps s rt rt' \<and> reachable s rt'"
  using publish_one_steps [OF assms(1,3)] reachable_steps assms(2) by blast

text \<open>
  C37: revoking a superseded route takes the key from its successor. The revoked record becomes
  the owner of the key in the index although another live route holds it; the successor is then
  no longer found by its key.
\<close>

theorem revoked_superseded_takes_key:
  assumes "om_find (rt_routes rt) (lq_route q) = Some r" and "rr_lifecycle r = LC_Superseded"
    and "om_find (rt_key_index rt) (rr_key r) = Some j" and "j \<noteq> rr_id r"
    and "\<not> om_contains (rt_revocations rt) (rr_id r)" and "om_wf (rt_key_index rt)"
    and "RevokeRoute q rt = (Inr x, rt')"
  shows "om_find (rt_key_index rt') (rr_key r) = Some (rr_id r)"
proof -
  obtain u rt1 where kept: "core rt1 = core rt" and rt': "rt_key_index rt' = rt_key_index (commit u rt1)"
    and u: "rr_id u = rr_id r" "rr_key u = rr_key r" "rr_lifecycle u = LC_Retired"
    using assms(1,2,5,7)
    by (auto simp: RevokeRoute_def Let_def publish_advance_def apply_event_def table_simps bump_def
        split: sum.splits if_splits prod.splits dest!: persist_core)
  then show ?thesis
    using assms(6) core_eqD(6) [OF kept]
    by (simp add: commit_def index_insert_def index_erase_def insert_key_def erase_key_def Let_def split: option.splits)
qed

theorem revoked_superseded_takes_key_witness:
  "om_find (rt_key_index sample_taken_over) sample_key = Some 3 \<and>
   om_find (rt_key_index (snd (RevokeRoute sample_late_revocation sample_taken_over))) sample_key = Some 4"
proof -
  obtain x where run: "RevokeRoute sample_late_revocation sample_taken_over =
      (Inr x, snd (RevokeRoute sample_late_revocation sample_taken_over))" using revoke_sample by blast
  have "om_find (rt_key_index (snd (RevokeRoute sample_late_revocation sample_taken_over))) (rr_key sample_predecessor) =
      Some (rr_id sample_predecessor)"
    by (rule revoked_superseded_takes_key [OF _ _ _ _ _ _ run, where j = 3]) (simp_all add: om_contains_def om_wf_def)
  then show ?thesis by simp
qed

section \<open>The store\<close>

text \<open>
  What is saved is loaded: after a successful save of a well-formed state the next load
  returns exactly that state.
\<close>

lemma saved_state_is_loaded:
  assumes "SaveSnapshot store state = (Inr u, store')" and "rs_io store = []" and "state_wf (rs_limits store) state"
  shows "fst (Load store') = Inr state"
  using assms by (rule Save_then_Load)

text \<open>
  An append is atomic. Whatever number of bytes of the entry reaches the journal file, the
  next load returns the state of the earlier entries, with the new entry replayed on top
  exactly when all of its bytes are there.
\<close>

lemma journal_append_atomic:
  assumes "rs_durability store \<noteq> DU_None" and "rs_io store = [io]" and "entry_wf (rs_limits store) entry"
    and "load_snapshot store io_ok = Inr base" and "journal_holds store entries []"
  shows "fst (Load (snd (AppendJournal store entry))) =
    Inr (foldl replay_entry base
      (if append_survives io (EncodeJournalEntry entry (rs_limits store)) then entries @ [entry] else entries))"
  using assms by (rule Append_then_Load)

lemma journal_append_atomic_witness:
  "fst (Load (snd (AppendJournal (small_store\<lparr>rs_io := [io_ok\<lparr>io_append := Some 20\<rparr>]\<rparr>) small_entry))) =
     Inr initial_state"
  using journal_append_atomic [of "small_store\<lparr>rs_io := [io_ok\<lparr>io_append := Some 20\<rparr>]\<rparr>"
      "io_ok\<lparr>io_append := Some 20\<rparr>" small_entry initial_state "[]"] small_entry_wf small_entry_cut
  by (simp add: small_store_def route_store_def load_snapshot_def journal_holds_def append_survives_def)

text \<open>
  C30: replacing a file is atomic. At whatever point the process ends, and whatever calls
  fail, the target holds its old contents or all of the new data, and no other file but the
  temporary one is touched; the result tells which of the two it is.
\<close>

theorem replacement_atomic:
  assumes "write_file_atomic windows path data d = (ok, d')"
  shows "\<exists>crashes. dk_trace d' = dk_trace d @ crashes \<and>
    (\<forall>f \<in> insert (dk_files d') (set crashes). (f path = dk_files d path \<or> f path = Some data) \<and>
       (\<forall>q. q \<noteq> path \<longrightarrow> q \<noteq> path @ ''.tmp'' \<longrightarrow> f q = dk_files d q)) \<and>
    dk_files d' path = (if ok then Some data else dk_files d path)"
  using write_file_atomic_replaced [OF assms]
  by (auto simp: replaced_def through_def replaces_def split: if_splits)

theorem replacement_atomic_witness:
  "dk_files (snd (write_file_atomic False ''a'' [1, 2] \<lparr>dk_files = [''a'' \<mapsto> [7]], dk_faults = [Works, Short 1], dk_trace = []\<rparr>))
     ''a'' = Some [7]"
proof -
  let ?d = "\<lparr>dk_files = [''a'' \<mapsto> [7]], dk_faults = [Works, Short 1], dk_trace = []\<rparr>"
  obtain ok d' where run: "write_file_atomic False ''a'' [1, 2] ?d = (ok, d')" by fastforce
  then have "\<not> ok"
    by (auto simp: write_file_atomic_def make_parent_def has_parent_def open_truncated_def write_and_flush_def write_bytes_def
        call_ok_def next_fault_def put_files_def Let_def)
  with replacement_atomic [OF run] run show ?thesis by simp
qed

text \<open>
  C31: the store on files is the store. Saving, appending and loading, carried out call by call on
  a disk with arbitrary faults, answer and leave the files as the operations of the store do for some
  result of the operating system; a journal file that is missing counts as empty.
\<close>

theorem files_refine_store:
  "(\<exists>ios. SaveSnapshot (store_of base (dk_files d) store\<lparr>rs_io := ios\<rparr>) state =
      (case file_SaveSnapshot windows base state store d of
         (st, store', d') \<Rightarrow> (st, store_of base (dk_files d') store'\<lparr>rs_io := []\<rparr>))) \<and>
   (\<exists>ios. case file_AppendJournal windows base entry store d of
      (st, store', d') \<Rightarrow>
        \<exists>s. AppendJournal (store_of base (dk_files d) store\<lparr>rs_io := ios\<rparr>) entry = (st, s) \<and>
          s\<lparr>rs_journal := None\<rparr> = store_of base (dk_files d') store'\<lparr>rs_io := [], rs_journal := None\<rparr> \<and>
          journal_contents s = file_contents (dk_files d') (journal_path base)) \<and>
   (\<exists>io. Load (store_of base (dk_files d) (store\<lparr>rs_io := [io]\<rparr>)) =
      (case file_Load windows base store d of (x, store', d') \<Rightarrow> (x, store_of base (dk_files d') (store'\<lparr>rs_io := []\<rparr>))))"
proof (intro conjI)
  obtain st store' d' where "file_AppendJournal windows base entry store d = (st, store', d')" by (metis prod_cases3)
  with file_AppendJournal_refines [OF this] show "\<exists>ios. case file_AppendJournal windows base entry store d of
      (st, store', d') \<Rightarrow>
        \<exists>s. AppendJournal (store_of base (dk_files d) store\<lparr>rs_io := ios\<rparr>) entry = (st, s) \<and>
          s\<lparr>rs_journal := None\<rparr> = store_of base (dk_files d') store'\<lparr>rs_io := [], rs_journal := None\<rparr> \<and>
          journal_contents s = file_contents (dk_files d') (journal_path base)" by simp
qed (use file_SaveSnapshot_refines [of windows base state store d] file_Load_refines [of windows base store d]
      in \<open>auto split: prod.split\<close>)



text \<open>
  C12: a compaction survives a crash. When the state of a runtime that journals fits the snapshot format
  (\<open>state_wf\<close>: its routes, revocations and attempts are within the bounds the decoder enforces and its records are
  valid), then wherever the process ends while the runtime writes its whole state as a snapshot and removes the journal, and whatever calls fail, the next process loads exactly
  the state the runtime holds: from the old snapshot and the journal, from the new snapshot with
  the journal that it already contains, or from the new snapshot alone.
\<close>

theorem compaction_survives_crash:
  assumes "rt_inv rt" and "om_wf (rt_revocations rt)" and "store_mirrors rt" and "rt_store rt = Some store"
    and "store_of base (dk_files d) store = store" and "state_wf (rt_limits rt) (collect_state rt)"
    and "file_SaveSnapshot windows base (collect_state rt) store d = (st, store', d')"
    and "dk_trace d' = dk_trace d @ crashes" and "dk_files restarted \<in> set crashes" and "dk_faults restarted = []"
  shows "\<exists>state. fst (file_Load windows base store restarted) = Inr state \<and> mirrors state rt"
proof -
  have "compacting base (EncodeSnapshot (collect_state rt) (rs_limits store)) (dk_files d) (dk_files restarted)"
    using file_SaveSnapshot_through [OF assms(7)] assms(8,9) by (auto simp: through_def)
  moreover have "rs_io store = []" using assms(3,4) by (auto simp: store_mirrors_def)
  ultimately show ?thesis
    using compaction_crash [OF assms(1-6)] file_Load_sound_disk [OF assms(10)] by simp
qed

theorem compaction_survives_crash_witness:
  "\<exists>state. fst (file_Load False ''s'' mirror_store \<lparr>dk_files = both_files, dk_faults = [], dk_trace = []\<rparr>) = Inr state \<and>
     mirrors state mirror_published"
proof -
  obtain store' crashes where
    "file_SaveSnapshot False ''s'' (collect_state mirror_published) mirror_store mirror_disk =
       (ok_status, store', \<lparr>dk_files = both_files, dk_faults = [], dk_trace = crashes @ [both_files]\<rparr>)"
    using mirror_compacts by blast
  from compaction_survives_crash [OF mirror_published_inv _ mirror_published_mirrors _ _ _ this] show ?thesis
    using mirror_store_of mirror_collect_wf by (simp add: mirror_disk_def mirror_published_def sample_config_def)
qed

text \<open>
  C11: an outcome survives a crash. In a runtime that journals, whose store mirrors it and whose
  files fail nothing, an applied completion is in the store before the section ends: the next
  load returns the state that the runtime holds, with the new record and the resolved attempt.
  The hypothesis on the entry is that the committed record and attempt fit the encoding.
\<close>

theorem completion_survives_crash:
  assumes "rt_inv rt" and "store_mirrors rt" and "apply_completion_locked result rt = (CD_Applied, rt')"
    and "om_find (rt_attempts rt') (ps_attempt result) = Some a" and "om_find (rt_routes rt') (at_route a) = Some r"
    and "entry_wf (rt_limits rt) (entry_of rt [r] [] [a])"
  shows "store_mirrors rt' \<and>
    (\<exists>store state. rt_store rt' = Some store \<and> fst (Load (bind_store (rt_config rt') store)) = Inr state \<and>
       keyed rr_id (pst_routes state) (at_route a) = Some r \<and>
       keyed at_attempt (pst_attempts state) (ps_attempt result) = Some a \<and> mirrors state rt')"
proof -
  have "store_mirrors rt'" using completion_mirrors [OF assms(2,1,3-6)] .
  then show ?thesis using store_mirrors_Load [of rt'] assms(4,5) by (auto simp: mirrors_def)
qed

theorem completion_survives_crash_witness:
  "store_mirrors mirror_installed \<and>
   (\<exists>store state. rt_store mirror_installed = Some store \<and>
      fst (Load (bind_store (rt_config mirror_installed) store)) = Inr state \<and>
      keyed rr_id (pst_routes state) 3 = Some mirror_route)"
  using completion_survives_crash [OF mirror_published_inv mirror_published_mirrors complete_mirror(1,2), of mirror_route]
    complete_mirror(3) mirror_install_wf by (auto simp: sample_config_def)

section \<open>Snapshots\<close>

text \<open>
  The snapshot of the whole runtime does not depend on the order in which the records
  are collected: two permutations of the same records, with distinct identities, give the
  same snapshot set, including its content-derived identity.
\<close>

lemma snapshot_set_order_independent:
  assumes "length records = length cs" and "length records' = length cs'"
    and "mset (zip records cs) = mset (zip records' cs')" and "distinct (map rr_id records)"
  shows "make_snapshot_set records cs epoch = make_snapshot_set records' cs' epoch"
proof -
  let ?m = "map (\<lambda>(r, c). make_snapshot r c)"
  have "mset (?m (zip records cs)) = mset (?m (zip records' cs'))" using assms(3) by simp
  moreover have "distinct (map snapshot_key (?m (zip records cs)))"
    using assms(1,4) by (simp only: snapshot_keys_zip)
  ultimately have "sort_key snapshot_key (?m (zip records cs)) = sort_key snapshot_key (?m (zip records' cs'))"
    by (rule sort_key_unique)
  then show ?thesis unfolding make_snapshot_set_def Let_def snapshot_set_zip by (simp only:)
qed

text \<open>
  Looking a route up in a snapshot set by binary search returns exactly the snapshot
  taken of the record with that identity, and nothing for an identity not in the set.
\<close>

lemma snapshot_lookup_exact:
  assumes "length records = length cs" and "distinct (map rr_id records)"
  shows "find_snapshot (make_snapshot_set records cs epoch) route =
    map_of (zip (map rr_id records) (map2 make_snapshot records cs)) route"
proof -
  let ?l = "map (\<lambda>(r, c). make_snapshot r c) (zip records cs)"
  have keys: "map snapshot_key ?l = map rr_id records" using assms(1) by (rule snapshot_keys_zip)
  have d: "distinct (map snapshot_key ?l)" using keys assms(2) by simp
  then have ds: "distinct (map snapshot_key (sort_key snapshot_key ?l))" by (rule distinct_sort_key)
  have "find_snapshot (make_snapshot_set records cs epoch) route =
      find (\<lambda>s. snapshot_key s = route) (sort_key snapshot_key ?l)"
    by (simp add: find_snapshot_find ss_routes_make)
  also have "\<dots> = find (\<lambda>s. snapshot_key s = route) ?l"
    using d by (intro find_same_set ds) simp_all
  also have "\<dots> = map_of (map (\<lambda>s. (snapshot_key s, s)) ?l) route"
    by (rule find_map_of)
  also have "map (\<lambda>s. (snapshot_key s, s)) ?l = zip (map rr_id records) ?l"
    by (simp only: pair_with_key keys)
  finally show ?thesis by simp
qed

lemma snapshot_lookup_exact_witness:
  "find_snapshot (make_snapshot_set [sample_predecessor, sample_route] [CU_Superseded, CU_NotInstalled] 1) 3 =
     Some (make_snapshot sample_route CU_NotInstalled)"
  by (subst snapshot_lookup_exact) simp_all

section \<open>Identifiers, counters and destinations\<close>

text \<open>
  C40: drawing an identifier terminates and never returns the reserved zero value, from every
  seeded source and from every state the source takes afterwards.
\<close>

theorem generate_id_terminates:
  "\<exists>i source. generate_id (seeded_id_source seed) = Some (i, source) \<and> i \<noteq> 0 \<and>
     (\<exists>j source'. generate_id source = Some (j, source') \<and> j \<noteq> 0 \<and> source_alive source')"
  using generate_id_returns [OF seeded_id_source_alive [of seed]] generate_id_returns by blast

text \<open>
  Generations never wrap around: the successor of a counter is its numerical successor, and
  at the largest value the increment is refused.
\<close>

lemma counter_next_exact:
  "counter_next c = (if unat c < 2 ^ 64 - 2 then Inr (c + 1) else Inl SC_StaleGeneration) \<and>
   (case counter_next c of Inl e \<Rightarrow> 2 ^ 64 - 2 \<le> unat c | Inr n \<Rightarrow> unat n = unat c + 1)"
proof -
  have bound: "c < kMaxValue \<longleftrightarrow> unat c < 2 ^ 64 - 2" by (simp add: word_less_nat_alt kMaxValue_def)
  then have exact: "counter_next c = (if unat c < 2 ^ 64 - 2 then Inr (c + 1) else Inl SC_StaleGeneration)"
    by (auto simp: counter_next_def not_le)
  then show ?thesis using counter_next_unat(1) [of c "c + 1"] by (auto split: if_splits)
qed

text \<open>
  Parsed destinations are canonical: whatever text is accepted, the destination has its host
  bits cleared and passes every test of the decoder, so that it survives encoding and decoding.
\<close>

lemma parsed_destination_survives:
  assumes "parse_destination text m = Inr d" and "m < 2 ^ 32"
  shows "destination_wf m d \<and> rd_destination m (w_destination d @ rest) = Some (d, rest)"
  using parse_destination_canonical [OF assms] destination_codec.read_write [of m d rest] by blast

text \<open>
  Scope containment of prefixes is containment of networks: a scope covers a destination of
  its kind precisely when its prefix is not longer and the addresses agree on its bits; an
  endpoint scope covers exactly itself.
\<close>

lemma scope_covers_exactly:
  assumes "destination_wf m s" and "dst_valid c"
  shows "scope_covers s c \<longleftrightarrow> dst_kind s = dst_kind c \<and>
    (if is_prefix_kind (dst_kind s)
     then dst_prefix_length s \<le> dst_prefix_length c \<and>
          same_prefix (unat (dst_prefix_length s)) (dst_address s) (dst_address c)
     else dst_token s = dst_token c)"
  using assms by (rule scope_covers_iff)

lemma scope_covers_exactly_witness:
  "scope_covers sample_prefix sample_prefix \<longleftrightarrow>
     same_prefix (unat (dst_prefix_length sample_prefix)) (dst_address sample_prefix) (dst_address sample_prefix)"
  using scope_covers_exactly [OF parse_destination_canonical [OF parse_sample [of 64]], of sample_prefix] sample_prefix_fields
  by simp

section \<open>The protocol, the server and the client\<close>

text \<open>
  C23: frames are exact. The decoder accepts a buffer precisely when it is the frame that the
  encoder writes for the decoded message, with a payload within the limit: a wrong magic,
  version, identifier, length, checksum or a trailing byte is always refused.
\<close>

theorem frames_exact:
  "decode_frame wc limits buffer = Inr f \<longleftrightarrow>
     frame_fits limits (df_payload f) \<and> df_wire_version f = kWireProtocolVersion wc \<and>
     buffer = encode_frame wc (df_id f) (df_payload f)"
  using decode_frame_canonical [of wc limits buffer f] decode_frame_encode [of limits "df_payload f" wc "df_id f"]
  by (cases f) auto

text \<open>
  C24: messages are exact. Each of the 22 message decoders accepts precisely the encodings of
  the well-formed messages, and returns the message that was encoded.
\<close>

theorem messages_exact:
  "(decode_HelloRequest wc payload = Some m1 \<longleftrightarrow>
      hello_request_wf wc m1 \<and> payload = encode_HelloRequest m1) \<and>
   (decode_HelloResult wc payload = Some m2 \<longleftrightarrow>
      hello_result_wf wc m2 \<and> payload = encode_HelloResult m2) \<and>
   (decode_RegisterPublisherRequest limits payload = Some m3 \<longleftrightarrow>
      register_publisher_request_wf limits m3 \<and> payload = encode_RegisterPublisherRequest m3) \<and>
   (decode_RegisterPublisherResult payload = Some m4 \<longleftrightarrow>
      register_publisher_result_wf m4 \<and> payload = encode_RegisterPublisherResult m4) \<and>
   (decode_PublishRouteRequest limits payload = Some m5 \<longleftrightarrow>
      publish_route_request_wf limits m5 \<and> payload = encode_PublishRouteRequest m5) \<and>
   (decode_PublishRouteResult payload = Some m6 \<longleftrightarrow>
      publish_route_result_wf m6 \<and> payload = encode_PublishRouteResult m6) \<and>
   (decode_RouteMutationRequest payload = Some m7 \<longleftrightarrow>
      route_mutation_request_wf m7 \<and> payload = encode_RouteMutationRequest m7) \<and>
   (decode_RouteMutationResult payload = Some m8 \<longleftrightarrow>
      route_mutation_result_wf m8 \<and> payload = encode_RouteMutationResult m8) \<and>
   (decode_QueryRouteRequest limits payload = Some m9 \<longleftrightarrow>
      query_route_request_wf limits m9 \<and> payload = encode_QueryRouteRequest m9) \<and>
   (decode_QueryRouteResult limits payload = Some m10 \<longleftrightarrow>
      query_route_result_wf limits m10 \<and> payload = encode_QueryRouteResult m10) \<and>
   (decode_SnapshotRequest payload = Some m11 \<longleftrightarrow>
      snapshot_request_wf m11 \<and> payload = encode_SnapshotRequest m11) \<and>
   (decode_FenceNotice payload = Some m12 \<longleftrightarrow>
      fence_notice_wf m12 \<and> payload = encode_FenceNotice m12) \<and>
   (decode_ErrorMessage payload = Some m13 \<longleftrightarrow>
      error_message_wf m13 \<and> payload = encode_ErrorMessage m13) \<and>
   (decode_ReconcileRequest payload = Some m14 \<longleftrightarrow>
      reconcile_request_wf m14 \<and> payload = encode_ReconcileRequest m14) \<and>
   (decode_EpochResult payload = Some m15 \<longleftrightarrow>
      epoch_result_wf m15 \<and> payload = encode_EpochResult m15) \<and>
   (decode_StatisticsResult payload = Some m16 \<longleftrightarrow>
      statistics_result_wf m16 \<and> payload = encode_StatisticsResult m16) \<and>
   (decode_ApplyCompletionResult payload = Some m17 \<longleftrightarrow>
      apply_completion_result_wf m17 \<and> payload = encode_ApplyCompletionResult m17) \<and>
   (decode_SnapshotResponse limits payload = Some m18 \<longleftrightarrow>
      snapshot_response_wf limits m18 \<and> payload = encode_SnapshotResponse m18) \<and>
   (decode_BackendState limits payload = Some m19 \<longleftrightarrow>
      backend_state_wf limits m19 \<and> payload = encode_BackendState m19) \<and>
   (decode_ReconcileResult payload = Some m20 \<longleftrightarrow>
      reconcile_result_wf m20 \<and> payload = encode_ReconcileResult m20) \<and>
   (decode_ApplyCompletionRequest payload = Some m21 \<longleftrightarrow>
      apply_completion_request_wf m21 \<and> payload = encode_ApplyCompletionRequest m21) \<and>
   (decode_ExplainRouteResult limits payload = Some m22 \<longleftrightarrow>
      explain_route_result_wf limits m22 \<and> payload = encode_ExplainRouteResult m22)"
  unfolding message_decoders message_exact by (intro conjI refl)

text \<open>
  C26: within its buffer bound a session does not depend on how the connection cuts the bytes. Two
  deliveries of the same bytes, in neither of which a received chunk together with what is
  buffered exceeds the bound (\<open>within_bound\<close>), give the same answers and the same final state.
\<close>

theorem chunks_do_not_matter:
  assumes "within_bound env [] chunks session st" and "within_bound env [] chunks' session st"
    and "concat chunks = concat chunks'"
  shows "session_loop env [] chunks session st = session_loop env [] chunks' session st"
  using session_loop_drains [OF assms(1)] session_loop_drains [OF assms(2)] assms(3) by simp

theorem chunks_do_not_matter_witness:
  "session_loop remote_env [] [encode_frame (sv_wire remote_env) MI_EpochRequest []] session_default remote_state =
   session_loop remote_env [] (map (\<lambda>b. [b]) (encode_frame (sv_wire remote_env) MI_EpochRequest [])) session_default
     remote_state"
proof -
  have fits: "frame_fits (sv_limits remote_env) []" by (simp add: frame_fits_def)
  have single: "concat (map (\<lambda>b. [b]) xs) = xs" for xs :: bytes by (induction xs) simp_all
  have "encode_frame (sv_wire remote_env) MI_EpochRequest [] \<noteq> []"
    by (metis length_encode_frame add_is_0 list.size(3) zero_neq_numeral)
  then have "within_bound remote_env [] [encode_frame (sv_wire remote_env) MI_EpochRequest []] session_default remote_state"
    by (intro frame_within_bound [OF fits]) simp_all
  moreover have "within_bound remote_env [] (map (\<lambda>b. [b]) (encode_frame (sv_wire remote_env) MI_EpochRequest []))
      session_default remote_state"
    by (rule frame_within_bound [OF fits]) (simp_all add: single list_all_iff)
  ultimately show ?thesis by (rule chunks_do_not_matter) (simp add: single)
qed

text \<open>
  C17: requests are runs. Whatever frame a session handles on a reachable runtime, unless it revokes
  a superseded route, the runtime makes a sequence of its own steps and stays reachable, and so
  it does when the session is finished.
\<close>

theorem requests_are_runs:
  assumes "reachable False (sx_runtime st)" and "\<not> revokes_superseded f (sx_runtime st)"
    and "handle env f session st = (continues, reply, session', st')"
  shows "steps False (sx_runtime st) (sx_runtime st') \<and> reachable False (sx_runtime st') \<and>
    reachable False (sx_runtime (finish_session session' st'))"
proof -
  have run: "steps False (sx_runtime st) (sx_runtime st')" by (rule handle_steps [OF assms(3,2)])
  have reached: "reachable False (sx_runtime st')" using reachable_steps [OF run assms(1)] .
  show ?thesis using run reached reachable_steps [OF finish_session_steps reached] by blast
qed

theorem requests_are_runs_witness:
  "reachable False (sx_runtime (snd (snd (snd (handle remote_env
     \<lparr>df_id = MI_PublishRoute, df_wire_version = 1, df_payload = encode_PublishRouteRequest remote_publish\<rparr>
     session_default remote_state)))))"
proof -
  obtain continues reply session' st' where run: "handle remote_env
      \<lparr>df_id = MI_PublishRoute, df_wire_version = 1, df_payload = encode_PublishRouteRequest remote_publish\<rparr>
      session_default remote_state = (continues, reply, session', st')" by (rule prod_cases4)
  have "reachable False (sx_runtime remote_state)" using sample_registered_reachable by (simp add: remote_state_def)
  from requests_are_runs [OF this _ run] show ?thesis by (simp add: run revokes_superseded_def)
qed

text \<open>
  C18: a closed session acts no more. When a session ends whose registration is still the live
  one, its worker boot is refused for every publisher after every further run.
\<close>

theorem closed_session_refused_forever:
  assumes "reachable s (sx_runtime st)" and "se_registered session"
    and "LookupRegistration (sx_runtime st) (se_publisher session) = Inr g"
    and "rg_worker_boot g = se_worker_boot session"
    and "steps s (sx_runtime (finish_session session st)) rt'"
  shows "\<exists>e. authorize rt' p (se_worker_boot session) = Inl e"
proof -
  let ?rt = "sx_runtime (finish_session session st)"
  have "reachable s ?rt" by (rule reachable_steps [OF finish_session_steps assms(1)])
  then have "authority_grows ?rt rt'"
    using effects_authority [OF steps_effects [OF assms(5) reachable_rt_inv]] by blast
  then have "se_worker_boot session \<in> set (rt_fenced_boots rt')"
    using finish_session_fences [OF assms(2-4)] by (auto simp: authority_grows_def)
  then show ?thesis by (rule authorize_fenced)
qed

theorem closed_session_refused_forever_witness:
  "\<exists>e. authorize (snd (RegisterPublisher ''p'' 5 sample_scope (sx_runtime (finish_session
     \<lparr>se_publisher = ''p'', se_worker_boot = 5, se_registered = True\<rparr> remote_state)))) ''p'' 5 = Inl e"
proof -
  let ?session = "\<lparr>se_publisher = ''p'', se_worker_boot = 5, se_registered = True\<rparr>"
  have start: "reachable True (sx_runtime remote_state)" using sample_registered_reachable by (simp add: remote_state_def)
  have found: "LookupRegistration (sx_runtime remote_state) (se_publisher ?session) = Inr sample_registration"
    by (simp add: LookupRegistration_def remote_state_def)
  show ?thesis
    using closed_session_refused_forever [OF start _ found _ steps_one [OF step.register [OF surjective_pairing]]]
    by (simp add: sample_registration_def)
qed

text \<open>
  Sessions are bounded. In every state of the server the counter of active sessions is the
  number of live sessions, it is within the limit, and the accepted sessions are the live and
  the closed ones.
\<close>

lemma sessions_bounded:
  assumes "serving env st ongoing"
  shows "sx_active st = length ongoing \<and> length ongoing \<le> max_sessions (sv_limits env) \<and>
    sc_sessions_accepted (sx_counters st) = of_nat (length ongoing) + sc_sessions_closed (sx_counters st)"
  using serving_admission [OF assms] by (simp add: admission_exact_def)

lemma sessions_bounded_witness:
  "sx_active (snd (accept_session remote_env False remote_state)) = 1"
proof -
  have "serving remote_env remote_state []" by (rule serving.started) (simp_all add: remote_state_def)
  then have "serving remote_env (snd (accept_session remote_env False remote_state)) [session_default]"
    by (rule serving.accepted [where stopping = False])
      (simp add: accept_session_def remote_defs sample_limits_def)
  then show ?thesis using sessions_bounded by fastforce
qed

section \<open>The life of the server\<close>

text \<open>
  C19: stopping ends. Under the contract of the operating system (a connection made to the port of a
  listener waits there to be accepted), once the wake-up connection of \<open>Stop\<close> is made, every run
  of the server's threads, however they interleave with arriving data, new connections and other
  users of the runtime, makes at most \<open>stop_rank\<close> moves, some thread can always move until
  \<open>Stop\<close> has returned, and it can return.
\<close>

theorem stop_terminates:
  assumes "listening_system env opened port_of waiting world" and "life_reachable env world os0 s"
    and "stop_under_way s" and "lf_woken s" and "stop_run env world n s s'"
  shows "n \<le> stop_rank s \<and> (lf_main s' = M_Stopped \<or> (\<exists>s''. server_move env s' s'')) \<and>
    (\<exists>m s''. stop_run env world m s s'' \<and> lf_main s'' = M_Stopped)"
  using listening_system.stop_goes_on [OF assms] listening_system.stop_completes [OF assms(1-4)] by blast

theorem stop_terminates_witness:
  "\<exists>m s''. stop_run remote_life_env net_world m woken_life s'' \<and> lf_main s'' = M_Stopped"
  using stop_terminates [OF net.listening_system_axioms woken_life_facts stop_run.none] by blast

text \<open>
  C20: a server that has stopped is quiet. When \<open>Stop\<close> has returned the listener is closed, the accept
  thread has ended, no session is counted, no session thread is before its end, and whatever
  the threads that are left still do, the runtime, the backend and the counters stay as they are.
\<close>

theorem stop_quiesces:
  assumes "life_reachable env world os0 s" and "lf_main s = M_Stopped"
  shows "\<not> running s \<and> lf_listener s = None \<and> lf_accept s = A_Done \<and> session_count s = 0 \<and>
    (\<forall>t \<in> set (lf_threads s). \<not> live_thread t) \<and>
    (\<forall>s'. server_move env s s' \<longrightarrow> lf_main s' = M_Stopped \<and> lf_state s' = lf_state s)"
proof -
  have ok: "life_inv s" using life_reachable_inv [OF assms(1)] by blast
  have "filter live_thread (lf_threads s) = []"
    using life_invD(1,2) [OF ok] assms(2) by (auto simp: control_ok_def sessions_ok_def)
  then show ?thesis
    using life_invD(1) [OF ok] assms(2) stopped_keeps [OF _ ok assms(2)]
    by (auto simp: control_ok_def session_count_def running_def filter_empty_conv)
qed

theorem stop_quiesces_witness:
  "\<exists>s. lf_main s = M_Stopped \<and> length (lf_threads s) = 1 \<and> lf_listener s = None \<and> session_count s = 0 \<and>
     life_reachable remote_life_env net_world net0 s"
proof -
  obtain s where reach: "life_reachable remote_life_env net_world net0 s" and stopped: "lf_main s = M_Stopped"
    and pcs: "map th_pc (lf_threads s) = [S_CloseWaiter (Some 1)]"
    by (rule early_return_reached)
  have "length (map th_pc (lf_threads s)) = 1" by (simp only: pcs) simp
  then show ?thesis using stop_quiesces [OF reach stopped] stopped reach by auto
qed

text \<open>
  C21: no handle is lost or closed twice. In every state the handles that are open are those
  that were open before and, each exactly once, those the server's threads own; when the server has
  stopped and its session threads have run to their end, all it opened is closed.
\<close>

theorem handles_owned:
  assumes "listening_system env opened port_of waiting world" and "life_reachable env world os0 s"
  shows "distinct (owned s) \<and> opened os0 \<inter> set (owned s) = {} \<and> opened (lf_os s) = opened os0 \<union> set (owned s) \<and>
    (lf_main s = M_Stopped \<and> (\<forall>t \<in> set (lf_threads s). th_pc t = S_Done) \<longrightarrow> opened (lf_os s) = opened os0)"
proof -
  have "distinct (owned s)" "opened os0 \<inter> set (owned s) = {}" "opened (lf_os s) = opened os0 \<union> set (owned s)"
    using listening_system.life_reachable_owns [OF assms] by (simp_all add: listening_system.owns_def [OF assms(1)])
  moreover have "owned s = []" if "lf_main s = M_Stopped" "\<forall>t \<in> set (lf_threads s). th_pc t = S_Done"
  proof -
    have "thread_handles t = []" if "t \<in> set (lf_threads s)" for t
      using that \<open>\<forall>t \<in> set (lf_threads s). th_pc t = S_Done\<close> by (simp add: thread_handles_def)
    then show ?thesis
      using that life_reachable_inv [OF assms(2)] by (auto simp: owned_def life_inv_def control_ok_def)
  qed
  ultimately show ?thesis by auto
qed

theorem handles_owned_witness:
  "owned remote_life = [0, 1] \<and> distinct (owned remote_life) \<and> net_opened (lf_os remote_life) = set (owned remote_life)"
proof -
  have "owned remote_life = [0, 1]"
    by (simp add: owned_def remote_life_fields thread_handles_def new_thread_def)
  then show ?thesis
    using handles_owned [OF net.listening_system_axioms remote_life_reachable] by (simp add: net0_def)
qed

text \<open>
  C22: sessions are counted and bounded over the whole life of the server. Through starts, stops and every
  interleaving of its threads the count of sessions is the number of session threads that have
  not left, it is within the limit, and the accepted sessions are those and the closed ones.
\<close>

theorem sessions_counted:
  assumes "life_reachable env world os0 s"
  shows "session_count s = length (filter live_thread (lf_threads s)) \<and>
    session_count s \<le> max_sessions (sv_limits (le_server env)) \<and>
    sc_sessions_accepted (server_counters_of s) = of_nat (session_count s) + sc_sessions_closed (server_counters_of s)"
  using life_reachable_inv [OF assms] life_reachable_admission [OF assms]
  by (simp add: life_inv_def sessions_ok_def admission_counted_def session_count_def server_counters_of_def)

theorem sessions_counted_witness: "session_count remote_life = 1"
  using sessions_counted [OF remote_life_reachable] by (simp add: remote_life_fields new_thread_def)

text \<open>
  \<open>Stop\<close> can return while a session thread still has to close its handle and to signal the
  server's condition variable, which the destructor of the server then destroys.
\<close>

lemma stop_returns_early:
  "\<exists>s t. life_reachable remote_life_env net_world net0 s \<and> lf_main s = M_Stopped \<and> t \<in> set (lf_threads s) \<and>
     th_pc t = S_CloseWaiter (Some 1) \<and> 1 \<in> net_opened (lf_os s)"
proof -
  obtain s where reach: "life_reachable remote_life_env net_world net0 s" and stopped: "lf_main s = M_Stopped"
    and pcs: "map th_pc (lf_threads s) = [S_CloseWaiter (Some 1)]" and opened: "nt_open (lf_os s) = [1]"
    by (rule early_return_reached)
  have "S_CloseWaiter (Some 1) \<in> set (map th_pc (lf_threads s))" by (simp only: pcs) simp
  then obtain t where "t \<in> set (lf_threads s)" "th_pc t = S_CloseWaiter (Some 1)" by auto
  moreover have "1 \<in> net_opened (lf_os s)" by (simp add: opened)
  ultimately show ?thesis using reach stopped by blast
qed

text \<open>
  \<open>Stop\<close> reads the handle of a session without the lock, and can shut down a handle that the
  session thread has closed in between.
\<close>

lemma stop_shuts_closed_handle:
  "\<exists>s. life_reachable remote_life_env net_world net0 s \<and> lf_main s = M_ShutSession (Some 1) [] \<and> 1 \<notin> net_opened (lf_os s)"
  using stale_shutdown_runs [of remote_env True remote_state] schedule_reachable [OF _ remote_life_reachable] by fastforce

text \<open>
  When the wake-up connection fails, \<open>Stop\<close> waits for the accept thread before it closes the
  listener, and no thread of the server can move.
\<close>

lemma stop_can_hang:
  "\<exists>s. life_reachable remote_life_env net_world net0 s \<and> stop_under_way s \<and> (\<nexists>s'. server_move remote_life_env s s')"
  using schedule_reachable [OF failed_wake_runs new_remote_reachable] held_up_stuck
  by (intro exI [of _ "held_up remote_state"]) (auto simp: held_up_def stop_under_way_def)

text \<open>
  C16: publishing over the network is publishing. When a client with a usable context publishes
  over an idle connection, it is told exactly what the runtime answers to that publication,
  the runtime of the server makes exactly that publication, and the connection is idle again,
  however few bytes a socket call transfers.
\<close>

theorem remote_publication:
  assumes "cl_socket c = Some co" and "idle co"
    and "request = \<lparr>pbq_context = cl_context c, pbq_key = key, pbq_binding = binding, pbq_policy_generation = policy,
      pbq_expected_generation = generation, pbq_lineage = lineage, pbq_reason = reason\<rparr>"
    and "publish_route_request_wf (sv_limits env) request"
    and "frame_fits (sv_limits env) (encode_PublishRouteRequest request)"
    and "frame_fits (cc_limits config) (encode_PublishRouteRequest request)"
    and "publish_one (sv_ops env) (sv_query env) (sv_violated env)
      \<lparr>pq_publisher = rx_publisher (cl_context c), pq_worker_boot = rx_worker_boot (cl_context c),
       pq_attempt = rx_attempt (cl_context c), pq_key = key, pq_binding = binding, pq_policy_generation = policy,
       pq_expected_generation = generation, pq_lineage = lineage, pq_reason = reason\<rparr>
      (sx_backend (co_server co)) (sx_runtime (co_server co)) = (published, b, rt)"
    and "publish_route_result_wf (publish_answer env published)"
    and "frame_fits (cc_limits config) (encode_PublishRouteResult (publish_answer env published))"
  shows "\<exists>co'. client_PublishRoute (client_of env mss start config) key binding policy generation lineage reason c =
      (Inr (publish_answer env published), c\<lparr>cl_socket := Some co'\<rparr>) \<and>
    idle co' \<and> sx_runtime (co_server co') = rt \<and> sx_backend (co_server co') = b"
proof -
  have run: "publish_one (sv_ops env) (sv_query env) (sv_violated env) (publish_of request)
      (sx_backend (co_server co)) (sx_runtime (co_server co)) = (published, b, rt)"
    using assms(3,7) by (simp add: publish_of_def)
  have accepted: "context_wf (cl_context c)" using assms(3,4) by (simp add: publish_route_request_wf_def)
  have "decode_PublishRouteResult (encode_PublishRouteResult (publish_answer env published)) =
      Some (publish_answer env published)"
    using assms(8) by (simp add: message_decoders message_exact)
  then have "client_PublishRoute (client_of env mss start config) key binding policy generation lineage reason c =
      (Inr (publish_answer env published),
       c\<lparr>cl_socket := Some (after_request co True (co_session co) (served_state co b rt))\<rparr>)"
    using exchange_is_handle [OF assms(1,2,5,6) handle_publish_request [OF assms(4) run] assms(9),
        where decoder = decode_PublishRouteResult and awaited = MI_PublishRouteResult] context_accepted [OF accepted]
    by (simp add: client_PublishRoute_def ok_status_def answered_decoded assms(3) [symmetric])
  then show ?thesis
    using assms(2)
    by (intro exI [of _ "after_request co True (co_session co) (served_state co b rt)"])
      (simp add: served_state_def after_request_def idle_def)
qed

theorem remote_publication_witness:
  "\<exists>result co'. client_PublishRoute (client_of remote_env 3 (new_connection remote_state) remote_config) sample_key
      sample_binding 1 0 3 [] remote_client = (Inr result, remote_client\<lparr>cl_socket := Some co'\<rparr>) \<and>
    pbr_status result = SC_Ok \<and> pbr_route result = 3 \<and> pbr_lifecycle result = LC_Installing \<and> idle co' \<and>
    rt_routes (sx_runtime (co_server co')) = [(3, sample_route)]"
proof -
  obtain x where x: "publish_one deferring_ops sample_query False sample_request () sample_registered =
      (Inr x, (), bump ct_programming_deferred_update sample_published)"
    and fields: "px_route x = 3" "px_generation x = 1" "px_authority_generation x = 1" "px_lifecycle x = LC_Installing"
    using remote_publish_one by blast
  have wf_answer: "publish_route_result_wf (publish_answer remote_env (Inr x))"
    by (simp add: publish_route_result_wf_def publish_answer_def fields diagnostic_wf_def kMaxValue_def)
  have fits_answer:
    "frame_fits (cc_limits remote_config) (encode_PublishRouteResult (publish_answer remote_env (Inr x)))"
    by (simp add: frame_fits_def remote_defs encode_PublishRouteResult_def publish_answer_def wire_lengths w_boolean_def)
  have fits: "frame_fits (sv_limits remote_env) (encode_PublishRouteRequest remote_publish)"
    "frame_fits (cc_limits remote_config) (encode_PublishRouteRequest remote_publish)"
    using remote_publish_fits by (simp_all add: remote_env_def remote_config_def)
  have request: "sample_request = \<lparr>pq_publisher = rx_publisher (cl_context remote_client),
      pq_worker_boot = rx_worker_boot (cl_context remote_client), pq_attempt = rx_attempt (cl_context remote_client),
      pq_key = sample_key, pq_binding = sample_binding, pq_policy_generation = 1, pq_expected_generation = 0,
      pq_lineage = 3, pq_reason = []\<rparr>"
    by (simp add: sample_request_def remote_client_def)
  have run: "publish_one (sv_ops remote_env) (sv_query remote_env) (sv_violated remote_env) sample_request
      (sx_backend (co_server (new_connection remote_state))) (sx_runtime (co_server (new_connection remote_state))) =
      (Inr x, (), bump ct_programming_deferred_update sample_published)"
    using x by (simp add: remote_env_def remote_state_def new_connection_def)
  from remote_publication [OF remote_client_idle remote_publish_def remote_publish_wf fits run [unfolded request]
      wf_answer fits_answer, of 3 "new_connection remote_state"]
  obtain co' where "client_PublishRoute (client_of remote_env 3 (new_connection remote_state) remote_config)
      sample_key sample_binding 1 0 3 [] remote_client =
      (Inr (publish_answer remote_env (Inr x)), remote_client\<lparr>cl_socket := Some co'\<rparr>)" "idle co'"
    "sx_runtime (co_server co') = bump ct_programming_deferred_update sample_published"
    by blast
  then show ?thesis by (auto simp: publish_answer_def fields)
qed

text \<open>
  Queries by identity are never answered. Whatever route the client asks for by its
  identity, the server refuses the request as malformed and closes the session, because the
  request carries a default key that the decoder rejects.
\<close>

lemma query_by_identity_refused:
  assumes "cl_socket c = Some co" and "idle co"
    and "payload = encode_QueryRouteRequest \<lparr>qq_by_key = False, qq_key = route_key_default, qq_route = i\<rparr>"
    and "frame_fits (sv_limits env) payload" and "frame_fits (cc_limits config) payload"
    and "frame_fits (cc_limits config) (encode_ErrorMessage
      \<lparr>em_status = SC_ProtocolViolation, em_detail = sv_text env MI_QueryRoute SC_ProtocolViolation\<rparr>)"
  shows "\<exists>co'. client_QueryRouteById (client_of env mss start config) i c =
      (Inl SC_ProtocolViolation, c\<lparr>cl_socket := Some co'\<rparr>) \<and> \<not> co_open co'"
proof -
  have "decode_QueryRouteRequest (sv_limits env) payload = None"
    using query_by_id_undecodable assms(3) by simp
  then have "handle env \<lparr>df_id = MI_QueryRoute, df_wire_version = kWireProtocolVersion (sv_wire env), df_payload = payload\<rparr>
      (co_session co) (count sc_frames_received_update (co_server co)) =
      protocol_error env MI_QueryRoute (co_session co)
        (count sc_requests_handled_update (count sc_frames_received_update (co_server co)))"
    by (simp add: handle_def handle_query_def)
  then have "client_QueryRouteById (client_of env mss start config) i c =
      (Inl SC_ProtocolViolation, c\<lparr>cl_socket := Some (refused env co)\<rparr>)"
    by (simp add: client_QueryRouteById_def send_query_def assms(3) [symmetric] queried_snapshot_def
        exchange_refused [OF assms(1,2,4,5) _ assms(6)])
  then show ?thesis by (intro exI [of _ "refused env co"]) (simp add: refused_def after_request_def)
qed

lemma query_by_identity_refused_witness:
  "fst (client_QueryRouteById (client_of remote_env 3 (new_connection remote_state) remote_config) 3 remote_client) =
   Inl SC_ProtocolViolation"
proof -
  let ?payload = "encode_QueryRouteRequest \<lparr>qq_by_key = False, qq_key = route_key_default, qq_route = 3\<rparr>"
  have limits: "sv_limits remote_env = remote_limits" "cc_limits remote_config = remote_limits"
    by (simp_all add: remote_env_def remote_config_def)
  have "frame_fits remote_limits ?payload"
    by (simp add: frame_fits_def remote_limits_def encode_QueryRouteRequest_def route_key_default_def
        destination_default_def wire_lengths w_boolean_def)
  moreover have "frame_fits remote_limits (encode_ErrorMessage
      \<lparr>em_status = SC_ProtocolViolation, em_detail = sv_text remote_env MI_QueryRoute SC_ProtocolViolation\<rparr>)"
    by (simp add: frame_fits_def remote_defs encode_ErrorMessage_def wire_lengths)
  ultimately obtain co' where "client_QueryRouteById (client_of remote_env 3 (new_connection remote_state) remote_config) 3
      remote_client = (Inl SC_ProtocolViolation, remote_client\<lparr>cl_socket := Some co'\<rparr>)"
    using query_by_identity_refused [OF remote_client_idle refl, of remote_env 3 remote_config 3 "new_connection remote_state"]
    by (auto simp: limits)
  then show ?thesis by simp
qed

section \<open>The tools\<close>

text \<open>What the invariants give for the routes of a reachable runtime.\<close>

lemma reachable_routes:
  assumes "reachable s rt" and "om_find (rt_routes rt) i = Some r"
  shows "(rr_lifecycle r \<noteq> LC_Superseded \<longrightarrow> om_find (rt_key_index rt) (rr_key r) = Some i) \<and>
    (rr_lifecycle r = LC_Installed \<longrightarrow> reports_applied (rr_applied r) \<and> ap_programmed_generation (rr_applied r) = rr_generation r)"
proof -
  have inv: "rt_inv rt" using assms(1) by (rule reachable_rt_inv)
  then show ?thesis
    using inv_key_index [OF inv, of "rr_key r"] assms(2) by (auto simp: rt_inv_def records_inv_def installed_evidence_def)
qed

text \<open>
  A started coordinator stays consistent. Whatever options and files it was started with, as
  long as the store it finds is consistent, and whatever its sessions do, short of revoking a
  superseded route: the runtime is in a reachable state, every live key has one owner, every
  installed route was confirmed, and the sessions are counted and bounded.
\<close>

lemma coordinator_consistent:
  assumes "coordinator_start env arguments fs = Serving lines senv start" and "admissible_files fs"
    and "coordinating senv start st ongoing"
  shows "reachable False (sx_runtime st) \<and> sx_active st = length ongoing \<and>
    length ongoing \<le> max_sessions default_limits \<and>
    (\<forall>i r. om_find (rt_routes (sx_runtime st)) i = Some r \<longrightarrow>
       (rr_lifecycle r \<noteq> LC_Superseded \<longrightarrow> om_find (rt_key_index (sx_runtime st)) (rr_key r) = Some i) \<and>
       (rr_lifecycle r = LC_Installed \<longrightarrow> reports_applied (rr_applied r) \<and>
          ap_programmed_generation (rr_applied r) = rr_generation r))"
proof -
  have started: "reachable False (sx_runtime start)" "serving senv start []" "sv_limits senv = default_limits"
    using coordinator_start_reachable [OF assms(1,2)] by blast+
  have reached: "reachable False (sx_runtime st)"
    by (rule reachable_steps [OF coordinating_steps [OF assms(3)] started(1)])
  have "admission_exact senv st ongoing"
    by (rule serving_admission [OF coordinating_serving [OF assms(3) started(2)]])
  then show ?thesis using reached reachable_routes [OF reached] started(3) by (simp add: admission_exact_def)
qed

lemma coordinator_consistent_witness:
  "\<exists>lines senv start st. coordinator_start coordinator_sample [] sample_files = Serving lines senv start \<and>
     coordinating senv start st [session_default] \<and> reachable False (sx_runtime st) \<and> sx_active st = 1"
proof -
  obtain lines senv start where run: "coordinator_start coordinator_sample [] sample_files = Serving lines senv start"
    using coordinator_started by blast
  have idle: "coordinating senv start start []" by (rule coordinating.ready)
  have "sx_active start = 0" "sv_limits senv = default_limits"
    using coordinator_consistent [OF run sample_files_admissible idle]
      coordinator_start_reachable [OF run sample_files_admissible] by auto
  then have "accept_session senv False start = (True, snd (accept_session senv False start))"
    by (simp add: accept_session_def default_limits_def)
  from coordinating.accept [OF idle this]
  have life: "coordinating senv start (snd (accept_session senv False start)) [session_default]" .
  show ?thesis using run life coordinator_consistent [OF run sample_files_admissible life] by auto
qed

text \<open>
  C14: the threads of a coordinator keep its runtime consistent. Whatever options and files it was started
  with, as long as the store it finds is consistent, and however the locked sections and backend calls of its session
  threads, its accept thread, a stop and other users of the runtime interleave, short of a section that revokes a
  superseded route: the runtime is in a reachable state, every live key has one owner, every installed
  route was confirmed, and the sessions are counted and bounded.
\<close>

theorem coordinator_threads_consistent:
  assumes "coordinator_start kenv arguments fs = Serving lines senv start" and "admissible_files fs"
    and "le_server env = senv" and "life_run env world (new_life os0 start) s"
  shows "reachable False (sx_runtime (lf_state s)) \<and> session_count s = length (filter live_thread (lf_threads s)) \<and>
    session_count s \<le> max_sessions default_limits \<and>
    (\<forall>i r. om_find (rt_routes (sx_runtime (lf_state s))) i = Some r \<longrightarrow>
       (rr_lifecycle r \<noteq> LC_Superseded \<longrightarrow> om_find (rt_key_index (sx_runtime (lf_state s))) (rr_key r) = Some i) \<and>
       (rr_lifecycle r = LC_Installed \<longrightarrow> reports_applied (rr_applied r) \<and>
          ap_programmed_generation (rr_applied r) = rr_generation r))"
proof -
  have started: "reachable False (sx_runtime start)" "sv_limits senv = default_limits"
    using coordinator_start_reachable [OF assms(1,2)] by blast+
  have "life_reachable env world os0 (new_life os0 start)"
    using coordinator_start_fresh [OF assms(1)] by (intro life_reachable.new) simp_all
  then have life: "life_reachable env world os0 s" by (rule life_run_reachable [OF assms(4)])
  have reached: "reachable False (sx_runtime (lf_state s))"
    using reachable_steps [OF life_run_steps [OF assms(4)]] started(1) by (simp add: new_life_def)
  show ?thesis
    using reached reachable_routes [OF reached] life_reachable_inv [OF life] life_reachable_admission [OF life] started(2)
    by (simp add: life_inv_def sessions_ok_def admission_counted_def session_count_def assms(3))
qed

theorem coordinator_threads_consistent_witness:
  "\<exists>lines senv start s. coordinator_start coordinator_sample [] sample_files = Serving lines senv start \<and>
     life_run (net_env senv True) net_world (new_life net0 start) s \<and>
     (\<exists>reply. map th_sent (lf_threads s) = [[reply]]) \<and> lf_stopping s \<and>
     reachable False (sx_runtime (lf_state s)) \<and> session_count s = 1"
proof -
  obtain lines senv start where run: "coordinator_start coordinator_sample [] sample_files = Serving lines senv start"
    and none: "rt_routes (sx_runtime start) = []"
    using coordinator_started by blast
  let ?env = "net_env senv True"
  have limits: "sv_limits senv = default_limits" using coordinator_start_reachable [OF run sample_files_admissible] by blast
  have idle: "guarded ?env one_session (new_life net0 start) = Some (serving_one True start)"
    using coordinator_start_fresh [OF run] limits by (intro serving_one_guarded) (simp_all add: default_limits_def)
  obtain s reply where s: "guarded ?env (asked_and_stopped senv) (serving_one True start) = Some s"
    "map th_sent (lf_threads s) = [[reply]]" "map th_pc (lf_threads s) = [S_Top]" "lf_stopping s"
    using asked_and_stopped_guarded [OF limits none] by (elim exE conjE) (rule that)
  have life: "life_run ?env net_world (new_life net0 start) s"
    by (rule guarded_run [OF s(1) guarded_run [OF idle life_run.begun]])
  have "live_thread t" if "t \<in> set (lf_threads s)" for t
    using s(3) that by (auto simp: map_eq_Cons_conv)
  then have "length (filter live_thread (lf_threads s)) = 1"
    using s(3) by (auto simp: filter_True dest: arg_cong [of _ _ length])
  then have "reachable False (sx_runtime (lf_state s)) \<and> session_count s = 1"
    using coordinator_threads_consistent [OF run sample_files_admissible _ life] by (simp add: net_fields)
  with run s(2,4) life show ?thesis
    by (intro exI [of _ lines] exI [of _ senv] exI [of _ start] exI [of _ s] exI [of _ reply] conjI) simp_all
qed

text \<open>
  The end of a session is not one section. Between looking the registration up and fencing the publisher,
  the publisher can register with a fresh worker boot, and the fence falls on the fresh one.
\<close>

lemma session_end_fences_fresh_boot:
  assumes "th_pc t = S_Finish" and "holds_registration (th_session t) (sx_runtime st)"
    and "RegisterPublisher (se_publisher (th_session t)) boot scope (sx_runtime st) = (Inr g, rt)"
  shows "\<exists>t1 t2 st2. thread_move env stopping fails t st os = Some (t1, st, os) \<and>
    thread_move env stopping fails t1 (st\<lparr>sx_runtime := rt\<rparr>) os = Some (t2, st2, os) \<and>
    (\<exists>e. authorize (sx_runtime st2) (se_publisher (th_session t)) boot = Inl e)"
proof -
  obtain t1 t2 st2 where moves: "thread_move env stopping fails t st os = Some (t1, st, os)"
    "thread_move env stopping fails t1 (st\<lparr>sx_runtime := rt\<rparr>) os = Some (t2, st2, os)"
    and "boot \<in> set (rt_fenced_boots (sx_runtime st2))"
    using late_fence [OF assms] by metis
  from authorize_fenced [OF this(3)] moves show ?thesis by blast
qed

text \<open>
  C15: the coordinator closes down once. When at most one of standard input and the exit file can ask
  for the shutdown, then however the two threads, the main thread, the threads of the server and its
  peers interleave: no second fulfilment of the promise ends the process, the server is
  stopped only after a request, and the coordinator exits only after \<open>Stop\<close> has returned. After a request the main thread is
  held up only inside \<open>Stop\<close>, by the accept thread that has not ended or by a session that is still
  counted; and then a thread of the server can move, unless the accept thread sits in a call of
  accept that has nothing to return.
\<close>

theorem coordinator_closes:
  assumes "(closing_step env world)\<^sup>*\<^sup>* (closing_start opts input file_exists, start) (c, s)"
    and "\<not> ko_shutdown_on_stdin opts \<or> ko_exit_file opts = []"
    and "life_reachable env world os0 start" and "lf_main start = M_Running"
  shows "\<not> cs_aborted c \<and> (lf_main s \<noteq> M_Running \<longrightarrow> cs_set c) \<and> (cs_main c = C_Exit \<longrightarrow> lf_main s = M_Stopped) \<and>
    (cs_set c \<and> cs_main c \<noteq> C_Exit \<and> closing_move env c s = None \<longrightarrow>
       cs_main c = C_Stopping \<and>
       (lf_main s = M_Join \<and> lf_accept s \<noteq> A_Done \<or> lf_main s = M_Await \<and> 0 < session_count s) \<and>
       (accept_held env s \<or> (\<exists>made s'. accept_move env made s = Some s') \<or>
          (\<exists>fails i s'. session_move env fails i s = Some s')))"
proof -
  note inv = closing_run_inv [OF assms]
  then have "single_signal c" "stop_phase c s" and life: "life_reachable env world os0 s" by (simp_all add: closing_inv_def)
  then have "\<not> cs_aborted c" "lf_main s \<noteq> M_Running \<longrightarrow> cs_set c" "cs_main c = C_Exit \<longrightarrow> lf_main s = M_Stopped"
    by (auto simp: single_signal_def stop_phase_def split: closing_pc.splits)
  with closing_held [OF inv] closing_others_move [OF life] show ?thesis by blast
qed

theorem coordinator_closes_witness:
  "\<exists>c s. (closing_step remote_life_env net_world)\<^sup>*\<^sup>* (closing_start stdin_options [''shutdown''] False, remote_life) (c, s) \<and>
     cs_main c = C_Stopping \<and> closing_move remote_life_env c s = None \<and> \<not> cs_aborted c \<and>
     ((\<exists>made s'. accept_move remote_life_env made s = Some s') \<or> (\<exists>fails i s'. session_move remote_life_env fails i s = Some s'))"
proof -
  obtain c s where run: "main_run remote_life_env (Suc (Suc (Suc (Suc (Suc (Suc (Suc 0))))))) (asked_to_close, remote_life) = Some (c, s)"
    and held: "cs_set c" "cs_main c = C_Stopping" "closing_move remote_life_env c s = None" "\<not> accept_held remote_life_env s"
    using remote_life_joins by blast
  have steps: "(closing_step remote_life_env net_world)\<^sup>*\<^sup>* (closing_start stdin_options [''shutdown''] False, remote_life) (c, s)"
    using asked_to_close_run main_run_steps [OF run] by (rule rtranclp_trans)
  have "ko_exit_file stdin_options = []" by (simp add: stdin_options_def coordinator_defaults_def)
  then have "\<not> cs_aborted c \<and> (accept_held remote_life_env s \<or> (\<exists>made s'. accept_move remote_life_env made s = Some s') \<or>
      (\<exists>fails i s'. session_move remote_life_env fails i s = Some s'))"
    using coordinator_closes [OF steps _ remote_life_reachable remote_life_fields(4)] held by simp
  with steps held show ?thesis by blast
qed

text \<open>
  The operator's command line cannot act through a coordinator. In wire mode it never names
  a worker boot, so that every command that needs a registration or a snapshot ends with an
  error, whatever the coordinator answers.
\<close>

lemma cli_wire_commands_fail:
  assumes "command \<in> {''publish'', ''withdraw'', ''revalidate'', ''retire'', ''revoke'', ''reconcile'', ''list'', ''snapshot''}"
  shows "\<exists>lines code. fst (wire_mode env opts paths command rest) = (lines, Exit code) \<and> code \<noteq> 0"
proof (rule wire_mode_fails)
  show "needs_registration command \<or> command \<in> {''list'', ''snapshot''}"
    using assms by (auto simp: needs_registration_def is_mutation_def)
qed

lemma cli_wire_commands_fail_witness:
  "\<exists>lines code. fst (wire_mode tool_sample (cli_defaults\<lparr>co_port := 7400\<rparr>) [] ''publish'' [''ipv4:10.0.0.0/24'']) =
     (lines, Exit code) \<and> code \<noteq> 0"
  by (rule cli_wire_commands_fail) simp

text \<open>
  C27: an edit of the path file is what the next coordinator acts on. When \<open>path add\<close> or
  \<open>path invalidate\<close> succeeds on a file that names no path twice, the coordinator that reads the
  file answers for that path exactly what was printed, and for every other path what it
  answered before; an invalidation takes the next generation.
\<close>

theorem path_edits_take_effect:
  assumes "path_command opts command (path_text # rest) fs = ((lines, Exit 0), fs')"
    and "command \<in> {''add'', ''invalidate''}"
    and "load_paths (co_paths_file opts) (fs_texts fs) = Some entries" and "distinct (map pl_path entries)"
    and "ko_path_file kopts = co_paths_file opts"
  shows "\<exists>entry a. lines = [path_entry_line entry] \<and> fixed_parse path_text = Inr (pl_path entry) \<and>
    (command = ''invalidate'' \<longrightarrow> (\<exists>old. find_path entries (pl_path entry) = Some old \<and>
       unat (pl_generation entry) = unat (pl_generation old) + 1)) \<and>
    coordinator_paths kopts (fs_texts fs') = Inr a \<and>
    Query a = (file_authority entries)(pl_path entry :=
      \<lparr>pr_path = pl_path entry, pr_generation = pl_generation entry, pr_state = pl_state entry\<rparr>)"
  using path_edit_authority [OF assms(1) _ assms(3-5)] assms(2) by blast

theorem path_edits_take_effect_witness:
  "\<exists>fs' a. path_command sample_cli_options ''invalidate'' [fixed_render 5, ''REVOKED''] sample_files =
       (([path_entry_line invalidated_path_line], Exit 0), fs') \<and>
     coordinator_paths (coordinator_defaults\<lparr>ko_path_file := ''paths''\<rparr>) (fs_texts fs') = Inr a \<and> Query a 6 = file_authority [] 6"
proof -
  obtain fs' where run: "path_command sample_cli_options ''invalidate'' [fixed_render 5, ''REVOKED''] sample_files =
      (([path_entry_line invalidated_path_line], Exit 0), fs')" using invalidate_sample by blast
  have "fixed_parse (fixed_render 5) = Inr 5" by (rule fixed_text.parse_render) simp
  with path_edits_take_effect [OF run _ load_sample, of "coordinator_defaults\<lparr>ko_path_file := ''paths''\<rparr>"]
  obtain a where "coordinator_paths (coordinator_defaults\<lparr>ko_path_file := ''paths''\<rparr>) (fs_texts fs') = Inr a"
    "Query a 6 = file_authority [sample_path_line] 6" by (auto simp: sample_cli_options_def)
  then show ?thesis using run by (auto simp: file_authority_def sample_path_line_def)
qed

text \<open>
  C28: the requests made of arguments are well formed. Whatever the operator writes, a publication
  that is sent has a valid key of the named fabric and namespace, the destination that was
  parsed, a valid binding, and an expected generation that is absent or valid.
\<close>

theorem cli_requests_well_formed:
  assumes "publish_arguments opts paths rest = Inr (destination_text, key, binding, generation)"
    and "load_paths (co_paths_file opts) contents = Some paths"
  shows "route_key_is_valid key \<and> rk_fabric key = co_fabric opts \<and> rk_routing_namespace key = co_namespace opts \<and>
    parse_destination destination_text 128 = Inr (rk_destination key) \<and> route_binding_is_valid binding \<and>
    (generation = 0 \<or> counter_wire_valid generation)"
  using assms by (rule publish_arguments_valid)

theorem cli_requests_well_formed_witness:
  "\<exists>key binding. publish_arguments cli_defaults [] [''10.1.2.3/8''] = Inr (''10.1.2.3/8'', key, binding, 0) \<and>
     rk_destination key = sample_prefix \<and> route_binding_is_valid binding"
proof -
  obtain key binding where run: "publish_arguments cli_defaults [] [''10.1.2.3/8''] = Inr (''10.1.2.3/8'', key, binding, 0)"
    using cli_publish_sample by blast
  from cli_requests_well_formed [OF run, of Map.empty] run show ?thesis
    by (auto simp: load_paths_def cli_defaults_def parse_sample)
qed

text \<open>
  C24: \<open>store diff\<close> compares exactly. It fails when a store cannot be loaded; otherwise it reports
  no difference precisely when both stores hold the same identities with the same semantic
  digests.
\<close>

lemma store_diff_exact:
  "case Load (snapshot_store path_a fs) of
     (Inl e, store) \<Rightarrow> fst (store_diff path_a path_b [] fs) = ([print_error e], Exit 1)
   | (Inr x, store) \<Rightarrow>
       (case Load (snapshot_store path_b (put_store path_a store fs)) of
          (Inl e, store) \<Rightarrow> fst (store_diff path_a path_b [] fs) = ([print_error e], Exit 1)
        | (Inr y, store) \<Rightarrow>
            snd (fst (store_diff path_a path_b [] fs)) = Exit 0 \<and>
            (length (fst (fst (store_diff path_a path_b [] fs))) = 2 \<longleftrightarrow>
               (\<forall>i. map_option semantic_digest (stored x i) = map_option semantic_digest (stored y i))))"
  by (simp add: store_diff_def Let_def differences_counted [unfolded concat_eq_Nil_conv] flip: state_differences_none split: prod.splits sum.splits)

text \<open>
  The read-only backend installs nothing. A publication through the adapter of the host's
  routing table leaves the adapter as it was, and no route is installed afterwards that was not
  installed, with the same record, before.
\<close>

lemma host_backend_installs_nothing:
  "case publish_one (host_ops windows tbl) query violated request b rt of
     (x, b', rt') \<Rightarrow> b' = b \<and> installs_nothing rt rt'"
  using host_publish_installs_nothing [of windows tbl query violated request b rt] host_publish_backend
  by (auto split: prod.splits)

end
